(* ===== verification/GoPrelude.thy ===== *)
theory GoPrelude
  imports Main
begin

text \<open>
  What every component of the backend takes from the Go language and its standard library:
  the integer types with their wrap-around, byte strings with the functions of package strings
  and strconv the code calls, error values with errors.Is, and the error-threading idiom
  (if err != nil return err) on an explicit state. A string is the list of its bytes; the
  functions of package strings are written for their effect on ASCII bytes, the bytes of a
  multi-byte UTF-8 sequence being passed through unchanged.
\<close>

named_theorems int64_simps \<open>wrap-around integers inside their range\<close>
named_theorems run_simps \<open>evaluation of the error-threading combinators\<close>

section \<open>Integers\<close>

text \<open>
  A Go int or int64 is an \<open>int\<close> in the range of a two's complement word; every addition,
  subtraction and conversion of the code that may leave the range goes through \<open>wrap64\<close>
  (or \<open>wrap32\<close>, \<open>u64\<close>, \<open>u16\<close> for the other widths).
\<close>

definition wrap64 :: "int \<Rightarrow> int" where
  "wrap64 x = (x + 9223372036854775808) mod 18446744073709551616 - 9223372036854775808"

definition wrap32 :: "int \<Rightarrow> int" where
  "wrap32 x = (x + 2147483648) mod 4294967296 - 2147483648"

definition u64 :: "int \<Rightarrow> int" where
  "u64 x = x mod 18446744073709551616"

definition u16 :: "int \<Rightarrow> int" where
  "u16 x = x mod 65536"

definition in_i64 :: "int \<Rightarrow> bool" where
  "in_i64 x \<longleftrightarrow> - 9223372036854775808 \<le> x \<and> x < 9223372036854775808"

definition in_u64 :: "int \<Rightarrow> bool" where
  "in_u64 x \<longleftrightarrow> 0 \<le> x \<and> x < 18446744073709551616"

definition add64 :: "int \<Rightarrow> int \<Rightarrow> int" where
  "add64 a b = wrap64 (a + b)"

definition sub64 :: "int \<Rightarrow> int \<Rightarrow> int" where
  "sub64 a b = wrap64 (a - b)"

text \<open>Go's quotient truncates towards zero and the remainder takes the dividend's sign.\<close>

definition go_quot :: "int \<Rightarrow> int \<Rightarrow> int" where
  "go_quot a b = sgn a * sgn b * (\<bar>a\<bar> div \<bar>b\<bar>)"

definition go_rem :: "int \<Rightarrow> int \<Rightarrow> int" where
  "go_rem a b = a - go_quot a b * b"

lemma wrap64_in_range [int64_simps]: "in_i64 x \<Longrightarrow> wrap64 x = x"
  by (simp add: wrap64_def in_i64_def)

lemma in_i64_wrap64 [simp, intro]: "in_i64 (wrap64 x)"
proof -
  let ?m = "(x + 9223372036854775808) mod 18446744073709551616"
  have "0 \<le> ?m" and "?m < 18446744073709551616" by simp_all
  then show ?thesis by (simp add: wrap64_def in_i64_def)
qed

lemma wrap64_idem [simp]: "wrap64 (wrap64 x) = wrap64 x"
  by (simp add: wrap64_in_range)

lemma wrap64_cong: "x mod 18446744073709551616 = y mod 18446744073709551616 \<Longrightarrow> wrap64 x = wrap64 y"
  unfolding wrap64_def by (drule mod_add_cong [OF _ refl, of x _ y 9223372036854775808]) simp

lemma wrap64_mod: "wrap64 x mod 18446744073709551616 = x mod 18446744073709551616"
proof -
  have "wrap64 x mod 18446744073709551616
      = ((x + 9223372036854775808) - 9223372036854775808) mod 18446744073709551616"
    unfolding wrap64_def by (rule mod_diff_left_eq)
  then show ?thesis by simp
qed

lemma wrap64_add_left [simp]: "wrap64 (wrap64 x + y) = wrap64 (x + y)"
  by (rule wrap64_cong) (metis mod_add_left_eq wrap64_mod)

lemma wrap64_add_right [simp]: "wrap64 (x + wrap64 y) = wrap64 (x + y)"
  by (metis add.commute wrap64_add_left)

lemma wrap64_0 [simp]: "wrap64 0 = 0"
  by (simp add: wrap64_def)

lemma wrap64_1 [simp]: "wrap64 1 = 1"
  by (simp add: wrap64_def)

lemma add64_in_range [int64_simps]: "in_i64 (a + b) \<Longrightarrow> add64 a b = a + b"
  by (simp add: add64_def wrap64_in_range)

lemma sub64_in_range [int64_simps]: "in_i64 (a - b) \<Longrightarrow> sub64 a b = a - b"
  by (simp add: sub64_def wrap64_in_range)

lemma add64_assoc: "add64 (add64 a b) c = add64 a (add64 b c)"
  by (simp add: add64_def add.assoc)

lemma add64_commute: "add64 a b = add64 b a"
  by (simp add: add64_def add.commute)

lemma go_quot_nonneg: "0 \<le> a \<Longrightarrow> 0 < b \<Longrightarrow> go_quot a b = a div b"
  by (cases "a = 0") (simp_all add: go_quot_def)

lemma go_rem_nonneg: "0 \<le> a \<Longrightarrow> 0 < b \<Longrightarrow> go_rem a b = a mod b"
  by (simp add: go_rem_def go_quot_nonneg minus_div_mult_eq_mod)

lemma go_rem_neg: "a < 0 \<Longrightarrow> 0 < b \<Longrightarrow> go_rem a b = - ((- a) mod b)"
  by (simp add: go_rem_def go_quot_def minus_div_mult_eq_mod [symmetric])

lemma go_rem_bounds: "0 < b \<Longrightarrow> \<bar>go_rem a b\<bar> < b"
  by (cases "0 \<le> a") (simp_all add: go_rem_nonneg go_rem_neg)

section \<open>Strings\<close>

definition is_space :: "char \<Rightarrow> bool" where
  "is_space c \<longleftrightarrow> c = CHR '' '' \<or> c = CHR 0x09 \<or> c = CHR 0x0A \<or> c = CHR 0x0B \<or> c = CHR 0x0C \<or> c = CHR 0x0D"

definition TrimLeftSpace :: "string \<Rightarrow> string" where
  "TrimLeftSpace s = dropWhile is_space s"

definition TrimSpace :: "string \<Rightarrow> string" where
  "TrimSpace s = rev (dropWhile is_space (rev (TrimLeftSpace s)))"

definition lower_char :: "char \<Rightarrow> char" where
  "lower_char c = (let n = of_char c :: nat in if 65 \<le> n \<and> n \<le> 90 then char_of (n + 32) else c)"

definition ToLower :: "string \<Rightarrow> string" where
  "ToLower s = map lower_char s"

definition HasPrefix :: "string \<Rightarrow> string \<Rightarrow> bool" where
  "HasPrefix s p \<longleftrightarrow> take (length p) s = p"

definition TrimPrefix :: "string \<Rightarrow> string \<Rightarrow> string" where
  "TrimPrefix s p = (if HasPrefix s p then drop (length p) s else s)"

text \<open>TrimRight with a one-byte cutset, as the code calls it.\<close>

definition TrimRight1 :: "char \<Rightarrow> string \<Rightarrow> string" where
  "TrimRight1 c s = rev (dropWhile (\<lambda>x. x = c) (rev s))"

lemma HasPrefix_append [simp]: "HasPrefix (p @ s) p"
  by (simp add: HasPrefix_def)

lemma TrimPrefix_append [simp]: "TrimPrefix (p @ s) p = s"
  by (simp add: TrimPrefix_def)

lemma HasPrefixE: "HasPrefix s p \<Longrightarrow> (\<And>t. s = p @ t \<Longrightarrow> P) \<Longrightarrow> P"
  unfolding HasPrefix_def by (metis append_take_drop_id)

section \<open>Decimal numbers (strconv, math/big)\<close>

definition is_digit :: "char \<Rightarrow> bool" where
  "is_digit c \<longleftrightarrow> 48 \<le> (of_char c :: nat) \<and> (of_char c :: nat) \<le> 57"

definition digit_val :: "char \<Rightarrow> nat" where
  "digit_val c = of_char c - 48"

definition digit_char :: "nat \<Rightarrow> char" where
  "digit_char d = char_of (48 + d)"

definition digits_val :: "string \<Rightarrow> nat" where
  "digits_val s = foldl (\<lambda>a c. 10 * a + digit_val c) 0 s"

text \<open>strconv.FormatUint and (*big.Int).String of a natural number.\<close>

fun nat_to_string :: "nat \<Rightarrow> string" where
  "nat_to_string n = (if n < 10 then [digit_char n] else nat_to_string (n div 10) @ [digit_char (n mod 10)])"

declare nat_to_string.simps [simp del]

definition int_to_string :: "int \<Rightarrow> string" where
  "int_to_string i = (if i < 0 then CHR ''-'' # nat_to_string (nat (- i)) else nat_to_string (nat i))"

definition parse_nat :: "string \<Rightarrow> nat option" where
  "parse_nat s = (if s \<noteq> [] \<and> list_all is_digit s then Some (digits_val s) else None)"

text \<open>An optional sign and at least one digit, nothing else: (*big.Int).SetString(s, 10).\<close>

definition parse_int :: "string \<Rightarrow> int option" where
  "parse_int s = (case s of
      [] \<Rightarrow> None
    | c # t \<Rightarrow>
        (if c = CHR ''-'' then map_option (\<lambda>n. - int n) (parse_nat t)
         else if c = CHR ''+'' then map_option int (parse_nat t)
         else map_option int (parse_nat s)))"

definition ParseUint64 :: "string \<Rightarrow> int option" where
  "ParseUint64 s = (case parse_nat s of
      None \<Rightarrow> None
    | Some n \<Rightarrow> (if in_u64 (int n) then Some (int n) else None))"

definition ParseInt64 :: "string \<Rightarrow> int option" where
  "ParseInt64 s = (case parse_int s of
      None \<Rightarrow> None
    | Some i \<Rightarrow> (if in_i64 i then Some i else None))"

text \<open>strconv.Atoi with a 64-bit int.\<close>

definition Atoi :: "string \<Rightarrow> int option" where
  "Atoi s = ParseInt64 s"

lemma digit_char_facts:
  assumes "d < 10"
  shows "is_digit (digit_char d)" and "digit_val (digit_char d) = d"
    and "digit_char d \<noteq> CHR ''-''" and "digit_char d \<noteq> CHR ''+''"
proof -
  have "(of_char (char_of (48 + d) :: char) :: nat) = 48 + d"
    using assms by (simp add: of_char_of take_bit_eq_mod)
  then have *: "(of_char (digit_char d) :: nat) = 48 + d"
    by (simp add: digit_char_def)
  then show "is_digit (digit_char d)" and "digit_val (digit_char d) = d"
    using assms by (simp_all add: is_digit_def digit_val_def)
  show "digit_char d \<noteq> CHR ''-''" "digit_char d \<noteq> CHR ''+''"
    using * by auto
qed

lemma digits_val_snoc [simp]: "digits_val (s @ [c]) = 10 * digits_val s + digit_val c"
  by (simp add: digits_val_def)

lemma digits_val_Nil [simp]: "digits_val [] = 0"
  by (simp add: digits_val_def)

lemma digits_val_append: "digits_val (s @ t) = digits_val s * 10 ^ length t + digits_val t"
proof (induction t rule: rev_induct)
  case Nil
  then show ?case by simp
next
  case (snoc c t)
  have "digits_val (s @ t @ [c]) = 10 * digits_val (s @ t) + digit_val c"
    by (metis append_assoc digits_val_snoc)
  with snoc show ?case by (simp add: algebra_simps)
qed

lemma nat_to_string_digits: "list_all is_digit (nat_to_string n)"
proof (induction n rule: nat_to_string.induct)
  case (1 n)
  then show ?case
    by (subst nat_to_string.simps) (auto simp: digit_char_facts)
qed

lemma nat_to_string_ne [simp]: "nat_to_string n \<noteq> []"
  by (subst nat_to_string.simps) simp

lemma digits_val_nat_to_string [simp]: "digits_val (nat_to_string n) = n"
proof (induction n rule: nat_to_string.induct)
  case (1 n)
  show ?case
  proof (cases "n < 10")
    case True
    then show ?thesis by (subst nat_to_string.simps) (simp add: digits_val_def digit_char_facts)
  next
    case False
    with 1 show ?thesis by (subst nat_to_string.simps) (simp add: digit_char_facts)
  qed
qed

lemma parse_nat_to_string [simp]: "parse_nat (nat_to_string n) = Some n"
  by (simp add: parse_nat_def nat_to_string_digits)

lemma is_digit_not_sign: "is_digit c \<Longrightarrow> c \<noteq> CHR ''-'' \<and> c \<noteq> CHR ''+''"
  by (auto simp: is_digit_def)

lemma parse_int_to_string [simp]: "parse_int (int_to_string i) = Some i"
proof (cases "i < 0")
  case True
  then show ?thesis by (simp add: int_to_string_def parse_int_def)
next
  case False
  obtain c t where ct: "nat_to_string (nat i) = c # t"
    by (metis nat_to_string_ne neq_Nil_conv)
  then have "is_digit c"
    using nat_to_string_digits [of "nat i"] by simp
  then have c: "c \<noteq> CHR ''-''" "c \<noteq> CHR ''+''"
    using is_digit_not_sign by auto
  have "parse_nat (c # t) = Some (nat i)"
    using parse_nat_to_string [of "nat i"] ct by simp
  with False ct c show ?thesis
    by (simp add: int_to_string_def parse_int_def)
qed

lemma ParseInt64_to_string [simp]: "in_i64 i \<Longrightarrow> ParseInt64 (int_to_string i) = Some i"
  by (simp add: ParseInt64_def)

lemma ParseUint64_to_string [simp]: "in_u64 i \<Longrightarrow> ParseUint64 (nat_to_string (nat i)) = Some i"
  by (simp add: ParseUint64_def in_u64_def)

lemma ParseInt64_range: "ParseInt64 s = Some i \<Longrightarrow> in_i64 i"
  by (auto simp: ParseInt64_def split: option.splits if_splits)

lemma ParseUint64_range: "ParseUint64 s = Some i \<Longrightarrow> in_u64 i"
  by (auto simp: ParseUint64_def split: option.splits if_splits)

section \<open>Errors\<close>

text \<open>
  The sentinel errors of the program, errors made by fmt.Errorf without %w (\<open>ErrMsg\<close>),
  errors made with %w (\<open>ErrWrap\<close>) and errors reported by the database driver.
\<close>

datatype gerror =
    ErrTokenNotFound
  | ErrInvalidCandleResolution
  | ErrInvalidTokenListWindow
  | ErrReplayBackpressure
  | ErrNoRows
  | ErrDB string
  | ErrMsg string
  | ErrWrap string gerror

type_synonym 'a res = "gerror + 'a"

text \<open>errors.Is: the chain of wrapped errors is searched for the target.\<close>

fun errors_Is :: "gerror \<Rightarrow> gerror \<Rightarrow> bool" where
  "errors_Is (ErrWrap m e) t = (ErrWrap m e = t \<or> errors_Is e t)"
| "errors_Is e t = (e = t)"

section \<open>Threading a state and an error\<close>

text \<open>
  An operation that may fail half-way: it returns the error, if any, and the state it leaves.
  \<open>and_then\<close> is the idiom (if err := f(); err != nil return err), \<open>wrap_err\<close> the
  wrapping of a failure by fmt.Errorf with %w.
\<close>

type_synonym 's action = "'s \<Rightarrow> gerror option \<times> 's"

definition done_ok :: "'s action" where
  "done_ok s = (None, s)"

definition fail_with :: "gerror \<Rightarrow> 's action" where
  "fail_with e s = (Some e, s)"

definition and_then :: "'s action \<Rightarrow> 's action \<Rightarrow> 's action" where
  "and_then f g s = (case f s of (Some e, s') \<Rightarrow> (Some e, s') | (None, s') \<Rightarrow> g s')"

definition wrap_err :: "string \<Rightarrow> 's action \<Rightarrow> 's action" where
  "wrap_err m f s = (case f s of (e, s') \<Rightarrow> (map_option (ErrWrap m) e, s'))"

fun for_each :: "('a \<Rightarrow> 's action) \<Rightarrow> 'a list \<Rightarrow> 's action" where
  "for_each f [] = done_ok"
| "for_each f (x # xs) = and_then (f x) (for_each f xs)"

lemma done_ok_eq [run_simps]: "done_ok s = (None, s)"
  by (simp add: done_ok_def)

lemma fail_with_eq [run_simps]: "fail_with e s = (Some e, s)"
  by (simp add: fail_with_def)

lemma and_then_eq_ok [run_simps]: "f s = (None, s') \<Longrightarrow> and_then f g s = g s'"
  by (simp add: and_then_def)

lemma and_then_eq_err [run_simps]: "f s = (Some e, s') \<Longrightarrow> and_then f g s = (Some e, s')"
  by (simp add: and_then_def)

lemma and_then_ok_iff:
  "and_then f g s = (None, t) \<longleftrightarrow> (\<exists>s'. f s = (None, s') \<and> g s' = (None, t))"
  by (auto simp: and_then_def split: prod.splits option.splits)

lemma and_then_done [simp]: "and_then f done_ok = f"
  by (rule ext) (auto simp: and_then_def done_ok_def split: prod.splits option.splits)

lemma done_and_then [simp]: "and_then done_ok f = f"
  by (rule ext) (simp add: and_then_def done_ok_def)

lemma fail_and_then [simp]: "and_then (fail_with e) f = fail_with e"
  by (rule ext) (simp add: and_then_def fail_with_def)

lemma and_then_assoc: "and_then (and_then f g) h = and_then f (and_then g h)"
  by (rule ext) (auto simp: and_then_def split: prod.splits option.splits)

lemma for_each_append: "for_each f (xs @ ys) = and_then (for_each f xs) (for_each f ys)"
  by (induction xs) (simp_all add: and_then_assoc)

lemma wrap_err_ok_iff [simp]: "wrap_err m f s = (None, t) \<longleftrightarrow> f s = (None, t)"
  by (auto simp: wrap_err_def split: prod.splits)

lemma snd_wrap_err [simp]: "snd (wrap_err m f s) = snd (f s)"
  by (simp add: wrap_err_def split: prod.splits)

section \<open>Optional values (pointers to values)\<close>

definition deref_or :: "'a \<Rightarrow> 'a option \<Rightarrow> 'a" where
  "deref_or d p = (case p of None \<Rightarrow> d | Some v \<Rightarrow> v)"

lemma deref_or_simps [simp]: "deref_or d None = d" "deref_or d (Some v) = v"
  by (simp_all add: deref_or_def)

text \<open>SQL coalesce of two nullable values.\<close>

definition coalesce :: "'a option \<Rightarrow> 'a option \<Rightarrow> 'a option" where
  "coalesce a b = (case a of None \<Rightarrow> b | Some v \<Rightarrow> Some v)"

lemma coalesce_simps [simp]: "coalesce None b = b" "coalesce (Some v) b = Some v"
  "coalesce a None = a" "coalesce a a = a"
  by (simp_all add: coalesce_def split: option.splits)

lemma coalesce_assoc: "coalesce (coalesce a b) c = coalesce a (coalesce b c)"
  by (simp add: coalesce_def split: option.splits)

end
