(* ===== verification/Float64.thy ===== *)
theory Float64
  imports GoPrelude
begin

text \<open>
  Go's float64: IEEE 754 binary64 with round to nearest, ties to even. A value is a NaN, an
  infinity with its sign, or a finite number \<open>Fin s m e\<close> that stands for
  (-1)^s * m * 2^e with a 53-bit significand; zero keeps its sign. Every operation is the exact
  rational result rounded once by \<open>f64_round\<close>, as the standard prescribes, and is
  executable.
\<close>

datatype f64 = NaN | Inf bool | Fin bool int int

definition f64_zero :: f64 where
  "f64_zero = Fin False 0 0"

section \<open>Rounding an exact ratio\<close>

function bitlen :: "int \<Rightarrow> nat" where
  "bitlen n = (if n \<le> 0 then 0 else Suc (bitlen (n div 2)))"
  by pat_completeness auto
termination
  by (relation "measure nat") auto

declare bitlen.simps [simp del]

definition round_half_even :: "int \<Rightarrow> int \<Rightarrow> int" where
  "round_half_even n d =
     (let q = n div d; r = n mod d
      in if 2 * r < d then q else if d < 2 * r then q + 1 else if even q then q else q + 1)"

text \<open>The fraction n/d divided by 2^e, as a numerator and a denominator.\<close>

definition scale_ratio :: "int \<Rightarrow> int \<Rightarrow> int \<Rightarrow> int \<times> int" where
  "scale_ratio n d e = (if 0 \<le> e then (n, d * 2 ^ nat e) else (n * 2 ^ nat (- e), d))"

text \<open>The largest b with 2^b at most n/d, for positive n and d.\<close>

definition ratio_log2 :: "int \<Rightarrow> int \<Rightarrow> int" where
  "ratio_log2 n d =
     (let b = int (bitlen n) - int (bitlen d); (p, q) = scale_ratio n d b
      in if q \<le> p then b else b - 1)"

definition f64_pack :: "bool \<Rightarrow> int \<Rightarrow> int \<Rightarrow> f64" where
  "f64_pack s m e =
     (if m < 2 ^ 53 then (if 971 < e then Inf s else Fin s m e)
      else (if 971 < e + 1 then Inf s else Fin s (m div 2) (e + 1)))"

text \<open>Zero is kept with exponent 0; a subnormal result has exponent -1074.\<close>

definition f64_round :: "bool \<Rightarrow> int \<Rightarrow> int \<Rightarrow> f64" where
  "f64_round s n d =
     (if n = 0 then Fin s 0 0
      else let e = max (ratio_log2 n d - 52) (- 1074); (p, q) = scale_ratio n d e;
               m = round_half_even p q
           in if m = 0 then Fin s 0 0 else f64_pack s m e)"

text \<open>Rounding of n/d * 2^e.\<close>

definition f64_round_exp :: "bool \<Rightarrow> int \<Rightarrow> int \<Rightarrow> int \<Rightarrow> f64" where
  "f64_round_exp s n d e = (case scale_ratio n d (- e) of (p, q) \<Rightarrow> f64_round s p q)"

section \<open>Operations\<close>

definition f64_of_int :: "int \<Rightarrow> f64" where
  "f64_of_int i = f64_round (i < 0) \<bar>i\<bar> 1"

text \<open>The value of a finite number as a multiple of 2^e, for e at most its exponent.\<close>

definition fin_at :: "int \<Rightarrow> bool \<Rightarrow> int \<Rightarrow> int \<Rightarrow> int" where
  "fin_at e s m e' = (if s then - (m * 2 ^ nat (e' - e)) else m * 2 ^ nat (e' - e))"

fun f64_neg :: "f64 \<Rightarrow> f64" where
  "f64_neg NaN = NaN"
| "f64_neg (Inf s) = Inf (\<not> s)"
| "f64_neg (Fin s m e) = Fin (\<not> s) m e"

fun f64_add :: "f64 \<Rightarrow> f64 \<Rightarrow> f64" where
  "f64_add NaN b = NaN"
| "f64_add a NaN = NaN"
| "f64_add (Inf s) (Inf t) = (if s = t then Inf s else NaN)"
| "f64_add (Inf s) (Fin t m e) = Inf s"
| "f64_add (Fin s m e) (Inf t) = Inf t"
| "f64_add (Fin s m e) (Fin t n k) =
     (let l = min e k; v = fin_at l s m e + fin_at l t n k
      in if v = 0 then Fin (s \<and> t) 0 0 else f64_round_exp (v < 0) \<bar>v\<bar> 1 l)"

definition f64_sub :: "f64 \<Rightarrow> f64 \<Rightarrow> f64" where
  "f64_sub a b = f64_add a (f64_neg b)"

fun f64_mul :: "f64 \<Rightarrow> f64 \<Rightarrow> f64" where
  "f64_mul NaN b = NaN"
| "f64_mul a NaN = NaN"
| "f64_mul (Inf s) (Inf t) = Inf (s \<noteq> t)"
| "f64_mul (Inf s) (Fin t m e) = (if m = 0 then NaN else Inf (s \<noteq> t))"
| "f64_mul (Fin s m e) (Inf t) = (if m = 0 then NaN else Inf (s \<noteq> t))"
| "f64_mul (Fin s m e) (Fin t n k) = f64_round_exp (s \<noteq> t) (m * n) 1 (e + k)"

fun f64_div :: "f64 \<Rightarrow> f64 \<Rightarrow> f64" where
  "f64_div NaN b = NaN"
| "f64_div a NaN = NaN"
| "f64_div (Inf s) (Inf t) = NaN"
| "f64_div (Inf s) (Fin t m e) = Inf (s \<noteq> t)"
| "f64_div (Fin s m e) (Inf t) = Fin (s \<noteq> t) 0 0"
| "f64_div (Fin s m e) (Fin t n k) =
     (if n = 0 then (if m = 0 then NaN else Inf (s \<noteq> t))
      else f64_round_exp (s \<noteq> t) m n (e - k))"

text \<open>The comparisons of the language: false whenever an operand is a NaN, the two zeros equal.\<close>

fun f64_lt :: "f64 \<Rightarrow> f64 \<Rightarrow> bool" where
  "f64_lt NaN b = False"
| "f64_lt a NaN = False"
| "f64_lt (Inf s) (Inf t) = (s \<and> \<not> t)"
| "f64_lt (Inf s) (Fin t m e) = s"
| "f64_lt (Fin s m e) (Inf t) = (\<not> t)"
| "f64_lt (Fin s m e) (Fin t n k) = (let l = min e k in fin_at l s m e < fin_at l t n k)"

fun f64_eq :: "f64 \<Rightarrow> f64 \<Rightarrow> bool" where
  "f64_eq NaN b = False"
| "f64_eq a NaN = False"
| "f64_eq (Inf s) (Inf t) = (s = t)"
| "f64_eq (Inf s) (Fin t m e) = False"
| "f64_eq (Fin s m e) (Inf t) = False"
| "f64_eq (Fin s m e) (Fin t n k) = (let l = min e k in fin_at l s m e = fin_at l t n k)"

definition f64_le :: "f64 \<Rightarrow> f64 \<Rightarrow> bool" where
  "f64_le a b \<longleftrightarrow> f64_lt a b \<or> f64_eq a b"

definition f64_is_nan :: "f64 \<Rightarrow> bool" where
  "f64_is_nan x \<longleftrightarrow> x = NaN"

definition f64_is_inf :: "f64 \<Rightarrow> bool" where
  "f64_is_inf x \<longleftrightarrow> (case x of Inf _ \<Rightarrow> True | _ \<Rightarrow> False)"

text \<open>The conversion of an unsigned ratio (math/big, decimal literals) to the nearest float64.\<close>

definition f64_of_ratio :: "int \<Rightarrow> int \<Rightarrow> f64" where
  "f64_of_ratio n d = f64_round (n < 0) \<bar>n\<bar> d"

section \<open>Literals: strconv.ParseFloat\<close>

text \<open>
  The decimal syntax (sign, digits with an optional point, optional exponent) and the spelled
  values; the result is the nearest float64 with True, an infinity with False when the literal
  is out of range, and zero with False when it is no number. Hexadecimal mantissas and digit
  separators are not read: on such a literal the model reports an error.
\<close>

definition split_sign :: "string \<Rightarrow> bool \<times> string" where
  "split_sign s = (case s of [] \<Rightarrow> (False, [])
     | c # t \<Rightarrow> if c = CHR ''-'' then (True, t) else if c = CHR ''+'' then (False, t) else (False, s))"

definition parse_exponent :: "string \<Rightarrow> int option" where
  "parse_exponent s = (case s of [] \<Rightarrow> Some 0
     | c # t \<Rightarrow> if lower_char c = CHR ''e'' then parse_int t else None)"

definition parse_decimal :: "string \<Rightarrow> (int \<times> int) option" where
  "parse_decimal s =
     (let ip = takeWhile is_digit s; r = dropWhile is_digit s;
          (fp, r') = (case r of [] \<Rightarrow> ([], [])
            | c # t \<Rightarrow> if c = CHR ''.'' then (takeWhile is_digit t, dropWhile is_digit t) else ([], r))
      in if ip = [] \<and> fp = [] then None
         else case parse_exponent r' of None \<Rightarrow> None
           | Some x \<Rightarrow> Some (int (digits_val (ip @ fp)), x - int (length fp)))"

definition ParseFloat64 :: "string \<Rightarrow> f64 \<times> bool" where
  "ParseFloat64 s =
     (let (neg, r) = split_sign s; w = ToLower r
      in if w = ''inf'' \<or> w = ''infinity'' then (Inf neg, True)
         else if ToLower s = ''nan'' then (NaN, True)
         else case parse_decimal r of None \<Rightarrow> (f64_zero, False)
           | Some (m, x) \<Rightarrow>
               (let v = (if 0 \<le> x then f64_round neg (m * 10 ^ nat x) 1
                         else f64_round neg m (10 ^ nat (- x)))
                in (v, \<not> f64_is_inf v)))"

section \<open>Facts\<close>

lemma fin_at_self [simp]: "fin_at e s m e = (if s then - m else m)"
  by (simp add: fin_at_def)

lemma f64_lt_irrefl [simp]: "\<not> f64_lt x x"
  by (cases x) simp_all

lemma f64_eq_refl: "x \<noteq> NaN \<Longrightarrow> f64_eq x x"
  by (cases x) simp_all

lemma f64_nan_cmp [simp]:
  "\<not> f64_lt NaN x" "\<not> f64_lt x NaN" "\<not> f64_eq NaN x" "\<not> f64_eq x NaN"
  "\<not> f64_le NaN x" "\<not> f64_le x NaN"
  by (cases x; simp add: f64_le_def)+

lemma f64_trichotomy:
  "x \<noteq> NaN \<Longrightarrow> y \<noteq> NaN \<Longrightarrow> f64_lt x y \<or> f64_eq x y \<or> f64_lt y x"
  by (cases x; cases y) (auto simp: Let_def min.commute)

lemma f64_not_le: "x \<noteq> NaN \<Longrightarrow> y \<noteq> NaN \<Longrightarrow> \<not> f64_le x y \<longleftrightarrow> f64_lt y x"
  by (cases x; cases y) (auto simp: f64_le_def Let_def min.commute)

lemma f64_add_commute: "f64_add a b = f64_add b a"
  by (cases a; cases b) (auto simp: Let_def min.commute add.commute conj_commute)

text \<open>Numbers that are not negative: the volumes and prices of the program.\<close>

definition f64_nonneg :: "f64 \<Rightarrow> bool" where
  "f64_nonneg x \<longleftrightarrow> (case x of NaN \<Rightarrow> False | Inf s \<Rightarrow> \<not> s | Fin s m _ \<Rightarrow> \<not> s \<and> 0 \<le> m)"

lemma f64_nonneg_simps [simp]:
  "\<not> f64_nonneg NaN" "f64_nonneg (Inf s) = (\<not> s)" "f64_nonneg (Fin s m e) = (\<not> s \<and> 0 \<le> m)"
  "f64_nonneg f64_zero"
  by (simp_all add: f64_nonneg_def f64_zero_def)

lemma round_half_even_nonneg: "0 \<le> n \<Longrightarrow> 0 < d \<Longrightarrow> 0 \<le> round_half_even n d"
  by (auto simp: round_half_even_def Let_def pos_imp_zdiv_nonneg_iff)

lemma scale_ratio_pos:
  "0 \<le> n \<Longrightarrow> 0 < d \<Longrightarrow> 0 \<le> fst (scale_ratio n d e) \<and> 0 < snd (scale_ratio n d e)"
  by (simp add: scale_ratio_def)

lemma f64_round_nonneg: "0 \<le> n \<Longrightarrow> 0 < d \<Longrightarrow> f64_nonneg (f64_round False n d)"
  using scale_ratio_pos [of n d "max (ratio_log2 n d - 52) (- 1074)"]
  by (auto simp: f64_round_def f64_pack_def Let_def round_half_even_nonneg split: prod.splits)

lemma f64_round_exp_nonneg: "0 \<le> n \<Longrightarrow> 0 < d \<Longrightarrow> f64_nonneg (f64_round_exp False n d e)"
  using scale_ratio_pos [of n d "- e"]
  by (auto simp: f64_round_exp_def f64_round_nonneg split: prod.splits)

lemma f64_add_nonneg: "f64_nonneg a \<Longrightarrow> f64_nonneg b \<Longrightarrow> f64_nonneg (f64_add a b)"
proof (cases "\<exists>m e n k. a = Fin False m e \<and> b = Fin False n k \<and> 0 \<le> m \<and> 0 \<le> n")
  case True
  then obtain m e n k where ab: "a = Fin False m e" "b = Fin False n k" "0 \<le> m" "0 \<le> n" by blast
  define v where "v = fin_at (min e k) False m e + fin_at (min e k) False n k"
  have "0 \<le> v" using ab by (simp add: v_def fin_at_def)
  then show ?thesis
    using ab f64_round_exp_nonneg [of v 1 "min e k"] by (simp add: Let_def v_def [symmetric])
next
  case False
  assume "f64_nonneg a" "f64_nonneg b"
  with False show ?thesis by (cases a; cases b) auto
qed

lemma f64_zero_round: "f64_round False 0 d = f64_zero"
  by (simp add: f64_round_def f64_zero_def)

section \<open>Integers of at most 53 bits are exact\<close>

lemma bitlen_bounds: "0 < n \<Longrightarrow> 2 ^ (bitlen n - 1) \<le> n \<and> n < 2 ^ bitlen n \<and> 0 < bitlen n"
proof (induction n rule: bitlen.induct)
  case (1 n)
  show ?case
  proof (cases "n div 2 = 0")
    case True
    with \<open>0 < n\<close> have "n = 1" by auto
    moreover have "bitlen 1 = 1" by (simp add: bitlen.simps)
    ultimately show ?thesis by simp
  next
    case False
    with 1 have IH: "2 ^ (bitlen (n div 2) - 1) \<le> n div 2 \<and> n div 2 < 2 ^ bitlen (n div 2)
        \<and> 0 < bitlen (n div 2)" by simp
    have b: "bitlen n = Suc (bitlen (n div 2))"
      using \<open>0 < n\<close> by (simp add: bitlen.simps [of n])
    obtain k where k: "bitlen (n div 2) = Suc k" using IH not0_implies_Suc by blast
    from IH k have "2 ^ k \<le> n div 2" "n div 2 < 2 * 2 ^ k" by simp_all
    then show ?thesis by (simp add: b k) arith
  qed
qed

lemma round_half_even_one [simp]: "round_half_even p 1 = p"
  by (simp add: round_half_even_def)

lemma f64_of_int_exact:
  assumes "\<bar>i\<bar> < 2 ^ 53" "i \<noteq> 0"
  obtains m e where "f64_of_int i = Fin (i < 0) m e" "- 1074 \<le> e" "e \<le> 0"
    "m = \<bar>i\<bar> * 2 ^ nat (- e)"
proof -
  define n where "n = \<bar>i\<bar>"
  define b where "b = bitlen n"
  have n: "0 < n" "n < 2 ^ 53" using assms by (auto simp: n_def)
  from bitlen_bounds [OF n(1)] have b: "2 ^ (b - 1) \<le> n" "n < 2 ^ b" "0 < b"
    by (auto simp: b_def)
  from b(1) n(2) have "(2::int) ^ (b - 1) < 2 ^ 53" by (rule le_less_trans)
  then have "b - 1 < 53" by (rule power_less_imp_less_exp [rotated]) simp
  then have b53: "b \<le> 53" by simp
  have bl1: "bitlen 1 = 1" by (simp add: bitlen.simps)
  have "ratio_log2 n 1 = int b - 1"
    using b bl1 by (cases b) (auto simp: ratio_log2_def scale_ratio_def Let_def b_def [symmetric])
  then have lg: "max (ratio_log2 n 1 - 52) (- 1074) = int b - 53" using b53 by simp
  let ?e = "int b - 53"
  have pw: "n * 2 ^ nat (- ?e) < 2 ^ 53"
  proof -
    have "n * 2 ^ nat (- ?e) < 2 ^ b * 2 ^ nat (- ?e)" using b by simp
    also have "\<dots> = 2 ^ (b + nat (- ?e))" by (simp add: power_add)
    also have "b + nat (- ?e) = 53" using b53 by simp
    finally show ?thesis .
  qed
  have "f64_round (i < 0) n 1 = f64_pack (i < 0) (n * 2 ^ nat (- ?e)) ?e"
    using n lg b53 by (cases "b = 53") (simp_all add: f64_round_def Let_def scale_ratio_def)
  then have "f64_of_int i = Fin (i < 0) (n * 2 ^ nat (- ?e)) ?e"
    using pw b53 by (simp add: f64_of_int_def n_def f64_pack_def)
  then show ?thesis using that b53 by (simp add: n_def)
qed

lemma f64_of_int_0 [simp]: "f64_of_int 0 = f64_zero"
  by (simp add: f64_of_int_def f64_zero_round)

lemma fin_at_of_int:
  assumes "\<bar>i\<bar> < 2 ^ 53"
  obtains s m e where "f64_of_int i = Fin s m e" "e \<le> 0"
    "\<And>l. l \<le> e \<Longrightarrow> fin_at l s m e = i * 2 ^ nat (- l)"
proof (cases "i = 0")
  case True
  then show ?thesis using that [of False 0 0] by (simp add: f64_zero_def fin_at_def)
next
  case False
  obtain m e where i: "f64_of_int i = Fin (i < 0) m e" "e \<le> 0" "m = \<bar>i\<bar> * 2 ^ nat (- e)"
    using f64_of_int_exact [OF assms False] by metis
  have "fin_at l (i < 0) m e = i * 2 ^ nat (- l)" if "l \<le> e" for l
  proof -
    have "nat (- e) + nat (e - l) = nat (- l)" using i(2) that by simp
    then have "(2::int) ^ nat (- e) * 2 ^ nat (e - l) = 2 ^ nat (- l)"
      by (simp add: power_add [symmetric])
    then show ?thesis using i(3) by (auto simp: fin_at_def mult.assoc)
  qed
  with i show ?thesis using that by blast
qed

lemma f64_of_int_cmp:
  assumes "\<bar>i\<bar> < 2 ^ 53" "\<bar>j\<bar> < 2 ^ 53"
  shows "f64_eq (f64_of_int i) (f64_of_int j) \<longleftrightarrow> i = j"
    and "f64_lt (f64_of_int i) (f64_of_int j) \<longleftrightarrow> i < j"
proof -
  obtain s m e where i: "f64_of_int i = Fin s m e"
      "\<And>l. l \<le> e \<Longrightarrow> fin_at l s m e = i * 2 ^ nat (- l)"
    using fin_at_of_int [OF assms(1)] by metis
  obtain t n k where j: "f64_of_int j = Fin t n k"
      "\<And>l. l \<le> k \<Longrightarrow> fin_at l t n k = j * 2 ^ nat (- l)"
    using fin_at_of_int [OF assms(2)] by metis
  show "f64_eq (f64_of_int i) (f64_of_int j) \<longleftrightarrow> i = j"
    and "f64_lt (f64_of_int i) (f64_of_int j) \<longleftrightarrow> i < j"
    using i j by (simp_all add: Let_def)
qed

end
