(* ===== verification/Json.thy ===== *)
theory Json
  imports Float64
begin

text \<open>
  encoding/json as the backend uses it. A json.RawMessage is represented by the JSON value its
  bytes denote (or as empty, or as bytes that are no JSON text), so the grammar of the text is
  left out; what the code relies on is kept: a struct is written as an object with its fields in
  order, and an object is read into a struct key by key, in the order of the text, a key being
  matched to a field without regard to ASCII case, null leaving a plain field alone and clearing
  a pointer, and a value of the wrong kind recording an error while the rest is still read.
\<close>

datatype json =
    JNull
  | JBool bool
  | JNum string
  | JFloat f64
  | JStr string
  | JArr "json list"
  | JObj "(string \<times> json) list"

datatype RawMessage = RawEmpty | RawInvalid | RawJson json

section \<open>Writing values\<close>

definition enc_ostr :: "string option \<Rightarrow> json" where
  "enc_ostr v = (case v of None \<Rightarrow> JNull | Some s \<Rightarrow> JStr s)"

definition enc_obool :: "bool option \<Rightarrow> json" where
  "enc_obool v = (case v of None \<Rightarrow> JNull | Some b \<Rightarrow> JBool b)"

definition enc_uint :: "int \<Rightarrow> json" where
  "enc_uint n = JNum (nat_to_string (nat n))"

definition enc_int :: "int \<Rightarrow> json" where
  "enc_int n = JNum (int_to_string n)"

definition enc_oint :: "int option \<Rightarrow> json" where
  "enc_oint v = (case v of None \<Rightarrow> JNull | Some n \<Rightarrow> enc_int n)"

text \<open>A NaN or an infinity is no JSON value: json.Marshal fails on it.\<close>

definition f64_marshalable :: "f64 \<Rightarrow> bool" where
  "f64_marshalable x \<longleftrightarrow> \<not> f64_is_nan x \<and> \<not> f64_is_inf x"

section \<open>Reading values\<close>

text \<open>One value into a field that holds v: the new content and whether the kinds agree.\<close>

definition st_str :: "json \<Rightarrow> string \<Rightarrow> string \<times> bool" where
  "st_str j v = (case j of JStr s \<Rightarrow> (s, True) | JNull \<Rightarrow> (v, True) | _ \<Rightarrow> (v, False))"

definition st_ostr :: "json \<Rightarrow> string option \<Rightarrow> string option \<times> bool" where
  "st_ostr j v = (case j of JStr s \<Rightarrow> (Some s, True) | JNull \<Rightarrow> (None, True) | _ \<Rightarrow> (v, False))"

definition st_bool :: "json \<Rightarrow> bool \<Rightarrow> bool \<times> bool" where
  "st_bool j v = (case j of JBool b \<Rightarrow> (b, True) | JNull \<Rightarrow> (v, True) | _ \<Rightarrow> (v, False))"

definition st_obool :: "json \<Rightarrow> bool option \<Rightarrow> bool option \<times> bool" where
  "st_obool j v = (case j of JBool b \<Rightarrow> (Some b, True) | JNull \<Rightarrow> (None, True) | _ \<Rightarrow> (v, False))"

text \<open>An unsigned integer below the bound of its type.\<close>

definition st_uint :: "int \<Rightarrow> json \<Rightarrow> int \<Rightarrow> int \<times> bool" where
  "st_uint bound j v = (case j of
      JNum s \<Rightarrow> (case parse_nat s of
          Some n \<Rightarrow> if int n < bound then (int n, True) else (v, False)
        | None \<Rightarrow> (v, False))
    | JNull \<Rightarrow> (v, True)
    | _ \<Rightarrow> (v, False))"

definition st_ouint :: "int \<Rightarrow> json \<Rightarrow> int option \<Rightarrow> int option \<times> bool" where
  "st_ouint bound j v = (case j of
      JNull \<Rightarrow> (None, True)
    | _ \<Rightarrow> (case st_uint bound j 0 of (n, ok) \<Rightarrow> if ok then (Some n, True) else (v, False)))"

definition st_struct :: "((string \<times> json) list \<Rightarrow> 'a \<Rightarrow> 'a \<times> bool) \<Rightarrow> json \<Rightarrow> 'a \<Rightarrow> 'a \<times> bool" where
  "st_struct dec j v = (case j of JObj fs \<Rightarrow> dec fs v | JNull \<Rightarrow> (v, True) | _ \<Rightarrow> (v, False))"

text \<open>The field called name, all entries of the object that match it applied in order.\<close>

fun dec_field :: "(json \<Rightarrow> 'a \<Rightarrow> 'a \<times> bool) \<Rightarrow> string \<Rightarrow> (string \<times> json) list \<Rightarrow> 'a \<Rightarrow> 'a \<times> bool" where
  "dec_field st name [] v = (v, True)"
| "dec_field st name ((k, j) # fs) v =
     (if ToLower k = ToLower name
      then (case st j v of (v', ok) \<Rightarrow> (case dec_field st name fs v' of (w, ok') \<Rightarrow> (w, ok \<and> ok')))
      else dec_field st name fs v)"

text \<open>json.Unmarshal of a raw message into a zeroed struct.\<close>

definition unmarshal_struct ::
    "((string \<times> json) list \<Rightarrow> 'a \<Rightarrow> 'a \<times> bool) \<Rightarrow> 'a \<Rightarrow> RawMessage \<Rightarrow> 'a res" where
  "unmarshal_struct dec z raw = (case raw of
      RawJson j \<Rightarrow> (case st_struct dec j z of (v, ok) \<Rightarrow>
          if ok then Inr v else Inl (ErrMsg ''json: cannot unmarshal''))
    | RawEmpty \<Rightarrow> Inl (ErrMsg ''unexpected end of JSON input'')
    | RawInvalid \<Rightarrow> Inl (ErrMsg ''invalid character''))"

text \<open>json.Marshal of a raw message: nil is written as null.\<close>

definition marshal_raw :: "RawMessage \<Rightarrow> json res" where
  "marshal_raw raw = (case raw of
      RawJson j \<Rightarrow> Inr j
    | RawEmpty \<Rightarrow> Inr JNull
    | RawInvalid \<Rightarrow> Inl (ErrMsg ''json: error calling MarshalJSON for type json.RawMessage''))"

section \<open>Objects with distinct lower-case keys\<close>

definition lower_key :: "string \<Rightarrow> bool" where
  "lower_key k \<longleftrightarrow> ToLower k = k"

definition plain_keys :: "(string \<times> json) list \<Rightarrow> bool" where
  "plain_keys fs \<longleftrightarrow> list_all lower_key (map fst fs) \<and> distinct (map fst fs)"

lemma dec_field_absent:
  "list_all lower_key (map fst fs) \<Longrightarrow> lower_key name \<Longrightarrow> name \<notin> set (map fst fs) \<Longrightarrow>
   dec_field st name fs v = (v, True)"
  by (induction fs) (auto simp: lower_key_def)

lemma dec_field_map_of:
  assumes "plain_keys fs" "lower_key name"
  shows "dec_field st name fs v = (case map_of fs name of None \<Rightarrow> (v, True) | Some j \<Rightarrow> st j v)"
  using assms
proof (induction fs)
  case Nil
  then show ?case by simp
next
  case (Cons kj fs)
  obtain k j where kj: "kj = (k, j)" by (cases kj)
  show ?case
  proof (cases "k = name")
    case True
    with Cons.prems kj have "dec_field st name fs w = (w, True)" for w
      by (intro dec_field_absent) (auto simp: plain_keys_def)
    with True kj show ?thesis by (simp split: prod.split)
  next
    case False
    with Cons kj show ?thesis by (auto simp: plain_keys_def lower_key_def)
  qed
qed

lemma lower_keyI: "k \<in> set ks \<Longrightarrow> list_all lower_key ks \<Longrightarrow> lower_key k"
  by (simp add: list_all_iff)

lemma st_str_JStr [simp]: "st_str (JStr s) v = (s, True)"
  by (simp add: st_str_def)

lemma st_ostr_enc [simp]: "st_ostr (enc_ostr s) v = (s, True)"
  by (simp add: st_ostr_def enc_ostr_def split: option.splits)

lemma st_bool_JBool [simp]: "st_bool (JBool b) v = (b, True)"
  by (simp add: st_bool_def)

lemma st_obool_enc [simp]: "st_obool (enc_obool b) v = (b, True)"
  by (simp add: st_obool_def enc_obool_def split: option.splits)

lemma st_uint_enc [simp]: "0 \<le> n \<Longrightarrow> n < bound \<Longrightarrow> st_uint bound (enc_uint n) v = (n, True)"
  by (simp add: st_uint_def enc_uint_def)

lemma st_ouint_enc [simp]: "0 \<le> n \<Longrightarrow> n < bound \<Longrightarrow> st_ouint bound (enc_uint n) v = (Some n, True)"
  using st_uint_enc [of n bound 0] by (simp add: st_ouint_def enc_uint_def)

lemma st_struct_JObj [simp]: "st_struct dec (JObj fs) v = dec fs v"
  by (simp add: st_struct_def)

end
