(* ===== verification/Payloads.thy ===== *)
theory Payloads
  imports Json
begin

text \<open>
  The payload structs of internal/events/pumpfun.go and pumpamm.go, each with its json.Marshal
  (\<open>fields_\<close> and \<open>enc_\<close>: the object written, fields in the struct's order) and its
  json.Unmarshal (\<open>dec_\<close>: the struct read into a given one), both read off the field
  tags. A pointer field is an option. The last section proves that reading back what was
  written gives the struct, for every one of them.
\<close>

section \<open>Structs\<close>

record PumpfunTradeInstructionArgs =
  pfta_Amount :: "string option"
  pfta_MaxSolCost :: "string option"
  pfta_MinSolOutput :: "string option"
  pfta_SpendableSolIn :: "string option"
  pfta_MinTokensOut :: "string option"

record PumpfunTradePayload =
  pft_Side :: string
  pft_IxName :: string
  pft_Mint :: string
  pft_User :: string
  pft_BondingCurve :: string
  pft_AssociatedBondingCurve :: string
  pft_Creator :: string
  pft_CreatorVault :: string
  pft_TokenProgram :: string
  pft_SolAmount :: string
  pft_TokenAmount :: string
  pft_Fee :: string
  pft_CreatorFee :: string
  pft_VirtualSolReserves :: string
  pft_VirtualTokenReserves :: string
  pft_RealSolReserves :: string
  pft_RealTokenReserves :: string
  pft_TrackVolume :: bool
  pft_MayhemMode :: bool
  pft_Cashback :: string
  pft_InstructionArgs :: PumpfunTradeInstructionArgs

record PumpfunCreatePayload =
  pfc_IxName :: string
  pfc_Mint :: string
  pfc_BondingCurve :: string
  pfc_User :: string
  pfc_Creator :: string
  pfc_Name :: string
  pfc_Symbol :: string
  pfc_URI :: string
  pfc_TokenProgram :: string
  pfc_VirtualTokenReserves :: string
  pfc_VirtualSolReserves :: string
  pfc_RealTokenReserves :: string
  pfc_TokenTotalSupply :: string
  pfc_IsMayhemMode :: bool
  pfc_IsCashbackEnabled :: bool
  pfc_MintDecimals :: "int option"

record PumpfunMigratePayload =
  pfm_Mint :: string
  pfm_User :: string
  pfm_BondingCurve :: string
  pfm_Pool :: string
  pfm_MintAmount :: string
  pfm_SolAmount :: string
  pfm_PoolMigrationFee :: string
  pfm_WithdrawAuthority :: string
  pfm_AssociatedBondingCurve :: string
  pfm_TokenProgram :: string
  pfm_PumpAmm :: string
  pfm_PoolAuthority :: string
  pfm_LPMint :: string

record PumpAmmSwapInstructionArgs =
  pasa_BaseAmountIn :: "string option"
  pasa_MinQuoteAmountOut :: "string option"
  pasa_BaseAmountOut :: "string option"
  pasa_MaxQuoteAmountIn :: "string option"
  pasa_SpendableQuoteIn :: "string option"
  pasa_MinBaseAmountOut :: "string option"

record PumpAmmSwapPayload =
  pas_Side :: string
  pas_IxName :: string
  pas_Pool :: string
  pas_User :: string
  pas_BaseMint :: string
  pas_QuoteMint :: string
  pas_CoinCreator :: string
  pas_BaseAmountIn :: "string option"
  pas_BaseAmountOut :: "string option"
  pas_QuoteAmountIn :: "string option"
  pas_QuoteAmountOut :: "string option"
  pas_LpFee :: string
  pas_ProtocolFee :: string
  pas_CoinCreatorFee :: string
  pas_Cashback :: string
  pas_PoolBaseTokenReserves :: string
  pas_PoolQuoteTokenReserves :: string
  pas_InstructionArgs :: PumpAmmSwapInstructionArgs

record PumpAmmCreatePoolInstructionArgs =
  papa_Index :: int
  papa_CoinCreator :: string
  papa_IsMayhemMode :: bool
  papa_IsCashbackCoin :: "bool option"

record PumpAmmCreatePoolPayload =
  pap_Pool :: string
  pap_Creator :: string
  pap_BaseMint :: string
  pap_QuoteMint :: string
  pap_LPMint :: string
  pap_BaseAmountIn :: string
  pap_QuoteAmountIn :: string
  pap_InitialLiquidity :: string
  pap_CoinCreator :: string
  pap_IsMayhemMode :: bool
  pap_InstructionArgs :: PumpAmmCreatePoolInstructionArgs
  pap_BaseMintDecimals :: int
  pap_QuoteMintDecimals :: int

record PumpAmmLiquidityInstructionArgs =
  pala_LPTokenAmountIn :: "string option"
  pala_LPTokenAmountOut :: "string option"
  pala_MaxBaseAmountIn :: "string option"
  pala_MaxQuoteAmountIn :: "string option"
  pala_MinBaseAmountOut :: "string option"
  pala_MinQuoteAmountOut :: "string option"

record PumpAmmLiquidityPayload =
  pal_Action :: string
  pal_Pool :: string
  pal_User :: string
  pal_BaseMint :: string
  pal_QuoteMint :: string
  pal_LPMint :: string
  pal_LPTokenAmountIn :: "string option"
  pal_LPTokenAmountOut :: "string option"
  pal_BaseAmountIn :: "string option"
  pal_QuoteAmountIn :: "string option"
  pal_BaseAmountOut :: "string option"
  pal_QuoteAmountOut :: "string option"
  pal_LPMintSupply :: string
  pal_InstructionArgs :: PumpAmmLiquidityInstructionArgs

record EventRefs =
  er_Mint :: "string option"
  er_Pool :: "string option"
  er_BondingCurve :: "string option"
  er_User :: "string option"
  er_Creator :: "string option"
  er_BaseMint :: "string option"
  er_QuoteMint :: "string option"
  er_LPMint :: "string option"

definition zero_PumpfunTradeInstructionArgs :: PumpfunTradeInstructionArgs where
  "zero_PumpfunTradeInstructionArgs = \<lparr>
     pfta_Amount = None, pfta_MaxSolCost = None, pfta_MinSolOutput = None,
     pfta_SpendableSolIn = None, pfta_MinTokensOut = None \<rparr>"

definition zero_PumpfunTradePayload :: PumpfunTradePayload where
  "zero_PumpfunTradePayload = \<lparr>
     pft_Side = '''', pft_IxName = '''', pft_Mint = '''', pft_User = '''',
     pft_BondingCurve = '''', pft_AssociatedBondingCurve = '''', pft_Creator = '''',
     pft_CreatorVault = '''', pft_TokenProgram = '''', pft_SolAmount = '''',
     pft_TokenAmount = '''', pft_Fee = '''', pft_CreatorFee = '''',
     pft_VirtualSolReserves = '''', pft_VirtualTokenReserves = '''',
     pft_RealSolReserves = '''', pft_RealTokenReserves = '''', pft_TrackVolume = False,
     pft_MayhemMode = False, pft_Cashback = '''',
     pft_InstructionArgs = zero_PumpfunTradeInstructionArgs \<rparr>"

definition zero_PumpfunCreatePayload :: PumpfunCreatePayload where
  "zero_PumpfunCreatePayload = \<lparr>
     pfc_IxName = '''', pfc_Mint = '''', pfc_BondingCurve = '''', pfc_User = '''',
     pfc_Creator = '''', pfc_Name = '''', pfc_Symbol = '''', pfc_URI = '''',
     pfc_TokenProgram = '''', pfc_VirtualTokenReserves = '''', pfc_VirtualSolReserves = '''',
     pfc_RealTokenReserves = '''', pfc_TokenTotalSupply = '''', pfc_IsMayhemMode = False,
     pfc_IsCashbackEnabled = False, pfc_MintDecimals = None \<rparr>"

definition zero_PumpfunMigratePayload :: PumpfunMigratePayload where
  "zero_PumpfunMigratePayload = \<lparr>
     pfm_Mint = '''', pfm_User = '''', pfm_BondingCurve = '''', pfm_Pool = '''',
     pfm_MintAmount = '''', pfm_SolAmount = '''', pfm_PoolMigrationFee = '''',
     pfm_WithdrawAuthority = '''', pfm_AssociatedBondingCurve = '''', pfm_TokenProgram = '''',
     pfm_PumpAmm = '''', pfm_PoolAuthority = '''', pfm_LPMint = '''' \<rparr>"

definition zero_PumpAmmSwapInstructionArgs :: PumpAmmSwapInstructionArgs where
  "zero_PumpAmmSwapInstructionArgs = \<lparr>
     pasa_BaseAmountIn = None, pasa_MinQuoteAmountOut = None, pasa_BaseAmountOut = None,
     pasa_MaxQuoteAmountIn = None, pasa_SpendableQuoteIn = None, pasa_MinBaseAmountOut = None \<rparr>"

definition zero_PumpAmmSwapPayload :: PumpAmmSwapPayload where
  "zero_PumpAmmSwapPayload = \<lparr>
     pas_Side = '''', pas_IxName = '''', pas_Pool = '''', pas_User = '''', pas_BaseMint = '''',
     pas_QuoteMint = '''', pas_CoinCreator = '''', pas_BaseAmountIn = None,
     pas_BaseAmountOut = None, pas_QuoteAmountIn = None, pas_QuoteAmountOut = None,
     pas_LpFee = '''', pas_ProtocolFee = '''', pas_CoinCreatorFee = '''', pas_Cashback = '''',
     pas_PoolBaseTokenReserves = '''', pas_PoolQuoteTokenReserves = '''',
     pas_InstructionArgs = zero_PumpAmmSwapInstructionArgs \<rparr>"

definition zero_PumpAmmCreatePoolInstructionArgs :: PumpAmmCreatePoolInstructionArgs where
  "zero_PumpAmmCreatePoolInstructionArgs = \<lparr>
     papa_Index = 0, papa_CoinCreator = '''', papa_IsMayhemMode = False,
     papa_IsCashbackCoin = None \<rparr>"

definition zero_PumpAmmCreatePoolPayload :: PumpAmmCreatePoolPayload where
  "zero_PumpAmmCreatePoolPayload = \<lparr>
     pap_Pool = '''', pap_Creator = '''', pap_BaseMint = '''', pap_QuoteMint = '''',
     pap_LPMint = '''', pap_BaseAmountIn = '''', pap_QuoteAmountIn = '''',
     pap_InitialLiquidity = '''', pap_CoinCreator = '''', pap_IsMayhemMode = False,
     pap_InstructionArgs = zero_PumpAmmCreatePoolInstructionArgs, pap_BaseMintDecimals = 0,
     pap_QuoteMintDecimals = 0 \<rparr>"

definition zero_PumpAmmLiquidityInstructionArgs :: PumpAmmLiquidityInstructionArgs where
  "zero_PumpAmmLiquidityInstructionArgs = \<lparr>
     pala_LPTokenAmountIn = None, pala_LPTokenAmountOut = None, pala_MaxBaseAmountIn = None,
     pala_MaxQuoteAmountIn = None, pala_MinBaseAmountOut = None, pala_MinQuoteAmountOut = None \<rparr>"

definition zero_PumpAmmLiquidityPayload :: PumpAmmLiquidityPayload where
  "zero_PumpAmmLiquidityPayload = \<lparr>
     pal_Action = '''', pal_Pool = '''', pal_User = '''', pal_BaseMint = '''',
     pal_QuoteMint = '''', pal_LPMint = '''', pal_LPTokenAmountIn = None,
     pal_LPTokenAmountOut = None, pal_BaseAmountIn = None, pal_QuoteAmountIn = None,
     pal_BaseAmountOut = None, pal_QuoteAmountOut = None, pal_LPMintSupply = '''',
     pal_InstructionArgs = zero_PumpAmmLiquidityInstructionArgs \<rparr>"

definition zero_EventRefs :: EventRefs where
  "zero_EventRefs = \<lparr>
     er_Mint = None, er_Pool = None, er_BondingCurve = None, er_User = None, er_Creator = None,
     er_BaseMint = None, er_QuoteMint = None, er_LPMint = None \<rparr>"

section \<open>Writing\<close>

definition fields_PumpfunTradeInstructionArgs :: "PumpfunTradeInstructionArgs \<Rightarrow> (string \<times> json) list" where
  "fields_PumpfunTradeInstructionArgs p = [
     (''amount'', enc_ostr (pfta_Amount p)), (''max_sol_cost'', enc_ostr (pfta_MaxSolCost p)),
     (''min_sol_output'', enc_ostr (pfta_MinSolOutput p)),
     (''spendable_sol_in'', enc_ostr (pfta_SpendableSolIn p)),
     (''min_tokens_out'', enc_ostr (pfta_MinTokensOut p))]"

definition enc_PumpfunTradeInstructionArgs :: "PumpfunTradeInstructionArgs \<Rightarrow> json" where
  "enc_PumpfunTradeInstructionArgs p = JObj (fields_PumpfunTradeInstructionArgs p)"

definition fields_PumpfunTradePayload :: "PumpfunTradePayload \<Rightarrow> (string \<times> json) list" where
  "fields_PumpfunTradePayload p = [
     (''side'', JStr (pft_Side p)), (''ix_name'', JStr (pft_IxName p)),
     (''mint'', JStr (pft_Mint p)), (''user'', JStr (pft_User p)),
     (''bonding_curve'', JStr (pft_BondingCurve p)),
     (''associated_bonding_curve'', JStr (pft_AssociatedBondingCurve p)),
     (''creator'', JStr (pft_Creator p)), (''creator_vault'', JStr (pft_CreatorVault p)),
     (''token_program'', JStr (pft_TokenProgram p)), (''sol_amount'', JStr (pft_SolAmount p)),
     (''token_amount'', JStr (pft_TokenAmount p)), (''fee'', JStr (pft_Fee p)),
     (''creator_fee'', JStr (pft_CreatorFee p)),
     (''virtual_sol_reserves'', JStr (pft_VirtualSolReserves p)),
     (''virtual_token_reserves'', JStr (pft_VirtualTokenReserves p)),
     (''real_sol_reserves'', JStr (pft_RealSolReserves p)),
     (''real_token_reserves'', JStr (pft_RealTokenReserves p)),
     (''track_volume'', JBool (pft_TrackVolume p)),
     (''mayhem_mode'', JBool (pft_MayhemMode p)), (''cashback'', JStr (pft_Cashback p)),
     (''instruction_args'', enc_PumpfunTradeInstructionArgs (pft_InstructionArgs p))]"

definition enc_PumpfunTradePayload :: "PumpfunTradePayload \<Rightarrow> json" where
  "enc_PumpfunTradePayload p = JObj (fields_PumpfunTradePayload p)"

definition fields_PumpfunCreatePayload :: "PumpfunCreatePayload \<Rightarrow> (string \<times> json) list" where
  "fields_PumpfunCreatePayload p = [
     (''ix_name'', JStr (pfc_IxName p)), (''mint'', JStr (pfc_Mint p)),
     (''bonding_curve'', JStr (pfc_BondingCurve p)), (''user'', JStr (pfc_User p)),
     (''creator'', JStr (pfc_Creator p)), (''name'', JStr (pfc_Name p)),
     (''symbol'', JStr (pfc_Symbol p)), (''uri'', JStr (pfc_URI p)),
     (''token_program'', JStr (pfc_TokenProgram p)),
     (''virtual_token_reserves'', JStr (pfc_VirtualTokenReserves p)),
     (''virtual_sol_reserves'', JStr (pfc_VirtualSolReserves p)),
     (''real_token_reserves'', JStr (pfc_RealTokenReserves p)),
     (''token_total_supply'', JStr (pfc_TokenTotalSupply p)),
     (''is_mayhem_mode'', JBool (pfc_IsMayhemMode p)),
     (''is_cashback_enabled'', JBool (pfc_IsCashbackEnabled p))]
     @ (case pfc_MintDecimals p of None \<Rightarrow> [] | Some d \<Rightarrow> [(''mint_decimals'', enc_uint d)])"

definition enc_PumpfunCreatePayload :: "PumpfunCreatePayload \<Rightarrow> json" where
  "enc_PumpfunCreatePayload p = JObj (fields_PumpfunCreatePayload p)"

definition fields_PumpfunMigratePayload :: "PumpfunMigratePayload \<Rightarrow> (string \<times> json) list" where
  "fields_PumpfunMigratePayload p = [
     (''mint'', JStr (pfm_Mint p)), (''user'', JStr (pfm_User p)),
     (''bonding_curve'', JStr (pfm_BondingCurve p)), (''pool'', JStr (pfm_Pool p)),
     (''mint_amount'', JStr (pfm_MintAmount p)), (''sol_amount'', JStr (pfm_SolAmount p)),
     (''pool_migration_fee'', JStr (pfm_PoolMigrationFee p)),
     (''withdraw_authority'', JStr (pfm_WithdrawAuthority p)),
     (''associated_bonding_curve'', JStr (pfm_AssociatedBondingCurve p)),
     (''token_program'', JStr (pfm_TokenProgram p)), (''pump_amm'', JStr (pfm_PumpAmm p)),
     (''pool_authority'', JStr (pfm_PoolAuthority p)), (''lp_mint'', JStr (pfm_LPMint p))]"

definition enc_PumpfunMigratePayload :: "PumpfunMigratePayload \<Rightarrow> json" where
  "enc_PumpfunMigratePayload p = JObj (fields_PumpfunMigratePayload p)"

definition fields_PumpAmmSwapInstructionArgs :: "PumpAmmSwapInstructionArgs \<Rightarrow> (string \<times> json) list" where
  "fields_PumpAmmSwapInstructionArgs p = [
     (''base_amount_in'', enc_ostr (pasa_BaseAmountIn p)),
     (''min_quote_amount_out'', enc_ostr (pasa_MinQuoteAmountOut p)),
     (''base_amount_out'', enc_ostr (pasa_BaseAmountOut p)),
     (''max_quote_amount_in'', enc_ostr (pasa_MaxQuoteAmountIn p)),
     (''spendable_quote_in'', enc_ostr (pasa_SpendableQuoteIn p)),
     (''min_base_amount_out'', enc_ostr (pasa_MinBaseAmountOut p))]"

definition enc_PumpAmmSwapInstructionArgs :: "PumpAmmSwapInstructionArgs \<Rightarrow> json" where
  "enc_PumpAmmSwapInstructionArgs p = JObj (fields_PumpAmmSwapInstructionArgs p)"

definition fields_PumpAmmSwapPayload :: "PumpAmmSwapPayload \<Rightarrow> (string \<times> json) list" where
  "fields_PumpAmmSwapPayload p = [
     (''side'', JStr (pas_Side p)), (''ix_name'', JStr (pas_IxName p)),
     (''pool'', JStr (pas_Pool p)), (''user'', JStr (pas_User p)),
     (''base_mint'', JStr (pas_BaseMint p)), (''quote_mint'', JStr (pas_QuoteMint p)),
     (''coin_creator'', JStr (pas_CoinCreator p)),
     (''base_amount_in'', enc_ostr (pas_BaseAmountIn p)),
     (''base_amount_out'', enc_ostr (pas_BaseAmountOut p)),
     (''quote_amount_in'', enc_ostr (pas_QuoteAmountIn p)),
     (''quote_amount_out'', enc_ostr (pas_QuoteAmountOut p)), (''lp_fee'', JStr (pas_LpFee p)),
     (''protocol_fee'', JStr (pas_ProtocolFee p)),
     (''coin_creator_fee'', JStr (pas_CoinCreatorFee p)),
     (''cashback'', JStr (pas_Cashback p)),
     (''pool_base_token_reserves'', JStr (pas_PoolBaseTokenReserves p)),
     (''pool_quote_token_reserves'', JStr (pas_PoolQuoteTokenReserves p)),
     (''instruction_args'', enc_PumpAmmSwapInstructionArgs (pas_InstructionArgs p))]"

definition enc_PumpAmmSwapPayload :: "PumpAmmSwapPayload \<Rightarrow> json" where
  "enc_PumpAmmSwapPayload p = JObj (fields_PumpAmmSwapPayload p)"

definition fields_PumpAmmCreatePoolInstructionArgs :: "PumpAmmCreatePoolInstructionArgs \<Rightarrow> (string \<times> json) list" where
  "fields_PumpAmmCreatePoolInstructionArgs p = [
     (''index'', enc_uint (papa_Index p)), (''coin_creator'', JStr (papa_CoinCreator p)),
     (''is_mayhem_mode'', JBool (papa_IsMayhemMode p)),
     (''is_cashback_coin'', enc_obool (papa_IsCashbackCoin p))]"

definition enc_PumpAmmCreatePoolInstructionArgs :: "PumpAmmCreatePoolInstructionArgs \<Rightarrow> json" where
  "enc_PumpAmmCreatePoolInstructionArgs p = JObj (fields_PumpAmmCreatePoolInstructionArgs p)"

definition fields_PumpAmmCreatePoolPayload :: "PumpAmmCreatePoolPayload \<Rightarrow> (string \<times> json) list" where
  "fields_PumpAmmCreatePoolPayload p = [
     (''pool'', JStr (pap_Pool p)), (''creator'', JStr (pap_Creator p)),
     (''base_mint'', JStr (pap_BaseMint p)), (''quote_mint'', JStr (pap_QuoteMint p)),
     (''lp_mint'', JStr (pap_LPMint p)), (''base_amount_in'', JStr (pap_BaseAmountIn p)),
     (''quote_amount_in'', JStr (pap_QuoteAmountIn p)),
     (''initial_liquidity'', JStr (pap_InitialLiquidity p)),
     (''coin_creator'', JStr (pap_CoinCreator p)),
     (''is_mayhem_mode'', JBool (pap_IsMayhemMode p)),
     (''instruction_args'', enc_PumpAmmCreatePoolInstructionArgs (pap_InstructionArgs p)),
     (''base_mint_decimals'', enc_uint (pap_BaseMintDecimals p)),
     (''quote_mint_decimals'', enc_uint (pap_QuoteMintDecimals p))]"

definition enc_PumpAmmCreatePoolPayload :: "PumpAmmCreatePoolPayload \<Rightarrow> json" where
  "enc_PumpAmmCreatePoolPayload p = JObj (fields_PumpAmmCreatePoolPayload p)"

definition fields_PumpAmmLiquidityInstructionArgs :: "PumpAmmLiquidityInstructionArgs \<Rightarrow> (string \<times> json) list" where
  "fields_PumpAmmLiquidityInstructionArgs p = [
     (''lp_token_amount_in'', enc_ostr (pala_LPTokenAmountIn p)),
     (''lp_token_amount_out'', enc_ostr (pala_LPTokenAmountOut p)),
     (''max_base_amount_in'', enc_ostr (pala_MaxBaseAmountIn p)),
     (''max_quote_amount_in'', enc_ostr (pala_MaxQuoteAmountIn p)),
     (''min_base_amount_out'', enc_ostr (pala_MinBaseAmountOut p)),
     (''min_quote_amount_out'', enc_ostr (pala_MinQuoteAmountOut p))]"

definition enc_PumpAmmLiquidityInstructionArgs :: "PumpAmmLiquidityInstructionArgs \<Rightarrow> json" where
  "enc_PumpAmmLiquidityInstructionArgs p = JObj (fields_PumpAmmLiquidityInstructionArgs p)"

definition fields_PumpAmmLiquidityPayload :: "PumpAmmLiquidityPayload \<Rightarrow> (string \<times> json) list" where
  "fields_PumpAmmLiquidityPayload p = [
     (''action'', JStr (pal_Action p)), (''pool'', JStr (pal_Pool p)),
     (''user'', JStr (pal_User p)), (''base_mint'', JStr (pal_BaseMint p)),
     (''quote_mint'', JStr (pal_QuoteMint p)), (''lp_mint'', JStr (pal_LPMint p)),
     (''lp_token_amount_in'', enc_ostr (pal_LPTokenAmountIn p)),
     (''lp_token_amount_out'', enc_ostr (pal_LPTokenAmountOut p)),
     (''base_amount_in'', enc_ostr (pal_BaseAmountIn p)),
     (''quote_amount_in'', enc_ostr (pal_QuoteAmountIn p)),
     (''base_amount_out'', enc_ostr (pal_BaseAmountOut p)),
     (''quote_amount_out'', enc_ostr (pal_QuoteAmountOut p)),
     (''lp_mint_supply'', JStr (pal_LPMintSupply p)),
     (''instruction_args'', enc_PumpAmmLiquidityInstructionArgs (pal_InstructionArgs p))]"

definition enc_PumpAmmLiquidityPayload :: "PumpAmmLiquidityPayload \<Rightarrow> json" where
  "enc_PumpAmmLiquidityPayload p = JObj (fields_PumpAmmLiquidityPayload p)"

definition fields_EventRefs :: "EventRefs \<Rightarrow> (string \<times> json) list" where
  "fields_EventRefs p = [
     (''mint'', enc_ostr (er_Mint p)), (''pool'', enc_ostr (er_Pool p)),
     (''bonding_curve'', enc_ostr (er_BondingCurve p)), (''user'', enc_ostr (er_User p)),
     (''creator'', enc_ostr (er_Creator p)), (''base_mint'', enc_ostr (er_BaseMint p)),
     (''quote_mint'', enc_ostr (er_QuoteMint p)), (''lp_mint'', enc_ostr (er_LPMint p))]"

definition enc_EventRefs :: "EventRefs \<Rightarrow> json" where
  "enc_EventRefs p = JObj (fields_EventRefs p)"

section \<open>Reading\<close>

definition dec_PumpfunTradeInstructionArgs :: "(string \<times> json) list \<Rightarrow> PumpfunTradeInstructionArgs \<Rightarrow> PumpfunTradeInstructionArgs \<times> bool" where
  "dec_PumpfunTradeInstructionArgs fs z = (\<lparr>
     pfta_Amount = fst (dec_field st_ostr ''amount'' fs (pfta_Amount z)),
     pfta_MaxSolCost = fst (dec_field st_ostr ''max_sol_cost'' fs (pfta_MaxSolCost z)),
     pfta_MinSolOutput = fst (dec_field st_ostr ''min_sol_output'' fs (pfta_MinSolOutput z)),
     pfta_SpendableSolIn = fst (dec_field st_ostr ''spendable_sol_in'' fs (pfta_SpendableSolIn z)),
     pfta_MinTokensOut = fst (dec_field st_ostr ''min_tokens_out'' fs (pfta_MinTokensOut z)) \<rparr>,
     snd (dec_field st_ostr ''amount'' fs (pfta_Amount z)) \<and>
     snd (dec_field st_ostr ''max_sol_cost'' fs (pfta_MaxSolCost z)) \<and>
     snd (dec_field st_ostr ''min_sol_output'' fs (pfta_MinSolOutput z)) \<and>
     snd (dec_field st_ostr ''spendable_sol_in'' fs (pfta_SpendableSolIn z)) \<and>
     snd (dec_field st_ostr ''min_tokens_out'' fs (pfta_MinTokensOut z)))"

definition dec_PumpfunTradePayload :: "(string \<times> json) list \<Rightarrow> PumpfunTradePayload \<Rightarrow> PumpfunTradePayload \<times> bool" where
  "dec_PumpfunTradePayload fs z = (\<lparr>
     pft_Side = fst (dec_field st_str ''side'' fs (pft_Side z)),
     pft_IxName = fst (dec_field st_str ''ix_name'' fs (pft_IxName z)),
     pft_Mint = fst (dec_field st_str ''mint'' fs (pft_Mint z)),
     pft_User = fst (dec_field st_str ''user'' fs (pft_User z)),
     pft_BondingCurve = fst (dec_field st_str ''bonding_curve'' fs (pft_BondingCurve z)),
     pft_AssociatedBondingCurve = fst (dec_field st_str ''associated_bonding_curve'' fs (pft_AssociatedBondingCurve z)),
     pft_Creator = fst (dec_field st_str ''creator'' fs (pft_Creator z)),
     pft_CreatorVault = fst (dec_field st_str ''creator_vault'' fs (pft_CreatorVault z)),
     pft_TokenProgram = fst (dec_field st_str ''token_program'' fs (pft_TokenProgram z)),
     pft_SolAmount = fst (dec_field st_str ''sol_amount'' fs (pft_SolAmount z)),
     pft_TokenAmount = fst (dec_field st_str ''token_amount'' fs (pft_TokenAmount z)),
     pft_Fee = fst (dec_field st_str ''fee'' fs (pft_Fee z)),
     pft_CreatorFee = fst (dec_field st_str ''creator_fee'' fs (pft_CreatorFee z)),
     pft_VirtualSolReserves = fst (dec_field st_str ''virtual_sol_reserves'' fs (pft_VirtualSolReserves z)),
     pft_VirtualTokenReserves = fst (dec_field st_str ''virtual_token_reserves'' fs (pft_VirtualTokenReserves z)),
     pft_RealSolReserves = fst (dec_field st_str ''real_sol_reserves'' fs (pft_RealSolReserves z)),
     pft_RealTokenReserves = fst (dec_field st_str ''real_token_reserves'' fs (pft_RealTokenReserves z)),
     pft_TrackVolume = fst (dec_field st_bool ''track_volume'' fs (pft_TrackVolume z)),
     pft_MayhemMode = fst (dec_field st_bool ''mayhem_mode'' fs (pft_MayhemMode z)),
     pft_Cashback = fst (dec_field st_str ''cashback'' fs (pft_Cashback z)),
     pft_InstructionArgs = fst (dec_field (st_struct dec_PumpfunTradeInstructionArgs) ''instruction_args'' fs (pft_InstructionArgs z)) \<rparr>,
     snd (dec_field st_str ''side'' fs (pft_Side z)) \<and>
     snd (dec_field st_str ''ix_name'' fs (pft_IxName z)) \<and>
     snd (dec_field st_str ''mint'' fs (pft_Mint z)) \<and>
     snd (dec_field st_str ''user'' fs (pft_User z)) \<and>
     snd (dec_field st_str ''bonding_curve'' fs (pft_BondingCurve z)) \<and>
     snd (dec_field st_str ''associated_bonding_curve'' fs (pft_AssociatedBondingCurve z)) \<and>
     snd (dec_field st_str ''creator'' fs (pft_Creator z)) \<and>
     snd (dec_field st_str ''creator_vault'' fs (pft_CreatorVault z)) \<and>
     snd (dec_field st_str ''token_program'' fs (pft_TokenProgram z)) \<and>
     snd (dec_field st_str ''sol_amount'' fs (pft_SolAmount z)) \<and>
     snd (dec_field st_str ''token_amount'' fs (pft_TokenAmount z)) \<and>
     snd (dec_field st_str ''fee'' fs (pft_Fee z)) \<and>
     snd (dec_field st_str ''creator_fee'' fs (pft_CreatorFee z)) \<and>
     snd (dec_field st_str ''virtual_sol_reserves'' fs (pft_VirtualSolReserves z)) \<and>
     snd (dec_field st_str ''virtual_token_reserves'' fs (pft_VirtualTokenReserves z)) \<and>
     snd (dec_field st_str ''real_sol_reserves'' fs (pft_RealSolReserves z)) \<and>
     snd (dec_field st_str ''real_token_reserves'' fs (pft_RealTokenReserves z)) \<and>
     snd (dec_field st_bool ''track_volume'' fs (pft_TrackVolume z)) \<and>
     snd (dec_field st_bool ''mayhem_mode'' fs (pft_MayhemMode z)) \<and>
     snd (dec_field st_str ''cashback'' fs (pft_Cashback z)) \<and>
     snd (dec_field (st_struct dec_PumpfunTradeInstructionArgs) ''instruction_args'' fs (pft_InstructionArgs z)))"

definition dec_PumpfunCreatePayload :: "(string \<times> json) list \<Rightarrow> PumpfunCreatePayload \<Rightarrow> PumpfunCreatePayload \<times> bool" where
  "dec_PumpfunCreatePayload fs z = (\<lparr>
     pfc_IxName = fst (dec_field st_str ''ix_name'' fs (pfc_IxName z)),
     pfc_Mint = fst (dec_field st_str ''mint'' fs (pfc_Mint z)),
     pfc_BondingCurve = fst (dec_field st_str ''bonding_curve'' fs (pfc_BondingCurve z)),
     pfc_User = fst (dec_field st_str ''user'' fs (pfc_User z)),
     pfc_Creator = fst (dec_field st_str ''creator'' fs (pfc_Creator z)),
     pfc_Name = fst (dec_field st_str ''name'' fs (pfc_Name z)),
     pfc_Symbol = fst (dec_field st_str ''symbol'' fs (pfc_Symbol z)),
     pfc_URI = fst (dec_field st_str ''uri'' fs (pfc_URI z)),
     pfc_TokenProgram = fst (dec_field st_str ''token_program'' fs (pfc_TokenProgram z)),
     pfc_VirtualTokenReserves = fst (dec_field st_str ''virtual_token_reserves'' fs (pfc_VirtualTokenReserves z)),
     pfc_VirtualSolReserves = fst (dec_field st_str ''virtual_sol_reserves'' fs (pfc_VirtualSolReserves z)),
     pfc_RealTokenReserves = fst (dec_field st_str ''real_token_reserves'' fs (pfc_RealTokenReserves z)),
     pfc_TokenTotalSupply = fst (dec_field st_str ''token_total_supply'' fs (pfc_TokenTotalSupply z)),
     pfc_IsMayhemMode = fst (dec_field st_bool ''is_mayhem_mode'' fs (pfc_IsMayhemMode z)),
     pfc_IsCashbackEnabled = fst (dec_field st_bool ''is_cashback_enabled'' fs (pfc_IsCashbackEnabled z)),
     pfc_MintDecimals = fst (dec_field (st_ouint 4294967296) ''mint_decimals'' fs (pfc_MintDecimals z)) \<rparr>,
     snd (dec_field st_str ''ix_name'' fs (pfc_IxName z)) \<and>
     snd (dec_field st_str ''mint'' fs (pfc_Mint z)) \<and>
     snd (dec_field st_str ''bonding_curve'' fs (pfc_BondingCurve z)) \<and>
     snd (dec_field st_str ''user'' fs (pfc_User z)) \<and>
     snd (dec_field st_str ''creator'' fs (pfc_Creator z)) \<and>
     snd (dec_field st_str ''name'' fs (pfc_Name z)) \<and>
     snd (dec_field st_str ''symbol'' fs (pfc_Symbol z)) \<and>
     snd (dec_field st_str ''uri'' fs (pfc_URI z)) \<and>
     snd (dec_field st_str ''token_program'' fs (pfc_TokenProgram z)) \<and>
     snd (dec_field st_str ''virtual_token_reserves'' fs (pfc_VirtualTokenReserves z)) \<and>
     snd (dec_field st_str ''virtual_sol_reserves'' fs (pfc_VirtualSolReserves z)) \<and>
     snd (dec_field st_str ''real_token_reserves'' fs (pfc_RealTokenReserves z)) \<and>
     snd (dec_field st_str ''token_total_supply'' fs (pfc_TokenTotalSupply z)) \<and>
     snd (dec_field st_bool ''is_mayhem_mode'' fs (pfc_IsMayhemMode z)) \<and>
     snd (dec_field st_bool ''is_cashback_enabled'' fs (pfc_IsCashbackEnabled z)) \<and>
     snd (dec_field (st_ouint 4294967296) ''mint_decimals'' fs (pfc_MintDecimals z)))"

definition dec_PumpfunMigratePayload :: "(string \<times> json) list \<Rightarrow> PumpfunMigratePayload \<Rightarrow> PumpfunMigratePayload \<times> bool" where
  "dec_PumpfunMigratePayload fs z = (\<lparr>
     pfm_Mint = fst (dec_field st_str ''mint'' fs (pfm_Mint z)),
     pfm_User = fst (dec_field st_str ''user'' fs (pfm_User z)),
     pfm_BondingCurve = fst (dec_field st_str ''bonding_curve'' fs (pfm_BondingCurve z)),
     pfm_Pool = fst (dec_field st_str ''pool'' fs (pfm_Pool z)),
     pfm_MintAmount = fst (dec_field st_str ''mint_amount'' fs (pfm_MintAmount z)),
     pfm_SolAmount = fst (dec_field st_str ''sol_amount'' fs (pfm_SolAmount z)),
     pfm_PoolMigrationFee = fst (dec_field st_str ''pool_migration_fee'' fs (pfm_PoolMigrationFee z)),
     pfm_WithdrawAuthority = fst (dec_field st_str ''withdraw_authority'' fs (pfm_WithdrawAuthority z)),
     pfm_AssociatedBondingCurve = fst (dec_field st_str ''associated_bonding_curve'' fs (pfm_AssociatedBondingCurve z)),
     pfm_TokenProgram = fst (dec_field st_str ''token_program'' fs (pfm_TokenProgram z)),
     pfm_PumpAmm = fst (dec_field st_str ''pump_amm'' fs (pfm_PumpAmm z)),
     pfm_PoolAuthority = fst (dec_field st_str ''pool_authority'' fs (pfm_PoolAuthority z)),
     pfm_LPMint = fst (dec_field st_str ''lp_mint'' fs (pfm_LPMint z)) \<rparr>,
     snd (dec_field st_str ''mint'' fs (pfm_Mint z)) \<and>
     snd (dec_field st_str ''user'' fs (pfm_User z)) \<and>
     snd (dec_field st_str ''bonding_curve'' fs (pfm_BondingCurve z)) \<and>
     snd (dec_field st_str ''pool'' fs (pfm_Pool z)) \<and>
     snd (dec_field st_str ''mint_amount'' fs (pfm_MintAmount z)) \<and>
     snd (dec_field st_str ''sol_amount'' fs (pfm_SolAmount z)) \<and>
     snd (dec_field st_str ''pool_migration_fee'' fs (pfm_PoolMigrationFee z)) \<and>
     snd (dec_field st_str ''withdraw_authority'' fs (pfm_WithdrawAuthority z)) \<and>
     snd (dec_field st_str ''associated_bonding_curve'' fs (pfm_AssociatedBondingCurve z)) \<and>
     snd (dec_field st_str ''token_program'' fs (pfm_TokenProgram z)) \<and>
     snd (dec_field st_str ''pump_amm'' fs (pfm_PumpAmm z)) \<and>
     snd (dec_field st_str ''pool_authority'' fs (pfm_PoolAuthority z)) \<and>
     snd (dec_field st_str ''lp_mint'' fs (pfm_LPMint z)))"

definition dec_PumpAmmSwapInstructionArgs :: "(string \<times> json) list \<Rightarrow> PumpAmmSwapInstructionArgs \<Rightarrow> PumpAmmSwapInstructionArgs \<times> bool" where
  "dec_PumpAmmSwapInstructionArgs fs z = (\<lparr>
     pasa_BaseAmountIn = fst (dec_field st_ostr ''base_amount_in'' fs (pasa_BaseAmountIn z)),
     pasa_MinQuoteAmountOut = fst (dec_field st_ostr ''min_quote_amount_out'' fs (pasa_MinQuoteAmountOut z)),
     pasa_BaseAmountOut = fst (dec_field st_ostr ''base_amount_out'' fs (pasa_BaseAmountOut z)),
     pasa_MaxQuoteAmountIn = fst (dec_field st_ostr ''max_quote_amount_in'' fs (pasa_MaxQuoteAmountIn z)),
     pasa_SpendableQuoteIn = fst (dec_field st_ostr ''spendable_quote_in'' fs (pasa_SpendableQuoteIn z)),
     pasa_MinBaseAmountOut = fst (dec_field st_ostr ''min_base_amount_out'' fs (pasa_MinBaseAmountOut z)) \<rparr>,
     snd (dec_field st_ostr ''base_amount_in'' fs (pasa_BaseAmountIn z)) \<and>
     snd (dec_field st_ostr ''min_quote_amount_out'' fs (pasa_MinQuoteAmountOut z)) \<and>
     snd (dec_field st_ostr ''base_amount_out'' fs (pasa_BaseAmountOut z)) \<and>
     snd (dec_field st_ostr ''max_quote_amount_in'' fs (pasa_MaxQuoteAmountIn z)) \<and>
     snd (dec_field st_ostr ''spendable_quote_in'' fs (pasa_SpendableQuoteIn z)) \<and>
     snd (dec_field st_ostr ''min_base_amount_out'' fs (pasa_MinBaseAmountOut z)))"

definition dec_PumpAmmSwapPayload :: "(string \<times> json) list \<Rightarrow> PumpAmmSwapPayload \<Rightarrow> PumpAmmSwapPayload \<times> bool" where
  "dec_PumpAmmSwapPayload fs z = (\<lparr>
     pas_Side = fst (dec_field st_str ''side'' fs (pas_Side z)),
     pas_IxName = fst (dec_field st_str ''ix_name'' fs (pas_IxName z)),
     pas_Pool = fst (dec_field st_str ''pool'' fs (pas_Pool z)),
     pas_User = fst (dec_field st_str ''user'' fs (pas_User z)),
     pas_BaseMint = fst (dec_field st_str ''base_mint'' fs (pas_BaseMint z)),
     pas_QuoteMint = fst (dec_field st_str ''quote_mint'' fs (pas_QuoteMint z)),
     pas_CoinCreator = fst (dec_field st_str ''coin_creator'' fs (pas_CoinCreator z)),
     pas_BaseAmountIn = fst (dec_field st_ostr ''base_amount_in'' fs (pas_BaseAmountIn z)),
     pas_BaseAmountOut = fst (dec_field st_ostr ''base_amount_out'' fs (pas_BaseAmountOut z)),
     pas_QuoteAmountIn = fst (dec_field st_ostr ''quote_amount_in'' fs (pas_QuoteAmountIn z)),
     pas_QuoteAmountOut = fst (dec_field st_ostr ''quote_amount_out'' fs (pas_QuoteAmountOut z)),
     pas_LpFee = fst (dec_field st_str ''lp_fee'' fs (pas_LpFee z)),
     pas_ProtocolFee = fst (dec_field st_str ''protocol_fee'' fs (pas_ProtocolFee z)),
     pas_CoinCreatorFee = fst (dec_field st_str ''coin_creator_fee'' fs (pas_CoinCreatorFee z)),
     pas_Cashback = fst (dec_field st_str ''cashback'' fs (pas_Cashback z)),
     pas_PoolBaseTokenReserves = fst (dec_field st_str ''pool_base_token_reserves'' fs (pas_PoolBaseTokenReserves z)),
     pas_PoolQuoteTokenReserves = fst (dec_field st_str ''pool_quote_token_reserves'' fs (pas_PoolQuoteTokenReserves z)),
     pas_InstructionArgs = fst (dec_field (st_struct dec_PumpAmmSwapInstructionArgs) ''instruction_args'' fs (pas_InstructionArgs z)) \<rparr>,
     snd (dec_field st_str ''side'' fs (pas_Side z)) \<and>
     snd (dec_field st_str ''ix_name'' fs (pas_IxName z)) \<and>
     snd (dec_field st_str ''pool'' fs (pas_Pool z)) \<and>
     snd (dec_field st_str ''user'' fs (pas_User z)) \<and>
     snd (dec_field st_str ''base_mint'' fs (pas_BaseMint z)) \<and>
     snd (dec_field st_str ''quote_mint'' fs (pas_QuoteMint z)) \<and>
     snd (dec_field st_str ''coin_creator'' fs (pas_CoinCreator z)) \<and>
     snd (dec_field st_ostr ''base_amount_in'' fs (pas_BaseAmountIn z)) \<and>
     snd (dec_field st_ostr ''base_amount_out'' fs (pas_BaseAmountOut z)) \<and>
     snd (dec_field st_ostr ''quote_amount_in'' fs (pas_QuoteAmountIn z)) \<and>
     snd (dec_field st_ostr ''quote_amount_out'' fs (pas_QuoteAmountOut z)) \<and>
     snd (dec_field st_str ''lp_fee'' fs (pas_LpFee z)) \<and>
     snd (dec_field st_str ''protocol_fee'' fs (pas_ProtocolFee z)) \<and>
     snd (dec_field st_str ''coin_creator_fee'' fs (pas_CoinCreatorFee z)) \<and>
     snd (dec_field st_str ''cashback'' fs (pas_Cashback z)) \<and>
     snd (dec_field st_str ''pool_base_token_reserves'' fs (pas_PoolBaseTokenReserves z)) \<and>
     snd (dec_field st_str ''pool_quote_token_reserves'' fs (pas_PoolQuoteTokenReserves z)) \<and>
     snd (dec_field (st_struct dec_PumpAmmSwapInstructionArgs) ''instruction_args'' fs (pas_InstructionArgs z)))"

definition dec_PumpAmmCreatePoolInstructionArgs :: "(string \<times> json) list \<Rightarrow> PumpAmmCreatePoolInstructionArgs \<Rightarrow> PumpAmmCreatePoolInstructionArgs \<times> bool" where
  "dec_PumpAmmCreatePoolInstructionArgs fs z = (\<lparr>
     papa_Index = fst (dec_field (st_uint 65536) ''index'' fs (papa_Index z)),
     papa_CoinCreator = fst (dec_field st_str ''coin_creator'' fs (papa_CoinCreator z)),
     papa_IsMayhemMode = fst (dec_field st_bool ''is_mayhem_mode'' fs (papa_IsMayhemMode z)),
     papa_IsCashbackCoin = fst (dec_field st_obool ''is_cashback_coin'' fs (papa_IsCashbackCoin z)) \<rparr>,
     snd (dec_field (st_uint 65536) ''index'' fs (papa_Index z)) \<and>
     snd (dec_field st_str ''coin_creator'' fs (papa_CoinCreator z)) \<and>
     snd (dec_field st_bool ''is_mayhem_mode'' fs (papa_IsMayhemMode z)) \<and>
     snd (dec_field st_obool ''is_cashback_coin'' fs (papa_IsCashbackCoin z)))"

definition dec_PumpAmmCreatePoolPayload :: "(string \<times> json) list \<Rightarrow> PumpAmmCreatePoolPayload \<Rightarrow> PumpAmmCreatePoolPayload \<times> bool" where
  "dec_PumpAmmCreatePoolPayload fs z = (\<lparr>
     pap_Pool = fst (dec_field st_str ''pool'' fs (pap_Pool z)),
     pap_Creator = fst (dec_field st_str ''creator'' fs (pap_Creator z)),
     pap_BaseMint = fst (dec_field st_str ''base_mint'' fs (pap_BaseMint z)),
     pap_QuoteMint = fst (dec_field st_str ''quote_mint'' fs (pap_QuoteMint z)),
     pap_LPMint = fst (dec_field st_str ''lp_mint'' fs (pap_LPMint z)),
     pap_BaseAmountIn = fst (dec_field st_str ''base_amount_in'' fs (pap_BaseAmountIn z)),
     pap_QuoteAmountIn = fst (dec_field st_str ''quote_amount_in'' fs (pap_QuoteAmountIn z)),
     pap_InitialLiquidity = fst (dec_field st_str ''initial_liquidity'' fs (pap_InitialLiquidity z)),
     pap_CoinCreator = fst (dec_field st_str ''coin_creator'' fs (pap_CoinCreator z)),
     pap_IsMayhemMode = fst (dec_field st_bool ''is_mayhem_mode'' fs (pap_IsMayhemMode z)),
     pap_InstructionArgs = fst (dec_field (st_struct dec_PumpAmmCreatePoolInstructionArgs) ''instruction_args'' fs (pap_InstructionArgs z)),
     pap_BaseMintDecimals = fst (dec_field (st_uint 4294967296) ''base_mint_decimals'' fs (pap_BaseMintDecimals z)),
     pap_QuoteMintDecimals = fst (dec_field (st_uint 4294967296) ''quote_mint_decimals'' fs (pap_QuoteMintDecimals z)) \<rparr>,
     snd (dec_field st_str ''pool'' fs (pap_Pool z)) \<and>
     snd (dec_field st_str ''creator'' fs (pap_Creator z)) \<and>
     snd (dec_field st_str ''base_mint'' fs (pap_BaseMint z)) \<and>
     snd (dec_field st_str ''quote_mint'' fs (pap_QuoteMint z)) \<and>
     snd (dec_field st_str ''lp_mint'' fs (pap_LPMint z)) \<and>
     snd (dec_field st_str ''base_amount_in'' fs (pap_BaseAmountIn z)) \<and>
     snd (dec_field st_str ''quote_amount_in'' fs (pap_QuoteAmountIn z)) \<and>
     snd (dec_field st_str ''initial_liquidity'' fs (pap_InitialLiquidity z)) \<and>
     snd (dec_field st_str ''coin_creator'' fs (pap_CoinCreator z)) \<and>
     snd (dec_field st_bool ''is_mayhem_mode'' fs (pap_IsMayhemMode z)) \<and>
     snd (dec_field (st_struct dec_PumpAmmCreatePoolInstructionArgs) ''instruction_args'' fs (pap_InstructionArgs z)) \<and>
     snd (dec_field (st_uint 4294967296) ''base_mint_decimals'' fs (pap_BaseMintDecimals z)) \<and>
     snd (dec_field (st_uint 4294967296) ''quote_mint_decimals'' fs (pap_QuoteMintDecimals z)))"

definition dec_PumpAmmLiquidityInstructionArgs :: "(string \<times> json) list \<Rightarrow> PumpAmmLiquidityInstructionArgs \<Rightarrow> PumpAmmLiquidityInstructionArgs \<times> bool" where
  "dec_PumpAmmLiquidityInstructionArgs fs z = (\<lparr>
     pala_LPTokenAmountIn = fst (dec_field st_ostr ''lp_token_amount_in'' fs (pala_LPTokenAmountIn z)),
     pala_LPTokenAmountOut = fst (dec_field st_ostr ''lp_token_amount_out'' fs (pala_LPTokenAmountOut z)),
     pala_MaxBaseAmountIn = fst (dec_field st_ostr ''max_base_amount_in'' fs (pala_MaxBaseAmountIn z)),
     pala_MaxQuoteAmountIn = fst (dec_field st_ostr ''max_quote_amount_in'' fs (pala_MaxQuoteAmountIn z)),
     pala_MinBaseAmountOut = fst (dec_field st_ostr ''min_base_amount_out'' fs (pala_MinBaseAmountOut z)),
     pala_MinQuoteAmountOut = fst (dec_field st_ostr ''min_quote_amount_out'' fs (pala_MinQuoteAmountOut z)) \<rparr>,
     snd (dec_field st_ostr ''lp_token_amount_in'' fs (pala_LPTokenAmountIn z)) \<and>
     snd (dec_field st_ostr ''lp_token_amount_out'' fs (pala_LPTokenAmountOut z)) \<and>
     snd (dec_field st_ostr ''max_base_amount_in'' fs (pala_MaxBaseAmountIn z)) \<and>
     snd (dec_field st_ostr ''max_quote_amount_in'' fs (pala_MaxQuoteAmountIn z)) \<and>
     snd (dec_field st_ostr ''min_base_amount_out'' fs (pala_MinBaseAmountOut z)) \<and>
     snd (dec_field st_ostr ''min_quote_amount_out'' fs (pala_MinQuoteAmountOut z)))"

definition dec_PumpAmmLiquidityPayload :: "(string \<times> json) list \<Rightarrow> PumpAmmLiquidityPayload \<Rightarrow> PumpAmmLiquidityPayload \<times> bool" where
  "dec_PumpAmmLiquidityPayload fs z = (\<lparr>
     pal_Action = fst (dec_field st_str ''action'' fs (pal_Action z)),
     pal_Pool = fst (dec_field st_str ''pool'' fs (pal_Pool z)),
     pal_User = fst (dec_field st_str ''user'' fs (pal_User z)),
     pal_BaseMint = fst (dec_field st_str ''base_mint'' fs (pal_BaseMint z)),
     pal_QuoteMint = fst (dec_field st_str ''quote_mint'' fs (pal_QuoteMint z)),
     pal_LPMint = fst (dec_field st_str ''lp_mint'' fs (pal_LPMint z)),
     pal_LPTokenAmountIn = fst (dec_field st_ostr ''lp_token_amount_in'' fs (pal_LPTokenAmountIn z)),
     pal_LPTokenAmountOut = fst (dec_field st_ostr ''lp_token_amount_out'' fs (pal_LPTokenAmountOut z)),
     pal_BaseAmountIn = fst (dec_field st_ostr ''base_amount_in'' fs (pal_BaseAmountIn z)),
     pal_QuoteAmountIn = fst (dec_field st_ostr ''quote_amount_in'' fs (pal_QuoteAmountIn z)),
     pal_BaseAmountOut = fst (dec_field st_ostr ''base_amount_out'' fs (pal_BaseAmountOut z)),
     pal_QuoteAmountOut = fst (dec_field st_ostr ''quote_amount_out'' fs (pal_QuoteAmountOut z)),
     pal_LPMintSupply = fst (dec_field st_str ''lp_mint_supply'' fs (pal_LPMintSupply z)),
     pal_InstructionArgs = fst (dec_field (st_struct dec_PumpAmmLiquidityInstructionArgs) ''instruction_args'' fs (pal_InstructionArgs z)) \<rparr>,
     snd (dec_field st_str ''action'' fs (pal_Action z)) \<and>
     snd (dec_field st_str ''pool'' fs (pal_Pool z)) \<and>
     snd (dec_field st_str ''user'' fs (pal_User z)) \<and>
     snd (dec_field st_str ''base_mint'' fs (pal_BaseMint z)) \<and>
     snd (dec_field st_str ''quote_mint'' fs (pal_QuoteMint z)) \<and>
     snd (dec_field st_str ''lp_mint'' fs (pal_LPMint z)) \<and>
     snd (dec_field st_ostr ''lp_token_amount_in'' fs (pal_LPTokenAmountIn z)) \<and>
     snd (dec_field st_ostr ''lp_token_amount_out'' fs (pal_LPTokenAmountOut z)) \<and>
     snd (dec_field st_ostr ''base_amount_in'' fs (pal_BaseAmountIn z)) \<and>
     snd (dec_field st_ostr ''quote_amount_in'' fs (pal_QuoteAmountIn z)) \<and>
     snd (dec_field st_ostr ''base_amount_out'' fs (pal_BaseAmountOut z)) \<and>
     snd (dec_field st_ostr ''quote_amount_out'' fs (pal_QuoteAmountOut z)) \<and>
     snd (dec_field st_str ''lp_mint_supply'' fs (pal_LPMintSupply z)) \<and>
     snd (dec_field (st_struct dec_PumpAmmLiquidityInstructionArgs) ''instruction_args'' fs (pal_InstructionArgs z)))"

definition dec_EventRefs :: "(string \<times> json) list \<Rightarrow> EventRefs \<Rightarrow> EventRefs \<times> bool" where
  "dec_EventRefs fs z = (\<lparr>
     er_Mint = fst (dec_field st_ostr ''mint'' fs (er_Mint z)),
     er_Pool = fst (dec_field st_ostr ''pool'' fs (er_Pool z)),
     er_BondingCurve = fst (dec_field st_ostr ''bonding_curve'' fs (er_BondingCurve z)),
     er_User = fst (dec_field st_ostr ''user'' fs (er_User z)),
     er_Creator = fst (dec_field st_ostr ''creator'' fs (er_Creator z)),
     er_BaseMint = fst (dec_field st_ostr ''base_mint'' fs (er_BaseMint z)),
     er_QuoteMint = fst (dec_field st_ostr ''quote_mint'' fs (er_QuoteMint z)),
     er_LPMint = fst (dec_field st_ostr ''lp_mint'' fs (er_LPMint z)) \<rparr>,
     snd (dec_field st_ostr ''mint'' fs (er_Mint z)) \<and>
     snd (dec_field st_ostr ''pool'' fs (er_Pool z)) \<and>
     snd (dec_field st_ostr ''bonding_curve'' fs (er_BondingCurve z)) \<and>
     snd (dec_field st_ostr ''user'' fs (er_User z)) \<and>
     snd (dec_field st_ostr ''creator'' fs (er_Creator z)) \<and>
     snd (dec_field st_ostr ''base_mint'' fs (er_BaseMint z)) \<and>
     snd (dec_field st_ostr ''quote_mint'' fs (er_QuoteMint z)) \<and>
     snd (dec_field st_ostr ''lp_mint'' fs (er_LPMint z)))"

section \<open>Reading what was written\<close>

text \<open>The unsigned fields hold values of their width.\<close>

definition wf_PumpfunCreatePayload :: "PumpfunCreatePayload \<Rightarrow> bool" where
  "wf_PumpfunCreatePayload p \<longleftrightarrow> (\<forall>d. pfc_MintDecimals p = Some d \<longrightarrow> 0 \<le> d \<and> d < 4294967296)"

definition wf_PumpAmmCreatePoolInstructionArgs :: "PumpAmmCreatePoolInstructionArgs \<Rightarrow> bool" where
  "wf_PumpAmmCreatePoolInstructionArgs p \<longleftrightarrow> 0 \<le> papa_Index p \<and> papa_Index p < 65536"

definition wf_PumpAmmCreatePoolPayload :: "PumpAmmCreatePoolPayload \<Rightarrow> bool" where
  "wf_PumpAmmCreatePoolPayload p \<longleftrightarrow> wf_PumpAmmCreatePoolInstructionArgs (pap_InstructionArgs p) \<and> 0 \<le> pap_BaseMintDecimals p \<and> pap_BaseMintDecimals p < 4294967296 \<and> 0 \<le> pap_QuoteMintDecimals p \<and> pap_QuoteMintDecimals p < 4294967296"

lemma lower_key_lits:
  "lower_key ''action''"
  "lower_key ''amount''"
  "lower_key ''associated_bonding_curve''"
  "lower_key ''base_amount_in''"
  "lower_key ''base_amount_out''"
  "lower_key ''base_mint''"
  "lower_key ''base_mint_decimals''"
  "lower_key ''bonding_curve''"
  "lower_key ''cashback''"
  "lower_key ''coin_creator''"
  "lower_key ''coin_creator_fee''"
  "lower_key ''creator''"
  "lower_key ''creator_fee''"
  "lower_key ''creator_vault''"
  "lower_key ''fee''"
  "lower_key ''index''"
  "lower_key ''initial_liquidity''"
  "lower_key ''instruction_args''"
  "lower_key ''is_cashback_coin''"
  "lower_key ''is_cashback_enabled''"
  "lower_key ''is_mayhem_mode''"
  "lower_key ''ix_name''"
  "lower_key ''lp_fee''"
  "lower_key ''lp_mint''"
  "lower_key ''lp_mint_supply''"
  "lower_key ''lp_token_amount_in''"
  "lower_key ''lp_token_amount_out''"
  "lower_key ''max_base_amount_in''"
  "lower_key ''max_quote_amount_in''"
  "lower_key ''max_sol_cost''"
  "lower_key ''mayhem_mode''"
  "lower_key ''min_base_amount_out''"
  "lower_key ''min_quote_amount_out''"
  "lower_key ''min_sol_output''"
  "lower_key ''min_tokens_out''"
  "lower_key ''mint''"
  "lower_key ''mint_amount''"
  "lower_key ''mint_decimals''"
  "lower_key ''name''"
  "lower_key ''pool''"
  "lower_key ''pool_authority''"
  "lower_key ''pool_base_token_reserves''"
  "lower_key ''pool_migration_fee''"
  "lower_key ''pool_quote_token_reserves''"
  "lower_key ''protocol_fee''"
  "lower_key ''pump_amm''"
  "lower_key ''quote_amount_in''"
  "lower_key ''quote_amount_out''"
  "lower_key ''quote_mint''"
  "lower_key ''quote_mint_decimals''"
  "lower_key ''real_sol_reserves''"
  "lower_key ''real_token_reserves''"
  "lower_key ''side''"
  "lower_key ''sol_amount''"
  "lower_key ''spendable_quote_in''"
  "lower_key ''spendable_sol_in''"
  "lower_key ''symbol''"
  "lower_key ''token_amount''"
  "lower_key ''token_program''"
  "lower_key ''token_total_supply''"
  "lower_key ''track_volume''"
  "lower_key ''uri''"
  "lower_key ''user''"
  "lower_key ''virtual_sol_reserves''"
  "lower_key ''virtual_token_reserves''"
  "lower_key ''withdraw_authority''"
  by code_simp+

definition keys_PumpfunTradeInstructionArgs :: "string list" where
  "keys_PumpfunTradeInstructionArgs = [
     ''amount'', ''max_sol_cost'', ''min_sol_output'', ''spendable_sol_in'', ''min_tokens_out'']"

lemma lower_keys_PumpfunTradeInstructionArgs [simp]: "list_all lower_key keys_PumpfunTradeInstructionArgs"
  by code_simp

lemma distinct_keys_PumpfunTradeInstructionArgs [simp]: "distinct keys_PumpfunTradeInstructionArgs"
  by code_simp

lemma fields_keys_PumpfunTradeInstructionArgs: "map fst (fields_PumpfunTradeInstructionArgs p) = keys_PumpfunTradeInstructionArgs"
  by (simp add: fields_PumpfunTradeInstructionArgs_def keys_PumpfunTradeInstructionArgs_def)

definition keys_PumpfunTradePayload :: "string list" where
  "keys_PumpfunTradePayload = [
     ''side'', ''ix_name'', ''mint'', ''user'', ''bonding_curve'',
     ''associated_bonding_curve'', ''creator'', ''creator_vault'', ''token_program'',
     ''sol_amount'', ''token_amount'', ''fee'', ''creator_fee'', ''virtual_sol_reserves'',
     ''virtual_token_reserves'', ''real_sol_reserves'', ''real_token_reserves'',
     ''track_volume'', ''mayhem_mode'', ''cashback'', ''instruction_args'']"

lemma lower_keys_PumpfunTradePayload [simp]: "list_all lower_key keys_PumpfunTradePayload"
  by code_simp

lemma distinct_keys_PumpfunTradePayload [simp]: "distinct keys_PumpfunTradePayload"
  by code_simp

lemma fields_keys_PumpfunTradePayload: "map fst (fields_PumpfunTradePayload p) = keys_PumpfunTradePayload"
  by (simp add: fields_PumpfunTradePayload_def keys_PumpfunTradePayload_def)

definition keys_PumpfunCreatePayload :: "string list" where
  "keys_PumpfunCreatePayload = [
     ''ix_name'', ''mint'', ''bonding_curve'', ''user'', ''creator'', ''name'', ''symbol'',
     ''uri'', ''token_program'', ''virtual_token_reserves'', ''virtual_sol_reserves'',
     ''real_token_reserves'', ''token_total_supply'', ''is_mayhem_mode'',
     ''is_cashback_enabled'', ''mint_decimals'']"

lemma lower_keys_PumpfunCreatePayload [simp]: "list_all lower_key keys_PumpfunCreatePayload"
  by code_simp

lemma distinct_keys_PumpfunCreatePayload [simp]: "distinct keys_PumpfunCreatePayload"
  by code_simp

lemma fields_keys_PumpfunCreatePayload:
  "map fst (fields_PumpfunCreatePayload p) = (case pfc_MintDecimals p of None \<Rightarrow> butlast keys_PumpfunCreatePayload | Some _ \<Rightarrow> keys_PumpfunCreatePayload)"
  by (simp add: fields_PumpfunCreatePayload_def keys_PumpfunCreatePayload_def split: option.splits)

definition keys_PumpfunMigratePayload :: "string list" where
  "keys_PumpfunMigratePayload = [
     ''mint'', ''user'', ''bonding_curve'', ''pool'', ''mint_amount'', ''sol_amount'',
     ''pool_migration_fee'', ''withdraw_authority'', ''associated_bonding_curve'',
     ''token_program'', ''pump_amm'', ''pool_authority'', ''lp_mint'']"

lemma lower_keys_PumpfunMigratePayload [simp]: "list_all lower_key keys_PumpfunMigratePayload"
  by code_simp

lemma distinct_keys_PumpfunMigratePayload [simp]: "distinct keys_PumpfunMigratePayload"
  by code_simp

lemma fields_keys_PumpfunMigratePayload: "map fst (fields_PumpfunMigratePayload p) = keys_PumpfunMigratePayload"
  by (simp add: fields_PumpfunMigratePayload_def keys_PumpfunMigratePayload_def)

definition keys_PumpAmmSwapInstructionArgs :: "string list" where
  "keys_PumpAmmSwapInstructionArgs = [
     ''base_amount_in'', ''min_quote_amount_out'', ''base_amount_out'',
     ''max_quote_amount_in'', ''spendable_quote_in'', ''min_base_amount_out'']"

lemma lower_keys_PumpAmmSwapInstructionArgs [simp]: "list_all lower_key keys_PumpAmmSwapInstructionArgs"
  by code_simp

lemma distinct_keys_PumpAmmSwapInstructionArgs [simp]: "distinct keys_PumpAmmSwapInstructionArgs"
  by code_simp

lemma fields_keys_PumpAmmSwapInstructionArgs: "map fst (fields_PumpAmmSwapInstructionArgs p) = keys_PumpAmmSwapInstructionArgs"
  by (simp add: fields_PumpAmmSwapInstructionArgs_def keys_PumpAmmSwapInstructionArgs_def)

definition keys_PumpAmmSwapPayload :: "string list" where
  "keys_PumpAmmSwapPayload = [
     ''side'', ''ix_name'', ''pool'', ''user'', ''base_mint'', ''quote_mint'',
     ''coin_creator'', ''base_amount_in'', ''base_amount_out'', ''quote_amount_in'',
     ''quote_amount_out'', ''lp_fee'', ''protocol_fee'', ''coin_creator_fee'', ''cashback'',
     ''pool_base_token_reserves'', ''pool_quote_token_reserves'', ''instruction_args'']"

lemma lower_keys_PumpAmmSwapPayload [simp]: "list_all lower_key keys_PumpAmmSwapPayload"
  by code_simp

lemma distinct_keys_PumpAmmSwapPayload [simp]: "distinct keys_PumpAmmSwapPayload"
  by code_simp

lemma fields_keys_PumpAmmSwapPayload: "map fst (fields_PumpAmmSwapPayload p) = keys_PumpAmmSwapPayload"
  by (simp add: fields_PumpAmmSwapPayload_def keys_PumpAmmSwapPayload_def)

definition keys_PumpAmmCreatePoolInstructionArgs :: "string list" where
  "keys_PumpAmmCreatePoolInstructionArgs = [
     ''index'', ''coin_creator'', ''is_mayhem_mode'', ''is_cashback_coin'']"

lemma lower_keys_PumpAmmCreatePoolInstructionArgs [simp]: "list_all lower_key keys_PumpAmmCreatePoolInstructionArgs"
  by code_simp

lemma distinct_keys_PumpAmmCreatePoolInstructionArgs [simp]: "distinct keys_PumpAmmCreatePoolInstructionArgs"
  by code_simp

lemma fields_keys_PumpAmmCreatePoolInstructionArgs: "map fst (fields_PumpAmmCreatePoolInstructionArgs p) = keys_PumpAmmCreatePoolInstructionArgs"
  by (simp add: fields_PumpAmmCreatePoolInstructionArgs_def keys_PumpAmmCreatePoolInstructionArgs_def)

definition keys_PumpAmmCreatePoolPayload :: "string list" where
  "keys_PumpAmmCreatePoolPayload = [
     ''pool'', ''creator'', ''base_mint'', ''quote_mint'', ''lp_mint'', ''base_amount_in'',
     ''quote_amount_in'', ''initial_liquidity'', ''coin_creator'', ''is_mayhem_mode'',
     ''instruction_args'', ''base_mint_decimals'', ''quote_mint_decimals'']"

lemma lower_keys_PumpAmmCreatePoolPayload [simp]: "list_all lower_key keys_PumpAmmCreatePoolPayload"
  by code_simp

lemma distinct_keys_PumpAmmCreatePoolPayload [simp]: "distinct keys_PumpAmmCreatePoolPayload"
  by code_simp

lemma fields_keys_PumpAmmCreatePoolPayload: "map fst (fields_PumpAmmCreatePoolPayload p) = keys_PumpAmmCreatePoolPayload"
  by (simp add: fields_PumpAmmCreatePoolPayload_def keys_PumpAmmCreatePoolPayload_def)

definition keys_PumpAmmLiquidityInstructionArgs :: "string list" where
  "keys_PumpAmmLiquidityInstructionArgs = [
     ''lp_token_amount_in'', ''lp_token_amount_out'', ''max_base_amount_in'',
     ''max_quote_amount_in'', ''min_base_amount_out'', ''min_quote_amount_out'']"

lemma lower_keys_PumpAmmLiquidityInstructionArgs [simp]: "list_all lower_key keys_PumpAmmLiquidityInstructionArgs"
  by code_simp

lemma distinct_keys_PumpAmmLiquidityInstructionArgs [simp]: "distinct keys_PumpAmmLiquidityInstructionArgs"
  by code_simp

lemma fields_keys_PumpAmmLiquidityInstructionArgs: "map fst (fields_PumpAmmLiquidityInstructionArgs p) = keys_PumpAmmLiquidityInstructionArgs"
  by (simp add: fields_PumpAmmLiquidityInstructionArgs_def keys_PumpAmmLiquidityInstructionArgs_def)

definition keys_PumpAmmLiquidityPayload :: "string list" where
  "keys_PumpAmmLiquidityPayload = [
     ''action'', ''pool'', ''user'', ''base_mint'', ''quote_mint'', ''lp_mint'',
     ''lp_token_amount_in'', ''lp_token_amount_out'', ''base_amount_in'', ''quote_amount_in'',
     ''base_amount_out'', ''quote_amount_out'', ''lp_mint_supply'', ''instruction_args'']"

lemma lower_keys_PumpAmmLiquidityPayload [simp]: "list_all lower_key keys_PumpAmmLiquidityPayload"
  by code_simp

lemma distinct_keys_PumpAmmLiquidityPayload [simp]: "distinct keys_PumpAmmLiquidityPayload"
  by code_simp

lemma fields_keys_PumpAmmLiquidityPayload: "map fst (fields_PumpAmmLiquidityPayload p) = keys_PumpAmmLiquidityPayload"
  by (simp add: fields_PumpAmmLiquidityPayload_def keys_PumpAmmLiquidityPayload_def)

definition keys_EventRefs :: "string list" where
  "keys_EventRefs = [
     ''mint'', ''pool'', ''bonding_curve'', ''user'', ''creator'', ''base_mint'',
     ''quote_mint'', ''lp_mint'']"

lemma lower_keys_EventRefs [simp]: "list_all lower_key keys_EventRefs"
  by code_simp

lemma distinct_keys_EventRefs [simp]: "distinct keys_EventRefs"
  by code_simp

lemma fields_keys_EventRefs: "map fst (fields_EventRefs p) = keys_EventRefs"
  by (simp add: fields_EventRefs_def keys_EventRefs_def)

lemma plain_PumpfunTradeInstructionArgs [simp]: "plain_keys (fields_PumpfunTradeInstructionArgs p)"
  by (simp add: plain_keys_def fields_keys_PumpfunTradeInstructionArgs)

lemma plain_PumpfunTradePayload [simp]: "plain_keys (fields_PumpfunTradePayload p)"
  by (simp add: plain_keys_def fields_keys_PumpfunTradePayload)

lemma plain_PumpfunCreatePayload [simp]: "plain_keys (fields_PumpfunCreatePayload p)"
proof -
  have "list_all lower_key (butlast keys_PumpfunCreatePayload)" "distinct (butlast keys_PumpfunCreatePayload)"
    using lower_keys_PumpfunCreatePayload distinct_keys_PumpfunCreatePayload
    by (auto simp: list_all_iff distinct_butlast dest: in_set_butlastD)
  then show ?thesis
    by (simp add: plain_keys_def fields_keys_PumpfunCreatePayload split: option.splits)
qed

lemma plain_PumpfunMigratePayload [simp]: "plain_keys (fields_PumpfunMigratePayload p)"
  by (simp add: plain_keys_def fields_keys_PumpfunMigratePayload)

lemma plain_PumpAmmSwapInstructionArgs [simp]: "plain_keys (fields_PumpAmmSwapInstructionArgs p)"
  by (simp add: plain_keys_def fields_keys_PumpAmmSwapInstructionArgs)

lemma plain_PumpAmmSwapPayload [simp]: "plain_keys (fields_PumpAmmSwapPayload p)"
  by (simp add: plain_keys_def fields_keys_PumpAmmSwapPayload)

lemma plain_PumpAmmCreatePoolInstructionArgs [simp]: "plain_keys (fields_PumpAmmCreatePoolInstructionArgs p)"
  by (simp add: plain_keys_def fields_keys_PumpAmmCreatePoolInstructionArgs)

lemma plain_PumpAmmCreatePoolPayload [simp]: "plain_keys (fields_PumpAmmCreatePoolPayload p)"
  by (simp add: plain_keys_def fields_keys_PumpAmmCreatePoolPayload)

lemma plain_PumpAmmLiquidityInstructionArgs [simp]: "plain_keys (fields_PumpAmmLiquidityInstructionArgs p)"
  by (simp add: plain_keys_def fields_keys_PumpAmmLiquidityInstructionArgs)

lemma plain_PumpAmmLiquidityPayload [simp]: "plain_keys (fields_PumpAmmLiquidityPayload p)"
  by (simp add: plain_keys_def fields_keys_PumpAmmLiquidityPayload)

lemma plain_EventRefs [simp]: "plain_keys (fields_EventRefs p)"
  by (simp add: plain_keys_def fields_keys_EventRefs)

lemma rt_PumpfunTradeInstructionArgs:
  "dec_PumpfunTradeInstructionArgs (fields_PumpfunTradeInstructionArgs p) zero_PumpfunTradeInstructionArgs = (p, True)"
  unfolding dec_PumpfunTradeInstructionArgs_def
  by (simp add: dec_field_map_of lower_key_lits)
     (cases p; simp add: fields_PumpfunTradeInstructionArgs_def zero_PumpfunTradeInstructionArgs_def  )

lemma rt_PumpfunTradePayload:
  "dec_PumpfunTradePayload (fields_PumpfunTradePayload p) zero_PumpfunTradePayload = (p, True)"
  unfolding dec_PumpfunTradePayload_def
  by (simp add: dec_field_map_of lower_key_lits)
     (cases p; simp add: fields_PumpfunTradePayload_def zero_PumpfunTradePayload_def enc_PumpfunTradeInstructionArgs_def rt_PumpfunTradeInstructionArgs )

lemma rt_PumpfunCreatePayload:
  "wf_PumpfunCreatePayload p \<Longrightarrow> dec_PumpfunCreatePayload (fields_PumpfunCreatePayload p) zero_PumpfunCreatePayload = (p, True)"
  unfolding dec_PumpfunCreatePayload_def
  by (simp add: dec_field_map_of lower_key_lits)
     (cases p; simp add: fields_PumpfunCreatePayload_def zero_PumpfunCreatePayload_def  wf_PumpfunCreatePayload_def split: option.splits)

lemma rt_PumpfunMigratePayload:
  "dec_PumpfunMigratePayload (fields_PumpfunMigratePayload p) zero_PumpfunMigratePayload = (p, True)"
  unfolding dec_PumpfunMigratePayload_def
  by (simp add: dec_field_map_of lower_key_lits)
     (cases p; simp add: fields_PumpfunMigratePayload_def zero_PumpfunMigratePayload_def  )

lemma rt_PumpAmmSwapInstructionArgs:
  "dec_PumpAmmSwapInstructionArgs (fields_PumpAmmSwapInstructionArgs p) zero_PumpAmmSwapInstructionArgs = (p, True)"
  unfolding dec_PumpAmmSwapInstructionArgs_def
  by (simp add: dec_field_map_of lower_key_lits)
     (cases p; simp add: fields_PumpAmmSwapInstructionArgs_def zero_PumpAmmSwapInstructionArgs_def  )

lemma rt_PumpAmmSwapPayload:
  "dec_PumpAmmSwapPayload (fields_PumpAmmSwapPayload p) zero_PumpAmmSwapPayload = (p, True)"
  unfolding dec_PumpAmmSwapPayload_def
  by (simp add: dec_field_map_of lower_key_lits)
     (cases p; simp add: fields_PumpAmmSwapPayload_def zero_PumpAmmSwapPayload_def enc_PumpAmmSwapInstructionArgs_def rt_PumpAmmSwapInstructionArgs )

lemma rt_PumpAmmCreatePoolInstructionArgs:
  "wf_PumpAmmCreatePoolInstructionArgs p \<Longrightarrow> dec_PumpAmmCreatePoolInstructionArgs (fields_PumpAmmCreatePoolInstructionArgs p) zero_PumpAmmCreatePoolInstructionArgs = (p, True)"
  unfolding dec_PumpAmmCreatePoolInstructionArgs_def
  by (simp add: dec_field_map_of lower_key_lits)
     (cases p; simp add: fields_PumpAmmCreatePoolInstructionArgs_def zero_PumpAmmCreatePoolInstructionArgs_def  wf_PumpAmmCreatePoolInstructionArgs_def)

lemma rt_PumpAmmCreatePoolPayload:
  "wf_PumpAmmCreatePoolPayload p \<Longrightarrow> dec_PumpAmmCreatePoolPayload (fields_PumpAmmCreatePoolPayload p) zero_PumpAmmCreatePoolPayload = (p, True)"
  unfolding dec_PumpAmmCreatePoolPayload_def
  by (simp add: dec_field_map_of lower_key_lits)
     (cases p; simp add: fields_PumpAmmCreatePoolPayload_def zero_PumpAmmCreatePoolPayload_def enc_PumpAmmCreatePoolInstructionArgs_def rt_PumpAmmCreatePoolInstructionArgs wf_PumpAmmCreatePoolPayload_def)

lemma rt_PumpAmmLiquidityInstructionArgs:
  "dec_PumpAmmLiquidityInstructionArgs (fields_PumpAmmLiquidityInstructionArgs p) zero_PumpAmmLiquidityInstructionArgs = (p, True)"
  unfolding dec_PumpAmmLiquidityInstructionArgs_def
  by (simp add: dec_field_map_of lower_key_lits)
     (cases p; simp add: fields_PumpAmmLiquidityInstructionArgs_def zero_PumpAmmLiquidityInstructionArgs_def  )

lemma rt_PumpAmmLiquidityPayload:
  "dec_PumpAmmLiquidityPayload (fields_PumpAmmLiquidityPayload p) zero_PumpAmmLiquidityPayload = (p, True)"
  unfolding dec_PumpAmmLiquidityPayload_def
  by (simp add: dec_field_map_of lower_key_lits)
     (cases p; simp add: fields_PumpAmmLiquidityPayload_def zero_PumpAmmLiquidityPayload_def enc_PumpAmmLiquidityInstructionArgs_def rt_PumpAmmLiquidityInstructionArgs )

lemma rt_EventRefs:
  "dec_EventRefs (fields_EventRefs p) zero_EventRefs = (p, True)"
  unfolding dec_EventRefs_def
  by (simp add: dec_field_map_of lower_key_lits)
     (cases p; simp add: fields_EventRefs_def zero_EventRefs_def  )

end
