(* ===== verification/Events.thy ===== *)
theory Events
  imports Payloads
begin

text \<open>
  internal/events: the event envelope, its payload as the tagged union the type switches of the
  program run over, DecodePayload (decoder.go), EnvelopeWithPayload (envelope.go) and the
  conversion from the protobuf messages (from_proto.go). The messages of the generated package
  serviceeventpb are records with the fields of the structs; an enum is its number, since proto3
  enums are open.
\<close>

section \<open>Envelopes\<close>

record InstructionPath =
  ip_Source :: string
  ip_OuterIndex :: int
  ip_InnerIndex :: "int option"

record Envelope =
  ev_LogID :: int
  ev_SchemaVersion :: int
  ev_EventID :: string
  ev_Chain :: string
  ev_Protocol :: string
  ev_EventType :: string
  ev_Commitment :: string
  ev_Slot :: int
  ev_TxSignature :: string
  ev_TxIndex :: int
  ev_InstructionPath :: InstructionPath
  ev_EventSource :: string
  ev_EventUnixTS :: int
  ev_Refs :: EventRefs
  ev_Payload :: RawMessage

definition zero_InstructionPath :: InstructionPath where
  "zero_InstructionPath = \<lparr> ip_Source = '''', ip_OuterIndex = 0, ip_InnerIndex = None \<rparr>"

text \<open>The zero value Envelope{}.\<close>

definition zero_Envelope :: Envelope where
  "zero_Envelope = \<lparr>
     ev_LogID = 0, ev_SchemaVersion = 0, ev_EventID = '''', ev_Chain = '''', ev_Protocol = '''',
     ev_EventType = '''', ev_Commitment = '''', ev_Slot = 0, ev_TxSignature = '''', ev_TxIndex = 0,
     ev_InstructionPath = zero_InstructionPath, ev_EventSource = '''', ev_EventUnixTS = 0,
     ev_Refs = zero_EventRefs, ev_Payload = RawEmpty \<rparr>"

section \<open>Payloads\<close>

text \<open>
  The dynamic types an interface value holding a payload can have: the six payload structs, and
  anything else (\<open>OtherPayload\<close>, which includes the nil interface).
\<close>

datatype payload =
    PumpfunTrade PumpfunTradePayload
  | PumpfunCreate PumpfunCreatePayload
  | PumpfunMigrate PumpfunMigratePayload
  | PumpAmmSwap PumpAmmSwapPayload
  | PumpAmmCreatePool PumpAmmCreatePoolPayload
  | PumpAmmLiquidity PumpAmmLiquidityPayload
  | OtherPayload

definition enc_payload :: "payload \<Rightarrow> json" where
  "enc_payload p = (case p of
      PumpfunTrade x \<Rightarrow> enc_PumpfunTradePayload x
    | PumpfunCreate x \<Rightarrow> enc_PumpfunCreatePayload x
    | PumpfunMigrate x \<Rightarrow> enc_PumpfunMigratePayload x
    | PumpAmmSwap x \<Rightarrow> enc_PumpAmmSwapPayload x
    | PumpAmmCreatePool x \<Rightarrow> enc_PumpAmmCreatePoolPayload x
    | PumpAmmLiquidity x \<Rightarrow> enc_PumpAmmLiquidityPayload x
    | OtherPayload \<Rightarrow> JNull)"

definition DecodePayload :: "Envelope \<Rightarrow> payload res" where
  "DecodePayload event =
     (let p = ev_Protocol event; t = ev_EventType event; raw = ev_Payload event in
      if p = ''pumpfun'' \<and> t = ''trade'' then
        map_sum id PumpfunTrade (unmarshal_struct dec_PumpfunTradePayload zero_PumpfunTradePayload raw)
      else if p = ''pumpfun'' \<and> t = ''create'' then
        map_sum id PumpfunCreate (unmarshal_struct dec_PumpfunCreatePayload zero_PumpfunCreatePayload raw)
      else if p = ''pumpfun'' \<and> t = ''migrate'' then
        map_sum id PumpfunMigrate (unmarshal_struct dec_PumpfunMigratePayload zero_PumpfunMigratePayload raw)
      else if p = ''pumpamm'' \<and> t = ''swap'' then
        map_sum id PumpAmmSwap (unmarshal_struct dec_PumpAmmSwapPayload zero_PumpAmmSwapPayload raw)
      else if p = ''pumpamm'' \<and> t = ''create_pool'' then
        map_sum id PumpAmmCreatePool (unmarshal_struct dec_PumpAmmCreatePoolPayload zero_PumpAmmCreatePoolPayload raw)
      else if p = ''pumpamm'' \<and> t = ''deposit'' then
        map_sum id PumpAmmLiquidity (unmarshal_struct dec_PumpAmmLiquidityPayload zero_PumpAmmLiquidityPayload raw)
      else if p = ''pumpamm'' \<and> t = ''withdraw'' then
        map_sum id PumpAmmLiquidity (unmarshal_struct dec_PumpAmmLiquidityPayload zero_PumpAmmLiquidityPayload raw)
      else Inl (ErrMsg (''unsupported event type: '' @ p @ ''.'' @ t)))"

record DecodedEnvelope =
  de_Envelope :: Envelope
  de_Payload :: payload

text \<open>The payload is written into the envelope unless the envelope carries its bytes.\<close>

definition EnvelopeWithPayload :: "DecodedEnvelope \<Rightarrow> Envelope res" where
  "EnvelopeWithPayload d =
     (let envelope = de_Envelope d in
      if ev_Payload envelope \<noteq> RawEmpty then Inr envelope
      else if de_Payload d = OtherPayload then Inr envelope
      else Inr (envelope\<lparr>ev_Payload := RawJson (enc_payload (de_Payload d))\<rparr>))"

definition DecodeEnvelope :: "Envelope \<Rightarrow> DecodedEnvelope res" where
  "DecodeEnvelope event = (case DecodePayload event of
      Inl e \<Rightarrow> Inl e
    | Inr p \<Rightarrow> Inr \<lparr> de_Envelope = event, de_Payload = p \<rparr>)"

section \<open>Protobuf messages\<close>

record pbPumpfunTradeInstructionArgs =
  pb_pfta_Amount :: "string option"
  pb_pfta_MaxSolCost :: "string option"
  pb_pfta_MinSolOutput :: "string option"
  pb_pfta_SpendableSolIn :: "string option"
  pb_pfta_MinTokensOut :: "string option"

record pbPumpfunTradePayload =
  pb_pft_Side :: string
  pb_pft_IxName :: string
  pb_pft_Mint :: string
  pb_pft_User :: string
  pb_pft_BondingCurve :: string
  pb_pft_AssociatedBondingCurve :: string
  pb_pft_Creator :: string
  pb_pft_CreatorVault :: string
  pb_pft_TokenProgram :: string
  pb_pft_SolAmount :: string
  pb_pft_TokenAmount :: string
  pb_pft_Fee :: string
  pb_pft_CreatorFee :: string
  pb_pft_VirtualSolReserves :: string
  pb_pft_VirtualTokenReserves :: string
  pb_pft_RealSolReserves :: string
  pb_pft_RealTokenReserves :: string
  pb_pft_TrackVolume :: bool
  pb_pft_MayhemMode :: bool
  pb_pft_Cashback :: string
  pb_pft_InstructionArgs :: "pbPumpfunTradeInstructionArgs option"

record pbPumpfunCreatePayload =
  pb_pfc_IxName :: string
  pb_pfc_Mint :: string
  pb_pfc_BondingCurve :: string
  pb_pfc_User :: string
  pb_pfc_Creator :: string
  pb_pfc_Name :: string
  pb_pfc_Symbol :: string
  pb_pfc_Uri :: string
  pb_pfc_TokenProgram :: string
  pb_pfc_VirtualTokenReserves :: string
  pb_pfc_VirtualSolReserves :: string
  pb_pfc_RealTokenReserves :: string
  pb_pfc_TokenTotalSupply :: string
  pb_pfc_IsMayhemMode :: bool
  pb_pfc_IsCashbackEnabled :: bool
  pb_pfc_MintDecimals :: "int option"

record pbPumpfunMigratePayload =
  pb_pfm_Mint :: string
  pb_pfm_User :: string
  pb_pfm_BondingCurve :: string
  pb_pfm_Pool :: string
  pb_pfm_MintAmount :: string
  pb_pfm_SolAmount :: string
  pb_pfm_PoolMigrationFee :: string
  pb_pfm_WithdrawAuthority :: string
  pb_pfm_AssociatedBondingCurve :: string
  pb_pfm_TokenProgram :: string
  pb_pfm_PumpAmm :: string
  pb_pfm_PoolAuthority :: string
  pb_pfm_LpMint :: string

record pbPumpAmmSwapInstructionArgs =
  pb_pasa_BaseAmountIn :: "string option"
  pb_pasa_MinQuoteAmountOut :: "string option"
  pb_pasa_BaseAmountOut :: "string option"
  pb_pasa_MaxQuoteAmountIn :: "string option"
  pb_pasa_SpendableQuoteIn :: "string option"
  pb_pasa_MinBaseAmountOut :: "string option"

record pbPumpAmmSwapPayload =
  pb_pas_Side :: string
  pb_pas_IxName :: string
  pb_pas_Pool :: string
  pb_pas_User :: string
  pb_pas_BaseMint :: string
  pb_pas_QuoteMint :: string
  pb_pas_CoinCreator :: string
  pb_pas_BaseAmountIn :: "string option"
  pb_pas_BaseAmountOut :: "string option"
  pb_pas_QuoteAmountIn :: "string option"
  pb_pas_QuoteAmountOut :: "string option"
  pb_pas_LpFee :: string
  pb_pas_ProtocolFee :: string
  pb_pas_CoinCreatorFee :: string
  pb_pas_Cashback :: string
  pb_pas_PoolBaseTokenReserves :: string
  pb_pas_PoolQuoteTokenReserves :: string
  pb_pas_InstructionArgs :: "pbPumpAmmSwapInstructionArgs option"

record pbPumpAmmCreatePoolInstructionArgs =
  pb_papa_Index :: int
  pb_papa_CoinCreator :: string
  pb_papa_IsMayhemMode :: bool
  pb_papa_IsCashbackCoin :: "bool option"

record pbPumpAmmCreatePoolPayload =
  pb_pap_Pool :: string
  pb_pap_Creator :: string
  pb_pap_BaseMint :: string
  pb_pap_QuoteMint :: string
  pb_pap_LpMint :: string
  pb_pap_BaseAmountIn :: string
  pb_pap_QuoteAmountIn :: string
  pb_pap_InitialLiquidity :: string
  pb_pap_CoinCreator :: string
  pb_pap_IsMayhemMode :: bool
  pb_pap_InstructionArgs :: "pbPumpAmmCreatePoolInstructionArgs option"
  pb_pap_BaseMintDecimals :: int
  pb_pap_QuoteMintDecimals :: int

record pbPumpAmmLiquidityInstructionArgs =
  pb_pala_LpTokenAmountIn :: "string option"
  pb_pala_LpTokenAmountOut :: "string option"
  pb_pala_MaxBaseAmountIn :: "string option"
  pb_pala_MaxQuoteAmountIn :: "string option"
  pb_pala_MinBaseAmountOut :: "string option"
  pb_pala_MinQuoteAmountOut :: "string option"

record pbPumpAmmLiquidityPayload =
  pb_pal_Action :: string
  pb_pal_Pool :: string
  pb_pal_User :: string
  pb_pal_BaseMint :: string
  pb_pal_QuoteMint :: string
  pb_pal_LpMint :: string
  pb_pal_LpTokenAmountIn :: "string option"
  pb_pal_LpTokenAmountOut :: "string option"
  pb_pal_BaseAmountIn :: "string option"
  pb_pal_QuoteAmountIn :: "string option"
  pb_pal_BaseAmountOut :: "string option"
  pb_pal_QuoteAmountOut :: "string option"
  pb_pal_LpMintSupply :: string
  pb_pal_InstructionArgs :: "pbPumpAmmLiquidityInstructionArgs option"

record pbEventRefs =
  pb_er_Mint :: "string option"
  pb_er_Pool :: "string option"
  pb_er_BondingCurve :: "string option"
  pb_er_User :: "string option"
  pb_er_Creator :: "string option"
  pb_er_BaseMint :: "string option"
  pb_er_QuoteMint :: "string option"
  pb_er_LpMint :: "string option"

datatype pbPayload =
    pb_PumpfunTrade "pbPumpfunTradePayload option"
  | pb_PumpfunCreate "pbPumpfunCreatePayload option"
  | pb_PumpfunMigrate "pbPumpfunMigratePayload option"
  | pb_PumpammSwap "pbPumpAmmSwapPayload option"
  | pb_PumpammCreatePool "pbPumpAmmCreatePoolPayload option"
  | pb_PumpammDeposit "pbPumpAmmLiquidityPayload option"
  | pb_PumpammWithdraw "pbPumpAmmLiquidityPayload option"
  | pb_NoPayload

record pbInstructionPath =
  pb_ip_Source :: int
  pb_ip_OuterIndex :: int
  pb_ip_InnerIndex :: "int option"

record pbEventEnvelope =
  pb_ev_SchemaVersion :: int
  pb_ev_EventId :: string
  pb_ev_Chain :: int
  pb_ev_Protocol :: int
  pb_ev_EventType :: int
  pb_ev_Commitment :: int
  pb_ev_Slot :: int
  pb_ev_TxSignature :: string
  pb_ev_TxIndex :: int
  pb_ev_InstructionPath :: "pbInstructionPath option"
  pb_ev_EventSource :: int
  pb_ev_EventUnixTs :: int
  pb_ev_Refs :: "pbEventRefs option"
  pb_ev_Payload :: pbPayload

section \<open>Conversion\<close>

definition chainFromProto :: "int \<Rightarrow> string" where
  "chainFromProto c = (if c = 1 then ''solana'' else '''')"

definition protocolFromProto :: "int \<Rightarrow> string" where
  "protocolFromProto p = (if p = 1 then ''pumpfun'' else if p = 2 then ''pumpamm'' else '''')"

definition eventTypeFromProto :: "int \<Rightarrow> string" where
  "eventTypeFromProto t =
     (if t = 1 then ''trade'' else if t = 2 then ''create'' else if t = 3 then ''migrate''
      else if t = 4 then ''swap'' else if t = 5 then ''create_pool''
      else if t = 6 then ''deposit'' else if t = 7 then ''withdraw'' else '''')"

definition commitmentFromProto :: "int \<Rightarrow> string" where
  "commitmentFromProto c =
     (if c = 1 then ''processed'' else if c = 2 then ''confirmed'' else if c = 3 then ''finalized'' else '''')"

definition instructionSourceFromProto :: "int \<Rightarrow> string" where
  "instructionSourceFromProto s = (if s = 1 then ''outer'' else if s = 2 then ''inner'' else '''')"

definition eventOriginFromProto :: "int \<Rightarrow> string" where
  "eventOriginFromProto s = (if s = 1 then ''logs'' else if s = 2 then ''inner_cpi'' else '''')"

definition refsFromProto :: "pbEventRefs option \<Rightarrow> EventRefs" where
  "refsFromProto refs = (case refs of
      None \<Rightarrow> zero_EventRefs
    | Some r \<Rightarrow> \<lparr>
        er_Mint = pb_er_Mint r, er_Pool = pb_er_Pool r, er_BondingCurve = pb_er_BondingCurve r,
        er_User = pb_er_User r, er_Creator = pb_er_Creator r, er_BaseMint = pb_er_BaseMint r,
        er_QuoteMint = pb_er_QuoteMint r, er_LPMint = pb_er_LpMint r \<rparr>)"

definition instructionPathFromProto :: "pbInstructionPath option \<Rightarrow> InstructionPath res" where
  "instructionPathFromProto path = (case path of
      None \<Rightarrow> Inl (ErrMsg ''instruction_path is required'')
    | Some p \<Rightarrow> Inr \<lparr>
        ip_Source = instructionSourceFromProto (pb_ip_Source p),
        ip_OuterIndex = pb_ip_OuterIndex p, ip_InnerIndex = pb_ip_InnerIndex p \<rparr>)"

definition envelopeMetadataFromProto :: "pbEventEnvelope option \<Rightarrow> Envelope res" where
  "envelopeMetadataFromProto event = (case event of
      None \<Rightarrow> Inl (ErrMsg ''proto event is nil'')
    | Some e \<Rightarrow> (case instructionPathFromProto (pb_ev_InstructionPath e) of
        Inl err \<Rightarrow> Inl err
      | Inr path \<Rightarrow> Inr (zero_Envelope\<lparr>
          ev_SchemaVersion := pb_ev_SchemaVersion e, ev_EventID := pb_ev_EventId e,
          ev_Chain := chainFromProto (pb_ev_Chain e),
          ev_Protocol := protocolFromProto (pb_ev_Protocol e),
          ev_EventType := eventTypeFromProto (pb_ev_EventType e),
          ev_Commitment := commitmentFromProto (pb_ev_Commitment e),
          ev_Slot := pb_ev_Slot e, ev_TxSignature := pb_ev_TxSignature e,
          ev_TxIndex := pb_ev_TxIndex e, ev_InstructionPath := path,
          ev_EventSource := eventOriginFromProto (pb_ev_EventSource e),
          ev_EventUnixTS := pb_ev_EventUnixTs e,
          ev_Refs := refsFromProto (pb_ev_Refs e)\<rparr>)))"

definition optionalStringFromPumpfunTradeArgs ::
    "pbPumpfunTradeInstructionArgs option \<Rightarrow> (pbPumpfunTradeInstructionArgs \<Rightarrow> string option) \<Rightarrow> string option" where
  "optionalStringFromPumpfunTradeArgs args getter = (case args of None \<Rightarrow> None | Some a \<Rightarrow> getter a)"

definition optionalStringFromPumpAmmSwapArgs ::
    "pbPumpAmmSwapInstructionArgs option \<Rightarrow> (pbPumpAmmSwapInstructionArgs \<Rightarrow> string option) \<Rightarrow> string option" where
  "optionalStringFromPumpAmmSwapArgs args getter = (case args of None \<Rightarrow> None | Some a \<Rightarrow> getter a)"

definition optionalStringFromPumpAmmLiquidityArgs ::
    "pbPumpAmmLiquidityInstructionArgs option \<Rightarrow> (pbPumpAmmLiquidityInstructionArgs \<Rightarrow> string option) \<Rightarrow> string option" where
  "optionalStringFromPumpAmmLiquidityArgs args getter = (case args of None \<Rightarrow> None | Some a \<Rightarrow> getter a)"

text \<open>The generic helper takes the zero value of the result type as an argument.\<close>

definition optionalPumpAmmCreatePoolArgs ::
    "'a \<Rightarrow> pbPumpAmmCreatePoolInstructionArgs option \<Rightarrow> (pbPumpAmmCreatePoolInstructionArgs \<Rightarrow> 'a) \<Rightarrow> 'a" where
  "optionalPumpAmmCreatePoolArgs zero args getter = (case args of None \<Rightarrow> zero | Some a \<Rightarrow> getter a)"

definition optionalPumpAmmCreatePoolBoolPtr ::
    "pbPumpAmmCreatePoolInstructionArgs option \<Rightarrow> (pbPumpAmmCreatePoolInstructionArgs \<Rightarrow> bool option) \<Rightarrow> bool option" where
  "optionalPumpAmmCreatePoolBoolPtr args getter = (case args of None \<Rightarrow> None | Some a \<Rightarrow> getter a)"

definition pumpfunTradePayloadFromProto :: "pbPumpfunTradePayload option \<Rightarrow> PumpfunTradePayload" where
  "pumpfunTradePayloadFromProto p = (case p of
      None \<Rightarrow> zero_PumpfunTradePayload
    | Some payload \<Rightarrow> let args = pb_pft_InstructionArgs payload in \<lparr>
       pft_Side = pb_pft_Side payload, pft_IxName = pb_pft_IxName payload,
       pft_Mint = pb_pft_Mint payload, pft_User = pb_pft_User payload,
       pft_BondingCurve = pb_pft_BondingCurve payload,
       pft_AssociatedBondingCurve = pb_pft_AssociatedBondingCurve payload,
       pft_Creator = pb_pft_Creator payload, pft_CreatorVault = pb_pft_CreatorVault payload,
       pft_TokenProgram = pb_pft_TokenProgram payload,
       pft_SolAmount = pb_pft_SolAmount payload, pft_TokenAmount = pb_pft_TokenAmount payload,
       pft_Fee = pb_pft_Fee payload, pft_CreatorFee = pb_pft_CreatorFee payload,
       pft_VirtualSolReserves = pb_pft_VirtualSolReserves payload,
       pft_VirtualTokenReserves = pb_pft_VirtualTokenReserves payload,
       pft_RealSolReserves = pb_pft_RealSolReserves payload,
       pft_RealTokenReserves = pb_pft_RealTokenReserves payload,
       pft_TrackVolume = pb_pft_TrackVolume payload,
       pft_MayhemMode = pb_pft_MayhemMode payload, pft_Cashback = pb_pft_Cashback payload,
       pft_InstructionArgs = \<lparr>
         pfta_Amount = optionalStringFromPumpfunTradeArgs args pb_pfta_Amount,
         pfta_MaxSolCost = optionalStringFromPumpfunTradeArgs args pb_pfta_MaxSolCost,
         pfta_MinSolOutput = optionalStringFromPumpfunTradeArgs args pb_pfta_MinSolOutput,
         pfta_SpendableSolIn = optionalStringFromPumpfunTradeArgs args pb_pfta_SpendableSolIn,
         pfta_MinTokensOut = optionalStringFromPumpfunTradeArgs args pb_pfta_MinTokensOut \<rparr> \<rparr>)"

definition pumpfunCreatePayloadFromProto :: "pbPumpfunCreatePayload option \<Rightarrow> PumpfunCreatePayload" where
  "pumpfunCreatePayloadFromProto p = (case p of
      None \<Rightarrow> zero_PumpfunCreatePayload
    | Some payload \<Rightarrow> \<lparr>
       pfc_IxName = pb_pfc_IxName payload, pfc_Mint = pb_pfc_Mint payload,
       pfc_BondingCurve = pb_pfc_BondingCurve payload, pfc_User = pb_pfc_User payload,
       pfc_Creator = pb_pfc_Creator payload, pfc_Name = pb_pfc_Name payload,
       pfc_Symbol = pb_pfc_Symbol payload, pfc_URI = pb_pfc_Uri payload,
       pfc_TokenProgram = pb_pfc_TokenProgram payload,
       pfc_VirtualTokenReserves = pb_pfc_VirtualTokenReserves payload,
       pfc_VirtualSolReserves = pb_pfc_VirtualSolReserves payload,
       pfc_RealTokenReserves = pb_pfc_RealTokenReserves payload,
       pfc_TokenTotalSupply = pb_pfc_TokenTotalSupply payload,
       pfc_IsMayhemMode = pb_pfc_IsMayhemMode payload,
       pfc_IsCashbackEnabled = pb_pfc_IsCashbackEnabled payload,
       pfc_MintDecimals = pb_pfc_MintDecimals payload \<rparr>)"

definition pumpfunMigratePayloadFromProto :: "pbPumpfunMigratePayload option \<Rightarrow> PumpfunMigratePayload" where
  "pumpfunMigratePayloadFromProto p = (case p of
      None \<Rightarrow> zero_PumpfunMigratePayload
    | Some payload \<Rightarrow> \<lparr>
       pfm_Mint = pb_pfm_Mint payload, pfm_User = pb_pfm_User payload,
       pfm_BondingCurve = pb_pfm_BondingCurve payload, pfm_Pool = pb_pfm_Pool payload,
       pfm_MintAmount = pb_pfm_MintAmount payload, pfm_SolAmount = pb_pfm_SolAmount payload,
       pfm_PoolMigrationFee = pb_pfm_PoolMigrationFee payload,
       pfm_WithdrawAuthority = pb_pfm_WithdrawAuthority payload,
       pfm_AssociatedBondingCurve = pb_pfm_AssociatedBondingCurve payload,
       pfm_TokenProgram = pb_pfm_TokenProgram payload, pfm_PumpAmm = pb_pfm_PumpAmm payload,
       pfm_PoolAuthority = pb_pfm_PoolAuthority payload, pfm_LPMint = pb_pfm_LpMint payload \<rparr>)"

definition pumpAmmSwapPayloadFromProto :: "pbPumpAmmSwapPayload option \<Rightarrow> PumpAmmSwapPayload" where
  "pumpAmmSwapPayloadFromProto p = (case p of
      None \<Rightarrow> zero_PumpAmmSwapPayload
    | Some payload \<Rightarrow> let args = pb_pas_InstructionArgs payload in \<lparr>
       pas_Side = pb_pas_Side payload, pas_IxName = pb_pas_IxName payload,
       pas_Pool = pb_pas_Pool payload, pas_User = pb_pas_User payload,
       pas_BaseMint = pb_pas_BaseMint payload, pas_QuoteMint = pb_pas_QuoteMint payload,
       pas_CoinCreator = pb_pas_CoinCreator payload,
       pas_BaseAmountIn = pb_pas_BaseAmountIn payload,
       pas_BaseAmountOut = pb_pas_BaseAmountOut payload,
       pas_QuoteAmountIn = pb_pas_QuoteAmountIn payload,
       pas_QuoteAmountOut = pb_pas_QuoteAmountOut payload, pas_LpFee = pb_pas_LpFee payload,
       pas_ProtocolFee = pb_pas_ProtocolFee payload,
       pas_CoinCreatorFee = pb_pas_CoinCreatorFee payload,
       pas_Cashback = pb_pas_Cashback payload,
       pas_PoolBaseTokenReserves = pb_pas_PoolBaseTokenReserves payload,
       pas_PoolQuoteTokenReserves = pb_pas_PoolQuoteTokenReserves payload,
       pas_InstructionArgs = \<lparr>
         pasa_BaseAmountIn = optionalStringFromPumpAmmSwapArgs args pb_pasa_BaseAmountIn,
         pasa_MinQuoteAmountOut = optionalStringFromPumpAmmSwapArgs args pb_pasa_MinQuoteAmountOut,
         pasa_BaseAmountOut = optionalStringFromPumpAmmSwapArgs args pb_pasa_BaseAmountOut,
         pasa_MaxQuoteAmountIn = optionalStringFromPumpAmmSwapArgs args pb_pasa_MaxQuoteAmountIn,
         pasa_SpendableQuoteIn = optionalStringFromPumpAmmSwapArgs args pb_pasa_SpendableQuoteIn,
         pasa_MinBaseAmountOut = optionalStringFromPumpAmmSwapArgs args pb_pasa_MinBaseAmountOut \<rparr> \<rparr>)"

definition pumpAmmCreatePoolPayloadFromProto :: "pbPumpAmmCreatePoolPayload option \<Rightarrow> PumpAmmCreatePoolPayload" where
  "pumpAmmCreatePoolPayloadFromProto p = (case p of
      None \<Rightarrow> zero_PumpAmmCreatePoolPayload
    | Some payload \<Rightarrow> let args = pb_pap_InstructionArgs payload in \<lparr>
       pap_Pool = pb_pap_Pool payload, pap_Creator = pb_pap_Creator payload,
       pap_BaseMint = pb_pap_BaseMint payload, pap_QuoteMint = pb_pap_QuoteMint payload,
       pap_LPMint = pb_pap_LpMint payload, pap_BaseAmountIn = pb_pap_BaseAmountIn payload,
       pap_QuoteAmountIn = pb_pap_QuoteAmountIn payload,
       pap_InitialLiquidity = pb_pap_InitialLiquidity payload,
       pap_CoinCreator = pb_pap_CoinCreator payload,
       pap_IsMayhemMode = pb_pap_IsMayhemMode payload,
       pap_InstructionArgs = \<lparr>
         papa_Index = u16 (optionalPumpAmmCreatePoolArgs 0 args pb_papa_Index),
         papa_CoinCreator = optionalPumpAmmCreatePoolArgs '''' args pb_papa_CoinCreator,
         papa_IsMayhemMode = optionalPumpAmmCreatePoolArgs False args pb_papa_IsMayhemMode,
         papa_IsCashbackCoin = optionalPumpAmmCreatePoolBoolPtr args pb_papa_IsCashbackCoin \<rparr>,
       pap_BaseMintDecimals = pb_pap_BaseMintDecimals payload,
       pap_QuoteMintDecimals = pb_pap_QuoteMintDecimals payload \<rparr>)"

definition pumpAmmLiquidityPayloadFromProto :: "pbPumpAmmLiquidityPayload option \<Rightarrow> PumpAmmLiquidityPayload" where
  "pumpAmmLiquidityPayloadFromProto p = (case p of
      None \<Rightarrow> zero_PumpAmmLiquidityPayload
    | Some payload \<Rightarrow> let args = pb_pal_InstructionArgs payload in \<lparr>
       pal_Action = pb_pal_Action payload, pal_Pool = pb_pal_Pool payload,
       pal_User = pb_pal_User payload, pal_BaseMint = pb_pal_BaseMint payload,
       pal_QuoteMint = pb_pal_QuoteMint payload, pal_LPMint = pb_pal_LpMint payload,
       pal_LPTokenAmountIn = pb_pal_LpTokenAmountIn payload,
       pal_LPTokenAmountOut = pb_pal_LpTokenAmountOut payload,
       pal_BaseAmountIn = pb_pal_BaseAmountIn payload,
       pal_QuoteAmountIn = pb_pal_QuoteAmountIn payload,
       pal_BaseAmountOut = pb_pal_BaseAmountOut payload,
       pal_QuoteAmountOut = pb_pal_QuoteAmountOut payload,
       pal_LPMintSupply = pb_pal_LpMintSupply payload,
       pal_InstructionArgs = \<lparr>
         pala_LPTokenAmountIn = optionalStringFromPumpAmmLiquidityArgs args pb_pala_LpTokenAmountIn,
         pala_LPTokenAmountOut = optionalStringFromPumpAmmLiquidityArgs args pb_pala_LpTokenAmountOut,
         pala_MaxBaseAmountIn = optionalStringFromPumpAmmLiquidityArgs args pb_pala_MaxBaseAmountIn,
         pala_MaxQuoteAmountIn = optionalStringFromPumpAmmLiquidityArgs args pb_pala_MaxQuoteAmountIn,
         pala_MinBaseAmountOut = optionalStringFromPumpAmmLiquidityArgs args pb_pala_MinBaseAmountOut,
         pala_MinQuoteAmountOut = optionalStringFromPumpAmmLiquidityArgs args pb_pala_MinQuoteAmountOut \<rparr> \<rparr>)"

definition payloadFromProto :: "pbEventEnvelope \<Rightarrow> payload res" where
  "payloadFromProto event = (case pb_ev_Payload event of
      pb_PumpfunTrade p \<Rightarrow> Inr (PumpfunTrade (pumpfunTradePayloadFromProto p))
    | pb_PumpfunCreate p \<Rightarrow> Inr (PumpfunCreate (pumpfunCreatePayloadFromProto p))
    | pb_PumpfunMigrate p \<Rightarrow> Inr (PumpfunMigrate (pumpfunMigratePayloadFromProto p))
    | pb_PumpammSwap p \<Rightarrow> Inr (PumpAmmSwap (pumpAmmSwapPayloadFromProto p))
    | pb_PumpammCreatePool p \<Rightarrow> Inr (PumpAmmCreatePool (pumpAmmCreatePoolPayloadFromProto p))
    | pb_PumpammDeposit p \<Rightarrow> Inr (PumpAmmLiquidity (pumpAmmLiquidityPayloadFromProto p))
    | pb_PumpammWithdraw p \<Rightarrow> Inr (PumpAmmLiquidity (pumpAmmLiquidityPayloadFromProto p))
    | pb_NoPayload \<Rightarrow> Inl (ErrMsg ''unsupported proto payload type''))"

definition DecodedEnvelopeFromProto :: "pbEventEnvelope option \<Rightarrow> DecodedEnvelope res" where
  "DecodedEnvelopeFromProto event = (case event of
      None \<Rightarrow> Inl (ErrMsg ''proto event is nil'')
    | Some e \<Rightarrow> (case envelopeMetadataFromProto (Some e) of
        Inl err \<Rightarrow> Inl err
      | Inr envelope \<Rightarrow> (case payloadFromProto e of
          Inl err \<Rightarrow> Inl err
        | Inr p \<Rightarrow> Inr \<lparr> de_Envelope = envelope, de_Payload = p \<rparr>)))"

definition EnvelopeFromProto :: "pbEventEnvelope option \<Rightarrow> Envelope res" where
  "EnvelopeFromProto event = (case DecodedEnvelopeFromProto event of
      Inl err \<Rightarrow> Inl err
    | Inr decoded \<Rightarrow> EnvelopeWithPayload decoded)"

section \<open>Facts\<close>

text \<open>The values a payload struct can hold: its unsigned fields fit their types.\<close>

definition wf_payload :: "payload \<Rightarrow> bool" where
  "wf_payload p = (case p of
      PumpfunCreate x \<Rightarrow> wf_PumpfunCreatePayload x
    | PumpAmmCreatePool x \<Rightarrow> wf_PumpAmmCreatePoolPayload x
    | _ \<Rightarrow> True)"

text \<open>The protocol and event type under which DecodePayload reads a kind of payload.\<close>

definition kind_matches :: "Envelope \<Rightarrow> payload \<Rightarrow> bool" where
  "kind_matches ev p = (case p of
      PumpfunTrade _ \<Rightarrow> ev_Protocol ev = ''pumpfun'' \<and> ev_EventType ev = ''trade''
    | PumpfunCreate _ \<Rightarrow> ev_Protocol ev = ''pumpfun'' \<and> ev_EventType ev = ''create''
    | PumpfunMigrate _ \<Rightarrow> ev_Protocol ev = ''pumpfun'' \<and> ev_EventType ev = ''migrate''
    | PumpAmmSwap _ \<Rightarrow> ev_Protocol ev = ''pumpamm'' \<and> ev_EventType ev = ''swap''
    | PumpAmmCreatePool _ \<Rightarrow> ev_Protocol ev = ''pumpamm'' \<and> ev_EventType ev = ''create_pool''
    | PumpAmmLiquidity _ \<Rightarrow> ev_Protocol ev = ''pumpamm'' \<and> (ev_EventType ev = ''deposit'' \<or> ev_EventType ev = ''withdraw'')
    | OtherPayload \<Rightarrow> False)"

lemmas rt_payloads =
  rt_PumpfunTradePayload rt_PumpfunCreatePayload rt_PumpfunMigratePayload rt_PumpAmmSwapPayload
  rt_PumpAmmCreatePoolPayload rt_PumpAmmLiquidityPayload

lemmas enc_payload_defs =
  enc_PumpfunTradePayload_def enc_PumpfunCreatePayload_def enc_PumpfunMigratePayload_def
  enc_PumpAmmSwapPayload_def enc_PumpAmmCreatePoolPayload_def enc_PumpAmmLiquidityPayload_def

lemma unmarshal_struct_JObj:
  "unmarshal_struct dec z (RawJson (JObj fs))
     = (case dec fs z of (v, ok) \<Rightarrow> if ok then Inr v else Inl (ErrMsg ''json: cannot unmarshal''))"
  by (simp add: unmarshal_struct_def)

lemma DecodePayload_enc:
  assumes "kind_matches ev p" "wf_payload p" "ev_Payload ev = RawJson (enc_payload p)"
  shows "DecodePayload ev = Inr p"
  using assms
  by (cases p)
     (auto simp: DecodePayload_def kind_matches_def wf_payload_def enc_payload_def enc_payload_defs
        unmarshal_struct_JObj rt_payloads)

lemma DecodePayload_not_Other: "DecodePayload ev \<noteq> Inr OtherPayload"
  by (auto simp: DecodePayload_def Let_def map_sum_def split: sum.splits if_splits)

lemma DecodePayload_kind: "DecodePayload ev = Inr p \<Longrightarrow> kind_matches ev p"
  by (auto simp: DecodePayload_def Let_def kind_matches_def map_sum_def split: sum.splits if_splits)

lemma envelopeMetadata_payload:
  "envelopeMetadataFromProto e = Inr env \<Longrightarrow> ev_Payload env = RawEmpty \<and> ev_LogID env = 0"
  by (auto simp: envelopeMetadataFromProto_def zero_Envelope_def split: option.splits sum.splits)

lemma payloadFromProto_not_Other: "payloadFromProto e \<noteq> Inr OtherPayload"
  by (simp add: payloadFromProto_def split: pbPayload.splits)

section \<open>Properties\<close>

text \<open>
  What the ingest service writes, every reader of the log can decode: for a payload whose
  kind is the one the envelope names, the envelope EnvelopeWithPayload completes is decoded by
  DecodeEnvelope to itself and the very payload.
\<close>

lemma EnvelopeWithPayload_decodes:
  assumes "kind_matches ev p" "wf_payload p" "ev_Payload ev = RawEmpty"
    "EnvelopeWithPayload \<lparr> de_Envelope = ev, de_Payload = p \<rparr> = Inr ev'"
  shows "DecodeEnvelope ev' = Inr \<lparr> de_Envelope = ev', de_Payload = p \<rparr>"
proof -
  have "p \<noteq> OtherPayload" using assms(1) by (auto simp: kind_matches_def)
  then have ev': "ev' = ev\<lparr>ev_Payload := RawJson (enc_payload p)\<rparr>"
    using assms(3,4) by (simp add: EnvelopeWithPayload_def)
  have "kind_matches ev' p" using assms(1) by (simp add: ev' kind_matches_def split: payload.splits)
  then have "DecodePayload ev' = Inr p" using DecodePayload_enc assms(2) by (simp add: ev')
  then show ?thesis by (simp add: DecodeEnvelope_def)
qed

lemma EnvelopeWithPayload_decodes_witness:
  "let ev = zero_Envelope\<lparr>ev_Protocol := ''pumpamm'', ev_EventType := ''withdraw'',
         ev_Payload := RawJson (enc_payload (PumpAmmLiquidity zero_PumpAmmLiquidityPayload))\<rparr>
   in DecodeEnvelope ev = Inr \<lparr> de_Envelope = ev, de_Payload = PumpAmmLiquidity zero_PumpAmmLiquidityPayload \<rparr>"
  unfolding Let_def
  by (rule EnvelopeWithPayload_decodes
        [where ev = "zero_Envelope\<lparr>ev_Protocol := ''pumpamm'', ev_EventType := ''withdraw''\<rparr>"])
     (simp_all add: kind_matches_def wf_payload_def EnvelopeWithPayload_def Let_def zero_Envelope_def)

end
