(* ===== verification/Hub.thy ===== *)
theory Hub
  imports Events "HOL-Library.AList" "HOL-Library.Multiset"
begin

text \<open>
  internal/realtime/hub.go. A channel is its buffer, capacity and closed flag, and the two
  operations that make Go panic on a closed channel (a send, a close) return the panic. A
  subscription lives in a heap of pointers; the hub maps a topic to the subscriptions it holds.
  The first part is the sequential behaviour of every method, the second the interleavings of
  any number of goroutines at the granularity of the mutexes (see \<open>hub_step\<close>).
\<close>

section \<open>Channels\<close>

datatype chan_panic = SendOnClosed | CloseOfClosed

record 'a chan =
  ch_cap :: nat
  ch_buf :: "'a list"
  ch_closed :: bool

definition make_chan :: "nat \<Rightarrow> 'a chan" where
  "make_chan n = \<lparr> ch_cap = n, ch_buf = [], ch_closed = False \<rparr>"

text \<open>select with one send and a default case: None when the default is taken.\<close>

definition try_send :: "'a \<Rightarrow> 'a chan \<Rightarrow> chan_panic + 'a chan option" where
  "try_send v c =
     (if ch_closed c then Inl SendOnClosed
      else if length (ch_buf c) < ch_cap c then Inr (Some (c\<lparr>ch_buf := ch_buf c @ [v]\<rparr>))
      else Inr None)"

definition close_chan :: "'a chan \<Rightarrow> chan_panic + 'a chan" where
  "close_chan c = (if ch_closed c then Inl CloseOfClosed else Inr (c\<lparr>ch_closed := True\<rparr>))"

text \<open>A receive: None when it blocks, otherwise the value (None for a closed, drained channel).\<close>

definition recv_chan :: "'a chan \<Rightarrow> ('a option \<times> 'a chan) option" where
  "recv_chan c = (case ch_buf c of
      v # vs \<Rightarrow> Some (Some v, c\<lparr>ch_buf := vs\<rparr>)
    | [] \<Rightarrow> (if ch_closed c then Some (None, c) else None))"

section \<open>Subscriptions\<close>

record Subscription =
  sub_Events :: "Envelope chan"
  sub_Overflow :: "unit chan"
  sub_closed :: bool
  sub_overflowed :: bool

definition newSubscription :: "nat \<Rightarrow> Subscription" where
  "newSubscription buffer = \<lparr>
     sub_Events = make_chan buffer, sub_Overflow = make_chan 1,
     sub_closed = False, sub_overflowed = False \<rparr>"

definition markOverflow :: "Subscription \<Rightarrow> chan_panic + bool \<times> Subscription" where
  "markOverflow s =
     (if sub_closed s \<or> sub_overflowed s then Inr (False, s)
      else let s1 = s\<lparr>sub_overflowed := True\<rparr> in
        (case try_send () (sub_Overflow s1) of
            Inl p \<Rightarrow> Inl p
          | Inr r \<Rightarrow>
              let s2 = (case r of Some c \<Rightarrow> s1\<lparr>sub_Overflow := c\<rparr> | None \<Rightarrow> s1) in
              (case close_chan (sub_Events s2) of
                  Inl p \<Rightarrow> Inl p
                | Inr c \<Rightarrow> Inr (True, s2\<lparr>sub_Events := c\<rparr>))))"

definition closeSubscription :: "Subscription \<Rightarrow> chan_panic + bool \<times> Subscription" where
  "closeSubscription s =
     (if sub_closed s then Inr (False, s)
      else let s1 = s\<lparr>sub_closed := True\<rparr> in
        (case (if sub_overflowed s1 then Inr (sub_Events s1) else close_chan (sub_Events s1)) of
            Inl p \<Rightarrow> Inl p
          | Inr c \<Rightarrow>
              (case close_chan (sub_Overflow s1) of
                  Inl p \<Rightarrow> Inl p
                | Inr d \<Rightarrow> Inr (True, s1\<lparr>sub_Events := c, sub_Overflow := d\<rparr>))))"

section \<open>The hub\<close>

record Hub =
  hub_heap :: "nat \<rightharpoonup> Subscription"
  hub_next :: nat
  hub_subscribers :: "(string \<times> nat list) list"

definition NewHub :: Hub where
  "NewHub = \<lparr> hub_heap = Map.empty, hub_next = 0, hub_subscribers = [] \<rparr>"

abbreviation topic_subs :: "Hub \<Rightarrow> string \<Rightarrow> nat list option" where
  "topic_subs h \<equiv> map_of (hub_subscribers h)"

definition Subscribe :: "string \<Rightarrow> nat \<Rightarrow> Hub \<Rightarrow> nat \<times> Hub" where
  "Subscribe topic buffer h =
     (let sub = hub_next h;
          ids = (case topic_subs h topic of None \<Rightarrow> [] | Some ids \<Rightarrow> ids)
      in (sub, h\<lparr> hub_heap := (hub_heap h)(sub \<mapsto> newSubscription buffer),
                  hub_next := Suc sub,
                  hub_subscribers := AList.update topic (ids @ [sub]) (hub_subscribers h) \<rparr>))"

text \<open>The loop of Unsubscribe: the subscription leaves every topic, an empty topic is deleted.\<close>

fun detach_all :: "nat \<Rightarrow> (string \<times> nat list) list \<Rightarrow> (string \<times> nat list) list" where
  "detach_all sub [] = []"
| "detach_all sub ((topic, ids) # rest) =
     (if sub \<in> set ids
      then (if removeAll sub ids = [] then detach_all sub rest
            else (topic, removeAll sub ids) # detach_all sub rest)
      else (topic, ids) # detach_all sub rest)"

text \<open>The same for one topic, as Publish does it for a subscription that overflowed.\<close>

definition detach_topic :: "string \<Rightarrow> nat \<Rightarrow> (string \<times> nat list) list \<Rightarrow> (string \<times> nat list) list" where
  "detach_topic topic sub subs = (case map_of subs topic of
      None \<Rightarrow> subs
    | Some ids \<Rightarrow>
        (if removeAll sub ids = [] then AList.delete topic subs
         else AList.update topic (removeAll sub ids) subs))"

text \<open>A method of a subscription applied through its pointer.\<close>

definition on_sub :: "nat \<Rightarrow> (Subscription \<Rightarrow> chan_panic + bool \<times> Subscription) \<Rightarrow> Hub \<Rightarrow> chan_panic + Hub" where
  "on_sub sub f h = (case hub_heap h sub of
      None \<Rightarrow> Inr h
    | Some s \<Rightarrow> (case f s of
        Inl p \<Rightarrow> Inl p
      | Inr (_, s') \<Rightarrow> Inr (h\<lparr>hub_heap := (hub_heap h)(sub \<mapsto> s')\<rparr>)))"

text \<open>Unsubscribe of a pointer (None is nil).\<close>

definition Unsubscribe :: "nat option \<Rightarrow> Hub \<Rightarrow> chan_panic + Hub" where
  "Unsubscribe p h = (case p of
      None \<Rightarrow> Inr h
    | Some sub \<Rightarrow>
        on_sub sub closeSubscription (h\<lparr>hub_subscribers := detach_all sub (hub_subscribers h)\<rparr>))"

definition SubscriberCount :: "string \<Rightarrow> Hub \<Rightarrow> nat" where
  "SubscriberCount topic h = (case topic_subs h topic of None \<Rightarrow> 0 | Some ids \<Rightarrow> length ids)"

definition HasSubscribers :: "string \<Rightarrow> Hub \<Rightarrow> bool" where
  "HasSubscribers topic h \<longleftrightarrow> 0 < SubscriberCount topic h"

definition TotalSubscribers :: "Hub \<Rightarrow> nat" where
  "TotalSubscribers h = sum_list (map (length \<circ> snd) (hub_subscribers h))"

text \<open>One iteration of the first loop of Publish: the event is sent, or the subscription noted.\<close>

definition publish_send :: "Envelope \<Rightarrow> nat \<Rightarrow> Hub \<Rightarrow> chan_panic + bool \<times> Hub" where
  "publish_send event sub h = (case hub_heap h sub of
      None \<Rightarrow> Inr (True, h)
    | Some s \<Rightarrow> (case try_send event (sub_Events s) of
        Inl p \<Rightarrow> Inl p
      | Inr (Some c) \<Rightarrow> Inr (True, h\<lparr>hub_heap := (hub_heap h)(sub \<mapsto> s\<lparr>sub_Events := c\<rparr>)\<rparr>)
      | Inr None \<Rightarrow> Inr (False, h)))"

fun publish_sends :: "Envelope \<Rightarrow> nat list \<Rightarrow> Hub \<Rightarrow> chan_panic + nat list \<times> Hub" where
  "publish_sends event [] h = Inr ([], h)"
| "publish_sends event (sub # subs) h = (case publish_send event sub h of
      Inl p \<Rightarrow> Inl p
    | Inr (sent, h') \<Rightarrow> (case publish_sends event subs h' of
        Inl p \<Rightarrow> Inl p
      | Inr (over, h'') \<Rightarrow> Inr (if sent then over else sub # over, h'')))"

text \<open>One iteration of the second loop, under the write lock.\<close>

definition publish_mark :: "string \<Rightarrow> nat \<Rightarrow> Hub \<Rightarrow> chan_panic + Hub" where
  "publish_mark topic sub h =
     on_sub sub markOverflow (h\<lparr>hub_subscribers := detach_topic topic sub (hub_subscribers h)\<rparr>)"

fun publish_marks :: "string \<Rightarrow> nat list \<Rightarrow> Hub \<Rightarrow> chan_panic + Hub" where
  "publish_marks topic [] h = Inr h"
| "publish_marks topic (sub # subs) h = (case publish_mark topic sub h of
      Inl p \<Rightarrow> Inl p
    | Inr h' \<Rightarrow> publish_marks topic subs h')"

definition Publish :: "string \<Rightarrow> Envelope \<Rightarrow> Hub \<Rightarrow> chan_panic + Hub" where
  "Publish topic event h = (case topic_subs h topic of
      None \<Rightarrow> Inr h
    | Some ids \<Rightarrow> (case publish_sends event ids h of
        Inl p \<Rightarrow> Inl p
      | Inr (over, h') \<Rightarrow> (if over = [] then Inr h' else publish_marks topic over h')))"

text \<open>A subscriber taking the next event off its channel (nothing happens where it would block).\<close>

definition Receive :: "nat \<Rightarrow> Hub \<Rightarrow> Envelope option \<times> Hub" where
  "Receive sub h = (case hub_heap h sub of
      None \<Rightarrow> (None, h)
    | Some s \<Rightarrow> (case recv_chan (sub_Events s) of
        Some (Some v, c) \<Rightarrow> (Some v, h\<lparr>hub_heap := (hub_heap h)(sub \<mapsto> s\<lparr>sub_Events := c\<rparr>)\<rparr>)
      | _ \<Rightarrow> (None, h)))"

section \<open>Invariants\<close>

definition sub_inv :: "Subscription \<Rightarrow> bool" where
  "sub_inv s \<longleftrightarrow>
     ch_closed (sub_Events s) = (sub_closed s \<or> sub_overflowed s) \<and>
     ch_closed (sub_Overflow s) = sub_closed s \<and>
     length (ch_buf (sub_Events s)) \<le> ch_cap (sub_Events s) \<and>
     ch_cap (sub_Overflow s) = 1 \<and>
     (ch_buf (sub_Overflow s) \<noteq> [] \<longrightarrow> sub_overflowed s) \<and>
     length (ch_buf (sub_Overflow s)) \<le> 1"

definition sub_live :: "Subscription \<Rightarrow> bool" where
  "sub_live s \<longleftrightarrow> \<not> sub_closed s \<and> \<not> sub_overflowed s"

text \<open>The subscription sub is registered under some topic of the map.\<close>

definition attached :: "nat \<Rightarrow> (string \<times> nat list) list \<Rightarrow> bool" where
  "attached sub subs \<longleftrightarrow> (\<exists>topic ids. (topic, ids) \<in> set subs \<and> sub \<in> set ids)"

text \<open>
  The topics are distinct keys, no topic is kept with an empty set, a set holds a subscription
  once, and no subscription is registered under two topics.
\<close>

definition topics_inv :: "(string \<times> nat list) list \<Rightarrow> bool" where
  "topics_inv subs \<longleftrightarrow>
     distinct (map fst subs) \<and>
     (\<forall>topic ids. map_of subs topic = Some ids \<longrightarrow> ids \<noteq> [] \<and> distinct ids) \<and>
     (\<forall>topic ids topic' ids' sub. map_of subs topic = Some ids \<longrightarrow> map_of subs topic' = Some ids' \<longrightarrow>
        sub \<in> set ids \<longrightarrow> sub \<in> set ids' \<longrightarrow> topic = topic')"

definition hub_inv :: "Hub \<Rightarrow> bool" where
  "hub_inv h \<longleftrightarrow>
     topics_inv (hub_subscribers h) \<and>
     (\<forall>sub s. hub_heap h sub = Some s \<longrightarrow> sub < hub_next h \<and> sub_inv s) \<and>
     (\<forall>sub. attached sub (hub_subscribers h) \<longrightarrow> (\<exists>s. hub_heap h sub = Some s \<and> sub_live s))"

lemma sub_inv_new [simp]: "sub_inv (newSubscription n)" and sub_live_new [simp]: "sub_live (newSubscription n)"
  by (simp_all add: sub_inv_def sub_live_def newSubscription_def make_chan_def)

lemma markOverflow_cases:
  assumes "sub_inv s"
  shows "markOverflow s = (if sub_live s
    then Inr (True, s\<lparr> sub_overflowed := True,
                        sub_Overflow := sub_Overflow s\<lparr>ch_buf := ch_buf (sub_Overflow s) @ [()]\<rparr>,
                        sub_Events := sub_Events s\<lparr>ch_closed := True\<rparr> \<rparr>)
    else Inr (False, s))"
  using assms
  by (auto simp: markOverflow_def sub_inv_def sub_live_def try_send_def close_chan_def)

lemma closeSubscription_cases:
  assumes "sub_inv s"
  shows "closeSubscription s = (if sub_closed s then Inr (False, s)
    else Inr (True, s\<lparr> sub_closed := True,
                         sub_Events := sub_Events s\<lparr>ch_closed := True\<rparr>,
                         sub_Overflow := sub_Overflow s\<lparr>ch_closed := True\<rparr> \<rparr>))"
  using assms
  by (cases s; cases "sub_Events s") (auto simp: closeSubscription_def sub_inv_def Let_def close_chan_def)

lemma sub_inv_updates:
  assumes "sub_inv s"
  shows "sub_live s \<Longrightarrow> sub_inv (s\<lparr> sub_overflowed := True,
            sub_Overflow := sub_Overflow s\<lparr>ch_buf := ch_buf (sub_Overflow s) @ [()]\<rparr>,
            sub_Events := sub_Events s\<lparr>ch_closed := True\<rparr> \<rparr>)"
    and "sub_inv (s\<lparr> sub_closed := True, sub_Events := sub_Events s\<lparr>ch_closed := True\<rparr>,
            sub_Overflow := sub_Overflow s\<lparr>ch_closed := True\<rparr> \<rparr>)"
  using assms by (auto simp: sub_inv_def sub_live_def)

lemma try_send_live:
  assumes "sub_inv s" "sub_live s"
  shows "try_send v (sub_Events s) =
    (if length (ch_buf (sub_Events s)) < ch_cap (sub_Events s)
     then Inr (Some (sub_Events s\<lparr>ch_buf := ch_buf (sub_Events s) @ [v]\<rparr>)) else Inr None)"
  using assms by (simp add: try_send_def sub_inv_def sub_live_def)

lemma sub_inv_send:
  assumes "sub_inv s" "length (ch_buf (sub_Events s)) < ch_cap (sub_Events s)"
  shows "sub_inv (s\<lparr>sub_Events := sub_Events s\<lparr>ch_buf := ch_buf (sub_Events s) @ [v]\<rparr>\<rparr>)"
  using assms by (simp add: sub_inv_def)

lemma sub_live_events [simp]: "sub_live (s\<lparr>sub_Events := c\<rparr>) = sub_live s"
  by (simp add: sub_live_def)

subsection \<open>The topic map\<close>

lemma attached_simps [simp]:
  "\<not> attached sub []"
  "attached sub ((t, ids) # r) \<longleftrightarrow> sub \<in> set ids \<or> attached sub r"
  by (auto simp: attached_def)

lemma map_of_attached: "map_of subs t = Some ids \<Longrightarrow> sub \<in> set ids \<Longrightarrow> attached sub subs"
  by (auto simp: attached_def dest: map_of_SomeD)

lemma map_of_set_iff: "distinct (map fst subs) \<Longrightarrow> (t, ids) \<in> set subs \<longleftrightarrow> map_of subs t = Some ids"
  by simp

lemma topics_invI:
  assumes "distinct (map fst subs)"
    and "\<And>t ids. map_of subs t = Some ids \<Longrightarrow> ids \<noteq> [] \<and> distinct ids"
    and "\<And>t ids t' ids' sub. map_of subs t = Some ids \<Longrightarrow> map_of subs t' = Some ids' \<Longrightarrow>
        sub \<in> set ids \<Longrightarrow> sub \<in> set ids' \<Longrightarrow> t = t'"
  shows "topics_inv subs"
  unfolding topics_inv_def using assms by blast

lemma topics_invD:
  assumes "topics_inv subs"
  shows "distinct (map fst subs)"
    and "map_of subs t = Some ids \<Longrightarrow> ids \<noteq> []"
    and "map_of subs t = Some ids \<Longrightarrow> distinct ids"
    and "map_of subs t = Some ids \<Longrightarrow> map_of subs t' = Some ids' \<Longrightarrow>
        sub \<in> set ids \<Longrightarrow> sub \<in> set ids' \<Longrightarrow> t = t'"
  using assms unfolding topics_inv_def by blast+

lemma attached_map_of:
  "distinct (map fst subs) \<Longrightarrow> attached sub subs \<longleftrightarrow> (\<exists>t ids. map_of subs t = Some ids \<and> sub \<in> set ids)"
  by (auto simp: attached_def)

lemma topics_inv_update_new:
  assumes "topics_inv subs" "\<not> attached sub subs"
    "ids = (case map_of subs t of None \<Rightarrow> [] | Some ids \<Rightarrow> ids)"
  shows "topics_inv (AList.update t (ids @ [sub]) subs)"
proof -
  note inv = topics_invD [OF assms(1)]
  have na: "map_of subs t' = Some ids' \<Longrightarrow> sub \<notin> set ids'" for t' ids'
    using assms(2) map_of_attached by fast
  have ids: "distinct ids" "sub \<notin> set ids"
    "\<And>t' ids' x. map_of subs t' = Some ids' \<Longrightarrow> x \<in> set ids \<Longrightarrow> x \<in> set ids' \<Longrightarrow> t = t'"
    using assms(3) inv na by (auto split: option.splits)
  show ?thesis
  proof (rule topics_invI)
    show "distinct (map fst (AList.update t (ids @ [sub]) subs))"
      using inv(1) by (simp add: distinct_update)
    show "ids' \<noteq> [] \<and> distinct ids'" if "map_of (AList.update t (ids @ [sub]) subs) t' = Some ids'" for t' ids'
      using that ids inv by (auto simp: update_conv' split: if_splits)
    show "t1 = t2" if "map_of (AList.update t (ids @ [sub]) subs) t1 = Some ids1"
      "map_of (AList.update t (ids @ [sub]) subs) t2 = Some ids2" "x \<in> set ids1" "x \<in> set ids2" for t1 t2 ids1 ids2 x
      using that ids inv(4) na by (auto simp: update_conv' split: if_splits)
  qed
qed

lemma map_of_detach_all:
  "distinct (map fst subs) \<Longrightarrow>
   map_of (detach_all sub subs) t = (case map_of subs t of
      None \<Rightarrow> None
    | Some ids \<Rightarrow> if sub \<in> set ids then (if removeAll sub ids = [] then None else Some (removeAll sub ids))
        else Some ids)"
proof (induction sub subs rule: detach_all.induct)
  case (2 sub topic ids rest)
  then have "map_of rest topic = None" by (simp add: map_of_eq_None_iff)
  with 2 show ?case by (auto split: option.splits)
qed simp

lemma fst_detach_all: "set (map fst (detach_all sub subs)) \<subseteq> set (map fst subs)"
  by (induction sub subs rule: detach_all.induct) auto

lemma distinct_detach_all: "distinct (map fst subs) \<Longrightarrow> distinct (map fst (detach_all sub subs))"
proof (induction sub subs rule: detach_all.induct)
  case (2 sub topic ids rest)
  then show ?case using fst_detach_all [of sub rest] by auto
qed simp

lemma topics_inv_detach_all:
  assumes "topics_inv subs"
  shows "topics_inv (detach_all sub subs)"
proof -
  note inv = topics_invD [OF assms]
  have le: "\<exists>ids. map_of subs t = Some ids \<and> set ids' \<subseteq> set ids"
    if "map_of (detach_all sub subs) t = Some ids'" for t ids'
    using that by (auto simp: map_of_detach_all [OF inv(1)] split: option.splits if_splits)
  show ?thesis
  proof (rule topics_invI)
    show "distinct (map fst (detach_all sub subs))" using inv(1) by (rule distinct_detach_all)
    show "ids \<noteq> [] \<and> distinct ids" if "map_of (detach_all sub subs) t = Some ids" for t ids
      using that inv(2,3)
      by (auto simp: map_of_detach_all [OF inv(1)] distinct_removeAll split: option.splits if_splits)
    show "t = t'" if "map_of (detach_all sub subs) t = Some ids" "map_of (detach_all sub subs) t' = Some ids'"
      "x \<in> set ids" "x \<in> set ids'" for t t' ids ids' x
      using le [OF that(1)] le [OF that(2)] that(3,4) inv(4) by blast
  qed
qed

lemma removeAll_NilD: "removeAll x xs = [] \<Longrightarrow> y \<in> set xs \<Longrightarrow> y = x"
  using set_removeAll [of x xs] by auto

lemma attached_detach_all: "attached x (detach_all sub subs) \<longleftrightarrow> attached x subs \<and> x \<noteq> sub"
proof (induction sub subs rule: detach_all.induct)
  case (2 sub topic ids rest)
  then show ?case by (auto dest: removeAll_NilD)
qed simp

lemma map_of_detach_topic:
  "map_of (detach_topic topic sub subs) t = (case map_of subs t of
      None \<Rightarrow> None
    | Some ids \<Rightarrow> if t = topic then (if removeAll sub ids = [] then None else Some (removeAll sub ids))
        else Some ids)"
  by (auto simp: detach_topic_def delete_conv' update_conv' split: option.splits)

lemma distinct_detach_topic: "distinct (map fst subs) \<Longrightarrow> distinct (map fst (detach_topic topic sub subs))"
  by (auto simp: detach_topic_def distinct_delete distinct_update split: option.splits)

lemma topics_inv_detach_topic:
  assumes "topics_inv subs"
  shows "topics_inv (detach_topic topic sub subs)"
proof -
  note inv = topics_invD [OF assms]
  have le: "\<exists>ids. map_of subs t = Some ids \<and> set ids' \<subseteq> set ids"
    if "map_of (detach_topic topic sub subs) t = Some ids'" for t ids'
    using that by (auto simp: map_of_detach_topic split: option.splits if_splits)
  show ?thesis
  proof (rule topics_invI)
    show "distinct (map fst (detach_topic topic sub subs))" using inv(1) by (rule distinct_detach_topic)
    show "ids \<noteq> [] \<and> distinct ids" if "map_of (detach_topic topic sub subs) t = Some ids" for t ids
      using that inv(2,3)
      by (auto simp: map_of_detach_topic distinct_removeAll split: option.splits if_splits)
    show "t = t'" if "map_of (detach_topic topic sub subs) t = Some ids" "map_of (detach_topic topic sub subs) t' = Some ids'"
      "x \<in> set ids" "x \<in> set ids'" for t t' ids ids' x
      using le [OF that(1)] le [OF that(2)] that(3,4) inv(4) by blast
  qed
qed

text \<open>Only the subscription of the topic leaves, and it was registered nowhere else.\<close>

lemma attached_detach_topic:
  assumes "topics_inv subs" "map_of subs topic = Some ids" "sub \<in> set ids"
  shows "attached x (detach_topic topic sub subs) \<longleftrightarrow> attached x subs \<and> x \<noteq> sub"
proof -
  note inv = topics_invD [OF assms(1)]
  have u: "map_of subs t = Some ids' \<Longrightarrow> sub \<in> set ids' \<Longrightarrow> t = topic" for t ids'
    using inv(4) assms by blast
  have "map_of (detach_topic topic sub subs) = map_of (detach_all sub subs)"
  proof (rule ext)
    fix t
    show "map_of (detach_topic topic sub subs) t = map_of (detach_all sub subs) t"
    proof (cases "map_of subs t")
      case None
      then show ?thesis by (simp only: map_of_detach_topic map_of_detach_all [OF inv(1)] option.case)
    next
      case (Some ids')
      have "t = topic \<longleftrightarrow> sub \<in> set ids'" using u [OF Some] assms(2,3) Some by auto
      then show ?thesis
        unfolding map_of_detach_topic map_of_detach_all [OF inv(1)] Some by simp
    qed
  qed
  then show ?thesis
    using attached_detach_all [of x sub subs]
    by (simp add: attached_map_of distinct_detach_topic distinct_detach_all inv(1))
qed

subsection \<open>Membership of a subscription in a topic\<close>

definition in_topic :: "Hub \<Rightarrow> string \<Rightarrow> nat \<Rightarrow> bool" where
  "in_topic h topic sub = (case topic_subs h topic of None \<Rightarrow> False | Some ids \<Rightarrow> sub \<in> set ids)"

lemma in_topic_iff: "in_topic h t x \<longleftrightarrow> (\<exists>ids. topic_subs h t = Some ids \<and> x \<in> set ids)"
  by (auto simp: in_topic_def split: option.splits)

lemma hub_invD:
  assumes "hub_inv h"
  shows "topics_inv (hub_subscribers h)"
    and "hub_heap h sub = Some s \<Longrightarrow> sub < hub_next h"
    and "hub_heap h sub = Some s \<Longrightarrow> sub_inv s"
    and "in_topic h t sub \<Longrightarrow> \<exists>s. hub_heap h sub = Some s \<and> sub_live s"
    and "in_topic h t sub \<Longrightarrow> in_topic h t' sub \<Longrightarrow> t = t'"
proof -
  show T: "topics_inv (hub_subscribers h)" using assms by (simp add: hub_inv_def)
  show "hub_heap h sub = Some s \<Longrightarrow> sub < hub_next h" "hub_heap h sub = Some s \<Longrightarrow> sub_inv s"
    using assms by (auto simp: hub_inv_def)
  show "in_topic h t sub \<Longrightarrow> \<exists>s. hub_heap h sub = Some s \<and> sub_live s"
    using assms map_of_attached by (fastforce simp: hub_inv_def in_topic_iff)
  show "in_topic h t sub \<Longrightarrow> in_topic h t' sub \<Longrightarrow> t = t'"
    using topics_invD(4) [OF T] by (auto simp: in_topic_iff)
qed

lemma hub_invI:
  assumes "topics_inv (hub_subscribers h)"
    and "\<And>sub s. hub_heap h sub = Some s \<Longrightarrow> sub < hub_next h \<and> sub_inv s"
    and "\<And>t sub. in_topic h t sub \<Longrightarrow> \<exists>s. hub_heap h sub = Some s \<and> sub_live s"
  shows "hub_inv h"
  using assms attached_map_of [OF topics_invD(1) [OF assms(1)]] unfolding hub_inv_def in_topic_iff by blast

lemma hub_inv_New [simp]: "hub_inv NewHub"
  by (rule hub_invI) (auto simp: NewHub_def topics_inv_def in_topic_def)

lemma Subscribe_spec:
  assumes "hub_inv h" "Subscribe topic buffer h = (sub, h')"
  shows "hub_inv h'" "sub = hub_next h" "hub_next h' = Suc sub"
    "hub_heap h' = (hub_heap h)(sub \<mapsto> newSubscription buffer)"
    "in_topic h' t x \<longleftrightarrow> in_topic h t x \<or> (t = topic \<and> x = sub)"
proof -
  note inv = hub_invD [OF assms(1)]
  define ids where "ids = (case topic_subs h topic of None \<Rightarrow> [] | Some ids \<Rightarrow> ids)"
  have h': "h' = h\<lparr> hub_heap := (hub_heap h)(hub_next h \<mapsto> newSubscription buffer),
      hub_next := Suc (hub_next h),
      hub_subscribers := AList.update topic (ids @ [hub_next h]) (hub_subscribers h) \<rparr>"
    and sub: "sub = hub_next h"
    using assms(2) by (auto simp: Subscribe_def Let_def ids_def)
  show "sub = hub_next h" "hub_next h' = Suc sub"
    "hub_heap h' = (hub_heap h)(sub \<mapsto> newSubscription buffer)" by (simp_all add: h' sub)
  have "hub_heap h (hub_next h) = None" using inv(2) by (metis less_irrefl not_None_eq)
  then have fresh: "\<not> in_topic h t (hub_next h)" for t using inv(4) by fastforce
  show it: "in_topic h' t x \<longleftrightarrow> in_topic h t x \<or> (t = topic \<and> x = sub)" for t x
    by (cases "topic_subs h topic") (auto simp: h' sub in_topic_def update_conv' ids_def)
  have "\<not> attached (hub_next h) (hub_subscribers h)"
    using fresh attached_map_of [OF topics_invD(1) [OF inv(1)]] by (auto simp: in_topic_iff)
  then have "topics_inv (hub_subscribers h')"
    using topics_inv_update_new [OF inv(1) _ ids_def] by (simp add: h')
  moreover have "\<exists>s. hub_heap h' y = Some s \<and> sub_live s" if "in_topic h' t y" for t y
    using that [unfolded it] inv(4) fresh by (auto simp: h' sub)
  moreover have "y < hub_next h' \<and> sub_inv s" if "hub_heap h' y = Some s" for y s
    using that inv(2,3) by (auto simp: h' less_Suc_eq split: if_splits)
  ultimately show "hub_inv h'" by (intro hub_invI)
qed

text \<open>The three things that happen to a subscription.\<close>

definition closed_sub :: "Subscription \<Rightarrow> Subscription" where
  "closed_sub s = (if sub_closed s then s else s\<lparr> sub_closed := True,
      sub_Events := sub_Events s\<lparr>ch_closed := True\<rparr>, sub_Overflow := sub_Overflow s\<lparr>ch_closed := True\<rparr> \<rparr>)"

definition overflowed_sub :: "Subscription \<Rightarrow> Subscription" where
  "overflowed_sub s = (if sub_live s then s\<lparr> sub_overflowed := True,
      sub_Overflow := sub_Overflow s\<lparr>ch_buf := ch_buf (sub_Overflow s) @ [()]\<rparr>,
      sub_Events := sub_Events s\<lparr>ch_closed := True\<rparr> \<rparr> else s)"

definition sub_full :: "Subscription \<Rightarrow> bool" where
  "sub_full s \<longleftrightarrow> ch_cap (sub_Events s) \<le> length (ch_buf (sub_Events s))"

definition sent_sub :: "Envelope \<Rightarrow> Subscription \<Rightarrow> Subscription" where
  "sent_sub event s = s\<lparr>sub_Events := sub_Events s\<lparr>ch_buf := ch_buf (sub_Events s) @ [event]\<rparr>\<rparr>"

lemma sub_changes:
  assumes "sub_inv s"
  shows "sub_inv (closed_sub s)" "sub_inv (overflowed_sub s)" "\<not> sub_full s \<Longrightarrow> sub_inv (sent_sub event s)"
    "\<not> sub_live (closed_sub s)" "\<not> sub_live (overflowed_sub s)" "sub_live (sent_sub event s) = sub_live s"
    "closeSubscription s = Inr (\<not> sub_closed s, closed_sub s)"
    "markOverflow s = Inr (sub_live s, overflowed_sub s)"
  using assms sub_inv_updates [OF assms] sub_inv_send [OF assms]
  by (auto simp: closed_sub_def overflowed_sub_def sub_full_def sent_sub_def
      markOverflow_cases closeSubscription_cases) (simp_all add: sub_live_def)

lemma sub_changes_buf [simp]:
  "ch_buf (sub_Events (closed_sub s)) = ch_buf (sub_Events s)"
  "ch_buf (sub_Events (overflowed_sub s)) = ch_buf (sub_Events s)"
  "ch_buf (sub_Events (sent_sub event s)) = ch_buf (sub_Events s) @ [event]"
  by (simp_all add: closed_sub_def overflowed_sub_def sent_sub_def)

lemma Unsubscribe_spec:
  assumes "hub_inv h"
  shows "\<exists>h'. Unsubscribe (Some sub) h = Inr h' \<and> hub_inv h' \<and> hub_next h' = hub_next h \<and>
    hub_heap h' = (hub_heap h)(sub := map_option closed_sub (hub_heap h sub)) \<and>
    (\<forall>t x. in_topic h' t x \<longleftrightarrow> in_topic h t x \<and> x \<noteq> sub)"
proof -
  note inv = hub_invD [OF assms]
  define h1 where "h1 = h\<lparr>hub_subscribers := detach_all sub (hub_subscribers h)\<rparr>"
  define h' where "h' = h1\<lparr>hub_heap := (hub_heap h)(sub := map_option closed_sub (hub_heap h sub))\<rparr>"
  have "Unsubscribe (Some sub) h = Inr h'"
  proof (cases "hub_heap h sub")
    case None
    then show ?thesis by (simp add: Unsubscribe_def on_sub_def h1_def h'_def fun_upd_idem)
  next
    case (Some s)
    then show ?thesis
      using sub_changes(7) [OF inv(3) [OF Some]] by (simp add: Unsubscribe_def on_sub_def h1_def h'_def)
  qed
  moreover have it: "in_topic h' t x \<longleftrightarrow> in_topic h t x \<and> x \<noteq> sub" for t x
    by (cases "topic_subs h t")
       (auto dest: removeAll_NilD simp: in_topic_def h'_def h1_def map_of_detach_all [OF topics_invD(1) [OF inv(1)]] split: if_splits)
  moreover have "hub_inv h'"
  proof (rule hub_invI)
    show "topics_inv (hub_subscribers h')"
      using topics_inv_detach_all [OF inv(1)] by (simp add: h'_def h1_def)
    show "y < hub_next h' \<and> sub_inv s" if "hub_heap h' y = Some s" for y s
      using that inv(2,3) sub_changes(1) by (auto simp: h'_def h1_def split: if_splits)
    show "\<exists>s. hub_heap h' y = Some s \<and> sub_live s" if "in_topic h' t y" for t y
      using that inv(4) by (auto simp: it) (simp add: h'_def)
  qed
  ultimately show ?thesis by (intro exI [of _ h']) (simp add: h'_def h1_def)
qed

lemma publish_mark_spec:
  assumes "hub_inv h" "\<And>t. in_topic h t sub \<Longrightarrow> t = topic"
  shows "\<exists>h'. publish_mark topic sub h = Inr h' \<and> hub_inv h' \<and> hub_next h' = hub_next h \<and>
    hub_heap h' = (hub_heap h)(sub := map_option overflowed_sub (hub_heap h sub)) \<and>
    (\<forall>t x. in_topic h' t x \<longleftrightarrow> in_topic h t x \<and> x \<noteq> sub)"
proof -
  note inv = hub_invD [OF assms(1)]
  define h1 where "h1 = h\<lparr>hub_subscribers := detach_topic topic sub (hub_subscribers h)\<rparr>"
  define h' where "h' = h1\<lparr>hub_heap := (hub_heap h)(sub := map_option overflowed_sub (hub_heap h sub))\<rparr>"
  have "publish_mark topic sub h = Inr h'"
  proof (cases "hub_heap h sub")
    case None
    then show ?thesis by (simp add: publish_mark_def on_sub_def h1_def h'_def fun_upd_idem)
  next
    case (Some s)
    then show ?thesis
      using sub_changes(8) [OF inv(3) [OF Some]] by (simp add: publish_mark_def on_sub_def h1_def h'_def)
  qed
  moreover have it: "in_topic h' t x \<longleftrightarrow> in_topic h t x \<and> x \<noteq> sub" for t x
  proof (cases "t = topic")
    case True
    then show ?thesis
      by (cases "topic_subs h t") (auto dest: removeAll_NilD simp: in_topic_def h'_def h1_def map_of_detach_topic split: if_splits)
  next
    case False
    then show ?thesis
      using assms(2) by (cases "topic_subs h t") (auto simp: in_topic_def h'_def h1_def map_of_detach_topic)
  qed
  moreover have "hub_inv h'"
  proof (rule hub_invI)
    show "topics_inv (hub_subscribers h')"
      using topics_inv_detach_topic [OF inv(1)] by (simp add: h'_def h1_def)
    show "y < hub_next h' \<and> sub_inv s" if "hub_heap h' y = Some s" for y s
      using that inv(2,3) sub_changes(2) by (auto simp: h'_def h1_def split: if_splits)
    show "\<exists>s. hub_heap h' y = Some s \<and> sub_live s" if "in_topic h' t y" for t y
      using that inv(4) by (auto simp: it) (simp add: h'_def)
  qed
  ultimately show ?thesis by (intro exI [of _ h']) (simp add: h'_def h1_def)
qed

section \<open>Publishing\<close>

definition full_in :: "Hub \<Rightarrow> nat \<Rightarrow> bool" where
  "full_in h sub = (case hub_heap h sub of None \<Rightarrow> False | Some s \<Rightarrow> sub_full s)"

text \<open>The heap after the events of the first loop, for the subscriptions ids.\<close>

definition sent_heap :: "Envelope \<Rightarrow> nat set \<Rightarrow> Hub \<Rightarrow> nat \<rightharpoonup> Subscription" where
  "sent_heap event ids h = (\<lambda>x.
     if x \<in> ids \<and> \<not> full_in h x then map_option (sent_sub event) (hub_heap h x) else hub_heap h x)"

lemma publish_send_spec:
  assumes "hub_inv h" "in_topic h t sub"
  shows "publish_send event sub h = Inr (\<not> full_in h sub, h\<lparr>hub_heap := sent_heap event {sub} h\<rparr>)"
    "hub_inv (h\<lparr>hub_heap := sent_heap event {sub} h\<rparr>)"
proof -
  note inv = hub_invD [OF assms(1)]
  obtain s where s: "hub_heap h sub = Some s" "sub_live s" using inv(4) [OF assms(2)] by blast
  note ts = try_send_live [OF inv(3) [OF s(1)] s(2)]
  have heap: "sent_heap event {sub} h =
      (if sub_full s then hub_heap h else (hub_heap h)(sub \<mapsto> sent_sub event s))"
    using s by (intro ext) (auto simp: sent_heap_def full_in_def)
  show "publish_send event sub h = Inr (\<not> full_in h sub, h\<lparr>hub_heap := sent_heap event {sub} h\<rparr>)"
    using s ts unfolding heap
    by (simp add: publish_send_def full_in_def sub_full_def sent_sub_def not_less)
  show "hub_inv (h\<lparr>hub_heap := sent_heap event {sub} h\<rparr>)"
  proof (rule hub_invI)
    show "topics_inv (hub_subscribers (h\<lparr>hub_heap := sent_heap event {sub} h\<rparr>))" using inv(1) by simp
    show "y < hub_next (h\<lparr>hub_heap := sent_heap event {sub} h\<rparr>) \<and> sub_inv s'"
      if "hub_heap (h\<lparr>hub_heap := sent_heap event {sub} h\<rparr>) y = Some s'" for y s'
      using that inv(2,3) s sub_changes(3) by (auto simp: heap split: if_splits)
    show "\<exists>s'. hub_heap (h\<lparr>hub_heap := sent_heap event {sub} h\<rparr>) y = Some s' \<and> sub_live s'"
      if "in_topic (h\<lparr>hub_heap := sent_heap event {sub} h\<rparr>) t' y" for t' y
    proof -
      have "in_topic h t' y" using that by (simp add: in_topic_def)
      then show ?thesis using inv(4) [of t' y] s by (auto simp: heap sent_sub_def)
    qed
  qed
qed

lemma publish_sends_spec:
  assumes "hub_inv h" "\<And>x. x \<in> set ids \<Longrightarrow> in_topic h t x" "distinct ids"
  shows "publish_sends event ids h = Inr (filter (full_in h) ids, h\<lparr>hub_heap := sent_heap event (set ids) h\<rparr>) \<and>
    hub_inv (h\<lparr>hub_heap := sent_heap event (set ids) h\<rparr>)"
  using assms
proof (induction ids arbitrary: h)
  case Nil
  then show ?case by (simp add: sent_heap_def)
next
  case (Cons a ids)
  define h1 where "h1 = h\<lparr>hub_heap := sent_heap event {a} h\<rparr>"
  have a: "in_topic h t a" using Cons.prems by simp
  note send = publish_send_spec [OF Cons.prems(1) a, of event, folded h1_def]
  have same: "hub_heap h1 x = hub_heap h x" if "x \<noteq> a" for x
    using that by (simp add: h1_def sent_heap_def)
  then have full: "full_in h1 x = full_in h x" if "x \<noteq> a" for x
    using that by (simp add: full_in_def)
  have "\<And>x. x \<in> set ids \<Longrightarrow> in_topic h1 t x" using Cons.prems by (simp add: h1_def in_topic_def)
  note IH = Cons.IH [OF send(2) this]
  have "filter (full_in h1) ids = filter (full_in h) ids"
    using full Cons.prems(3) by (metis distinct.simps(2) filter_cong)
  moreover have "sent_heap event (set ids) h1 = sent_heap event (set (a # ids)) h"
  proof (rule ext)
    fix x
    show "sent_heap event (set ids) h1 x = sent_heap event (set (a # ids)) h x"
      using Cons.prems(3) full [of x] same [of x]
      by (cases "x = a") (auto simp: sent_heap_def h1_def)
  qed
  moreover have "h1\<lparr>hub_heap := g\<rparr> = h\<lparr>hub_heap := g\<rparr>" for g by (simp add: h1_def)
  ultimately show ?case using IH send(1) Cons.prems(3) by simp
qed

lemma publish_marks_spec:
  assumes "hub_inv h" "\<And>x t. x \<in> set over \<Longrightarrow> in_topic h t x \<Longrightarrow> t = topic" "distinct over"
  shows "\<exists>h'. publish_marks topic over h = Inr h' \<and> hub_inv h' \<and> hub_next h' = hub_next h \<and>
    (\<forall>x. hub_heap h' x = (if x \<in> set over then map_option overflowed_sub (hub_heap h x) else hub_heap h x)) \<and>
    (\<forall>t x. in_topic h' t x \<longleftrightarrow> in_topic h t x \<and> x \<notin> set over)"
  using assms
proof (induction over arbitrary: h)
  case (Cons a over)
  obtain h1 where h1: "publish_mark topic a h = Inr h1" "hub_inv h1" "hub_next h1 = hub_next h"
    "hub_heap h1 = (hub_heap h)(a := map_option overflowed_sub (hub_heap h a))"
    "\<And>t x. in_topic h1 t x \<longleftrightarrow> in_topic h t x \<and> x \<noteq> a"
    using publish_mark_spec [OF Cons.prems(1), of a topic] Cons.prems(2) by auto
  obtain h2 where h2: "publish_marks topic over h1 = Inr h2" "hub_inv h2" "hub_next h2 = hub_next h1"
    "\<And>x. hub_heap h2 x = (if x \<in> set over then map_option overflowed_sub (hub_heap h1 x) else hub_heap h1 x)"
    "\<And>t x. in_topic h2 t x \<longleftrightarrow> in_topic h1 t x \<and> x \<notin> set over"
    using Cons.IH [OF h1(2)] Cons.prems(2,3) h1(5) by auto
  show ?case using Cons.prems(3) h1 h2 by (intro exI [of _ h2]) auto
qed auto

text \<open>What Publish does to every subscription of the hub.\<close>

definition published_sub :: "Envelope \<Rightarrow> Subscription \<Rightarrow> Subscription" where
  "published_sub event s = (if sub_full s then overflowed_sub s else sent_sub event s)"

lemma Publish_spec:
  assumes "hub_inv h"
  shows "\<exists>h'. Publish topic event h = Inr h' \<and> hub_inv h' \<and> hub_next h' = hub_next h \<and>
    (\<forall>x. hub_heap h' x =
       (if in_topic h topic x then map_option (published_sub event) (hub_heap h x) else hub_heap h x)) \<and>
    (\<forall>t x. in_topic h' t x \<longleftrightarrow> in_topic h t x \<and> \<not> (t = topic \<and> full_in h x))"
proof (cases "topic_subs h topic")
  case None
  then show ?thesis using assms by (auto simp: Publish_def in_topic_def)
next
  case (Some ids)
  note inv = hub_invD [OF assms]
  have mem: "in_topic h topic x \<longleftrightarrow> x \<in> set ids" for x using Some by (simp add: in_topic_def)
  have d: "distinct ids" using topics_invD(3) [OF inv(1) Some] .
  define h1 where "h1 = h\<lparr>hub_heap := sent_heap event (set ids) h\<rparr>"
  define over where "over = filter (full_in h) ids"
  have sends: "publish_sends event ids h = Inr (over, h1)" "hub_inv h1"
    using publish_sends_spec [OF assms, of ids topic event] mem d by (simp_all add: h1_def over_def)
  have it1: "in_topic h1 t x = in_topic h t x" for t x by (simp add: h1_def in_topic_def)
  have "\<And>x t. x \<in> set over \<Longrightarrow> in_topic h1 t x \<Longrightarrow> t = topic"
    using inv(5) mem by (auto simp: it1 over_def)
  then obtain h2 where h2: "publish_marks topic over h1 = Inr h2" "hub_inv h2" "hub_next h2 = hub_next h1"
    "\<And>x. hub_heap h2 x = (if x \<in> set over then map_option overflowed_sub (hub_heap h1 x) else hub_heap h1 x)"
    "\<And>t x. in_topic h2 t x \<longleftrightarrow> in_topic h1 t x \<and> x \<notin> set over"
    using publish_marks_spec [OF sends(2), of over topic] d by (auto simp: over_def)
  have "Publish topic event h = Inr h2"
    using Some sends(1) h2(1) by (auto simp: Publish_def)
  moreover have "hub_heap h2 x = (if in_topic h topic x then map_option (published_sub event) (hub_heap h x) else hub_heap h x)" for x
    by (cases "hub_heap h x")
       (auto simp: h2(4) over_def mem h1_def sent_heap_def full_in_def published_sub_def)
  moreover have "in_topic h2 t x \<longleftrightarrow> in_topic h t x \<and> \<not> (t = topic \<and> full_in h x)" for t x
    using inv(5) [of topic x t] mem by (auto simp: h2(5) it1 over_def)
  ultimately show ?thesis using h2(2,3) by (intro exI [of _ h2]) (simp add: h1_def)
qed

section \<open>Histories\<close>

text \<open>
  A sequential history of the hub: the operations its callers make, with what each receive
  returned. The theorem below is what a subscriber may rely on.
\<close>

datatype hub_op =
    OpSubscribe string nat
  | OpUnsubscribe nat
  | OpPublish string Envelope
  | OpReceive nat

fun run_op :: "hub_op \<Rightarrow> Hub \<Rightarrow> chan_panic + (nat \<times> Envelope) list \<times> Hub" where
  "run_op (OpSubscribe topic buffer) h = Inr ([], snd (Subscribe topic buffer h))"
| "run_op (OpUnsubscribe sub) h = (case Unsubscribe (Some sub) h of Inl p \<Rightarrow> Inl p | Inr h' \<Rightarrow> Inr ([], h'))"
| "run_op (OpPublish topic event) h = (case Publish topic event h of Inl p \<Rightarrow> Inl p | Inr h' \<Rightarrow> Inr ([], h'))"
| "run_op (OpReceive sub) h = (case Receive sub h of
      (None, h') \<Rightarrow> Inr ([], h') | (Some e, h') \<Rightarrow> Inr ([(sub, e)], h'))"

fun run_ops :: "hub_op list \<Rightarrow> Hub \<Rightarrow> chan_panic + (nat \<times> Envelope) list \<times> Hub" where
  "run_ops [] h = Inr ([], h)"
| "run_ops (p # ps) h = (case run_op p h of
      Inl e \<Rightarrow> Inl e
    | Inr (out, h') \<Rightarrow> (case run_ops ps h' of Inl e \<Rightarrow> Inl e | Inr (out', h'') \<Rightarrow> Inr (out @ out', h'')))"

definition received :: "nat \<Rightarrow> (nat \<times> Envelope) list \<Rightarrow> Envelope list" where
  "received sub out = map snd (filter (\<lambda>r. fst r = sub) out)"

fun published_to :: "string \<Rightarrow> hub_op list \<Rightarrow> Envelope list" where
  "published_to topic [] = []"
| "published_to topic (OpPublish t e # ps) = (if t = topic then e # published_to topic ps else published_to topic ps)"
| "published_to topic (_ # ps) = published_to topic ps"

lemma received_simps [simp]:
  "received sub [] = []"
  "received sub (a @ b) = received sub a @ received sub b"
  "received sub [(x, e)] = (if x = sub then [e] else [])"
  by (auto simp: received_def)

lemma Receive_spec:
  assumes "hub_inv h" "Receive sub h = (r, h')"
  shows "hub_inv h'" "in_topic h' t x = in_topic h t x"
    "\<exists>s'. hub_heap h x = Some s \<longrightarrow> hub_heap h' x = Some s' \<and> sub_live s' = sub_live s \<and>
       ch_buf (sub_Events s) = (if x = sub then (case r of None \<Rightarrow> [] | Some e \<Rightarrow> [e]) else []) @ ch_buf (sub_Events s')"
proof -
  note inv = hub_invD [OF assms(1)]
  consider "r = None" "h' = h"
    | s0 e vs where "hub_heap h sub = Some s0" "ch_buf (sub_Events s0) = e # vs" "r = Some e"
        "h' = h\<lparr>hub_heap := (hub_heap h)(sub \<mapsto> s0\<lparr>sub_Events := sub_Events s0\<lparr>ch_buf := vs\<rparr>\<rparr>)\<rparr>"
    using assms(2) by (auto simp: Receive_def recv_chan_def split: option.splits list.splits if_splits)
  then have "hub_inv h' \<and> in_topic h' t x = in_topic h t x \<and>
    (\<exists>s'. hub_heap h x = Some s \<longrightarrow> hub_heap h' x = Some s' \<and> sub_live s' = sub_live s \<and>
       ch_buf (sub_Events s) = (if x = sub then (case r of None \<Rightarrow> [] | Some e \<Rightarrow> [e]) else []) @ ch_buf (sub_Events s'))"
  proof cases
    case 1
    then show ?thesis using assms(1) by auto
  next
    case 2
    have it: "in_topic h' t x = in_topic h t x" for t x by (simp add: 2 in_topic_def)
    have s1: "sub_inv (s0\<lparr>sub_Events := sub_Events s0\<lparr>ch_buf := vs\<rparr>\<rparr>)"
      using inv(3) [OF 2(1)] 2(2) by (simp add: sub_inv_def)
    have "hub_inv h'"
    proof (rule hub_invI)
      show "topics_inv (hub_subscribers h')" using inv(1) by (simp add: 2)
      show "y < hub_next h' \<and> sub_inv s'" if "hub_heap h' y = Some s'" for y s'
        using that inv(2) [OF 2(1)] inv(2,3) s1 by (auto simp: 2(4) split: if_splits)
      show "\<exists>s'. hub_heap h' y = Some s' \<and> sub_live s'" if "in_topic h' t' y" for t' y
        using inv(4) [OF that [unfolded it]] 2(1) by (auto simp: 2(4))
    qed
    then show ?thesis using it 2 by (auto simp: 2(4))
  qed
  then show "hub_inv h'" "in_topic h' t x = in_topic h t x"
    "\<exists>s'. hub_heap h x = Some s \<longrightarrow> hub_heap h' x = Some s' \<and> sub_live s' = sub_live s \<and>
       ch_buf (sub_Events s) = (if x = sub then (case r of None \<Rightarrow> [] | Some e \<Rightarrow> [e]) else []) @ ch_buf (sub_Events s')"
    by blast+
qed

lemma published_to_append: "published_to topic (ps @ qs) = published_to topic ps @ published_to topic qs"
  by (induction topic ps rule: published_to.induct) auto

lemma run_op_inv: "hub_inv h \<Longrightarrow> \<exists>out h'. run_op p h = Inr (out, h') \<and> hub_inv h'"
proof (cases p)
  case (OpSubscribe t b)
  assume "hub_inv h"
  then show ?thesis using OpSubscribe Subscribe_spec(1) [of h t b] by (cases "Subscribe t b h") auto
next
  case (OpUnsubscribe x)
  assume "hub_inv h"
  then show ?thesis using OpUnsubscribe Unsubscribe_spec [of h x] by auto
next
  case (OpPublish t e)
  assume "hub_inv h"
  then show ?thesis using OpPublish Publish_spec [of h t e] by auto
next
  case (OpReceive x)
  assume "hub_inv h"
  then show ?thesis using OpReceive Receive_spec(1) [of h x] by (auto split: prod.splits option.splits)
qed

lemma run_ops_inv: "hub_inv h \<Longrightarrow> \<exists>out h'. run_ops ps h = Inr (out, h') \<and> hub_inv h'"
proof (induction ps arbitrary: h)
  case (Cons p ps)
  obtain out h1 where 1: "run_op p h = Inr (out, h1)" "hub_inv h1" using run_op_inv [OF Cons.prems] by blast
  then show ?case using Cons.IH [OF 1(2)] by fastforce
qed simp

text \<open>The subscription sub belongs to one topic, as long as it is live.\<close>

definition homed :: "Hub \<Rightarrow> nat \<Rightarrow> string \<Rightarrow> Subscription \<Rightarrow> bool" where
  "homed h sub topic s \<longleftrightarrow> hub_heap h sub = Some s \<and> (\<forall>t. in_topic h t sub \<longleftrightarrow> t = topic \<and> sub_live s)"

abbreviation sub_buf :: "Subscription \<Rightarrow> Envelope list" where
  "sub_buf s \<equiv> ch_buf (sub_Events s)"

lemma run_op_delivery:
  assumes "hub_inv h" "homed h sub topic s"
  shows "\<exists>out h' s' k. run_op p h = Inr (out, h') \<and> hub_inv h' \<and> homed h' sub topic s' \<and>
    received sub out @ sub_buf s' = sub_buf s @ take k (published_to topic [p]) \<and>
    (sub_live s' \<longrightarrow> sub_live s \<and> k = 1) \<and> (\<not> sub_live s \<longrightarrow> k = 0)"
proof (cases p)
  case (OpSubscribe t b)
  obtain x h' where x: "Subscribe t b h = (x, h')" by (cases "Subscribe t b h")
  note sp = Subscribe_spec [OF assms(1) x]
  have "sub \<noteq> x" using sp(2) hub_invD(2) [OF assms(1)] assms(2) by (auto simp: homed_def)
  then have "homed h' sub topic s" using sp assms(2) by (auto simp: homed_def)
  then show ?thesis
    using sp(1) OpSubscribe x by (cases "sub_live s") (auto intro: exI [of _ 1] exI [of _ 0])
next
  case (OpUnsubscribe x)
  obtain h' where h': "Unsubscribe (Some x) h = Inr h'" "hub_inv h'"
    "hub_heap h' = (hub_heap h)(x := map_option closed_sub (hub_heap h x))"
    "\<And>t y. in_topic h' t y \<longleftrightarrow> in_topic h t y \<and> y \<noteq> x"
    using Unsubscribe_spec [OF assms(1), of x] by auto
  have s: "hub_heap h sub = Some s" using assms(2) by (simp add: homed_def)
  define s' where "s' = (if x = sub then closed_sub s else s)"
  have "homed h' sub topic s'"
    using assms(2) h'(3,4) sub_changes(4) [OF hub_invD(3) [OF assms(1) s]] by (auto simp: homed_def s'_def)
  moreover have "sub_buf s' = sub_buf s" "sub_live s' \<Longrightarrow> sub_live s"
    using sub_changes(4) [OF hub_invD(3) [OF assms(1) s]] by (auto simp: s'_def split: if_splits)
  ultimately show ?thesis
    using h'(1,2) OpUnsubscribe by (cases "sub_live s") (auto intro!: exI [of _ s'] exI [of _ "1::nat"] exI [of _ "0::nat"])
next
  case (OpPublish t e)
  obtain h' where h': "Publish t e h = Inr h'" "hub_inv h'"
    "\<And>x. hub_heap h' x = (if in_topic h t x then map_option (published_sub e) (hub_heap h x) else hub_heap h x)"
    "\<And>t' x. in_topic h' t' x \<longleftrightarrow> in_topic h t' x \<and> \<not> (t' = t \<and> full_in h x)"
    using Publish_spec [OF assms(1), of t e] by auto
  have s: "hub_heap h sub = Some s" using assms(2) by (simp add: homed_def)
  note ch = sub_changes [OF hub_invD(3) [OF assms(1) s]]
  define s' where "s' = (if t = topic \<and> sub_live s then published_sub e s else s)"
  have "homed h' sub topic s'"
    using assms(2) h'(3,4) ch(5,6) by (auto simp: homed_def s'_def full_in_def published_sub_def)
  then show ?thesis
    using h'(1,2) OpPublish ch(5,6)
    by (intro exI [of _ "[]"] exI [of _ h'] exI [of _ s']
        exI [of _ "if sub_live s \<and> \<not> (t = topic \<and> sub_full s) then 1 else 0"])
       (auto simp: s'_def published_sub_def)
next
  case (OpReceive x)
  obtain r h' where r: "Receive x h = (r, h')" by (cases "Receive x h")
  note sp = Receive_spec [OF assms(1) r]
  obtain s' where s': "hub_heap h' sub = Some s'" "sub_live s' = sub_live s"
    "sub_buf s = (if sub = x then (case r of None \<Rightarrow> [] | Some e \<Rightarrow> [e]) else []) @ sub_buf s'"
    using sp(3) [of sub s] assms(2) by (auto simp: homed_def)
  have "homed h' sub topic s'" using assms(2) sp(2) s' by (simp add: homed_def)
  then show ?thesis
    using sp(1) OpReceive r s'
    by (intro exI [of _ "case r of None \<Rightarrow> [] | Some e \<Rightarrow> [(x, e)]"] exI [of _ h'] exI [of _ s']
        exI [of _ "if sub_live s then 1 else 0"]) (auto split: option.splits)
qed

lemma run_ops_delivery:
  assumes "hub_inv h" "homed h sub topic s"
  shows "\<exists>out h' s' k. run_ops ps h = Inr (out, h') \<and> hub_inv h' \<and> homed h' sub topic s' \<and>
    received sub out @ sub_buf s' = sub_buf s @ take k (published_to topic ps) \<and>
    (sub_live s' \<longrightarrow> sub_live s \<and> k = length (published_to topic ps)) \<and> (\<not> sub_live s \<longrightarrow> k = 0)"
  using assms
proof (induction ps arbitrary: h s)
  case Nil
  then show ?case by auto
next
  case (Cons p ps)
  obtain out h1 s1 k where 1: "run_op p h = Inr (out, h1)" "hub_inv h1" "homed h1 sub topic s1"
    "received sub out @ sub_buf s1 = sub_buf s @ take k (published_to topic [p])"
    "sub_live s1 \<Longrightarrow> sub_live s \<and> k = 1" "\<not> sub_live s \<Longrightarrow> k = 0"
    using run_op_delivery [OF Cons.prems, of p] by blast
  obtain out2 h2 s2 k2 where 2: "run_ops ps h1 = Inr (out2, h2)" "hub_inv h2" "homed h2 sub topic s2"
    "received sub out2 @ sub_buf s2 = sub_buf s1 @ take k2 (published_to topic ps)"
    "sub_live s2 \<Longrightarrow> sub_live s1 \<and> k2 = length (published_to topic ps)" "\<not> sub_live s1 \<Longrightarrow> k2 = 0"
    using Cons.IH [OF 1(2,3)] by blast
  let ?A = "published_to topic [p]" and ?B = "published_to topic ps"
  have A: "length ?A \<le> 1" by (cases p) auto
  have AB: "published_to topic (p # ps) = ?A @ ?B" using published_to_append [of topic "[p]" ps] by simp
  define K where "K = (if sub_live s1 then length ?A + k2 else min k (length ?A))"
  have "received sub (out @ out2) @ sub_buf s2 = sub_buf s @ take k ?A @ take k2 ?B"
    using 1(4) 2(4) by (metis append.assoc received_simps(2))
  moreover have "take K (?A @ ?B) = take k ?A @ take k2 ?B"
    using 1(5) 2(6) A by (auto simp: K_def min_def)
  moreover have "sub_live s2 \<longrightarrow> sub_live s \<and> K = length (published_to topic (p # ps))"
    using 1(5) 2(5) AB by (auto simp: K_def)
  moreover have "\<not> sub_live s \<longrightarrow> K = 0" using 1(5,6) by (auto simp: K_def)
  ultimately show ?case using 1(1) 2(1,2,3) by (auto simp: AB intro!: exI [of _ s2] exI [of _ K])
qed

section \<open>Interleavings\<close>

text \<open>
  What a goroutine is in the middle of: the send loop of Publish (holding the read lock, with
  the subscriptions still to visit and those that overflowed), waiting for the write lock,
  the marking loop (holding the write lock), or between the two halves of Unsubscribe.
\<close>

datatype task =
    Idle
  | PubSending string Envelope "nat list" "nat list"
  | PubWaiting string "nat list"
  | PubMarking string "nat list"
  | Closing nat

record hub_sys =
  sys_hub :: Hub
  sys_tasks :: "nat \<Rightarrow> task"
  sys_panic :: bool

definition sys_init :: hub_sys where
  "sys_init = \<lparr> sys_hub = NewHub, sys_tasks = (\<lambda>_. Idle), sys_panic = False \<rparr>"

definition is_reader :: "task \<Rightarrow> bool" where
  "is_reader t = (case t of PubSending _ _ _ _ \<Rightarrow> True | _ \<Rightarrow> False)"

definition is_writer :: "task \<Rightarrow> bool" where
  "is_writer t = (case t of PubMarking _ _ \<Rightarrow> True | _ \<Rightarrow> False)"

definition no_writer :: "hub_sys \<Rightarrow> bool" where
  "no_writer s \<longleftrightarrow> (\<forall>g. \<not> is_writer (sys_tasks s g))"

definition lock_free :: "hub_sys \<Rightarrow> bool" where
  "lock_free s \<longleftrightarrow> no_writer s \<and> (\<forall>g. \<not> is_reader (sys_tasks s g))"

text \<open>The effect of a hub operation on the system, with the goroutine's next task.\<close>

definition sys_to :: "nat \<Rightarrow> task \<Rightarrow> chan_panic + Hub \<Rightarrow> hub_sys \<Rightarrow> hub_sys" where
  "sys_to g t r s = (case r of
      Inl _ \<Rightarrow> s\<lparr>sys_panic := True\<rparr>
    | Inr h \<Rightarrow> s\<lparr>sys_hub := h, sys_tasks := (sys_tasks s)(g := t)\<rparr>)"

text \<open>
  One atomic step. A map is iterated in any order, so the send loop may visit the
  subscriptions of the topic in any order; a receive needs no lock; Subscribe, the first half
  of Unsubscribe and the marking loop exclude each other and every send loop; send loops of
  different goroutines interleave, and the second half of Unsubscribe interleaves with all.
\<close>

inductive hub_step :: "hub_sys \<Rightarrow> hub_sys \<Rightarrow> bool" where
  step_subscribe:
    "sys_tasks s g = Idle \<Longrightarrow> lock_free s \<Longrightarrow>
     hub_step s (s\<lparr>sys_hub := snd (Subscribe topic buffer (sys_hub s))\<rparr>)"
| step_detach:
    "sys_tasks s g = Idle \<Longrightarrow> lock_free s \<Longrightarrow> sub < hub_next (sys_hub s) \<Longrightarrow>
     hub_step s (s\<lparr>sys_hub := (sys_hub s)\<lparr>hub_subscribers := detach_all sub (hub_subscribers (sys_hub s))\<rparr>,
                   sys_tasks := (sys_tasks s)(g := Closing sub)\<rparr>)"
| step_close:
    "sys_tasks s g = Closing sub \<Longrightarrow>
     hub_step s (sys_to g Idle (on_sub sub closeSubscription (sys_hub s)) s)"
| step_rlock:
    "sys_tasks s g = Idle \<Longrightarrow> no_writer s \<Longrightarrow> topic_subs (sys_hub s) topic = Some ids \<Longrightarrow>
     mset todo = mset ids \<Longrightarrow>
     hub_step s (s\<lparr>sys_tasks := (sys_tasks s)(g := PubSending topic event todo [])\<rparr>)"
| step_send:
    "sys_tasks s g = PubSending topic event (sub # todo) over \<Longrightarrow>
     publish_send event sub (sys_hub s) = Inr (sent, h') \<Longrightarrow>
     hub_step s (sys_to g (PubSending topic event todo (if sent then over else over @ [sub])) (Inr h') s)"
| step_send_panic:
    "sys_tasks s g = PubSending topic event (sub # todo) over \<Longrightarrow>
     publish_send event sub (sys_hub s) = Inl p \<Longrightarrow>
     hub_step s (s\<lparr>sys_panic := True\<rparr>)"
| step_runlock:
    "sys_tasks s g = PubSending topic event [] over \<Longrightarrow>
     hub_step s (s\<lparr>sys_tasks := (sys_tasks s)(g := (if over = [] then Idle else PubWaiting topic over))\<rparr>)"
| step_lock:
    "sys_tasks s g = PubWaiting topic over \<Longrightarrow> lock_free s \<Longrightarrow>
     hub_step s (s\<lparr>sys_tasks := (sys_tasks s)(g := PubMarking topic over)\<rparr>)"
| step_mark:
    "sys_tasks s g = PubMarking topic (sub # over) \<Longrightarrow>
     hub_step s (sys_to g (PubMarking topic over) (publish_mark topic sub (sys_hub s)) s)"
| step_unlock:
    "sys_tasks s g = PubMarking topic [] \<Longrightarrow>
     hub_step s (s\<lparr>sys_tasks := (sys_tasks s)(g := Idle)\<rparr>)"
| step_receive:
    "hub_step s (s\<lparr>sys_hub := snd (Receive sub (sys_hub s))\<rparr>)"

inductive hub_reachable :: "hub_sys \<Rightarrow> bool" where
  reach_init: "hub_reachable sys_init"
| reach_step: "hub_reachable s \<Longrightarrow> hub_step s s' \<Longrightarrow> hub_reachable s'"

inductive_cases hub_stepE: "hub_step s s'"

text \<open>
  A subscription a goroutine is about to visit is registered under the topic while the read
  lock is held; one that overflowed can only ever be registered under that topic; one about to
  be closed is registered nowhere.
\<close>

definition task_inv :: "Hub \<Rightarrow> task \<Rightarrow> bool" where
  "task_inv h t = (case t of
      Idle \<Rightarrow> True
    | PubSending topic event todo over \<Rightarrow>
        (\<forall>x\<in>set todo. in_topic h topic x) \<and>
        (\<forall>x\<in>set over. x < hub_next h \<and> (\<forall>t'. in_topic h t' x \<longrightarrow> t' = topic))
    | PubWaiting topic over \<Rightarrow> (\<forall>x\<in>set over. x < hub_next h \<and> (\<forall>t'. in_topic h t' x \<longrightarrow> t' = topic))
    | PubMarking topic over \<Rightarrow> (\<forall>x\<in>set over. x < hub_next h \<and> (\<forall>t'. in_topic h t' x \<longrightarrow> t' = topic))
    | Closing sub \<Rightarrow> sub < hub_next h \<and> (\<forall>t. \<not> in_topic h t sub))"

definition sys_inv :: "hub_sys \<Rightarrow> bool" where
  "sys_inv s \<longleftrightarrow>
     \<not> sys_panic s \<and> hub_inv (sys_hub s) \<and>
     (\<forall>g. task_inv (sys_hub s) (sys_tasks s g)) \<and>
     (\<forall>g. is_writer (sys_tasks s g) \<longrightarrow>
        (\<forall>g'. g' \<noteq> g \<longrightarrow> \<not> is_writer (sys_tasks s g') \<and> \<not> is_reader (sys_tasks s g')))"

lemma sys_invD:
  assumes "sys_inv s"
  shows "\<not> sys_panic s" "hub_inv (sys_hub s)" "task_inv (sys_hub s) (sys_tasks s g)"
    "is_writer (sys_tasks s g) \<Longrightarrow> g' \<noteq> g \<Longrightarrow> \<not> is_writer (sys_tasks s g') \<and> \<not> is_reader (sys_tasks s g')"
  using assms by (auto simp: sys_inv_def)

text \<open>A step of a goroutine keeps the others' invariants if memberships only shrink, and none does under a read lock.\<close>

lemma task_inv_mono:
  assumes "task_inv h t" "hub_next h \<le> hub_next h'"
    "\<And>t x. x < hub_next h \<Longrightarrow> in_topic h' t x \<Longrightarrow> in_topic h t x"
    "is_reader t \<Longrightarrow> \<forall>t x. in_topic h t x \<longrightarrow> in_topic h' t x"
  shows "task_inv h' t"
  using assms by (cases t) (fastforce simp: task_inv_def is_reader_def)+

lemma sys_inv_change:
  assumes "sys_inv s" "hub_inv h'" "hub_next (sys_hub s) \<le> hub_next h'"
    "\<And>t x. x < hub_next (sys_hub s) \<Longrightarrow> in_topic h' t x \<Longrightarrow> in_topic (sys_hub s) t x"
    "\<And>g'. g' \<noteq> g \<Longrightarrow> is_reader (sys_tasks s g') \<Longrightarrow> \<forall>t x. in_topic (sys_hub s) t x \<longrightarrow> in_topic h' t x"
    "task_inv h' t"
    "is_writer t \<Longrightarrow> is_writer (sys_tasks s g) \<or> lock_free s"
    "is_reader t \<Longrightarrow> is_reader (sys_tasks s g) \<or> no_writer s"
  shows "sys_inv (s\<lparr>sys_hub := h', sys_tasks := (sys_tasks s)(g := t)\<rparr>)"
  unfolding sys_inv_def
proof (intro conjI allI impI)
  note inv = sys_invD [OF assms(1)]
  show "\<not> sys_panic (s\<lparr>sys_hub := h', sys_tasks := (sys_tasks s)(g := t)\<rparr>)" using inv(1) by simp
  show "hub_inv (sys_hub (s\<lparr>sys_hub := h', sys_tasks := (sys_tasks s)(g := t)\<rparr>))" using assms(2) by simp
  show "task_inv (sys_hub (s\<lparr>sys_hub := h', sys_tasks := (sys_tasks s)(g := t)\<rparr>))
      (sys_tasks (s\<lparr>sys_hub := h', sys_tasks := (sys_tasks s)(g := t)\<rparr>) g')" for g'
    using task_inv_mono [OF inv(3) [of g'] assms(3,4)] assms(5,6) by auto
  show "\<not> is_writer (sys_tasks (s\<lparr>sys_hub := h', sys_tasks := (sys_tasks s)(g := t)\<rparr>) g2)"
       "\<not> is_reader (sys_tasks (s\<lparr>sys_hub := h', sys_tasks := (sys_tasks s)(g := t)\<rparr>) g2)"
    if "is_writer (sys_tasks (s\<lparr>sys_hub := h', sys_tasks := (sys_tasks s)(g := t)\<rparr>) g1)" "g2 \<noteq> g1" for g1 g2
    using that inv(4) [of g1 g2] inv(4) [of g g2] inv(4) [of g1 g] assms(7,8)
    by (auto simp: lock_free_def no_writer_def split: if_splits)
qed

lemma detach_spec:
  assumes "hub_inv h" and "h1 = h\<lparr>hub_subscribers := detach_all sub (hub_subscribers h)\<rparr>"
  shows "hub_inv h1" "in_topic h1 t x \<longleftrightarrow> in_topic h t x \<and> x \<noteq> sub"
proof -
  note inv = hub_invD [OF assms(1)]
  show it: "in_topic h1 t x \<longleftrightarrow> in_topic h t x \<and> x \<noteq> sub" for t x
    by (cases "topic_subs h t")
       (auto dest: removeAll_NilD simp: in_topic_def assms(2) map_of_detach_all [OF topics_invD(1) [OF inv(1)]]
        split: if_splits)
  show "hub_inv h1"
  proof (rule hub_invI)
    show "topics_inv (hub_subscribers h1)" using topics_inv_detach_all [OF inv(1)] by (simp add: assms(2))
    show "y < hub_next h1 \<and> sub_inv s" if "hub_heap h1 y = Some s" for y s
      using that inv(2,3) by (simp add: assms(2))
    show "\<exists>s. hub_heap h1 y = Some s \<and> sub_live s" if "in_topic h1 t y" for t y
      using inv(4) [of t y] that [unfolded it] by (simp add: assms(2))
  qed
qed

lemma close_spec:
  assumes "hub_inv h" "\<And>t. \<not> in_topic h t sub"
  shows "\<exists>h'. on_sub sub closeSubscription h = Inr h' \<and> hub_inv h' \<and> hub_next h' = hub_next h \<and>
    (\<forall>t x. in_topic h' t x = in_topic h t x)"
proof -
  note inv = hub_invD [OF assms(1)]
  define h' where "h' = h\<lparr>hub_heap := (hub_heap h)(sub := map_option closed_sub (hub_heap h sub))\<rparr>"
  have "on_sub sub closeSubscription h = Inr h'"
    using sub_changes(7) [OF inv(3)] by (cases "hub_heap h sub") (simp_all add: on_sub_def h'_def fun_upd_idem)
  moreover have it: "in_topic h' t x = in_topic h t x" for t x by (simp add: in_topic_def h'_def)
  moreover have "hub_inv h'"
  proof (rule hub_invI)
    show "topics_inv (hub_subscribers h')" using inv(1) by (simp add: h'_def)
    show "y < hub_next h' \<and> sub_inv s" if "hub_heap h' y = Some s" for y s
      using that inv(2,3) sub_changes(1) by (auto simp: h'_def split: if_splits)
    show "\<exists>s. hub_heap h' y = Some s \<and> sub_live s" if "in_topic h' t y" for t y
      using that [unfolded it] inv(4) [of t y] assms(2) by (auto simp: h'_def)
  qed
  ultimately show ?thesis by (auto simp: h'_def)
qed

lemma hub_step_inv:
  assumes "hub_step s s'" "sys_inv s"
  shows "sys_inv s'"
  using assms(1)
proof cases
  note inv = sys_invD [OF assms(2)]
  case (step_subscribe g topic buffer)
  obtain sub h' where sub: "Subscribe topic buffer (sys_hub s) = (sub, h')"
    by (cases "Subscribe topic buffer (sys_hub s)")
  note sp = Subscribe_spec [OF inv(2) sub]
  have "sys_inv (s\<lparr>sys_hub := h', sys_tasks := (sys_tasks s)(g := Idle)\<rparr>)"
    using sp step_subscribe(3)
    by (intro sys_inv_change [OF assms(2)]) (auto simp: task_inv_def is_writer_def is_reader_def lock_free_def)
  then show ?thesis using step_subscribe sub by (simp add: fun_upd_idem)
next
  note inv = sys_invD [OF assms(2)]
  case (step_detach g sub)
  let ?h1 = "(sys_hub s)\<lparr>hub_subscribers := detach_all sub (hub_subscribers (sys_hub s))\<rparr>"
  note sp = detach_spec [OF inv(2) refl, of sub]
  show ?thesis
    unfolding step_detach(1)
    using sp step_detach(3,4)
    by (intro sys_inv_change [OF assms(2)]) (auto simp: task_inv_def is_writer_def is_reader_def lock_free_def)
next
  note inv = sys_invD [OF assms(2)]
  case (step_close g sub)
  have "\<forall>t. \<not> in_topic (sys_hub s) t sub" using inv(3) [of g] step_close(2) by (simp add: task_inv_def)
  then obtain h' where h': "on_sub sub closeSubscription (sys_hub s) = Inr h'" "hub_inv h'"
    "hub_next h' = hub_next (sys_hub s)" "\<And>t x. in_topic h' t x = in_topic (sys_hub s) t x"
    using close_spec [OF inv(2), of sub] by auto
  have "sys_inv (s\<lparr>sys_hub := h', sys_tasks := (sys_tasks s)(g := Idle)\<rparr>)"
    using h' by (intro sys_inv_change [OF assms(2)]) (auto simp: task_inv_def is_writer_def is_reader_def)
  then show ?thesis using step_close(1) h'(1) by (simp add: sys_to_def)
next
  note inv = sys_invD [OF assms(2)]
  case (step_rlock g topic ids todo event)
  have "set todo = set ids" using step_rlock(5) by (rule mset_eq_setD)
  then have "task_inv (sys_hub s) (PubSending topic event todo [])"
    using step_rlock(4) by (simp add: task_inv_def in_topic_def)
  then have "sys_inv (s\<lparr>sys_hub := sys_hub s, sys_tasks := (sys_tasks s)(g := PubSending topic event todo [])\<rparr>)"
    using inv(2) step_rlock(3)
    by (intro sys_inv_change [OF assms(2)]) (auto simp: is_writer_def)
  then show ?thesis using step_rlock(1) by simp
next
  note inv = sys_invD [OF assms(2)]
  case (step_send g topic event sub todo over sent h')
  have ti: "task_inv (sys_hub s) (PubSending topic event (sub # todo) over)" using inv(3) [of g] step_send(2) by simp
  then have mem: "in_topic (sys_hub s) topic sub" by (simp add: task_inv_def)
  note sp = publish_send_spec [OF inv(2) mem, of event]
  have h': "h' = (sys_hub s)\<lparr>hub_heap := sent_heap event {sub} (sys_hub s)\<rparr>" using step_send(3) sp(1) by simp
  have it: "in_topic h' t x = in_topic (sys_hub s) t x" for t x by (simp add: h' in_topic_def)
  have nx: "hub_next h' = hub_next (sys_hub s)" by (simp add: h')
  have u: "in_topic (sys_hub s) t' sub \<Longrightarrow> t' = topic" for t' by (rule hub_invD(5) [OF inv(2) _ mem])
  have "sub < hub_next (sys_hub s)" using hub_invD(2,4) [OF inv(2)] mem by blast
  then have "task_inv h' (PubSending topic event todo (if sent then over else over @ [sub]))"
    using ti u nx by (simp add: task_inv_def it)
  then show ?thesis
    unfolding step_send(1) sys_to_def sum.case
    using sp(2) [folded h'] step_send(2) nx
    by (intro sys_inv_change [OF assms(2)]) (auto simp: it is_writer_def is_reader_def)
next
  note inv = sys_invD [OF assms(2)]
  case (step_send_panic g topic event sub todo over p)
  have "in_topic (sys_hub s) topic sub" using inv(3) [of g] step_send_panic(2) by (simp add: task_inv_def)
  from publish_send_spec(1) [OF inv(2) this] step_send_panic(3) show ?thesis by simp
next
  note inv = sys_invD [OF assms(2)]
  case (step_runlock g topic event over)
  have "sys_inv (s\<lparr>sys_hub := sys_hub s, sys_tasks := (sys_tasks s)(g := (if over = [] then Idle else PubWaiting topic over))\<rparr>)"
    using inv(2) inv(3) [of g] step_runlock(2)
    by (intro sys_inv_change [OF assms(2)]) (auto simp: task_inv_def is_writer_def is_reader_def split: if_splits)
  then show ?thesis using step_runlock(1) by simp
next
  note inv = sys_invD [OF assms(2)]
  case (step_lock g topic over)
  have "sys_inv (s\<lparr>sys_hub := sys_hub s, sys_tasks := (sys_tasks s)(g := PubMarking topic over)\<rparr>)"
    using inv(2) inv(3) [of g] step_lock(2,3)
    by (intro sys_inv_change [OF assms(2)]) (auto simp: task_inv_def is_reader_def)
  then show ?thesis using step_lock(1) by simp
next
  note inv = sys_invD [OF assms(2)]
  case (step_mark g topic sub over)
  have ti: "task_inv (sys_hub s) (PubMarking topic (sub # over))" using inv(3) [of g] step_mark(2) by simp
  then obtain h' where h': "publish_mark topic sub (sys_hub s) = Inr h'" "hub_inv h'"
    "hub_next h' = hub_next (sys_hub s)" "\<And>t x. in_topic h' t x \<longleftrightarrow> in_topic (sys_hub s) t x \<and> x \<noteq> sub"
    using publish_mark_spec [OF inv(2), of sub topic] by (auto simp: task_inv_def)
  have w: "is_writer (sys_tasks s g)" using step_mark(2) by (simp add: is_writer_def)
  have "sys_inv (s\<lparr>sys_hub := h', sys_tasks := (sys_tasks s)(g := PubMarking topic over)\<rparr>)"
    using h' ti w inv(4) [OF w]
    by (intro sys_inv_change [OF assms(2)]) (auto simp: task_inv_def is_reader_def)
  then show ?thesis using step_mark(1) h'(1) by (simp add: sys_to_def)
next
  note inv = sys_invD [OF assms(2)]
  case (step_unlock g topic)
  have "sys_inv (s\<lparr>sys_hub := sys_hub s, sys_tasks := (sys_tasks s)(g := Idle)\<rparr>)"
    using inv(2) by (intro sys_inv_change [OF assms(2)]) (auto simp: task_inv_def is_writer_def is_reader_def)
  then show ?thesis using step_unlock(1) by simp
next
  note inv = sys_invD [OF assms(2)]
  case (step_receive sub)
  obtain r h' where r: "Receive sub (sys_hub s) = (r, h')" by (cases "Receive sub (sys_hub s)")
  note sp = Receive_spec(1,2) [OF inv(2) r]
  have nx: "hub_next h' = hub_next (sys_hub s)"
    using r by (auto simp: Receive_def split: option.splits prod.splits)
  have "task_inv h' (sys_tasks s 0)" using sp(2) nx by (intro task_inv_mono [OF inv(3)]) auto
  then have "sys_inv (s\<lparr>sys_hub := h', sys_tasks := (sys_tasks s)(0 := sys_tasks s 0)\<rparr>)"
    using sp nx by (intro sys_inv_change [OF assms(2)]) auto
  then show ?thesis using step_receive r by simp
qed

lemma hub_reachable_inv: "hub_reachable s \<Longrightarrow> sys_inv s"
proof (induction rule: hub_reachable.induct)
  case reach_init
  show ?case by (simp add: sys_inv_def sys_init_def task_inv_def is_writer_def)
next
  case (reach_step s s')
  then show ?case using hub_step_inv by blast
qed

text \<open>The atomic steps a goroutine still has to take.\<close>

fun task_work :: "task \<Rightarrow> nat" where
  "task_work Idle = 0"
| "task_work (Closing _) = 1"
| "task_work (PubMarking _ over) = 1 + length over"
| "task_work (PubWaiting _ over) = 2 + length over"
| "task_work (PubSending _ _ todo over) = 3 + 2 * length todo + length over"

definition advances :: "hub_sys \<Rightarrow> nat \<Rightarrow> bool" where
  "advances s g \<longleftrightarrow> (\<exists>s'. hub_step s s' \<and> task_work (sys_tasks s' g) < task_work (sys_tasks s g) \<and>
     (\<forall>g'. g' \<noteq> g \<longrightarrow> sys_tasks s' g' = sys_tasks s g'))"

lemma advancesI:
  "hub_step s s' \<Longrightarrow> task_work (sys_tasks s' g) < task_work (sys_tasks s g) \<Longrightarrow>
   (\<And>g'. g' \<noteq> g \<Longrightarrow> sys_tasks s' g' = sys_tasks s g') \<Longrightarrow> advances s g"
  unfolding advances_def by blast

lemma advances_marking:
  assumes "sys_inv s" "sys_tasks s g = PubMarking topic over"
  shows "advances s g"
proof (cases over)
  case Nil
  then show ?thesis using assms(2) by (intro advancesI [OF step_unlock]) auto
next
  case (Cons sub rest)
  have "task_inv (sys_hub s) (PubMarking topic over)" using sys_invD(3) [OF assms(1), of g] assms(2) by simp
  then obtain h' where "publish_mark topic sub (sys_hub s) = Inr h'"
    using publish_mark_spec [OF sys_invD(2) [OF assms(1)], of sub topic] Cons by (auto simp: task_inv_def)
  then show ?thesis
    using assms(2) Cons by (intro advancesI [OF step_mark [of s g topic sub rest]]) (auto simp: sys_to_def)
qed

lemma advances_sending:
  assumes "sys_inv s" "sys_tasks s g = PubSending topic event todo over"
  shows "advances s g"
proof (cases todo)
  case Nil
  then show ?thesis using assms(2) by (intro advancesI [OF step_runlock]) auto
next
  case (Cons sub rest)
  have "task_inv (sys_hub s) (PubSending topic event todo over)" using sys_invD(3) [OF assms(1), of g] assms(2) by simp
  then have "in_topic (sys_hub s) topic sub" using Cons by (simp add: task_inv_def)
  note sp = publish_send_spec(1) [OF sys_invD(2) [OF assms(1)] this, of event]
  show ?thesis
    using assms(2) Cons sp by (intro advancesI [OF step_send [OF _ sp]]) (auto simp: sys_to_def)
qed

lemma advances_closing:
  assumes "sys_inv s" "sys_tasks s g = Closing sub"
  shows "advances s g"
proof -
  have "task_inv (sys_hub s) (Closing sub)" using sys_invD(3) [OF assms(1), of g] assms(2) by simp
  then obtain h' where "on_sub sub closeSubscription (sys_hub s) = Inr h'"
    using close_spec [OF sys_invD(2) [OF assms(1)], of sub] by (auto simp: task_inv_def)
  then show ?thesis using assms(2) by (intro advancesI [OF step_close]) (auto simp: sys_to_def)
qed

lemma advances_waiting:
  assumes "sys_tasks s g = PubWaiting topic over" "lock_free s"
  shows "advances s g"
  using assms by (intro advancesI [OF step_lock]) auto

lemma hub_progress:
  assumes "sys_inv s" "sys_tasks s g \<noteq> Idle"
  shows "\<exists>g'. advances s g'"
proof (cases "lock_free s")
  case False
  then obtain g' where "is_writer (sys_tasks s g') \<or> is_reader (sys_tasks s g')"
    by (auto simp: lock_free_def no_writer_def)
  then have "advances s g'"
    using advances_marking [OF assms(1), of g'] advances_sending [OF assms(1), of g']
    by (cases "sys_tasks s g'") (auto simp: is_writer_def is_reader_def)
  then show ?thesis ..
next
  case True
  then show ?thesis
    using assms(2) advances_marking [OF assms(1)] advances_sending [OF assms(1)]
      advances_closing [OF assms(1)] advances_waiting [OF _ True]
    by (cases "sys_tasks s g") blast+
qed

section \<open>Properties\<close>

text \<open>
  C14: in no interleaving of Subscribe, Unsubscribe (of any pointer, any number of times),
  Publish and receives does a goroutine send on a closed channel or close one twice, and every
  subscription registered under a topic is open.
\<close>

theorem hub_never_panics:
  assumes "hub_reachable s"
  shows "\<not> sys_panic s \<and> (\<forall>topic sub. in_topic (sys_hub s) topic sub \<longrightarrow>
    (\<exists>c. hub_heap (sys_hub s) sub = Some c \<and> sub_live c \<and> \<not> ch_closed (sub_Events c)))"
proof -
  note inv = sys_invD [OF hub_reachable_inv [OF assms]]
  have "\<exists>c. hub_heap (sys_hub s) sub = Some c \<and> sub_live c \<and> \<not> ch_closed (sub_Events c)"
    if "in_topic (sys_hub s) topic sub" for topic sub
    using hub_invD(3,4) [OF inv(2)] that by (fastforce simp: sub_inv_def sub_live_def)
  then show ?thesis using inv(1) by blast
qed

text \<open>Two steps of a run: a subscriber registers on a full-size channel, another leaves.\<close>

lemma hub_never_panics_witness:
  "\<not> sys_panic (sys_init\<lparr>sys_hub := snd (Subscribe ''global'' 1 NewHub)\<rparr>)"
proof -
  have "hub_step sys_init (sys_init\<lparr>sys_hub := snd (Subscribe ''global'' 1 (sys_hub sys_init))\<rparr>)"
    by (rule step_subscribe [of _ 0])
       (simp_all add: sys_init_def lock_free_def no_writer_def is_writer_def is_reader_def)
  then have "hub_reachable (sys_init\<lparr>sys_hub := snd (Subscribe ''global'' 1 NewHub)\<rparr>)"
    using reach_step [OF reach_init] by (simp add: sys_init_def)
  then show ?thesis using hub_never_panics by blast
qed

text \<open>
  C15: no deadlock: in every reachable state with an operation under way some goroutine can take
  a step of its own operation, which brings it strictly nearer to its end.
\<close>

theorem hub_no_deadlock:
  assumes "hub_reachable s" "sys_tasks s g \<noteq> Idle"
  shows "\<exists>g'. advances s g'"
  using hub_progress [OF hub_reachable_inv [OF assms(1)] assms(2)] .

lemma hub_no_deadlock_witness:
  "\<exists>g'. advances (sys_init\<lparr>sys_hub := snd (Subscribe ''global'' 1 NewHub),
      sys_tasks := (\<lambda>_. Idle)(0 := PubSending ''global'' zero_Envelope [0] [])\<rparr>) g'"
proof -
  let ?s1 = "sys_init\<lparr>sys_hub := snd (Subscribe ''global'' 1 NewHub)\<rparr>"
  have "hub_step sys_init (sys_init\<lparr>sys_hub := snd (Subscribe ''global'' 1 (sys_hub sys_init))\<rparr>)"
    by (rule step_subscribe [of _ 0])
       (simp_all add: sys_init_def lock_free_def no_writer_def is_writer_def is_reader_def)
  then have r1: "hub_reachable ?s1" using reach_step [OF reach_init] by (simp add: sys_init_def)
  have "hub_step ?s1 (?s1\<lparr>sys_tasks := (sys_tasks ?s1)(0 := PubSending ''global'' zero_Envelope [0] [])\<rparr>)"
    by (rule step_rlock [where ids = "[0]"])
       (simp_all add: sys_init_def no_writer_def is_writer_def Subscribe_def NewHub_def Let_def)
  then have "hub_reachable (sys_init\<lparr>sys_hub := snd (Subscribe ''global'' 1 NewHub),
      sys_tasks := (\<lambda>_. Idle)(0 := PubSending ''global'' zero_Envelope [0] [])\<rparr>)"
    using reach_step [OF r1] by (simp add: sys_init_def)
  then show ?thesis by (rule hub_no_deadlock [where g = 0]) simp
qed

text \<open>
  C16: delivery. After Subscribe on a topic, whatever sequence of operations follows, what the
  subscriber received followed by what waits in its channel is a prefix of the events published
  to the topic since, in their order, each once; as long as the subscription is neither
  unsubscribed nor overflowed it is all of them. No operation of the history panics.
\<close>

theorem hub_delivery:
  assumes "run_ops before NewHub = Inr (out0, h)" "Subscribe topic buffer h = (sub, h0)"
  shows "\<exists>out h' s. run_ops ps h0 = Inr (out, h') \<and> hub_heap h' sub = Some s \<and>
    (\<exists>k. received sub out @ sub_buf s = take k (published_to topic ps) \<and>
      (sub_live s \<longrightarrow> k = length (published_to topic ps)))"
proof -
  have "hub_inv h" using run_ops_inv [OF hub_inv_New, of before] assms(1) by auto
  note sp = Subscribe_spec [OF this assms(2)]
  have "homed h0 sub topic (newSubscription buffer)"
    using sp hub_invD(2,4) [OF \<open>hub_inv h\<close>] by (fastforce simp: homed_def)
  then obtain out h' s k where "run_ops ps h0 = Inr (out, h')" "homed h' sub topic s"
    "received sub out @ sub_buf s = sub_buf (newSubscription buffer) @ take k (published_to topic ps)"
    "sub_live s \<Longrightarrow> k = length (published_to topic ps)"
    using run_ops_delivery [OF sp(1), of sub topic _ ps] by blast
  moreover have "sub_buf (newSubscription buffer) = []" by (simp add: newSubscription_def make_chan_def)
  ultimately show ?thesis unfolding homed_def by (metis append_Nil)
qed

lemma hub_delivery_witness:
  "\<exists>out h' s. run_ops [OpPublish ''t'' zero_Envelope, OpPublish ''t'' zero_Envelope, OpReceive 0]
       (snd (Subscribe ''t'' 1 NewHub)) = Inr (out, h') \<and> hub_heap h' 0 = Some s \<and>
     (\<exists>k. received 0 out @ sub_buf s =
        take k (published_to ''t'' [OpPublish ''t'' zero_Envelope, OpPublish ''t'' zero_Envelope, OpReceive 0]) \<and>
       (sub_live s \<longrightarrow> k = length (published_to ''t''
          [OpPublish ''t'' zero_Envelope, OpPublish ''t'' zero_Envelope, OpReceive 0])))"
proof (rule hub_delivery [of "[]" "[]" NewHub])
  show "Subscribe ''t'' 1 NewHub = (0, snd (Subscribe ''t'' 1 NewHub))"
    by (simp add: Subscribe_def NewHub_def Let_def)
qed simp

end
