(* ===== verification/Database.thy ===== *)
theory Database
  imports Events "HOL-Library.AList" "HOL-Library.Product_Lexorder"
begin

text \<open>
  The PostgreSQL database as the store package sees it: the rows of the tables its statements
  name (db/migrations), the counters of the serial columns, and the two ways a statement meets
  the world outside: a fault before it took effect (lost connection, cancelled context) or a
  fault after it did (the acknowledgement is lost). The behaviour of PostgreSQL's own types is
  an argument of every statement that relies on it (\<open>Pg\<close>): the cast of text to numeric, of JSON
  to jsonb, and to_timestamp.
\<close>

section \<open>PostgreSQL's types\<close>

text \<open>
  A numeric is its canonical text; None is an invalid input. A timestamptz is its number of
  microseconds since 1970.
\<close>

record Pg =
  pg_numeric :: "string \<Rightarrow> string option"
  pg_jsonb :: "json \<Rightarrow> json option"
  pg_to_timestamp :: "f64 \<Rightarrow> int option"

text \<open>extract(epoch from t)::bigint: the cast of a numeric rounds half away from zero.\<close>

definition epoch_bigint :: "int \<Rightarrow> int" where
  "epoch_bigint us = (if 0 \<le> us then (2 * us + 1000000) div 2000000 else - ((2 * (- us) + 1000000) div 2000000))"

text \<open>The operator ->> on a jsonb object with text fields.\<close>

definition jsonb_text :: "json \<Rightarrow> string \<Rightarrow> string option" where
  "jsonb_text j key = (case j of
      JObj fs \<Rightarrow> (case map_of fs key of
          Some (JStr s) \<Rightarrow> Some s
        | Some (JNum s) \<Rightarrow> Some s
        | Some (JBool b) \<Rightarrow> Some (if b then ''true'' else ''false'')
        | _ \<Rightarrow> None)
    | _ \<Rightarrow> None)"

text \<open>
  The limit clause. The code takes the limit as the capacity of the result as well, which panics
  below zero; no caller passes such a limit.
\<close>

definition sql_limit :: "int \<Rightarrow> 'a list \<Rightarrow> 'a list res" where
  "sql_limit n rows = (if n < 0 then Inl (ErrDB ''LIMIT must not be negative'') else Inr (take (nat n) rows))"

text \<open>
  A value of type text: no zero byte, and the bytes are UTF-8 (no overlong form, no surrogate).
\<close>

definition utf8_tail :: "nat \<Rightarrow> bool" where
  "utf8_tail b \<longleftrightarrow> 128 \<le> b \<and> b < 192"

fun utf8 :: "nat list \<Rightarrow> bool" where
  "utf8 [] = True"
| "utf8 (a # bs) =
    (if a < 128 then utf8 bs
     else if a < 194 then False
     else if a < 224 then (case bs of b # rest \<Rightarrow> utf8_tail b \<and> utf8 rest | _ \<Rightarrow> False)
     else if a < 240 then (case bs of
         b # c # rest \<Rightarrow> utf8_tail b \<and> (a = 224 \<longrightarrow> 160 \<le> b) \<and> (a = 237 \<longrightarrow> b < 160) \<and> utf8_tail c \<and> utf8 rest
       | _ \<Rightarrow> False)
     else if a < 245 then (case bs of
         b # c # d # rest \<Rightarrow> utf8_tail b \<and> (a = 240 \<longrightarrow> 144 \<le> b) \<and> (a = 244 \<longrightarrow> b < 144) \<and>
           utf8_tail c \<and> utf8_tail d \<and> utf8 rest
       | _ \<Rightarrow> False)
     else False)"

definition valid_text :: "string \<Rightarrow> bool" where
  "valid_text s \<longleftrightarrow> CHR 0x00 \<notin> set s \<and> utf8 (map of_char s)"

section \<open>Rows\<close>

record ServiceEventRow =
  se_log_id :: int
  se_event_id :: string
  se_schema_version :: int
  se_chain :: string
  se_protocol :: string
  se_event_type :: string
  se_commitment :: string
  se_slot :: int
  se_tx_signature :: string
  se_tx_index :: int
  se_instruction_source :: string
  se_outer_index :: int
  se_inner_index :: "int option"
  se_event_source :: string
  se_event_unix_ts :: int
  se_refs :: json
  se_payload :: json
  se_created_at :: int

record TokenRow =
  tk_mint :: string
  tk_creator :: "string option"
  tk_bonding_curve :: "string option"
  tk_token_program :: "string option"
  tk_create_event_id :: "string option"
  tk_first_seen_at :: int
  tk_current_stage :: string
  tk_active_market_id :: "string option"
  tk_active_market_type :: "string option"
  tk_migrated_at :: "int option"
  tk_updated_at :: int

record TokenMetadataRow =
  md_mint :: string
  md_name :: "string option"
  md_symbol :: "string option"
  md_uri :: "string option"
  md_image_uri :: "string option"
  md_decimals :: "int option"
  md_total_supply_raw :: "string option"
  md_quote_mint :: "string option"
  md_quote_decimals :: "int option"
  md_creator :: "string option"
  md_bonding_curve :: "string option"
  md_token_program :: "string option"
  md_is_mayhem_mode :: "bool option"
  md_is_cashback_enabled :: "bool option"
  md_source_event_id :: "string option"
  md_updated_at :: int

record TokenMarketRow =
  mk_market_id :: string
  mk_mint :: string
  mk_protocol :: string
  mk_market_type :: string
  mk_bonding_curve :: "string option"
  mk_pool :: "string option"
  mk_base_mint :: "string option"
  mk_quote_mint :: "string option"
  mk_base_mint_decimals :: "int option"
  mk_quote_mint_decimals :: "int option"
  mk_lp_mint :: "string option"
  mk_started_at :: int
  mk_ended_at :: "int option"
  mk_create_event_id :: string
  mk_updated_at :: int

record TradeRow =
  tr_event_time :: int
  tr_event_id :: string
  tr_mint :: string
  tr_market_id :: string
  tr_market_type :: string
  tr_protocol :: string
  tr_side :: string
  tr_ix_name :: string
  tr_user_address :: string
  tr_quote_mint :: string
  tr_token_amount_raw :: string
  tr_quote_amount_raw :: string
  tr_tx_signature :: string
  tr_slot :: int
  tr_raw_event_source :: string
  tr_insert_seq :: int

record ActivityRow =
  ac_event_time :: int
  ac_event_id :: string
  ac_mint :: string
  ac_protocol :: string
  ac_event_type :: string
  ac_activity_type :: string
  ac_market_id :: "string option"
  ac_market_type :: "string option"
  ac_user_address :: "string option"
  ac_side :: "string option"
  ac_quote_mint :: "string option"
  ac_token_amount_raw :: "string option"
  ac_quote_amount_raw :: "string option"
  ac_tx_signature :: string
  ac_slot :: int
  ac_raw_event_source :: string
  ac_details :: json
  ac_insert_seq :: int

record TokenMetricsCurrentRow =
  cm_mint :: string
  cm_latest_price :: "f64 option"
  cm_latest_trade_at :: "int option"
  cm_anchor_price_1m :: "f64 option"
  cm_anchor_price_5m :: "f64 option"
  cm_anchor_price_1h :: "f64 option"
  cm_anchor_price_4h :: "f64 option"
  cm_anchor_price_24h :: "f64 option"
  cm_txns_1m :: int
  cm_txns_5m :: int
  cm_txns_1h :: int
  cm_txns_4h :: int
  cm_txns_24h :: int
  cm_buys_1m :: int
  cm_buys_5m :: int
  cm_buys_1h :: int
  cm_buys_4h :: int
  cm_buys_24h :: int
  cm_sells_1m :: int
  cm_sells_5m :: int
  cm_sells_1h :: int
  cm_sells_4h :: int
  cm_sells_24h :: int
  cm_volume_1m :: f64
  cm_volume_5m :: f64
  cm_volume_1h :: f64
  cm_volume_4h :: f64
  cm_volume_24h :: f64
  cm_buy_volume_1m :: f64
  cm_buy_volume_5m :: f64
  cm_buy_volume_1h :: f64
  cm_buy_volume_4h :: f64
  cm_buy_volume_24h :: f64
  cm_sell_volume_1m :: f64
  cm_sell_volume_5m :: f64
  cm_sell_volume_1h :: f64
  cm_sell_volume_4h :: f64
  cm_sell_volume_24h :: f64
  cm_source_log_id :: int
  cm_updated_at :: int

section \<open>The database\<close>

record Tables =
  service_events :: "ServiceEventRow list"
  projection_offsets :: "(string \<times> int) list"
  tokens :: "(string \<times> TokenRow) list"
  token_metadata_current :: "(string \<times> TokenMetadataRow) list"
  token_markets :: "(string \<times> TokenMarketRow) list"
  token_trade_events :: "TradeRow list"
  token_activity_events :: "ActivityRow list"
  token_metrics_current :: "(string \<times> TokenMetricsCurrentRow) list"

datatype db_fault = FaultBefore string | FaultAfter string

text \<open>
  A serial counter is not transactional: a statement that draws from it and inserts nothing, or
  is rolled back, has used the number up.
\<close>

record Db =
  db_tables :: Tables
  db_log_seq :: int
  db_trade_seq :: int
  db_activity_seq :: int
  db_now :: int
  db_clock :: nat
  db_faults :: "nat \<Rightarrow> db_fault option"

definition empty_tables :: Tables where
  "empty_tables = \<lparr> service_events = [], projection_offsets = [], tokens = [],
     token_metadata_current = [], token_markets = [], token_trade_events = [],
     token_activity_events = [], token_metrics_current = [] \<rparr>"

definition empty_db :: "(nat \<Rightarrow> db_fault option) \<Rightarrow> Db" where
  "empty_db faults = \<lparr> db_tables = empty_tables, db_log_seq = 1, db_trade_seq = 1, db_activity_seq = 1,
     db_now = 0, db_clock = 0, db_faults = faults \<rparr>"

definition fault_free :: "Db \<Rightarrow> bool" where
  "fault_free s \<longleftrightarrow> (\<forall>n. db_faults s n = None)"

definition tick :: "Db \<Rightarrow> Db" where
  "tick s = s\<lparr>db_clock := Suc (db_clock s)\<rparr>"

text \<open>One statement: f is its effect, or the error PostgreSQL reports for its arguments.\<close>

definition db_exec :: "(Db \<Rightarrow> Db res) \<Rightarrow> Db action" where
  "db_exec f s = (case db_faults s (db_clock s) of
      Some (FaultBefore m) \<Rightarrow> (Some (ErrDB m), tick s)
    | fault \<Rightarrow> (case f (tick s) of
        Inl e \<Rightarrow> (Some e, tick s)
      | Inr s' \<Rightarrow> (case fault of Some (FaultAfter m) \<Rightarrow> (Some (ErrDB m), s') | _ \<Rightarrow> (None, s'))))"

text \<open>One statement with a result.\<close>

definition db_query :: "(Db \<Rightarrow> ('a \<times> Db) res) \<Rightarrow> Db \<Rightarrow> 'a res \<times> Db" where
  "db_query f s = (case db_faults s (db_clock s) of
      Some (FaultBefore m) \<Rightarrow> (Inl (ErrDB m), tick s)
    | fault \<Rightarrow> (case f (tick s) of
        Inl e \<Rightarrow> (Inl e, tick s)
      | Inr (r, s') \<Rightarrow> (case fault of Some (FaultAfter m) \<Rightarrow> (Inl (ErrDB m), s') | _ \<Rightarrow> (Inr r, s'))))"

definition db_read :: "(Tables \<Rightarrow> 'a res) \<Rightarrow> Db \<Rightarrow> 'a res \<times> Db" where
  "db_read f = db_query (\<lambda>s. map_sum id (\<lambda>r. (r, s)) (f (db_tables s)))"

text \<open>
  RunInTransaction of store/service_event.go. fn runs on the transaction's executor; its error,
  or a failing commit, leaves the tables as they were when the transaction began (unless the
  commit took effect and only its acknowledgement was lost).
\<close>

definition rollback_to :: "Tables \<Rightarrow> Db \<Rightarrow> Db" where
  "rollback_to t s = s\<lparr>db_tables := t\<rparr>"

definition RunInTransaction :: "Db action \<Rightarrow> Db action" where
  "RunInTransaction fn s = (case db_exec Inr s of
      (Some e, s0) \<Rightarrow> (Some (ErrWrap ''begin transaction'' e), s0)
    | (None, s0) \<Rightarrow> (case fn s0 of
        (Some err, s1) \<Rightarrow> (case db_exec Inr (rollback_to (db_tables s0) s1) of
            (Some rollbackErr, s2) \<Rightarrow> (Some (ErrWrap ''rollback transaction after error'' rollbackErr), s2)
          | (None, s2) \<Rightarrow> (Some err, s2))
      | (None, s1) \<Rightarrow> (case db_faults s1 (db_clock s1) of
            Some (FaultBefore m) \<Rightarrow>
              (Some (ErrWrap ''commit transaction'' (ErrDB m)), tick (rollback_to (db_tables s0) s1))
          | Some (FaultAfter m) \<Rightarrow> (Some (ErrWrap ''commit transaction'' (ErrDB m)), tick s1)
          | None \<Rightarrow> (None, tick s1))))"

section \<open>Facts\<close>

lemma tick_sel [simp]:
  "db_tables (tick s) = db_tables s" "db_log_seq (tick s) = db_log_seq s"
  "db_trade_seq (tick s) = db_trade_seq s" "db_activity_seq (tick s) = db_activity_seq s"
  "db_now (tick s) = db_now s" "db_faults (tick s) = db_faults s" "db_clock (tick s) = Suc (db_clock s)"
  by (simp_all add: tick_def)

lemma fault_free_tick [simp]: "fault_free (tick s) = fault_free s"
  by (simp add: fault_free_def)

lemma db_exec_fault_free:
  "fault_free s \<Longrightarrow> db_exec f s = (case f (tick s) of Inl e \<Rightarrow> (Some e, tick s) | Inr s' \<Rightarrow> (None, s'))"
  by (simp add: fault_free_def db_exec_def split: sum.splits)

lemma db_query_fault_free:
  "fault_free s \<Longrightarrow> db_query f s = (case f (tick s) of Inl e \<Rightarrow> (Inl e, tick s) | Inr (r, s') \<Rightarrow> (Inr r, s'))"
  by (simp add: fault_free_def db_query_def split: sum.splits prod.splits)

lemma db_read_state: "snd (db_read f s) = tick s"
  by (cases "f (db_tables s)")
     (auto simp: db_read_def db_query_def split: option.splits db_fault.splits)

lemma db_read_ok: "fst (db_read f s) = Inr r \<Longrightarrow> f (db_tables s) = Inr r"
  by (cases "f (db_tables s)")
     (auto simp: db_read_def db_query_def split: option.splits db_fault.splits)

lemma db_read_fault_free: "fault_free s \<Longrightarrow> db_read f s = (f (db_tables s), tick s)"
  by (cases "f (db_tables s)") (simp_all add: db_read_def db_query_fault_free)

text \<open>A failed or a successful statement leaves either the old state (one tick later) or its effect.\<close>

lemma db_exec_cases:
  assumes "db_exec f s = (r, s')"
  obtains "r \<noteq> None" "s' = tick s" | "f (tick s) = Inr s'"
  using assms by (auto simp: db_exec_def split: option.splits db_fault.splits sum.splits)

lemma db_exec_ok: "db_exec f s = (None, s') \<Longrightarrow> f (tick s) = Inr s'"
  by (auto simp: db_exec_def split: option.splits db_fault.splits sum.splits)

text \<open>A transaction is atomic: on any outcome the tables are the old ones or all of fn's effect.\<close>

lemma RunInTransaction_ok:
  assumes "RunInTransaction fn s = (None, s')"
  shows "\<exists>s1. fn (tick s) = (None, s1) \<and> s' = tick s1"
  using assms
  by (auto simp: RunInTransaction_def db_exec_def split: option.splits db_fault.splits sum.splits prod.splits)

lemma RunInTransaction_err:
  assumes "RunInTransaction fn s = (Some e, s')"
  shows "db_tables s' = db_tables s \<or> (\<exists>s1. fn (tick s) = (None, s1) \<and> db_tables s' = db_tables s1)"
  using assms
  by (auto simp: RunInTransaction_def db_exec_def rollback_to_def split: option.splits db_fault.splits sum.splits prod.splits)

lemma RunInTransaction_fault_free:
  assumes "fault_free s" "fault_free (snd (fn (tick s)))"
  shows "RunInTransaction fn s = (case fn (tick s) of
      (Some err, s1) \<Rightarrow> (Some err, tick (rollback_to (db_tables s) s1))
    | (None, s1) \<Rightarrow> (None, tick s1))"
  using assms
  by (auto simp: RunInTransaction_def db_exec_def fault_free_def rollback_to_def split: option.splits prod.splits)

end
