(* ===== verification/Jsonb.thy ===== *)
theory Jsonb
  imports Database
begin

text \<open>
  What the code relies on of PostgreSQL's jsonb type: an object is kept as a set of fields, so
  its text comes back with the fields in another order, at every depth, and nothing else of a
  value that is accepted changes as long as the keys are distinct, the numbers are plain integers
  and the strings are valid texts.
\<close>

text \<open>The same value up to the order of the fields of the objects in it.\<close>

inductive same_json :: "json \<Rightarrow> json \<Rightarrow> bool" where
  same_refl: "same_json j j"
| same_obj: "plain_keys fs \<Longrightarrow> plain_keys fs' \<Longrightarrow>
    (\<And>k. rel_option same_json (map_of fs k) (map_of fs' k)) \<Longrightarrow> same_json (JObj fs) (JObj fs')"
| same_arr: "list_all2 same_json js js' \<Longrightarrow> same_json (JArr js) (JArr js')"
monos option.rel_mono_strong list.rel_mono_strong

fun canonical_json :: "json \<Rightarrow> bool" where
  "canonical_json JNull = True"
| "canonical_json (JBool b) = True"
| "canonical_json (JNum s) = (case parse_int s of Some n \<Rightarrow> s = int_to_string n | None \<Rightarrow> False)"
| "canonical_json (JFloat x) = False"
| "canonical_json (JStr s) = valid_text s"
| "canonical_json (JArr js) = (\<forall>j\<in>set js. canonical_json j)"
| "canonical_json (JObj fs) = (plain_keys fs \<and> (\<forall>(k, j)\<in>set fs. valid_text k \<and> canonical_json j))"

definition jsonb_law :: "Pg \<Rightarrow> bool" where
  "jsonb_law pg \<longleftrightarrow> (\<forall>j j'. canonical_json j \<longrightarrow> pg_jsonb pg j = Some j' \<longrightarrow> same_json j j')"

inductive_cases same_jsonE: "same_json j j'"

section \<open>Reading does not see the order of the fields\<close>

named_theorems same_json_st \<open>setters that agree on the same value\<close>

definition st_same :: "(json \<Rightarrow> 'a \<Rightarrow> 'a \<times> bool) \<Rightarrow> bool" where
  "st_same st \<longleftrightarrow> (\<forall>j j' v. same_json j j' \<longrightarrow> st j v = st j' v)"

lemma st_same_scalar [same_json_st]:
  "st_same st_str" "st_same st_ostr" "st_same st_bool" "st_same st_obool"
  "st_same (st_uint b)" "st_same (st_ouint b)"
  by (auto simp: st_same_def st_str_def st_ostr_def st_bool_def st_obool_def st_uint_def st_ouint_def
      elim!: same_jsonE)

lemma dec_field_same:
  assumes "st_same st" "same_json (JObj fs) (JObj fs')" "lower_key name"
  shows "dec_field st name fs v = dec_field st name fs' v"
  using assms(2)
proof (cases rule: same_json.cases)
  case same_obj
  have "rel_option same_json (map_of fs name) (map_of fs' name)" using same_obj(3) .
  then show ?thesis
    using assms(1) same_obj(1,2) assms(3)
    by (auto simp: dec_field_map_of st_same_def elim!: option.rel_cases split: option.splits)
qed simp

lemma st_same_struct:
  assumes "\<And>fs fs' v. same_json (JObj fs) (JObj fs') \<Longrightarrow> dec fs v = dec fs' v"
  shows "st_same (st_struct dec)"
  unfolding st_same_def
proof (intro allI impI)
  fix j j' v
  assume s: "same_json j j'"
  then show "st_struct dec j v = st_struct dec j' v"
  proof (cases rule: same_json.cases)
    case (same_obj fs fs')
    then show ?thesis using s assms by simp
  qed (simp_all add: st_struct_def)
qed

lemma same_args:
  assumes "same_json (JObj fs) (JObj fs')"
  shows "dec_PumpfunTradeInstructionArgs fs a = dec_PumpfunTradeInstructionArgs fs' a"
    "dec_PumpAmmSwapInstructionArgs fs b = dec_PumpAmmSwapInstructionArgs fs' b"
    "dec_PumpAmmCreatePoolInstructionArgs fs c = dec_PumpAmmCreatePoolInstructionArgs fs' c"
    "dec_PumpAmmLiquidityInstructionArgs fs d = dec_PumpAmmLiquidityInstructionArgs fs' d"
  by (simp_all only: dec_PumpfunTradeInstructionArgs_def dec_PumpAmmSwapInstructionArgs_def
      dec_PumpAmmCreatePoolInstructionArgs_def dec_PumpAmmLiquidityInstructionArgs_def
      dec_field_same [OF _ assms] same_json_st lower_key_lits)

lemmas st_same_args [same_json_st] =
  st_same_struct [of dec_PumpfunTradeInstructionArgs, OF same_args(1)]
  st_same_struct [of dec_PumpAmmSwapInstructionArgs, OF same_args(2)]
  st_same_struct [of dec_PumpAmmCreatePoolInstructionArgs, OF same_args(3)]
  st_same_struct [of dec_PumpAmmLiquidityInstructionArgs, OF same_args(4)]

lemma same_payload:
  assumes "same_json (JObj fs) (JObj fs')"
  shows "dec_PumpfunTradePayload fs a = dec_PumpfunTradePayload fs' a"
    "dec_PumpfunCreatePayload fs b = dec_PumpfunCreatePayload fs' b"
    "dec_PumpfunMigratePayload fs c = dec_PumpfunMigratePayload fs' c"
    "dec_PumpAmmSwapPayload fs d = dec_PumpAmmSwapPayload fs' d"
    "dec_PumpAmmCreatePoolPayload fs e = dec_PumpAmmCreatePoolPayload fs' e"
    "dec_PumpAmmLiquidityPayload fs f = dec_PumpAmmLiquidityPayload fs' f"
    "dec_EventRefs fs g = dec_EventRefs fs' g"
  by (simp_all only: dec_PumpfunTradePayload_def dec_PumpfunCreatePayload_def dec_PumpfunMigratePayload_def
      dec_PumpAmmSwapPayload_def dec_PumpAmmCreatePoolPayload_def dec_PumpAmmLiquidityPayload_def dec_EventRefs_def
      dec_field_same [OF _ assms] same_json_st lower_key_lits)

text \<open>A payload read back from jsonb is the payload that was written.\<close>

lemma unmarshal_same:
  assumes "same_json j j'" "st_same (st_struct dec)"
  shows "unmarshal_struct dec z (RawJson j') = unmarshal_struct dec z (RawJson j)"
  using assms by (simp add: unmarshal_struct_def st_same_def)

lemma unmarshal_payloads:
  assumes "same_json j j'"
  shows "unmarshal_struct dec_PumpfunTradePayload a (RawJson j') = unmarshal_struct dec_PumpfunTradePayload a (RawJson j)"
    "unmarshal_struct dec_PumpfunCreatePayload b (RawJson j') = unmarshal_struct dec_PumpfunCreatePayload b (RawJson j)"
    "unmarshal_struct dec_PumpfunMigratePayload c (RawJson j') = unmarshal_struct dec_PumpfunMigratePayload c (RawJson j)"
    "unmarshal_struct dec_PumpAmmSwapPayload d (RawJson j') = unmarshal_struct dec_PumpAmmSwapPayload d (RawJson j)"
    "unmarshal_struct dec_PumpAmmCreatePoolPayload e (RawJson j') = unmarshal_struct dec_PumpAmmCreatePoolPayload e (RawJson j)"
    "unmarshal_struct dec_PumpAmmLiquidityPayload f (RawJson j') = unmarshal_struct dec_PumpAmmLiquidityPayload f (RawJson j)"
    "unmarshal_struct dec_EventRefs g (RawJson j') = unmarshal_struct dec_EventRefs g (RawJson j)"
  by (rule unmarshal_same [OF assms st_same_struct]; rule same_payload; assumption)+

lemma DecodePayload_same:
  assumes "same_json j j'" "ev_Payload event = RawJson j"
  shows "DecodePayload (event\<lparr>ev_Payload := RawJson j'\<rparr>) = DecodePayload event"
  by (simp add: DecodePayload_def Let_def assms(2) unmarshal_payloads [OF assms(1)])

lemma refs_same:
  assumes "same_json (enc_EventRefs refs) j'"
  shows "unmarshal_struct dec_EventRefs zero_EventRefs (RawJson j') = Inr refs"
  unfolding unmarshal_payloads(7) [OF assms]
  by (simp add: enc_EventRefs_def unmarshal_struct_JObj rt_EventRefs)

end
