(* ===== verification/EventLog.thy ===== *)
theory EventLog
  imports Jsonb
begin

text \<open>
  internal/store/service_event.go: the append-only log of events and the checkpoints of the
  projectors over it.
\<close>

section \<open>Statements\<close>

definition fits_int4 :: "int \<Rightarrow> bool" where
  "fits_int4 n \<longleftrightarrow> - 2147483648 \<le> n \<and> n \<le> 2147483647"

text \<open>
  insertServiceEventSQL with its arguments. The texts have to be valid, the integers to fit. The
  payload is bound as it is: nothing is null, and bytes that are no JSON text are refused. An event id that is there already draws a log id and
  inserts nothing (no row is returned).
\<close>

definition payload_jsonb :: "Pg \<Rightarrow> RawMessage \<Rightarrow> json res" where
  "payload_jsonb pg raw = (case raw of
      RawEmpty \<Rightarrow> Inl (ErrDB ''null value in column payload'')
    | RawInvalid \<Rightarrow> Inl (ErrDB ''invalid input syntax for type json'')
    | RawJson j \<Rightarrow> (case pg_jsonb pg j of
        None \<Rightarrow> Inl (ErrDB ''unsupported Unicode escape sequence'') | Some b \<Rightarrow> Inr b))"

definition service_event_row :: "int \<Rightarrow> int \<Rightarrow> Envelope \<Rightarrow> json \<Rightarrow> json \<Rightarrow> ServiceEventRow" where
  "service_event_row logID now event refs payload = \<lparr>
     se_log_id = logID,
     se_event_id = ev_EventID event,
     se_schema_version = ev_SchemaVersion event,
     se_chain = ev_Chain event,
     se_protocol = ev_Protocol event,
     se_event_type = ev_EventType event,
     se_commitment = ev_Commitment event,
     se_slot = wrap64 (ev_Slot event),
     se_tx_signature = ev_TxSignature event,
     se_tx_index = wrap64 (ev_TxIndex event),
     se_instruction_source = ip_Source (ev_InstructionPath event),
     se_outer_index = ip_OuterIndex (ev_InstructionPath event),
     se_inner_index = ip_InnerIndex (ev_InstructionPath event),
     se_event_source = ev_EventSource event,
     se_event_unix_ts = ev_EventUnixTS event,
     se_refs = refs,
     se_payload = payload,
     se_created_at = now \<rparr>"

lemma service_event_row_sel [simp]:
  "se_log_id (service_event_row logID now event refs payload) = logID"
  "se_event_id (service_event_row logID now event refs payload) = ev_EventID event"
  "se_refs (service_event_row logID now event refs payload) = refs"
  "se_payload (service_event_row logID now event refs payload) = payload"
  by (simp_all add: service_event_row_def)

definition int4_args :: "Envelope \<Rightarrow> bool" where
  "int4_args event \<longleftrightarrow>
     fits_int4 (ev_SchemaVersion event) \<and> fits_int4 (ip_OuterIndex (ev_InstructionPath event)) \<and>
     (case ip_InnerIndex (ev_InstructionPath event) of None \<Rightarrow> True | Some n \<Rightarrow> fits_int4 n)"

definition text_args :: "Envelope \<Rightarrow> bool" where
  "text_args event \<longleftrightarrow> list_all valid_text
     [ev_EventID event, ev_Chain event, ev_Protocol event, ev_EventType event, ev_Commitment event,
      ev_TxSignature event, ip_Source (ev_InstructionPath event), ev_EventSource event]"

definition insertServiceEventSQL :: "Pg \<Rightarrow> Envelope \<Rightarrow> json \<Rightarrow> RawMessage \<Rightarrow> Db \<Rightarrow> (int option \<times> Db) res" where
  "insertServiceEventSQL pg event refsJSON payload s =
     (if \<not> int4_args event then Inl (ErrDB ''value out of range for int4'')
      else if \<not> text_args event then Inl (ErrDB ''invalid byte sequence for encoding UTF8'')
      else case payload_jsonb pg payload of
        Inl e \<Rightarrow> Inl e
      | Inr payloadJSON \<Rightarrow>
          (case pg_jsonb pg refsJSON of
            None \<Rightarrow> Inl (ErrDB ''unsupported Unicode escape sequence'')
          | Some refs \<Rightarrow>
              let logID = db_log_seq s;
                  s1 = s\<lparr>db_log_seq := logID + 1\<rparr>;
                  t = db_tables s in
              if ev_EventID event \<in> se_event_id ` set (service_events t) then Inr (None, s1)
              else Inr (Some logID, s1\<lparr>db_tables := t\<lparr>service_events := service_events t @
                  [service_event_row logID (db_now s) event refs payloadJSON]\<rparr>\<rparr>)))"

definition InsertServiceEvent :: "Pg \<Rightarrow> Envelope \<Rightarrow> Db \<Rightarrow> (bool \<times> int) res \<times> Db" where
  "InsertServiceEvent pg event s =
     (case db_query (insertServiceEventSQL pg event (enc_EventRefs (ev_Refs event)) (ev_Payload event)) s of
        (Inl e, s') \<Rightarrow> (Inl (ErrWrap ''insert service event'' e), s')
      | (Inr None, s') \<Rightarrow> (Inr (False, 0), s')
      | (Inr (Some logID), s') \<Rightarrow> (Inr (True, logID), s'))"

section \<open>Reading rows\<close>

record ServiceEventLogEntry =
  le_LogID :: int
  le_Event :: Envelope
  le_CreatedAt :: int

text \<open>
  The envelope of a row; setLogID is how the two readers differ (the log reader leaves
  Event.LogID at zero).
\<close>

definition row_envelope :: "bool \<Rightarrow> ServiceEventRow \<Rightarrow> EventRefs \<Rightarrow> Envelope" where
  "row_envelope setLogID r refs = \<lparr>
     ev_LogID = (if setLogID then se_log_id r else 0),
     ev_SchemaVersion = se_schema_version r,
     ev_EventID = se_event_id r,
     ev_Chain = se_chain r,
     ev_Protocol = se_protocol r,
     ev_EventType = se_event_type r,
     ev_Commitment = se_commitment r,
     ev_Slot = u64 (se_slot r),
     ev_TxSignature = se_tx_signature r,
     ev_TxIndex = u64 (se_tx_index r),
     ev_InstructionPath = \<lparr> ip_Source = se_instruction_source r, ip_OuterIndex = se_outer_index r,
        ip_InnerIndex = se_inner_index r \<rparr>,
     ev_EventSource = se_event_source r,
     ev_EventUnixTS = se_event_unix_ts r,
     ev_Refs = refs,
     ev_Payload = RawJson (se_payload r) \<rparr>"

definition row_entry :: "bool \<Rightarrow> ServiceEventRow \<Rightarrow> ServiceEventLogEntry res" where
  "row_entry setLogID r = (case unmarshal_struct dec_EventRefs zero_EventRefs (RawJson (se_refs r)) of
      Inl e \<Rightarrow> Inl (ErrWrap ''unmarshal service event refs'' e)
    | Inr refs \<Rightarrow> Inr \<lparr> le_LogID = se_log_id r, le_Event = row_envelope setLogID r refs,
        le_CreatedAt = se_created_at r \<rparr>)"

fun row_entries :: "bool \<Rightarrow> ServiceEventRow list \<Rightarrow> ServiceEventLogEntry list res" where
  "row_entries setLogID [] = Inr []"
| "row_entries setLogID (r # rs) = (case row_entry setLogID r of
      Inl e \<Rightarrow> Inl e
    | Inr x \<Rightarrow> (case row_entries setLogID rs of Inl e \<Rightarrow> Inl e | Inr xs \<Rightarrow> Inr (x # xs)))"

definition scanServiceEvents :: "ServiceEventRow list \<Rightarrow> ServiceEventLogEntry list res" where
  "scanServiceEvents rows = row_entries True rows"

definition listServiceEventsAfterLogIDSQL :: "int \<Rightarrow> int \<Rightarrow> Tables \<Rightarrow> ServiceEventRow list res" where
  "listServiceEventsAfterLogIDSQL afterLogID limit t =
     sql_limit limit (sort_key se_log_id (filter (\<lambda>r. afterLogID < se_log_id r) (service_events t)))"

definition ListServiceEventsAfterLogID :: "int \<Rightarrow> int \<Rightarrow> Db \<Rightarrow> ServiceEventLogEntry list res \<times> Db" where
  "ListServiceEventsAfterLogID afterLogID limit s =
     (case db_read (listServiceEventsAfterLogIDSQL afterLogID limit) s of
        (Inl e, s') \<Rightarrow> (Inl (ErrWrap ''query service events after log_id'' e), s')
      | (Inr rows, s') \<Rightarrow> (row_entries False rows, s'))"

text \<open>The statements that select by the refs column.\<close>

definition by_ref :: "string \<Rightarrow> string \<Rightarrow> ServiceEventRow \<Rightarrow> bool" where
  "by_ref key v r \<longleftrightarrow> jsonb_text (se_refs r) key = Some v"

definition listServiceEventsByMintSQL :: "string \<Rightarrow> int \<Rightarrow> Tables \<Rightarrow> ServiceEventRow list res" where
  "listServiceEventsByMintSQL mint limit t =
     sql_limit limit (sort_key (\<lambda>r. - se_log_id r) (filter (by_ref ''mint'' mint) (service_events t)))"

definition listServiceEventsByMintAfterLogIDSQL :: "string \<Rightarrow> int \<Rightarrow> int \<Rightarrow> Tables \<Rightarrow> ServiceEventRow list res" where
  "listServiceEventsByMintAfterLogIDSQL mint afterLogID limit t =
     sql_limit limit (sort_key se_log_id
       (filter (\<lambda>r. by_ref ''mint'' mint r \<and> afterLogID < se_log_id r) (service_events t)))"

definition listServiceEventsByPoolSQL :: "string \<Rightarrow> int \<Rightarrow> Tables \<Rightarrow> ServiceEventRow list res" where
  "listServiceEventsByPoolSQL pool limit t =
     sql_limit limit (sort_key (\<lambda>r. - se_log_id r) (filter (by_ref ''pool'' pool) (service_events t)))"

text \<open>order by slot desc, tx_index desc, outer_index desc, inner_index desc nulls last\<close>

definition chain_order :: "ServiceEventRow \<Rightarrow> int \<times> int \<times> int \<times> bool \<times> int" where
  "chain_order r = (- se_slot r, - se_tx_index r, - se_outer_index r,
     se_inner_index r = None, (case se_inner_index r of None \<Rightarrow> 0 | Some i \<Rightarrow> - i))"

definition listLatestCreateEventByMintSQL :: "string \<Rightarrow> Tables \<Rightarrow> ServiceEventRow list res" where
  "listLatestCreateEventByMintSQL mint t =
     sql_limit 1 (sort_key chain_order
       (filter (\<lambda>r. by_ref ''mint'' mint r \<and> se_event_type r = ''create'') (service_events t)))"

definition listLatestMigrateEventByMintSQL :: "string \<Rightarrow> Tables \<Rightarrow> ServiceEventRow list res" where
  "listLatestMigrateEventByMintSQL mint t =
     sql_limit 1 (sort_key chain_order
       (filter (\<lambda>r. by_ref ''mint'' mint r \<and> se_protocol r = ''pumpfun'' \<and> se_event_type r = ''migrate'')
          (service_events t)))"

text \<open>A query, its rows scanned, the envelopes returned.\<close>

definition list_events :: "string \<Rightarrow> (Tables \<Rightarrow> ServiceEventRow list res) \<Rightarrow> Db \<Rightarrow> Envelope list res \<times> Db" where
  "list_events what q s = (case db_read q s of
      (Inl e, s') \<Rightarrow> (Inl (ErrWrap what e), s')
    | (Inr rows, s') \<Rightarrow> (map_sum id (map le_Event) (scanServiceEvents rows), s'))"

definition ListServiceEventsByMint :: "string \<Rightarrow> int \<Rightarrow> Db \<Rightarrow> Envelope list res \<times> Db" where
  "ListServiceEventsByMint mint limit =
     list_events ''query service events by mint'' (listServiceEventsByMintSQL mint limit)"

definition ListServiceEventsByMintAfterLogID :: "string \<Rightarrow> int \<Rightarrow> int \<Rightarrow> Db \<Rightarrow> Envelope list res \<times> Db" where
  "ListServiceEventsByMintAfterLogID mint afterLogID limit =
     list_events ''query service events by mint after log_id'' (listServiceEventsByMintAfterLogIDSQL mint afterLogID limit)"

definition ListServiceEventsByPool :: "string \<Rightarrow> int \<Rightarrow> Db \<Rightarrow> Envelope list res \<times> Db" where
  "ListServiceEventsByPool pool limit =
     list_events ''query service events by pool'' (listServiceEventsByPoolSQL pool limit)"

definition FindLatestCreateEventByMint :: "string \<Rightarrow> Db \<Rightarrow> Envelope option res \<times> Db" where
  "FindLatestCreateEventByMint mint s =
     (case list_events ''query latest create event by mint'' (listLatestCreateEventByMintSQL mint) s of
        (Inl e, s') \<Rightarrow> (Inl e, s')
      | (Inr [], s') \<Rightarrow> (Inr None, s')
      | (Inr (e # _), s') \<Rightarrow> (Inr (Some e), s'))"

definition FindLatestMigrateEventByMint :: "string \<Rightarrow> Db \<Rightarrow> Envelope option res \<times> Db" where
  "FindLatestMigrateEventByMint mint s =
     (case list_events ''query latest migrate event by mint'' (listLatestMigrateEventByMintSQL mint) s of
        (Inl e, s') \<Rightarrow> (Inl e, s')
      | (Inr [], s') \<Rightarrow> (Inr None, s')
      | (Inr (e # _), s') \<Rightarrow> (Inr (Some e), s'))"

section \<open>Checkpoints\<close>

definition LoadProjectionCheckpoint :: "string \<Rightarrow> Db \<Rightarrow> int res \<times> Db" where
  "LoadProjectionCheckpoint name s =
     (case db_read (\<lambda>t. Inr (map_of (projection_offsets t) name)) s of
        (Inl e, s') \<Rightarrow> (Inl (ErrWrap ''load projection checkpoint'' e), s')
      | (Inr None, s') \<Rightarrow> (Inr 0, s')
      | (Inr (Some n), s') \<Rightarrow> (Inr n, s'))"

definition SaveProjectionCheckpoint :: "string \<Rightarrow> int \<Rightarrow> Db action" where
  "SaveProjectionCheckpoint name lastLogID =
     wrap_err ''save projection checkpoint'' (db_exec (\<lambda>s. Inr (s\<lparr>db_tables := (db_tables s)
       \<lparr>projection_offsets := AList.update name lastLogID (projection_offsets (db_tables s))\<rparr>\<rparr>)))"

definition latest_log_id :: "Tables \<Rightarrow> int" where
  "latest_log_id t = (case map se_log_id (service_events t) of [] \<Rightarrow> 0 | n # ns \<Rightarrow> fold max ns n)"

definition LoadLatestServiceEventLogID :: "Db \<Rightarrow> int res \<times> Db" where
  "LoadLatestServiceEventLogID s = (case db_read (\<lambda>t. Inr (latest_log_id t)) s of
      (Inl e, s') \<Rightarrow> (Inl (ErrWrap ''load latest service event log id'' e), s')
    | (Inr n, s') \<Rightarrow> (Inr n, s'))"

section \<open>The log\<close>

text \<open>
  The rows are in the order of their log ids, which are positive and below the counter, and no
  event id occurs twice.
\<close>

definition log_inv :: "Db \<Rightarrow> bool" where
  "log_inv s \<longleftrightarrow> 0 < db_log_seq s \<and>
     sorted_wrt (<) (map se_log_id (service_events (db_tables s))) \<and>
     (\<forall>r\<in>set (service_events (db_tables s)). 0 < se_log_id r \<and> se_log_id r < db_log_seq s) \<and>
     distinct (map se_event_id (service_events (db_tables s)))"

lemma log_inv_empty [simp]: "log_inv (empty_db f)"
  by (simp add: log_inv_def empty_db_def empty_tables_def)

lemma log_inv_tick [simp]: "log_inv (tick s) = log_inv s"
  by (simp add: log_inv_def)

text \<open>The statement: what it returns and what it does to the database.\<close>

lemma insertServiceEventSQL_cases:
  assumes "insertServiceEventSQL pg event refsJSON payload s = Inr (r, s')"
  obtains
    (new) row refs p where "r = Some (db_log_seq s)" "ev_EventID event \<notin> se_event_id ` set (service_events (db_tables s))"
      "pg_jsonb pg refsJSON = Some refs" "payload_jsonb pg payload = Inr p" "int4_args event"
      "row = service_event_row (db_log_seq s) (db_now s) event refs p"
      "s' = s\<lparr>db_log_seq := db_log_seq s + 1, db_tables := (db_tables s)
          \<lparr>service_events := service_events (db_tables s) @ [row]\<rparr>\<rparr>"
  | (duplicate) "r = None" "ev_EventID event \<in> se_event_id ` set (service_events (db_tables s))"
      "s' = s\<lparr>db_log_seq := db_log_seq s + 1\<rparr>"
  using assms
  by (auto simp: insertServiceEventSQL_def Let_def split: sum.splits option.splits if_splits)

lemma insertServiceEventSQL_inv:
  assumes "insertServiceEventSQL pg event refsJSON payload s = Inr (r, s')" "log_inv s"
  shows "log_inv s'"
  using assms(1)
proof (cases rule: insertServiceEventSQL_cases)
  case (new row refs p)
  then show ?thesis
    using assms(2)
    by (auto simp: log_inv_def sorted_wrt_append)
next
  case duplicate
  then show ?thesis using assms(2) by (auto simp: log_inv_def)
qed

lemma InsertServiceEvent_inv:
  assumes "log_inv s"
  shows "log_inv (snd (InsertServiceEvent pg event s))"
proof -
  have "log_inv (snd (db_query (insertServiceEventSQL pg event (enc_EventRefs (ev_Refs event)) (ev_Payload event)) s))"
    using assms insertServiceEventSQL_inv [of pg event _ _ "tick s"]
    by (auto simp: db_query_def split: option.splits db_fault.splits sum.splits prod.splits)
  then show ?thesis by (auto simp: InsertServiceEvent_def split: prod.splits sum.splits option.splits)
qed

lemma InsertServiceEvent_seq: "db_log_seq s \<le> db_log_seq (snd (InsertServiceEvent pg event s))"
proof -
  have "db_log_seq s \<le> db_log_seq (snd (db_query (insertServiceEventSQL pg event refs payload) s))" for refs payload
    by (auto simp: db_query_def elim!: insertServiceEventSQL_cases
        split: option.splits db_fault.splits sum.splits prod.splits)
  from this [of "enc_EventRefs (ev_Refs event)" "ev_Payload event"] show ?thesis
    by (auto simp: InsertServiceEvent_def split: prod.splits sum.splits option.splits)
qed

text \<open>An insert that reports a row has appended it.\<close>

lemma InsertServiceEvent_new:
  assumes "InsertServiceEvent pg event s = (Inr (True, logID), s')"
  obtains refs p where "logID = db_log_seq s" "ev_EventID event \<notin> se_event_id ` set (service_events (db_tables s))"
    "pg_jsonb pg (enc_EventRefs (ev_Refs event)) = Some refs" "payload_jsonb pg (ev_Payload event) = Inr p"
    "int4_args event"
    "db_tables s' = (db_tables s)\<lparr>service_events := service_events (db_tables s) @
        [service_event_row logID (db_now s) event refs p]\<rparr>"
    "db_log_seq s' = db_log_seq s + 1" "db_now s' = db_now s" "db_faults s' = db_faults s"
proof -
  obtain r where "insertServiceEventSQL pg event (enc_EventRefs (ev_Refs event)) (ev_Payload event) (tick s) = Inr (r, s')"
    "r = Some logID"
    using assms
    by (auto simp: InsertServiceEvent_def db_query_def
        split: prod.splits option.splits db_fault.splits sum.splits)
  from this(1) show thesis
    by (cases rule: insertServiceEventSQL_cases) (use \<open>r = Some logID\<close> that in auto)
qed

text \<open>An insert that reports a duplicate has left the tables alone.\<close>

lemma InsertServiceEvent_duplicate:
  assumes "InsertServiceEvent pg event s = (Inr (False, logID), s')"
  shows "db_tables s' = db_tables s \<and> ev_EventID event \<in> se_event_id ` set (service_events (db_tables s))"
proof -
  have "insertServiceEventSQL pg event (enc_EventRefs (ev_Refs event)) (ev_Payload event) (tick s) = Inr (None, s')"
    using assms
    by (auto simp: InsertServiceEvent_def db_query_def
        split: prod.splits option.splits db_fault.splits sum.splits)
  then show ?thesis by (cases rule: insertServiceEventSQL_cases) auto
qed

text \<open>On an error either nothing was inserted or the row was, and the acknowledgement was lost.\<close>

lemma InsertServiceEvent_error:
  assumes "InsertServiceEvent pg event s = (Inl e, s')"
  shows "db_tables s' = db_tables s \<or>
    (\<exists>row. se_event_id row = ev_EventID event \<and>
       db_tables s' = (db_tables s)\<lparr>service_events := service_events (db_tables s) @ [row]\<rparr>)"
proof -
  have "db_tables s' = db_tables s \<or>
     (\<exists>r. insertServiceEventSQL pg event (enc_EventRefs (ev_Refs event)) (ev_Payload event) (tick s) = Inr (r, s'))"
    using assms
    by (auto simp: InsertServiceEvent_def db_query_def
        split: prod.splits option.splits db_fault.splits sum.splits)
  then show ?thesis
  proof
    assume "\<exists>r. insertServiceEventSQL pg event (enc_EventRefs (ev_Refs event)) (ev_Payload event) (tick s) = Inr (r, s')"
    then obtain r where "insertServiceEventSQL pg event (enc_EventRefs (ev_Refs event)) (ev_Payload event) (tick s) = Inr (r, s')" ..
    then show ?thesis
    proof (cases rule: insertServiceEventSQL_cases)
      case (new row refs p)
      then show ?thesis by (intro disjI2 exI [of _ row]) simp
    qed simp
  qed simp
qed

section \<open>Reading the log\<close>

lemma strict_sorted_filter:
  "sorted_wrt (<) (map se_log_id rs) \<Longrightarrow> sorted (map se_log_id (filter P rs))"
  by (induction rs) (auto simp: less_imp_le)

lemma sort_key_log: "sorted_wrt (<) (map se_log_id rs) \<Longrightarrow> sort_key se_log_id (filter P rs) = filter P rs"
  using strict_sorted_filter [of rs P] by (simp add: sort_key_id_if_sorted)

lemma row_entries_length: "row_entries b rs = Inr es \<Longrightarrow> length es = length rs"
  by (induction rs arbitrary: es) (auto split: sum.splits)

lemma row_entries_log_ids: "row_entries b rs = Inr es \<Longrightarrow> map le_LogID es = map se_log_id rs"
  by (induction rs arbitrary: es) (auto simp: row_entry_def split: sum.splits)

lemma row_entries_append:
  "row_entries b (rs @ qs) = (case row_entries b rs of Inl e \<Rightarrow> Inl e
     | Inr es \<Rightarrow> (case row_entries b qs of Inl e \<Rightarrow> Inl e | Inr fs \<Rightarrow> Inr (es @ fs)))"
  by (induction rs) (auto split: sum.splits)

lemma row_entries_take: "row_entries b rs = Inr es \<Longrightarrow> row_entries b (take k rs) = Inr (take k es)"
proof (induction rs arbitrary: es k)
  case (Cons r rs)
  then show ?case by (cases k) (auto split: sum.splits)
qed simp

lemma row_entries_drop: "row_entries b rs = Inr es \<Longrightarrow> row_entries b (drop k rs) = Inr (drop k es)"
proof (induction rs arbitrary: es k)
  case (Cons r rs)
  then show ?case by (cases k) (auto split: sum.splits)
qed simp

lemma ListServiceEventsAfterLogID_rows:
  assumes "log_inv s" "0 \<le> limit" "ListServiceEventsAfterLogID afterLogID limit s = (Inr es, s')"
  shows "row_entries False (take (nat limit) (filter (\<lambda>r. afterLogID < se_log_id r) (service_events (db_tables s)))) = Inr es"
    "s' = tick s"
proof -
  have sql: "listServiceEventsAfterLogIDSQL afterLogID limit (db_tables s) =
      Inr (take (nat limit) (filter (\<lambda>r. afterLogID < se_log_id r) (service_events (db_tables s))))"
    using assms(1,2) by (simp add: listServiceEventsAfterLogIDSQL_def sort_key_log sql_limit_def log_inv_def)
  obtain rows where rows: "db_read (listServiceEventsAfterLogIDSQL afterLogID limit) s = (Inr rows, s')"
    "row_entries False rows = Inr es"
    using assms(3) by (auto simp: ListServiceEventsAfterLogID_def split: prod.splits sum.splits)
  have "rows = take (nat limit) (filter (\<lambda>r. afterLogID < se_log_id r) (service_events (db_tables s)))"
    using db_read_ok [of "listServiceEventsAfterLogIDSQL afterLogID limit" s rows] rows(1) sql by simp
  then show "row_entries False (take (nat limit) (filter (\<lambda>r. afterLogID < se_log_id r) (service_events (db_tables s)))) = Inr es"
    using rows(2) by simp
  show "s' = tick s" using db_read_state [of "listServiceEventsAfterLogIDSQL afterLogID limit" s] rows(1) by simp
qed

text \<open>The envelope a row gives back, apart from the log id and the order of the payload's fields.\<close>

lemma row_entry_stored:
  assumes "jsonb_law pg" "canonical_json (enc_EventRefs (ev_Refs event))"
    "pg_jsonb pg (enc_EventRefs (ev_Refs event)) = Some refs"
    "in_u64 (ev_Slot event)" "in_u64 (ev_TxIndex event)"
  shows "row_entry b (service_event_row logID now event refs p) = Inr \<lparr>
     le_LogID = logID,
     le_Event = event\<lparr>ev_LogID := (if b then logID else 0), ev_Payload := RawJson p\<rparr>,
     le_CreatedAt = now \<rparr>"
proof -
  have "same_json (enc_EventRefs (ev_Refs event)) refs"
    using assms(1-3) by (fastforce simp: jsonb_law_def)
  note r = refs_same [OF this]
  have "u64 (wrap64 (ev_Slot event)) = ev_Slot event" "u64 (wrap64 (ev_TxIndex event)) = ev_TxIndex event"
    using assms(4,5) wrap64_mod by (simp_all add: u64_def in_u64_def)
  then show ?thesis
    by (simp add: row_entry_def r row_envelope_def) (simp add: service_event_row_def)
qed

section \<open>Properties\<close>

text \<open>
  C17: InsertServiceEvent on every outcome: the log keeps its order and its event ids stay
  distinct; an inserted event gets a log id above every earlier one and is appended; a
  duplicate leaves the tables as they were; on an error the log is unchanged or holds the event
  (its acknowledgement was lost), never anything else.
\<close>

theorem InsertServiceEvent_outcomes:
  assumes "log_inv s" "InsertServiceEvent pg event s = (r, s')"
  shows "log_inv s' \<and> (case r of
      Inr (True, logID) \<Rightarrow>
        (\<forall>x\<in>set (service_events (db_tables s)). se_log_id x < logID \<and> se_event_id x \<noteq> ev_EventID event) \<and>
        (\<exists>row. se_log_id row = logID \<and> se_event_id row = ev_EventID event \<and>
           service_events (db_tables s') = service_events (db_tables s) @ [row])
    | Inr (False, _) \<Rightarrow> db_tables s' = db_tables s \<and> ev_EventID event \<in> se_event_id ` set (service_events (db_tables s))
    | Inl _ \<Rightarrow> db_tables s' = db_tables s \<or>
        (\<exists>row. se_event_id row = ev_EventID event \<and>
           db_tables s' = (db_tables s)\<lparr>service_events := service_events (db_tables s) @ [row]\<rparr>))"
proof -
  have inv: "log_inv s'" using InsertServiceEvent_inv [OF assms(1), of pg event] assms(2) by simp
  show ?thesis
  proof (cases r)
    case (Inl e)
    then show ?thesis using inv InsertServiceEvent_error [of pg event s e s'] assms(2) by simp
  next
    case (Inr bn)
    obtain b n where bn: "bn = (b, n)" by (cases bn)
    show ?thesis
    proof (cases b)
      case True
      then have "InsertServiceEvent pg event s = (Inr (True, n), s')" using assms(2) Inr bn by simp
      then obtain refs p where "n = db_log_seq s" "ev_EventID event \<notin> se_event_id ` set (service_events (db_tables s))"
        "db_tables s' = (db_tables s)\<lparr>service_events := service_events (db_tables s) @
          [service_event_row n (db_now s) event refs p]\<rparr>"
        by (rule InsertServiceEvent_new)
      then show ?thesis using inv assms(1) Inr bn True by (auto simp: log_inv_def image_iff)
    next
      case False
      then show ?thesis
        using inv InsertServiceEvent_duplicate [of pg event s n s'] assms(2) Inr bn by simp
    qed
  qed
qed

text \<open>A PostgreSQL whose casts keep everything, for the examples.\<close>

definition pg_plain :: Pg where
  "pg_plain = \<lparr> pg_numeric = (\<lambda>s. map_option int_to_string (parse_int s)), pg_jsonb = Some,
     pg_to_timestamp = (\<lambda>x. case x of
       Fin s m e \<Rightarrow> Some ((if s then - 1 else 1) * (if 0 \<le> e then m * 2 ^ nat e * 1000000 else m * 1000000 div 2 ^ nat (- e)))
     | _ \<Rightarrow> None) \<rparr>"

lemma InsertServiceEvent_outcomes_witness:
  "\<exists>r s'. InsertServiceEvent pg_plain (zero_Envelope\<lparr>ev_Payload := RawJson JNull\<rparr>) (empty_db (\<lambda>_. None)) = (r, s') \<and> log_inv s'"
proof -
  obtain r s' where e: "InsertServiceEvent pg_plain (zero_Envelope\<lparr>ev_Payload := RawJson JNull\<rparr>) (empty_db (\<lambda>_. None)) = (r, s')"
    by (cases "InsertServiceEvent pg_plain (zero_Envelope\<lparr>ev_Payload := RawJson JNull\<rparr>) (empty_db (\<lambda>_. None))")
  then show ?thesis using InsertServiceEvent_outcomes [OF log_inv_empty e] by blast
qed

text \<open>
  C18: the log is faithful: an event whose payload was written by EnvelopeWithPayload and that
  InsertServiceEvent reported as inserted is what ListServiceEventsAfterLogID returns right
  after the log id below its own, and DecodePayload gives back the payload it was made of.
\<close>

theorem stored_event_decodes:
  assumes "jsonb_law pg" "log_inv s"
    "de_Payload d \<noteq> OtherPayload" "ev_Payload (de_Envelope d) = RawEmpty"
    "kind_matches (de_Envelope d) (de_Payload d)" "wf_payload (de_Payload d)"
    "canonical_json (enc_payload (de_Payload d))" "canonical_json (enc_EventRefs (ev_Refs (de_Envelope d)))"
    "in_u64 (ev_Slot (de_Envelope d))" "in_u64 (ev_TxIndex (de_Envelope d))"
    "EnvelopeWithPayload d = Inr event" "InsertServiceEvent pg event s = (Inr (True, logID), s')"
    "fault_free s'"
  shows "\<exists>entry. fst (ListServiceEventsAfterLogID (logID - 1) 1 s') = Inr [entry] \<and>
    le_LogID entry = logID \<and> DecodePayload (le_Event entry) = Inr (de_Payload d) \<and>
    (le_Event entry)\<lparr>ev_Payload := RawEmpty\<rparr> = (de_Envelope d)\<lparr>ev_LogID := 0\<rparr>"
proof -
  have event: "event = (de_Envelope d)\<lparr>ev_Payload := RawJson (enc_payload (de_Payload d))\<rparr>"
    using assms(3,4,11) by (simp add: EnvelopeWithPayload_def)
  obtain refs p where new: "logID = db_log_seq s"
    "pg_jsonb pg (enc_EventRefs (ev_Refs event)) = Some refs" "payload_jsonb pg (ev_Payload event) = Inr p"
    "db_tables s' = (db_tables s)\<lparr>service_events := service_events (db_tables s) @
        [service_event_row logID (db_now s) event refs p]\<rparr>"
    using assms(12) by (rule InsertServiceEvent_new)
  have same: "same_json (enc_payload (de_Payload d)) p"
    using assms(1,7) new(3) by (fastforce simp: jsonb_law_def payload_jsonb_def event split: option.splits)
  let ?row = "service_event_row logID (db_now s) event refs p"
  define entry where "entry = \<lparr> le_LogID = logID, le_Event = event\<lparr>ev_LogID := 0, ev_Payload := RawJson p\<rparr>,
    le_CreatedAt = db_now s \<rparr>"
  have row: "row_entry False ?row = Inr entry"
    using row_entry_stored [OF assms(1) _ new(2), of False logID "db_now s" p] assms(8,9,10)
    by (simp add: event entry_def)
  have inv': "log_inv s'" using InsertServiceEvent_inv [OF assms(2), of pg event] assms(12) by simp
  have "filter (\<lambda>r. logID - 1 < se_log_id r) (service_events (db_tables s')) = [?row]"
    using assms(2) new(1,4) by (auto simp: log_inv_def filter_empty_conv)
  then have "listServiceEventsAfterLogIDSQL (logID - 1) 1 (db_tables s') = Inr [?row]"
    using inv' by (simp add: listServiceEventsAfterLogIDSQL_def sort_key_log sql_limit_def log_inv_def)
  then have list: "fst (ListServiceEventsAfterLogID (logID - 1) 1 s') = Inr [entry]"
    using row by (simp add: ListServiceEventsAfterLogID_def db_read_fault_free [OF assms(13)])
  have "DecodePayload (le_Event entry) = DecodePayload (event\<lparr>ev_LogID := 0\<rparr>)"
    using DecodePayload_same [OF same, of "event\<lparr>ev_LogID := 0\<rparr>"] by (simp add: entry_def event)
  also have "\<dots> = Inr (de_Payload d)"
    using DecodePayload_enc [of "event\<lparr>ev_LogID := 0\<rparr>" "de_Payload d"] assms(5,6)
    by (simp add: event kind_matches_def split: payload.splits)
  finally have "DecodePayload (le_Event entry) = Inr (de_Payload d)" .
  moreover have "(le_Event entry)\<lparr>ev_Payload := RawEmpty\<rparr> = (de_Envelope d)\<lparr>ev_LogID := 0\<rparr>"
    using assms(4) by (simp add: entry_def event)
  ultimately show ?thesis using list by (auto simp: entry_def)
qed

lemma jsonb_law_plain: "jsonb_law pg_plain"
  by (auto simp: jsonb_law_def pg_plain_def intro: same_refl)

lemma stored_event_decodes_witness:
  "\<exists>entry. fst (ListServiceEventsAfterLogID (1 - 1) 1 (snd (InsertServiceEvent pg_plain
       (zero_Envelope\<lparr>ev_Protocol := ''pumpfun'', ev_EventType := ''trade'',
          ev_Payload := RawJson (enc_payload (PumpfunTrade zero_PumpfunTradePayload))\<rparr>)
       (empty_db (\<lambda>_. None))))) = Inr [entry] \<and>
    le_LogID entry = 1 \<and> DecodePayload (le_Event entry) = Inr (PumpfunTrade zero_PumpfunTradePayload) \<and>
    (le_Event entry)\<lparr>ev_Payload := RawEmpty\<rparr> =
      zero_Envelope\<lparr>ev_Protocol := ''pumpfun'', ev_EventType := ''trade'', ev_LogID := 0\<rparr>"
proof -
  let ?p = "PumpfunTrade zero_PumpfunTradePayload"
  let ?d = "\<lparr> de_Envelope = zero_Envelope\<lparr>ev_Protocol := ''pumpfun'', ev_EventType := ''trade''\<rparr>, de_Payload = ?p \<rparr>"
  let ?event = "(de_Envelope ?d)\<lparr>ev_Payload := RawJson (enc_payload ?p)\<rparr>"
  let ?r = "InsertServiceEvent pg_plain ?event (empty_db (\<lambda>_. None))"
  have c: "canonical_json (enc_payload ?p)" "canonical_json (enc_EventRefs zero_EventRefs)"
    by code_simp+
  have "fst ?r = Inr (True, 1)" "fault_free (snd ?r)"
    by (simp_all add: InsertServiceEvent_def db_query_def empty_db_def empty_tables_def insertServiceEventSQL_def
        int4_args_def text_args_def valid_text_def fits_int4_def zero_Envelope_def zero_InstructionPath_def payload_jsonb_def pg_plain_def
        fault_free_def)
  moreover have "EnvelopeWithPayload ?d = Inr ?event"
    by (simp add: EnvelopeWithPayload_def Let_def zero_Envelope_def)
  ultimately show ?thesis
    using stored_event_decodes [of pg_plain "empty_db (\<lambda>_. None)" ?d ?event 1 "snd ?r"] c jsonb_law_plain
    by (simp add: zero_Envelope_def kind_matches_def wf_payload_def in_u64_def prod_eq_iff)
qed

end
