(* ===== verification/Ingest.thy ===== *)
theory Ingest
  imports Hub EventLog
begin

text \<open>
  internal/ingest/service.go: an event is stored, then published. The store is an interface; the
  laws its client relies on are the locale \<open>event_store\<close>, which the event log satisfies.
\<close>

definition wrappedSolMint :: string where
  "wrappedSolMint = ''So11111111111111111111111111111111111111112''"

definition resolveNonSolMint :: "string \<Rightarrow> string \<Rightarrow> string" where
  "resolveNonSolMint baseMint quoteMint =
     (if baseMint = wrappedSolMint \<and> quoteMint \<noteq> [] then quoteMint
      else if quoteMint = wrappedSolMint \<and> baseMint \<noteq> [] then baseMint
      else if baseMint \<noteq> [] then baseMint
      else quoteMint)"

definition extractMint :: "EventRefs \<Rightarrow> payload \<Rightarrow> string" where
  "extractMint refs payload =
     (if deref_or [] (er_Mint refs) \<noteq> [] then deref_or [] (er_Mint refs)
      else case payload of
          PumpfunTrade p \<Rightarrow> pft_Mint p
        | PumpfunCreate p \<Rightarrow> pfc_Mint p
        | PumpfunMigrate p \<Rightarrow> pfm_Mint p
        | PumpAmmSwap p \<Rightarrow> resolveNonSolMint (pas_BaseMint p) (pas_QuoteMint p)
        | PumpAmmCreatePool p \<Rightarrow> resolveNonSolMint (pap_BaseMint p) (pap_QuoteMint p)
        | PumpAmmLiquidity p \<Rightarrow> resolveNonSolMint (pal_BaseMint p) (pal_QuoteMint p)
        | OtherPayload \<Rightarrow> [])"

text \<open>InsertServiceEvent of the interface eventStore.\<close>

type_synonym 's event_inserter = "Envelope \<Rightarrow> 's \<Rightarrow> (bool \<times> int) res \<times> 's"

text \<open>The error returned, the hub (or the panic of a Publish) and the store afterwards.\<close>

definition HandleDecodedEvent ::
    "'s event_inserter \<Rightarrow> DecodedEnvelope \<Rightarrow> Hub \<Rightarrow> 's \<Rightarrow> gerror option \<times> (chan_panic + Hub) \<times> 's" where
  "HandleDecodedEvent ins decoded hub s =
     (if de_Payload decoded = OtherPayload then (Some (ErrMsg ''unsupported payload type''), Inr hub, s)
      else case EnvelopeWithPayload decoded of
        Inl e \<Rightarrow> (Some (ErrWrap ''encode payload'' e), Inr hub, s)
      | Inr event \<Rightarrow> (case ins event s of
          (Inl e, s') \<Rightarrow> (Some (ErrWrap ''insert service event'' e), Inr hub, s')
        | (Inr (inserted, logID), s') \<Rightarrow>
            (if \<not> inserted then (None, Inr hub, s')
             else
               let event = event\<lparr>ev_LogID := logID\<rparr>;
                   mint = extractMint (ev_Refs event) (de_Payload decoded);
                   hub1 = (if mint \<noteq> [] then Publish (''token:'' @ mint) event hub else Inr hub)
               in (None, (case hub1 of Inl p \<Rightarrow> Inl p | Inr h \<Rightarrow> Publish ''global'' event h), s'))))"

definition HandleEvent ::
    "'s event_inserter \<Rightarrow> Envelope \<Rightarrow> Hub \<Rightarrow> 's \<Rightarrow> gerror option \<times> (chan_panic + Hub) \<times> 's" where
  "HandleEvent ins event hub s = (case DecodeEnvelope event of
      Inl e \<Rightarrow> (Some (ErrWrap ''decode payload'' e), Inr hub, s)
    | Inr decoded \<Rightarrow> HandleDecodedEvent ins decoded hub s)"

text \<open>A consumer handles the events one after the other, whatever each returns.\<close>

fun handle_all ::
    "'s event_inserter \<Rightarrow> DecodedEnvelope list \<Rightarrow> Hub \<Rightarrow> 's \<Rightarrow> chan_panic + Hub \<times> 's" where
  "handle_all ins [] hub s = Inr (hub, s)"
| "handle_all ins (d # ds) hub s = (case HandleDecodedEvent ins d hub s of
      (_, Inl p, _) \<Rightarrow> Inl p
    | (_, Inr hub', s') \<Rightarrow> handle_all ins ds hub' s')"

section \<open>What is published\<close>

text \<open>The event HandleDecodedEvent publishes, if any.\<close>

definition published_event :: "'s event_inserter \<Rightarrow> DecodedEnvelope \<Rightarrow> 's \<Rightarrow> Envelope option" where
  "published_event ins d s =
     (case EnvelopeWithPayload d of
        Inl e \<Rightarrow> None
      | Inr event \<Rightarrow> (if de_Payload d = OtherPayload then None
          else case fst (ins event s) of
            Inr (True, logID) \<Rightarrow> Some (event\<lparr>ev_LogID := logID\<rparr>)
          | _ \<Rightarrow> None))"

definition handle_store :: "'s event_inserter \<Rightarrow> DecodedEnvelope \<Rightarrow> 's \<Rightarrow> 's" where
  "handle_store ins d s =
     (case EnvelopeWithPayload d of
        Inl e \<Rightarrow> s
      | Inr event \<Rightarrow> (if de_Payload d = OtherPayload then s else snd (ins event s)))"

definition publish_ops :: "payload \<Rightarrow> Envelope option \<Rightarrow> hub_op list" where
  "publish_ops payload e = (case e of
      None \<Rightarrow> []
    | Some event \<Rightarrow> (let mint = extractMint (ev_Refs event) payload in
        (if mint \<noteq> [] then [OpPublish (''token:'' @ mint) event] else []) @ [OpPublish ''global'' event]))"

fun ingest_ops :: "'s event_inserter \<Rightarrow> DecodedEnvelope list \<Rightarrow> 's \<Rightarrow> hub_op list" where
  "ingest_ops ins [] s = []"
| "ingest_ops ins (d # ds) s =
     publish_ops (de_Payload d) (published_event ins d s) @ ingest_ops ins ds (handle_store ins d s)"

fun global_events :: "'s event_inserter \<Rightarrow> DecodedEnvelope list \<Rightarrow> 's \<Rightarrow> Envelope list" where
  "global_events ins [] s = []"
| "global_events ins (d # ds) s =
     (case published_event ins d s of None \<Rightarrow> [] | Some e \<Rightarrow> [e]) @ global_events ins ds (handle_store ins d s)"

fun store_after :: "'s event_inserter \<Rightarrow> DecodedEnvelope list \<Rightarrow> 's \<Rightarrow> 's" where
  "store_after ins [] s = s"
| "store_after ins (d # ds) s = store_after ins ds (handle_store ins d s)"

lemma HandleDecodedEvent_ops:
  "HandleDecodedEvent ins d hub s =
     (fst (HandleDecodedEvent ins d hub s),
      map_sum id snd (run_ops (publish_ops (de_Payload d) (published_event ins d s)) hub), handle_store ins d s)"
proof (cases "EnvelopeWithPayload d")
  case (Inl e)
  then show ?thesis
    by (simp add: HandleDecodedEvent_def published_event_def handle_store_def publish_ops_def)
next
  case (Inr event)
  obtain r s' where i: "ins event s = (r, s')" by (cases "ins event s")
  show ?thesis
    using Inr i
    by (cases r) (auto simp: HandleDecodedEvent_def published_event_def handle_store_def publish_ops_def Let_def
        split: sum.splits prod.splits bool.splits)
qed

lemma run_ops_append:
  "run_ops (ps @ qs) h = (case run_ops ps h of Inl e \<Rightarrow> Inl e
     | Inr (out, h1) \<Rightarrow> (case run_ops qs h1 of Inl e \<Rightarrow> Inl e | Inr (out', h2) \<Rightarrow> Inr (out @ out', h2)))"
  by (induction ps arbitrary: h) (auto split: sum.splits prod.splits)

lemma handle_all_ops:
  "handle_all ins ds hub s = map_sum id (\<lambda>r. (snd r, store_after ins ds s)) (run_ops (ingest_ops ins ds s) hub)"
proof (induction ds arbitrary: hub s)
  case (Cons d ds)
  let ?ops = "publish_ops (de_Payload d) (published_event ins d s)"
  obtain err where "HandleDecodedEvent ins d hub s = (err, map_sum id snd (run_ops ?ops hub), handle_store ins d s)"
    using HandleDecodedEvent_ops [of ins d hub s] by (rule that)
  then show ?case
    by (cases "run_ops ?ops hub") (auto simp: Cons.IH run_ops_append split: sum.splits prod.splits)
qed simp

lemma published_to_ingest_ops: "published_to ''global'' (ingest_ops ins ds s) = global_events ins ds s"
  by (induction ds arbitrary: s) (auto simp: published_to_append publish_ops_def Let_def split: option.splits)

text \<open>Publishing receives nothing.\<close>

lemma run_publishes_out:
  "run_ops ps h = Inr (out, h') \<Longrightarrow> (\<forall>p\<in>set ps. \<exists>t e. p = OpPublish t e) \<Longrightarrow> out = []"
proof (induction ps arbitrary: h out)
  case (Cons p ps)
  then obtain t e where "p = OpPublish t e" by auto
  then show ?case using Cons by (auto split: sum.splits prod.splits)
qed simp

lemma ingest_ops_publish: "p \<in> set (ingest_ops ins ds s) \<Longrightarrow> \<exists>t e. p = OpPublish t e"
  by (induction ds arbitrary: s) (auto simp: publish_ops_def Let_def split: option.splits if_splits)

lemma received_ingest_ops: "run_ops (ingest_ops ins ds s) h = Inr (out, h') \<Longrightarrow> received sub out = []"
  using run_publishes_out ingest_ops_publish by (metis received_simps(1))

section \<open>The laws of an event store\<close>

text \<open>
  ids is the set of event ids the store holds and newest a log id no event of it exceeds. What
  an insert reports tells whether the event id was there; an error may leave the event stored.
\<close>

locale event_store =
  fixes insert_event :: "'s event_inserter"
    and store_inv :: "'s \<Rightarrow> bool"
    and ids :: "'s \<Rightarrow> string set"
    and newest :: "'s \<Rightarrow> int"
  assumes insert_inv: "store_inv s \<Longrightarrow> store_inv (snd (insert_event e s))"
    and insert_inserted: "store_inv s \<Longrightarrow> insert_event e s = (Inr (True, n), s') \<Longrightarrow>
      ev_EventID e \<notin> ids s \<and> ids s' = insert (ev_EventID e) (ids s) \<and> newest s < n \<and> n \<le> newest s'"
    and insert_duplicate: "store_inv s \<Longrightarrow> insert_event e s = (Inr (False, n), s') \<Longrightarrow>
      ev_EventID e \<in> ids s \<and> ids s' = ids s \<and> newest s \<le> newest s'"
    and insert_failed: "store_inv s \<Longrightarrow> insert_event e s = (Inl err, s') \<Longrightarrow>
      ids s \<subseteq> ids s' \<and> ids s' \<subseteq> insert (ev_EventID e) (ids s) \<and> newest s \<le> newest s'"
begin

lemma EnvelopeWithPayload_id: "EnvelopeWithPayload d = Inr event \<Longrightarrow> ev_EventID event = ev_EventID (de_Envelope d)"
  by (auto simp: EnvelopeWithPayload_def Let_def split: if_splits)

lemma handle_store_step:
  assumes "store_inv s"
  shows "store_inv (handle_store insert_event d s)"
    "ids s \<subseteq> ids (handle_store insert_event d s)" "newest s \<le> newest (handle_store insert_event d s)"
    "published_event insert_event d s = Some e \<Longrightarrow>
       ev_EventID e \<notin> ids s \<and> ev_EventID e \<in> ids (handle_store insert_event d s) \<and>
       newest s < ev_LogID e \<and> ev_LogID e \<le> newest (handle_store insert_event d s)"
proof -
  have *: "store_inv (handle_store insert_event d s) \<and>
    ids s \<subseteq> ids (handle_store insert_event d s) \<and> newest s \<le> newest (handle_store insert_event d s) \<and>
    (\<forall>e. published_event insert_event d s = Some e \<longrightarrow>
       ev_EventID e \<notin> ids s \<and> ev_EventID e \<in> ids (handle_store insert_event d s) \<and>
       newest s < ev_LogID e \<and> ev_LogID e \<le> newest (handle_store insert_event d s))"
  proof (cases "EnvelopeWithPayload d")
    case (Inl err)
    then show ?thesis using assms by (simp add: handle_store_def published_event_def)
  next
    case (Inr event)
    obtain r s' where i: "insert_event event s = (r, s')" by (cases "insert_event event s")
    have inv: "store_inv s'" using insert_inv [OF assms, of event] i by simp
    consider err where "r = Inl err" | n where "r = Inr (True, n)" | n where "r = Inr (False, n)"
      by (metis (full_types) old.sum.exhaust surj_pair)
    then show ?thesis
    proof cases
      case 1
      then show ?thesis using insert_failed [OF assms, of event err s'] assms inv Inr i
        by (auto simp: handle_store_def published_event_def)
    next
      case 2
      then show ?thesis using insert_inserted [OF assms, of event n s'] assms inv Inr i
        by (auto simp: handle_store_def published_event_def)
    next
      case 3
      then show ?thesis using insert_duplicate [OF assms, of event n s'] assms inv Inr i
        by (auto simp: handle_store_def published_event_def)
    qed
  qed
  then show "store_inv (handle_store insert_event d s)"
    "ids s \<subseteq> ids (handle_store insert_event d s)" "newest s \<le> newest (handle_store insert_event d s)"
    "published_event insert_event d s = Some e \<Longrightarrow>
       ev_EventID e \<notin> ids s \<and> ev_EventID e \<in> ids (handle_store insert_event d s) \<and>
       newest s < ev_LogID e \<and> ev_LogID e \<le> newest (handle_store insert_event d s)" by blast+
qed

text \<open>What goes to the global topic: each event at most once, in the order of the log.\<close>

lemma global_events_log_order:
  assumes "store_inv s"
  shows "sorted_wrt (<) (map ev_LogID (global_events insert_event ds s)) \<and>
    distinct (map ev_EventID (global_events insert_event ds s)) \<and>
    (\<forall>e\<in>set (global_events insert_event ds s). newest s < ev_LogID e \<and> ev_EventID e \<notin> ids s \<and>
       ev_EventID e \<in> ids (store_after insert_event ds s))"
  using assms
proof (induction ds arbitrary: s)
  case (Cons d ds)
  note step = handle_store_step [OF Cons.prems, of d]
  note IH = Cons.IH [OF step(1)]
  let ?s1 = "handle_store insert_event d s"
  have mono: "store_inv t \<Longrightarrow> ids t \<subseteq> ids (store_after insert_event ds t)" for t
  proof (induction ds arbitrary: t)
    case (Cons d' ds')
    then show ?case using handle_store_step(1,2) [OF Cons.prems, of d'] by fastforce
  qed simp
  show ?case
  proof (cases "published_event insert_event d s")
    case None
    then show ?thesis using IH step(2,3) by fastforce
  next
    case (Some e)
    have later: "newest ?s1 < ev_LogID x \<and> ev_EventID x \<notin> ids ?s1"
      if "x \<in> set (global_events insert_event ds ?s1)" for x
      using IH that by blast
    show ?thesis
      using IH step(2,3) step(4) [OF Some] Some later mono [OF step(1)]
      by (simp add: image_iff) (smt (verit) subsetD)
  qed
qed simp

end

section \<open>The event log is an event store\<close>

definition stored_ids :: "Db \<Rightarrow> string set" where
  "stored_ids s = se_event_id ` set (service_events (db_tables s))"

interpretation log_store: event_store "InsertServiceEvent pg" log_inv stored_ids "\<lambda>s. db_log_seq s - 1" for pg
proof
  fix s e
  show "log_inv s \<Longrightarrow> log_inv (snd (InsertServiceEvent pg e s))" by (rule InsertServiceEvent_inv)
next
  fix s s' e n
  assume a: "log_inv s" "InsertServiceEvent pg e s = (Inr (True, n), s')"
  from a(2) show "ev_EventID e \<notin> stored_ids s \<and> stored_ids s' = insert (ev_EventID e) (stored_ids s) \<and>
      db_log_seq s - 1 < n \<and> n \<le> db_log_seq s' - 1"
    by (rule InsertServiceEvent_new) (auto simp: stored_ids_def)
next
  fix s s' e n
  assume a: "log_inv s" "InsertServiceEvent pg e s = (Inr (False, n), s')"
  show "ev_EventID e \<in> stored_ids s \<and> stored_ids s' = stored_ids s \<and> db_log_seq s - 1 \<le> db_log_seq s' - 1"
    using InsertServiceEvent_duplicate [OF a(2)] InsertServiceEvent_seq [of s pg e] a(2)
    by (simp add: stored_ids_def)
next
  fix s s' e err
  assume a: "log_inv s" "InsertServiceEvent pg e s = (Inl err, s')"
  show "stored_ids s \<subseteq> stored_ids s' \<and> stored_ids s' \<subseteq> insert (ev_EventID e) (stored_ids s) \<and>
      db_log_seq s - 1 \<le> db_log_seq s' - 1"
    using InsertServiceEvent_error [OF a(2)] InsertServiceEvent_seq [of s pg e] a(2)
    by (auto simp: stored_ids_def)
qed

section \<open>What the log gets\<close>

text \<open>The events whose handling reported an error.\<close>

fun refused_ids :: "'s event_inserter \<Rightarrow> DecodedEnvelope list \<Rightarrow> 's \<Rightarrow> string set" where
  "refused_ids ins [] s = {}"
| "refused_ids ins (d # ds) s =
     (case HandleDecodedEvent ins d NewHub s of
        (None, _, s') \<Rightarrow> refused_ids ins ds s'
      | (Some e, _, s') \<Rightarrow> insert (ev_EventID (de_Envelope d)) (refused_ids ins ds s'))"

definition event_key :: "Envelope \<Rightarrow> int \<times> string" where
  "event_key e = (ev_LogID e, ev_EventID e)"

definition row_key :: "ServiceEventRow \<Rightarrow> int \<times> string" where
  "row_key r = (se_log_id r, se_event_id r)"

lemma refused_ids_Cons:
  "refused_ids ins (d # ds) s =
     (if fst (HandleDecodedEvent ins d NewHub s) = None then {} else {ev_EventID (de_Envelope d)}) \<union>
     refused_ids ins ds (handle_store ins d s)"
  using HandleDecodedEvent_ops [of ins d NewHub s] by (auto split: prod.splits option.splits)

text \<open>An event that is handled adds nothing, its row and its publication, or its row and an error.\<close>

lemma handle_store_rows:
  assumes "s' = handle_store (InsertServiceEvent pg) d s"
  shows "\<exists>new. service_events (db_tables s') = service_events (db_tables s) @ new \<and>
    (case published_event (InsertServiceEvent pg) d s of
       Some e \<Rightarrow> (\<exists>row. new = [row] \<and> row_key row = event_key e)
     | None \<Rightarrow> new = [] \<or> (\<exists>row. new = [row] \<and> se_event_id row = ev_EventID (de_Envelope d)) \<and>
         fst (HandleDecodedEvent (InsertServiceEvent pg) d NewHub s) \<noteq> None)"
proof (cases "EnvelopeWithPayload d")
  case (Inl e)
  then show ?thesis using assms by (simp add: handle_store_def published_event_def)
next
  case (Inr event)
  have id: "ev_EventID event = ev_EventID (de_Envelope d)" using Inr log_store.EnvelopeWithPayload_id by blast
  obtain r s1 where ins: "InsertServiceEvent pg event s = (r, s1)" by (cases "InsertServiceEvent pg event s")
  show ?thesis
  proof (cases "de_Payload d = OtherPayload")
    case True
    then show ?thesis using assms Inr by (simp add: handle_store_def published_event_def)
  next
    case False
    then have s': "s' = s1" using assms Inr ins by (simp add: handle_store_def)
    consider err where "r = Inl err" | n where "r = Inr (True, n)" | n where "r = Inr (False, n)"
      by (metis (full_types) old.sum.exhaust surj_pair)
    then show ?thesis
    proof cases
      case 1
      then have none: "published_event (InsertServiceEvent pg) d s = None"
          "fst (HandleDecodedEvent (InsertServiceEvent pg) d NewHub s) \<noteq> None"
        using Inr ins False by (simp_all add: published_event_def HandleDecodedEvent_def)
      show ?thesis
        using InsertServiceEvent_error [of pg event s err s1] ins 1 id s' by (auto simp: none)
    next
      case 2
      then have "published_event (InsertServiceEvent pg) d s = Some (event\<lparr>ev_LogID := n\<rparr>)"
        using Inr ins False by (simp add: published_event_def)
      moreover obtain row where "service_events (db_tables s1) = service_events (db_tables s) @ [row]"
          "se_log_id row = n" "se_event_id row = ev_EventID event"
        using ins [unfolded 2] by (elim InsertServiceEvent_new) simp
      ultimately show ?thesis using s' by (simp add: row_key_def event_key_def)
    next
      case 3
      then have "published_event (InsertServiceEvent pg) d s = None"
        using Inr ins False by (simp add: published_event_def)
      then show ?thesis using InsertServiceEvent_duplicate [of pg event s n s1] ins 3 s' by simp
    qed
  qed
qed

text \<open>
  The log grows by rows of which the published events are those at some positions; the others
  belong to events that were refused.
\<close>

lemma global_events_rows:
  "\<exists>rows told. service_events (db_tables (store_after (InsertServiceEvent pg) ds s)) = service_events (db_tables s) @ rows \<and>
     map event_key (global_events (InsertServiceEvent pg) ds s) = map row_key (nths rows told) \<and>
     (\<forall>i<length rows. i \<notin> told \<longrightarrow> se_event_id (rows ! i) \<in> refused_ids (InsertServiceEvent pg) ds s)"
proof (induction ds arbitrary: s)
  case (Cons d ds)
  let ?ins = "InsertServiceEvent pg"
  define s1 where "s1 = handle_store ?ins d s"
  obtain new where new: "service_events (db_tables s1) = service_events (db_tables s) @ new"
    "case published_event ?ins d s of
       Some e \<Rightarrow> (\<exists>row. new = [row] \<and> row_key row = event_key e)
     | None \<Rightarrow> new = [] \<or> (\<exists>row. new = [row] \<and> se_event_id row = ev_EventID (de_Envelope d)) \<and>
         fst (HandleDecodedEvent ?ins d NewHub s) \<noteq> None"
    using handle_store_rows [OF s1_def] by blast
  obtain rows told where IH: "service_events (db_tables (store_after ?ins ds s1)) = service_events (db_tables s1) @ rows"
    "map event_key (global_events ?ins ds s1) = map row_key (nths rows told)"
    "\<forall>i<length rows. i \<notin> told \<longrightarrow> se_event_id (rows ! i) \<in> refused_ids ?ins ds s1"
    using Cons.IH by blast
  have later: "refused_ids ?ins ds s1 \<subseteq> refused_ids ?ins (d # ds) s" unfolding refused_ids_Cons s1_def by blast
  have all: "service_events (db_tables (store_after ?ins (d # ds) s)) = service_events (db_tables s) @ (new @ rows)"
    using IH(1) new(1) by (simp add: s1_def)
  have Suc: "{j. Suc j \<in> Suc ` told} = told" by auto
  show ?case
  proof (cases "published_event ?ins d s")
    case (Some e)
    then obtain row where row: "new = [row]" "row_key row = event_key e" using new(2) by auto
    have "map event_key (global_events ?ins (d # ds) s) = map row_key (nths (new @ rows) (insert 0 (Suc ` told)))"
      using IH(2) Some row Suc by (simp add: s1_def nths_Cons)
    moreover have "se_event_id ((new @ rows) ! i) \<in> refused_ids ?ins (d # ds) s"
      if "i < length (new @ rows)" "i \<notin> insert 0 (Suc ` told)" for i
      using that IH(3) later row(1) by (cases i) (auto simp del: refused_ids.simps)
    ultimately show ?thesis using all by blast
  next
    case None
    then consider "new = []" | row where "new = [row]" "se_event_id row = ev_EventID (de_Envelope d)"
        "fst (HandleDecodedEvent ?ins d NewHub s) \<noteq> None"
      using new(2) by auto
    then show ?thesis
    proof cases
      case 1
      then show ?thesis using all IH(2,3) None later by (auto simp: s1_def simp del: refused_ids.simps intro!: exI [of _ rows] exI [of _ told])
    next
      case 2
      have "map event_key (global_events ?ins (d # ds) s) = map row_key (nths (new @ rows) (Suc ` told))"
        using IH(2) None 2(1) Suc by (simp add: s1_def nths_Cons)
      moreover have "se_event_id ((new @ rows) ! i) \<in> refused_ids ?ins (d # ds) s"
        if "i < length (new @ rows)" "i \<notin> Suc ` told" for i
        using that IH(3) later 2 by (cases i) (auto simp: refused_ids_Cons simp del: refused_ids.simps)
      ultimately show ?thesis using all by blast
    qed
  qed
qed simp

section \<open>Topics\<close>

text \<open>What a payload says of its token: the mint of a coin, or the two mints of a pool.\<close>

datatype traded = Coin string | Pair string string

fun traded_of :: "payload \<Rightarrow> traded option" where
  "traded_of (PumpfunTrade p) = Some (Coin (pft_Mint p))"
| "traded_of (PumpfunCreate p) = Some (Coin (pfc_Mint p))"
| "traded_of (PumpfunMigrate p) = Some (Coin (pfm_Mint p))"
| "traded_of (PumpAmmSwap p) = Some (Pair (pas_BaseMint p) (pas_QuoteMint p))"
| "traded_of (PumpAmmCreatePool p) = Some (Pair (pap_BaseMint p) (pap_QuoteMint p))"
| "traded_of (PumpAmmLiquidity p) = Some (Pair (pal_BaseMint p) (pal_QuoteMint p))"
| "traded_of OtherPayload = None"

text \<open>The topics an event belongs to, in the order in which it is published to them.\<close>

inductive event_topics :: "EventRefs \<Rightarrow> payload \<Rightarrow> string list \<Rightarrow> bool" where
  named: "er_Mint refs = Some m \<Longrightarrow> m \<noteq> [] \<Longrightarrow> event_topics refs p [''token:'' @ m, ''global'']"
| coin: "er_Mint refs \<in> {None, Some []} \<Longrightarrow> traded_of p = Some (Coin m) \<Longrightarrow> m \<noteq> [] \<Longrightarrow>
    event_topics refs p [''token:'' @ m, ''global'']"
| wrapped_sol: "er_Mint refs \<in> {None, Some []} \<Longrightarrow> traded_of p = Some (Pair a b) \<Longrightarrow>
    {a, b} = {''So11111111111111111111111111111111111111112'', m} \<Longrightarrow> m \<noteq> [] \<Longrightarrow> event_topics refs p [''token:'' @ m, ''global'']"
| other_pair: "er_Mint refs \<in> {None, Some []} \<Longrightarrow> traded_of p = Some (Pair a b) \<Longrightarrow>
    ''So11111111111111111111111111111111111111112'' \<notin> {a, b} \<Longrightarrow> a \<noteq> [] \<Longrightarrow> b \<noteq> [] \<Longrightarrow>
    event_topics refs p [''token:'' @ a, ''global'']"
| half_pair: "er_Mint refs \<in> {None, Some []} \<Longrightarrow> traded_of p = Some (Pair a b) \<Longrightarrow> {a, b} = {[], m} \<Longrightarrow> m \<noteq> [] \<Longrightarrow>
    event_topics refs p [''token:'' @ m, ''global'']"
| no_mint: "er_Mint refs \<in> {None, Some []} \<Longrightarrow> traded_of p \<in> {Some (Coin []), Some (Pair [] [])} \<Longrightarrow>
    event_topics refs p [''global'']"

inductive_cases event_topicsE: "event_topics refs p topics"

lemma resolveNonSolMint_pair:
  "{a, b} = {wrappedSolMint, m} \<Longrightarrow> m \<noteq> [] \<Longrightarrow> resolveNonSolMint a b = m"
  "{a, b} = {[], m} \<Longrightarrow> m \<noteq> [] \<Longrightarrow> resolveNonSolMint a b = m"
  by (auto simp: resolveNonSolMint_def doubleton_eq_iff wrappedSolMint_def)

lemma extractMint_traded:
  "er_Mint refs \<in> {None, Some []} \<Longrightarrow> extractMint refs p =
     (case traded_of p of None \<Rightarrow> [] | Some (Coin m) \<Rightarrow> m | Some (Pair a b) \<Rightarrow> resolveNonSolMint a b)"
  by (cases p) (auto simp: extractMint_def)

text \<open>extractMint finds the one topic there is.\<close>

lemma event_topics_extractMint:
  assumes "p \<noteq> OtherPayload"
  shows "event_topics refs p topics \<longleftrightarrow>
    topics = (if extractMint refs p \<noteq> [] then [''token:'' @ extractMint refs p] else []) @ [''global'']"
proof
  assume "event_topics refs p topics"
  then show "topics = (if extractMint refs p \<noteq> [] then [''token:'' @ extractMint refs p] else []) @ [''global'']"
    by (cases rule: event_topics.cases)
      (auto simp: extractMint_traded resolveNonSolMint_pair(1) [unfolded wrappedSolMint_def] resolveNonSolMint_pair(2),
       auto simp: extractMint_def resolveNonSolMint_def wrappedSolMint_def)
next
  assume topics: "topics = (if extractMint refs p \<noteq> [] then [''token:'' @ extractMint refs p] else []) @ [''global'']"
  show "event_topics refs p topics"
  proof (cases "er_Mint refs \<in> {None, Some []}")
    case False
    then obtain m where "er_Mint refs = Some m" "m \<noteq> []" by auto
    then show ?thesis using topics named by (simp add: extractMint_def)
  next
    case True
    obtain x where x: "traded_of p = Some x" using assms by (cases p) auto
    show ?thesis
    proof (cases x)
      case (Coin m)
      then show ?thesis
        using topics x coin [OF True, of p m] no_mint [OF True, of p] by (auto simp: extractMint_traded [OF True])
    next
      case (Pair a b)
      have ext: "extractMint refs p = resolveNonSolMint a b" by (simp add: extractMint_traded [OF True] x Pair)
      note p = x [unfolded Pair]
      consider "a = []" "b = []" | "a = []" "b \<noteq> []" | "a \<noteq> []" "b = []" | "a \<noteq> []" "b \<noteq> []" "a = wrappedSolMint"
        | "a \<noteq> []" "b \<noteq> []" "b = wrappedSolMint" "a \<noteq> wrappedSolMint"
        | "a \<noteq> []" "b \<noteq> []" "a \<noteq> wrappedSolMint" "b \<noteq> wrappedSolMint" by blast
      then show ?thesis
      proof cases
        case 1
        then have "resolveNonSolMint a b = []" by (simp add: resolveNonSolMint_def)
        then show ?thesis using topics ext p 1 no_mint [OF True, of p] by simp
      next
        case 2
        then have "resolveNonSolMint a b = b" using resolveNonSolMint_pair(2) by blast
        then show ?thesis using topics ext 2 half_pair [OF True p, of b] by simp
      next
        case 3
        then have "resolveNonSolMint a b = a" using resolveNonSolMint_pair(2) by blast
        then show ?thesis using topics ext 3 half_pair [OF True p, of a] by (simp add: insert_commute)
      next
        case 4
        then have "resolveNonSolMint a b = b" using resolveNonSolMint_pair(1) by blast
        then show ?thesis using topics ext 4 wrapped_sol [OF True p, of b] by (simp add: wrappedSolMint_def)
      next
        case 5
        then have "resolveNonSolMint a b = a" using resolveNonSolMint_pair(1) by blast
        then show ?thesis using topics ext 5 wrapped_sol [OF True p, of a] by (simp add: wrappedSolMint_def insert_commute)
      next
        case 6
        then have "resolveNonSolMint a b = a" by (simp add: resolveNonSolMint_def)
        then show ?thesis using topics ext 6 other_pair [OF True p] by (simp add: wrappedSolMint_def)
      qed
    qed
  qed
qed

section \<open>Properties\<close>

text \<open>
  C6: the live feed. Whatever events a consumer handles, in whatever order and with whatever
  database faults, no publication panics, and a subscriber of the global topic finds in its
  channel (a prefix of, once it overflows) what was published since it subscribed: the events of
  the rows the log got meanwhile, in the order of the log, with their log ids. No new row is left
  out but those of events whose handling reported an error (a lost acknowledgement); none is
  published twice.
\<close>

theorem ingest_global_feed:
  assumes "log_inv s" "hub_inv hub" "Subscribe ''global'' buffer hub = (sub, hub0)"
  shows "\<exists>hub' s' c k events rows told. handle_all (InsertServiceEvent pg) ds hub0 s = Inr (hub', s') \<and>
    hub_heap hub' sub = Some c \<and> sub_buf c = take k events \<and> (sub_live c \<longrightarrow> k = length events) \<and>
    service_events (db_tables s') = service_events (db_tables s) @ rows \<and>
    map (\<lambda>e. (ev_LogID e, ev_EventID e)) events = map (\<lambda>r. (se_log_id r, se_event_id r)) (nths rows told) \<and>
    (\<forall>i<length rows. i \<notin> told \<longrightarrow> se_event_id (rows ! i) \<in> refused_ids (InsertServiceEvent pg) ds s) \<and>
    sorted_wrt (<) (map ev_LogID events) \<and> distinct (map ev_EventID events) \<and>
    (\<forall>e\<in>set events. ev_EventID e \<notin> stored_ids s \<and> ev_EventID e \<in> stored_ids s')"
proof -
  define events where "events = global_events (InsertServiceEvent pg) ds s"
  note sp = Subscribe_spec [OF assms(2,3)]
  have "homed hub0 sub ''global'' (newSubscription buffer)"
    using sp hub_invD(2,4) [OF assms(2)] by (fastforce simp: homed_def)
  then obtain out hub' c k where r: "run_ops (ingest_ops (InsertServiceEvent pg) ds s) hub0 = Inr (out, hub')"
    "homed hub' sub ''global'' c"
    "received sub out @ sub_buf c = sub_buf (newSubscription buffer) @ take k events"
    "sub_live c \<Longrightarrow> k = length events"
    using run_ops_delivery [OF sp(1), of sub "''global''" _ "ingest_ops (InsertServiceEvent pg) ds s"]
    unfolding published_to_ingest_ops events_def by blast
  have "received sub out = []" using received_ingest_ops [OF r(1)] by simp
  moreover have "sub_buf (newSubscription buffer) = []" by (simp add: newSubscription_def make_chan_def)
  ultimately have "sub_buf c = take k events" using r(3) by simp
  moreover have "handle_all (InsertServiceEvent pg) ds hub0 s = Inr (hub', store_after (InsertServiceEvent pg) ds s)"
    by (simp add: handle_all_ops r(1))
  moreover have "hub_heap hub' sub = Some c" using r(2) by (simp add: homed_def)
  moreover obtain rows told where
    "service_events (db_tables (store_after (InsertServiceEvent pg) ds s)) = service_events (db_tables s) @ rows"
    "map (\<lambda>e. (ev_LogID e, ev_EventID e)) events = map (\<lambda>r. (se_log_id r, se_event_id r)) (nths rows told)"
    "\<forall>i<length rows. i \<notin> told \<longrightarrow> se_event_id (rows ! i) \<in> refused_ids (InsertServiceEvent pg) ds s"
    using global_events_rows [of pg ds s] unfolding events_def event_key_def row_key_def by blast
  ultimately show ?thesis
    using log_store.global_events_log_order [OF assms(1), of pg ds, folded events_def] r(4)
    by blast
qed

lemma ingest_global_feed_witness:
  "\<exists>hub' s' c k events rows told. handle_all (InsertServiceEvent pg_plain)
       [\<lparr> de_Envelope = zero_Envelope, de_Payload = PumpfunTrade zero_PumpfunTradePayload \<rparr>]
       (snd (Subscribe ''global'' 4 NewHub)) (empty_db (\<lambda>_. None)) = Inr (hub', s') \<and>
    hub_heap hub' 0 = Some c \<and> sub_buf c = take k events \<and> (sub_live c \<longrightarrow> k = length events) \<and>
    service_events (db_tables s') = service_events (db_tables (empty_db (\<lambda>_. None))) @ rows \<and>
    map (\<lambda>e. (ev_LogID e, ev_EventID e)) events = map (\<lambda>r. (se_log_id r, se_event_id r)) (nths rows told) \<and>
    (\<forall>i<length rows. i \<notin> told \<longrightarrow> se_event_id (rows ! i) \<in> refused_ids (InsertServiceEvent pg_plain)
       [\<lparr> de_Envelope = zero_Envelope, de_Payload = PumpfunTrade zero_PumpfunTradePayload \<rparr>] (empty_db (\<lambda>_. None))) \<and>
    sorted_wrt (<) (map ev_LogID events) \<and> distinct (map ev_EventID events) \<and>
    (\<forall>e\<in>set events. ev_EventID e \<notin> stored_ids (empty_db (\<lambda>_. None)) \<and> ev_EventID e \<in> stored_ids s')"
proof (rule ingest_global_feed)
  show "Subscribe ''global'' 4 NewHub = (0, snd (Subscribe ''global'' 4 NewHub))"
    by (simp add: Subscribe_def NewHub_def Let_def)
qed simp_all

text \<open>
  C19: what an event does to the hub. If it is new it is published to the topic of its mint and
  then to the global topic, with the log id it got, and to nothing else. Its mint is the one its
  refs name; if they name none, that of its payload, which for an AMM pair with wrapped SOL is the
  other side, whichever side SOL is on, for another pair the base, and for a pair with one side
  missing the side that is there. Without a mint it goes to the global topic alone. A duplicate,
  a failed insert and an unknown payload publish nothing, and only the duplicate is no error.
\<close>

theorem HandleDecodedEvent_publishes:
  assumes "EnvelopeWithPayload d = Inr event"
  shows "if de_Payload d = OtherPayload then \<exists>e. HandleDecodedEvent ins d hub s = (Some e, Inr hub, s)
    else case ins event s of
      (Inl e, s') \<Rightarrow> HandleDecodedEvent ins d hub s = (Some (ErrWrap ''insert service event'' e), Inr hub, s')
    | (Inr (False, _), s') \<Rightarrow> HandleDecodedEvent ins d hub s = (None, Inr hub, s')
    | (Inr (True, logID), s') \<Rightarrow> \<exists>topics. event_topics (ev_Refs (de_Envelope d)) (de_Payload d) topics \<and>
        (\<forall>topics'. event_topics (ev_Refs (de_Envelope d)) (de_Payload d) topics' \<longrightarrow> topics' = topics) \<and>
        HandleDecodedEvent ins d hub s =
          (None, map_sum id snd (run_ops (map (\<lambda>t. OpPublish t (event\<lparr>ev_LogID := logID\<rparr>)) topics) hub), s')"
proof -
  have refs: "ev_Refs event = ev_Refs (de_Envelope d)"
    using assms by (auto simp: EnvelopeWithPayload_def Let_def split: if_splits)
  obtain r s' where ins: "ins event s = (r, s')" by (cases "ins event s")
  show ?thesis
  proof (cases "de_Payload d = OtherPayload")
    case False
    let ?m = "extractMint (ev_Refs (de_Envelope d)) (de_Payload d)"
    consider e where "r = Inl e" | logID where "r = Inr (False, logID)" | logID where "r = Inr (True, logID)"
      by (metis (full_types) old.sum.exhaust surj_pair)
    then show ?thesis
    proof cases
      case 3
      have "HandleDecodedEvent ins d hub s = (None, map_sum id snd (run_ops (map (\<lambda>t. OpPublish t (event\<lparr>ev_LogID := logID\<rparr>))
          ((if ?m \<noteq> [] then [''token:'' @ ?m] else []) @ [''global''])) hub), s')"
        using False by (simp add: HandleDecodedEvent_def assms ins 3 refs Let_def split: sum.split)
      then show ?thesis
        using False unfolding event_topics_extractMint [OF False] by (simp only: ins 3 prod.case sum.case bool.case if_False) blast
    qed (use False in \<open>simp_all add: HandleDecodedEvent_def assms ins\<close>)
  qed (simp add: HandleDecodedEvent_def)
qed

lemma HandleDecodedEvent_publishes_witness:
  "\<exists>topics. event_topics zero_EventRefs (PumpAmmSwap (zero_PumpAmmSwapPayload\<lparr>pas_BaseMint := wrappedSolMint, pas_QuoteMint := ''m''\<rparr>)) topics \<and>
     fst (HandleDecodedEvent (\<lambda>e s. (Inr (True, 7), s)) \<lparr> de_Envelope = zero_Envelope,
       de_Payload = PumpAmmSwap (zero_PumpAmmSwapPayload\<lparr>pas_BaseMint := wrappedSolMint, pas_QuoteMint := ''m''\<rparr>) \<rparr> NewHub ()) = None \<and>
     topics = [''token:m'', ''global'']"
proof -
  let ?p = "PumpAmmSwap (zero_PumpAmmSwapPayload\<lparr>pas_BaseMint := wrappedSolMint, pas_QuoteMint := ''m''\<rparr>)"
  let ?d = "\<lparr> de_Envelope = zero_Envelope, de_Payload = ?p \<rparr>"
  obtain event where e: "EnvelopeWithPayload ?d = Inr event"
    by (simp add: EnvelopeWithPayload_def Let_def zero_Envelope_def)
  have "event_topics zero_EventRefs ?p [''token:'' @ ''m'', ''global'']"
    by (rule event_topics.wrapped_sol) (auto simp: zero_EventRefs_def wrappedSolMint_def)
  then show ?thesis
    using HandleDecodedEvent_publishes [OF e, of "\<lambda>e s. (Inr (True, 7), s)" NewHub "()"]
    by (auto simp: zero_Envelope_def)
qed

end
