(* ===== verification/ReadModel.thy ===== *)
theory ReadModel
  imports Jsonb "HOL-Library.Multiset"
begin

text \<open>
  internal/store/read_model.go, the tables the projector writes and the queries over them. A
  statement is a function of its arguments and the database; the casts of PostgreSQL it uses are
  those of \<open>Pg\<close>, and arguments the driver cannot encode are faults of the database.
\<close>

section \<open>Records\<close>

definition SolMint :: string where
  "SolMint = ''So11111111111111111111111111111111111111112''"

definition SolDecimals :: int where
  "SolDecimals = 9"

record TokenRecord =
  tok_Mint :: string
  tok_Creator :: "string option"
  tok_BondingCurve :: "string option"
  tok_TokenProgram :: "string option"
  tok_CreateEventID :: "string option"
  tok_FirstSeenAt :: int
  tok_CurrentStage :: string
  tok_ActiveMarketID :: "string option"
  tok_ActiveMarketType :: "string option"
  tok_MigratedAt :: "int option"

record TokenMetadataRecord =
  tmd_Mint :: string
  tmd_Name :: "string option"
  tmd_Symbol :: "string option"
  tmd_URI :: "string option"
  tmd_ImageURI :: "string option"
  tmd_Decimals :: "int option"
  tmd_TotalSupplyRaw :: "string option"
  tmd_QuoteMint :: "string option"
  tmd_QuoteDecimals :: "int option"
  tmd_Creator :: "string option"
  tmd_BondingCurve :: "string option"
  tmd_TokenProgram :: "string option"
  tmd_IsMayhemMode :: "bool option"
  tmd_IsCashbackEnabled :: "bool option"
  tmd_SourceEventID :: "string option"

record TokenMarketRecord =
  tmk_MarketID :: string
  tmk_Mint :: string
  tmk_Protocol :: string
  tmk_MarketType :: string
  tmk_BondingCurve :: "string option"
  tmk_Pool :: "string option"
  tmk_BaseMint :: "string option"
  tmk_QuoteMint :: "string option"
  tmk_BaseMintDecimals :: "int option"
  tmk_QuoteMintDecimals :: "int option"
  tmk_LPMint :: "string option"
  tmk_StartedAt :: int
  tmk_EndedAt :: "int option"
  tmk_CreateEventID :: string

record TradeEventRecord =
  te_EventID :: string
  te_Mint :: string
  te_MarketID :: string
  te_MarketType :: string
  te_Protocol :: string
  te_Side :: string
  te_IxName :: string
  te_UserAddress :: string
  te_QuoteMint :: string
  te_TokenAmountRaw :: string
  te_QuoteAmountRaw :: string
  te_TxSignature :: string
  te_Slot :: int
  te_EventUnixTS :: int
  te_RawEventSource :: string

record ActivityEventRecord =
  ae_EventID :: string
  ae_Mint :: string
  ae_Protocol :: string
  ae_EventType :: string
  ae_ActivityType :: string
  ae_MarketID :: "string option"
  ae_MarketType :: "string option"
  ae_UserAddress :: "string option"
  ae_Side :: "string option"
  ae_QuoteMint :: "string option"
  ae_TokenAmountRaw :: "string option"
  ae_QuoteAmountRaw :: "string option"
  ae_TxSignature :: string
  ae_Slot :: int
  ae_EventUnixTS :: int
  ae_RawEventSource :: string
  ae_Details :: RawMessage
  ae_InsertSeq :: int

record ActivityEventCursor =
  cur_EventUnixTS :: int
  cur_Slot :: int
  cur_InsertSeq :: int

record ActivityEventPage =
  page_Items :: "ActivityEventRecord list"
  page_HasMore :: bool
  page_NextCursor :: "ActivityEventCursor option"

section \<open>Arguments\<close>

text \<open>
  A timestamp in seconds, milliseconds, microseconds or nanoseconds, told apart by its size; the
  negation of the least int64 is itself.
\<close>

definition unixToTimestampSeconds :: "int \<Rightarrow> f64" where
  "unixToTimestampSeconds ts =
     (let abs = (if ts < 0 then wrap64 (- ts) else ts) in
      if 1000000000000000000 \<le> abs then f64_div (f64_of_int ts) (f64_of_int 1000000000)
      else if 1000000000000000 \<le> abs then f64_div (f64_of_int ts) (f64_of_int 1000000)
      else if 1000000000000 \<le> abs then f64_div (f64_of_int ts) (f64_of_int 1000)
      else f64_of_int ts)"

definition to_ts :: "Pg \<Rightarrow> f64 \<Rightarrow> int res" where
  "to_ts pg x = (case pg_to_timestamp pg x of
      None \<Rightarrow> Inl (ErrDB ''timestamp out of range'') | Some t \<Rightarrow> Inr t)"

definition to_ts_opt :: "Pg \<Rightarrow> f64 option \<Rightarrow> int option res" where
  "to_ts_opt pg x = (case x of None \<Rightarrow> Inr None | Some v \<Rightarrow> map_sum id Some (to_ts pg v))"

definition numeric :: "Pg \<Rightarrow> string \<Rightarrow> string res" where
  "numeric pg s = (case pg_numeric pg s of
      None \<Rightarrow> Inl (ErrDB ''invalid input syntax for type numeric'') | Some n \<Rightarrow> Inr n)"

definition numeric_opt :: "Pg \<Rightarrow> string option \<Rightarrow> string option res" where
  "numeric_opt pg x = (case x of None \<Rightarrow> Inr None | Some v \<Rightarrow> map_sum id Some (numeric pg v))"

section \<open>Tokens\<close>

text \<open>The two arms of upsertTokenSQL: the row inserted, and the row a conflict updates.\<close>

definition token_row :: "TokenRecord \<Rightarrow> int \<Rightarrow> int option \<Rightarrow> int \<Rightarrow> TokenRow" where
  "token_row r firstSeenAt migratedAt now = \<lparr>
     tk_mint = tok_Mint r, tk_creator = tok_Creator r, tk_bonding_curve = tok_BondingCurve r,
     tk_token_program = tok_TokenProgram r, tk_create_event_id = tok_CreateEventID r,
     tk_first_seen_at = firstSeenAt, tk_current_stage = tok_CurrentStage r,
     tk_active_market_id = tok_ActiveMarketID r, tk_active_market_type = tok_ActiveMarketType r,
     tk_migrated_at = migratedAt, tk_updated_at = now \<rparr>"

definition token_conflict :: "TokenRow \<Rightarrow> TokenRow \<Rightarrow> TokenRow" where
  "token_conflict excluded old = \<lparr>
     tk_mint = tk_mint old,
     tk_creator = coalesce (tk_creator excluded) (tk_creator old),
     tk_bonding_curve = coalesce (tk_bonding_curve excluded) (tk_bonding_curve old),
     tk_token_program = coalesce (tk_token_program excluded) (tk_token_program old),
     tk_create_event_id = coalesce (tk_create_event_id old) (tk_create_event_id excluded),
     tk_first_seen_at = min (tk_first_seen_at old) (tk_first_seen_at excluded),
     tk_current_stage = tk_current_stage excluded,
     tk_active_market_id = coalesce (tk_active_market_id excluded) (tk_active_market_id old),
     tk_active_market_type = coalesce (tk_active_market_type excluded) (tk_active_market_type old),
     tk_migrated_at = coalesce (tk_migrated_at excluded) (tk_migrated_at old),
     tk_updated_at = tk_updated_at excluded \<rparr>"

text \<open>insert ... on conflict (key) do update\<close>

definition upsert :: "('r \<Rightarrow> 'r \<Rightarrow> 'r) \<Rightarrow> string \<Rightarrow> 'r \<Rightarrow> (string \<times> 'r) list \<Rightarrow> (string \<times> 'r) list" where
  "upsert conflict key row t = AList.update key
     (case map_of t key of None \<Rightarrow> row | Some old \<Rightarrow> conflict row old) t"

definition upsertTokenSQL :: "Pg \<Rightarrow> TokenRecord \<Rightarrow> f64 \<Rightarrow> f64 option \<Rightarrow> Db \<Rightarrow> Db res" where
  "upsertTokenSQL pg r firstSeenAt migratedAt s =
     (case to_ts pg firstSeenAt of Inl e \<Rightarrow> Inl e
      | Inr first \<Rightarrow> (case to_ts_opt pg migratedAt of Inl e \<Rightarrow> Inl e
        | Inr migrated \<Rightarrow> Inr (s\<lparr>db_tables := (db_tables s)\<lparr>tokens :=
            upsert token_conflict (tok_Mint r) (token_row r first migrated (db_now s)) (tokens (db_tables s))\<rparr>\<rparr>)))"

definition UpsertToken :: "Pg \<Rightarrow> TokenRecord \<Rightarrow> Db action" where
  "UpsertToken pg record =
     wrap_err ''upsert token'' (db_exec (upsertTokenSQL pg record
       (unixToTimestampSeconds (tok_FirstSeenAt record))
       (map_option unixToTimestampSeconds (tok_MigratedAt record))))"

section \<open>Token metadata\<close>

definition metadata_row :: "TokenMetadataRecord \<Rightarrow> string option \<Rightarrow> int \<Rightarrow> TokenMetadataRow" where
  "metadata_row r supply now = \<lparr>
     md_mint = tmd_Mint r, md_name = tmd_Name r, md_symbol = tmd_Symbol r, md_uri = tmd_URI r,
     md_image_uri = None, md_decimals = tmd_Decimals r, md_total_supply_raw = supply,
     md_quote_mint = tmd_QuoteMint r, md_quote_decimals = tmd_QuoteDecimals r,
     md_creator = tmd_Creator r, md_bonding_curve = tmd_BondingCurve r,
     md_token_program = tmd_TokenProgram r, md_is_mayhem_mode = tmd_IsMayhemMode r,
     md_is_cashback_enabled = tmd_IsCashbackEnabled r, md_source_event_id = tmd_SourceEventID r,
     md_updated_at = now \<rparr>"

definition metadata_conflict :: "TokenMetadataRow \<Rightarrow> TokenMetadataRow \<Rightarrow> TokenMetadataRow" where
  "metadata_conflict excluded old = \<lparr>
     md_mint = md_mint old,
     md_name = coalesce (md_name excluded) (md_name old),
     md_symbol = coalesce (md_symbol excluded) (md_symbol old),
     md_uri = coalesce (md_uri excluded) (md_uri old),
     md_image_uri = md_image_uri old,
     md_decimals = coalesce (md_decimals excluded) (md_decimals old),
     md_total_supply_raw = coalesce (md_total_supply_raw excluded) (md_total_supply_raw old),
     md_quote_mint = coalesce (md_quote_mint excluded) (md_quote_mint old),
     md_quote_decimals = coalesce (md_quote_decimals excluded) (md_quote_decimals old),
     md_creator = coalesce (md_creator excluded) (md_creator old),
     md_bonding_curve = coalesce (md_bonding_curve excluded) (md_bonding_curve old),
     md_token_program = coalesce (md_token_program excluded) (md_token_program old),
     md_is_mayhem_mode = coalesce (md_is_mayhem_mode excluded) (md_is_mayhem_mode old),
     md_is_cashback_enabled = coalesce (md_is_cashback_enabled excluded) (md_is_cashback_enabled old),
     md_source_event_id = coalesce (md_source_event_id excluded) (md_source_event_id old),
     md_updated_at = md_updated_at excluded \<rparr>"

definition upsertTokenMetadataSQL :: "Pg \<Rightarrow> TokenMetadataRecord \<Rightarrow> Db \<Rightarrow> Db res" where
  "upsertTokenMetadataSQL pg r s =
     (case numeric_opt pg (tmd_TotalSupplyRaw r) of Inl e \<Rightarrow> Inl e
      | Inr supply \<Rightarrow> Inr (s\<lparr>db_tables := (db_tables s)\<lparr>token_metadata_current :=
          upsert metadata_conflict (tmd_Mint r) (metadata_row r supply (db_now s))
            (token_metadata_current (db_tables s))\<rparr>\<rparr>))"

definition UpsertTokenMetadata :: "Pg \<Rightarrow> TokenMetadataRecord \<Rightarrow> Db action" where
  "UpsertTokenMetadata pg record =
     wrap_err ''upsert token metadata'' (db_exec (upsertTokenMetadataSQL pg record))"

section \<open>Markets\<close>

definition market_row :: "TokenMarketRecord \<Rightarrow> int \<Rightarrow> int option \<Rightarrow> int \<Rightarrow> TokenMarketRow" where
  "market_row r startedAt endedAt now = \<lparr>
     mk_market_id = tmk_MarketID r, mk_mint = tmk_Mint r, mk_protocol = tmk_Protocol r,
     mk_market_type = tmk_MarketType r, mk_bonding_curve = tmk_BondingCurve r, mk_pool = tmk_Pool r,
     mk_base_mint = tmk_BaseMint r, mk_quote_mint = tmk_QuoteMint r,
     mk_base_mint_decimals = tmk_BaseMintDecimals r, mk_quote_mint_decimals = tmk_QuoteMintDecimals r,
     mk_lp_mint = tmk_LPMint r, mk_started_at = startedAt, mk_ended_at = endedAt,
     mk_create_event_id = tmk_CreateEventID r, mk_updated_at = now \<rparr>"

definition market_conflict :: "TokenMarketRow \<Rightarrow> TokenMarketRow \<Rightarrow> TokenMarketRow" where
  "market_conflict excluded old = \<lparr>
     mk_market_id = mk_market_id old,
     mk_mint = mk_mint excluded,
     mk_protocol = mk_protocol excluded,
     mk_market_type = mk_market_type excluded,
     mk_bonding_curve = coalesce (mk_bonding_curve excluded) (mk_bonding_curve old),
     mk_pool = coalesce (mk_pool excluded) (mk_pool old),
     mk_base_mint = coalesce (mk_base_mint excluded) (mk_base_mint old),
     mk_quote_mint = coalesce (mk_quote_mint excluded) (mk_quote_mint old),
     mk_base_mint_decimals = coalesce (mk_base_mint_decimals excluded) (mk_base_mint_decimals old),
     mk_quote_mint_decimals = coalesce (mk_quote_mint_decimals excluded) (mk_quote_mint_decimals old),
     mk_lp_mint = coalesce (mk_lp_mint excluded) (mk_lp_mint old),
     mk_started_at = min (mk_started_at old) (mk_started_at excluded),
     mk_ended_at = coalesce (mk_ended_at excluded) (mk_ended_at old),
     mk_create_event_id = mk_create_event_id old,
     mk_updated_at = mk_updated_at excluded \<rparr>"

definition upsertTokenMarketSQL :: "Pg \<Rightarrow> TokenMarketRecord \<Rightarrow> f64 \<Rightarrow> f64 option \<Rightarrow> Db \<Rightarrow> Db res" where
  "upsertTokenMarketSQL pg r startedAt endedAt s =
     (case to_ts pg startedAt of Inl e \<Rightarrow> Inl e
      | Inr started \<Rightarrow> (case to_ts_opt pg endedAt of Inl e \<Rightarrow> Inl e
        | Inr ended \<Rightarrow> Inr (s\<lparr>db_tables := (db_tables s)\<lparr>token_markets :=
            upsert market_conflict (tmk_MarketID r) (market_row r started ended (db_now s))
              (token_markets (db_tables s))\<rparr>\<rparr>)))"

definition UpsertTokenMarket :: "Pg \<Rightarrow> TokenMarketRecord \<Rightarrow> Db action" where
  "UpsertTokenMarket pg market =
     wrap_err ''upsert token market'' (db_exec (upsertTokenMarketSQL pg market
       (unixToTimestampSeconds (tmk_StartedAt market))
       (map_option unixToTimestampSeconds (tmk_EndedAt market))))"

definition closeTokenMarketSQL :: "Pg \<Rightarrow> string \<Rightarrow> f64 \<Rightarrow> Db \<Rightarrow> Db res" where
  "closeTokenMarketSQL pg marketID endedAt s =
     (case to_ts pg endedAt of Inl e \<Rightarrow> Inl e
      | Inr ended \<Rightarrow> Inr (s\<lparr>db_tables := (db_tables s)\<lparr>token_markets :=
          map (\<lambda>(k, r). if k = marketID
            then (k, r\<lparr>mk_ended_at := Some ended, mk_updated_at := db_now s\<rparr>) else (k, r))
          (token_markets (db_tables s))\<rparr>\<rparr>))"

definition CloseTokenMarket :: "Pg \<Rightarrow> string \<Rightarrow> int \<Rightarrow> Db action" where
  "CloseTokenMarket pg marketID endedAt =
     wrap_err ''close token market'' (db_exec (closeTokenMarketSQL pg marketID (unixToTimestampSeconds endedAt)))"

section \<open>Trades and activity\<close>

text \<open>on conflict (event_time, event_id) do nothing; the sequence is drawn from either way.\<close>

definition insertTokenTradeEventSQL :: "Pg \<Rightarrow> TradeEventRecord \<Rightarrow> f64 \<Rightarrow> Db \<Rightarrow> Db res" where
  "insertTokenTradeEventSQL pg r eventTime s =
     (case to_ts pg eventTime of Inl e \<Rightarrow> Inl e
      | Inr t \<Rightarrow> (case numeric pg (te_TokenAmountRaw r) of Inl e \<Rightarrow> Inl e
        | Inr tokenAmount \<Rightarrow> (case numeric pg (te_QuoteAmountRaw r) of Inl e \<Rightarrow> Inl e
          | Inr quoteAmount \<Rightarrow>
              let row = \<lparr>
                    tr_event_time = t, tr_event_id = te_EventID r, tr_mint = te_Mint r,
                    tr_market_id = te_MarketID r, tr_market_type = te_MarketType r,
                    tr_protocol = te_Protocol r, tr_side = te_Side r, tr_ix_name = te_IxName r,
                    tr_user_address = te_UserAddress r, tr_quote_mint = te_QuoteMint r,
                    tr_token_amount_raw = tokenAmount, tr_quote_amount_raw = quoteAmount,
                    tr_tx_signature = te_TxSignature r, tr_slot = wrap64 (te_Slot r),
                    tr_raw_event_source = te_RawEventSource r, tr_insert_seq = db_trade_seq s \<rparr>;
                  rows = token_trade_events (db_tables s);
                  s1 = s\<lparr>db_trade_seq := db_trade_seq s + 1\<rparr> in
              if (t, te_EventID r) \<in> (\<lambda>x. (tr_event_time x, tr_event_id x)) ` set rows then Inr s1
              else Inr (s1\<lparr>db_tables := (db_tables s)\<lparr>token_trade_events := rows @ [row]\<rparr>\<rparr>))))"

definition InsertTradeEvent :: "Pg \<Rightarrow> TradeEventRecord \<Rightarrow> Db action" where
  "InsertTradeEvent pg trade =
     wrap_err ''insert trade event'' (db_exec (insertTokenTradeEventSQL pg trade
       (unixToTimestampSeconds (te_EventUnixTS trade))))"

definition insertTokenActivityEventSQL :: "Pg \<Rightarrow> ActivityEventRecord \<Rightarrow> f64 \<Rightarrow> json \<Rightarrow> Db \<Rightarrow> Db res" where
  "insertTokenActivityEventSQL pg r eventTime details s =
     (case to_ts pg eventTime of Inl e \<Rightarrow> Inl e
      | Inr t \<Rightarrow> (case numeric_opt pg (ae_TokenAmountRaw r) of Inl e \<Rightarrow> Inl e
        | Inr tokenAmount \<Rightarrow> (case numeric_opt pg (ae_QuoteAmountRaw r) of Inl e \<Rightarrow> Inl e
          | Inr quoteAmount \<Rightarrow> (case pg_jsonb pg details of
              None \<Rightarrow> Inl (ErrDB ''unsupported Unicode escape sequence'')
            | Some detailsB \<Rightarrow>
              let row = \<lparr>
                    ac_event_time = t, ac_event_id = ae_EventID r, ac_mint = ae_Mint r,
                    ac_protocol = ae_Protocol r, ac_event_type = ae_EventType r,
                    ac_activity_type = ae_ActivityType r, ac_market_id = ae_MarketID r,
                    ac_market_type = ae_MarketType r, ac_user_address = ae_UserAddress r,
                    ac_side = ae_Side r, ac_quote_mint = ae_QuoteMint r,
                    ac_token_amount_raw = tokenAmount, ac_quote_amount_raw = quoteAmount,
                    ac_tx_signature = ae_TxSignature r, ac_slot = wrap64 (ae_Slot r),
                    ac_raw_event_source = ae_RawEventSource r, ac_details = detailsB,
                    ac_insert_seq = db_activity_seq s \<rparr>;
                  rows = token_activity_events (db_tables s);
                  s1 = s\<lparr>db_activity_seq := db_activity_seq s + 1\<rparr> in
              if (t, ae_EventID r) \<in> (\<lambda>x. (ac_event_time x, ac_event_id x)) ` set rows then Inr s1
              else Inr (s1\<lparr>db_tables := (db_tables s)\<lparr>token_activity_events := rows @ [row]\<rparr>\<rparr>)))))"

text \<open>An empty details column is written as an empty object.\<close>

definition activity_details :: "RawMessage \<Rightarrow> json res" where
  "activity_details d = (case d of
      RawEmpty \<Rightarrow> Inr (JObj [])
    | RawInvalid \<Rightarrow> Inl (ErrDB ''invalid input syntax for type json'')
    | RawJson j \<Rightarrow> Inr j)"

definition exec_activity :: "Pg \<Rightarrow> ActivityEventRecord \<Rightarrow> Db action" where
  "exec_activity pg activity = db_exec (\<lambda>s. case activity_details (ae_Details activity) of
      Inl e \<Rightarrow> Inl e
    | Inr details \<Rightarrow> insertTokenActivityEventSQL pg activity
        (unixToTimestampSeconds (ae_EventUnixTS activity)) details s)"

definition InsertActivityEvent :: "Pg \<Rightarrow> ActivityEventRecord \<Rightarrow> Db action" where
  "InsertActivityEvent pg activity = wrap_err ''insert activity event'' (exec_activity pg activity)"

text \<open>A batch is its statements in order, up to the first that fails.\<close>

definition InsertTradeEventsBatch :: "Pg \<Rightarrow> TradeEventRecord list \<Rightarrow> Db action" where
  "InsertTradeEventsBatch pg trades = (if trades = [] then done_ok else
     for_each (\<lambda>trade. wrap_err ''insert trade event'' (db_exec (insertTokenTradeEventSQL pg trade
       (unixToTimestampSeconds (te_EventUnixTS trade))))) trades)"

definition InsertActivityEventsBatch :: "Pg \<Rightarrow> ActivityEventRecord list \<Rightarrow> Db action" where
  "InsertActivityEventsBatch pg activities = (if activities = [] then done_ok else
     for_each (\<lambda>activity. wrap_err ''insert activity event'' (exec_activity pg activity)) activities)"

section \<open>Queries\<close>

text \<open>order by event_time desc, slot desc, insert_seq desc\<close>

definition activity_order :: "ActivityRow \<Rightarrow> int \<times> int \<times> int" where
  "activity_order r = (- ac_event_time r, - ac_slot r, - ac_insert_seq r)"

definition trade_order :: "TradeRow \<Rightarrow> int \<times> int \<times> int" where
  "trade_order r = (- tr_event_time r, - tr_slot r, - tr_insert_seq r)"

definition scanActivityEvent :: "ActivityRow \<Rightarrow> ActivityEventRecord" where
  "scanActivityEvent r = \<lparr>
     ae_EventID = ac_event_id r, ae_Mint = ac_mint r, ae_Protocol = ac_protocol r,
     ae_EventType = ac_event_type r, ae_ActivityType = ac_activity_type r, ae_MarketID = ac_market_id r,
     ae_MarketType = ac_market_type r, ae_UserAddress = ac_user_address r, ae_Side = ac_side r,
     ae_QuoteMint = ac_quote_mint r, ae_TokenAmountRaw = ac_token_amount_raw r,
     ae_QuoteAmountRaw = ac_quote_amount_raw r, ae_TxSignature = ac_tx_signature r,
     ae_Slot = u64 (ac_slot r), ae_EventUnixTS = epoch_bigint (ac_event_time r),
     ae_RawEventSource = ac_raw_event_source r, ae_Details = RawJson (ac_details r),
     ae_InsertSeq = ac_insert_seq r \<rparr>"

definition scanTradeEvent :: "TradeRow \<Rightarrow> TradeEventRecord" where
  "scanTradeEvent r = \<lparr>
     te_EventID = tr_event_id r, te_Mint = tr_mint r, te_MarketID = tr_market_id r,
     te_MarketType = tr_market_type r, te_Protocol = tr_protocol r, te_Side = tr_side r,
     te_IxName = tr_ix_name r, te_UserAddress = tr_user_address r, te_QuoteMint = tr_quote_mint r,
     te_TokenAmountRaw = tr_token_amount_raw r, te_QuoteAmountRaw = tr_quote_amount_raw r,
     te_TxSignature = tr_tx_signature r, te_Slot = u64 (tr_slot r),
     te_EventUnixTS = epoch_bigint (tr_event_time r), te_RawEventSource = tr_raw_event_source r \<rparr>"

text \<open>The row comparison (epoch, slot, insert_seq) < ($3, $4, $5) of the page query.\<close>

definition activity_key :: "ActivityRow \<Rightarrow> int \<times> int \<times> int" where
  "activity_key r = (epoch_bigint (ac_event_time r), ac_slot r, ac_insert_seq r)"

definition listTokenActivityEventsPageByMintSQL ::
    "string \<Rightarrow> int \<Rightarrow> (int \<times> int \<times> int) option \<Rightarrow> Tables \<Rightarrow> ActivityRow list res" where
  "listTokenActivityEventsPageByMintSQL mint limit before t =
     sql_limit limit (sort_key activity_order
       (filter (\<lambda>r. ac_mint r = mint \<and> (case before of None \<Rightarrow> True | Some k \<Rightarrow> activity_key r < k))
          (token_activity_events t)))"

definition ListActivityEventsPageByMint ::
    "string \<Rightarrow> int \<Rightarrow> ActivityEventCursor option \<Rightarrow> Db \<Rightarrow> ActivityEventPage res \<times> Db" where
  "ListActivityEventsPageByMint mint limit cursor s =
     (let fetchLimit = add64 limit 1;
          before = map_option (\<lambda>c. (cur_EventUnixTS c, wrap64 (cur_Slot c), cur_InsertSeq c)) cursor in
      case db_read (listTokenActivityEventsPageByMintSQL mint fetchLimit before) s of
        (Inl e, s') \<Rightarrow> (Inl (ErrWrap ''list activity event page by mint'' e), s')
      | (Inr rows, s') \<Rightarrow>
          let items = map scanActivityEvent rows;
              hasMore = limit < int (length items);
              items = (if hasMore then take (nat limit) items else items);
              nextCursor = (if hasMore \<and> items \<noteq> []
                then Some \<lparr> cur_EventUnixTS = ae_EventUnixTS (last items), cur_Slot = ae_Slot (last items),
                            cur_InsertSeq = ae_InsertSeq (last items) \<rparr>
                else None)
          in (Inr \<lparr> page_Items = items, page_HasMore = hasMore, page_NextCursor = nextCursor \<rparr>, s'))"

definition ListActivityEventsByMint :: "string \<Rightarrow> int \<Rightarrow> Db \<Rightarrow> ActivityEventRecord list res \<times> Db" where
  "ListActivityEventsByMint mint limit s =
     (case ListActivityEventsPageByMint mint limit None s of
        (Inl e, s') \<Rightarrow> (Inl e, s') | (Inr page, s') \<Rightarrow> (Inr (page_Items page), s'))"

definition listTokenTradeEventsByMintSQL :: "string \<Rightarrow> int \<Rightarrow> Tables \<Rightarrow> TradeRow list res" where
  "listTokenTradeEventsByMintSQL mint limit t =
     sql_limit limit (sort_key trade_order (filter (\<lambda>r. tr_mint r = mint) (token_trade_events t)))"

definition ListTradeEventsByMint :: "string \<Rightarrow> int \<Rightarrow> Db \<Rightarrow> TradeEventRecord list res \<times> Db" where
  "ListTradeEventsByMint mint limit s =
     (case db_read (listTokenTradeEventsByMintSQL mint limit) s of
        (Inl e, s') \<Rightarrow> (Inl (ErrWrap ''list trade events by mint'' e), s')
      | (Inr rows, s') \<Rightarrow> (Inr (map scanTradeEvent rows), s'))"

definition loadLatestTokenTradeByMintSQL :: "string \<Rightarrow> Tables \<Rightarrow> TradeRow list res" where
  "loadLatestTokenTradeByMintSQL mint t =
     sql_limit 1 (sort_key trade_order (filter (\<lambda>r. tr_mint r = mint) (token_trade_events t)))"

definition LoadLatestTradeByMint :: "string \<Rightarrow> Db \<Rightarrow> TradeEventRecord option res \<times> Db" where
  "LoadLatestTradeByMint mint s =
     (case db_read (loadLatestTokenTradeByMintSQL mint) s of
        (Inl e, s') \<Rightarrow> (Inl (ErrWrap ''load latest trade by mint'' e), s')
      | (Inr [], s') \<Rightarrow> (Inr None, s')
      | (Inr (r # _), s') \<Rightarrow> (Inr (Some (scanTradeEvent r)), s'))"

text \<open>order by started_at desc: markets that started at the same time come in some order.\<close>

definition scanTokenMarket :: "TokenMarketRow \<Rightarrow> TokenMarketRecord" where
  "scanTokenMarket r = \<lparr>
     tmk_MarketID = mk_market_id r, tmk_Mint = mk_mint r, tmk_Protocol = mk_protocol r,
     tmk_MarketType = mk_market_type r, tmk_BondingCurve = mk_bonding_curve r, tmk_Pool = mk_pool r,
     tmk_BaseMint = mk_base_mint r, tmk_QuoteMint = mk_quote_mint r,
     tmk_BaseMintDecimals = mk_base_mint_decimals r, tmk_QuoteMintDecimals = mk_quote_mint_decimals r,
     tmk_LPMint = mk_lp_mint r, tmk_StartedAt = epoch_bigint (mk_started_at r),
     tmk_EndedAt = map_option epoch_bigint (mk_ended_at r), tmk_CreateEventID = mk_create_event_id r \<rparr>"

definition listTokenMarketsByMintSQL :: "string \<Rightarrow> int \<Rightarrow> Tables \<Rightarrow> TokenMarketRow list res" where
  "listTokenMarketsByMintSQL mint limit t =
     sql_limit limit (sort_key (\<lambda>r. - mk_started_at r) (filter (\<lambda>r. mk_mint r = mint) (map snd (token_markets t))))"

definition ListTokenMarketsByMint :: "string \<Rightarrow> int \<Rightarrow> Db \<Rightarrow> TokenMarketRecord list res \<times> Db" where
  "ListTokenMarketsByMint mint limit s =
     (case db_read (listTokenMarketsByMintSQL mint limit) s of
        (Inl e, s') \<Rightarrow> (Inl (ErrWrap ''list token markets by mint'' e), s')
      | (Inr rows, s') \<Rightarrow> (Inr (map scanTokenMarket rows), s'))"

record TokenSnapshotRecord =
  sn_Mint :: string
  sn_Name :: "string option"
  sn_Symbol :: "string option"
  sn_URI :: "string option"
  sn_ImageURI :: "string option"
  sn_Decimals :: "int option"
  sn_TotalSupplyRaw :: "string option"
  sn_QuoteMint :: "string option"
  sn_QuoteDecimals :: "int option"
  sn_Creator :: "string option"
  sn_BondingCurve :: "string option"
  sn_TokenProgram :: "string option"
  sn_FirstSeenAt :: int
  sn_CurrentStage :: string
  sn_ActiveMarketID :: "string option"
  sn_ActiveMarketType :: "string option"
  sn_MigratedAt :: "int option"
  sn_CreateEventID :: "string option"
  sn_IsMayhemMode :: "bool option"
  sn_IsCashbackEnabled :: "bool option"

text \<open>A row of tokens left-joined with its metadata.\<close>

definition scanTokenSnapshot :: "TokenRow \<Rightarrow> TokenMetadataRow option \<Rightarrow> TokenSnapshotRecord" where
  "scanTokenSnapshot t m = \<lparr>
     sn_Mint = tk_mint t,
     sn_Name = Option.bind m md_name,
     sn_Symbol = Option.bind m md_symbol,
     sn_URI = Option.bind m md_uri,
     sn_ImageURI = Option.bind m md_image_uri,
     sn_Decimals = Option.bind m md_decimals,
     sn_TotalSupplyRaw = Option.bind m md_total_supply_raw,
     sn_QuoteMint = Option.bind m md_quote_mint,
     sn_QuoteDecimals = Option.bind m md_quote_decimals,
     sn_Creator = coalesce (Option.bind m md_creator) (tk_creator t),
     sn_BondingCurve = coalesce (Option.bind m md_bonding_curve) (tk_bonding_curve t),
     sn_TokenProgram = coalesce (Option.bind m md_token_program) (tk_token_program t),
     sn_FirstSeenAt = epoch_bigint (tk_first_seen_at t),
     sn_CurrentStage = tk_current_stage t,
     sn_ActiveMarketID = tk_active_market_id t,
     sn_ActiveMarketType = tk_active_market_type t,
     sn_MigratedAt = map_option epoch_bigint (tk_migrated_at t),
     sn_CreateEventID = tk_create_event_id t,
     sn_IsMayhemMode = Option.bind m md_is_mayhem_mode,
     sn_IsCashbackEnabled = Option.bind m md_is_cashback_enabled \<rparr>"

definition findTokenSnapshotByMintSQL :: "string \<Rightarrow> Tables \<Rightarrow> TokenSnapshotRecord option res" where
  "findTokenSnapshotByMintSQL mint t =
     Inr (map_option (\<lambda>r. scanTokenSnapshot r (map_of (token_metadata_current t) (tk_mint r))) (map_of (tokens t) mint))"

definition FindTokenSnapshotByMint :: "string \<Rightarrow> Db \<Rightarrow> TokenSnapshotRecord option res \<times> Db" where
  "FindTokenSnapshotByMint mint s =
     (case db_read (findTokenSnapshotByMintSQL mint) s of
        (Inl e, s') \<Rightarrow> (Inl (ErrWrap ''find token snapshot by mint'' e), s')
      | (Inr r, s') \<Rightarrow> (Inr r, s'))"

definition listTokenSnapshotsSQL :: "int \<Rightarrow> Tables \<Rightarrow> TokenSnapshotRecord list res" where
  "listTokenSnapshotsSQL limit t = sql_limit limit
     (map (\<lambda>r. scanTokenSnapshot r (map_of (token_metadata_current t) (tk_mint r)))
       (sort_key (\<lambda>r. - tk_first_seen_at r) (map snd (tokens t))))"

definition ListTokenSnapshots :: "int \<Rightarrow> Db \<Rightarrow> TokenSnapshotRecord list res \<times> Db" where
  "ListTokenSnapshots limit s =
     (case db_read (listTokenSnapshotsSQL limit) s of
        (Inl e, s') \<Rightarrow> (Inl (ErrWrap ''list token snapshots'' e), s')
      | (Inr r, s') \<Rightarrow> (Inr r, s'))"

section \<open>Pages\<close>

text \<open>A client that follows the cursors from the first page.\<close>

fun read_pages :: "nat \<Rightarrow> string \<Rightarrow> int \<Rightarrow> ActivityEventCursor option \<Rightarrow> Db \<Rightarrow> ActivityEventRecord list res \<times> Db" where
  "read_pages 0 mint limit cursor s = (Inr [], s)"
| "read_pages (Suc n) mint limit cursor s =
     (case ListActivityEventsPageByMint mint limit cursor s of
        (Inl e, s') \<Rightarrow> (Inl e, s')
      | (Inr page, s') \<Rightarrow> (case page_NextCursor page of
          None \<Rightarrow> (Inr (page_Items page), s')
        | Some c \<Rightarrow> (case read_pages n mint limit (Some c) s' of
            (Inl e, s'') \<Rightarrow> (Inl e, s'')
          | (Inr rest, s'') \<Rightarrow> (Inr (page_Items page @ rest), s''))))"

definition activity_rows :: "string \<Rightarrow> Tables \<Rightarrow> ActivityRow list" where
  "activity_rows mint t = sort_key activity_order (filter (\<lambda>r. ac_mint r = mint) (token_activity_events t))"

text \<open>The sequence numbers tell the rows apart, and the slots are what a bigint column holds.\<close>

definition activity_inv :: "Db \<Rightarrow> bool" where
  "activity_inv s \<longleftrightarrow> distinct (map ac_insert_seq (token_activity_events (db_tables s))) \<and>
     (\<forall>r\<in>set (token_activity_events (db_tables s)). ac_insert_seq r < db_activity_seq s \<and> in_i64 (ac_slot r))"

definition whole_seconds :: "string \<Rightarrow> Tables \<Rightarrow> bool" where
  "whole_seconds mint t \<longleftrightarrow> (\<forall>r\<in>set (token_activity_events t). ac_mint r = mint \<longrightarrow> ac_event_time r mod 1000000 = 0)"

lemma filter_below:
  assumes "sorted_wrt (\<lambda>a b. (f b :: 'b::linorder) < f a) xs" "0 < m" "m \<le> length xs"
  shows "filter (\<lambda>x. f x < f (xs ! (m - 1))) xs = drop m xs"
proof -
  have hi: "\<not> f x < f (xs ! (m - 1))" if x: "x \<in> set (take m xs)" for x
  proof -
    obtain j where j: "j < m" "x = xs ! j" using x assms(3) by (auto simp: in_set_conv_nth)
    moreover have "f (xs ! (m - 1)) < f (xs ! j)" if "j \<noteq> m - 1"
      using that j assms(2,3) by (intro sorted_wrt_nth_less [OF assms(1)]) auto
    ultimately show ?thesis by (cases "j = m - 1") (auto dest: less_asym)
  qed
  have lo: "f x < f (xs ! (m - 1))" if x: "x \<in> set (drop m xs)" for x
  proof -
    obtain j where "m + j < length xs" "x = xs ! (m + j)"
      using x by (fastforce simp: in_set_conv_nth less_diff_conv add.commute)
    then show ?thesis using assms(2) sorted_wrt_nth_less [OF assms(1), of "m - 1" "m + j"] by simp
  qed
  have "filter (\<lambda>x. f x < f (xs ! (m - 1))) (take m xs @ drop m xs) = drop m xs"
    using hi lo by (simp only: filter_append) (simp add: filter_empty_conv filter_id_conv)
  then show ?thesis by simp
qed

lemma epoch_bigint_whole: "t mod 1000000 = 0 \<Longrightarrow> epoch_bigint t = t div 1000000"
  by (auto simp: epoch_bigint_def elim!: dvdE simp flip: dvd_eq_mod_eq_0)

lemma activity_rows_sorted:
  assumes "activity_inv s" "whole_seconds mint (db_tables s)"
  shows "sorted_wrt (\<lambda>a b. activity_key b < activity_key a) (activity_rows mint (db_tables s))"
proof -
  let ?rs = "filter (\<lambda>r. ac_mint r = mint) (token_activity_events (db_tables s))"
  have set_rows: "set (activity_rows mint (db_tables s)) = set ?rs" by (simp add: activity_rows_def)
  have le: "sorted_wrt (\<lambda>a b. activity_order a \<le> activity_order b) (activity_rows mint (db_tables s))"
    using sorted_sort_key [of activity_order ?rs] by (simp add: activity_rows_def sorted_map)
  have "distinct (map ac_insert_seq ?rs)"
    using assms(1) by (simp add: activity_inv_def distinct_map_filter)
  moreover have "mset (map ac_insert_seq (activity_rows mint (db_tables s))) = mset (map ac_insert_seq ?rs)"
    by (simp add: activity_rows_def)
  ultimately have "distinct (map ac_insert_seq (activity_rows mint (db_tables s)))"
    using mset_eq_imp_distinct_iff by blast
  then have ne: "sorted_wrt (\<lambda>a b. ac_insert_seq a \<noteq> ac_insert_seq b) (activity_rows mint (db_tables s))"
    by (simp add: distinct_conv_nth sorted_wrt_iff_nth_less)
  have step: "activity_key b < activity_key a"
    if "a \<in> set ?rs" "b \<in> set ?rs" "activity_order a \<le> activity_order b" "ac_insert_seq a \<noteq> ac_insert_seq b" for a b
  proof -
    have "ac_event_time a mod 1000000 = 0" "ac_event_time b mod 1000000 = 0"
      using assms(2) that(1,2) by (auto simp: whole_seconds_def)
    then obtain ka kb where "ac_event_time a = 1000000 * ka" "ac_event_time b = 1000000 * kb"
      by (auto elim!: dvdE simp flip: dvd_eq_mod_eq_0)
    then show ?thesis
      using that(3,4) by (auto simp: activity_key_def activity_order_def epoch_bigint_whole less_eq_prod_def less_prod_def)
  qed
  show ?thesis
    using le ne step unfolding set_rows [symmetric] sorted_wrt_iff_nth_less by (meson nth_mem order.strict_trans)
qed

text \<open>The page after the first m rows is the next rows.\<close>

lemma sql_page:
  assumes "activity_inv s" "whole_seconds mint (db_tables s)" "0 \<le> n" "m \<le> length (activity_rows mint (db_tables s))"
    "before = (if m = 0 then None else Some (activity_key (activity_rows mint (db_tables s) ! (m - 1))))"
  shows "listTokenActivityEventsPageByMintSQL mint n before (db_tables s) =
    Inr (take (nat n) (drop m (activity_rows mint (db_tables s))))"
proof -
  let ?xs = "activity_rows mint (db_tables s)"
  have "sort_key activity_order (filter (\<lambda>r. ac_mint r = mint \<and> (case before of None \<Rightarrow> True | Some k \<Rightarrow> activity_key r < k))
      (token_activity_events (db_tables s))) =
    filter (\<lambda>r. case before of None \<Rightarrow> True | Some k \<Rightarrow> activity_key r < k) ?xs"
    by (simp add: activity_rows_def filter_sort conj_commute)
  also have "\<dots> = drop m ?xs"
    using filter_below [OF activity_rows_sorted [OF assms(1,2)], of m] assms(4,5) by auto
  finally show ?thesis
    using assms(3) by (simp add: listTokenActivityEventsPageByMintSQL_def sql_limit_def)
qed

lemma activity_rows_slot: "activity_inv s \<Longrightarrow> r \<in> set (activity_rows mint (db_tables s)) \<Longrightarrow> wrap64 (u64 (ac_slot r)) = ac_slot r"
proof -
  assume a: "activity_inv s" "r \<in> set (activity_rows mint (db_tables s))"
  then have "in_i64 (ac_slot r)" by (auto simp: activity_rows_def activity_inv_def)
  moreover have "u64 (ac_slot r) mod 18446744073709551616 = ac_slot r mod 18446744073709551616"
    by (simp add: u64_def)
  ultimately show ?thesis using wrap64_cong [of "u64 (ac_slot r)" "ac_slot r"] wrap64_in_range by simp
qed

definition cursor_at :: "ActivityRow list \<Rightarrow> nat \<Rightarrow> ActivityEventCursor option" where
  "cursor_at xs m = (if m = 0 then None else
     let r = xs ! (m - 1) in Some \<lparr> cur_EventUnixTS = epoch_bigint (ac_event_time r),
       cur_Slot = u64 (ac_slot r), cur_InsertSeq = ac_insert_seq r \<rparr>)"

lemma page_at:
  assumes "fault_free s" "activity_inv s" "whole_seconds mint (db_tables s)" "1 \<le> limit" "limit < 9223372036854775807"
    "m \<le> length xs" "xs = activity_rows mint (db_tables s)"
  shows "ListActivityEventsPageByMint mint limit (cursor_at xs m) s = (Inr \<lparr>
     page_Items = map scanActivityEvent (take (nat limit) (drop m xs)),
     page_HasMore = (m + nat limit < length xs),
     page_NextCursor = (if m + nat limit < length xs then cursor_at xs (m + nat limit) else None) \<rparr>, tick s)"
proof -
  have fetch: "add64 limit 1 = limit + 1"
    using assms(4,5) by (simp add: add64_in_range in_i64_def)
  define before where "before = (if m = 0 then None else Some (activity_key (xs ! (m - 1))))"
  have slot: "0 < m \<Longrightarrow> wrap64 (u64 (ac_slot (xs ! (m - 1)))) = ac_slot (xs ! (m - 1))"
    using activity_rows_slot [OF assms(2), of "xs ! (m - 1)" mint] assms(6,7) by simp
  have before: "map_option (\<lambda>c. (cur_EventUnixTS c, wrap64 (cur_Slot c), cur_InsertSeq c)) (cursor_at xs m) = before"
    using slot by (simp add: cursor_at_def before_def Let_def activity_key_def)
  have sql: "listTokenActivityEventsPageByMintSQL mint (limit + 1) before (db_tables s) =
      Inr (take (nat (limit + 1)) (drop m xs))"
    unfolding assms(7)
    by (rule sql_page [OF assms(2,3)]) (use assms(4,6,7) in \<open>auto simp: before_def\<close>)
  have n: "nat (limit + 1) = Suc (nat limit)" using assms(4) by simp
  have more: "limit < int (min (length xs - m) (Suc (nat limit))) \<longleftrightarrow> m + nat limit < length xs"
    using assms(4,6) by linarith
  have tk: "take (nat limit) (take (Suc (nat limit)) (drop m xs)) = take (nat limit) (drop m xs)"
    by (simp add: min_def)
  have all: "\<not> m + nat limit < length xs \<Longrightarrow> take (Suc (nat limit)) (drop m xs) = take (nat limit) (drop m xs)"
    by simp
  have last: "m + nat limit < length xs \<Longrightarrow> last (take (nat limit) (drop m xs)) = xs ! (m + nat limit - 1)"
    using assms(4) by (simp add: last_conv_nth)
  have last': "last (take (nat limit) (map scanActivityEvent (drop m xs))) = scanActivityEvent (xs ! (m + nat limit - 1))"
    if "m + nat limit < length xs"
    using last [OF that] that assms(4) by (simp add: take_map last_map)
  show ?thesis
    unfolding ListActivityEventsPageByMint_def Let_def fetch before db_read_fault_free [OF assms(1)] sql
    using assms(4) last' all
    by (auto simp: n more tk take_map [symmetric] cursor_at_def Let_def) (auto simp: scanActivityEvent_def)
qed

lemma read_pages_from:
  assumes "fault_free s" "activity_inv s" "whole_seconds mint (db_tables s)" "1 \<le> limit" "limit < 9223372036854775807"
    "m \<le> length xs" "xs = activity_rows mint (db_tables s)" "length xs - m < n"
  shows "fst (read_pages n mint limit (cursor_at xs m) s) = Inr (map scanActivityEvent (drop m xs))"
  using assms
proof (induction n arbitrary: m s)
  case (Suc n)
  note page = page_at [OF Suc.prems(1-7)]
  show ?case
  proof (cases "m + nat limit < length xs")
    case True
    have inv: "activity_inv (tick s)" using Suc.prems(2) by (simp add: activity_inv_def)
    have IH: "fst (read_pages n mint limit (cursor_at xs (m + nat limit)) (tick s)) =
        Inr (map scanActivityEvent (drop (m + nat limit) xs))"
      by (rule Suc.IH [OF _ inv]) (use Suc.prems True in auto)
    have c: "cursor_at xs (m + nat limit) \<noteq> None" using Suc.prems(4) by (simp add: cursor_at_def Let_def)
    have "take (nat limit) (drop m xs) @ drop (m + nat limit) xs = drop m xs"
      by (metis add.commute append_take_drop_id drop_drop)
    then have "map scanActivityEvent (take (nat limit) (drop m xs)) @ map scanActivityEvent (drop (m + nat limit) xs) =
        map scanActivityEvent (drop m xs)"
      by (simp flip: map_append)
    then show ?thesis
      using page True IH c
      by (cases "read_pages n mint limit (cursor_at xs (m + nat limit)) (tick s)")
         (auto split: option.splits)
  next
    case False
    then show ?thesis using page by simp
  qed
qed simp

section \<open>Properties\<close>

text \<open>
  Paging is complete: a client that follows the cursors of ListActivityEventsPageByMint,
  with any page size, reads every activity of the mint exactly once, newest first, in at most
  one page more than there are rows, provided the events carry whole seconds.
\<close>

lemma activity_pages_complete:
  assumes "fault_free s" "activity_inv s" "whole_seconds mint (db_tables s)"
    "1 \<le> limit" "limit < 9223372036854775807" "length (activity_rows mint (db_tables s)) < n"
  shows "fst (read_pages n mint limit None s) = Inr (map scanActivityEvent (activity_rows mint (db_tables s)))"
proof -
  have "cursor_at (activity_rows mint (db_tables s)) 0 = None" by (simp add: cursor_at_def)
  then show ?thesis
    using read_pages_from [OF assms(1-5), of 0 "activity_rows mint (db_tables s)" n] assms(6) by simp
qed

text \<open>Rows for the examples: n is the time in microseconds, the slot and the sequence number.\<close>

definition example_activity :: "int \<Rightarrow> int \<Rightarrow> int \<Rightarrow> ActivityRow" where
  "example_activity us slot n = \<lparr>
     ac_event_time = us, ac_event_id = int_to_string n, ac_mint = ''m'', ac_protocol = ''pumpfun'',
     ac_event_type = ''trade'', ac_activity_type = ''trade'', ac_market_id = None, ac_market_type = None,
     ac_user_address = None, ac_side = None, ac_quote_mint = None, ac_token_amount_raw = None,
     ac_quote_amount_raw = None, ac_tx_signature = [], ac_slot = slot, ac_raw_event_source = [],
     ac_details = JNull, ac_insert_seq = n \<rparr>"

definition example_feed :: "ActivityRow list \<Rightarrow> Db" where
  "example_feed rows = (empty_db (\<lambda>_. None))\<lparr>db_tables := empty_tables\<lparr>token_activity_events := rows\<rparr>,
     db_activity_seq := 100\<rparr>"

lemma activity_pages_complete_witness:
  "let s = example_feed [example_activity 1000000 7 1, example_activity 3000000 9 2, example_activity 3000000 8 3]
   in fst (read_pages 4 ''m'' 1 None s) = Inr (map scanActivityEvent (activity_rows ''m'' (db_tables s)))"
  unfolding Let_def
proof (rule activity_pages_complete)
  let ?s = "example_feed [example_activity 1000000 7 1, example_activity 3000000 9 2, example_activity 3000000 8 3]"
  show "fault_free ?s" by (simp add: fault_free_def example_feed_def empty_db_def)
  show "activity_inv ?s" by (simp add: activity_inv_def example_feed_def example_activity_def in_i64_def)
  show "whole_seconds ''m'' (db_tables ?s)" by (simp add: whole_seconds_def example_feed_def example_activity_def)
  show "length (activity_rows ''m'' (db_tables ?s)) < 4"
    by (simp add: activity_rows_def example_feed_def example_activity_def)
qed simp_all

text \<open>
  Whole seconds matter, and event times in milliseconds or finer, which unixToTimestampSeconds
  accepts, are not: the cursor carries rounded seconds while the rows are ordered by their exact
  time, so of two events in the same rounded second a client never sees the one with the larger
  slot.
\<close>

lemma activity_pages_skip_subsecond:
  "let s = example_feed [example_activity 1600000 1 1, example_activity 1500000 5 2]
   in length (activity_rows ''m'' (db_tables s)) = 2 \<and>
      (\<forall>n. fst (read_pages (Suc (Suc n)) ''m'' 1 None s) = Inr [scanActivityEvent (example_activity 1600000 1 1)])"
  by (simp add: Let_def activity_rows_def example_feed_def example_activity_def activity_order_def
      activity_key_def epoch_bigint_def ListActivityEventsPageByMint_def scanActivityEvent_def
      listTokenActivityEventsPageByMintSQL_def sql_limit_def db_read_def db_query_def empty_db_def
      add64_def wrap64_def u64_def tick_def less_eq_prod_def less_prod_def)

end
