(* ===== verification/Amounts.thy ===== *)
theory Amounts
  imports ReadModel Complex_Main
begin

text \<open>
  The arithmetic of internal/query/token.go: raw integer amounts scaled by the decimals of their
  mint, as exact ratios (math/big) and as decimal text; prices as the nearest float64 of a ratio;
  the normalisation of the arguments of the queries. A big.Rat is a rational number.
\<close>

section \<open>Definitions\<close>

definition rat_to_f64 :: "rat \<Rightarrow> f64" where
  "rat_to_f64 r = (case quotient_of r of (n, d) \<Rightarrow> f64_of_ratio n d)"

definition scaledRat :: "string \<Rightarrow> int option \<Rightarrow> rat option" where
  "scaledRat raw decimals =
     (if raw = [] then None
      else case parse_int raw of
        None \<Rightarrow> None
      | Some numerator \<Rightarrow> (case decimals of
          None \<Rightarrow> Some (of_int numerator)
        | Some d \<Rightarrow> (if d \<le> 0 then Some (of_int numerator) else Some (of_int numerator / of_int (10 ^ nat d)))))"

definition computePrice :: "string \<Rightarrow> string \<Rightarrow> int option \<Rightarrow> int option \<Rightarrow> f64 option" where
  "computePrice tokenAmountRaw quoteAmountRaw tokenDecimals quoteDecimals =
     (case (scaledRat tokenAmountRaw tokenDecimals, scaledRat quoteAmountRaw quoteDecimals) of
        (Some token, Some quote) \<Rightarrow> (if token = 0 then None else Some (rat_to_f64 (quote / token)))
      | _ \<Rightarrow> None)"

definition computeOptionalPrice :: "string option \<Rightarrow> string option \<Rightarrow> int option \<Rightarrow> int option \<Rightarrow> f64 option" where
  "computeOptionalPrice tokenAmountRaw quoteAmountRaw tokenDecimals quoteDecimals =
     (case (tokenAmountRaw, quoteAmountRaw) of
        (Some t, Some q) \<Rightarrow> computePrice t q tokenDecimals quoteDecimals
      | _ \<Rightarrow> None)"

definition format_digits :: "string \<Rightarrow> nat \<Rightarrow> string" where
  "format_digits ds scale =
     (let digits = (if length ds \<le> scale then replicate (scale - length ds + 1) (CHR ''0'') @ ds else ds);
          point = length digits - scale;
          formatted = TrimRight1 (CHR ''.'') (TrimRight1 (CHR ''0'') (take point digits @ ''.'' @ drop point digits))
      in if formatted = [] then ''0'' else formatted)"

definition formatAmount :: "string \<Rightarrow> int option \<Rightarrow> string" where
  "formatAmount raw decimals =
     (if raw = [] then []
      else case decimals of
        None \<Rightarrow> raw
      | Some d \<Rightarrow>
          (if d \<le> 0 then raw
           else case parse_int raw of
             None \<Rightarrow> raw
           | Some value \<Rightarrow>
               let formatted = format_digits (nat_to_string (nat \<bar>value\<bar>)) (nat d)
               in if value < 0 \<and> formatted \<noteq> ''0'' then ''-'' @ formatted else formatted))"

definition pctChange :: "f64 option \<Rightarrow> f64 option \<Rightarrow> f64 option" where
  "pctChange latest previous = (case (latest, previous) of
      (Some l, Some p) \<Rightarrow>
        (if f64_eq p f64_zero then None
         else Some (f64_mul (f64_div (f64_sub l p) p) (f64_of_int 100)))
    | _ \<Rightarrow> None)"

definition normalizeResolution :: "string \<Rightarrow> string res" where
  "normalizeResolution resolution =
     (if resolution = ''1m'' then Inr ''1 minute''
      else if resolution = ''5m'' then Inr ''5 minutes''
      else if resolution = ''15m'' then Inr ''15 minutes''
      else if resolution = ''1h'' then Inr ''1 hour''
      else if resolution = ''4h'' then Inr ''4 hours''
      else if resolution = ''1d'' then Inr ''1 day''
      else Inl ErrInvalidCandleResolution)"

definition normalizeTokenListView :: "string \<Rightarrow> string" where
  "normalizeTokenListView view =
     (let v = ToLower (TrimSpace view) in if v = ''new'' then ''new'' else ''hot'')"

definition normalizeStatsWindow :: "string \<Rightarrow> string res" where
  "normalizeStatsWindow window =
     (let w = ToLower (TrimSpace window) in
      if w = [] \<or> w = ''24h'' \<or> w = ''1d'' then Inr ''24h''
      else if w = ''1m'' then Inr ''1m''
      else if w = ''5m'' then Inr ''5m''
      else if w = ''1h'' then Inr ''1h''
      else if w = ''4h'' then Inr ''4h''
      else Inl ErrInvalidTokenListWindow)"

definition quoteSymbol :: "string \<Rightarrow> string" where
  "quoteSymbol mint = (if mint = SolMint then ''SOL'' else mint)"

definition clampLimit :: "int \<Rightarrow> int \<Rightarrow> int" where
  "clampLimit limit fallback = (if limit \<le> 0 then fallback else limit)"

definition query_ptrIfNotEmpty :: "string \<Rightarrow> string option" where
  "query_ptrIfNotEmpty value = (if value = [] then None else Some value)"

definition query_optionalInt32FromUint32 :: "int option \<Rightarrow> int option" where
  "query_optionalInt32FromUint32 value = map_option wrap32 value"

text \<open>The two branches of the code return the same field of the snapshot.\<close>

definition resolveQuoteDecimals :: "TokenSnapshotRecord option \<Rightarrow> string \<Rightarrow> int option" where
  "resolveQuoteDecimals snapshot quoteMint =
     (if quoteMint = SolMint then Some SolDecimals
      else case snapshot of
        None \<Rightarrow> None
      | Some sn \<Rightarrow> (if sn_QuoteMint sn = Some quoteMint then sn_QuoteDecimals sn else sn_QuoteDecimals sn))"

definition resolveOptionalQuoteDecimals :: "TokenSnapshotRecord option \<Rightarrow> string option \<Rightarrow> int option" where
  "resolveOptionalQuoteDecimals snapshot quoteMint =
     (case quoteMint of None \<Rightarrow> None | Some q \<Rightarrow> resolveQuoteDecimals snapshot q)"

section \<open>Decimal text\<close>

text \<open>The number a decimal text stands for (the syntax strconv.ParseFloat reads).\<close>

definition decimal_value :: "string \<Rightarrow> rat option" where
  "decimal_value s = (case split_sign s of (neg, r) \<Rightarrow>
     map_option (\<lambda>(m, x). (if neg then - 1 else 1) * of_int m * (if 0 \<le> x then 10 ^ nat x else 1 / 10 ^ nat (- x)))
       (parse_decimal r))"

lemma TrimRight1_snoc: "TrimRight1 c (s @ [x]) = (if x = c then TrimRight1 c s else s @ [x])"
  by (simp add: TrimRight1_def)

lemma TrimRight1_Nil [simp]: "TrimRight1 c [] = []"
  by (simp add: TrimRight1_def)

lemma TrimRight1_split: "\<exists>k. s = TrimRight1 c s @ replicate k c"
proof (induction s rule: rev_induct)
  case (snoc x s)
  show ?case
  proof (cases "x = c")
    case True
    obtain k where "s = TrimRight1 c s @ replicate k c" using snoc by blast
    then have "s @ [x] = TrimRight1 c (s @ [x]) @ replicate (Suc k) c"
      using True by (metis TrimRight1_snoc append_assoc replicate_Suc replicate_append_same)
    then show ?thesis by blast
  next
    case False
    then show ?thesis by (intro exI [of _ 0]) (simp add: TrimRight1_snoc)
  qed
qed simp

lemma TrimRight1_last: "TrimRight1 c s \<noteq> [] \<Longrightarrow> last (TrimRight1 c s) \<noteq> c"
  by (induction s rule: rev_induct) (auto simp: TrimRight1_snoc split: if_splits)

lemma TrimRight1_set: "set (TrimRight1 c s) \<subseteq> set s"
  by (metis TrimRight1_split Un_upper1 set_append)

lemma TrimRight1_after: "x \<noteq> c \<Longrightarrow> TrimRight1 c (s @ x # t) = s @ x # TrimRight1 c t"
  by (induction t rule: rev_induct) (auto simp: TrimRight1_snoc simp flip: append_assoc append_Cons)

lemma digits_val_zeros: "digits_val (s @ replicate k (CHR ''0'')) = digits_val s * 10 ^ k"
proof (induction k)
  case (Suc k)
  have "digits_val (s @ replicate (Suc k) (CHR ''0'')) = digits_val ((s @ replicate k (CHR ''0'')) @ [CHR ''0''])"
    by (simp only: replicate_Suc append_assoc flip: replicate_append_same)
  then show ?case using Suc by (simp only: digits_val_snoc) (simp add: digit_val_def)
qed simp

lemma digits_val_zeros_left: "digits_val (replicate k (CHR ''0'') @ s) = digits_val s"
  using digits_val_zeros [of "[]" k] by (simp add: digits_val_append)

text \<open>The shape of the digits with their point.\<close>

lemma format_digits_shape:
  assumes "ds \<noteq> []" "list_all is_digit ds"
  shows "\<exists>ip fp. format_digits ds scale = (if fp = [] then ip else ip @ CHR ''.'' # fp) \<and> ip \<noteq> [] \<and>
     list_all is_digit (ip @ fp) \<and> (fp \<noteq> [] \<longrightarrow> last fp \<noteq> CHR ''0'') \<and>
     length fp \<le> scale \<and> digits_val ds = digits_val (ip @ fp) * 10 ^ (scale - length fp)"
proof -
  define p where "p = (if length ds \<le> scale then replicate (scale - length ds + 1) (CHR ''0'') @ ds else ds)"
  define ip where "ip = take (length p - scale) p"
  define f0 where "f0 = drop (length p - scale) p"
  define fp where "fp = TrimRight1 (CHR ''0'') f0"
  have len: "scale < length p" by (auto simp: p_def)
  have dig: "list_all is_digit p"
    using assms(2) by (auto simp: p_def list_all_iff is_digit_def)
  have ipf: "p = ip @ f0" "length f0 = scale" "ip \<noteq> []" using len by (auto simp: ip_def f0_def)
  obtain k where k: "f0 = fp @ replicate k (CHR ''0'')" using TrimRight1_split fp_def by blast
  have digs: "list_all is_digit (ip @ fp)" using dig k ipf(1) by (auto simp: list_all_iff)
  have val: "digits_val ds = digits_val (ip @ fp) * 10 ^ k"
  proof -
    have "digits_val p = digits_val ds" unfolding p_def by (simp only: digits_val_zeros_left split: if_split) simp
    then show ?thesis using digits_val_zeros [of "ip @ fp" k] ipf(1) k by simp
  qed
  have kk: "k = scale - length fp" "length fp \<le> scale" using k ipf(2) by auto
  have fmt: "format_digits ds scale = (if fp = [] then ip else ip @ CHR ''.'' # fp)"
  proof -
    have inner: "TrimRight1 (CHR ''0'') (ip @ ''.'' @ f0) = ip @ CHR ''.'' # fp"
      by (simp add: fp_def TrimRight1_after)
    have nodot: "is_digit c \<Longrightarrow> c \<noteq> CHR ''.''" for c by (auto simp: is_digit_def)
    have "TrimRight1 (CHR ''.'') (ip @ CHR ''.'' # fp) = (if fp = [] then ip else ip @ CHR ''.'' # fp)"
    proof (cases fp rule: rev_cases)
      case Nil
      obtain ip' x where x: "ip = ip' @ [x]" using ipf(3) by (cases ip rule: rev_cases) auto
      then have "x \<noteq> CHR ''.''" using digs nodot by auto
      then have "TrimRight1 (CHR ''.'') ip = ip" by (simp add: x TrimRight1_snoc)
      then show ?thesis using Nil by (simp add: TrimRight1_snoc)
    next
      case (snoc fp' x)
      then have "x \<noteq> CHR ''.''" using digs nodot by auto
      then have "TrimRight1 (CHR ''.'') ((ip @ CHR ''.'' # fp') @ [x]) = (ip @ CHR ''.'' # fp') @ [x]"
        by (simp only: TrimRight1_snoc if_False)
      then show ?thesis using snoc by simp
    qed
    moreover have "format_digits ds scale = (let formatted = TrimRight1 (CHR ''.'') (TrimRight1 (CHR ''0'') (ip @ ''.'' @ f0))
        in if formatted = [] then ''0'' else formatted)"
      by (simp add: format_digits_def Let_def flip: p_def ip_def f0_def)
    ultimately show ?thesis using ipf(3) by (cases "fp = []") (simp_all only: inner Let_def if_True if_False, simp_all)
  qed
  show ?thesis
    using fmt ipf(3) digs TrimRight1_last [of "CHR ''0''" f0] val kk unfolding fp_def [symmetric] by blast
qed

lemma split_sign_digit: "is_digit c \<Longrightarrow> split_sign (c # s) = (False, c # s)"
  using is_digit_not_sign [of c] by (simp add: split_sign_def)

lemma parse_decimal_digits:
  assumes "ip \<noteq> []" "list_all is_digit (ip @ fp)"
  shows "parse_decimal (if fp = [] then ip else ip @ CHR ''.'' # fp) = Some (int (digits_val (ip @ fp)), - int (length fp))"
proof -
  have dot: "\<not> is_digit (CHR ''.'')" by (simp add: is_digit_def)
  have tw: "takeWhile is_digit ip = ip" "dropWhile is_digit ip = []" "takeWhile is_digit fp = fp" "dropWhile is_digit fp = []"
    using assms(2) by (simp_all add: list_all_iff takeWhile_eq_all_conv dropWhile_eq_Nil_conv)
  have tw2: "takeWhile is_digit (ip @ CHR ''.'' # fp) = ip" "dropWhile is_digit (ip @ CHR ''.'' # fp) = CHR ''.'' # fp"
    using assms(2) dot by (simp_all add: list_all_iff takeWhile_append2 dropWhile_append2)
  show ?thesis using assms(1) by (simp add: parse_decimal_def tw tw2 parse_exponent_def Let_def)
qed

lemma decimal_value_digits:
  assumes "ip \<noteq> []" "list_all is_digit (ip @ fp)"
  shows "decimal_value (if fp = [] then ip else ip @ CHR ''.'' # fp) = Some (of_nat (digits_val (ip @ fp)) / 10 ^ length fp)"
    and "decimal_value (CHR ''-'' # (if fp = [] then ip else ip @ CHR ''.'' # fp)) =
      Some (- (of_nat (digits_val (ip @ fp)) / 10 ^ length fp))"
proof -
  note pd = parse_decimal_digits [OF assms]
  obtain c r where cr: "(if fp = [] then ip else ip @ CHR ''.'' # fp) = c # r" "is_digit c"
    using assms by (cases ip) (fastforce split: if_split)+
  show "decimal_value (if fp = [] then ip else ip @ CHR ''.'' # fp) = Some (of_nat (digits_val (ip @ fp)) / 10 ^ length fp)"
    using pd split_sign_digit [OF cr(2), of r] unfolding cr(1) by (simp add: decimal_value_def)
  show "decimal_value (CHR ''-'' # (if fp = [] then ip else ip @ CHR ''.'' # fp)) =
      Some (- (of_nat (digits_val (ip @ fp)) / 10 ^ length fp))"
    using pd by (simp add: decimal_value_def split_sign_def)
qed

text \<open>What a raw amount is worth: the integer divided by ten to the decimals.\<close>

definition amount_value :: "string \<Rightarrow> int option \<Rightarrow> rat option" where
  "amount_value raw decimals = map_option (\<lambda>n. of_int n / 10 ^ nat (deref_or 0 decimals)) (parse_int raw)"

lemma parse_int_Nil [simp]: "parse_int [] = None"
  by (simp add: parse_int_def)

lemma scaledRat_value: "scaledRat raw decimals = amount_value raw decimals"
  by (auto simp: scaledRat_def amount_value_def split: option.splits)

lemma parse_decimal_int: "parse_nat s = Some n \<Longrightarrow> parse_decimal s = Some (int n, 0)"
  using parse_decimal_digits [of s "[]"] by (simp add: parse_nat_def split: if_splits)

lemma decimal_value_int: "parse_int raw = Some n \<Longrightarrow> decimal_value raw = Some (of_int n)"
proof -
  assume p: "parse_int raw = Some n"
  then obtain s m where s: "split_sign raw = (n < 0 \<or> raw = CHR ''-'' # s, s)" "parse_nat s = Some m"
      "n = (if raw = CHR ''-'' # s then - int m else int m)"
    by (cases raw) (auto simp: parse_int_def split_sign_def split: if_splits)
  show ?thesis using s parse_decimal_int [OF s(2)] by (cases "raw = CHR ''-'' # s") (auto simp: decimal_value_def)
qed

lemma formatAmount_value:
  assumes "parse_int raw = Some n"
  shows "decimal_value (formatAmount raw decimals) = amount_value raw decimals"
proof (cases "\<exists>d. decimals = Some d \<and> 0 < d")
  case False
  then show ?thesis using assms decimal_value_int [OF assms]
    by (auto simp: formatAmount_def amount_value_def split: option.splits)
next
  case True
  then obtain d where d: "decimals = Some d" "0 < d" by blast
  let ?ds = "nat_to_string (nat \<bar>n\<bar>)" and ?q = "(of_int \<bar>n\<bar> / 10 ^ nat d) :: rat"
  obtain ip fp where s: "format_digits ?ds (nat d) = (if fp = [] then ip else ip @ CHR ''.'' # fp)" "ip \<noteq> []"
      "list_all is_digit (ip @ fp)" "length fp \<le> nat d" "digits_val ?ds = digits_val (ip @ fp) * 10 ^ (nat d - length fp)"
    using format_digits_shape [of ?ds "nat d"] nat_to_string_digits by (metis nat_to_string_ne)
  have "(of_int \<bar>n\<bar> :: rat) = of_nat (digits_val (ip @ fp)) * 10 ^ (nat d - length fp)"
  proof -
    have "(of_int \<bar>n\<bar> :: rat) = of_nat (nat \<bar>n\<bar>)" by simp
    also have "nat \<bar>n\<bar> = digits_val (ip @ fp) * 10 ^ (nat d - length fp)" using s(5) by (simp only: digits_val_nat_to_string)
    finally show ?thesis by (simp only: of_nat_mult of_nat_power of_nat_numeral)
  qed
  moreover have "(10 :: rat) ^ nat d = 10 ^ (nat d - length fp) * 10 ^ length fp"
    using s(4) by (metis le_add_diff_inverse2 power_add)
  ultimately have q: "?q = of_nat (digits_val (ip @ fp)) / 10 ^ length fp" by simp
  note v = decimal_value_digits [OF s(2,3), folded s(1) q]
  have "format_digits ?ds (nat d) \<noteq> ''0''" if "n < 0"
  proof
    assume "format_digits ?ds (nat d) = ''0''"
    moreover have "decimal_value ''0'' = Some 0" by code_simp
    ultimately show False using v(1) that by simp
  qed
  moreover have "raw \<noteq> []" using assms by (cases raw) (auto simp: parse_int_def)
  ultimately show ?thesis using d assms v by (auto simp: formatAmount_def amount_value_def Let_def)
qed

end
