(* ===== verification/StatRecords.thy ===== *)
theory StatRecords
  imports Float64
begin

text \<open>
  The records of internal/store/read_model.go that carry trade statistics between the store, the
  broadcaster and the query service, and the zero value of those the code starts from.
\<close>

record TradeMetricPoint =
  mp_EventUnixTS :: int
  mp_Slot :: int
  mp_InsertSeq :: int
  mp_Side :: string
  mp_Price :: f64
  mp_Volume :: f64

record LongWindowMetricsRecord =
  lw_Mint :: string
  lw_AnchorPrice1h :: "f64 option"
  lw_AnchorPrice4h :: "f64 option"
  lw_AnchorPrice24h :: "f64 option"
  lw_Txns1h :: int
  lw_Txns4h :: int
  lw_Txns24h :: int
  lw_Buys1h :: int
  lw_Buys4h :: int
  lw_Buys24h :: int
  lw_Sells1h :: int
  lw_Sells4h :: int
  lw_Sells24h :: int
  lw_Volume1h :: f64
  lw_Volume4h :: f64
  lw_Volume24h :: f64
  lw_BuyVolume1h :: f64
  lw_BuyVolume4h :: f64
  lw_BuyVolume24h :: f64
  lw_SellVolume1h :: f64
  lw_SellVolume4h :: f64
  lw_SellVolume24h :: f64

record LatestTradeSeedRecord =
  ls_Mint :: string
  ls_LatestPrice :: "f64 option"
  ls_LatestEventUnix :: "int option"

record TokenMetricsCurrentRecord =
  mc_Mint :: string
  mc_LatestPrice :: "f64 option"
  mc_LatestEventUnix :: "int option"
  mc_AnchorPrice1m :: "f64 option"
  mc_AnchorPrice5m :: "f64 option"
  mc_AnchorPrice1h :: "f64 option"
  mc_AnchorPrice4h :: "f64 option"
  mc_AnchorPrice24h :: "f64 option"
  mc_Txns1m :: int
  mc_Txns5m :: int
  mc_Txns1h :: int
  mc_Txns4h :: int
  mc_Txns24h :: int
  mc_Buys1m :: int
  mc_Buys5m :: int
  mc_Buys1h :: int
  mc_Buys4h :: int
  mc_Buys24h :: int
  mc_Sells1m :: int
  mc_Sells5m :: int
  mc_Sells1h :: int
  mc_Sells4h :: int
  mc_Sells24h :: int
  mc_Volume1m :: f64
  mc_Volume5m :: f64
  mc_Volume1h :: f64
  mc_Volume4h :: f64
  mc_Volume24h :: f64
  mc_BuyVolume1m :: f64
  mc_BuyVolume5m :: f64
  mc_BuyVolume1h :: f64
  mc_BuyVolume4h :: f64
  mc_BuyVolume24h :: f64
  mc_SellVolume1m :: f64
  mc_SellVolume5m :: f64
  mc_SellVolume1h :: f64
  mc_SellVolume4h :: f64
  mc_SellVolume24h :: f64
  mc_SourceLogID :: int

record TradeSummaryRecord =
  ts_QuoteMint :: string
  ts_LatestPrice :: "f64 option"
  ts_LatestEventUnix :: "int option"
  ts_Price1mAgo :: "f64 option"
  ts_Price5mAgo :: "f64 option"
  ts_Price1hAgo :: "f64 option"
  ts_Price4hAgo :: "f64 option"
  ts_Price24hAgo :: "f64 option"
  ts_Txns1m :: int
  ts_Buys1m :: int
  ts_Sells1m :: int
  ts_Volume1m :: f64
  ts_BuyVolume1m :: f64
  ts_SellVolume1m :: f64
  ts_Txns5m :: int
  ts_Buys5m :: int
  ts_Sells5m :: int
  ts_Volume5m :: f64
  ts_BuyVolume5m :: f64
  ts_SellVolume5m :: f64
  ts_Txns1h :: int
  ts_Buys1h :: int
  ts_Sells1h :: int
  ts_Volume1h :: f64
  ts_BuyVolume1h :: f64
  ts_SellVolume1h :: f64
  ts_Txns4h :: int
  ts_Buys4h :: int
  ts_Sells4h :: int
  ts_Volume4h :: f64
  ts_BuyVolume4h :: f64
  ts_SellVolume4h :: f64
  ts_Txns24h :: int
  ts_Buys24h :: int
  ts_Sells24h :: int
  ts_Volume24h :: f64
  ts_BuyVolume24h :: f64
  ts_SellVolume24h :: f64
  ts_Makers24h :: int
  ts_Buyers24h :: int
  ts_Sellers24h :: int

record TokenBoardQuery =
  bq_Limit :: int
  bq_View :: string
  bq_Interval :: string

record TokenBoardRecord =
  br_Mint :: string
  br_Name :: "string option"
  br_Symbol :: "string option"
  br_URI :: "string option"
  br_ImageURI :: "string option"
  br_Creator :: "string option"
  br_BondingCurve :: "string option"
  br_TokenProgram :: "string option"
  br_Decimals :: "int option"
  br_QuoteMint :: "string option"
  br_QuoteDecimals :: "int option"
  br_FirstSeenAt :: int
  br_ActiveSince :: int
  br_CurrentStage :: string
  br_ActiveMarketID :: "string option"
  br_ActiveMarketType :: "string option"
  br_MigratedAt :: "int option"
  br_LatestPrice :: "f64 option"
  br_LatestEventUnixTS :: "int option"
  br_PriceChange :: "f64 option"
  br_WindowVolume :: f64
  br_WindowTxns :: int
  br_WindowBuys :: int
  br_WindowSells :: int
  br_LiquidityQuote :: "f64 option"
  br_MarketCapQuote :: "f64 option"

record TokenSearchRecord =
  sr_Mint :: string
  sr_Name :: "string option"
  sr_Symbol :: "string option"
  sr_ImageURI :: "string option"
  sr_LatestPrice :: "f64 option"

record TokenCandleRecord =
  cn_TimeUnix :: int
  cn_Open :: f64
  cn_High :: f64
  cn_Low :: f64
  cn_Close :: f64
  cn_Volume :: f64
  cn_IsGapFill :: bool

text \<open>The zero value: what a Go map yields for a missing key.\<close>

definition zero_LongWindowMetricsRecord :: LongWindowMetricsRecord where
  "zero_LongWindowMetricsRecord = \<lparr>
     lw_Mint = [], lw_AnchorPrice1h = None, lw_AnchorPrice4h = None, lw_AnchorPrice24h = None,
     lw_Txns1h = 0, lw_Txns4h = 0, lw_Txns24h = 0, lw_Buys1h = 0, lw_Buys4h = 0, lw_Buys24h = 0,
     lw_Sells1h = 0, lw_Sells4h = 0, lw_Sells24h = 0, lw_Volume1h = f64_zero,
     lw_Volume4h = f64_zero, lw_Volume24h = f64_zero, lw_BuyVolume1h = f64_zero,
     lw_BuyVolume4h = f64_zero, lw_BuyVolume24h = f64_zero, lw_SellVolume1h = f64_zero,
     lw_SellVolume4h = f64_zero, lw_SellVolume24h = f64_zero \<rparr>"

end
