(* ===== verification/BucketRing.thy ===== *)
theory BucketRing
  imports GoPrelude
begin

text \<open>
  A ring of buckets: an array indexed by the time of an item modulo its length, in which a bucket
  is cleared when an item of another period arrives. What such a ring holds of a list of items
  that arrive in time order: each bucket has exactly the items of the newest period of its
  index, and so the ring has all items of its most recent span.
\<close>

text \<open>
  n buckets; period t is the number that identifies the period of time t in a bucket, slot t its
  index. begin_bucket is a bucket cleared for its first item, put a further item of the same
  period.
\<close>

locale bucket_ring =
  fixes n :: nat
    and slot :: "int \<Rightarrow> nat"
    and period :: "int \<Rightarrow> int"
    and span :: int
    and time :: "'x \<Rightarrow> int"
    and valid :: "int \<Rightarrow> bool"
    and bperiod :: "'b \<Rightarrow> int"
    and empty :: 'b
    and begin_bucket :: "'x \<Rightarrow> 'b"
    and put :: "'x \<Rightarrow> 'b \<Rightarrow> 'b"
  assumes slot_less: "valid t \<Longrightarrow> slot t < n"
    and slot_period: "valid t \<Longrightarrow> valid u \<Longrightarrow> period t = period u \<Longrightarrow> slot t = slot u"
    and period_mono: "valid t \<Longrightarrow> valid u \<Longrightarrow> t \<le> u \<Longrightarrow> period t \<le> period u"
    and same_slot_apart: "valid t \<Longrightarrow> valid u \<Longrightarrow> slot t = slot u \<Longrightarrow> period t < period u \<Longrightarrow> period t + span \<le> period u"
    and period_empty: "valid t \<Longrightarrow> bperiod empty \<noteq> period t"
    and period_begin: "bperiod (begin_bucket x) = period (time x)"
    and period_put: "bperiod (put x b) = bperiod b"
begin

definition ring_put :: "'x \<Rightarrow> 'b list \<Rightarrow> 'b list" where
  "ring_put x bs = (let i = slot (time x) in
     bs[i := (if bperiod (bs ! i) \<noteq> period (time x) then begin_bucket x else put x (bs ! i))])"

definition bucket_of :: "'x list \<Rightarrow> 'b" where
  "bucket_of xs = (case xs of [] \<Rightarrow> empty | x # ys \<Rightarrow> fold put ys (begin_bucket x))"

definition at_slot :: "nat \<Rightarrow> 'x list \<Rightarrow> 'x list" where
  "at_slot i xs = filter (\<lambda>x. slot (time x) = i) xs"

text \<open>The items of the newest period at an index.\<close>

definition newest :: "nat \<Rightarrow> 'x list \<Rightarrow> 'x list" where
  "newest i xs = filter (\<lambda>x. period (time x) = period (time (last (at_slot i xs)))) (at_slot i xs)"

definition in_order :: "'x list \<Rightarrow> bool" where
  "in_order xs \<longleftrightarrow> sorted (map time xs) \<and> (\<forall>x\<in>set xs. valid (time x))"

lemma in_order_append: "in_order (xs @ [x]) \<longleftrightarrow> in_order xs \<and> valid (time x) \<and> (\<forall>y\<in>set xs. time y \<le> time x)"
  by (auto simp: in_order_def sorted_append)

lemma in_order_at_slot: "in_order xs \<Longrightarrow> in_order (at_slot i xs)"
  by (auto simp: in_order_def at_slot_def sorted_filter)

lemma newest_Nil [simp]: "newest i [] = []"
  by (simp add: newest_def at_slot_def)

lemma newest_ne: "newest i xs = [] \<longleftrightarrow> at_slot i xs = []"
proof
  assume e: "newest i xs = []"
  show "at_slot i xs = []"
  proof (rule ccontr)
    assume "at_slot i xs \<noteq> []"
    then have "last (at_slot i xs) \<in> set (newest i xs)" by (simp add: newest_def)
    then show False using e by simp
  qed
qed (simp add: newest_def)

lemma bperiod_fold: "bperiod (fold put xs b) = bperiod b"
  by (induction xs arbitrary: b) (simp_all add: period_put)

lemma bperiod_bucket_of: "xs \<noteq> [] \<Longrightarrow> bperiod (bucket_of xs) = period (time (hd xs))"
  by (cases xs) (simp_all add: bucket_of_def bperiod_fold period_begin)

lemma bucket_of_snoc: "xs \<noteq> [] \<Longrightarrow> bucket_of (xs @ [x]) = put x (bucket_of xs)"
  by (cases xs) (simp_all add: bucket_of_def)

lemma bperiod_newest: "at_slot i xs \<noteq> [] \<Longrightarrow> bperiod (bucket_of (newest i xs)) = period (time (last (at_slot i xs)))"
proof -
  assume "at_slot i xs \<noteq> []"
  then have "newest i xs \<noteq> []" by (simp add: newest_ne)
  then have "hd (newest i xs) \<in> set (newest i xs)" by simp
  then show ?thesis using bperiod_bucket_of [OF \<open>newest i xs \<noteq> []\<close>] by (auto simp: newest_def)
qed

text \<open>The last item of an index has its newest period.\<close>

lemma last_at_slot:
  assumes "in_order xs" "y \<in> set (at_slot i xs)"
  shows "time y \<le> time (last (at_slot i xs))" "valid (time (last (at_slot i xs)))"
proof -
  have ne: "at_slot i xs \<noteq> []" using assms(2) by auto
  have o: "in_order (butlast (at_slot i xs) @ [last (at_slot i xs)])"
    using in_order_at_slot [OF assms(1)] ne by simp
  then show "valid (time (last (at_slot i xs)))" by (simp add: in_order_append)
  have "y \<in> set (butlast (at_slot i xs)) \<or> y = last (at_slot i xs)"
    using assms(2) ne by (metis append_butlast_last_id in_set_conv_decomp set_ConsD rotate1.simps(2) set_rotate1)
  then show "time y \<le> time (last (at_slot i xs))" using o by (auto simp: in_order_append)
qed

lemma length_ring_put [simp]: "length (ring_put x bs) = length bs"
  by (simp add: ring_put_def Let_def)

lemma length_fold_ring_put [simp]: "length (fold ring_put xs bs) = length bs"
  by (induction xs arbitrary: bs) simp_all

lemma newest_snoc:
  assumes "in_order (xs @ [x])" "slot (time x) = i"
  shows "newest i (xs @ [x]) =
    (if at_slot i xs \<noteq> [] \<and> period (time (last (at_slot i xs))) = period (time x) then newest i xs @ [x] else [x])"
proof -
  have ys: "at_slot i (xs @ [x]) = at_slot i xs @ [x]" using assms(2) by (simp add: at_slot_def)
  have o: "in_order xs" "valid (time x)" "\<And>y. y \<in> set xs \<Longrightarrow> time y \<le> time x"
    using assms(1) by (auto simp: in_order_append)
  show ?thesis
  proof (cases "at_slot i xs \<noteq> [] \<and> period (time (last (at_slot i xs))) = period (time x)")
    case True
    then show ?thesis by (simp add: newest_def ys)
  next
    case False
    have "period (time y) \<noteq> period (time x)" if y: "y \<in> set (at_slot i xs)" for y
    proof
      assume eq: "period (time y) = period (time x)"
      have "at_slot i xs \<noteq> []" using y by auto
      then have "last (at_slot i xs) \<in> set (at_slot i xs)" by simp
      then have l: "last (at_slot i xs) \<in> set xs" by (simp add: at_slot_def)
      have v: "valid (time y)" using y o(1) by (auto simp: in_order_def at_slot_def)
      have "period (time y) \<le> period (time (last (at_slot i xs)))"
        using period_mono v last_at_slot [OF o(1) y] by blast
      moreover have "period (time (last (at_slot i xs))) \<le> period (time x)"
        using period_mono last_at_slot(2) [OF o(1) y] o(2,3) l by blast
      ultimately show False using eq False y by auto
    qed
    then have "filter (\<lambda>y. period (time y) = period (time x)) (at_slot i xs) = []"
      by (auto simp: filter_empty_conv)
    then show ?thesis using False by (auto simp: newest_def ys)
  qed
qed

lemma ring_nth:
  assumes "in_order xs" "i < n"
  shows "fold ring_put xs (replicate n empty) ! i = bucket_of (newest i xs)"
  using assms(1)
proof (induction xs rule: rev_induct)
  case Nil
  then show ?case using assms(2) by (simp add: bucket_of_def)
next
  case (snoc x xs)
  have o: "in_order xs" "valid (time x)" using snoc.prems by (auto simp: in_order_append)
  let ?bs = "fold ring_put xs (replicate n empty)"
  have IH: "?bs ! i = bucket_of (newest i xs)" using snoc.IH o(1) .
  show ?case
  proof (cases "slot (time x) = i")
    case False
    then have "newest i (xs @ [x]) = newest i xs" by (simp add: newest_def at_slot_def)
    then show ?thesis using False IH by (simp add: ring_put_def [of x] Let_def)
  next
    case True
    have b: "bperiod (?bs ! i) = period (time x) \<longleftrightarrow> at_slot i xs \<noteq> [] \<and> period (time (last (at_slot i xs))) = period (time x)"
    proof (cases "at_slot i xs = []")
      case True
      then have "newest i xs = []" using newest_ne by simp
      then show ?thesis using True IH period_empty [OF o(2)] by (simp add: bucket_of_def)
    next
      case False
      then show ?thesis using IH bperiod_newest by simp
    qed
    have "fold ring_put (xs @ [x]) (replicate n empty) ! i =
        (if bperiod (?bs ! i) \<noteq> period (time x) then begin_bucket x else put x (?bs ! i))"
      using True assms(2) by (simp add: ring_put_def [of x] Let_def)
    also have "\<dots> = bucket_of (newest i (xs @ [x]))"
      using newest_snoc [OF snoc.prems True] b IH newest_ne bucket_of_snoc [of "newest i xs" x]
      by (auto simp: bucket_of_def)
    finally show ?thesis .
  qed
qed

text \<open>A bucket of a recent period has all recent items of its index, and the ring has no others.\<close>

lemma newest_recent:
  assumes "in_order xs" "\<And>x. x \<in> set xs \<Longrightarrow> period (time x) \<le> cutoff + span"
  shows "filter (\<lambda>x. cutoff < period (time x)) (at_slot i xs) =
    (if at_slot i xs \<noteq> [] \<and> cutoff < period (time (last (at_slot i xs))) then newest i xs else [])"
proof (cases "at_slot i xs \<noteq> [] \<and> cutoff < period (time (last (at_slot i xs)))")
  case True
  let ?l = "last (at_slot i xs)"
  have l: "?l \<in> set (at_slot i xs)" using True by simp
  have "cutoff < period (time x) \<longleftrightarrow> period (time x) = period (time ?l)" if x: "x \<in> set (at_slot i xs)" for x
  proof
    assume c: "cutoff < period (time x)"
    have v: "valid (time x)" "slot (time x) = slot (time ?l)" using x l assms(1) by (auto simp: in_order_def at_slot_def)
    have le: "period (time x) \<le> period (time ?l)"
      using period_mono v(1) last_at_slot [OF assms(1) x] by blast
    show "period (time x) = period (time ?l)"
    proof (rule ccontr)
      assume "period (time x) \<noteq> period (time ?l)"
      then have "period (time x) + span \<le> period (time ?l)"
        using same_slot_apart [OF v(1) last_at_slot(2) [OF assms(1) x] v(2)] le by linarith
      moreover have "period (time ?l) \<le> cutoff + span" using assms(2) l by (auto simp: at_slot_def)
      ultimately show False using c by linarith
    qed
  qed (use True in simp)
  then show ?thesis using True by (auto simp: newest_def intro: filter_cong)
next
  case False
  have "\<not> cutoff < period (time x)" if x: "x \<in> set (at_slot i xs)" for x
  proof -
    have "valid (time x)" using x assms(1) by (auto simp: in_order_def at_slot_def)
    then have "period (time x) \<le> period (time (last (at_slot i xs)))"
      using period_mono last_at_slot [OF assms(1) x] by blast
    then show ?thesis using False x by auto
  qed
  then have "filter (\<lambda>x. cutoff < period (time x)) (at_slot i xs) = []"
    by (simp add: filter_empty_conv)
  then show ?thesis using False by (simp only: if_False)
qed

end

end
