(* ===== verification/Windows.thy ===== *)
theory Windows
  imports StatRecords BucketRing
begin

text \<open>
  internal/broadcaster/stats.go, the windows of trade statistics of one token: a ring of 300
  second buckets, the summary of its most recent seconds and the merge with the statistics the
  database keeps of longer windows; and the older window of minute buckets that is rebuilt from
  a list of trades. \<open>bucket_ring\<close> is what both rings have in common: they are an abstraction
  of the list of trades put into them.
\<close>

section \<open>Second buckets\<close>

definition shortWindowSeconds :: int where
  "shortWindowSeconds = 300"

record SecondBucket =
  sb_BucketStart :: int
  sb_Buys :: int
  sb_Sells :: int
  sb_Volume :: f64
  sb_BuyVolume :: f64
  sb_SellVolume :: f64
  sb_OpenPrice :: f64
  sb_ClosePrice :: f64

definition new_SecondBucket :: "int \<Rightarrow> f64 \<Rightarrow> SecondBucket" where
  "new_SecondBucket start price = \<lparr>
     sb_BucketStart = start, sb_Buys = 0, sb_Sells = 0, sb_Volume = f64_zero,
     sb_BuyVolume = f64_zero, sb_SellVolume = f64_zero, sb_OpenPrice = price, sb_ClosePrice = price \<rparr>"

record TokenWindowState =
  tw_Seeded :: bool
  tw_LastPrice :: f64
  tw_LastUnixTs :: int
  tw_LastActiveTs :: int
  tw_LastPersistedMinute :: int
  tw_LastLogID :: int
  tw_SecondBuckets :: "SecondBucket list"

definition zero_TokenWindowState :: TokenWindowState where
  "zero_TokenWindowState = \<lparr>
     tw_Seeded = False, tw_LastPrice = f64_zero, tw_LastUnixTs = 0, tw_LastActiveTs = 0,
     tw_LastPersistedMinute = 0, tw_LastLogID = 0,
     tw_SecondBuckets = replicate 300 (new_SecondBucket 0 f64_zero) \<rparr>"

text \<open>The index of a second, brought back into the array when the remainder is negative.\<close>

definition second_index :: "int \<Rightarrow> int" where
  "second_index ts = (let idx = go_rem ts 300 in if idx < 0 then idx + 300 else idx)"

text \<open>One trade in a bucket that stands for its second.\<close>

definition fill_second :: "bool \<Rightarrow> f64 \<Rightarrow> f64 \<Rightarrow> SecondBucket \<Rightarrow> SecondBucket" where
  "fill_second isBuy vol price b =
     (let b1 = b\<lparr>sb_ClosePrice := price\<rparr>;
          b2 = (if isBuy then b1\<lparr>sb_Buys := add64 (sb_Buys b1) 1, sb_BuyVolume := f64_add (sb_BuyVolume b1) vol\<rparr>
                else b1\<lparr>sb_Sells := add64 (sb_Sells b1) 1, sb_SellVolume := f64_add (sb_SellVolume b1) vol\<rparr>)
      in b2\<lparr>sb_Volume := f64_add (sb_Volume b2) vol\<rparr>)"

definition put_second :: "bool \<Rightarrow> f64 \<Rightarrow> f64 \<Rightarrow> int \<Rightarrow> SecondBucket \<Rightarrow> SecondBucket" where
  "put_second isBuy vol price ts bucket = fill_second isBuy vol price
     (if sb_BucketStart bucket \<noteq> ts then new_SecondBucket ts price
      else if f64_eq (sb_OpenPrice bucket) f64_zero then bucket\<lparr>sb_OpenPrice := price\<rparr>
      else bucket)"

definition appendSecondBucket ::
    "TokenWindowState \<Rightarrow> bool \<Rightarrow> f64 \<Rightarrow> f64 \<Rightarrow> int \<Rightarrow> int \<Rightarrow> TokenWindowState" where
  "appendSecondBucket window isBuy vol price ts logID =
     (let idx = nat (second_index ts); buckets = tw_SecondBuckets window in
      window\<lparr>tw_LastPrice := price, tw_LastUnixTs := ts, tw_LastActiveTs := ts,
        tw_LastLogID := (if tw_LastLogID window < logID then logID else tw_LastLogID window),
        tw_SecondBuckets := buckets[idx := put_second isBuy vol price ts (buckets ! idx)]\<rparr>)"

text \<open>The trades of a list of metric points, as the seeding loops append them.\<close>

definition append_metric :: "TradeMetricPoint \<Rightarrow> TokenWindowState \<Rightarrow> TokenWindowState" where
  "append_metric m window = appendSecondBucket window (mp_Side m = ''buy'') (mp_Volume m) (mp_Price m) (mp_EventUnixTS m) 0"

section \<open>Snapshots\<close>

record windowSnapshot =
  ws_AnchorPrice :: "f64 option"
  ws_Buys :: int
  ws_Sells :: int
  ws_BuyVolume :: f64
  ws_SellVolume :: f64
  ws_Volume :: f64

definition zero_windowSnapshot :: windowSnapshot where
  "zero_windowSnapshot = \<lparr> ws_AnchorPrice = None, ws_Buys = 0, ws_Sells = 0,
     ws_BuyVolume = f64_zero, ws_SellVolume = f64_zero, ws_Volume = f64_zero \<rparr>"

text \<open>One round of the loop over the buckets: the snapshot and the earliest second seen.\<close>

definition summarize_step :: "int \<Rightarrow> int \<Rightarrow> SecondBucket \<Rightarrow> windowSnapshot \<times> int \<Rightarrow> windowSnapshot \<times> int" where
  "summarize_step cutoff nowTs bucket acc = (case acc of (snapshot, earliestBucketTs) \<Rightarrow>
     (if sb_BucketStart bucket \<le> cutoff \<or> nowTs < sb_BucketStart bucket \<or> f64_eq (sb_ClosePrice bucket) f64_zero
      then (snapshot, earliestBucketTs)
      else
        let s = snapshot\<lparr>
              ws_Buys := add64 (ws_Buys snapshot) (sb_Buys bucket),
              ws_Sells := add64 (ws_Sells snapshot) (sb_Sells bucket),
              ws_BuyVolume := f64_add (ws_BuyVolume snapshot) (sb_BuyVolume bucket),
              ws_SellVolume := f64_add (ws_SellVolume snapshot) (sb_SellVolume bucket),
              ws_Volume := f64_add (ws_Volume snapshot) (sb_Volume bucket)\<rparr>
        in if earliestBucketTs = 0 \<or> sb_BucketStart bucket < earliestBucketTs
           then (s\<lparr>ws_AnchorPrice := Some (sb_OpenPrice bucket)\<rparr>, sb_BucketStart bucket)
           else (s, earliestBucketTs)))"

definition summarizeSecondBuckets :: "TokenWindowState \<Rightarrow> int \<Rightarrow> int \<Rightarrow> windowSnapshot" where
  "summarizeSecondBuckets window nowTs secondsBack =
     (let cutoff = sub64 nowTs secondsBack in
      fst (fold (summarize_step cutoff nowTs) (tw_SecondBuckets window) (zero_windowSnapshot, 0)))"

definition mergeWindowSnapshots :: "windowSnapshot \<Rightarrow> windowSnapshot \<Rightarrow> windowSnapshot" where
  "mergeWindowSnapshots long tail = \<lparr>
     ws_AnchorPrice = (case ws_AnchorPrice long of None \<Rightarrow> ws_AnchorPrice tail | Some p \<Rightarrow> Some p),
     ws_Buys = add64 (ws_Buys long) (ws_Buys tail),
     ws_Sells = add64 (ws_Sells long) (ws_Sells tail),
     ws_BuyVolume = f64_add (ws_BuyVolume long) (ws_BuyVolume tail),
     ws_SellVolume = f64_add (ws_SellVolume long) (ws_SellVolume tail),
     ws_Volume = f64_add (ws_Volume long) (ws_Volume tail) \<rparr>"

section \<open>The current record of a token\<close>

definition long1h_of :: "LongWindowMetricsRecord \<Rightarrow> windowSnapshot" where
  "long1h_of l = \<lparr> ws_AnchorPrice = lw_AnchorPrice1h l, ws_Buys = lw_Buys1h l, ws_Sells = lw_Sells1h l,
     ws_BuyVolume = lw_BuyVolume1h l, ws_SellVolume = lw_SellVolume1h l, ws_Volume = lw_Volume1h l \<rparr>"

definition long4h_of :: "LongWindowMetricsRecord \<Rightarrow> windowSnapshot" where
  "long4h_of l = \<lparr> ws_AnchorPrice = lw_AnchorPrice4h l, ws_Buys = lw_Buys4h l, ws_Sells = lw_Sells4h l,
     ws_BuyVolume = lw_BuyVolume4h l, ws_SellVolume = lw_SellVolume4h l, ws_Volume = lw_Volume4h l \<rparr>"

definition long24h_of :: "LongWindowMetricsRecord \<Rightarrow> windowSnapshot" where
  "long24h_of l = \<lparr> ws_AnchorPrice = lw_AnchorPrice24h l, ws_Buys = lw_Buys24h l, ws_Sells = lw_Sells24h l,
     ws_BuyVolume = lw_BuyVolume24h l, ws_SellVolume = lw_SellVolume24h l, ws_Volume = lw_Volume24h l \<rparr>"

definition buildCurrentRecord ::
    "string \<Rightarrow> TokenWindowState \<Rightarrow> LongWindowMetricsRecord \<Rightarrow> int \<Rightarrow> TokenMetricsCurrentRecord option" where
  "buildCurrentRecord mint window long nowTs =
     (if f64_le (tw_LastPrice window) f64_zero \<or> tw_LastUnixTs window \<le> 0 then None
      else
        let short1m = summarizeSecondBuckets window nowTs 60;
            short5m = summarizeSecondBuckets window nowTs shortWindowSeconds;
            long1h = mergeWindowSnapshots (long1h_of long) short5m;
            long4h = mergeWindowSnapshots (long4h_of long) short5m;
            long24h = mergeWindowSnapshots (long24h_of long) short5m
        in Some \<lparr>
          mc_Mint = mint,
          mc_LatestPrice = Some (tw_LastPrice window), mc_LatestEventUnix = Some (tw_LastUnixTs window),
          mc_AnchorPrice1m = ws_AnchorPrice short1m, mc_AnchorPrice5m = ws_AnchorPrice short5m,
          mc_AnchorPrice1h = ws_AnchorPrice long1h, mc_AnchorPrice4h = ws_AnchorPrice long4h,
          mc_AnchorPrice24h = ws_AnchorPrice long24h,
          mc_Txns1m = add64 (ws_Buys short1m) (ws_Sells short1m),
          mc_Txns5m = add64 (ws_Buys short5m) (ws_Sells short5m),
          mc_Txns1h = add64 (ws_Buys long1h) (ws_Sells long1h),
          mc_Txns4h = add64 (ws_Buys long4h) (ws_Sells long4h),
          mc_Txns24h = add64 (ws_Buys long24h) (ws_Sells long24h),
          mc_Buys1m = ws_Buys short1m, mc_Buys5m = ws_Buys short5m, mc_Buys1h = ws_Buys long1h,
          mc_Buys4h = ws_Buys long4h, mc_Buys24h = ws_Buys long24h,
          mc_Sells1m = ws_Sells short1m, mc_Sells5m = ws_Sells short5m, mc_Sells1h = ws_Sells long1h,
          mc_Sells4h = ws_Sells long4h, mc_Sells24h = ws_Sells long24h,
          mc_Volume1m = ws_Volume short1m, mc_Volume5m = ws_Volume short5m, mc_Volume1h = ws_Volume long1h,
          mc_Volume4h = ws_Volume long4h, mc_Volume24h = ws_Volume long24h,
          mc_BuyVolume1m = ws_BuyVolume short1m, mc_BuyVolume5m = ws_BuyVolume short5m,
          mc_BuyVolume1h = ws_BuyVolume long1h, mc_BuyVolume4h = ws_BuyVolume long4h,
          mc_BuyVolume24h = ws_BuyVolume long24h,
          mc_SellVolume1m = ws_SellVolume short1m, mc_SellVolume5m = ws_SellVolume short5m,
          mc_SellVolume1h = ws_SellVolume long1h, mc_SellVolume4h = ws_SellVolume long4h,
          mc_SellVolume24h = ws_SellVolume long24h,
          mc_SourceLogID = tw_LastLogID window \<rparr>)"

section \<open>The payload sent to clients\<close>

record TokenStatsPayload =
  sp_Mint :: string
  sp_Price :: f64
  sp_Timestamp :: int
  sp_P1m :: f64
  sp_B1m :: int
  sp_S1m :: int
  sp_BV1m :: f64
  sp_SV1m :: f64
  sp_V1m :: f64
  sp_P5m :: f64
  sp_B5m :: int
  sp_S5m :: int
  sp_BV5m :: f64
  sp_SV5m :: f64
  sp_V5m :: f64
  sp_P1h :: f64
  sp_B1h :: int
  sp_S1h :: int
  sp_BV1h :: f64
  sp_SV1h :: f64
  sp_V1h :: f64
  sp_P4h :: f64
  sp_B4h :: int
  sp_S4h :: int
  sp_BV4h :: f64
  sp_SV4h :: f64
  sp_V4h :: f64
  sp_P24h :: f64
  sp_B24h :: int
  sp_S24h :: int
  sp_BV24h :: f64
  sp_SV24h :: f64
  sp_V24h :: f64

definition derefAnchor :: "f64 option \<Rightarrow> f64" where
  "derefAnchor v = (case v of None \<Rightarrow> f64_zero | Some p \<Rightarrow> p)"

definition BuildPayloadFromCurrentMetrics :: "string \<Rightarrow> TokenMetricsCurrentRecord option \<Rightarrow> TokenStatsPayload option" where
  "BuildPayloadFromCurrentMetrics mint metrics = (case metrics of None \<Rightarrow> None
    | Some m \<Rightarrow> (case (mc_LatestPrice m, mc_LatestEventUnix m) of
        (Some price, Some ts) \<Rightarrow> Some \<lparr>
          sp_Mint = mint, sp_Price = price, sp_Timestamp = ts,
          sp_P1m = derefAnchor (mc_AnchorPrice1m m), sp_B1m = mc_Buys1m m, sp_S1m = mc_Sells1m m,
          sp_BV1m = mc_BuyVolume1m m, sp_SV1m = mc_SellVolume1m m, sp_V1m = mc_Volume1m m,
          sp_P5m = derefAnchor (mc_AnchorPrice5m m), sp_B5m = mc_Buys5m m, sp_S5m = mc_Sells5m m,
          sp_BV5m = mc_BuyVolume5m m, sp_SV5m = mc_SellVolume5m m, sp_V5m = mc_Volume5m m,
          sp_P1h = derefAnchor (mc_AnchorPrice1h m), sp_B1h = mc_Buys1h m, sp_S1h = mc_Sells1h m,
          sp_BV1h = mc_BuyVolume1h m, sp_SV1h = mc_SellVolume1h m, sp_V1h = mc_Volume1h m,
          sp_P4h = derefAnchor (mc_AnchorPrice4h m), sp_B4h = mc_Buys4h m, sp_S4h = mc_Sells4h m,
          sp_BV4h = mc_BuyVolume4h m, sp_SV4h = mc_SellVolume4h m, sp_V4h = mc_Volume4h m,
          sp_P24h = derefAnchor (mc_AnchorPrice24h m), sp_B24h = mc_Buys24h m, sp_S24h = mc_Sells24h m,
          sp_BV24h = mc_BuyVolume24h m, sp_SV24h = mc_SellVolume24h m, sp_V24h = mc_Volume24h m \<rparr>
      | _ \<Rightarrow> None))"

section \<open>The window of minute buckets\<close>

record ShortTrade =
  st_Timestamp :: int
  st_IsBuy :: bool
  st_Volume :: f64
  st_Price :: f64

record MinuteBucket =
  mb_BucketStart :: int
  mb_Buys :: int
  mb_Sells :: int
  mb_Volume :: f64
  mb_BuyVolume :: f64
  mb_SellVolume :: f64
  mb_OpenPrice :: f64
  mb_ClosePrice :: f64

record legacyWindow =
  lg_LastPrice :: f64
  lg_LastUnixTs :: int
  lg_FirstPrice :: f64
  lg_ShortTrades :: "ShortTrade list"
  lg_MinuteBuckets :: "MinuteBucket list"

definition new_MinuteBucket :: "int \<Rightarrow> f64 \<Rightarrow> MinuteBucket" where
  "new_MinuteBucket start price = \<lparr>
     mb_BucketStart = start, mb_Buys = 0, mb_Sells = 0, mb_Volume = f64_zero,
     mb_BuyVolume = f64_zero, mb_SellVolume = f64_zero, mb_OpenPrice = price, mb_ClosePrice = price \<rparr>"

definition zero_legacyWindow :: legacyWindow where
  "zero_legacyWindow = \<lparr> lg_LastPrice = f64_zero, lg_LastUnixTs = 0, lg_FirstPrice = f64_zero,
     lg_ShortTrades = [], lg_MinuteBuckets = replicate 1440 (new_MinuteBucket 0 f64_zero) \<rparr>"

definition minute_index :: "int \<Rightarrow> int" where
  "minute_index ts = (let idx = go_rem (go_quot ts 60) 1440 in if idx < 0 then idx + 1440 else idx)"

definition fill_minute :: "bool \<Rightarrow> f64 \<Rightarrow> f64 \<Rightarrow> MinuteBucket \<Rightarrow> MinuteBucket" where
  "fill_minute isBuy vol price b =
     (let b1 = b\<lparr>mb_ClosePrice := price\<rparr>;
          b2 = (if isBuy then b1\<lparr>mb_Buys := add64 (mb_Buys b1) 1, mb_BuyVolume := f64_add (mb_BuyVolume b1) vol\<rparr>
                else b1\<lparr>mb_Sells := add64 (mb_Sells b1) 1, mb_SellVolume := f64_add (mb_SellVolume b1) vol\<rparr>)
      in b2\<lparr>mb_Volume := f64_add (mb_Volume b2) vol\<rparr>)"

definition put_minute :: "bool \<Rightarrow> f64 \<Rightarrow> f64 \<Rightarrow> int \<Rightarrow> MinuteBucket \<Rightarrow> MinuteBucket" where
  "put_minute isBuy vol price bucketStartTs mb = fill_minute isBuy vol price
     (if mb_BucketStart mb \<noteq> bucketStartTs then new_MinuteBucket bucketStartTs price
      else if f64_eq (mb_OpenPrice mb) f64_zero then mb\<lparr>mb_OpenPrice := price\<rparr>
      else mb)"

definition appendLegacyTrade :: "legacyWindow \<Rightarrow> bool \<Rightarrow> f64 \<Rightarrow> f64 \<Rightarrow> int \<Rightarrow> legacyWindow" where
  "appendLegacyTrade window isBuy vol price ts =
     (let idx = nat (minute_index ts); bucketStartTs = go_quot ts 60 * 60; buckets = lg_MinuteBuckets window in
      window\<lparr>lg_LastPrice := price, lg_LastUnixTs := ts,
        lg_FirstPrice := (if f64_eq (lg_FirstPrice window) f64_zero then price else lg_FirstPrice window),
        lg_MinuteBuckets := buckets[idx := put_minute isBuy vol price bucketStartTs (buckets ! idx)]\<rparr>)"

text \<open>The loop of seedLegacyWindow: the window and the latest trade older than five minutes.\<close>

fun seed_loop :: "int \<Rightarrow> TradeMetricPoint list \<Rightarrow> legacyWindow \<times> ShortTrade option \<Rightarrow> legacyWindow \<times> ShortTrade option" where
  "seed_loop cutoff5m [] acc = acc"
| "seed_loop cutoff5m (m # ms) (window, latestOlder) =
     (let isBuy = (mp_Side m = ''buy'');
          w = appendLegacyTrade window isBuy (mp_Volume m) (mp_Price m) (mp_EventUnixTS m);
          trade = \<lparr> st_Timestamp = mp_EventUnixTS m, st_IsBuy = isBuy, st_Volume = mp_Volume m, st_Price = mp_Price m \<rparr>
      in if cutoff5m \<le> mp_EventUnixTS m
         then seed_loop cutoff5m ms (w\<lparr>lg_ShortTrades := lg_ShortTrades w @ [trade]\<rparr>, latestOlder)
         else seed_loop cutoff5m ms (w, Some trade))"

definition seedLegacyWindow :: "legacyWindow \<Rightarrow> TradeMetricPoint list \<Rightarrow> int \<Rightarrow> legacyWindow" where
  "seedLegacyWindow window metrics nowTs =
     (if metrics = [] then window
      else case seed_loop (sub64 nowTs shortWindowSeconds) metrics (window, None) of
        (w, None) \<Rightarrow> w
      | (w, Some latestOlder) \<Rightarrow> w\<lparr>lg_ShortTrades := latestOlder # lg_ShortTrades w\<rparr>)"

text \<open>The counts, volumes and the anchor price of a window.\<close>

record legacySummary =
  sm_buys :: int
  sm_sells :: int
  sm_buyVolume :: f64
  sm_sellVolume :: f64
  sm_volume :: f64
  sm_anchorPrice :: f64

definition zero_legacySummary :: "f64 \<Rightarrow> legacySummary" where
  "zero_legacySummary anchorPrice = \<lparr> sm_buys = 0, sm_sells = 0, sm_buyVolume = f64_zero,
     sm_sellVolume = f64_zero, sm_volume = f64_zero, sm_anchorPrice = anchorPrice \<rparr>"

definition short_step ::
    "int \<Rightarrow> ShortTrade \<Rightarrow> legacySummary \<times> ShortTrade option \<times> ShortTrade option \<Rightarrow> legacySummary \<times> ShortTrade option \<times> ShortTrade option" where
  "short_step cutoff trade acc = (case acc of (s, latestBefore, earliestInside) \<Rightarrow>
     (if st_Timestamp trade < cutoff
      then (s, (case latestBefore of None \<Rightarrow> Some trade
                | Some b \<Rightarrow> if st_Timestamp b < st_Timestamp trade then Some trade else Some b), earliestInside)
      else
        let s1 = s\<lparr>sm_volume := f64_add (sm_volume s) (st_Volume trade)\<rparr>;
            s2 = (if st_IsBuy trade
              then s1\<lparr>sm_buys := add64 (sm_buys s1) 1, sm_buyVolume := f64_add (sm_buyVolume s1) (st_Volume trade)\<rparr>
              else s1\<lparr>sm_sells := add64 (sm_sells s1) 1, sm_sellVolume := f64_add (sm_sellVolume s1) (st_Volume trade)\<rparr>)
        in (s2, latestBefore, (case earliestInside of None \<Rightarrow> Some trade
              | Some e \<Rightarrow> if st_Timestamp trade < st_Timestamp e then Some trade else Some e))))"

definition summarizeLegacyShortTrades :: "ShortTrade list \<Rightarrow> int \<Rightarrow> int \<Rightarrow> f64 \<Rightarrow> f64 \<Rightarrow> legacySummary" where
  "summarizeLegacyShortTrades trades nowTs windowSeconds lastPrice firstPrice =
     (case fold (short_step (sub64 nowTs windowSeconds)) trades (zero_legacySummary lastPrice, None, None) of
        (s, Some b, _) \<Rightarrow> s\<lparr>sm_anchorPrice := st_Price b\<rparr>
      | (s, None, Some e) \<Rightarrow> s\<lparr>sm_anchorPrice := st_Price e\<rparr>
      | (s, None, None) \<Rightarrow> if f64_lt f64_zero firstPrice then s\<lparr>sm_anchorPrice := firstPrice\<rparr> else s)"

text \<open>The bucket of the minute offset minutes before now, if it is in the window.\<close>

definition minute_at :: "legacyWindow \<Rightarrow> int \<Rightarrow> int \<Rightarrow> MinuteBucket option" where
  "minute_at window currentBucketStart offset =
     (let bucketStart = sub64 currentBucketStart (offset * 60);
          bucket = lg_MinuteBuckets window ! nat (minute_index bucketStart)
      in if mb_BucketStart bucket \<noteq> bucketStart then None else Some bucket)"

definition minute_step ::
    "legacyWindow \<Rightarrow> int \<Rightarrow> int \<Rightarrow> legacySummary \<times> f64 \<times> int \<Rightarrow> legacySummary \<times> f64 \<times> int" where
  "minute_step window currentBucketStart offset acc = (case acc of (s, earliestOpen, earliestOpenTs) \<Rightarrow>
     (case minute_at window currentBucketStart offset of None \<Rightarrow> acc
      | Some bucket \<Rightarrow>
        (if f64_eq (mb_ClosePrice bucket) f64_zero then acc
         else
           let s1 = s\<lparr>
                 sm_buys := add64 (sm_buys s) (mb_Buys bucket),
                 sm_sells := add64 (sm_sells s) (mb_Sells bucket),
                 sm_volume := f64_add (sm_volume s) (mb_Volume bucket),
                 sm_buyVolume := f64_add (sm_buyVolume s) (mb_BuyVolume bucket),
                 sm_sellVolume := f64_add (sm_sellVolume s) (mb_SellVolume bucket)\<rparr>
           in if earliestOpenTs = 0 \<or> mb_BucketStart bucket < earliestOpenTs
              then (s1, mb_OpenPrice bucket, mb_BucketStart bucket) else (s1, earliestOpen, earliestOpenTs))))"

text \<open>The first bucket before the window that has a price.\<close>

definition close_before :: "legacyWindow \<Rightarrow> int \<Rightarrow> int \<Rightarrow> f64 option" where
  "close_before window currentBucketStart offset =
     (case minute_at window currentBucketStart offset of None \<Rightarrow> None
      | Some bucket \<Rightarrow> if f64_lt f64_zero (mb_ClosePrice bucket) then Some (mb_ClosePrice bucket) else None)"

fun first_some :: "('a \<Rightarrow> 'b option) \<Rightarrow> 'a list \<Rightarrow> 'b option" where
  "first_some f [] = None"
| "first_some f (x # xs) = (case f x of Some y \<Rightarrow> Some y | None \<Rightarrow> first_some f xs)"

definition summarizeLegacyMinuteBuckets :: "legacyWindow \<Rightarrow> int \<Rightarrow> int \<Rightarrow> legacySummary" where
  "summarizeLegacyMinuteBuckets window nowTs minsBack =
     (let currentBucketStart = go_quot nowTs 60 * 60;
          (s, earliestOpen, earliestOpenTs) =
            fold (minute_step window currentBucketStart) (map int [0..<nat minsBack])
              (zero_legacySummary (lg_LastPrice window), f64_zero, 0)
      in case first_some (close_before window currentBucketStart) (map int [nat minsBack..<1440]) of
           Some close \<Rightarrow> s\<lparr>sm_anchorPrice := close\<rparr>
         | None \<Rightarrow>
             if earliestOpenTs \<noteq> 0 then s\<lparr>sm_anchorPrice := earliestOpen\<rparr>
             else if f64_lt f64_zero (lg_FirstPrice window) then s\<lparr>sm_anchorPrice := lg_FirstPrice window\<rparr>
             else s)"

definition generateLegacyPayload :: "string \<Rightarrow> legacyWindow \<Rightarrow> int \<Rightarrow> TokenStatsPayload" where
  "generateLegacyPayload mint window nowTs =
     (let a = summarizeLegacyShortTrades (lg_ShortTrades window) nowTs 60 (lg_LastPrice window) (lg_FirstPrice window);
          b = summarizeLegacyShortTrades (lg_ShortTrades window) nowTs shortWindowSeconds (lg_LastPrice window) (lg_FirstPrice window);
          c = summarizeLegacyMinuteBuckets window nowTs 60;
          d = summarizeLegacyMinuteBuckets window nowTs 240;
          e = summarizeLegacyMinuteBuckets window nowTs 1440
      in \<lparr>
        sp_Mint = mint, sp_Price = lg_LastPrice window, sp_Timestamp = lg_LastUnixTs window,
        sp_P1m = sm_anchorPrice a, sp_B1m = sm_buys a, sp_S1m = sm_sells a,
        sp_BV1m = sm_buyVolume a, sp_SV1m = sm_sellVolume a, sp_V1m = sm_volume a,
        sp_P5m = sm_anchorPrice b, sp_B5m = sm_buys b, sp_S5m = sm_sells b,
        sp_BV5m = sm_buyVolume b, sp_SV5m = sm_sellVolume b, sp_V5m = sm_volume b,
        sp_P1h = sm_anchorPrice c, sp_B1h = sm_buys c, sp_S1h = sm_sells c,
        sp_BV1h = sm_buyVolume c, sp_SV1h = sm_sellVolume c, sp_V1h = sm_volume c,
        sp_P4h = sm_anchorPrice d, sp_B4h = sm_buys d, sp_S4h = sm_sells d,
        sp_BV4h = sm_buyVolume d, sp_SV4h = sm_sellVolume d, sp_V4h = sm_volume d,
        sp_P24h = sm_anchorPrice e, sp_B24h = sm_buys e, sp_S24h = sm_sells e,
        sp_BV24h = sm_buyVolume e, sp_SV24h = sm_sellVolume e, sp_V24h = sm_volume e \<rparr>)"

definition BuildPayloadFromTradeMetrics :: "string \<Rightarrow> TradeMetricPoint list \<Rightarrow> int \<Rightarrow> TokenStatsPayload option" where
  "BuildPayloadFromTradeMetrics mint metrics nowTs =
     (if metrics = [] then None
      else let window = seedLegacyWindow zero_legacyWindow metrics nowTs in
        if f64_le (lg_LastPrice window) f64_zero then None else Some (generateLegacyPayload mint window nowTs))"

section \<open>The rings\<close>

lemma neg_rem_mod:
  assumes "0 < (k :: int)"
  shows "(if - ((- x) mod k) < 0 then - ((- x) mod k) + k else - ((- x) mod k)) = x mod k"
  using zmod_zminus1_eq_if [of x k] pos_mod_bound [OF assms, of x] pos_mod_sign [OF assms, of x] by auto

lemma second_index_mod: "second_index ts = ts mod 300"
proof (cases "0 \<le> ts")
  case True
  then show ?thesis by (simp add: second_index_def go_rem_nonneg Let_def not_less)
next
  case False
  then have "go_rem ts 300 = - ((- ts) mod 300)" by (simp add: go_rem_neg)
  then show ?thesis using neg_rem_mod [of 300 ts] by (simp add: second_index_def Let_def)
qed

lemma go_quot_60: "go_quot ts 60 = (if 0 \<le> ts then ts div 60 else - ((- ts) div 60))"
  by (auto simp: go_quot_def sgn_if)

lemma minute_index_mod: "minute_index ts = go_quot ts 60 mod 1440"
proof (cases "0 \<le> go_quot ts 60")
  case True
  then show ?thesis by (simp add: minute_index_def go_rem_nonneg Let_def not_less)
next
  case False
  then have "go_rem (go_quot ts 60) 1440 = - ((- go_quot ts 60) mod 1440)" by (simp add: go_rem_neg)
  then show ?thesis using neg_rem_mod [of 1440 "go_quot ts 60"] by (simp add: minute_index_def Let_def)
qed

lemma go_quot_60_mono: "t \<le> u \<Longrightarrow> go_quot t 60 \<le> go_quot u 60"
  unfolding go_quot_60 by (auto simp: zdiv_mono1) presburger

definition begin_second :: "TradeMetricPoint \<Rightarrow> SecondBucket" where
  "begin_second m = fill_second (mp_Side m = ''buy'') (mp_Volume m) (mp_Price m) (new_SecondBucket (mp_EventUnixTS m) (mp_Price m))"

definition more_second :: "TradeMetricPoint \<Rightarrow> SecondBucket \<Rightarrow> SecondBucket" where
  "more_second m b = fill_second (mp_Side m = ''buy'') (mp_Volume m) (mp_Price m)
     (if f64_eq (sb_OpenPrice b) f64_zero then b\<lparr>sb_OpenPrice := mp_Price m\<rparr> else b)"

definition begin_minute :: "TradeMetricPoint \<Rightarrow> MinuteBucket" where
  "begin_minute m = fill_minute (mp_Side m = ''buy'') (mp_Volume m) (mp_Price m)
     (new_MinuteBucket (go_quot (mp_EventUnixTS m) 60 * 60) (mp_Price m))"

definition more_minute :: "TradeMetricPoint \<Rightarrow> MinuteBucket \<Rightarrow> MinuteBucket" where
  "more_minute m b = fill_minute (mp_Side m = ''buy'') (mp_Volume m) (mp_Price m)
     (if f64_eq (mb_OpenPrice b) f64_zero then b\<lparr>mb_OpenPrice := mp_Price m\<rparr> else b)"

lemma fill_starts [simp]:
  "sb_BucketStart (fill_second p v r b) = sb_BucketStart b" "mb_BucketStart (fill_minute p v r c) = mb_BucketStart c"
  "sb_BucketStart (new_SecondBucket s r) = s" "mb_BucketStart (new_MinuteBucket s r) = s"
  by (simp_all add: fill_second_def fill_minute_def new_SecondBucket_def new_MinuteBucket_def Let_def)

interpretation seconds: bucket_ring 300 "\<lambda>t. nat (second_index t)" "\<lambda>t. t" 300 mp_EventUnixTS "\<lambda>t. t \<noteq> 0"
  sb_BucketStart "new_SecondBucket 0 f64_zero" begin_second more_second
proof unfold_locales
  fix t u :: int
  assume "nat (second_index t) = nat (second_index u)" "t < u"
  then have "t mod 300 = u mod 300" by (simp add: second_index_mod)
  then have "300 dvd u - t" by (metis mod_eq_dvd_iff)
  then show "t + 300 \<le> u" using \<open>t < u\<close> zdvd_imp_le [of 300 "u - t"] by linarith
qed (simp_all add: second_index_mod begin_second_def more_second_def)

interpretation minutes: bucket_ring 1440 "\<lambda>t. nat (minute_index t)" "\<lambda>t. go_quot t 60 * 60" 86400 mp_EventUnixTS
  "\<lambda>t. go_quot t 60 \<noteq> 0" mb_BucketStart "new_MinuteBucket 0 f64_zero" begin_minute more_minute
proof unfold_locales
  fix t u :: int
  assume "nat (minute_index t) = nat (minute_index u)" "go_quot t 60 * 60 < go_quot u 60 * 60"
  then have "go_quot t 60 mod 1440 = go_quot u 60 mod 1440" "go_quot t 60 < go_quot u 60"
    by (simp_all add: minute_index_mod)
  then have "1440 dvd go_quot u 60 - go_quot t 60" by (metis mod_eq_dvd_iff)
  then show "go_quot t 60 * 60 + 86400 \<le> go_quot u 60 * 60"
    using \<open>go_quot t 60 < go_quot u 60\<close> zdvd_imp_le [of 1440 "go_quot u 60 - go_quot t 60"] by linarith
qed (simp_all add: minute_index_mod begin_minute_def more_minute_def go_quot_60_mono)

lemma append_metric_ring:
  "tw_SecondBuckets (append_metric m w) = seconds.ring_put m (tw_SecondBuckets w)"
  by (simp add: append_metric_def appendSecondBucket_def seconds.ring_put_def put_second_def begin_second_def more_second_def Let_def)

lemma append_metrics_ring:
  "tw_SecondBuckets (fold append_metric ms w) = fold seconds.ring_put ms (tw_SecondBuckets w)"
  by (induction ms arbitrary: w) (simp_all add: append_metric_ring)

section \<open>What a bucket holds\<close>

definition f64_sum :: "f64 list \<Rightarrow> f64" where
  "f64_sum xs = fold (\<lambda>x a. f64_add a x) xs f64_zero"

lemma f64_sum_simps [simp]: "f64_sum [] = f64_zero" "f64_sum (xs @ [x]) = f64_add (f64_sum xs) x"
  by (simp_all add: f64_sum_def)

definition is_buy :: "TradeMetricPoint \<Rightarrow> bool" where
  "is_buy m \<longleftrightarrow> mp_Side m = ''buy''"

definition buys_of :: "TradeMetricPoint list \<Rightarrow> TradeMetricPoint list" where
  "buys_of ms = filter is_buy ms"

definition sells_of :: "TradeMetricPoint list \<Rightarrow> TradeMetricPoint list" where
  "sells_of ms = filter (\<lambda>m. \<not> is_buy m) ms"

lemma buys_sells_simps [simp]:
  "buys_of [] = []" "sells_of [] = []"
  "buys_of (ms @ [m]) = (if is_buy m then buys_of ms @ [m] else buys_of ms)"
  "sells_of (ms @ [m]) = (if is_buy m then sells_of ms else sells_of ms @ [m])"
  by (simp_all add: buys_of_def sells_of_def)

definition priced :: "TradeMetricPoint \<Rightarrow> bool" where
  "priced m \<longleftrightarrow> \<not> f64_eq (mp_Price m) f64_zero"

lemma begin_second_record:
  "begin_second m = \<lparr>
     sb_BucketStart = mp_EventUnixTS m, sb_Buys = (if is_buy m then 1 else 0), sb_Sells = (if is_buy m then 0 else 1),
     sb_Volume = f64_add f64_zero (mp_Volume m),
     sb_BuyVolume = (if is_buy m then f64_add f64_zero (mp_Volume m) else f64_zero),
     sb_SellVolume = (if is_buy m then f64_zero else f64_add f64_zero (mp_Volume m)),
     sb_OpenPrice = mp_Price m, sb_ClosePrice = mp_Price m \<rparr>"
  by (simp add: begin_second_def fill_second_def new_SecondBucket_def is_buy_def add64_def)

lemma more_second_record:
  assumes "\<not> f64_eq opn f64_zero"
  shows "more_second m \<lparr> sb_BucketStart = s, sb_Buys = b, sb_Sells = c, sb_Volume = v, sb_BuyVolume = bv,
       sb_SellVolume = sv, sb_OpenPrice = opn, sb_ClosePrice = cls \<rparr> = \<lparr>
     sb_BucketStart = s, sb_Buys = (if is_buy m then add64 b 1 else b), sb_Sells = (if is_buy m then c else add64 c 1),
     sb_Volume = f64_add v (mp_Volume m), sb_BuyVolume = (if is_buy m then f64_add bv (mp_Volume m) else bv),
     sb_SellVolume = (if is_buy m then sv else f64_add sv (mp_Volume m)),
     sb_OpenPrice = opn, sb_ClosePrice = mp_Price m \<rparr>"
  using assms by (simp add: more_second_def fill_second_def is_buy_def)

lemma second_bucket_of:
  assumes "ms \<noteq> []" "\<And>m. m \<in> set ms \<Longrightarrow> priced m"
  shows "seconds.bucket_of ms = \<lparr>
     sb_BucketStart = mp_EventUnixTS (hd ms), sb_Buys = wrap64 (int (length (buys_of ms))),
     sb_Sells = wrap64 (int (length (sells_of ms))), sb_Volume = f64_sum (map mp_Volume ms),
     sb_BuyVolume = f64_sum (map mp_Volume (buys_of ms)), sb_SellVolume = f64_sum (map mp_Volume (sells_of ms)),
     sb_OpenPrice = mp_Price (hd ms), sb_ClosePrice = mp_Price (last ms) \<rparr>"
  using assms
proof (induction ms rule: rev_induct)
  case (snoc m ms)
  show ?case
  proof (cases "ms = []")
    case True
    have "seconds.bucket_of [m] = begin_second m" by (simp add: seconds.bucket_of_def)
    note b = trans [OF this begin_second_record]
    show ?thesis unfolding True append_Nil b by (simp add: buys_of_def sells_of_def f64_sum_def)
  next
    case False
    have "\<not> f64_eq (mp_Price (hd ms)) f64_zero" using snoc.prems(2) False by (simp add: priced_def)
    moreover have "\<And>m. m \<in> set ms \<Longrightarrow> priced m" using snoc.prems(2) by simp
    ultimately show ?thesis
      using snoc.IH [OF False] False
      by (simp add: seconds.bucket_of_snoc more_second_record add64_def add.commute)
  qed
qed simp

lemma int_sum_list: "int (sum_list (map f xs)) = sum_list (map (\<lambda>x. int (f x)) xs)"
  by (induction xs) simp_all

lemma sum_slots:
  assumes "\<And>x. x \<in> set xs \<Longrightarrow> f x < (n :: nat)"
  shows "sum_list (map (\<lambda>i. length (filter (\<lambda>x. f x = i) xs)) [0..<n]) = length xs"
  using assms
proof (induction xs)
  case (Cons x xs)
  have "sum_list (map (\<lambda>i. length (filter (\<lambda>y. f y = i) (x # xs))) [0..<n]) =
      sum_list (map (\<lambda>i. (if f x = i then 1 else 0) + length (filter (\<lambda>y. f y = i) xs)) [0..<n])"
    by (intro arg_cong [of _ _ sum_list] map_cong) auto
  also have "\<dots> = sum_list (map (\<lambda>i. if f x = i then 1 else 0) [0..<n]) + length xs"
    using Cons by (simp add: sum_list_addf)
  also have "sum_list (map (\<lambda>i. if f x = i then 1 else 0) [0..<n]) = (1::nat)"
    using Cons.prems [of x] by (simp add: interv_sum_list_conv_sum_set_nat)
  finally show ?case by simp
qed simp

section \<open>The summary is that of the recent trades\<close>

text \<open>The trades after a time, in one group per second, in the order of the buckets.\<close>

definition recent :: "int \<Rightarrow> TradeMetricPoint list \<Rightarrow> TradeMetricPoint list" where
  "recent cutoff ms = filter (\<lambda>m. cutoff < mp_EventUnixTS m) ms"

definition groups_upto :: "nat \<Rightarrow> TradeMetricPoint list \<Rightarrow> TradeMetricPoint list list" where
  "groups_upto k ms = filter (\<lambda>g. g \<noteq> []) (map (\<lambda>i. filter (\<lambda>m. nat (second_index (mp_EventUnixTS m)) = i) ms) [0..<k])"

definition by_second :: "TradeMetricPoint list \<Rightarrow> TradeMetricPoint list list" where
  "by_second ms = groups_upto 300 ms"

lemma groups_upto_0 [simp]: "groups_upto 0 ms = []"
  by (simp add: groups_upto_def)

lemma groups_upto_Suc: "groups_upto (Suc k) ms = groups_upto k ms @
    (let g = filter (\<lambda>m. nat (second_index (mp_EventUnixTS m)) = k) ms in if g = [] then [] else [g])"
  by (simp add: groups_upto_def Let_def)

definition count_in :: "(TradeMetricPoint list \<Rightarrow> TradeMetricPoint list) \<Rightarrow> TradeMetricPoint list list \<Rightarrow> int" where
  "count_in sel gs = sum_list (map (\<lambda>g. int (length (sel g))) gs)"

definition volume_in :: "(TradeMetricPoint list \<Rightarrow> TradeMetricPoint list) \<Rightarrow> TradeMetricPoint list list \<Rightarrow> f64" where
  "volume_in sel gs = f64_sum (map (\<lambda>g. f64_sum (map mp_Volume (sel g))) gs)"

definition earliest_group :: "TradeMetricPoint list list \<Rightarrow> f64 option \<Rightarrow> int \<Rightarrow> bool" where
  "earliest_group gs anchor ts \<longleftrightarrow> (if gs = [] then anchor = None \<and> ts = 0
     else \<exists>g\<in>set gs. anchor = Some (mp_Price (hd g)) \<and> ts = mp_EventUnixTS (hd g) \<and>
       (\<forall>h\<in>set gs. ts \<le> mp_EventUnixTS (hd h)))"

lemma earliest_group_step:
  assumes "earliest_group gs anchor ts" "\<And>h. h \<in> set gs \<Longrightarrow> mp_EventUnixTS (hd h) \<noteq> 0"
  shows "earliest_group (gs @ [g]) (if ts = 0 \<or> mp_EventUnixTS (hd g) < ts then Some (mp_Price (hd g)) else anchor)
    (if ts = 0 \<or> mp_EventUnixTS (hd g) < ts then mp_EventUnixTS (hd g) else ts)"
proof (cases "gs = []")
  case True
  then show ?thesis using assms(1) by (simp add: earliest_group_def)
next
  case False
  then obtain h where h: "h \<in> set gs" "anchor = Some (mp_Price (hd h))" "ts = mp_EventUnixTS (hd h)"
    "\<And>h. h \<in> set gs \<Longrightarrow> ts \<le> mp_EventUnixTS (hd h)" using assms(1) by (auto simp: earliest_group_def)
  then have "ts \<noteq> 0" using assms(2) by auto
  show ?thesis
  proof (cases "mp_EventUnixTS (hd g) < ts")
    case True
    then show ?thesis using h(4) False by (fastforce simp: earliest_group_def)
  next
    case False
    then show ?thesis using h \<open>ts \<noteq> 0\<close> \<open>gs \<noteq> []\<close> by (auto simp: earliest_group_def)
  qed
qed

text \<open>
  The bucket at an index, as the summary sees it: skipped, or one group of recent trades.
\<close>

lemma summarize_step_bucket:
  assumes "seconds.in_order ms" "\<And>m. m \<in> set ms \<Longrightarrow> priced m \<and> mp_EventUnixTS m \<le> now" "now \<le> cutoff + 300" "i < 300"
  shows "summarize_step cutoff now (fold seconds.ring_put ms (replicate 300 (new_SecondBucket 0 f64_zero)) ! i) (s, e) =
    (let g = filter (\<lambda>m. nat (second_index (mp_EventUnixTS m)) = i) (recent cutoff ms) in
     if g = [] then (s, e)
     else let first = e = 0 \<or> mp_EventUnixTS (hd g) < e in
      (\<lparr> ws_AnchorPrice = (if first then Some (mp_Price (hd g)) else ws_AnchorPrice s),
         ws_Buys = add64 (ws_Buys s) (wrap64 (int (length (buys_of g)))),
         ws_Sells = add64 (ws_Sells s) (wrap64 (int (length (sells_of g)))),
         ws_BuyVolume = f64_add (ws_BuyVolume s) (f64_sum (map mp_Volume (buys_of g))),
         ws_SellVolume = f64_add (ws_SellVolume s) (f64_sum (map mp_Volume (sells_of g))),
         ws_Volume = f64_add (ws_Volume s) (f64_sum (map mp_Volume g)) \<rparr>,
       if first then mp_EventUnixTS (hd g) else e))"
proof -
  let ?slot = "\<lambda>m. nat (second_index (mp_EventUnixTS m)) = i"
  define g where "g = filter ?slot (recent cutoff ms)"
  define nw where "nw = seconds.newest i ms"
  let ?at = "seconds.at_slot i ms"
  have g: "g = (if ?at \<noteq> [] \<and> cutoff < mp_EventUnixTS (last ?at) then nw else [])"
    using seconds.newest_recent [OF assms(1), of cutoff i] assms(2,3)
    by (force simp: g_def nw_def recent_def seconds.at_slot_def conj_commute)
  have b: "fold seconds.ring_put ms (replicate 300 (new_SecondBucket 0 f64_zero)) ! i = seconds.bucket_of nw"
    unfolding nw_def by (rule seconds.ring_nth [OF assms(1,4)])
  show ?thesis
  proof (cases "?at = []")
    case True
    then have "nw = []" "g = []" using seconds.newest_ne g by (simp_all add: nw_def)
    then show ?thesis unfolding b g_def [symmetric]
      by (simp add: seconds.bucket_of_def summarize_step_def) (simp add: new_SecondBucket_def f64_zero_def)
  next
    case False
    then have ne: "nw \<noteq> []" using seconds.newest_ne by (simp add: nw_def)
    have sub: "set nw \<subseteq> set ms" by (auto simp: nw_def seconds.newest_def seconds.at_slot_def)
    have pr: "\<And>m. m \<in> set nw \<Longrightarrow> priced m" using sub assms(2) by blast
    have hd: "mp_EventUnixTS (hd nw) = mp_EventUnixTS (last ?at)"
      using hd_in_set [OF ne] by (auto simp: nw_def seconds.newest_def)
    have "mp_EventUnixTS (hd nw) \<le> now" using hd_in_set [OF ne] sub assms(2) by blast
    moreover have "\<not> f64_eq (mp_Price (last nw)) f64_zero" using pr last_in_set [OF ne] by (simp add: priced_def)
    ultimately show ?thesis unfolding b g_def [symmetric]
      using g False hd ne by (simp add: second_bucket_of [OF ne pr] summarize_step_def Let_def)
  qed
qed

text \<open>The summary of the first k buckets.\<close>

definition snapshot_upto :: "nat \<Rightarrow> TradeMetricPoint list \<Rightarrow> f64 option \<Rightarrow> windowSnapshot" where
  "snapshot_upto k ms anchor = (let gs = groups_upto k ms in
     \<lparr> ws_AnchorPrice = anchor, ws_Buys = wrap64 (count_in buys_of gs), ws_Sells = wrap64 (count_in sells_of gs),
       ws_BuyVolume = volume_in buys_of gs, ws_SellVolume = volume_in sells_of gs,
       ws_Volume = volume_in (\<lambda>g. g) gs \<rparr>)"

lemma groups_upto_mem:
  assumes "g \<in> set (groups_upto k ms)"
  shows "g \<noteq> []" "hd g \<in> set ms"
proof -
  obtain i where i: "g \<noteq> []" "g = filter (\<lambda>m. nat (second_index (mp_EventUnixTS m)) = i) ms"
    using assms by (auto simp: groups_upto_def)
  then show "g \<noteq> []" by simp
  have "hd g \<in> set g" using i(1) by simp
  then show "hd g \<in> set ms" unfolding i(2) by simp
qed

lemma summarize_upto:
  assumes "seconds.in_order ms" "\<And>m. m \<in> set ms \<Longrightarrow> priced m \<and> mp_EventUnixTS m \<le> now" "now \<le> cutoff + 300" "k \<le> 300"
  shows "\<exists>anchor ts. fold (summarize_step cutoff now)
      (take k (fold seconds.ring_put ms (replicate 300 (new_SecondBucket 0 f64_zero)))) (zero_windowSnapshot, 0) =
      (snapshot_upto k (recent cutoff ms) anchor, ts) \<and> earliest_group (groups_upto k (recent cutoff ms)) anchor ts"
  using assms(4)
proof (induction k)
  case 0
  then show ?case
    by (simp add: snapshot_upto_def zero_windowSnapshot_def count_in_def volume_in_def earliest_group_def)
next
  case (Suc k)
  let ?bs = "fold seconds.ring_put ms (replicate 300 (new_SecondBucket 0 f64_zero))"
  let ?rs = "recent cutoff ms"
  obtain anchor ts where IH: "fold (summarize_step cutoff now) (take k ?bs) (zero_windowSnapshot, 0) = (snapshot_upto k ?rs anchor, ts)"
    "earliest_group (groups_upto k ?rs) anchor ts" using Suc by auto
  define g where "g = filter (\<lambda>m. nat (second_index (mp_EventUnixTS m)) = k) ?rs"
  have tk: "take (Suc k) ?bs = take k ?bs @ [?bs ! k]" using Suc.prems by (intro take_Suc_conv_app_nth) simp
  note step = summarize_step_bucket [OF assms(1-3), of k "snapshot_upto k ?rs anchor" ts]
  show ?case
  proof (cases "g = []")
    case True
    then have "groups_upto (Suc k) ?rs = groups_upto k ?rs" by (simp add: groups_upto_Suc g_def Let_def)
    then show ?thesis using IH step Suc.prems True tk by (simp add: snapshot_upto_def g_def Let_def)
  next
    case False
    then have gs: "groups_upto (Suc k) ?rs = groups_upto k ?rs @ [g]" by (simp add: groups_upto_Suc g_def Let_def)
    let ?first = "ts = 0 \<or> mp_EventUnixTS (hd g) < ts"
    have nz: "mp_EventUnixTS (hd h) \<noteq> 0" if "h \<in> set (groups_upto k ?rs)" for h
      using groups_upto_mem(2) [OF that] assms(1) by (auto simp: recent_def seconds.in_order_def)
    have "fold (summarize_step cutoff now) (take (Suc k) ?bs) (zero_windowSnapshot, 0) =
        (snapshot_upto (Suc k) ?rs (if ?first then Some (mp_Price (hd g)) else anchor),
         if ?first then mp_EventUnixTS (hd g) else ts)"
      using IH(1) step Suc.prems False unfolding g_def [symmetric]
      by (simp add: tk snapshot_upto_def gs Let_def count_in_def volume_in_def add64_def)
    then show ?thesis using earliest_group_step [OF IH(2) nz, of g] unfolding gs by blast
  qed
qed

lemma recent_in_order: "seconds.in_order ms \<Longrightarrow> seconds.in_order (recent cutoff ms)"
  by (auto simp: seconds.in_order_def recent_def sorted_filter)

lemma count_in_by_second:
  assumes "\<And>ms. sel ms = filter P ms"
  shows "count_in sel (by_second ms) = int (length (sel ms))"
proof -
  let ?s = "\<lambda>m. nat (second_index (mp_EventUnixTS m))"
  have "count_in sel (by_second ms) = sum_list (map (\<lambda>i. int (length (sel (filter (\<lambda>m. ?s m = i) ms)))) [0..<300])"
  proof -
    have "sum_list (map f (filter (\<lambda>g. g \<noteq> []) gs)) = sum_list (map f gs)" if "f [] = 0" for f :: "TradeMetricPoint list \<Rightarrow> int" and gs
      using that by (induction gs) auto
    then show ?thesis
      by (simp add: count_in_def by_second_def groups_upto_def assms comp_def del: upt_rec_numeral)
  qed
  also have "\<dots> = int (sum_list (map (\<lambda>i. length (filter (\<lambda>m. ?s m = i) (sel ms))) [0..<300]))"
    by (simp add: assms filter_filter conj_commute int_sum_list comp_def del: upt_rec_numeral)
  also have "\<dots> = int (length (sel ms))"
    by (subst sum_slots) (simp_all add: second_index_mod)
  finally show ?thesis .
qed

lemma earliest_is_first:
  assumes "seconds.in_order ms" "earliest_group (by_second ms) anchor ts"
  shows "anchor = (if ms = [] then None else Some (mp_Price (hd ms)))"
proof (cases ms)
  case Nil
  then show ?thesis using assms(2) by (simp add: earliest_group_def by_second_def groups_upto_def del: upt_rec_numeral)
next
  case (Cons m ms')
  let ?s = "\<lambda>m. nat (second_index (mp_EventUnixTS m))"
  have first: "mp_EventUnixTS m \<le> mp_EventUnixTS x" if "x \<in> set ms" for x
    using assms(1) that Cons by (auto simp: seconds.in_order_def)
  define g0 where "g0 = filter (\<lambda>x. ?s x = ?s m) ms"
  have g0: "g0 \<in> set (by_second ms)" "hd g0 = m"
    using Cons by (auto simp: g0_def by_second_def groups_upto_def second_index_mod intro!: image_eqI [of _ _ "?s m"])
  obtain g where g: "g \<in> set (by_second ms)" "anchor = Some (mp_Price (hd g))"
    "\<And>h. h \<in> set (by_second ms) \<Longrightarrow> mp_EventUnixTS (hd g) \<le> mp_EventUnixTS (hd h)"
    using assms(2) g0(1) by (auto simp: earliest_group_def split: if_splits)
  have gm: "g \<noteq> []" "hd g \<in> set ms" using groups_upto_mem g(1) by (auto simp: by_second_def)
  have eq: "mp_EventUnixTS (hd g) = mp_EventUnixTS m" using first [OF gm(2)] g(3) [OF g0(1)] g0(2) by simp
  obtain i where i: "g = filter (\<lambda>x. ?s x = i) ms" using g(1) by (auto simp: by_second_def groups_upto_def)
  have "hd g \<in> set g" using gm(1) by simp
  then have "?s (hd g) = i" unfolding i by simp
  then have "g = g0" using eq by (simp add: i g0_def)
  then show ?thesis using g(2) g0(2) Cons by simp
qed

lemma sub64_small: "0 \<le> now \<Longrightarrow> now < 2 ^ 62 \<Longrightarrow> 0 \<le> back \<Longrightarrow> back \<le> 300 \<Longrightarrow> sub64 now back = now - back"
  by (rule sub64_in_range) (simp add: in_i64_def)

lemma summarize_recent:
  assumes "sorted (map mp_EventUnixTS ms)" "list_all priced ms"
    "list_all (\<lambda>m. mp_EventUnixTS m \<noteq> 0 \<and> mp_EventUnixTS m \<le> now) ms"
    "0 \<le> now" "now < 2 ^ 62" "0 \<le> back" "back \<le> 300" "length ms < 2 ^ 63"
  shows "summarizeSecondBuckets (fold append_metric ms zero_TokenWindowState) now back =
    (let rs = recent (now - back) ms in
     \<lparr> ws_AnchorPrice = (if rs = [] then None else Some (mp_Price (hd rs))),
       ws_Buys = int (length (buys_of rs)), ws_Sells = int (length (sells_of rs)),
       ws_BuyVolume = volume_in buys_of (by_second rs), ws_SellVolume = volume_in sells_of (by_second rs),
       ws_Volume = volume_in (\<lambda>g. g) (by_second rs) \<rparr>)"
proof -
  let ?rs = "recent (now - back) ms"
  let ?bs = "fold seconds.ring_put ms (replicate 300 (new_SecondBucket 0 f64_zero))"
  have o: "seconds.in_order ms" using assms(1,3) by (auto simp: seconds.in_order_def list_all_iff)
  obtain anchor ts where s: "fold (summarize_step (now - back) now) (take 300 ?bs) (zero_windowSnapshot, 0) =
      (snapshot_upto 300 ?rs anchor, ts)" "earliest_group (groups_upto 300 ?rs) anchor ts"
    using summarize_upto [OF o, of now "now - back" 300] assms(2,3,7) by (auto simp: list_all_iff)
  have "take 300 ?bs = ?bs" by simp
  then have "summarizeSecondBuckets (fold append_metric ms zero_TokenWindowState) now back = snapshot_upto 300 ?rs anchor"
    using s(1) sub64_small [OF assms(4-7)]
    by (simp add: summarizeSecondBuckets_def append_metrics_ring zero_TokenWindowState_def Let_def)
  moreover have "anchor = (if ?rs = [] then None else Some (mp_Price (hd ?rs)))"
    using earliest_is_first [OF recent_in_order [OF o]] s(2) by (simp add: by_second_def)
  moreover have "count_in buys_of (groups_upto 300 ?rs) = int (length (buys_of ?rs))"
    "count_in sells_of (groups_upto 300 ?rs) = int (length (sells_of ?rs))"
    using count_in_by_second buys_of_def sells_of_def by (auto simp: by_second_def)
  moreover have "wrap64 (int (length (filter P ?rs))) = int (length (filter P ?rs))" for P
  proof (rule wrap64_in_range)
    have "length (filter P ?rs) \<le> length ms" by (simp add: recent_def)
    then show "in_i64 (int (length (filter P ?rs)))" using assms(8) by (simp add: in_i64_def)
  qed
  ultimately show ?thesis
    by (simp add: snapshot_upto_def by_second_def buys_of_def sells_of_def Let_def)
qed

section \<open>Properties\<close>

text \<open>
  C20: the ring of 300 second buckets loses nothing of the last five minutes: after any trades in
  time order, with no price zero, the summary of the last secondsBack seconds counts exactly the
  buys and sells of those seconds, is anchored at the price of the first of them, and adds up
  their volumes second by second.
\<close>

theorem summarizeSecondBuckets_recent:
  assumes "sorted (map mp_EventUnixTS ms)" "list_all priced ms"
    "list_all (\<lambda>m. mp_EventUnixTS m \<noteq> 0 \<and> mp_EventUnixTS m \<le> now) ms"
    "0 \<le> now" "now < 2 ^ 62" "0 \<le> back" "back \<le> 300" "length ms < 2 ^ 63"
  shows "summarizeSecondBuckets (fold append_metric ms zero_TokenWindowState) now back =
    (let rs = recent (now - back) ms in
     \<lparr> ws_AnchorPrice = (if rs = [] then None else Some (mp_Price (hd rs))),
       ws_Buys = int (length (buys_of rs)), ws_Sells = int (length (sells_of rs)),
       ws_BuyVolume = volume_in buys_of (by_second rs), ws_SellVolume = volume_in sells_of (by_second rs),
       ws_Volume = volume_in (\<lambda>g. g) (by_second rs) \<rparr>)"
  by (rule summarize_recent [OF assms])

definition example_metric :: "int \<Rightarrow> string \<Rightarrow> TradeMetricPoint" where
  "example_metric ts side = \<lparr> mp_EventUnixTS = ts, mp_Slot = 1, mp_InsertSeq = 1, mp_Side = side,
     mp_Price = f64_of_int 2, mp_Volume = f64_of_int 3 \<rparr>"

lemma summarizeSecondBuckets_recent_witness:
  "ws_Buys (summarizeSecondBuckets (fold append_metric
      [example_metric 1000 ''buy'', example_metric 1200 ''sell'', example_metric 1300 ''buy'', example_metric 1300 ''buy'']
      zero_TokenWindowState) 1310 300) = 2"
proof -
  have h: "sorted (map mp_EventUnixTS [example_metric 1000 ''buy'', example_metric 1200 ''sell'', example_metric 1300 ''buy'', example_metric 1300 ''buy''])"
    "list_all priced [example_metric 1000 ''buy'', example_metric 1200 ''sell'', example_metric 1300 ''buy'', example_metric 1300 ''buy'']"
    "list_all (\<lambda>m. mp_EventUnixTS m \<noteq> 0 \<and> mp_EventUnixTS m \<le> 1310)
      [example_metric 1000 ''buy'', example_metric 1200 ''sell'', example_metric 1300 ''buy'', example_metric 1300 ''buy'']"
    by code_simp+
  have "ws_Buys (summarizeSecondBuckets (fold append_metric
      [example_metric 1000 ''buy'', example_metric 1200 ''sell'', example_metric 1300 ''buy'', example_metric 1300 ''buy'']
      zero_TokenWindowState) 1310 300) =
      int (length (buys_of (recent (1310 - 300) [example_metric 1000 ''buy'', example_metric 1200 ''sell'',
        example_metric 1300 ''buy'', example_metric 1300 ''buy''])))"
    by (subst summarizeSecondBuckets_recent [OF h]) (simp_all add: Let_def)
  then show ?thesis by (simp add: example_metric_def recent_def buys_of_def is_buy_def)
qed

text \<open>
  C29: the ring trusts the order of the trades: a trade that arrives late by a multiple of five
  minutes takes the bucket of a newer second, and no bucket of the ring is left for that second,
  although it may be within the window.
\<close>

theorem late_trade_erases_second:
  assumes "sorted (map mp_EventUnixTS ms)" "list_all (\<lambda>m. mp_EventUnixTS m \<noteq> 0) ms" "ts \<noteq> 0" "0 < (k :: int)"
    "mp_EventUnixTS late = ts - 300 * k"
  shows "list_all (\<lambda>b. sb_BucketStart b \<noteq> ts) (tw_SecondBuckets (fold append_metric (ms @ [late]) zero_TokenWindowState))"
proof -
  let ?bs = "fold seconds.ring_put ms (replicate 300 (new_SecondBucket 0 f64_zero))"
  have o: "seconds.in_order ms" using assms(1,2) by (auto simp: seconds.in_order_def list_all_iff)
  have slot: "second_index (ts - 300 * k) = second_index ts"
    unfolding second_index_mod by (simp add: mod_diff_right_eq [symmetric, of ts "300 * k"])
  have "sb_BucketStart (seconds.ring_put late ?bs ! i) \<noteq> ts" if i: "i < 300" for i
  proof (cases "i = nat (second_index ts)")
    case True
    have "sb_BucketStart (more_second late b) = sb_BucketStart b" "sb_BucketStart (begin_second late) = ts - 300 * k" for b
      using assms(5) by (simp_all add: more_second_def begin_second_def)
    then show ?thesis using True i assms(4,5) slot by (simp add: seconds.ring_put_def Let_def)
  next
    case False
    have "sb_BucketStart (?bs ! i) \<noteq> ts"
    proof (cases "seconds.at_slot i ms = []")
      case True
      then have "seconds.newest i ms = []" using seconds.newest_ne by simp
      then show ?thesis using seconds.ring_nth [OF o i] assms(3) by (simp add: seconds.bucket_of_def)
    next
      case False
      have "last (seconds.at_slot i ms) \<in> set (seconds.at_slot i ms)" using False by simp
      then have "nat (second_index (mp_EventUnixTS (last (seconds.at_slot i ms)))) = i" by (simp add: seconds.at_slot_def)
      then show ?thesis
        using seconds.ring_nth [OF o i] seconds.bperiod_newest [OF False] \<open>i \<noteq> nat (second_index ts)\<close> by auto
    qed
    then show ?thesis using False assms(5) slot by (simp add: seconds.ring_put_def Let_def)
  qed
  then show ?thesis
    by (simp add: append_metric_ring append_metrics_ring zero_TokenWindowState_def list_all_length)
qed

lemma late_trade_erases_second_witness:
  "list_all (\<lambda>b. sb_BucketStart b \<noteq> 1300) (tw_SecondBuckets (fold append_metric
     ([example_metric 1300 ''buy'', example_metric 1301 ''buy''] @ [example_metric 1000 ''sell'']) zero_TokenWindowState))"
  by (rule late_trade_erases_second [where k = 1]) (simp_all add: example_metric_def)

end
