(* ===== verification/Query.thy ===== *)
theory Query
  imports Amounts EventLog Windows
begin

text \<open>
  internal/query/token.go: the token service answers the questions of the HTTP and websocket
  handlers from the event log and the read model. Both are interfaces, either may be absent, and
  each call may fail; they are parameters here, operations on a state of their own.
\<close>

section \<open>Records\<close>

record TokenCreateSummary =
  cs_EventID :: string
  cs_Protocol :: string
  cs_EventType :: string
  cs_EventUnixTS :: int
  cs_Creator :: "string option"
  cs_BondingCurve :: "string option"
  cs_Name :: string
  cs_Symbol :: string
  cs_URI :: string
  cs_TokenTotalSupply :: "string option"
  cs_TokenProgram :: "string option"
  cs_IsMayhemMode :: "bool option"
  cs_Decimals :: "int option"

record TokenQuote =
  tq_Mint :: string
  tq_Decimals :: "int option"
  tq_Symbol :: string

record TokenMarketMetrics =
  tmm_LatestPrice :: "f64 option"
  tmm_LatestEventUnix :: "int option"

record TokenPriceChanges =
  pc_M5 :: "f64 option"
  pc_H1 :: "f64 option"
  pc_H4 :: "f64 option"
  pc_H6 :: "f64 option"
  pc_H24 :: "f64 option"

record TokenTradeStats =
  sts_Txns :: int
  sts_Buys :: int
  sts_Sells :: int
  sts_Volume :: f64
  sts_BuyVolume :: f64
  sts_SellVolume :: f64
  sts_Makers :: int
  sts_Buyers :: int
  sts_Sellers :: int

record TokenTrade =
  qt_EventID :: string
  qt_Mint :: string
  qt_MarketID :: string
  qt_MarketType :: string
  qt_Protocol :: string
  qt_Side :: string
  qt_IxName :: string
  qt_UserAddress :: string
  qt_QuoteMint :: string
  qt_TokenAmountRaw :: string
  qt_QuoteAmountRaw :: string
  qt_TokenAmount :: string
  qt_QuoteAmount :: string
  qt_Price :: "f64 option"
  qt_TxSignature :: string
  qt_Slot :: int
  qt_EventUnixTS :: int
  qt_RawEventSource :: string

record TokenActivity =
  qa_EventID :: string
  qa_Mint :: string
  qa_Protocol :: string
  qa_EventType :: string
  qa_ActivityType :: string
  qa_MarketID :: "string option"
  qa_MarketType :: "string option"
  qa_UserAddress :: "string option"
  qa_Side :: "string option"
  qa_Price :: "f64 option"
  qa_Quantity :: "string option"
  qa_TotalQuote :: "string option"
  qa_QuoteMint :: "string option"
  qa_TxSignature :: string
  qa_Slot :: int
  qa_EventUnixTS :: int
  qa_Details :: RawMessage

record TokenActivityCursor =
  qc_EventUnixTS :: int
  qc_Slot :: int
  qc_InsertSeq :: int

record TokenActivityPage =
  qp_Activity :: "TokenActivity list"
  qp_HasMore :: bool
  qp_NextCursor :: "TokenActivityCursor option"
  qp_SnapshotLogID :: int

record TokenListItem =
  li_Mint :: string
  li_Name :: "string option"
  li_Symbol :: "string option"
  li_URI :: "string option"
  li_ImageURI :: "string option"
  li_Creator :: "string option"
  li_BondingCurve :: "string option"
  li_TokenProgram :: "string option"
  li_Decimals :: "int option"
  li_QuoteMint :: "string option"
  li_QuoteDecimals :: "int option"
  li_AcceptedAt :: int
  li_ActiveSince :: int
  li_CurrentStage :: string
  li_CurrentMarketType :: "string option"
  li_CurrentMarketID :: "string option"
  li_MigratedAt :: "int option"
  li_LatestPrice :: "f64 option"
  li_LatestEventUnixTS :: "int option"
  li_PriceChange :: "f64 option"
  li_WindowVolume :: f64
  li_WindowTxns :: int
  li_WindowBuys :: int
  li_WindowSells :: int
  li_LiquidityQuote :: "f64 option"
  li_MarketCapQuote :: "f64 option"
  li_Stats24h :: "TokenTradeStats option"

record TokenListOptions =
  lo_Limit :: int
  lo_View :: string
  lo_Window :: string

record TokenSearchItem =
  sri_Mint :: string
  sri_Name :: "string option"
  sri_Symbol :: "string option"
  sri_ImageURI :: "string option"
  sri_LatestPrice :: "f64 option"

record TokenDetail =
  td_Mint :: string
  td_Name :: "string option"
  td_Symbol :: "string option"
  td_URI :: "string option"
  td_ImageURI :: "string option"
  td_Creator :: "string option"
  td_BondingCurve :: "string option"
  td_TokenProgram :: "string option"
  td_Decimals :: "int option"
  td_TotalSupplyRaw :: "string option"
  td_CurrentStage :: string
  td_CreateEvent :: "TokenCreateSummary option"
  td_ActiveMarket :: "TokenMarketRecord option"
  td_Markets :: "TokenMarketRecord list"
  td_RecentTrades :: "TokenTrade list"
  td_RecentEvents :: "Envelope list"
  td_MigrateEvent :: "Envelope option"
  td_Quote :: "TokenQuote option"
  td_MarketMetrics :: "TokenMarketMetrics option"
  td_PriceChanges :: "TokenPriceChanges option"
  td_Stats24h :: "TokenTradeStats option"

record TokenCandle =
  ca_Time :: int
  ca_Open :: f64
  ca_High :: f64
  ca_Low :: f64
  ca_Close :: f64
  ca_Volume :: f64
  ca_IsGapFill :: bool

section \<open>The interfaces\<close>

type_synonym ('s, 'a) call = "'s \<Rightarrow> 'a res \<times> 's"

text \<open>if err != nil return err, with and without wrapping it.\<close>

definition and_use :: "('s, 'a) call \<Rightarrow> ('a \<Rightarrow> ('s, 'b) call) \<Rightarrow> ('s, 'b) call" where
  "and_use f g s = (case f s of (Inl e, s') \<Rightarrow> (Inl e, s') | (Inr a, s') \<Rightarrow> g a s')"

definition wrapped :: "string \<Rightarrow> ('s, 'a) call \<Rightarrow> ('s, 'a) call" where
  "wrapped m f s = (case f s of (Inl e, s') \<Rightarrow> (Inl (ErrWrap m e), s') | (Inr a, s') \<Rightarrow> (Inr a, s'))"

definition give :: "'a \<Rightarrow> ('s, 'a) call" where
  "give a s = (Inr a, s)"

definition refuse :: "gerror \<Rightarrow> ('s, 'a) call" where
  "refuse e s = (Inl e, s)"

record 's tokenEventReader =
  er_ListServiceEventsByMint :: "string \<Rightarrow> int \<Rightarrow> ('s, Envelope list) call"
  er_ListServiceEventsByMintAfterLogID :: "string \<Rightarrow> int \<Rightarrow> int \<Rightarrow> ('s, Envelope list) call"
  er_FindLatestCreateEventByMint :: "string \<Rightarrow> ('s, Envelope option) call"
  er_FindLatestMigrateEventByMint :: "string \<Rightarrow> ('s, Envelope option) call"
  er_LoadProjectionCheckpoint :: "string \<Rightarrow> ('s, int) call"

record 's tokenReadModel =
  rm_ListTokenBoardRows :: "TokenBoardQuery \<Rightarrow> ('s, TokenBoardRecord list) call"
  rm_SearchTokenSnapshots :: "string \<Rightarrow> int \<Rightarrow> ('s, TokenSearchRecord list) call"
  rm_ListTokenSnapshots :: "int \<Rightarrow> ('s, TokenSnapshotRecord list) call"
  rm_FindTokenSnapshotByMint :: "string \<Rightarrow> ('s, TokenSnapshotRecord option) call"
  rm_ListTokenMarketsByMint :: "string \<Rightarrow> int \<Rightarrow> ('s, TokenMarketRecord list) call"
  rm_ListTradeEventsByMint :: "string \<Rightarrow> int \<Rightarrow> ('s, TradeEventRecord list) call"
  rm_ListActivityEventsByMint :: "string \<Rightarrow> int \<Rightarrow> ('s, ActivityEventRecord list) call"
  rm_ListActivityEventsPageByMint :: "string \<Rightarrow> int \<Rightarrow> ActivityEventCursor option \<Rightarrow> ('s, ActivityEventPage) call"
  rm_LoadTradeSummaryByMint :: "string \<Rightarrow> ('s, TradeSummaryRecord option) call"
  rm_ListTradeMetricsForStatsByMint :: "string \<Rightarrow> ('s, TradeMetricPoint list) call"
  rm_LoadTokenMetricsCurrentByMint :: "string \<Rightarrow> ('s, TokenMetricsCurrentRecord option) call"
  rm_ListCandlesByMint :: "string \<Rightarrow> string \<Rightarrow> int \<Rightarrow> int option \<Rightarrow> ('s, TokenCandleRecord list) call"

record 's TokenService =
  sv_events :: "'s tokenEventReader option"
  sv_model :: "'s tokenReadModel option"

definition NewTokenService :: "'s tokenEventReader option \<Rightarrow> 's tokenReadModel option \<Rightarrow> 's TokenService" where
  "NewTokenService events model = \<lparr> sv_events = events, sv_model = model \<rparr>"

definition with_model :: "'s TokenService \<Rightarrow> ('s tokenReadModel \<Rightarrow> ('s, 'a) call) \<Rightarrow> ('s, 'a) call" where
  "with_model sv f = (case sv_model sv of None \<Rightarrow> refuse (ErrMsg ''token read model not configured'') | Some m \<Rightarrow> f m)"

section \<open>Building the answers\<close>

definition list_item :: "TokenBoardRecord \<Rightarrow> TokenListItem" where
  "list_item row = \<lparr>
     li_Mint = br_Mint row, li_Name = br_Name row, li_Symbol = br_Symbol row, li_URI = br_URI row,
     li_ImageURI = br_ImageURI row, li_Creator = br_Creator row, li_BondingCurve = br_BondingCurve row,
     li_TokenProgram = br_TokenProgram row, li_Decimals = br_Decimals row, li_QuoteMint = br_QuoteMint row,
     li_QuoteDecimals = br_QuoteDecimals row, li_AcceptedAt = br_FirstSeenAt row, li_ActiveSince = br_ActiveSince row,
     li_CurrentStage = br_CurrentStage row, li_CurrentMarketType = br_ActiveMarketType row,
     li_CurrentMarketID = br_ActiveMarketID row, li_MigratedAt = br_MigratedAt row,
     li_LatestPrice = br_LatestPrice row, li_LatestEventUnixTS = br_LatestEventUnixTS row,
     li_PriceChange = br_PriceChange row, li_WindowVolume = br_WindowVolume row, li_WindowTxns = br_WindowTxns row,
     li_WindowBuys = br_WindowBuys row, li_WindowSells = br_WindowSells row,
     li_LiquidityQuote = br_LiquidityQuote row, li_MarketCapQuote = br_MarketCapQuote row, li_Stats24h = None \<rparr>"

definition search_item :: "TokenSearchRecord \<Rightarrow> TokenSearchItem" where
  "search_item row = \<lparr> sri_Mint = sr_Mint row, sri_Name = sr_Name row, sri_Symbol = sr_Symbol row,
     sri_ImageURI = sr_ImageURI row, sri_LatestPrice = sr_LatestPrice row \<rparr>"

definition candle_of :: "TokenCandleRecord \<Rightarrow> TokenCandle" where
  "candle_of row = \<lparr> ca_Time = cn_TimeUnix row, ca_Open = cn_Open row, ca_High = cn_High row, ca_Low = cn_Low row,
     ca_Close = cn_Close row, ca_Volume = cn_Volume row, ca_IsGapFill = cn_IsGapFill row \<rparr>"

definition buildTokenTrade :: "TokenSnapshotRecord \<Rightarrow> TradeEventRecord \<Rightarrow> TokenTrade" where
  "buildTokenTrade snapshot row =
     (let quoteDecimals = resolveQuoteDecimals (Some snapshot) (te_QuoteMint row) in
      \<lparr> qt_EventID = te_EventID row, qt_Mint = te_Mint row, qt_MarketID = te_MarketID row,
        qt_MarketType = te_MarketType row, qt_Protocol = te_Protocol row, qt_Side = te_Side row,
        qt_IxName = te_IxName row, qt_UserAddress = te_UserAddress row, qt_QuoteMint = te_QuoteMint row,
        qt_TokenAmountRaw = te_TokenAmountRaw row, qt_QuoteAmountRaw = te_QuoteAmountRaw row,
        qt_TokenAmount = formatAmount (te_TokenAmountRaw row) (sn_Decimals snapshot),
        qt_QuoteAmount = formatAmount (te_QuoteAmountRaw row) quoteDecimals,
        qt_Price = computePrice (te_TokenAmountRaw row) (te_QuoteAmountRaw row) (sn_Decimals snapshot) quoteDecimals,
        qt_TxSignature = te_TxSignature row, qt_Slot = te_Slot row, qt_EventUnixTS = te_EventUnixTS row,
        qt_RawEventSource = te_RawEventSource row \<rparr>)"

definition buildTokenActivity :: "TokenSnapshotRecord \<Rightarrow> ActivityEventRecord \<Rightarrow> TokenActivity" where
  "buildTokenActivity snapshot row =
     (let quoteDecimals = resolveOptionalQuoteDecimals (Some snapshot) (ae_QuoteMint row) in
      \<lparr> qa_EventID = ae_EventID row, qa_Mint = ae_Mint row, qa_Protocol = ae_Protocol row,
        qa_EventType = ae_EventType row, qa_ActivityType = ae_ActivityType row, qa_MarketID = ae_MarketID row,
        qa_MarketType = ae_MarketType row, qa_UserAddress = ae_UserAddress row, qa_Side = ae_Side row,
        qa_Price = computeOptionalPrice (ae_TokenAmountRaw row) (ae_QuoteAmountRaw row) (sn_Decimals snapshot) quoteDecimals,
        qa_Quantity = map_option (\<lambda>v. formatAmount v (sn_Decimals snapshot)) (ae_TokenAmountRaw row),
        qa_TotalQuote = map_option (\<lambda>v. formatAmount v quoteDecimals) (ae_QuoteAmountRaw row),
        qa_QuoteMint = ae_QuoteMint row, qa_TxSignature = ae_TxSignature row, qa_Slot = ae_Slot row,
        qa_EventUnixTS = ae_EventUnixTS row, qa_Details = ae_Details row \<rparr>)"

definition buildQuote :: "TokenSnapshotRecord \<Rightarrow> TradeSummaryRecord option \<Rightarrow> TokenQuote option" where
  "buildQuote snapshot summary =
     (let quoteMint = (case summary of
            Some su \<Rightarrow> if ts_QuoteMint su \<noteq> [] then Some (ts_QuoteMint su) else sn_QuoteMint snapshot
          | None \<Rightarrow> sn_QuoteMint snapshot)
      in case quoteMint of
           None \<Rightarrow> None
         | Some q \<Rightarrow> (if q = [] then None
             else Some \<lparr> tq_Mint = q, tq_Decimals = resolveQuoteDecimals (Some snapshot) q, tq_Symbol = quoteSymbol q \<rparr>))"

definition buildPriceChanges :: "TradeSummaryRecord option \<Rightarrow> TokenPriceChanges option" where
  "buildPriceChanges summary = (case summary of
      None \<Rightarrow> None
    | Some su \<Rightarrow> (if ts_LatestPrice su = None then None
        else Some \<lparr> pc_M5 = pctChange (ts_LatestPrice su) (ts_Price5mAgo su),
          pc_H1 = pctChange (ts_LatestPrice su) (ts_Price1hAgo su),
          pc_H4 = pctChange (ts_LatestPrice su) (ts_Price4hAgo su),
          pc_H6 = None,
          pc_H24 = pctChange (ts_LatestPrice su) (ts_Price24hAgo su) \<rparr>))"

definition buildTradeStats :: "TradeSummaryRecord option \<Rightarrow> TokenTradeStats option" where
  "buildTradeStats summary = map_option (\<lambda>su.
     \<lparr> sts_Txns = ts_Txns24h su, sts_Buys = ts_Buys24h su, sts_Sells = ts_Sells24h su,
       sts_Volume = ts_Volume24h su, sts_BuyVolume = ts_BuyVolume24h su, sts_SellVolume = ts_SellVolume24h su,
       sts_Makers = ts_Makers24h su, sts_Buyers = ts_Buyers24h su, sts_Sellers = ts_Sellers24h su \<rparr>) summary"

definition findActiveMarket :: "TokenMarketRecord list \<Rightarrow> string option \<Rightarrow> TokenMarketRecord option" where
  "findActiveMarket markets activeMarketID = (case activeMarketID of
      None \<Rightarrow> find (\<lambda>m. tmk_EndedAt m = None) markets
    | Some i \<Rightarrow> find (\<lambda>m. tmk_MarketID m = i) markets)"

section \<open>The service\<close>

definition requireTokenSnapshot :: "'s TokenService \<Rightarrow> string \<Rightarrow> ('s, 's tokenReadModel \<times> TokenSnapshotRecord) call" where
  "requireTokenSnapshot sv mint = with_model sv (\<lambda>m.
     and_use (wrapped (''find token snapshot by mint='' @ mint) (rm_FindTokenSnapshotByMint m mint))
       (\<lambda>sn. case sn of None \<Rightarrow> refuse ErrTokenNotFound | Some snapshot \<Rightarrow> give (m, snapshot)))"

definition ListTokens :: "'s TokenService \<Rightarrow> TokenListOptions \<Rightarrow> ('s, TokenListItem list) call" where
  "ListTokens sv opts = with_model sv (\<lambda>m.
     case normalizeStatsWindow (lo_Window opts) of
       Inl e \<Rightarrow> refuse e
     | Inr interval \<Rightarrow>
         and_use (wrapped ''list token board rows'' (rm_ListTokenBoardRows m
             \<lparr> bq_Limit = (if lo_Limit opts \<le> 0 then 100 else lo_Limit opts),
               bq_View = normalizeTokenListView (lo_View opts), bq_Interval = interval \<rparr>))
           (\<lambda>rows. give (map list_item rows)))"

definition SearchTokens :: "'s TokenService \<Rightarrow> string \<Rightarrow> int \<Rightarrow> ('s, TokenSearchItem list) call" where
  "SearchTokens sv rawQuery limit = with_model sv (\<lambda>m.
     let query = TrimSpace rawQuery in
     if query = [] then give []
     else and_use (wrapped ''search token snapshots''
            (rm_SearchTokenSnapshots m query (if limit \<le> 0 then 8 else limit)))
          (\<lambda>rows. give (map search_item rows)))"

definition query_ListServiceEventsByMint :: "'s TokenService \<Rightarrow> string \<Rightarrow> int \<Rightarrow> ('s, Envelope list) call" where
  "query_ListServiceEventsByMint sv mint limit = (case sv_events sv of
      None \<Rightarrow> refuse (ErrMsg ''event reader not configured'')
    | Some ev \<Rightarrow> er_ListServiceEventsByMint ev mint limit)"

definition query_ListServiceEventsByMintAfterLogID :: "'s TokenService \<Rightarrow> string \<Rightarrow> int \<Rightarrow> int \<Rightarrow> ('s, Envelope list) call" where
  "query_ListServiceEventsByMintAfterLogID sv mint afterLogID limit = (case sv_events sv of
      None \<Rightarrow> give []
    | Some ev \<Rightarrow> er_ListServiceEventsByMintAfterLogID ev mint afterLogID limit)"

definition ListTradesByMint :: "'s TokenService \<Rightarrow> string \<Rightarrow> int \<Rightarrow> ('s, TokenTrade list) call" where
  "ListTradesByMint sv mint limit = and_use (requireTokenSnapshot sv mint) (\<lambda>(m, snapshot).
     and_use (wrapped ''list trade events'' (rm_ListTradeEventsByMint m mint (clampLimit limit 20)))
       (\<lambda>rows. give (map (buildTokenTrade snapshot) rows)))"

definition snapshot_log_id :: "'s TokenService \<Rightarrow> ('s, int) call" where
  "snapshot_log_id sv = (case sv_events sv of
      None \<Rightarrow> give 0
    | Some ev \<Rightarrow> wrapped ''load token_read_model checkpoint'' (er_LoadProjectionCheckpoint ev ''token_read_model''))"

definition query_ListActivityPageByMint ::
    "'s TokenService \<Rightarrow> string \<Rightarrow> int \<Rightarrow> TokenActivityCursor option \<Rightarrow> ('s, TokenActivityPage) call" where
  "query_ListActivityPageByMint sv mint limit cursor = and_use (requireTokenSnapshot sv mint) (\<lambda>(m, snapshot).
     let storeCursor = map_option (\<lambda>c. \<lparr> cur_EventUnixTS = qc_EventUnixTS c, cur_Slot = qc_Slot c, cur_InsertSeq = qc_InsertSeq c \<rparr>) cursor in
     and_use (snapshot_log_id sv) (\<lambda>snapshotLogID.
     and_use (wrapped ''list activity events'' (rm_ListActivityEventsPageByMint m mint (clampLimit limit 100) storeCursor))
       (\<lambda>page. give \<lparr> qp_Activity = map (buildTokenActivity snapshot) (page_Items page),
          qp_HasMore = page_HasMore page,
          qp_NextCursor = map_option (\<lambda>c. \<lparr> qc_EventUnixTS = cur_EventUnixTS c, qc_Slot = cur_Slot c, qc_InsertSeq = cur_InsertSeq c \<rparr>)
            (page_NextCursor page),
          qp_SnapshotLogID = snapshotLogID \<rparr>)))"

definition ListActivityByMint :: "'s TokenService \<Rightarrow> string \<Rightarrow> int \<Rightarrow> ('s, TokenActivity list) call" where
  "ListActivityByMint sv mint limit =
     and_use (query_ListActivityPageByMint sv mint limit None) (\<lambda>page. give (qp_Activity page))"

definition query_ListCandlesByMint ::
    "'s TokenService \<Rightarrow> string \<Rightarrow> string \<Rightarrow> int \<Rightarrow> int option \<Rightarrow> ('s, TokenCandle list) call" where
  "query_ListCandlesByMint sv mint resolution limit beforeTime = with_model sv (\<lambda>m.
     case normalizeResolution resolution of
       Inl e \<Rightarrow> refuse e
     | Inr interval \<Rightarrow>
         and_use (wrapped ''list candles''
             (rm_ListCandlesByMint m mint interval (if limit \<le> 0 then 200 else limit) beforeTime))
           (\<lambda>rows. give (map candle_of rows)))"

definition BuildRealtimeStatsPayload :: "'s TokenService \<Rightarrow> string \<Rightarrow> int \<Rightarrow> ('s, TokenStatsPayload option) call" where
  "BuildRealtimeStatsPayload sv mint nowTs = and_use (requireTokenSnapshot sv mint) (\<lambda>(m, snapshot).
     and_use (wrapped (''load token metrics current by mint='' @ mint) (rm_LoadTokenMetricsCurrentByMint m mint)) (\<lambda>current.
       case BuildPayloadFromCurrentMetrics mint current of
         Some payload \<Rightarrow> give (Some payload)
       | None \<Rightarrow>
           and_use (wrapped (''list trade metrics for mint='' @ mint) (rm_ListTradeMetricsForStatsByMint m mint))
             (\<lambda>metrics. give (BuildPayloadFromTradeMetrics mint metrics nowTs))))"

definition create_summary :: "Envelope \<Rightarrow> PumpfunCreatePayload \<Rightarrow> TokenCreateSummary" where
  "create_summary createEvent v = \<lparr>
     cs_EventID = ev_EventID createEvent, cs_Protocol = ev_Protocol createEvent,
     cs_EventType = ev_EventType createEvent, cs_EventUnixTS = ev_EventUnixTS createEvent,
     cs_Creator = query_ptrIfNotEmpty (pfc_Creator v), cs_BondingCurve = query_ptrIfNotEmpty (pfc_BondingCurve v),
     cs_Name = pfc_Name v, cs_Symbol = pfc_Symbol v, cs_URI = pfc_URI v,
     cs_TokenTotalSupply = query_ptrIfNotEmpty (pfc_TokenTotalSupply v),
     cs_TokenProgram = query_ptrIfNotEmpty (pfc_TokenProgram v),
     cs_IsMayhemMode = Some (pfc_IsMayhemMode v),
     cs_Decimals = query_optionalInt32FromUint32 (pfc_MintDecimals v) \<rparr>"

definition loadCreateSummary :: "'s TokenService \<Rightarrow> string \<Rightarrow> ('s, TokenCreateSummary option) call" where
  "loadCreateSummary sv mint = (case sv_events sv of
      None \<Rightarrow> give None
    | Some ev \<Rightarrow>
        and_use (wrapped (''find latest create event by mint='' @ mint) (er_FindLatestCreateEventByMint ev mint)) (\<lambda>createEvent.
          case createEvent of
            None \<Rightarrow> give None
          | Some e \<Rightarrow> (case DecodePayload e of
              Inl err \<Rightarrow> refuse (ErrWrap (''decode create event payload for mint='' @ mint) err)
            | Inr payload \<Rightarrow> (case payload of
                PumpfunCreate v \<Rightarrow> give (Some (create_summary e v))
              | _ \<Rightarrow> give None))))"

text \<open>A service without an event reader panics here (None): the reader is called unguarded.\<close>

definition GetTokenDetail :: "'s TokenService \<Rightarrow> string \<Rightarrow> 's \<Rightarrow> TokenDetail res option \<times> 's" where
  "GetTokenDetail sv mint s =
     (case and_use (requireTokenSnapshot sv mint) (\<lambda>(m, snapshot).
         and_use (wrapped ''list token markets'' (rm_ListTokenMarketsByMint m mint 10)) (\<lambda>markets.
         and_use (wrapped ''list token trades'' (rm_ListTradeEventsByMint m mint 20)) (\<lambda>tradeRows.
         give (m, snapshot, markets, tradeRows)))) s of
        (Inl e, s1) \<Rightarrow> (Some (Inl e), s1)
      | (Inr (m, snapshot, markets, tradeRows), s1) \<Rightarrow> (case sv_events sv of
          None \<Rightarrow> (None, s1)
        | Some ev \<Rightarrow> map_prod Some id (
            and_use (wrapped ''list service events'' (er_ListServiceEventsByMint ev mint 20)) (\<lambda>eventRows.
            and_use (wrapped ''load trade summary'' (rm_LoadTradeSummaryByMint m mint)) (\<lambda>summary.
            and_use (loadCreateSummary sv mint) (\<lambda>createSummary.
            and_use (if sn_MigratedAt snapshot \<noteq> None \<or> sn_CurrentStage snapshot = ''pool''
                     then wrapped (''find latest migrate event by mint='' @ mint) (er_FindLatestMigrateEventByMint ev mint)
                     else give None) (\<lambda>migrateEvent.
            give \<lparr> td_Mint = sn_Mint snapshot, td_Name = sn_Name snapshot, td_Symbol = sn_Symbol snapshot,
              td_URI = sn_URI snapshot, td_ImageURI = sn_ImageURI snapshot, td_Creator = sn_Creator snapshot,
              td_BondingCurve = sn_BondingCurve snapshot, td_TokenProgram = sn_TokenProgram snapshot,
              td_Decimals = sn_Decimals snapshot, td_TotalSupplyRaw = sn_TotalSupplyRaw snapshot,
              td_CurrentStage = sn_CurrentStage snapshot, td_CreateEvent = createSummary,
              td_ActiveMarket = findActiveMarket markets (sn_ActiveMarketID snapshot), td_Markets = markets,
              td_RecentTrades = map (buildTokenTrade snapshot) tradeRows, td_RecentEvents = eventRows,
              td_MigrateEvent = migrateEvent, td_Quote = buildQuote snapshot summary,
              td_MarketMetrics = map_option (\<lambda>su. \<lparr> tmm_LatestPrice = ts_LatestPrice su, tmm_LatestEventUnix = ts_LatestEventUnix su \<rparr>) summary,
              td_PriceChanges = buildPriceChanges summary, td_Stats24h = buildTradeStats summary \<rparr>)))) s1)))"

end
