(* ===== verification/HttpApi.thy ===== *)
theory HttpApi
  imports Ingest Query
begin

text \<open>
  internal/httpapi/handler.go: the HTTP handlers over the interface eventQuery and the ingest
  service. A request is what net/http hands to a handler: the method, the path value, the decoded
  query parameters and the body, as the first JSON value the decoder finds in it (a body above
  the limit of http.MaxBytesReader is no JSON value). The JSON body of a response is kept as the
  value that is encoded; what encoding/json refuses leaves the body empty.
\<close>

section \<open>Requests and responses\<close>

record HttpRequest =
  rq_Method :: string
  rq_mint :: string
  rq_Query :: "(string \<times> string) list"
  rq_Body :: RawMessage

datatype Body =
    NoBody
  | ErrorText string
  | Healthy
  | EventsBody string int "Envelope list"
  | TokensBody int string string "TokenListItem list"
  | SearchBody string int "TokenSearchItem list"
  | DetailBody TokenDetail
  | TradesBody string int "TokenTrade list"
  | CandlesBody string string int "TokenCandle list"
  | ActivityBody string int bool "TokenActivityCursor option" "TokenActivity list"

record HttpResponse =
  rs_Status :: int
  rs_JSONHeaders :: bool
  rs_Body :: Body

definition http_Error :: "string \<Rightarrow> int \<Rightarrow> HttpResponse" where
  "http_Error msg status = \<lparr> rs_Status = status, rs_JSONHeaders = False, rs_Body = ErrorText msg \<rparr>"

definition opt_marshalable :: "f64 option \<Rightarrow> bool" where
  "opt_marshalable x = (case x of None \<Rightarrow> True | Some v \<Rightarrow> f64_marshalable v)"

definition raw_marshalable :: "RawMessage \<Rightarrow> bool" where
  "raw_marshalable raw = (case marshal_raw raw of Inl e \<Rightarrow> False | Inr j \<Rightarrow> True)"

definition trade_marshalable :: "TokenTrade \<Rightarrow> bool" where
  "trade_marshalable t = opt_marshalable (qt_Price t)"

definition activity_marshalable :: "TokenActivity \<Rightarrow> bool" where
  "activity_marshalable a \<longleftrightarrow> opt_marshalable (qa_Price a) \<and> raw_marshalable (qa_Details a)"

definition event_marshalable :: "Envelope \<Rightarrow> bool" where
  "event_marshalable e = raw_marshalable (ev_Payload e)"

definition stats_marshalable :: "TokenTradeStats \<Rightarrow> bool" where
  "stats_marshalable x \<longleftrightarrow> f64_marshalable (sts_Volume x) \<and> f64_marshalable (sts_BuyVolume x) \<and> f64_marshalable (sts_SellVolume x)"

definition list_item_marshalable :: "TokenListItem \<Rightarrow> bool" where
  "list_item_marshalable i \<longleftrightarrow> opt_marshalable (li_LatestPrice i) \<and> opt_marshalable (li_PriceChange i) \<and>
     f64_marshalable (li_WindowVolume i) \<and> opt_marshalable (li_LiquidityQuote i) \<and> opt_marshalable (li_MarketCapQuote i) \<and>
     pred_option stats_marshalable (li_Stats24h i)"

definition candle_marshalable :: "TokenCandle \<Rightarrow> bool" where
  "candle_marshalable c \<longleftrightarrow> f64_marshalable (ca_Open c) \<and> f64_marshalable (ca_High c) \<and> f64_marshalable (ca_Low c) \<and>
     f64_marshalable (ca_Close c) \<and> f64_marshalable (ca_Volume c)"

definition changes_marshalable :: "TokenPriceChanges \<Rightarrow> bool" where
  "changes_marshalable p \<longleftrightarrow> opt_marshalable (pc_M5 p) \<and> opt_marshalable (pc_H1 p) \<and> opt_marshalable (pc_H4 p) \<and>
     opt_marshalable (pc_H6 p) \<and> opt_marshalable (pc_H24 p)"

definition detail_marshalable :: "TokenDetail \<Rightarrow> bool" where
  "detail_marshalable d \<longleftrightarrow> list_all trade_marshalable (td_RecentTrades d) \<and> list_all event_marshalable (td_RecentEvents d) \<and>
     pred_option event_marshalable (td_MigrateEvent d) \<and>
     pred_option (\<lambda>m. opt_marshalable (tmm_LatestPrice m)) (td_MarketMetrics d) \<and>
     pred_option changes_marshalable (td_PriceChanges d) \<and> pred_option stats_marshalable (td_Stats24h d)"

fun body_marshalable :: "Body \<Rightarrow> bool" where
  "body_marshalable (EventsBody mint n es) = list_all event_marshalable es"
| "body_marshalable (TokensBody n view window items) = list_all list_item_marshalable items"
| "body_marshalable (SearchBody q n items) = list_all (\<lambda>i. opt_marshalable (sri_LatestPrice i)) items"
| "body_marshalable (DetailBody d) = detail_marshalable d"
| "body_marshalable (TradesBody mint n ts) = list_all trade_marshalable ts"
| "body_marshalable (CandlesBody mint r n cs) = list_all candle_marshalable cs"
| "body_marshalable (ActivityBody mint n hasMore cursor as) = list_all activity_marshalable as"
| "body_marshalable b = True"

text \<open>
  setJSONHeaders and json.NewEncoder(w).Encode: the encoder writes nothing when it fails, and the
  handler only logs that, so the response is the implicit 200 without a body.
\<close>

definition json_response :: "Body \<Rightarrow> HttpResponse" where
  "json_response b = \<lparr> rs_Status = 200, rs_JSONHeaders = True, rs_Body = (if body_marshalable b then b else NoBody) \<rparr>"

section \<open>Parameters\<close>

text \<open>url.Values.Get: the first value, or the empty string.\<close>

definition query_get :: "HttpRequest \<Rightarrow> string \<Rightarrow> string" where
  "query_get r key = deref_or [] (map_of (rq_Query r) key)"

definition parseListLimit :: "HttpRequest \<Rightarrow> int \<Rightarrow> int \<Rightarrow> int res" where
  "parseListLimit r defaultLimit maxLimit =
     (let raw = query_get r ''limit'' in
      if raw = [] then Inr defaultLimit
      else case Atoi raw of
        None \<Rightarrow> Inl (ErrMsg ''invalid limit'')
      | Some limit \<Rightarrow> (if limit \<le> 0 then Inl (ErrMsg ''invalid limit'') else if maxLimit < limit then Inr maxLimit else Inr limit))"

definition parseBeforeUnixTime :: "HttpRequest \<Rightarrow> int option res" where
  "parseBeforeUnixTime r =
     (let raw = query_get r ''before_time'' in
      if raw = [] then Inr None
      else case ParseInt64 raw of None \<Rightarrow> Inl (ErrMsg ''invalid before_time'') | Some v \<Rightarrow> Inr (Some v))"

definition parseActivityCursor :: "HttpRequest \<Rightarrow> TokenActivityCursor option res" where
  "parseActivityCursor r =
     (let rawTime = query_get r ''before_time''; rawSlot = query_get r ''before_slot''; rawSeq = query_get r ''before_seq'' in
      if rawTime = [] \<and> rawSlot = [] \<and> rawSeq = [] then Inr None
      else if rawTime = [] \<or> rawSlot = [] \<or> rawSeq = [] then Inl (ErrMsg ''invalid activity cursor'')
      else case ParseInt64 rawTime of
        None \<Rightarrow> Inl (ErrMsg ''invalid activity cursor'')
      | Some eventUnixTS \<Rightarrow> (case ParseUint64 rawSlot of
          None \<Rightarrow> Inl (ErrMsg ''invalid activity cursor'')
        | Some slot \<Rightarrow> (case ParseInt64 rawSeq of
            None \<Rightarrow> Inl (ErrMsg ''invalid activity cursor'')
          | Some insertSeq \<Rightarrow> Inr (Some \<lparr> qc_EventUnixTS = eventUnixTS, qc_Slot = slot, qc_InsertSeq = insertSeq \<rparr>))))"

text \<open>The text of an error made by fmt.Errorf without %w, or of a sentinel the handlers report.\<close>

fun err_text :: "gerror \<Rightarrow> string" where
  "err_text (ErrMsg m) = m"
| "err_text ErrInvalidTokenListWindow = ''invalid token list window''"
| "err_text ErrInvalidCandleResolution = ''invalid candle resolution''"
| "err_text ErrTokenNotFound = ''token not found''"
| "err_text ErrReplayBackpressure = ''ws replay backpressure''"
| "err_text ErrNoRows = ''no rows in result set''"
| "err_text (ErrDB m) = m"
| "err_text (ErrWrap m e) = m @ '': '' @ err_text e"

section \<open>Handlers\<close>

record 's eventQuery =
  eq_ListTokens :: "TokenListOptions \<Rightarrow> ('s, TokenListItem list) call"
  eq_SearchTokens :: "string \<Rightarrow> int \<Rightarrow> ('s, TokenSearchItem list) call"
  eq_ListServiceEventsByMint :: "string \<Rightarrow> int \<Rightarrow> ('s, Envelope list) call"
  eq_ListServiceEventsByMintAfterLogID :: "string \<Rightarrow> int \<Rightarrow> int \<Rightarrow> ('s, Envelope list) call"
  eq_ListTradesByMint :: "string \<Rightarrow> int \<Rightarrow> ('s, TokenTrade list) call"
  eq_ListCandlesByMint :: "string \<Rightarrow> string \<Rightarrow> int \<Rightarrow> int option \<Rightarrow> ('s, TokenCandle list) call"
  eq_ListActivityByMint :: "string \<Rightarrow> int \<Rightarrow> ('s, TokenActivity list) call"
  eq_ListActivityPageByMint :: "string \<Rightarrow> int \<Rightarrow> TokenActivityCursor option \<Rightarrow> ('s, TokenActivityPage) call"
  eq_GetTokenDetail :: "string \<Rightarrow> 's \<Rightarrow> TokenDetail res option \<times> 's"
  eq_BuildRealtimeStatsPayload :: "string \<Rightarrow> int \<Rightarrow> ('s, TokenStatsPayload option) call"

text \<open>The token service is one.\<close>

definition service_query :: "'s TokenService \<Rightarrow> 's eventQuery" where
  "service_query sv = \<lparr>
     eq_ListTokens = Query.ListTokens sv, eq_SearchTokens = Query.SearchTokens sv,
     eq_ListServiceEventsByMint = query_ListServiceEventsByMint sv,
     eq_ListServiceEventsByMintAfterLogID = query_ListServiceEventsByMintAfterLogID sv,
     eq_ListTradesByMint = ListTradesByMint sv, eq_ListCandlesByMint = query_ListCandlesByMint sv,
     eq_ListActivityByMint = ListActivityByMint sv, eq_ListActivityPageByMint = query_ListActivityPageByMint sv,
     eq_GetTokenDetail = Query.GetTokenDetail sv, eq_BuildRealtimeStatsPayload = BuildRealtimeStatsPayload sv \<rparr>"

record 's Handler =
  hd_ingest :: "'s event_inserter"
  hd_eventQuery :: "'s eventQuery option"

definition NewHandler :: "'s event_inserter \<Rightarrow> 's eventQuery option \<Rightarrow> 's Handler" where
  "NewHandler ins q = \<lparr> hd_ingest = ins, hd_eventQuery = q \<rparr>"

text \<open>A handler leaves a response, or panics (None) and the server drops the connection.\<close>

type_synonym 's http = "'s \<Rightarrow> HttpResponse option \<times> 's"

definition reply :: "HttpResponse \<Rightarrow> 's http" where
  "reply r s = (Some r, s)"

text \<open>The guards every query handler opens with: the method, the reader and, where the route has one, the mint.\<close>

definition on_get :: "HttpRequest \<Rightarrow> 's http \<Rightarrow> 's http" where
  "on_get r f = (if rq_Method r \<noteq> ''GET'' then reply (http_Error ''method not allowed'' 405) else f)"

definition with_query :: "'s Handler \<Rightarrow> string \<Rightarrow> ('s eventQuery \<Rightarrow> 's http) \<Rightarrow> 's http" where
  "with_query h missing f = (case hd_eventQuery h of None \<Rightarrow> reply (http_Error missing 500) | Some q \<Rightarrow> f q)"

definition with_mint :: "HttpRequest \<Rightarrow> (string \<Rightarrow> 's http) \<Rightarrow> 's http" where
  "with_mint r f = (if rq_mint r = [] then reply (http_Error ''missing mint'' 400) else f (rq_mint r))"

definition bad_request_or :: "'a res \<Rightarrow> ('a \<Rightarrow> 's http) \<Rightarrow> 's http" where
  "bad_request_or v f = (case v of Inl e \<Rightarrow> reply (http_Error (err_text e) 400) | Inr a \<Rightarrow> f a)"

definition answer :: "('s, 'a) call \<Rightarrow> (gerror \<Rightarrow> HttpResponse) \<Rightarrow> ('a \<Rightarrow> Body) \<Rightarrow> 's http" where
  "answer f failed body s = (case f s of (Inl e, s') \<Rightarrow> (Some (failed e), s') | (Inr a, s') \<Rightarrow> (Some (json_response (body a)), s'))"

definition Healthz :: "HttpRequest \<Rightarrow> 's http" where
  "Healthz r = on_get r (reply \<lparr> rs_Status = 200, rs_JSONHeaders = True, rs_Body = Healthy \<rparr>)"

definition ListTokenEvents :: "'s Handler \<Rightarrow> HttpRequest \<Rightarrow> 's http" where
  "ListTokenEvents h r = on_get r (with_query h ''events query not configured'' (\<lambda>q. with_mint r (\<lambda>mint.
     bad_request_or (parseListLimit r 100 500) (\<lambda>limit.
     answer (eq_ListServiceEventsByMint q mint limit) (\<lambda>e. http_Error ''failed to list events'' 500)
       (\<lambda>eventList. EventsBody mint (int (length eventList)) eventList)))))"

definition http_ListTokens :: "'s Handler \<Rightarrow> HttpRequest \<Rightarrow> 's http" where
  "http_ListTokens h r = on_get r (with_query h ''token query not configured'' (\<lambda>q.
     bad_request_or (parseListLimit r 100 500) (\<lambda>limit.
     let view = query_get r ''view''; window = query_get r ''window'' in
     answer (eq_ListTokens q \<lparr> lo_Limit = limit, lo_View = view, lo_Window = window \<rparr>)
       (\<lambda>e. if errors_Is e ErrInvalidTokenListWindow then http_Error (err_text e) 400 else http_Error ''failed to list tokens'' 500)
       (\<lambda>items. TokensBody (int (length items)) view window items))))"

definition http_SearchTokens :: "'s Handler \<Rightarrow> HttpRequest \<Rightarrow> 's http" where
  "http_SearchTokens h r = on_get r (with_query h ''token query not configured'' (\<lambda>q.
     bad_request_or (parseListLimit r 8 20) (\<lambda>limit.
     let searchQuery = query_get r ''q'' in
     answer (eq_SearchTokens q searchQuery limit) (\<lambda>e. http_Error ''failed to search tokens'' 500)
       (\<lambda>items. SearchBody searchQuery (int (length items)) items))))"

definition http_GetTokenDetail :: "'s Handler \<Rightarrow> HttpRequest \<Rightarrow> 's http" where
  "http_GetTokenDetail h r = on_get r (with_query h ''token query not configured'' (\<lambda>q. with_mint r (\<lambda>mint s.
     case eq_GetTokenDetail q mint s of
       (None, s') \<Rightarrow> (None, s')
     | (Some (Inl e), s') \<Rightarrow>
         (Some (if errors_Is e ErrTokenNotFound then http_Error ''token not found'' 404
                else http_Error ''failed to get token detail'' 500), s')
     | (Some (Inr detail), s') \<Rightarrow> (Some (json_response (DetailBody detail)), s'))))"

definition ListTokenTrades :: "'s Handler \<Rightarrow> HttpRequest \<Rightarrow> 's http" where
  "ListTokenTrades h r = on_get r (with_query h ''token query not configured'' (\<lambda>q. with_mint r (\<lambda>mint.
     bad_request_or (parseListLimit r 100 500) (\<lambda>limit.
     answer (eq_ListTradesByMint q mint limit) (\<lambda>e. http_Error ''failed to list trades'' 500)
       (\<lambda>tradeList. TradesBody mint (int (length tradeList)) tradeList)))))"

definition ListTokenCandles :: "'s Handler \<Rightarrow> HttpRequest \<Rightarrow> 's http" where
  "ListTokenCandles h r = on_get r (with_query h ''token query not configured'' (\<lambda>q. with_mint r (\<lambda>mint.
     bad_request_or (parseListLimit r 300 2000) (\<lambda>limit.
     let resolution = (if query_get r ''resolution'' = [] then ''1m'' else query_get r ''resolution'') in
     bad_request_or (parseBeforeUnixTime r) (\<lambda>beforeTime.
     answer (eq_ListCandlesByMint q mint resolution limit beforeTime)
       (\<lambda>e. if errors_Is e ErrInvalidCandleResolution then http_Error ''invalid resolution'' 400
            else http_Error ''failed to list candles'' 500)
       (\<lambda>candles. CandlesBody mint resolution (int (length candles)) candles))))))"

definition ListTokenActivity :: "'s Handler \<Rightarrow> HttpRequest \<Rightarrow> 's http" where
  "ListTokenActivity h r = on_get r (with_query h ''token query not configured'' (\<lambda>q. with_mint r (\<lambda>mint.
     bad_request_or (parseListLimit r 100 500) (\<lambda>limit.
     bad_request_or (parseActivityCursor r) (\<lambda>cursor.
     answer (eq_ListActivityPageByMint q mint limit cursor) (\<lambda>e. http_Error ''failed to list activity'' 500)
       (\<lambda>page. ActivityBody mint (int (length (qp_Activity page))) (qp_HasMore page) (qp_NextCursor page) (qp_Activity page)))))))"

section \<open>Ingesting over HTTP\<close>

text \<open>Reading an envelope; a json.RawMessage takes any value, also null.\<close>

definition st_int64 :: "json \<Rightarrow> int \<Rightarrow> int \<times> bool" where
  "st_int64 j v = (case j of
      JNum s \<Rightarrow> (case ParseInt64 s of Some n \<Rightarrow> (n, True) | None \<Rightarrow> (v, False))
    | JNull \<Rightarrow> (v, True)
    | _ \<Rightarrow> (v, False))"

definition st_oint64 :: "json \<Rightarrow> int option \<Rightarrow> int option \<times> bool" where
  "st_oint64 j v = (case j of
      JNull \<Rightarrow> (None, True)
    | _ \<Rightarrow> (case st_int64 j 0 of (n, ok) \<Rightarrow> if ok then (Some n, True) else (v, False)))"

definition st_raw :: "json \<Rightarrow> RawMessage \<Rightarrow> RawMessage \<times> bool" where
  "st_raw j v = (RawJson j, True)"

definition dec_InstructionPath :: "(string \<times> json) list \<Rightarrow> InstructionPath \<Rightarrow> InstructionPath \<times> bool" where
  "dec_InstructionPath fs z = (\<lparr>
     ip_Source = fst (dec_field st_str ''source'' fs (ip_Source z)),
     ip_OuterIndex = fst (dec_field st_int64 ''outer_index'' fs (ip_OuterIndex z)),
     ip_InnerIndex = fst (dec_field st_oint64 ''inner_index'' fs (ip_InnerIndex z)) \<rparr>,
     snd (dec_field st_str ''source'' fs (ip_Source z)) \<and>
     snd (dec_field st_int64 ''outer_index'' fs (ip_OuterIndex z)) \<and>
     snd (dec_field st_oint64 ''inner_index'' fs (ip_InnerIndex z)))"

definition dec_EventRefs :: "(string \<times> json) list \<Rightarrow> EventRefs \<Rightarrow> EventRefs \<times> bool" where
  "dec_EventRefs fs z = (\<lparr>
     er_Mint = fst (dec_field st_ostr ''mint'' fs (er_Mint z)),
     er_Pool = fst (dec_field st_ostr ''pool'' fs (er_Pool z)),
     er_BondingCurve = fst (dec_field st_ostr ''bonding_curve'' fs (er_BondingCurve z)),
     er_User = fst (dec_field st_ostr ''user'' fs (er_User z)),
     er_Creator = fst (dec_field st_ostr ''creator'' fs (er_Creator z)),
     er_BaseMint = fst (dec_field st_ostr ''base_mint'' fs (er_BaseMint z)),
     er_QuoteMint = fst (dec_field st_ostr ''quote_mint'' fs (er_QuoteMint z)),
     er_LPMint = fst (dec_field st_ostr ''lp_mint'' fs (er_LPMint z)) \<rparr>,
     snd (dec_field st_ostr ''mint'' fs (er_Mint z)) \<and>
     snd (dec_field st_ostr ''pool'' fs (er_Pool z)) \<and>
     snd (dec_field st_ostr ''bonding_curve'' fs (er_BondingCurve z)) \<and>
     snd (dec_field st_ostr ''user'' fs (er_User z)) \<and>
     snd (dec_field st_ostr ''creator'' fs (er_Creator z)) \<and>
     snd (dec_field st_ostr ''base_mint'' fs (er_BaseMint z)) \<and>
     snd (dec_field st_ostr ''quote_mint'' fs (er_QuoteMint z)) \<and>
     snd (dec_field st_ostr ''lp_mint'' fs (er_LPMint z)))"

definition dec_Envelope :: "(string \<times> json) list \<Rightarrow> Envelope \<Rightarrow> Envelope \<times> bool" where
  "dec_Envelope fs z = (\<lparr>
     ev_LogID = fst (dec_field st_int64 ''log_id'' fs (ev_LogID z)),
     ev_SchemaVersion = fst (dec_field st_int64 ''schema_version'' fs (ev_SchemaVersion z)),
     ev_EventID = fst (dec_field st_str ''event_id'' fs (ev_EventID z)),
     ev_Chain = fst (dec_field st_str ''chain'' fs (ev_Chain z)),
     ev_Protocol = fst (dec_field st_str ''protocol'' fs (ev_Protocol z)),
     ev_EventType = fst (dec_field st_str ''event_type'' fs (ev_EventType z)),
     ev_Commitment = fst (dec_field st_str ''commitment'' fs (ev_Commitment z)),
     ev_Slot = fst (dec_field (st_uint 18446744073709551616) ''slot'' fs (ev_Slot z)),
     ev_TxSignature = fst (dec_field st_str ''tx_signature'' fs (ev_TxSignature z)),
     ev_TxIndex = fst (dec_field (st_uint 18446744073709551616) ''tx_index'' fs (ev_TxIndex z)),
     ev_InstructionPath = fst (dec_field (st_struct dec_InstructionPath) ''instruction_path'' fs (ev_InstructionPath z)),
     ev_EventSource = fst (dec_field st_str ''event_source'' fs (ev_EventSource z)),
     ev_EventUnixTS = fst (dec_field st_int64 ''event_unix_ts'' fs (ev_EventUnixTS z)),
     ev_Refs = fst (dec_field (st_struct dec_EventRefs) ''refs'' fs (ev_Refs z)),
     ev_Payload = fst (dec_field st_raw ''payload'' fs (ev_Payload z)) \<rparr>,
     snd (dec_field st_int64 ''log_id'' fs (ev_LogID z)) \<and>
     snd (dec_field st_int64 ''schema_version'' fs (ev_SchemaVersion z)) \<and>
     snd (dec_field st_str ''event_id'' fs (ev_EventID z)) \<and>
     snd (dec_field st_str ''chain'' fs (ev_Chain z)) \<and>
     snd (dec_field st_str ''protocol'' fs (ev_Protocol z)) \<and>
     snd (dec_field st_str ''event_type'' fs (ev_EventType z)) \<and>
     snd (dec_field st_str ''commitment'' fs (ev_Commitment z)) \<and>
     snd (dec_field (st_uint 18446744073709551616) ''slot'' fs (ev_Slot z)) \<and>
     snd (dec_field st_str ''tx_signature'' fs (ev_TxSignature z)) \<and>
     snd (dec_field (st_uint 18446744073709551616) ''tx_index'' fs (ev_TxIndex z)) \<and>
     snd (dec_field (st_struct dec_InstructionPath) ''instruction_path'' fs (ev_InstructionPath z)) \<and>
     snd (dec_field st_str ''event_source'' fs (ev_EventSource z)) \<and>
     snd (dec_field st_int64 ''event_unix_ts'' fs (ev_EventUnixTS z)) \<and>
     snd (dec_field (st_struct dec_EventRefs) ''refs'' fs (ev_Refs z)) \<and>
     snd (dec_field st_raw ''payload'' fs (ev_Payload z)))"

text \<open>The response (None when a send on the hub panicked), the hub and the store afterwards.\<close>

definition IngestEvent :: "'s Handler \<Rightarrow> HttpRequest \<Rightarrow> Hub \<Rightarrow> 's \<Rightarrow> HttpResponse option \<times> (chan_panic + Hub) \<times> 's" where
  "IngestEvent h r hub s =
     (if rq_Method r \<noteq> ''POST'' then (Some (http_Error ''method not allowed'' 405), Inr hub, s)
      else case unmarshal_struct dec_Envelope zero_Envelope (rq_Body r) of
        Inl e \<Rightarrow> (Some (http_Error ''invalid json body'' 400), Inr hub, s)
      | Inr event \<Rightarrow>
          (if ev_EventID event = [] \<or> ev_Protocol event = [] \<or> ev_EventType event = []
           then (Some (http_Error ''missing required fields'' 400), Inr hub, s)
           else case HandleEvent (hd_ingest h) event hub s of
             (_, Inl p, s') \<Rightarrow> (None, Inl p, s')
           | (Some e, Inr hub', s') \<Rightarrow> (Some (http_Error ''failed to handle event'' 400), Inr hub', s')
           | (None, Inr hub', s') \<Rightarrow>
               (Some \<lparr> rs_Status = 202, rs_JSONHeaders = False, rs_Body = NoBody \<rparr>, Inr hub', s')))"

end
