(* ===== verification/Projector.thy ===== *)
theory Projector
  imports ReadModel
begin

text \<open>
  internal/projector/projector.go and batch_writer.go: what each event writes to the read model.
  The writer is an interface with two implementations: the store itself, and a batch that
  queues the writes and hands them over in Flush.
\<close>

section \<open>Writers\<close>

record 's readModelWriter =
  w_UpsertToken :: "TokenRecord \<Rightarrow> 's action"
  w_UpsertTokenMetadata :: "TokenMetadataRecord \<Rightarrow> 's action"
  w_UpsertTokenMarket :: "TokenMarketRecord \<Rightarrow> 's action"
  w_CloseTokenMarket :: "string \<Rightarrow> int \<Rightarrow> 's action"
  w_InsertTradeEvent :: "TradeEventRecord \<Rightarrow> 's action"
  w_InsertActivityEvent :: "ActivityEventRecord \<Rightarrow> 's action"

record 's batchCapableWriter = "'s readModelWriter" +
  w_InsertTradeEventsBatch :: "TradeEventRecord list \<Rightarrow> 's action"
  w_InsertActivityEventsBatch :: "ActivityEventRecord list \<Rightarrow> 's action"

definition store_writer :: "Pg \<Rightarrow> Db batchCapableWriter" where
  "store_writer pg = \<lparr>
     w_UpsertToken = UpsertToken pg, w_UpsertTokenMetadata = UpsertTokenMetadata pg,
     w_UpsertTokenMarket = UpsertTokenMarket pg, w_CloseTokenMarket = CloseTokenMarket pg,
     w_InsertTradeEvent = InsertTradeEvent pg, w_InsertActivityEvent = InsertActivityEvent pg,
     w_InsertTradeEventsBatch = InsertTradeEventsBatch pg,
     w_InsertActivityEventsBatch = InsertActivityEventsBatch pg \<rparr>"

section \<open>Helpers\<close>

definition ptrIfNotEmpty :: "string \<Rightarrow> string option" where
  "ptrIfNotEmpty v = (if v = [] then None else Some v)"

definition stringValue :: "string option \<Rightarrow> string" where
  "stringValue v = (case v of None \<Rightarrow> [] | Some s \<Rightarrow> s)"

fun firstNonNil :: "string option list \<Rightarrow> string option" where
  "firstNonNil [] = None"
| "firstNonNil (v # vs) = (case v of Some s \<Rightarrow> if s \<noteq> [] then Some s else firstNonNil vs | None \<Rightarrow> firstNonNil vs)"

definition optionalInt32FromUint32 :: "int option \<Rightarrow> int option" where
  "optionalInt32FromUint32 v = map_option wrap32 v"

definition requiredAmount :: "string option \<Rightarrow> string \<Rightarrow> string \<Rightarrow> string res" where
  "requiredAmount v field eventID =
     (if v = None \<or> v = Some [] then Inl (ErrMsg (''missing '' @ field @ '' for event '' @ eventID))
      else Inr (the v))"

definition otherMint :: "string \<Rightarrow> string \<Rightarrow> string \<Rightarrow> string" where
  "otherMint mint baseMint quoteMint =
     (if mint = baseMint then quoteMint else if mint = quoteMint then baseMint else [])"

definition trackedMint :: "Envelope \<Rightarrow> string \<Rightarrow> string \<Rightarrow> string" where
  "trackedMint event baseMint quoteMint =
     (if deref_or [] (er_Mint (ev_Refs event)) \<noteq> [] then deref_or [] (er_Mint (ev_Refs event))
      else if baseMint = SolMint \<and> quoteMint \<noteq> [] then quoteMint
      else if quoteMint = SolMint \<and> baseMint \<noteq> [] then baseMint
      else [])"

definition trackedPairAmounts :: "string \<Rightarrow> string \<Rightarrow> string \<Rightarrow> string \<Rightarrow> string \<Rightarrow> string \<times> string" where
  "trackedPairAmounts mint baseMint quoteMint baseAmount quoteAmount =
     (if mint = quoteMint then (quoteAmount, baseAmount) else (baseAmount, quoteAmount))"

definition liquidityTrackedAmounts :: "string \<Rightarrow> PumpAmmLiquidityPayload \<Rightarrow> string \<times> string" where
  "liquidityTrackedAmounts mint payload =
     (if pal_Action payload = ''deposit'' then
        trackedPairAmounts mint (pal_BaseMint payload) (pal_QuoteMint payload)
          (stringValue (pal_BaseAmountIn payload)) (stringValue (pal_QuoteAmountIn payload))
      else if pal_Action payload = ''withdraw'' then
        trackedPairAmounts mint (pal_BaseMint payload) (pal_QuoteMint payload)
          (stringValue (pal_BaseAmountOut payload)) (stringValue (pal_QuoteAmountOut payload))
      else ([], []))"

definition tokenMetadataFromCreatePool :: "string \<Rightarrow> string \<Rightarrow> PumpAmmCreatePoolPayload \<Rightarrow> TokenMetadataRecord" where
  "tokenMetadataFromCreatePool eventID mint payload =
     (let swapped = (mint = pap_QuoteMint payload);
          quoteMint = (if swapped then pap_BaseMint payload else pap_QuoteMint payload);
          tokenDecimals = wrap32 (if swapped then pap_QuoteMintDecimals payload else pap_BaseMintDecimals payload);
          quoteDecimals = wrap32 (if swapped then pap_BaseMintDecimals payload else pap_QuoteMintDecimals payload)
      in \<lparr> tmd_Mint = mint, tmd_Name = None, tmd_Symbol = None, tmd_URI = None, tmd_ImageURI = None,
           tmd_Decimals = Some tokenDecimals, tmd_TotalSupplyRaw = None,
           tmd_QuoteMint = ptrIfNotEmpty quoteMint, tmd_QuoteDecimals = Some quoteDecimals,
           tmd_Creator = firstNonNil [ptrIfNotEmpty (pap_CoinCreator payload), ptrIfNotEmpty (pap_Creator payload)],
           tmd_BondingCurve = None, tmd_TokenProgram = None, tmd_IsMayhemMode = None,
           tmd_IsCashbackEnabled = None, tmd_SourceEventID = ptrIfNotEmpty eventID \<rparr>)"

section \<open>Trades of an AMM swap\<close>

text \<open>The token is one side of the pair; the trade is seen from the token's side.\<close>

definition swap_sides :: "string \<Rightarrow> PumpAmmSwapPayload \<Rightarrow> string \<Rightarrow> (string \<times> string \<times> string \<times> string) res" where
  "swap_sides mint payload eventID =
     (if mint = pas_QuoteMint payload then
        (if pas_Side payload = ''sell'' then
           (case requiredAmount (pas_QuoteAmountOut payload) ''quote_amount_out'' eventID of Inl e \<Rightarrow> Inl e
            | Inr tokenAmount \<Rightarrow>
              (case requiredAmount (pas_BaseAmountIn payload) ''base_amount_in'' eventID of Inl e \<Rightarrow> Inl e
               | Inr quoteAmount \<Rightarrow> Inr (pas_BaseMint payload, ''buy'', tokenAmount, quoteAmount)))
         else if pas_Side payload = ''buy'' \<or> pas_Side payload = ''buy_exact_quote_in'' then
           (case requiredAmount (pas_QuoteAmountIn payload) ''quote_amount_in'' eventID of Inl e \<Rightarrow> Inl e
            | Inr tokenAmount \<Rightarrow>
              (case requiredAmount (pas_BaseAmountOut payload) ''base_amount_out'' eventID of Inl e \<Rightarrow> Inl e
               | Inr quoteAmount \<Rightarrow> Inr (pas_BaseMint payload, ''sell'', tokenAmount, quoteAmount)))
         else Inl (ErrMsg (''unsupported pumpamm swap side '' @ pas_Side payload @ '' for event '' @ eventID)))
      else
        (if pas_Side payload = ''sell'' then
           (case requiredAmount (pas_BaseAmountIn payload) ''base_amount_in'' eventID of Inl e \<Rightarrow> Inl e
            | Inr tokenAmount \<Rightarrow>
              (case requiredAmount (pas_QuoteAmountOut payload) ''quote_amount_out'' eventID of Inl e \<Rightarrow> Inl e
               | Inr quoteAmount \<Rightarrow> Inr (pas_QuoteMint payload, ''sell'', tokenAmount, quoteAmount)))
         else if pas_Side payload = ''buy'' \<or> pas_Side payload = ''buy_exact_quote_in'' then
           (case requiredAmount (pas_BaseAmountOut payload) ''base_amount_out'' eventID of Inl e \<Rightarrow> Inl e
            | Inr tokenAmount \<Rightarrow>
              (case requiredAmount (pas_QuoteAmountIn payload) ''quote_amount_in'' eventID of Inl e \<Rightarrow> Inl e
               | Inr quoteAmount \<Rightarrow> Inr (pas_QuoteMint payload, ''buy'', tokenAmount, quoteAmount)))
         else Inl (ErrMsg (''unsupported pumpamm swap side '' @ pas_Side payload @ '' for event '' @ eventID))))"

definition buildPumpAmmTrade :: "Envelope \<Rightarrow> PumpAmmSwapPayload \<Rightarrow> TradeEventRecord res" where
  "buildPumpAmmTrade event payload =
     (let mint = trackedMint event (pas_BaseMint payload) (pas_QuoteMint payload) in
      if mint = [] then Inl (ErrMsg (''tracked mint missing for pumpamm swap event '' @ ev_EventID event))
      else case swap_sides mint payload (ev_EventID event) of
        Inl e \<Rightarrow> Inl e
      | Inr (quoteMint, side, tokenAmount, quoteAmount) \<Rightarrow> Inr \<lparr>
          te_EventID = ev_EventID event, te_Mint = mint, te_MarketID = pas_Pool payload,
          te_MarketType = ''pumpamm_pool'', te_Protocol = ''pumpamm'', te_Side = side,
          te_IxName = pas_IxName payload, te_UserAddress = pas_User payload, te_QuoteMint = quoteMint,
          te_TokenAmountRaw = tokenAmount, te_QuoteAmountRaw = quoteAmount,
          te_TxSignature = ev_TxSignature event, te_Slot = ev_Slot event,
          te_EventUnixTS = ev_EventUnixTS event, te_RawEventSource = ev_EventSource event \<rparr>)"

section \<open>Projections\<close>

text \<open>The payload of the envelope goes into the details of the activity.\<close>

definition insertActivity ::
    "('s, 'x) readModelWriter_scheme \<Rightarrow> Envelope \<Rightarrow> string \<Rightarrow> string \<Rightarrow> ActivityEventRecord \<Rightarrow> 's action" where
  "insertActivity w event mint activityType activity = (case marshal_raw (ev_Payload event) of
      Inl e \<Rightarrow> fail_with (ErrWrap ''marshal activity payload'' e)
    | Inr details \<Rightarrow> w_InsertActivityEvent w
        (activity\<lparr>ae_Mint := mint, ae_ActivityType := activityType, ae_Details := RawJson details\<rparr>))"

definition projectPumpfunCreate ::
    "('s, 'x) readModelWriter_scheme \<Rightarrow> Envelope \<Rightarrow> PumpfunCreatePayload \<Rightarrow> 's action" where
  "projectPumpfunCreate w event payload =
     (let createEventID = ev_EventID event;
          creator = ptrIfNotEmpty (pfc_Creator payload);
          bondingCurve = ptrIfNotEmpty (pfc_BondingCurve payload);
          tokenProgram = ptrIfNotEmpty (pfc_TokenProgram payload);
          activeMarketID = ptrIfNotEmpty (pfc_BondingCurve payload);
          activeMarketType = ptrIfNotEmpty ''pumpfun_curve''
      in
      and_then (w_UpsertToken w \<lparr>
          tok_Mint = pfc_Mint payload, tok_Creator = creator, tok_BondingCurve = bondingCurve,
          tok_TokenProgram = tokenProgram, tok_CreateEventID = Some createEventID,
          tok_FirstSeenAt = ev_EventUnixTS event, tok_CurrentStage = ''bonding_curve'',
          tok_ActiveMarketID = activeMarketID, tok_ActiveMarketType = activeMarketType,
          tok_MigratedAt = None \<rparr>)
      (and_then (w_UpsertTokenMetadata w \<lparr>
          tmd_Mint = pfc_Mint payload, tmd_Name = ptrIfNotEmpty (pfc_Name payload),
          tmd_Symbol = ptrIfNotEmpty (pfc_Symbol payload), tmd_URI = ptrIfNotEmpty (pfc_URI payload),
          tmd_ImageURI = None, tmd_Decimals = optionalInt32FromUint32 (pfc_MintDecimals payload),
          tmd_TotalSupplyRaw = ptrIfNotEmpty (pfc_TokenTotalSupply payload),
          tmd_QuoteMint = ptrIfNotEmpty SolMint, tmd_QuoteDecimals = Some SolDecimals,
          tmd_Creator = creator, tmd_BondingCurve = bondingCurve, tmd_TokenProgram = tokenProgram,
          tmd_IsMayhemMode = Some (pfc_IsMayhemMode payload),
          tmd_IsCashbackEnabled = Some (pfc_IsCashbackEnabled payload),
          tmd_SourceEventID = Some createEventID \<rparr>)
      (and_then (w_UpsertTokenMarket w \<lparr>
          tmk_MarketID = pfc_BondingCurve payload, tmk_Mint = pfc_Mint payload, tmk_Protocol = ''pumpfun'',
          tmk_MarketType = ''pumpfun_curve'', tmk_BondingCurve = bondingCurve, tmk_Pool = None,
          tmk_BaseMint = ptrIfNotEmpty (pfc_Mint payload), tmk_QuoteMint = ptrIfNotEmpty SolMint,
          tmk_BaseMintDecimals = optionalInt32FromUint32 (pfc_MintDecimals payload),
          tmk_QuoteMintDecimals = Some SolDecimals, tmk_LPMint = None,
          tmk_StartedAt = ev_EventUnixTS event, tmk_EndedAt = None, tmk_CreateEventID = ev_EventID event \<rparr>)
      (insertActivity w event (pfc_Mint payload) ''create'' \<lparr>
          ae_EventID = ev_EventID event, ae_Mint = pfc_Mint payload, ae_Protocol = ''pumpfun'',
          ae_EventType = ev_EventType event, ae_ActivityType = ''create'', ae_MarketID = activeMarketID,
          ae_MarketType = activeMarketType, ae_UserAddress = ptrIfNotEmpty (pfc_User payload),
          ae_Side = None, ae_QuoteMint = None, ae_TokenAmountRaw = None, ae_QuoteAmountRaw = None,
          ae_TxSignature = ev_TxSignature event, ae_Slot = ev_Slot event,
          ae_EventUnixTS = ev_EventUnixTS event, ae_RawEventSource = ev_EventSource event,
          ae_Details = RawEmpty, ae_InsertSeq = 0 \<rparr>))))"

definition projectPumpfunTrade ::
    "('s, 'x) readModelWriter_scheme \<Rightarrow> Envelope \<Rightarrow> PumpfunTradePayload \<Rightarrow> 's action" where
  "projectPumpfunTrade w event payload =
     and_then (w_InsertTradeEvent w \<lparr>
         te_EventID = ev_EventID event, te_Mint = pft_Mint payload, te_MarketID = pft_BondingCurve payload,
         te_MarketType = ''pumpfun_curve'', te_Protocol = ''pumpfun'', te_Side = pft_Side payload,
         te_IxName = pft_IxName payload, te_UserAddress = pft_User payload, te_QuoteMint = SolMint,
         te_TokenAmountRaw = pft_TokenAmount payload, te_QuoteAmountRaw = pft_SolAmount payload,
         te_TxSignature = ev_TxSignature event, te_Slot = ev_Slot event,
         te_EventUnixTS = ev_EventUnixTS event, te_RawEventSource = ev_EventSource event \<rparr>)
     (insertActivity w event (pft_Mint payload) ''trade'' \<lparr>
         ae_EventID = ev_EventID event, ae_Mint = pft_Mint payload, ae_Protocol = ''pumpfun'',
         ae_EventType = ev_EventType event, ae_ActivityType = ''trade'',
         ae_MarketID = ptrIfNotEmpty (pft_BondingCurve payload),
         ae_MarketType = ptrIfNotEmpty ''pumpfun_curve'',
         ae_UserAddress = ptrIfNotEmpty (pft_User payload), ae_Side = ptrIfNotEmpty (pft_Side payload),
         ae_QuoteMint = ptrIfNotEmpty SolMint, ae_TokenAmountRaw = ptrIfNotEmpty (pft_TokenAmount payload),
         ae_QuoteAmountRaw = ptrIfNotEmpty (pft_SolAmount payload),
         ae_TxSignature = ev_TxSignature event, ae_Slot = ev_Slot event,
         ae_EventUnixTS = ev_EventUnixTS event, ae_RawEventSource = ev_EventSource event,
         ae_Details = RawEmpty, ae_InsertSeq = 0 \<rparr>)"

definition projectPumpfunMigrate ::
    "('s, 'x) readModelWriter_scheme \<Rightarrow> Envelope \<Rightarrow> PumpfunMigratePayload \<Rightarrow> 's action" where
  "projectPumpfunMigrate w event payload =
     (let migratedAt = ev_EventUnixTS event;
          activeMarketID = ptrIfNotEmpty (pfm_Pool payload);
          activeMarketType = ptrIfNotEmpty ''pumpamm_pool''
      in
      and_then (if pfm_BondingCurve payload \<noteq> []
          then w_CloseTokenMarket w (pfm_BondingCurve payload) (ev_EventUnixTS event) else done_ok)
      (and_then (w_UpsertToken w \<lparr>
          tok_Mint = pfm_Mint payload,
          tok_Creator = ptrIfNotEmpty (stringValue (er_Creator (ev_Refs event))),
          tok_BondingCurve = ptrIfNotEmpty (pfm_BondingCurve payload),
          tok_TokenProgram = ptrIfNotEmpty (pfm_TokenProgram payload), tok_CreateEventID = None,
          tok_FirstSeenAt = ev_EventUnixTS event, tok_CurrentStage = ''pool'',
          tok_ActiveMarketID = activeMarketID, tok_ActiveMarketType = activeMarketType,
          tok_MigratedAt = Some migratedAt \<rparr>)
      (and_then (w_UpsertTokenMarket w \<lparr>
          tmk_MarketID = pfm_Pool payload, tmk_Mint = pfm_Mint payload, tmk_Protocol = ''pumpamm'',
          tmk_MarketType = ''pumpamm_pool'', tmk_BondingCurve = None,
          tmk_Pool = ptrIfNotEmpty (pfm_Pool payload), tmk_BaseMint = ptrIfNotEmpty (pfm_Mint payload),
          tmk_QuoteMint = ptrIfNotEmpty SolMint, tmk_BaseMintDecimals = None, tmk_QuoteMintDecimals = None,
          tmk_LPMint = ptrIfNotEmpty (pfm_LPMint payload), tmk_StartedAt = ev_EventUnixTS event,
          tmk_EndedAt = None, tmk_CreateEventID = ev_EventID event \<rparr>)
      (insertActivity w event (pfm_Mint payload) ''migrate'' \<lparr>
          ae_EventID = ev_EventID event, ae_Mint = pfm_Mint payload, ae_Protocol = ''pumpfun'',
          ae_EventType = ev_EventType event, ae_ActivityType = ''migrate'', ae_MarketID = activeMarketID,
          ae_MarketType = activeMarketType, ae_UserAddress = ptrIfNotEmpty (pfm_User payload),
          ae_Side = None, ae_QuoteMint = ptrIfNotEmpty SolMint,
          ae_TokenAmountRaw = ptrIfNotEmpty (pfm_MintAmount payload),
          ae_QuoteAmountRaw = ptrIfNotEmpty (pfm_SolAmount payload),
          ae_TxSignature = ev_TxSignature event, ae_Slot = ev_Slot event,
          ae_EventUnixTS = ev_EventUnixTS event, ae_RawEventSource = ev_EventSource event,
          ae_Details = RawEmpty, ae_InsertSeq = 0 \<rparr>))))"

definition projectPumpAmmCreatePool ::
    "('s, 'x) readModelWriter_scheme \<Rightarrow> Envelope \<Rightarrow> PumpAmmCreatePoolPayload \<Rightarrow> 's action" where
  "projectPumpAmmCreatePool w event payload =
     (let mint = trackedMint event (pap_BaseMint payload) (pap_QuoteMint payload) in
      if mint = [] then fail_with (ErrMsg (''tracked mint missing for pumpamm create_pool event '' @ ev_EventID event))
      else
      let metadata = tokenMetadataFromCreatePool (ev_EventID event) mint payload;
          activeMarketID = ptrIfNotEmpty (pap_Pool payload);
          activeMarketType = ptrIfNotEmpty ''pumpamm_pool'';
          amounts = trackedPairAmounts mint (pap_BaseMint payload) (pap_QuoteMint payload)
            (pap_BaseAmountIn payload) (pap_QuoteAmountIn payload)
      in
      and_then (w_UpsertToken w \<lparr>
          tok_Mint = mint,
          tok_Creator = firstNonNil [ptrIfNotEmpty (pap_CoinCreator payload), ptrIfNotEmpty (pap_Creator payload)],
          tok_BondingCurve = None, tok_TokenProgram = None, tok_CreateEventID = None,
          tok_FirstSeenAt = ev_EventUnixTS event, tok_CurrentStage = ''pool'',
          tok_ActiveMarketID = activeMarketID, tok_ActiveMarketType = activeMarketType,
          tok_MigratedAt = None \<rparr>)
      (and_then (w_UpsertTokenMetadata w metadata)
      (and_then (w_UpsertTokenMarket w \<lparr>
          tmk_MarketID = pap_Pool payload, tmk_Mint = mint, tmk_Protocol = ''pumpamm'',
          tmk_MarketType = ''pumpamm_pool'', tmk_BondingCurve = None,
          tmk_Pool = ptrIfNotEmpty (pap_Pool payload), tmk_BaseMint = ptrIfNotEmpty (pap_BaseMint payload),
          tmk_QuoteMint = ptrIfNotEmpty (pap_QuoteMint payload),
          tmk_BaseMintDecimals = Some (wrap32 (pap_BaseMintDecimals payload)),
          tmk_QuoteMintDecimals = Some (wrap32 (pap_QuoteMintDecimals payload)),
          tmk_LPMint = ptrIfNotEmpty (pap_LPMint payload), tmk_StartedAt = ev_EventUnixTS event,
          tmk_EndedAt = None, tmk_CreateEventID = ev_EventID event \<rparr>)
      (insertActivity w event mint ''create_pool'' \<lparr>
          ae_EventID = ev_EventID event, ae_Mint = mint, ae_Protocol = ''pumpamm'',
          ae_EventType = ev_EventType event, ae_ActivityType = ''create_pool'', ae_MarketID = activeMarketID,
          ae_MarketType = activeMarketType, ae_UserAddress = ptrIfNotEmpty (pap_Creator payload),
          ae_Side = None, ae_QuoteMint = tmd_QuoteMint metadata,
          ae_TokenAmountRaw = ptrIfNotEmpty (fst amounts), ae_QuoteAmountRaw = ptrIfNotEmpty (snd amounts),
          ae_TxSignature = ev_TxSignature event, ae_Slot = ev_Slot event,
          ae_EventUnixTS = ev_EventUnixTS event, ae_RawEventSource = ev_EventSource event,
          ae_Details = RawEmpty, ae_InsertSeq = 0 \<rparr>))))"

definition projectPumpAmmSwap ::
    "('s, 'x) readModelWriter_scheme \<Rightarrow> Envelope \<Rightarrow> PumpAmmSwapPayload \<Rightarrow> 's action" where
  "projectPumpAmmSwap w event payload = (case buildPumpAmmTrade event payload of
      Inl e \<Rightarrow> fail_with e
    | Inr trade \<Rightarrow>
      and_then (w_InsertTradeEvent w trade)
      (insertActivity w event (te_Mint trade) ''trade'' \<lparr>
          ae_EventID = te_EventID trade, ae_Mint = te_Mint trade, ae_Protocol = te_Protocol trade,
          ae_EventType = ev_EventType event, ae_ActivityType = ''trade'',
          ae_MarketID = ptrIfNotEmpty (te_MarketID trade), ae_MarketType = ptrIfNotEmpty (te_MarketType trade),
          ae_UserAddress = ptrIfNotEmpty (te_UserAddress trade), ae_Side = ptrIfNotEmpty (te_Side trade),
          ae_QuoteMint = ptrIfNotEmpty (te_QuoteMint trade),
          ae_TokenAmountRaw = ptrIfNotEmpty (te_TokenAmountRaw trade),
          ae_QuoteAmountRaw = ptrIfNotEmpty (te_QuoteAmountRaw trade),
          ae_TxSignature = te_TxSignature trade, ae_Slot = te_Slot trade,
          ae_EventUnixTS = te_EventUnixTS trade, ae_RawEventSource = te_RawEventSource trade,
          ae_Details = RawEmpty, ae_InsertSeq = 0 \<rparr>))"

definition projectPumpAmmLiquidity ::
    "('s, 'x) readModelWriter_scheme \<Rightarrow> Envelope \<Rightarrow> PumpAmmLiquidityPayload \<Rightarrow> 's action" where
  "projectPumpAmmLiquidity w event payload =
     (let mint = trackedMint event (pal_BaseMint payload) (pal_QuoteMint payload) in
      if mint = [] then fail_with (ErrMsg (''tracked mint missing for pumpamm liquidity event '' @ ev_EventID event))
      else
      let amounts = liquidityTrackedAmounts mint payload in
      insertActivity w event mint (pal_Action payload) \<lparr>
          ae_EventID = ev_EventID event, ae_Mint = mint, ae_Protocol = ''pumpamm'',
          ae_EventType = ev_EventType event, ae_ActivityType = pal_Action payload,
          ae_MarketID = ptrIfNotEmpty (pal_Pool payload), ae_MarketType = ptrIfNotEmpty ''pumpamm_pool'',
          ae_UserAddress = ptrIfNotEmpty (pal_User payload), ae_Side = None,
          ae_QuoteMint = ptrIfNotEmpty (otherMint mint (pal_BaseMint payload) (pal_QuoteMint payload)),
          ae_TokenAmountRaw = ptrIfNotEmpty (fst amounts), ae_QuoteAmountRaw = ptrIfNotEmpty (snd amounts),
          ae_TxSignature = ev_TxSignature event, ae_Slot = ev_Slot event,
          ae_EventUnixTS = ev_EventUnixTS event, ae_RawEventSource = ev_EventSource event,
          ae_Details = RawEmpty, ae_InsertSeq = 0 \<rparr>)"

definition Project :: "('s, 'x) readModelWriter_scheme \<Rightarrow> Envelope \<Rightarrow> payload \<Rightarrow> 's action" where
  "Project w event payload = (case payload of
      PumpfunCreate v \<Rightarrow> projectPumpfunCreate w event v
    | PumpfunTrade v \<Rightarrow> projectPumpfunTrade w event v
    | PumpfunMigrate v \<Rightarrow> projectPumpfunMigrate w event v
    | PumpAmmCreatePool v \<Rightarrow> projectPumpAmmCreatePool w event v
    | PumpAmmSwap v \<Rightarrow> projectPumpAmmSwap w event v
    | PumpAmmLiquidity v \<Rightarrow> projectPumpAmmLiquidity w event v
    | OtherPayload \<Rightarrow> done_ok)"

section \<open>The write batch\<close>

datatype queuedStateOp =
    QToken TokenRecord
  | QMetadata TokenMetadataRecord
  | QMarket TokenMarketRecord
  | QCloseMarket string int

record writeBatch =
  wb_stateOps :: "queuedStateOp list"
  wb_trades :: "TradeEventRecord list"
  wb_activities :: "ActivityEventRecord list"

definition newWriteBatch :: writeBatch where
  "newWriteBatch = \<lparr> wb_stateOps = [], wb_trades = [], wb_activities = [] \<rparr>"

definition queueStateOp :: "queuedStateOp \<Rightarrow> writeBatch action" where
  "queueStateOp q w = (None, w\<lparr>wb_stateOps := wb_stateOps w @ [q]\<rparr>)"

definition batch_UpsertToken :: "TokenRecord \<Rightarrow> writeBatch action" where
  "batch_UpsertToken record = queueStateOp (QToken record)"

definition batch_UpsertTokenMetadata :: "TokenMetadataRecord \<Rightarrow> writeBatch action" where
  "batch_UpsertTokenMetadata record = queueStateOp (QMetadata record)"

definition batch_UpsertTokenMarket :: "TokenMarketRecord \<Rightarrow> writeBatch action" where
  "batch_UpsertTokenMarket record = queueStateOp (QMarket record)"

definition batch_CloseTokenMarket :: "string \<Rightarrow> int \<Rightarrow> writeBatch action" where
  "batch_CloseTokenMarket marketID endedAt = queueStateOp (QCloseMarket marketID endedAt)"

definition batch_InsertTradeEvent :: "TradeEventRecord \<Rightarrow> writeBatch action" where
  "batch_InsertTradeEvent trade w = (None, w\<lparr>wb_trades := wb_trades w @ [trade]\<rparr>)"

definition batch_InsertActivityEvent :: "ActivityEventRecord \<Rightarrow> writeBatch action" where
  "batch_InsertActivityEvent activity w = (None, w\<lparr>wb_activities := wb_activities w @ [activity]\<rparr>)"

definition batch_writer :: "writeBatch readModelWriter" where
  "batch_writer = \<lparr>
     w_UpsertToken = batch_UpsertToken, w_UpsertTokenMetadata = batch_UpsertTokenMetadata,
     w_UpsertTokenMarket = batch_UpsertTokenMarket, w_CloseTokenMarket = batch_CloseTokenMarket,
     w_InsertTradeEvent = batch_InsertTradeEvent, w_InsertActivityEvent = batch_InsertActivityEvent \<rparr>"

definition flush_op :: "('s, 'x) readModelWriter_scheme \<Rightarrow> queuedStateOp \<Rightarrow> 's action" where
  "flush_op w q = (case q of
      QToken r \<Rightarrow> w_UpsertToken w r
    | QMetadata r \<Rightarrow> w_UpsertTokenMetadata w r
    | QMarket r \<Rightarrow> w_UpsertTokenMarket w r
    | QCloseMarket marketID endedAt \<Rightarrow> w_CloseTokenMarket w marketID endedAt)"

definition Flush :: "('s, 'x) batchCapableWriter_scheme \<Rightarrow> writeBatch \<Rightarrow> 's action" where
  "Flush w b =
     and_then (for_each (flush_op w) (wb_stateOps b))
     (and_then (w_InsertTradeEventsBatch w (wb_trades b))
     (w_InsertActivityEventsBatch w (wb_activities b)))"

section \<open>A projection is a list of writes\<close>

text \<open>Every writer carries out the same writes: those a recording writer sees.\<close>

datatype wop = WState queuedStateOp | WTrade TradeEventRecord | WActivity ActivityEventRecord

definition apply_wop :: "('s, 'x) readModelWriter_scheme \<Rightarrow> wop \<Rightarrow> 's action" where
  "apply_wop w p = (case p of
      WState q \<Rightarrow> flush_op w q
    | WTrade r \<Rightarrow> w_InsertTradeEvent w r
    | WActivity r \<Rightarrow> w_InsertActivityEvent w r)"

definition record_op :: "wop \<Rightarrow> wop list action" where
  "record_op p ops = (None, ops @ [p])"

definition recorder :: "wop list readModelWriter" where
  "recorder = \<lparr>
     w_UpsertToken = record_op \<circ> WState \<circ> QToken, w_UpsertTokenMetadata = record_op \<circ> WState \<circ> QMetadata,
     w_UpsertTokenMarket = record_op \<circ> WState \<circ> QMarket,
     w_CloseTokenMarket = (\<lambda>m t. record_op (WState (QCloseMarket m t))),
     w_InsertTradeEvent = record_op \<circ> WTrade, w_InsertActivityEvent = record_op \<circ> WActivity \<rparr>"

definition project_ops :: "Envelope \<Rightarrow> payload \<Rightarrow> wop list" where
  "project_ops event payload = snd (Project recorder event payload [])"

definition project_error :: "Envelope \<Rightarrow> payload \<Rightarrow> gerror option" where
  "project_error event payload = fst (Project recorder event payload [])"

definition stop_with :: "gerror option \<Rightarrow> 's action" where
  "stop_with e = (case e of None \<Rightarrow> done_ok | Some err \<Rightarrow> fail_with err)"

lemma stop_with_simps [simp]: "stop_with None = done_ok" "stop_with (Some e) = fail_with e"
  by (simp_all add: stop_with_def)

definition traces :: "('s, 'x) readModelWriter_scheme \<Rightarrow> 's action \<Rightarrow> wop list action \<Rightarrow> bool" where
  "traces w f r \<longleftrightarrow> (\<exists>ops err. f = and_then (for_each (apply_wop w) ops) (stop_with err) \<and>
     (\<forall>acc. r acc = (err, acc @ ops)))"

lemma traces_ops:
  assumes "traces w f r"
  shows "f = and_then (for_each (apply_wop w) (snd (r []))) (stop_with (fst (r [])))"
  using assms by (auto simp: traces_def)

named_theorems traces_intros \<open>the writes of a projection, one by one\<close>

lemma traces_write [traces_intros]:
  "traces w (w_UpsertToken w a) (w_UpsertToken recorder a)"
  "traces w (w_UpsertTokenMetadata w b) (w_UpsertTokenMetadata recorder b)"
  "traces w (w_UpsertTokenMarket w c) (w_UpsertTokenMarket recorder c)"
  "traces w (w_CloseTokenMarket w i n) (w_CloseTokenMarket recorder i n)"
  "traces w (w_InsertTradeEvent w d) (w_InsertTradeEvent recorder d)"
  "traces w (w_InsertActivityEvent w e) (w_InsertActivityEvent recorder e)"
  unfolding traces_def
  subgoal by (intro exI [of _ "[WState (QToken a)]"] exI [of _ None]) (simp add: apply_wop_def flush_op_def recorder_def record_op_def)
  subgoal by (intro exI [of _ "[WState (QMetadata b)]"] exI [of _ None]) (simp add: apply_wop_def flush_op_def recorder_def record_op_def)
  subgoal by (intro exI [of _ "[WState (QMarket c)]"] exI [of _ None]) (simp add: apply_wop_def flush_op_def recorder_def record_op_def)
  subgoal by (intro exI [of _ "[WState (QCloseMarket i n)]"] exI [of _ None]) (simp add: apply_wop_def flush_op_def recorder_def record_op_def)
  subgoal by (intro exI [of _ "[WTrade d]"] exI [of _ None]) (simp add: apply_wop_def recorder_def record_op_def)
  subgoal by (intro exI [of _ "[WActivity e]"] exI [of _ None]) (simp add: apply_wop_def recorder_def record_op_def)
  done

lemma traces_stop [traces_intros]: "traces w done_ok done_ok" "traces w (fail_with e) (fail_with e)"
  unfolding traces_def
  subgoal by (intro exI [of _ "[]"] exI [of _ None]) (simp add: done_ok_def)
  subgoal by (intro exI [of _ "[]"] exI [of _ "Some e"]) (simp add: fail_with_def)
  done

lemma traces_and_then [traces_intros]:
  assumes "traces w f r" "traces w g q"
  shows "traces w (and_then f g) (and_then r q)"
proof -
  obtain ops err where 1: "f = and_then (for_each (apply_wop w) ops) (stop_with err)" "\<And>acc. r acc = (err, acc @ ops)"
    using assms(1) by (auto simp: traces_def)
  obtain ops2 err2 where 2: "g = and_then (for_each (apply_wop w) ops2) (stop_with err2)" "\<And>acc. q acc = (err2, acc @ ops2)"
    using assms(2) by (auto simp: traces_def)
  show ?thesis
  proof (cases err)
    case None
    then show ?thesis unfolding traces_def
      by (intro exI [of _ "ops @ ops2"] exI [of _ err2])
         (simp add: 1 2 for_each_append and_then_assoc, simp add: and_then_def 1 2)
  next
    case (Some e)
    then show ?thesis unfolding traces_def
      by (intro exI [of _ ops] exI [of _ err]) (simp add: 1(1) and_then_assoc, simp add: and_then_def 1(2))
  qed
qed

lemma traces_if [traces_intros]:
  "(c \<Longrightarrow> traces w f r) \<Longrightarrow> (\<not> c \<Longrightarrow> traces w g q) \<Longrightarrow> traces w (if c then f else g) (if c then r else q)"
  by simp

lemma traces_activity [traces_intros]: "traces w (insertActivity w event mint ty a) (insertActivity recorder event mint ty a)"
  unfolding insertActivity_def by (cases "marshal_raw (ev_Payload event)") (simp_all add: traces_intros)

lemma traces_Project: "traces w (Project w event payload) (Project recorder event payload)"
proof (cases payload)
  case (PumpfunTrade v)
  then show ?thesis by (simp add: Project_def projectPumpfunTrade_def) (intro traces_intros)
next
  case (PumpfunCreate v)
  then show ?thesis by (simp add: Project_def projectPumpfunCreate_def Let_def) (intro traces_intros)
next
  case (PumpfunMigrate v)
  then show ?thesis by (simp add: Project_def projectPumpfunMigrate_def Let_def traces_intros)
next
  case (PumpAmmSwap v)
  then show ?thesis
    by (cases "buildPumpAmmTrade event v")
       (simp_all add: Project_def projectPumpAmmSwap_def traces_intros)
next
  case (PumpAmmCreatePool v)
  then show ?thesis by (simp add: Project_def projectPumpAmmCreatePool_def Let_def traces_intros)
next
  case (PumpAmmLiquidity v)
  then show ?thesis by (simp add: Project_def projectPumpAmmLiquidity_def Let_def traces_intros)
next
  case OtherPayload
  then show ?thesis by (simp add: Project_def traces_intros)
qed

lemma Project_ops:
  "Project w event payload =
     and_then (for_each (apply_wop w) (project_ops event payload)) (stop_with (project_error event payload))"
  unfolding project_ops_def project_error_def by (rule traces_ops [OF traces_Project])

text \<open>The batch writer queues the writes, each in its list.\<close>

definition enqueue :: "wop \<Rightarrow> writeBatch \<Rightarrow> writeBatch" where
  "enqueue p b = (case p of
      WState q \<Rightarrow> b\<lparr>wb_stateOps := wb_stateOps b @ [q]\<rparr>
    | WTrade r \<Rightarrow> b\<lparr>wb_trades := wb_trades b @ [r]\<rparr>
    | WActivity r \<Rightarrow> b\<lparr>wb_activities := wb_activities b @ [r]\<rparr>)"

lemma apply_batch_writer: "apply_wop batch_writer p b = (None, enqueue p b)"
  by (auto simp: apply_wop_def flush_op_def enqueue_def batch_writer_def batch_UpsertToken_def
      batch_UpsertTokenMetadata_def batch_UpsertTokenMarket_def batch_CloseTokenMarket_def queueStateOp_def
      batch_InsertTradeEvent_def batch_InsertActivityEvent_def split: wop.splits queuedStateOp.splits)

lemma for_each_batch_writer: "for_each (apply_wop batch_writer) ops b = (None, fold enqueue ops b)"
  by (induction ops arbitrary: b) (simp_all add: done_ok_def and_then_def apply_batch_writer)

lemma Project_batch: "Project batch_writer event payload b = (project_error event payload, fold enqueue (project_ops event payload) b)"
  by (cases "project_error event payload")
     (simp_all add: Project_ops [of batch_writer] and_then_def for_each_batch_writer done_ok_def fail_with_def)

section \<open>Writes to different tables commute\<close>

text \<open>
  The effect of a write that PostgreSQL accepts: on the three state tables, on the trades, or on
  the activity.
\<close>

definition state_effect ::
    "(int \<Rightarrow> (string \<times> TokenRow) list \<Rightarrow> (string \<times> TokenRow) list) \<Rightarrow>
     (int \<Rightarrow> (string \<times> TokenMetadataRow) list \<Rightarrow> (string \<times> TokenMetadataRow) list) \<Rightarrow>
     (int \<Rightarrow> (string \<times> TokenMarketRow) list \<Rightarrow> (string \<times> TokenMarketRow) list) \<Rightarrow> Db \<Rightarrow> Db" where
  "state_effect a b c s = s\<lparr>db_tables := (db_tables s)\<lparr>
     tokens := a (db_now s) (tokens (db_tables s)),
     token_metadata_current := b (db_now s) (token_metadata_current (db_tables s)),
     token_markets := c (db_now s) (token_markets (db_tables s))\<rparr>\<rparr>"

definition trade_effect :: "(int \<Rightarrow> TradeRow list \<Rightarrow> TradeRow list) \<Rightarrow> Db \<Rightarrow> Db" where
  "trade_effect k s = s\<lparr>db_trade_seq := db_trade_seq s + 1, db_tables := (db_tables s)\<lparr>
     token_trade_events := k (db_trade_seq s) (token_trade_events (db_tables s))\<rparr>\<rparr>"

definition activity_effect :: "(int \<Rightarrow> ActivityRow list \<Rightarrow> ActivityRow list) \<Rightarrow> Db \<Rightarrow> Db" where
  "activity_effect k s = s\<lparr>db_activity_seq := db_activity_seq s + 1, db_tables := (db_tables s)\<lparr>
     token_activity_events := k (db_activity_seq s) (token_activity_events (db_tables s))\<rparr>\<rparr>"

text \<open>Such a write either fails on every database, or has its effect on every database.\<close>

definition uniform :: "(Db \<Rightarrow> Db) set \<Rightarrow> (Db \<Rightarrow> Db res) \<Rightarrow> bool" where
  "uniform E f \<longleftrightarrow> (\<exists>e. \<forall>s. f s = Inl e) \<or> (\<exists>g\<in>E. \<forall>s. f s = Inr (g s))"

definition state_effects :: "(Db \<Rightarrow> Db) set" where
  "state_effects = {state_effect a b c | a b c. True}"

definition trade_effects :: "(Db \<Rightarrow> Db) set" where
  "trade_effects = {trade_effect k | k. True}"

definition activity_effects :: "(Db \<Rightarrow> Db) set" where
  "activity_effects = {activity_effect k | k. True}"

lemma uniform_Inl: "(\<And>s. f s = Inl e) \<Longrightarrow> uniform E f"
  by (auto simp: uniform_def)

lemma uniform_Inr: "g \<in> E \<Longrightarrow> (\<And>s. f s = Inr (g s)) \<Longrightarrow> uniform E f"
  by (auto simp: uniform_def)

lemma uniform_sum:
  "(\<And>y. r = Inr y \<Longrightarrow> uniform E (f y)) \<Longrightarrow> uniform E (\<lambda>s. case r of Inl e \<Rightarrow> Inl e | Inr y \<Rightarrow> f y s)"
  by (cases r) (auto intro: uniform_Inl)

lemma uniform_option:
  "(\<And>y. r = Some y \<Longrightarrow> uniform E (f y)) \<Longrightarrow> uniform E (\<lambda>s. case r of None \<Rightarrow> Inl e | Some y \<Rightarrow> f y s)"
  by (cases r) (auto intro: uniform_Inl)

lemma uniform_token: "uniform state_effects (upsertTokenSQL pg r x y)"
  unfolding upsertTokenSQL_def [abs_def]
proof (intro uniform_sum)
  fix first migrated
  show "uniform state_effects (\<lambda>s. Inr (s\<lparr>db_tables := (db_tables s)\<lparr>tokens :=
      upsert token_conflict (tok_Mint r) (token_row r first migrated (db_now s)) (tokens (db_tables s))\<rparr>\<rparr>))"
    by (rule uniform_Inr [of "state_effect (\<lambda>now. upsert token_conflict (tok_Mint r) (token_row r first migrated now))
          (\<lambda>_ t. t) (\<lambda>_ t. t)"])
       (auto simp: state_effects_def state_effect_def)
qed

lemma uniform_metadata: "uniform state_effects (upsertTokenMetadataSQL pg r)"
  unfolding upsertTokenMetadataSQL_def [abs_def]
proof (intro uniform_sum)
  fix total
  show "uniform state_effects (\<lambda>s. Inr (s\<lparr>db_tables := (db_tables s)\<lparr>token_metadata_current :=
      upsert metadata_conflict (tmd_Mint r) (metadata_row r total (db_now s)) (token_metadata_current (db_tables s))\<rparr>\<rparr>))"
    by (rule uniform_Inr [of "state_effect (\<lambda>_ t. t)
          (\<lambda>now. upsert metadata_conflict (tmd_Mint r) (metadata_row r total now)) (\<lambda>_ t. t)"])
       (auto simp: state_effects_def state_effect_def)
qed

lemma uniform_market: "uniform state_effects (upsertTokenMarketSQL pg r x y)"
  unfolding upsertTokenMarketSQL_def [abs_def]
proof (intro uniform_sum)
  fix started ended
  show "uniform state_effects (\<lambda>s. Inr (s\<lparr>db_tables := (db_tables s)\<lparr>token_markets :=
      upsert market_conflict (tmk_MarketID r) (market_row r started ended (db_now s)) (token_markets (db_tables s))\<rparr>\<rparr>))"
    by (rule uniform_Inr [of "state_effect (\<lambda>_ t. t) (\<lambda>_ t. t)
          (\<lambda>now. upsert market_conflict (tmk_MarketID r) (market_row r started ended now))"])
       (auto simp: state_effects_def state_effect_def)
qed

lemma uniform_close: "uniform state_effects (closeTokenMarketSQL pg m x)"
  unfolding closeTokenMarketSQL_def [abs_def]
proof (intro uniform_sum)
  fix ended
  show "uniform state_effects (\<lambda>s. Inr (s\<lparr>db_tables := (db_tables s)\<lparr>token_markets :=
      map (\<lambda>(k, r). if k = m then (k, r\<lparr>mk_ended_at := Some ended, mk_updated_at := db_now s\<rparr>) else (k, r))
        (token_markets (db_tables s))\<rparr>\<rparr>))"
    by (rule uniform_Inr [of "state_effect (\<lambda>_ t. t) (\<lambda>_ t. t)
          (\<lambda>now. map (\<lambda>(k, r). if k = m then (k, r\<lparr>mk_ended_at := Some ended, mk_updated_at := now\<rparr>) else (k, r)))"])
       (auto simp: state_effects_def state_effect_def)
qed

text \<open>An insert that does nothing when the key is there.\<close>

definition insert_new :: "('r \<Rightarrow> 'k) \<Rightarrow> 'k \<Rightarrow> 'r \<Rightarrow> 'r list \<Rightarrow> 'r list" where
  "insert_new key k row rows = (if k \<in> key ` set rows then rows else rows @ [row])"

lemma uniform_trade: "uniform trade_effects (insertTokenTradeEventSQL pg r x)"
  unfolding insertTokenTradeEventSQL_def [abs_def] Let_def
proof (intro uniform_sum)
  fix t a q
  let ?row = "\<lambda>n. \<lparr>
     tr_event_time = t, tr_event_id = te_EventID r, tr_mint = te_Mint r, tr_market_id = te_MarketID r,
     tr_market_type = te_MarketType r, tr_protocol = te_Protocol r, tr_side = te_Side r, tr_ix_name = te_IxName r,
     tr_user_address = te_UserAddress r, tr_quote_mint = te_QuoteMint r, tr_token_amount_raw = a,
     tr_quote_amount_raw = q, tr_tx_signature = te_TxSignature r, tr_slot = wrap64 (te_Slot r),
     tr_raw_event_source = te_RawEventSource r, tr_insert_seq = n \<rparr>"
  show "uniform trade_effects (\<lambda>s.
      if (t, te_EventID r) \<in> (\<lambda>x. (tr_event_time x, tr_event_id x)) ` set (token_trade_events (db_tables s))
      then Inr (s\<lparr>db_trade_seq := db_trade_seq s + 1\<rparr>)
      else Inr (s\<lparr>db_trade_seq := db_trade_seq s + 1, db_tables := (db_tables s)
        \<lparr>token_trade_events := token_trade_events (db_tables s) @ [?row (db_trade_seq s)]\<rparr>\<rparr>))"
    by (rule uniform_Inr [of "trade_effect (\<lambda>n. insert_new (\<lambda>x. (tr_event_time x, tr_event_id x)) (t, te_EventID r) (?row n))"])
       (auto simp: trade_effects_def trade_effect_def insert_new_def)
qed

lemma uniform_activity: "uniform activity_effects (insertTokenActivityEventSQL pg r x d)"
  unfolding insertTokenActivityEventSQL_def [abs_def] Let_def
proof (intro uniform_sum uniform_option)
  fix t a q j
  let ?row = "\<lambda>n. \<lparr>
     ac_event_time = t, ac_event_id = ae_EventID r, ac_mint = ae_Mint r, ac_protocol = ae_Protocol r,
     ac_event_type = ae_EventType r, ac_activity_type = ae_ActivityType r, ac_market_id = ae_MarketID r,
     ac_market_type = ae_MarketType r, ac_user_address = ae_UserAddress r, ac_side = ae_Side r,
     ac_quote_mint = ae_QuoteMint r, ac_token_amount_raw = a, ac_quote_amount_raw = q,
     ac_tx_signature = ae_TxSignature r, ac_slot = wrap64 (ae_Slot r), ac_raw_event_source = ae_RawEventSource r,
     ac_details = j, ac_insert_seq = n \<rparr>"
  show "uniform activity_effects (\<lambda>s.
      if (t, ae_EventID r) \<in> (\<lambda>x. (ac_event_time x, ac_event_id x)) ` set (token_activity_events (db_tables s))
      then Inr (s\<lparr>db_activity_seq := db_activity_seq s + 1\<rparr>)
      else Inr (s\<lparr>db_activity_seq := db_activity_seq s + 1, db_tables := (db_tables s)
        \<lparr>token_activity_events := token_activity_events (db_tables s) @ [?row (db_activity_seq s)]\<rparr>\<rparr>))"
    by (rule uniform_Inr [of "activity_effect (\<lambda>n. insert_new (\<lambda>x. (ac_event_time x, ac_event_id x)) (t, ae_EventID r) (?row n))"])
       (auto simp: activity_effects_def activity_effect_def insert_new_def)
qed

section \<open>Reordering writes\<close>

definition wop_class :: "wop \<Rightarrow> nat" where
  "wop_class p = (case p of WState _ \<Rightarrow> 0 | WTrade _ \<Rightarrow> 1 | WActivity _ \<Rightarrow> 2)"

definition class_effects :: "nat \<Rightarrow> (Db \<Rightarrow> Db) set" where
  "class_effects n = (if n = 0 then state_effects else if n = 1 then trade_effects else activity_effects)"

definition store_op :: "Pg \<Rightarrow> wop \<Rightarrow> Db action" where
  "store_op pg p = apply_wop (store_writer pg) p"

text \<open>On a database without faults a write of a class fails, or has an effect of its class.\<close>

lemma store_op_effect:
  "(\<exists>e. \<forall>s. fault_free s \<longrightarrow> fst (store_op pg p s) = Some e) \<or>
   (\<exists>g\<in>class_effects (wop_class p). \<forall>s. fault_free s \<longrightarrow> store_op pg p s = (None, g (tick s)))"
proof -
  have run: "(\<exists>e. \<forall>s. fault_free s \<longrightarrow> fst (wrap_err m (db_exec f) s) = Some e) \<or>
      (\<exists>g\<in>E. \<forall>s. fault_free s \<longrightarrow> wrap_err m (db_exec f) s = (None, g (tick s)))"
    if "uniform E f" for m E f
    using that by (auto simp: uniform_def wrap_err_def db_exec_fault_free)
  have act: "uniform activity_effects (\<lambda>s. case activity_details d of Inl e \<Rightarrow> Inl e
      | Inr details \<Rightarrow> insertTokenActivityEventSQL pg a x details s)" for d a x
    by (intro uniform_sum uniform_activity)
  show ?thesis
    using run [OF uniform_token] run [OF uniform_metadata] run [OF uniform_market] run [OF uniform_close]
      run [OF uniform_trade] run [OF act]
    by (cases p rule: wop.exhaust)
       (auto simp: store_op_def apply_wop_def flush_op_def store_writer_def wop_class_def class_effects_def
        UpsertToken_def UpsertTokenMetadata_def UpsertTokenMarket_def CloseTokenMarket_def InsertTradeEvent_def
        InsertActivityEvent_def exec_activity_def split: queuedStateOp.splits)
qed

lemma class_effects_commute:
  assumes "f \<in> class_effects m" "g \<in> class_effects n" "m \<noteq> n" "m \<le> 2" "n \<le> 2"
  shows "f (tick (g (tick s))) = g (tick (f (tick s)))"
proof -
  have "m \<in> {0, 1, 2}" "n \<in> {0, 1, 2}" using assms(4,5) by auto
  then show ?thesis
    using assms(1-3)
    by (auto simp: class_effects_def state_effects_def trade_effects_def activity_effects_def
        state_effect_def trade_effect_def activity_effect_def tick_def)
qed

lemma class_effects_faults:
  "f \<in> class_effects m \<Longrightarrow> fault_free (f s) = fault_free s"
  by (auto simp: class_effects_def state_effects_def trade_effects_def activity_effects_def
      state_effect_def trade_effect_def activity_effect_def fault_free_def split: if_splits)

lemma wop_class_le: "wop_class p \<le> 2"
  by (simp add: wop_class_def split: wop.split)

lemma store_op_fault_free: "fault_free s \<Longrightarrow> store_op pg p s = (None, s') \<Longrightarrow> fault_free s'"
  using store_op_effect [of pg p] class_effects_faults by (metis fault_free_tick fst_conv option.distinct(1) snd_conv)

lemma store_op_commute:
  assumes "fault_free s" "wop_class p \<noteq> wop_class q"
  shows "and_then (store_op pg p) (store_op pg q) s = (None, s') \<longleftrightarrow>
         and_then (store_op pg q) (store_op pg p) s = (None, s')"
proof -
  consider (fail_p) e where "\<And>s. fault_free s \<Longrightarrow> fst (store_op pg p s) = Some e"
    | (fail_q) e where "\<And>s. fault_free s \<Longrightarrow> fst (store_op pg q s) = Some e"
    | (both) f g where "f \<in> class_effects (wop_class p)" "\<And>s. fault_free s \<Longrightarrow> store_op pg p s = (None, f (tick s))"
        "g \<in> class_effects (wop_class q)" "\<And>s. fault_free s \<Longrightarrow> store_op pg q s = (None, g (tick s))"
    using store_op_effect [of pg p] store_op_effect [of pg q] by blast
  then show ?thesis
  proof cases
    case fail_p
    then show ?thesis using assms(1) store_op_fault_free by (metis and_then_ok_iff fst_conv option.distinct(1))
  next
    case fail_q
    then show ?thesis using assms(1) store_op_fault_free by (metis and_then_ok_iff fst_conv option.distinct(1))
  next
    case both
    have "fault_free (f (tick s))" "fault_free (g (tick s))"
      using class_effects_faults [OF both(1)] class_effects_faults [OF both(3)] assms(1) by simp_all
    then have "and_then (store_op pg p) (store_op pg q) s = (None, g (tick (f (tick s))))"
      "and_then (store_op pg q) (store_op pg p) s = (None, f (tick (g (tick s))))"
      using both(2,4) assms(1) by (simp_all add: and_then_def)
    then show ?thesis
      using class_effects_commute [OF both(1,3) assms(2) wop_class_le wop_class_le] by simp
  qed
qed

lemma store_ops_fault_free: "fault_free s \<Longrightarrow> for_each (store_op pg) ps s = (None, s') \<Longrightarrow> fault_free s'"
proof (induction ps arbitrary: s)
  case (Cons p ps)
  obtain t where t: "store_op pg p s = (None, t)" "for_each (store_op pg) ps t = (None, s')"
    using Cons.prems(2) by (auto simp: and_then_ok_iff)
  show ?case by (rule Cons.IH [OF store_op_fault_free [OF Cons.prems(1) t(1)] t(2)])
qed (simp add: done_ok_def)

text \<open>A write moves past writes of other classes.\<close>

lemma store_op_past:
  assumes "fault_free s" "\<And>q. q \<in> set qs \<Longrightarrow> wop_class q \<noteq> wop_class p"
  shows "and_then (store_op pg p) (for_each (store_op pg) qs) s = (None, s') \<longleftrightarrow>
         and_then (for_each (store_op pg) qs) (store_op pg p) s = (None, s')"
  using assms
proof (induction qs arbitrary: s)
  case (Cons q qs)
  have "and_then (store_op pg p) (for_each (store_op pg) (q # qs)) s = (None, s') \<longleftrightarrow>
      and_then (and_then (store_op pg p) (store_op pg q)) (for_each (store_op pg) qs) s = (None, s')"
    by (simp add: and_then_assoc)
  also have "\<dots> \<longleftrightarrow> and_then (and_then (store_op pg q) (store_op pg p)) (for_each (store_op pg) qs) s = (None, s')"
    using store_op_commute [OF Cons.prems(1), of p q] Cons.prems(2) [of q] by (auto simp: and_then_ok_iff)
  also have "\<dots> \<longleftrightarrow> and_then (store_op pg q) (and_then (store_op pg p) (for_each (store_op pg) qs)) s = (None, s')"
    by (simp add: and_then_assoc)
  also have "\<dots> \<longleftrightarrow> and_then (store_op pg q) (and_then (for_each (store_op pg) qs) (store_op pg p)) s = (None, s')"
    using Cons store_op_fault_free by (auto simp: and_then_ok_iff [of "store_op pg q"])
  finally show ?case by (simp add: and_then_assoc)
qed simp

definition by_class :: "wop list \<Rightarrow> wop list" where
  "by_class ps = filter (\<lambda>p. wop_class p = 0) ps @ filter (\<lambda>p. wop_class p = 1) ps @ filter (\<lambda>p. wop_class p = 2) ps"

lemma store_ops_by_class:
  assumes "fault_free s"
  shows "for_each (store_op pg) ps s = (None, s') \<longleftrightarrow> for_each (store_op pg) (by_class ps) s = (None, s')"
  using assms
proof (induction ps arbitrary: s)
  case (Cons p ps)
  let ?F = "for_each (store_op pg)"
  let ?A = "filter (\<lambda>p. wop_class p = 0) ps"
  let ?B = "filter (\<lambda>p. wop_class p = 1) ps"
  let ?C = "filter (\<lambda>p. wop_class p = 2) ps"
  have IH: "?F (p # ps) s = (None, s') \<longleftrightarrow> and_then (store_op pg p) (?F (?A @ ?B @ ?C)) s = (None, s')"
    using Cons store_op_fault_free by (auto simp: and_then_ok_iff by_class_def)
  have move: "and_then (store_op pg p) (?F (xs @ ys)) s = (None, s') \<longleftrightarrow> ?F (xs @ p # ys) s = (None, s')"
    if "\<And>q. q \<in> set xs \<Longrightarrow> wop_class q \<noteq> wop_class p" for xs ys
  proof -
    have "and_then (store_op pg p) (?F (xs @ ys)) s = (None, s') \<longleftrightarrow>
        (\<exists>t. and_then (store_op pg p) (?F xs) s = (None, t) \<and> ?F ys t = (None, s'))"
      unfolding for_each_append by (subst and_then_assoc [symmetric]) (rule and_then_ok_iff)
    also have "\<dots> \<longleftrightarrow> (\<exists>t. and_then (?F xs) (store_op pg p) s = (None, t) \<and> ?F ys t = (None, s'))"
      using store_op_past [OF Cons.prems that] by blast
    also have "\<dots> \<longleftrightarrow> and_then (and_then (?F xs) (store_op pg p)) (?F ys) s = (None, s')"
      by (rule and_then_ok_iff [symmetric])
    finally show ?thesis by (simp add: for_each_append and_then_assoc)
  qed
  consider "wop_class p = 0" | "wop_class p = 1" | "wop_class p = 2" using wop_class_le [of p] by linarith
  then show ?case
  proof cases
    case 1
    then show ?thesis using IH move [of "[]" "?A @ ?B @ ?C"] by (simp add: by_class_def)
  next
    case 2
    then show ?thesis using IH move [of ?A "?B @ ?C"] by (simp add: by_class_def)
  next
    case 3
    then have "and_then (store_op pg p) (?F ((?A @ ?B) @ ?C)) s = (None, s') \<longleftrightarrow> ?F ((?A @ ?B) @ p # ?C) s = (None, s')"
      by (intro move) auto
    then show ?thesis using IH 3 by (simp add: by_class_def)
  qed
qed (simp add: by_class_def)

section \<open>Flush\<close>

definition batch_ops :: "writeBatch \<Rightarrow> wop list" where
  "batch_ops b = map WState (wb_stateOps b) @ map WTrade (wb_trades b) @ map WActivity (wb_activities b)"

lemma for_each_map: "for_each f (map g xs) = for_each (f \<circ> g) xs"
  by (induction xs) simp_all

lemma Flush_ops: "Flush (store_writer pg) b = for_each (store_op pg) (batch_ops b)"
proof -
  have "for_each (flush_op (store_writer pg)) (wb_stateOps b) = for_each (store_op pg) (map WState (wb_stateOps b))"
    by (simp add: for_each_map store_op_def [abs_def] apply_wop_def comp_def)
  moreover have "w_InsertTradeEventsBatch (store_writer pg) ts = for_each (store_op pg) (map WTrade ts)" for ts
    by (simp add: for_each_map store_op_def [abs_def] apply_wop_def comp_def store_writer_def
        InsertTradeEventsBatch_def InsertTradeEvent_def)
  moreover have "w_InsertActivityEventsBatch (store_writer pg) xs = for_each (store_op pg) (map WActivity xs)" for xs
    by (simp add: for_each_map store_op_def [abs_def] apply_wop_def comp_def store_writer_def
        InsertActivityEventsBatch_def InsertActivityEvent_def)
  ultimately show ?thesis by (simp add: Flush_def batch_ops_def for_each_append)
qed

lemma batch_ops_enqueue:
  "batch_ops (fold enqueue ps newWriteBatch) = by_class ps"
proof -
  have "wb_stateOps (fold enqueue ps b) = wb_stateOps b @ concat (map (\<lambda>p. case p of WState q \<Rightarrow> [q] | _ \<Rightarrow> []) ps) \<and>
    wb_trades (fold enqueue ps b) = wb_trades b @ concat (map (\<lambda>p. case p of WTrade q \<Rightarrow> [q] | _ \<Rightarrow> []) ps) \<and>
    wb_activities (fold enqueue ps b) = wb_activities b @ concat (map (\<lambda>p. case p of WActivity q \<Rightarrow> [q] | _ \<Rightarrow> []) ps)" for b
    by (induction ps arbitrary: b) (auto simp: enqueue_def split: wop.splits)
  moreover have "map WState (concat (map (\<lambda>p. case p of WState q \<Rightarrow> [q] | _ \<Rightarrow> []) ps)) = filter (\<lambda>p. wop_class p = 0) ps"
    "map WTrade (concat (map (\<lambda>p. case p of WTrade q \<Rightarrow> [q] | _ \<Rightarrow> []) ps)) = filter (\<lambda>p. wop_class p = 1) ps"
    "map WActivity (concat (map (\<lambda>p. case p of WActivity q \<Rightarrow> [q] | _ \<Rightarrow> []) ps)) = filter (\<lambda>p. wop_class p = 2) ps"
    by (induction ps) (auto simp: wop_class_def split: wop.splits)
  ultimately show ?thesis by (simp add: batch_ops_def by_class_def newWriteBatch_def)
qed

section \<open>Properties\<close>

text \<open>The token an event is about, and the agreement of a trade with its activity.\<close>

definition payload_mint :: "Envelope \<Rightarrow> payload \<Rightarrow> string" where
  "payload_mint event payload = (case payload of
      PumpfunTrade p \<Rightarrow> pft_Mint p
    | PumpfunCreate p \<Rightarrow> pfc_Mint p
    | PumpfunMigrate p \<Rightarrow> pfm_Mint p
    | PumpAmmSwap p \<Rightarrow> trackedMint event (pas_BaseMint p) (pas_QuoteMint p)
    | PumpAmmCreatePool p \<Rightarrow> trackedMint event (pap_BaseMint p) (pap_QuoteMint p)
    | PumpAmmLiquidity p \<Rightarrow> trackedMint event (pal_BaseMint p) (pal_QuoteMint p)
    | OtherPayload \<Rightarrow> [])"

definition is_trade :: "payload \<Rightarrow> bool" where
  "is_trade payload = (case payload of PumpfunTrade _ \<Rightarrow> True | PumpAmmSwap _ \<Rightarrow> True | _ \<Rightarrow> False)"

definition same_trade :: "TradeEventRecord \<Rightarrow> ActivityEventRecord \<Rightarrow> bool" where
  "same_trade t a \<longleftrightarrow> te_EventID t = ae_EventID a \<and> te_Mint t = ae_Mint a \<and> te_Protocol t = ae_Protocol a \<and>
     ae_Side a = ptrIfNotEmpty (te_Side t) \<and> ae_QuoteMint a = ptrIfNotEmpty (te_QuoteMint t) \<and>
     ae_TokenAmountRaw a = ptrIfNotEmpty (te_TokenAmountRaw t) \<and>
     ae_QuoteAmountRaw a = ptrIfNotEmpty (te_QuoteAmountRaw t) \<and> ae_UserAddress a = ptrIfNotEmpty (te_UserAddress t) \<and>
     ae_Slot a = te_Slot t \<and> ae_EventUnixTS a = te_EventUnixTS t \<and> ae_TxSignature a = te_TxSignature t"

lemmas projections = projectPumpfunTrade_def projectPumpfunCreate_def projectPumpfunMigrate_def
  projectPumpAmmSwap_def projectPumpAmmCreatePool_def projectPumpAmmLiquidity_def

lemma run_recorder:
  "w_UpsertToken recorder a acc = (None, acc @ [WState (QToken a)])"
  "w_UpsertTokenMetadata recorder b acc = (None, acc @ [WState (QMetadata b)])"
  "w_UpsertTokenMarket recorder c acc = (None, acc @ [WState (QMarket c)])"
  "w_CloseTokenMarket recorder i n acc = (None, acc @ [WState (QCloseMarket i n)])"
  "w_InsertTradeEvent recorder d acc = (None, acc @ [WTrade d])"
  "w_InsertActivityEvent recorder e acc = (None, acc @ [WActivity e])"
  by (simp_all add: recorder_def record_op_def)

lemma run_activity:
  "insertActivity recorder event mint ty a acc = (case marshal_raw (ev_Payload event) of
     Inl e \<Rightarrow> (Some (ErrWrap ''marshal activity payload'' e), acc)
   | Inr d \<Rightarrow> (None, acc @ [WActivity (a\<lparr>ae_Mint := mint, ae_ActivityType := ty, ae_Details := RawJson d\<rparr>)]))"
  by (simp add: insertActivity_def run_recorder fail_with_def split: sum.splits)

lemma buildPumpAmmTrade_fields:
  "buildPumpAmmTrade event p = Inr t \<Longrightarrow>
     te_EventID t = ev_EventID event \<and> te_Mint t = trackedMint event (pas_BaseMint p) (pas_QuoteMint p) \<and> te_Mint t \<noteq> []"
  by (auto simp: buildPumpAmmTrade_def Let_def split: if_splits sum.splits)

text \<open>
  C26: every event that projects writes exactly one activity, and writes it last; the activity
  carries the event's id, the token the event is about and the event's payload. A trade or swap
  writes exactly one trade before it, with the same token, sides and amounts, and nothing else;
  no other event writes a trade.
\<close>

theorem projection_shape:
  assumes "project_error event payload = None" "payload \<noteq> OtherPayload"
  shows "\<exists>ops a d. project_ops event payload = ops @ [WActivity a] \<and> filter (\<lambda>p. wop_class p = 2) ops = [] \<and>
    ae_EventID a = ev_EventID event \<and> ae_Mint a = payload_mint event payload \<and>
    marshal_raw (ev_Payload event) = Inr d \<and> ae_Details a = RawJson d \<and>
    (if is_trade payload then \<exists>t. ops = [WTrade t] \<and> same_trade t a else filter (\<lambda>p. wop_class p = 1) ops = [])"
proof -
  note run = Project_def projections project_error_def project_ops_def and_then_def run_recorder run_activity
    wop_class_def payload_mint_def is_trade_def same_trade_def done_ok_def fail_with_def Let_def
  show ?thesis
  proof (cases payload)
    case (PumpAmmSwap p)
    then show ?thesis using assms buildPumpAmmTrade_fields [of event p] by (auto simp: run split: sum.splits)
  qed (use assms in \<open>auto simp: run split: sum.splits if_splits\<close>)
qed

text \<open>
  A swap from the user's side: what the user gives and what the user receives, as a mint and an
  amount.
\<close>

definition swap_flow :: "PumpAmmSwapPayload \<Rightarrow> ((string \<times> string option) \<times> (string \<times> string option)) option" where
  "swap_flow p =
     (if pas_Side p = ''sell'' then Some ((pas_BaseMint p, pas_BaseAmountIn p), (pas_QuoteMint p, pas_QuoteAmountOut p))
      else if pas_Side p \<in> {''buy'', ''buy_exact_quote_in''}
        then Some ((pas_QuoteMint p, pas_QuoteAmountIn p), (pas_BaseMint p, pas_BaseAmountOut p))
      else None)"

lemma requiredAmount_Inr: "requiredAmount v f i = Inr x \<longleftrightarrow> v = Some x \<and> x \<noteq> []"
  by (auto simp: requiredAmount_def)

lemma both_amounts:
  "(case requiredAmount u f i of Inl e \<Rightarrow> Inl e
    | Inr x \<Rightarrow> (case requiredAmount v g i of Inl e \<Rightarrow> Inl e | Inr y \<Rightarrow> Inr (m, s, x, y))) =
      Inr (quoteMint, side, tokenAmount, quoteAmount) \<longleftrightarrow>
   tokenAmount \<noteq> [] \<and> quoteAmount \<noteq> [] \<and> m = quoteMint \<and> s = side \<and> u = Some tokenAmount \<and> v = Some quoteAmount"
  using requiredAmount_Inr [of u f i tokenAmount] requiredAmount_Inr [of v g i quoteAmount]
  by (auto split: sum.splits)

lemma swap_sides_flow:
  assumes "mint \<in> {pas_BaseMint p, pas_QuoteMint p}" "pas_BaseMint p \<noteq> pas_QuoteMint p"
  shows "swap_sides mint p i = Inr (quoteMint, side, tokenAmount, quoteAmount) \<longleftrightarrow>
    tokenAmount \<noteq> [] \<and> quoteAmount \<noteq> [] \<and>
    (side = ''buy'' \<and> swap_flow p = Some ((quoteMint, Some quoteAmount), (mint, Some tokenAmount)) \<or>
     side = ''sell'' \<and> swap_flow p = Some ((mint, Some tokenAmount), (quoteMint, Some quoteAmount)))"
proof (cases "mint = pas_QuoteMint p")
  case True
  then show ?thesis using assms(2) unfolding swap_sides_def swap_flow_def
    by (simp add: both_amounts) blast
next
  case False
  then show ?thesis using assms unfolding swap_sides_def swap_flow_def
    by (simp add: both_amounts) blast
qed

text \<open>
  C25: the trade built from a swap is the swap seen from the tracked token's side, wherever the
  token stands in the pair: it exists exactly when the side is known and both amounts are
  present; it is a buy when the user receives the token and a sell when the user gives it, with
  the token's amount as the token amount and the other side of the pair as the quote.
\<close>

theorem buildPumpAmmTrade_flow:
  assumes "mint = trackedMint event (pas_BaseMint p) (pas_QuoteMint p)"
    "mint \<in> {pas_BaseMint p, pas_QuoteMint p}" "pas_BaseMint p \<noteq> pas_QuoteMint p" "mint \<noteq> []"
  shows "(\<exists>t. buildPumpAmmTrade event p = Inr t \<and> te_Mint t = mint \<and> te_Side t = side \<and> te_TokenAmountRaw t = tokenAmount \<and>
      te_QuoteMint t = quoteMint \<and> te_QuoteAmountRaw t = quoteAmount) \<longleftrightarrow>
    tokenAmount \<noteq> [] \<and> quoteAmount \<noteq> [] \<and>
    (side = ''buy'' \<and> swap_flow p = Some ((quoteMint, Some quoteAmount), (mint, Some tokenAmount)) \<or>
     side = ''sell'' \<and> swap_flow p = Some ((mint, Some tokenAmount), (quoteMint, Some quoteAmount)))"
proof -
  have "(\<exists>t. buildPumpAmmTrade event p = Inr t \<and> te_Mint t = mint \<and> te_Side t = side \<and> te_TokenAmountRaw t = tokenAmount \<and>
      te_QuoteMint t = quoteMint \<and> te_QuoteAmountRaw t = quoteAmount) \<longleftrightarrow>
      swap_sides mint p (ev_EventID event) = Inr (quoteMint, side, tokenAmount, quoteAmount)"
    using assms(4) by (auto simp: buildPumpAmmTrade_def Let_def assms(1) split: sum.splits)
  then show ?thesis using swap_sides_flow [OF assms(2,3)] by simp
qed

definition example_swap :: PumpAmmSwapPayload where
  "example_swap = zero_PumpAmmSwapPayload\<lparr>pas_Side := ''sell'', pas_BaseMint := SolMint, pas_QuoteMint := ''m'',
     pas_BaseAmountIn := Some ''7'', pas_QuoteAmountOut := Some ''9''\<rparr>"

lemma buildPumpAmmTrade_flow_witness:
  "\<exists>t. buildPumpAmmTrade zero_Envelope example_swap = Inr t \<and> te_Mint t = ''m'' \<and> te_Side t = ''buy'' \<and>
     te_TokenAmountRaw t = ''9'' \<and> te_QuoteMint t = SolMint \<and> te_QuoteAmountRaw t = ''7''"
proof -
  have "''m'' = trackedMint zero_Envelope (pas_BaseMint example_swap) (pas_QuoteMint example_swap)"
    "''m'' \<in> {pas_BaseMint example_swap, pas_QuoteMint example_swap}"
    "pas_BaseMint example_swap \<noteq> pas_QuoteMint example_swap" "''m'' \<noteq> []"
    "swap_flow example_swap = Some ((SolMint, Some ''7''), (''m'', Some ''9''))"
    by code_simp+
  from buildPumpAmmTrade_flow [OF this(1-4)] this(5) show ?thesis by simp
qed

lemma projection_shape_witness:
  "\<exists>ops a d. project_ops zero_Envelope (PumpAmmSwap example_swap) = ops @ [WActivity a] \<and> filter (\<lambda>p. wop_class p = 2) ops = [] \<and>
    ae_EventID a = ev_EventID zero_Envelope \<and> ae_Mint a = payload_mint zero_Envelope (PumpAmmSwap example_swap) \<and>
    marshal_raw (ev_Payload zero_Envelope) = Inr d \<and> ae_Details a = RawJson d \<and>
    (if is_trade (PumpAmmSwap example_swap) then \<exists>t. ops = [WTrade t] \<and> same_trade t a
     else filter (\<lambda>p. wop_class p = 1) ops = [])"
proof (rule projection_shape)
  show "project_error zero_Envelope (PumpAmmSwap example_swap) = None" by code_simp
qed simp

end
