(* ===== verification/Broadcaster.thy ===== *)
theory Broadcaster
  imports Windows Projector Hub
begin

text \<open>
  internal/broadcaster/stats.go: the broadcaster keeps a window per token, fed by the global
  topic of the hub, and sweeps over the windows every second: it evicts the idle ones, writes the
  current statistics of the others to the store and publishes them to the subscribers of the
  token. The store is an interface, a parameter here; time.Now() and the order in which Go ranges
  over the map of windows are arguments of the operations.
\<close>

section \<open>The store interface and the state\<close>

record 's tradeMetricsStore =
  tm_ListRecentTradeMetricsByMint :: "string \<Rightarrow> int \<Rightarrow> 's \<Rightarrow> TradeMetricPoint list res \<times> 's"
  tm_ListLongWindowMetricsByMints ::
    "string list \<Rightarrow> int \<Rightarrow> 's \<Rightarrow> (string \<times> LongWindowMetricsRecord) list res \<times> 's"
  tm_ListMetricBackfillCandidates :: "int \<Rightarrow> 's \<Rightarrow> string list res \<times> 's"
  tm_ListLatestTradeSeedsByMints ::
    "string list \<Rightarrow> 's \<Rightarrow> (string \<times> LatestTradeSeedRecord) list res \<times> 's"
  tm_UpsertTokenMetricsCurrent :: "TokenMetricsCurrentRecord list \<Rightarrow> 's action"

text \<open>The connection to NATS and the two references (hub, store) that may be nil are arguments.\<close>

record Broadcaster =
  bc_windows :: "(string \<times> TokenWindowState) list"
  bc_globalHubBuffer :: int

definition NewBroadcaster :: Broadcaster where
  "NewBroadcaster = \<lparr> bc_windows = [], bc_globalHubBuffer = 8192 \<rparr>"

definition setWindow :: "string \<Rightarrow> TokenWindowState \<Rightarrow> Broadcaster \<Rightarrow> Broadcaster" where
  "setWindow mint w b = b\<lparr>bc_windows := AList.update mint w (bc_windows b)\<rparr>"

definition getWindow :: "string \<Rightarrow> Broadcaster \<Rightarrow> TokenWindowState \<times> Broadcaster" where
  "getWindow mint b = (case map_of (bc_windows b) mint of
      Some w \<Rightarrow> (w, b)
    | None \<Rightarrow> (zero_TokenWindowState, setWindow mint zero_TokenWindowState b))"

definition removeWindow :: "string \<Rightarrow> Broadcaster \<Rightarrow> Broadcaster" where
  "removeWindow mint b = b\<lparr>bc_windows := AList.delete mint (bc_windows b)\<rparr>"

section \<open>Trades\<close>

definition isPumpfunTradeEvent :: "Envelope \<Rightarrow> bool" where
  "isPumpfunTradeEvent env \<longleftrightarrow>
     ev_Protocol env = ''pumpfun'' \<and> ev_EventType env = ''trade'' \<or> ev_EventType env = ''pumpfun.trade''"

definition isPumpAmmTradeEvent :: "Envelope \<Rightarrow> bool" where
  "isPumpAmmTradeEvent env \<longleftrightarrow> ev_Protocol env = ''pumpamm'' \<and> ev_EventType env = ''swap''"

definition mathPow10 :: "int \<Rightarrow> f64" where
  "mathPow10 decimals = ((\<lambda>r. f64_mul r (f64_of_int 10)) ^^ nat decimals) (f64_of_int 1)"

definition scaleAmount :: "f64 \<Rightarrow> int \<Rightarrow> f64" where
  "scaleAmount v decimals =
     (if decimals = 9 then f64_div v (f64_of_int 1000000000)
      else if decimals = 6 then f64_div v (f64_of_int 1000000)
      else f64_div v (mathPow10 decimals))"

definition stats_wrappedSolMint :: string where
  "stats_wrappedSolMint = ''So11111111111111111111111111111111111111112''"

definition stats_trackedMint :: "Envelope \<Rightarrow> string \<Rightarrow> string \<Rightarrow> string" where
  "stats_trackedMint env baseMint quoteMint =
     (if deref_or [] (er_Mint (ev_Refs env)) \<noteq> [] then deref_or [] (er_Mint (ev_Refs env))
      else if baseMint = stats_wrappedSolMint \<and> quoteMint \<noteq> [] then quoteMint
      else if quoteMint = stats_wrappedSolMint \<and> baseMint \<noteq> [] then baseMint
      else [])"

definition stats_stringValue :: "string option \<Rightarrow> string" where
  "stats_stringValue v = (case v of None \<Rightarrow> [] | Some s \<Rightarrow> s)"

text \<open>The mint, whether it is a buy, the raw quote and token amounts; None when not ok.\<close>

definition pumpAmmTradeMetrics :: "Envelope \<Rightarrow> PumpAmmSwapPayload \<Rightarrow> (string \<times> bool \<times> string \<times> string) option" where
  "pumpAmmTradeMetrics env payload =
     (let mint = stats_trackedMint env (pas_BaseMint payload) (pas_QuoteMint payload) in
      if mint = [] then None
      else
        let side = pas_Side payload;
            r = (if mint = pas_QuoteMint payload then
                   (if side = ''sell'' then
                      Some (stats_stringValue (pas_QuoteAmountOut payload), stats_stringValue (pas_BaseAmountIn payload), True)
                    else if side = ''buy'' \<or> side = ''buy_exact_quote_in'' then
                      Some (stats_stringValue (pas_QuoteAmountIn payload), stats_stringValue (pas_BaseAmountOut payload), False)
                    else None)
                 else
                   (if side = ''sell'' then
                      Some (stats_stringValue (pas_BaseAmountIn payload), stats_stringValue (pas_QuoteAmountOut payload), False)
                    else if side = ''buy'' \<or> side = ''buy_exact_quote_in'' then
                      Some (stats_stringValue (pas_BaseAmountOut payload), stats_stringValue (pas_QuoteAmountIn payload), True)
                    else None))
        in (case r of None \<Rightarrow> None
            | Some (tokenAmountRaw, quoteAmountRaw, isBuy) \<Rightarrow>
                (if tokenAmountRaw = [] \<or> quoteAmountRaw = [] then None
                 else Some (mint, isBuy, quoteAmountRaw, tokenAmountRaw))))"

definition recordTrade :: "string \<Rightarrow> bool \<Rightarrow> f64 \<Rightarrow> f64 \<Rightarrow> int \<Rightarrow> int \<Rightarrow> Broadcaster \<Rightarrow> Broadcaster" where
  "recordTrade mint isBuy vol price ts logID b =
     (if mint = [] then b
      else case getWindow mint b of (w, b1) \<Rightarrow> setWindow mint (appendSecondBucket w isBuy vol price ts logID) b1)"

definition ensureWindowSeeded ::
    "'s tradeMetricsStore option \<Rightarrow> string \<Rightarrow> int \<Rightarrow> Broadcaster \<Rightarrow> 's \<Rightarrow> Broadcaster \<times> 's" where
  "ensureWindowSeeded store mint nowTs b s = (case store of None \<Rightarrow> (b, s)
    | Some st \<Rightarrow>
      (if mint = [] then (b, s)
       else case getWindow mint b of (window, b1) \<Rightarrow>
         (if tw_Seeded window then (b1, s)
          else case tm_ListRecentTradeMetricsByMint st mint (sub64 nowTs shortWindowSeconds) s of
            (Inl e, s1) \<Rightarrow> (b1, s1)
          | (Inr metrics, s1) \<Rightarrow> (setWindow mint ((fold append_metric metrics window)\<lparr>tw_Seeded := True\<rparr>) b1, s1))))"

text \<open>The price of a trade: its volume by its quantity, zero when there is no quantity.\<close>

definition trade_price :: "f64 \<Rightarrow> f64 \<Rightarrow> f64" where
  "trade_price vol tokenQty = (if f64_lt f64_zero tokenQty then f64_div vol tokenQty else f64_zero)"

text \<open>
  The payload is marshalled and read into the struct. An error of the first leaves no bytes, an
  error of the second, too, ends the handler; ParseFloat errors are ignored, its value is not.
\<close>

definition reread :: "((string \<times> json) list \<Rightarrow> 'a \<Rightarrow> 'a \<times> bool) \<Rightarrow> 'a \<Rightarrow> RawMessage \<Rightarrow> 'a res" where
  "reread dec z raw = (case marshal_raw raw of Inl e \<Rightarrow> Inl e | Inr j \<Rightarrow> unmarshal_struct dec z (RawJson j))"

definition handlePumpfunTrade :: "'s tradeMetricsStore option \<Rightarrow> Envelope \<Rightarrow> Broadcaster \<Rightarrow> 's \<Rightarrow> Broadcaster \<times> 's" where
  "handlePumpfunTrade store env b s =
     (case reread dec_PumpfunTradePayload zero_PumpfunTradePayload (ev_Payload env) of
        Inl e \<Rightarrow> (b, s)
      | Inr payload \<Rightarrow>
          let vol = scaleAmount (fst (ParseFloat64 (pft_SolAmount payload))) 9;
              tokenQty = scaleAmount (fst (ParseFloat64 (pft_TokenAmount payload))) 6;
              price = trade_price vol tokenQty;
              (b1, s1) = ensureWindowSeeded store (pft_Mint payload) (ev_EventUnixTS env) b s
          in (recordTrade (pft_Mint payload) (pft_Side payload = ''buy'') vol price (ev_EventUnixTS env) (ev_LogID env) b1, s1))"

definition handlePumpAmmTrade :: "'s tradeMetricsStore option \<Rightarrow> Envelope \<Rightarrow> Broadcaster \<Rightarrow> 's \<Rightarrow> Broadcaster \<times> 's" where
  "handlePumpAmmTrade store env b s =
     (case reread dec_PumpAmmSwapPayload zero_PumpAmmSwapPayload (ev_Payload env) of
        Inl e \<Rightarrow> (b, s)
      | Inr payload \<Rightarrow> (case pumpAmmTradeMetrics env payload of
          None \<Rightarrow> (b, s)
        | Some (mint, isBuy, quoteAmountRaw, tokenAmountRaw) \<Rightarrow>
            (case (ParseFloat64 quoteAmountRaw, ParseFloat64 tokenAmountRaw) of ((quoteAmt, ok1), (tokenAmt, ok2)) \<Rightarrow>
              (if \<not> ok1 \<or> \<not> ok2 then (b, s)
               else
                 let vol = scaleAmount quoteAmt 9;
                     tokenQty = scaleAmount tokenAmt 6;
                     price = trade_price vol tokenQty;
                     (b1, s1) = ensureWindowSeeded store mint (ev_EventUnixTS env) b s
                 in (recordTrade mint isBuy vol price (ev_EventUnixTS env) (ev_LogID env) b1, s1)))))"

definition handleTrade :: "'s tradeMetricsStore option \<Rightarrow> Envelope \<Rightarrow> Broadcaster \<Rightarrow> 's \<Rightarrow> Broadcaster \<times> 's" where
  "handleTrade store env b s =
     (if isPumpfunTradeEvent env then handlePumpfunTrade store env b s
      else if isPumpAmmTradeEvent env then handlePumpAmmTrade store env b s
      else (b, s))"

section \<open>The sweep\<close>

text \<open>json.Marshal of a payload fails when one of its floats is no number.\<close>

definition payload_floats :: "TokenStatsPayload \<Rightarrow> f64 list" where
  "payload_floats p = [sp_Price p, sp_P1m p, sp_BV1m p, sp_SV1m p, sp_V1m p, sp_P5m p, sp_BV5m p, sp_SV5m p, sp_V5m p,
     sp_P1h p, sp_BV1h p, sp_SV1h p, sp_V1h p, sp_P4h p, sp_BV4h p, sp_SV4h p, sp_V4h p,
     sp_P24h p, sp_BV24h p, sp_SV24h p, sp_V24h p]"

definition fields_TokenStatsPayload :: "TokenStatsPayload \<Rightarrow> (string \<times> json) list" where
  "fields_TokenStatsPayload p = [
     (''mint'', JStr (sp_Mint p)), (''p'', JFloat (sp_Price p)), (''t'', enc_int (sp_Timestamp p)),
     (''p1m'', JFloat (sp_P1m p)), (''b1m'', enc_int (sp_B1m p)), (''s1m'', enc_int (sp_S1m p)),
     (''bv1m'', JFloat (sp_BV1m p)), (''sv1m'', JFloat (sp_SV1m p)), (''v1m'', JFloat (sp_V1m p)),
     (''p5m'', JFloat (sp_P5m p)), (''b5m'', enc_int (sp_B5m p)), (''s5m'', enc_int (sp_S5m p)),
     (''bv5m'', JFloat (sp_BV5m p)), (''sv5m'', JFloat (sp_SV5m p)), (''v5m'', JFloat (sp_V5m p)),
     (''p1h'', JFloat (sp_P1h p)), (''b1h'', enc_int (sp_B1h p)), (''s1h'', enc_int (sp_S1h p)),
     (''bv1h'', JFloat (sp_BV1h p)), (''sv1h'', JFloat (sp_SV1h p)), (''v1h'', JFloat (sp_V1h p)),
     (''p4h'', JFloat (sp_P4h p)), (''b4h'', enc_int (sp_B4h p)), (''s4h'', enc_int (sp_S4h p)),
     (''bv4h'', JFloat (sp_BV4h p)), (''sv4h'', JFloat (sp_SV4h p)), (''v4h'', JFloat (sp_V4h p)),
     (''p24h'', JFloat (sp_P24h p)), (''b24h'', enc_int (sp_B24h p)), (''s24h'', enc_int (sp_S24h p)),
     (''bv24h'', JFloat (sp_BV24h p)), (''sv24h'', JFloat (sp_SV24h p)), (''v24h'', JFloat (sp_V24h p))]"

definition marshal_stats :: "TokenStatsPayload \<Rightarrow> json option" where
  "marshal_stats p = (if list_all f64_marshalable (payload_floats p) then Some (JObj (fields_TokenStatsPayload p)) else None)"

definition token_topic :: "string \<Rightarrow> string" where
  "token_topic mint = ''token:'' @ mint"

definition stat_envelope :: "json \<Rightarrow> int \<Rightarrow> Envelope" where
  "stat_envelope payload nowTs =
     zero_Envelope\<lparr>ev_EventType := ''token_stat'', ev_Payload := RawJson payload, ev_EventUnixTS := nowTs\<rparr>"

definition subscribed :: "Hub option \<Rightarrow> string \<Rightarrow> bool" where
  "subscribed hub mint = (case hub of None \<Rightarrow> False | Some h \<Rightarrow> HasSubscribers (token_topic mint) h)"

text \<open>The first loop decides for each window: evict it, refresh it, or leave it for now.\<close>

definition evicts :: "Hub option \<Rightarrow> int \<Rightarrow> string \<Rightarrow> TokenWindowState \<Rightarrow> bool" where
  "evicts hub nowTs mint w \<longleftrightarrow>
     \<not> subscribed hub mint \<and> 0 < tw_LastActiveTs w \<and> 86400 < sub64 nowTs (tw_LastActiveTs w)"

definition refreshes :: "Hub option \<Rightarrow> int \<Rightarrow> string \<Rightarrow> TokenWindowState \<Rightarrow> bool" where
  "refreshes hub nowTs mint w \<longleftrightarrow>
     \<not> evicts hub nowTs mint w \<and>
     (subscribed hub mint \<or>
      0 < tw_LastActiveTs w \<and> sub64 nowTs (tw_LastActiveTs w) \<le> shortWindowSeconds \<or>
      tw_LastPersistedMinute w \<noteq> go_quot nowTs 60 * 60)"

text \<open>The refresh of one target: its record, the envelope to publish, and the state after it.\<close>

definition refresh ::
    "'s tradeMetricsStore option \<Rightarrow> Hub option \<Rightarrow> int \<Rightarrow> (string \<times> LongWindowMetricsRecord) list \<Rightarrow> string \<Rightarrow>
     Broadcaster \<Rightarrow> 's \<Rightarrow> (TokenMetricsCurrentRecord option \<times> Envelope option) \<times> Broadcaster \<times> 's" where
  "refresh store hub nowTs longMetrics mint b s =
     (let seeded = (case map_of (bc_windows b) mint of None \<Rightarrow> False | Some w \<Rightarrow> tw_Seeded w);
          (b1, s1) = (if subscribed hub mint \<and> \<not> seeded then ensureWindowSeeded store mint nowTs b s else (b, s));
          window = fst (getWindow mint b1);
          long = (case map_of longMetrics mint of None \<Rightarrow> zero_LongWindowMetricsRecord | Some l \<Rightarrow> l);
          record = buildCurrentRecord mint window long nowTs;
          b2 = setWindow mint (window\<lparr>tw_LastPersistedMinute := go_quot nowTs 60 * 60\<rparr>) b1;
          event = (if subscribed hub mint then
                     (case BuildPayloadFromCurrentMetrics mint record of None \<Rightarrow> None
                      | Some p \<Rightarrow> map_option (\<lambda>j. stat_envelope j nowTs) (marshal_stats p))
                   else None)
      in ((record, event), b2, s1))"

fun refresh_all ::
    "'s tradeMetricsStore option \<Rightarrow> Hub option \<Rightarrow> int \<Rightarrow> (string \<times> LongWindowMetricsRecord) list \<Rightarrow> string list \<Rightarrow>
     Broadcaster \<Rightarrow> 's \<Rightarrow> (TokenMetricsCurrentRecord list \<times> (string \<times> Envelope) list) \<times> Broadcaster \<times> 's" where
  "refresh_all store hub nowTs longMetrics [] b s = (([], []), b, s)"
| "refresh_all store hub nowTs longMetrics (mint # mints) b s =
     (case refresh store hub nowTs longMetrics mint b s of ((record, event), b1, s1) \<Rightarrow>
       (case refresh_all store hub nowTs longMetrics mints b1 s1 of ((records, events), b2, s2) \<Rightarrow>
         ((case record of None \<Rightarrow> records | Some r \<Rightarrow> r # records,
           case event of None \<Rightarrow> events | Some e \<Rightarrow> (mint, e) # events), b2, s2)))"

fun publish_all :: "(string \<times> Envelope) list \<Rightarrow> Hub \<Rightarrow> chan_panic + Hub" where
  "publish_all [] h = Inr h"
| "publish_all ((mint, e) # es) h = (case Publish (token_topic mint) e h of
      Inl p \<Rightarrow> Inl p | Inr h' \<Rightarrow> publish_all es h')"

text \<open>order is the order in which the map of windows is ranged over.\<close>

definition select_windows :: "(string \<Rightarrow> TokenWindowState \<Rightarrow> bool) \<Rightarrow> string list \<Rightarrow> Broadcaster \<Rightarrow> string list" where
  "select_windows f order b = filter (\<lambda>mint. case map_of (bc_windows b) mint of None \<Rightarrow> False | Some w \<Rightarrow> f mint w) order"

definition Sweep ::
    "'s tradeMetricsStore option \<Rightarrow> int \<Rightarrow> string list \<Rightarrow> Broadcaster \<Rightarrow> Hub option \<Rightarrow> 's \<Rightarrow>
     (chan_panic + Hub option) \<times> Broadcaster \<times> 's" where
  "Sweep store nowTs order b hub s =
     (let targets = select_windows (refreshes hub nowTs) order b;
          evictions = select_windows (evicts hub nowTs) order b;
          b1 = fold removeWindow evictions b
      in if targets = [] then (Inr hub, b1, s)
      else
        let (longMetrics, s1) = (case store of None \<Rightarrow> ([], s)
              | Some st \<Rightarrow> (case tm_ListLongWindowMetricsByMints st targets nowTs s of
                  (Inl e, s1) \<Rightarrow> ([], s1) | (Inr items, s1) \<Rightarrow> (items, s1)));
            ((records, events), b2, s2) = refresh_all store hub nowTs longMetrics targets b1 s1;
            s3 = (case store of None \<Rightarrow> s2
              | Some st \<Rightarrow> if records \<noteq> [] then snd (tm_UpsertTokenMetricsCurrent st records s2) else s2)
        in (case hub of None \<Rightarrow> Inr None | Some h \<Rightarrow> map_sum id Some (publish_all events h), b2, s3))"

section \<open>Backfill\<close>

fun backfill_records ::
    "'s tradeMetricsStore \<Rightarrow> int \<Rightarrow> (string \<times> LongWindowMetricsRecord) list \<Rightarrow> (string \<times> LatestTradeSeedRecord) list \<Rightarrow>
     string list \<Rightarrow> 's \<Rightarrow> TokenMetricsCurrentRecord list res \<times> 's" where
  "backfill_records st nowTs longMetrics latestSeeds [] s = (Inr [], s)"
| "backfill_records st nowTs longMetrics latestSeeds (mint # mints) s =
     (case tm_ListRecentTradeMetricsByMint st mint (sub64 nowTs shortWindowSeconds) s of
        (Inl e, s1) \<Rightarrow> (Inl e, s1)
      | (Inr recentMetrics, s1) \<Rightarrow>
        let w0 = fold append_metric recentMetrics (zero_TokenWindowState\<lparr>tw_Seeded := True\<rparr>);
            w1 = (case map_of latestSeeds mint of None \<Rightarrow> w0
              | Some seed \<Rightarrow>
                  let w = (case ls_LatestPrice seed of None \<Rightarrow> w0 | Some p \<Rightarrow> w0\<lparr>tw_LastPrice := p\<rparr>)
                  in (case ls_LatestEventUnix seed of None \<Rightarrow> w
                      | Some t \<Rightarrow> w\<lparr>tw_LastUnixTs := t, tw_LastActiveTs := t\<rparr>));
            long = (case map_of longMetrics mint of None \<Rightarrow> zero_LongWindowMetricsRecord | Some l \<Rightarrow> l);
            record = buildCurrentRecord mint w1 long nowTs
        in (case backfill_records st nowTs longMetrics latestSeeds mints s1 of
             (Inl e, s2) \<Rightarrow> (Inl e, s2)
           | (Inr records, s2) \<Rightarrow> (Inr (case record of None \<Rightarrow> records | Some r \<Rightarrow> r # records), s2)))"

definition BackfillCurrentMetrics :: "'s tradeMetricsStore option \<Rightarrow> int \<Rightarrow> int \<Rightarrow> 's action" where
  "BackfillCurrentMetrics store limit nowTs s = (case store of None \<Rightarrow> (None, s)
    | Some st \<Rightarrow>
      (if limit \<le> 0 then (None, s)
       else case tm_ListMetricBackfillCandidates st limit s of
         (Inl e, s1) \<Rightarrow> (Some e, s1)
       | (Inr mints, s1) \<Rightarrow>
         (if mints = [] then (None, s1)
          else case tm_ListLongWindowMetricsByMints st mints nowTs s1 of
            (Inl e, s2) \<Rightarrow> (Some e, s2)
          | (Inr longMetrics, s2) \<Rightarrow> (case tm_ListLatestTradeSeedsByMints st mints s2 of
              (Inl e, s3) \<Rightarrow> (Some e, s3)
            | (Inr latestSeeds, s3) \<Rightarrow> (case backfill_records st nowTs longMetrics latestSeeds mints s3 of
                (Inl e, s4) \<Rightarrow> (Some e, s4)
              | (Inr records, s4) \<Rightarrow>
                  (if records = [] then (None, s4) else tm_UpsertTokenMetricsCurrent st records s4))))))"

section \<open>The loop\<close>

definition subscribeGlobalHub :: "Broadcaster \<Rightarrow> Hub \<Rightarrow> nat \<times> Hub" where
  "subscribeGlobalHub b h =
     Subscribe ''global'' (nat (if bc_globalHubBuffer b \<le> 0 then 8192 else bc_globalHubBuffer b)) h"

text \<open>The state of Run with a hub: its subscription, the windows, the hub and the store.\<close>

record 's RunState =
  rs_sub :: nat
  rs_broadcaster :: Broadcaster
  rs_hub :: Hub
  rs_store :: 's

definition resubscribeGlobal :: "'s tradeMetricsStore option \<Rightarrow> int \<Rightarrow> 's RunState \<Rightarrow> chan_panic + 's RunState" where
  "resubscribeGlobal store nowTs r = (case Unsubscribe (Some (rs_sub r)) (rs_hub r) of
      Inl p \<Rightarrow> Inl p
    | Inr h \<Rightarrow> (case subscribeGlobalHub (rs_broadcaster r) h of (sub, h') \<Rightarrow>
        Inr (r\<lparr>rs_sub := sub, rs_hub := h', rs_store := snd (BackfillCurrentMetrics store 250 nowTs (rs_store r))\<rparr>)))"

text \<open>
  A round of the select: the case that fired, with the time and the order a sweep needs. A
  receive that finds its channel empty would block, so that case does not fire (None).
\<close>

datatype run_case = OnEvent int | OnOverflow int | OnTick int "string list"

definition run_round :: "'s tradeMetricsStore option \<Rightarrow> run_case \<Rightarrow> 's RunState \<Rightarrow> (chan_panic + 's RunState) option" where
  "run_round store c r = (case c of
      OnTick nowTs order \<Rightarrow>
        (case Sweep store nowTs order (rs_broadcaster r) (Some (rs_hub r)) (rs_store r) of
          (Inl p, b, s) \<Rightarrow> Some (Inl p)
        | (Inr h, b, s) \<Rightarrow> Some (Inr (r\<lparr>rs_broadcaster := b, rs_hub := the h, rs_store := s\<rparr>)))
    | OnEvent nowTs \<Rightarrow>
        (case hub_heap (rs_hub r) (rs_sub r) of None \<Rightarrow> None
         | Some sb \<Rightarrow> (case recv_chan (sub_Events sb) of
             None \<Rightarrow> None
           | Some (None, c) \<Rightarrow> Some (resubscribeGlobal store nowTs r)
           | Some (Some event, c) \<Rightarrow>
               (case handleTrade store event (rs_broadcaster r) (rs_store r) of (b, s) \<Rightarrow>
                 Some (Inr (r\<lparr>rs_broadcaster := b, rs_store := s,
                   rs_hub := (rs_hub r)\<lparr>hub_heap := (hub_heap (rs_hub r))(rs_sub r \<mapsto> sb\<lparr>sub_Events := c\<rparr>)\<rparr>\<rparr>)))))
    | OnOverflow nowTs \<Rightarrow>
        (case hub_heap (rs_hub r) (rs_sub r) of None \<Rightarrow> None
         | Some sb \<Rightarrow> (case recv_chan (sub_Overflow sb) of
             None \<Rightarrow> None
           | Some (v, c) \<Rightarrow> Some (resubscribeGlobal store nowTs
               (r\<lparr>rs_hub := (rs_hub r)\<lparr>hub_heap := (hub_heap (rs_hub r))(rs_sub r \<mapsto> sb\<lparr>sub_Overflow := c\<rparr>)\<rparr>\<rparr>)))))"

fun run_rounds :: "'s tradeMetricsStore option \<Rightarrow> run_case list \<Rightarrow> 's RunState \<Rightarrow> (chan_panic + 's RunState) option" where
  "run_rounds store [] r = Some (Inr r)"
| "run_rounds store (c # cs) r = (case run_round store c r of
      None \<Rightarrow> None
    | Some (Inl p) \<Rightarrow> Some (Inl p)
    | Some (Inr r') \<Rightarrow> run_rounds store cs r')"

section \<open>The hub under the broadcaster\<close>

lemma publish_all_ops:
  "publish_all es h = map_sum id snd (run_ops (map (\<lambda>(mint, e). OpPublish (token_topic mint) e) es) h)"
proof (induction es arbitrary: h)
  case (Cons x es)
  obtain mint e where x: "x = (mint, e)" by (cases x)
  show ?case
  proof (cases "Publish (token_topic mint) e h")
    case (Inr h1)
    then show ?thesis
      by (cases "run_ops (map (\<lambda>(mint, e). OpPublish (token_topic mint) e) es) h1") (auto simp: x Cons.IH)
  qed (simp add: x)
qed simp

text \<open>What holds between the rounds: the broadcaster has a subscription to the global topic.\<close>

definition run_inv :: "'s RunState \<Rightarrow> bool" where
  "run_inv r \<longleftrightarrow> hub_inv (rs_hub r) \<and> (\<exists>s. homed (rs_hub r) (rs_sub r) ''global'' s)"

lemma run_inv_hub:
  assumes "run_inv r"
  shows "\<exists>out h. run_ops ps (rs_hub r) = Inr (out, h) \<and> run_inv (r\<lparr>rs_hub := h, rs_broadcaster := b, rs_store := s\<rparr>)"
  using assms run_ops_delivery [of "rs_hub r" "rs_sub r" "''global''" _ ps] unfolding run_inv_def by fastforce

lemma resubscribe_inv:
  assumes "hub_inv (rs_hub r)"
  shows "\<exists>r'. resubscribeGlobal store nowTs r = Inr r' \<and> run_inv r' \<and> (\<exists>s. hub_heap (rs_hub r') (rs_sub r') = Some s \<and> sub_live s)"
proof -
  obtain h1 where h1: "Unsubscribe (Some (rs_sub r)) (rs_hub r) = Inr h1" "hub_inv h1"
    using Unsubscribe_spec [OF assms, of "rs_sub r"] by auto
  obtain sub h2 n where h2: "subscribeGlobalHub (rs_broadcaster r) h1 = (sub, h2)" "Subscribe ''global'' n h1 = (sub, h2)"
    by (cases "subscribeGlobalHub (rs_broadcaster r) h1") (simp add: subscribeGlobalHub_def)
  note sp = Subscribe_spec [OF h1(2) h2(2)]
  have "homed h2 sub ''global'' (newSubscription n)"
    using sp hub_invD(2,4) [OF h1(2)] by (fastforce simp: homed_def)
  then show ?thesis using h1(1) h2(1) sp(1)
    by (auto simp: resubscribeGlobal_def run_inv_def homed_def)
qed

lemma hub_inv_update_sub:
  assumes "hub_inv h" "hub_heap h sub = Some s" "sub_inv s'" "sub_live s' = sub_live s"
  shows "hub_inv (h\<lparr>hub_heap := (hub_heap h)(sub \<mapsto> s')\<rparr>)"
proof (rule hub_invI)
  note inv = hub_invD [OF assms(1)]
  show "topics_inv (hub_subscribers (h\<lparr>hub_heap := (hub_heap h)(sub \<mapsto> s')\<rparr>))" using inv(1) by simp
  show "y < hub_next (h\<lparr>hub_heap := (hub_heap h)(sub \<mapsto> s')\<rparr>) \<and> sub_inv u"
    if "hub_heap (h\<lparr>hub_heap := (hub_heap h)(sub \<mapsto> s')\<rparr>) y = Some u" for y u
    using that inv(2) [OF assms(2)] inv(2,3) assms(3) by (auto split: if_splits)
  show "\<exists>u. hub_heap (h\<lparr>hub_heap := (hub_heap h)(sub \<mapsto> s')\<rparr>) y = Some u \<and> sub_live u"
    if "in_topic (h\<lparr>hub_heap := (hub_heap h)(sub \<mapsto> s')\<rparr>) t y" for t y
    using inv(4) [of t y] that assms(2,4) by (auto simp: in_topic_def)
qed

lemma recv_chan_buf: "recv_chan c = Some (v, c') \<Longrightarrow> c' = c\<lparr>ch_buf := tl (ch_buf c)\<rparr>"
  by (cases "ch_buf c") (auto simp: recv_chan_def split: if_splits)

lemma run_inv_recv:
  assumes "run_inv r" "hub_heap (rs_hub r) (rs_sub r) = Some sb" "sub_inv sb'" "sub_live sb' = sub_live sb"
  shows "run_inv (r\<lparr>rs_hub := (rs_hub r)\<lparr>hub_heap := (hub_heap (rs_hub r))(rs_sub r \<mapsto> sb')\<rparr>\<rparr>)"
  using assms hub_inv_update_sub [of "rs_hub r" "rs_sub r" sb sb'] by (auto simp: run_inv_def homed_def in_topic_def)

lemma run_inv_cong: "run_inv (r\<lparr>rs_broadcaster := b, rs_store := s, rs_hub := h\<rparr>) = run_inv (r\<lparr>rs_hub := h\<rparr>)"
  by (simp add: run_inv_def)

lemma Sweep_hub:
  assumes "run_inv r" "Sweep store nowTs order b (Some (rs_hub r)) s = (res, b', s')"
  shows "\<exists>h. res = Inr (Some h) \<and> run_inv (r\<lparr>rs_broadcaster := b', rs_hub := h, rs_store := s'\<rparr>)"
proof (cases "select_windows (refreshes (Some (rs_hub r)) nowTs) order b = []")
  case True
  then show ?thesis using assms by (auto simp: Sweep_def Let_def run_inv_def)
next
  case False
  obtain events where res: "res = map_sum id Some (publish_all events (rs_hub r))"
    using assms(2) False by (auto simp: Sweep_def Let_def split: prod.splits)
  then show ?thesis
    using run_inv_hub [OF assms(1), of "map (\<lambda>(mint, e). OpPublish (token_topic mint) e) events"] publish_all_ops [of events]
    by (fastforce simp: run_inv_def)
qed

lemma run_round_inv:
  assumes "run_inv r" "run_round store c r = Some x"
  shows "\<exists>r'. x = Inr r' \<and> run_inv r'"
proof (cases c)
  case (OnTick nowTs order)
  obtain res b' s' where sw: "Sweep store nowTs order (rs_broadcaster r) (Some (rs_hub r)) (rs_store r) = (res, b', s')"
    by (cases "Sweep store nowTs order (rs_broadcaster r) (Some (rs_hub r)) (rs_store r)")
  then show ?thesis using Sweep_hub [OF assms(1) sw] assms(2) OnTick by (auto simp: run_round_def)
next
  case (OnEvent nowTs)
  obtain sb v ch where sb: "hub_heap (rs_hub r) (rs_sub r) = Some sb" "recv_chan (sub_Events sb) = Some (v, ch)"
    using assms(2) OnEvent by (auto simp: run_round_def split: option.splits prod.splits)
  have inv: "sub_inv sb" using hub_invD(3) sb(1) assms(1) by (auto simp: run_inv_def)
  show ?thesis
  proof (cases v)
    case None
    then show ?thesis
      using assms(2) OnEvent sb resubscribe_inv [of r store nowTs] assms(1) by (auto simp: run_round_def run_inv_def)
  next
    case (Some event)
    obtain b s where h: "handleTrade store event (rs_broadcaster r) (rs_store r) = (b, s)"
      by (cases "handleTrade store event (rs_broadcaster r) (rs_store r)")
    have "sub_inv (sb\<lparr>sub_Events := ch\<rparr>)" "sub_live (sb\<lparr>sub_Events := ch\<rparr>) = sub_live sb"
      using inv recv_chan_buf [OF sb(2)] by (auto simp: sub_inv_def sub_live_def)
    then show ?thesis
      using run_inv_recv [OF assms(1) sb(1), of "sb\<lparr>sub_Events := ch\<rparr>"] assms(2) OnEvent sb Some h
      by (auto simp: run_round_def run_inv_cong)
  qed
next
  case (OnOverflow nowTs)
  obtain sb v ch where sb: "hub_heap (rs_hub r) (rs_sub r) = Some sb" "recv_chan (sub_Overflow sb) = Some (v, ch)"
    using assms(2) OnOverflow by (auto simp: run_round_def split: option.splits prod.splits)
  have inv: "sub_inv sb" using hub_invD(3) sb(1) assms(1) by (auto simp: run_inv_def)
  let ?r = "r\<lparr>rs_hub := (rs_hub r)\<lparr>hub_heap := (hub_heap (rs_hub r))(rs_sub r \<mapsto> sb\<lparr>sub_Overflow := ch\<rparr>)\<rparr>\<rparr>"
  have "sub_inv (sb\<lparr>sub_Overflow := ch\<rparr>)" "sub_live (sb\<lparr>sub_Overflow := ch\<rparr>) = sub_live sb"
    using inv recv_chan_buf [OF sb(2)] by (cases "ch_buf (sub_Overflow sb)"; auto simp: sub_inv_def sub_live_def)+
  then have "run_inv ?r" using run_inv_recv [OF assms(1) sb(1)] by blast
  then show ?thesis
    using assms(2) OnOverflow sb resubscribe_inv [of ?r store nowTs] by (auto simp: run_round_def run_inv_def)
qed

text \<open>
  Histories: rounds of the loop and hub operations of other goroutines, in any order. A case
  that does not fire changes nothing.
\<close>

fun run_history :: "'s tradeMetricsStore option \<Rightarrow> (hub_op + run_case) list \<Rightarrow> 's RunState \<Rightarrow> chan_panic + 's RunState" where
  "run_history store [] r = Inr r"
| "run_history store (Inl p # hist) r = (case run_op p (rs_hub r) of
      Inl e \<Rightarrow> Inl e | Inr (out, h) \<Rightarrow> run_history store hist (r\<lparr>rs_hub := h\<rparr>))"
| "run_history store (Inr c # hist) r = (case run_round store c r of
      None \<Rightarrow> run_history store hist r
    | Some (Inl e) \<Rightarrow> Inl e
    | Some (Inr r') \<Rightarrow> run_history store hist r')"

lemma run_history_inv: "run_inv r \<Longrightarrow> \<exists>r'. run_history store hist r = Inr r' \<and> run_inv r'"
proof (induction hist arbitrary: r)
  case (Cons x hist)
  show ?case
  proof (cases x)
    case (Inl p)
    obtain h where h: "run_op p (rs_hub r) = Inr h" "run_inv (r\<lparr>rs_hub := snd h\<rparr>)"
      using run_op_delivery [of "rs_hub r" "rs_sub r" "''global''" _ p] Cons.prems by (fastforce simp: run_inv_def)
    then show ?thesis using Inl Cons.IH [OF h(2)] by (cases h) simp
  next
    case (Inr c)
    show ?thesis
    proof (cases "run_round store c r")
      case None
      then show ?thesis using Inr Cons.IH [OF Cons.prems] by simp
    next
      case (Some y)
      then obtain r' where "y = Inr r'" "run_inv r'" using run_round_inv [OF Cons.prems Some] by blast
      then show ?thesis using Inr Some Cons.IH by simp
    qed
  qed
qed simp

definition start_run :: "Broadcaster \<Rightarrow> Hub \<Rightarrow> 's \<Rightarrow> 's RunState" where
  "start_run b h s = (case subscribeGlobalHub b h of (sub, h') \<Rightarrow>
     \<lparr> rs_sub = sub, rs_broadcaster = b, rs_hub = h', rs_store = s \<rparr>)"

lemma start_run_inv: "hub_inv h \<Longrightarrow> run_inv (start_run b h s)"
proof -
  assume h: "hub_inv h"
  obtain sub h2 n where h2: "subscribeGlobalHub b h = (sub, h2)" "Subscribe ''global'' n h = (sub, h2)"
    by (cases "subscribeGlobalHub b h") (simp add: subscribeGlobalHub_def)
  note sp = Subscribe_spec [OF h h2(2)]
  have "homed h2 sub ''global'' (newSubscription n)"
    using sp hub_invD(2,4) [OF h] by (fastforce simp: homed_def)
  then show ?thesis using h2(1) sp(1) by (auto simp: start_run_def run_inv_def)
qed

section \<open>The windows\<close>

lemma bc_windows_set [simp]:
  "map_of (bc_windows (setWindow mint w b)) x = (if x = mint then Some w else map_of (bc_windows b) x)"
  by (auto simp: setWindow_def update_conv')

lemma map_of_AList_delete: "map_of (AList.delete k xs) x = (if x = k then None else map_of xs x)"
  by (simp add: delete_conv')

lemma removeWindows: "map_of (bc_windows (fold removeWindow ms b)) x = (if x \<in> set ms then None else map_of (bc_windows b) x)"
  by (induction ms arbitrary: b) (auto simp: removeWindow_def map_of_AList_delete)

lemma getWindow_windows:
  "getWindow mint b = (w, b') \<Longrightarrow> w = (case map_of (bc_windows b) mint of Some v \<Rightarrow> v | None \<Rightarrow> zero_TokenWindowState) \<and>
     map_of (bc_windows b') x = (if x = mint then Some w else map_of (bc_windows b) x)"
  by (auto simp: getWindow_def split: option.splits)

lemma ensureWindowSeeded_other:
  assumes "ensureWindowSeeded store mint nowTs b s = (b', s')" "x \<noteq> mint"
  shows "map_of (bc_windows b') x = map_of (bc_windows b) x"
proof -
  obtain w b1 where g: "getWindow mint b = (w, b1)" by (cases "getWindow mint b")
  have "map_of (bc_windows b1) x = map_of (bc_windows b) x" using getWindow_windows [OF g, of x] assms(2) by simp
  then show ?thesis using assms g
    by (auto simp: ensureWindowSeeded_def split: option.splits if_splits prod.splits sum.splits)
qed

lemma ensureWindowSeeded_seeded:
  "map_of (bc_windows b) mint = Some w \<Longrightarrow> tw_Seeded w \<Longrightarrow> ensureWindowSeeded store mint nowTs b s = (b, s)"
  by (simp add: ensureWindowSeeded_def getWindow_def split: option.splits)

lemma ensureWindowSeeded_keeps:
  assumes "ensureWindowSeeded store mint nowTs b s = (b', s')" "map_of (bc_windows b) mint = Some w"
  shows "\<exists>w'. map_of (bc_windows b') mint = Some w'"
  using assms by (auto simp: ensureWindowSeeded_def getWindow_def split: option.splits if_splits sum.splits prod.splits)

text \<open>A refreshed window only remembers the minute, unless it was seeded first.\<close>

lemma refresh_windows:
  assumes "refresh store hub nowTs longMetrics mint b s = (out, b', s')" "map_of (bc_windows b) mint = Some w"
  shows "\<exists>w'. map_of (bc_windows b') mint = Some w' \<and> tw_LastPersistedMinute w' = go_quot nowTs 60 * 60 \<and>
      (tw_Seeded w \<or> \<not> subscribed hub mint \<longrightarrow> w' = w\<lparr>tw_LastPersistedMinute := go_quot nowTs 60 * 60\<rparr>)"
    and "x \<noteq> mint \<Longrightarrow> map_of (bc_windows b') x = map_of (bc_windows b) x"
proof -
  define c where "c \<longleftrightarrow> subscribed hub mint \<and> \<not> tw_Seeded w"
  obtain b1 s1 where b1: "(if c then ensureWindowSeeded store mint nowTs b s else (b, s)) = (b1, s1)"
    by (cases "if c then ensureWindowSeeded store mint nowTs b s else (b, s)")
  obtain w1 where w1: "map_of (bc_windows b1) mint = Some w1" "\<not> c \<Longrightarrow> w1 = w"
    using b1 assms(2) ensureWindowSeeded_keeps [of store mint nowTs b s b1 s1 w] by (cases c) auto
  have b': "b' = setWindow mint (w1\<lparr>tw_LastPersistedMinute := go_quot nowTs 60 * 60\<rparr>) b1"
    using assms(1,2) b1 w1(1)
    by (cases "subscribed hub mint"; cases "tw_Seeded w") (simp_all add: refresh_def c_def getWindow_def Let_def)
  show "\<exists>w'. map_of (bc_windows b') mint = Some w' \<and> tw_LastPersistedMinute w' = go_quot nowTs 60 * 60 \<and>
      (tw_Seeded w \<or> \<not> subscribed hub mint \<longrightarrow> w' = w\<lparr>tw_LastPersistedMinute := go_quot nowTs 60 * 60\<rparr>)"
    using w1(2) by (auto simp: b' c_def)
  show "x \<noteq> mint \<Longrightarrow> map_of (bc_windows b') x = map_of (bc_windows b) x"
    using b1 ensureWindowSeeded_other by (cases c) (auto simp: b')
qed

lemma refresh_all_windows:
  assumes "refresh_all store hub nowTs longMetrics mints b s = (out, b', s')" "distinct mints"
    "\<And>m. m \<in> set mints \<Longrightarrow> map_of (bc_windows b) m \<noteq> None"
  shows "(x \<notin> set mints \<longrightarrow> map_of (bc_windows b') x = map_of (bc_windows b) x) \<and>
    (\<forall>w. x \<in> set mints \<longrightarrow> map_of (bc_windows b) x = Some w \<longrightarrow>
      (\<exists>w'. map_of (bc_windows b') x = Some w' \<and> tw_LastPersistedMinute w' = go_quot nowTs 60 * 60 \<and>
        (tw_Seeded w \<or> \<not> subscribed hub x \<longrightarrow> w' = w\<lparr>tw_LastPersistedMinute := go_quot nowTs 60 * 60\<rparr>)))"
  using assms
proof (induction mints arbitrary: b s out)
  case Nil
  then show ?case by simp
next
  case (Cons m ms)
  obtain o1 b1 s1 where r: "refresh store hub nowTs longMetrics m b s = (o1, b1, s1)"
    by (cases "refresh store hub nowTs longMetrics m b s")
  obtain o2 where ra: "refresh_all store hub nowTs longMetrics ms b1 s1 = (o2, b', s')"
    using Cons.prems(1) r by (auto split: prod.splits)
  obtain w where w: "map_of (bc_windows b) m = Some w" using Cons.prems(3) [of m] by auto
  note rw = refresh_windows [OF r w]
  have mem: "map_of (bc_windows b1) y \<noteq> None" if "y \<in> set ms" for y
  proof -
    have "y \<noteq> m" using that Cons.prems(2) by auto
    then show ?thesis using Cons.prems(3) [of y] rw(2) [of y] that by simp
  qed
  note IH = Cons.IH [OF ra _ mem]
  show ?case
  proof (cases "x = m")
    case True
    then show ?thesis using IH rw(1) Cons.prems(2) w by auto
  next
    case False
    then show ?thesis using IH rw(2) [OF False] Cons.prems(2) by auto
  qed
qed

section \<open>The trades of a token\<close>

text \<open>What an event adds to the window of its token.\<close>

definition trade_of :: "Envelope \<Rightarrow> (string \<times> bool \<times> f64 \<times> f64) option" where
  "trade_of env =
     (if isPumpfunTradeEvent env then
        (case reread dec_PumpfunTradePayload zero_PumpfunTradePayload (ev_Payload env) of Inl _ \<Rightarrow> None
         | Inr p \<Rightarrow>
            let vol = scaleAmount (fst (ParseFloat64 (pft_SolAmount p))) 9 in
            Some (pft_Mint p, pft_Side p = ''buy'', vol, trade_price vol (scaleAmount (fst (ParseFloat64 (pft_TokenAmount p))) 6)))
      else if isPumpAmmTradeEvent env then
        (case reread dec_PumpAmmSwapPayload zero_PumpAmmSwapPayload (ev_Payload env) of Inl _ \<Rightarrow> None
         | Inr p \<Rightarrow> (case pumpAmmTradeMetrics env p of None \<Rightarrow> None
            | Some (mint, isBuy, q, t) \<Rightarrow>
                (if \<not> snd (ParseFloat64 q) \<or> \<not> snd (ParseFloat64 t) then None
                 else let vol = scaleAmount (fst (ParseFloat64 q)) 9 in
                   Some (mint, isBuy, vol, trade_price vol (scaleAmount (fst (ParseFloat64 t)) 6)))))
      else None)"

lemma handleTrade_trade:
  "handleTrade store env b s = (case trade_of env of None \<Rightarrow> (b, s)
     | Some (mint, isBuy, vol, price) \<Rightarrow>
        (case ensureWindowSeeded store mint (ev_EventUnixTS env) b s of (b1, s1) \<Rightarrow>
          (recordTrade mint isBuy vol price (ev_EventUnixTS env) (ev_LogID env) b1, s1)))"
  by (auto simp: handleTrade_def trade_of_def handlePumpfunTrade_def handlePumpAmmTrade_def Let_def
      split: sum.splits option.splits prod.splits)

fun handle_trades :: "'s tradeMetricsStore option \<Rightarrow> Envelope list \<Rightarrow> Broadcaster \<Rightarrow> 's \<Rightarrow> Broadcaster \<times> 's" where
  "handle_trades store [] b s = (b, s)"
| "handle_trades store (e # es) b s = (case handleTrade store e b s of (b', s') \<Rightarrow> handle_trades store es b' s')"

definition append_event :: "string \<Rightarrow> Envelope \<Rightarrow> TokenWindowState \<Rightarrow> TokenWindowState" where
  "append_event mint env w = (case trade_of env of
      Some (m, isBuy, vol, price) \<Rightarrow>
        if m = mint then appendSecondBucket w isBuy vol price (ev_EventUnixTS env) (ev_LogID env) else w
    | None \<Rightarrow> w)"

lemma append_event_seeded [simp]: "tw_Seeded (append_event mint env w) = tw_Seeded w"
  by (simp add: append_event_def appendSecondBucket_def Let_def split: option.splits prod.splits)

lemma handleTrade_window:
  assumes "map_of (bc_windows b) mint = Some w" "tw_Seeded w" "mint \<noteq> []" "handleTrade store env b s = (b', s')"
  shows "map_of (bc_windows b') mint = Some (append_event mint env w)"
proof (cases "trade_of env")
  case None
  then show ?thesis using assms by (simp add: handleTrade_trade append_event_def)
next
  case (Some tr)
  then obtain m isBuy vol price where tr: "trade_of env = Some (m, isBuy, vol, price)" by (cases tr) auto
  show ?thesis
  proof (cases "m = mint")
    case True
    note es = ensureWindowSeeded_seeded [OF assms(1,2), of store "ev_EventUnixTS env" s]
    show ?thesis
      using True assms es tr
      by (auto simp: handleTrade_trade append_event_def recordTrade_def getWindow_def)
  next
    case False
    obtain b1 s1 where e: "ensureWindowSeeded store m (ev_EventUnixTS env) b s = (b1, s1)"
      by (cases "ensureWindowSeeded store m (ev_EventUnixTS env) b s")
    obtain w1 b2 where g: "getWindow m b1 = (w1, b2)" by (cases "getWindow m b1")
    have "map_of (bc_windows b2) mint = Some w"
      using ensureWindowSeeded_other [OF e, of mint] getWindow_windows [OF g, of mint] False assms(1) by auto
    moreover have "map_of (bc_windows b1) mint = Some w"
      using ensureWindowSeeded_other [OF e, of mint] False assms(1) by auto
    ultimately show ?thesis
      using assms(4) tr e g False by (auto simp: handleTrade_trade append_event_def recordTrade_def)
  qed
qed

section \<open>Properties\<close>

lemma pumpAmmTradeMetrics_fields:
  "stats_trackedMint env b q = trackedMint env b q" "stats_stringValue v = stringValue v"
  by (simp_all add: stats_trackedMint_def trackedMint_def stats_wrappedSolMint_def SolMint_def stats_stringValue_def stringValue_def)

lemma present_amounts:
  "(if stringValue u = [] \<or> stringValue v = [] then None else Some (m, b, stringValue v, stringValue u)) =
      Some (mint, isBuy, quoteAmount, tokenAmount) \<longleftrightarrow>
   tokenAmount \<noteq> [] \<and> quoteAmount \<noteq> [] \<and> m = mint \<and> b = isBuy \<and> u = Some tokenAmount \<and> v = Some quoteAmount"
  by (cases u; cases v) (auto simp: stringValue_def)

lemma metrics_as_sides:
  fixes env p
  defines "m \<equiv> trackedMint env (pas_BaseMint p) (pas_QuoteMint p)"
  assumes "m \<noteq> []"
  shows "pumpAmmTradeMetrics env p = Some (mint, isBuy, quoteAmount, tokenAmount) \<longleftrightarrow>
    mint = m \<and> (\<exists>qm. swap_sides m p i = Inr (qm, if isBuy then ''buy'' else ''sell'', tokenAmount, quoteAmount))"
proof -
  note defs = swap_sides_def pumpAmmTradeMetrics_def pumpAmmTradeMetrics_fields both_amounts present_amounts
  let ?side = "pas_Side p"
  have m: "stats_trackedMint env (pas_BaseMint p) (pas_QuoteMint p) = m" by (simp add: m_def pumpAmmTradeMetrics_fields)
  consider "?side = ''sell''" | "?side = ''buy'' \<or> ?side = ''buy_exact_quote_in''"
    | "?side \<noteq> ''sell''" "?side \<noteq> ''buy''" "?side \<noteq> ''buy_exact_quote_in''" by blast
  then show ?thesis
  proof cases
    case 1
    then show ?thesis using assms(2)
      by (cases "m = pas_QuoteMint p"; cases isBuy) (auto simp: defs m_def [symmetric])
  next
    case 2
    then show ?thesis using assms(2)
      by (cases "m = pas_QuoteMint p"; cases isBuy) (auto simp: defs m_def [symmetric])
  next
    case 3
    then show ?thesis using assms(2)
      by (cases "m = pas_QuoteMint p") (simp_all add: defs m_def [symmetric])
  qed
qed

text \<open>
  C22: the live statistics and the read model see the same trades: the broadcaster takes a swap
  as a buy or a sell of a token with certain amounts exactly when the projector builds a trade of
  that token, that side and those amounts from it, and ignores it exactly when the projector
  rejects it.
\<close>

theorem stats_trades_agree:
  "pumpAmmTradeMetrics env p = Some (mint, isBuy, quoteAmount, tokenAmount) \<longleftrightarrow>
     (\<exists>t. buildPumpAmmTrade env p = Inr t \<and> te_Mint t = mint \<and> te_Side t = (if isBuy then ''buy'' else ''sell'') \<and>
        te_QuoteAmountRaw t = quoteAmount \<and> te_TokenAmountRaw t = tokenAmount)"
proof -
  let ?m = "trackedMint env (pas_BaseMint p) (pas_QuoteMint p)"
  have "(\<exists>t. buildPumpAmmTrade env p = Inr t \<and> te_Mint t = mint \<and> te_Side t = (if isBuy then ''buy'' else ''sell'') \<and>
        te_QuoteAmountRaw t = quoteAmount \<and> te_TokenAmountRaw t = tokenAmount) \<longleftrightarrow>
      ?m \<noteq> [] \<and> mint = ?m \<and>
      (\<exists>qm. swap_sides ?m p (ev_EventID env) = Inr (qm, if isBuy then ''buy'' else ''sell'', tokenAmount, quoteAmount))"
    by (auto simp: buildPumpAmmTrade_def Let_def split: sum.splits)
  also have "\<dots> \<longleftrightarrow> pumpAmmTradeMetrics env p = Some (mint, isBuy, quoteAmount, tokenAmount)"
  proof (cases "?m = []")
    case True
    then show ?thesis by (simp add: pumpAmmTradeMetrics_def pumpAmmTradeMetrics_fields)
  next
    case False
    then show ?thesis using metrics_as_sides [OF False, of mint isBuy quoteAmount tokenAmount "ev_EventID env"] by blast
  qed
  finally show ?thesis by simp
qed

text \<open>
  C21: the broadcaster survives every history of hub operations and loop rounds, in any order: no
  round panics, the hub stays consistent, and the broadcaster is never left deaf: it either has a
  live subscription under the global topic, or a receive on its channel is ready, and once the
  events left there are drained that receive subscribes it anew.
\<close>

theorem broadcaster_survives:
  assumes "hub_inv h"
  shows "\<exists>r sb. run_history store hist (start_run b h s) = Inr r \<and> hub_inv (rs_hub r) \<and>
    hub_heap (rs_hub r) (rs_sub r) = Some sb \<and>
    (if sub_live sb then in_topic (rs_hub r) ''global'' (rs_sub r)
     else \<exists>r'. run_round store (OnEvent nowTs) r = Some (Inr r') \<and> run_inv r' \<and>
       (sub_buf sb = [] \<longrightarrow> (\<exists>sb'. hub_heap (rs_hub r') (rs_sub r') = Some sb' \<and> sub_live sb')))"
proof -
  obtain r where r: "run_history store hist (start_run b h s) = Inr r" "run_inv r"
    using run_history_inv [OF start_run_inv [OF assms], of store hist] by blast
  then obtain sb where sb: "hub_inv (rs_hub r)" "homed (rs_hub r) (rs_sub r) ''global'' sb" by (auto simp: run_inv_def)
  then have heap: "hub_heap (rs_hub r) (rs_sub r) = Some sb" by (simp add: homed_def)
  have "\<exists>r'. run_round store (OnEvent nowTs) r = Some (Inr r') \<and> run_inv r' \<and>
      (sub_buf sb = [] \<longrightarrow> (\<exists>sb'. hub_heap (rs_hub r') (rs_sub r') = Some sb' \<and> sub_live sb'))" if dead: "\<not> sub_live sb"
  proof -
    have closed: "ch_closed (sub_Events sb)" using dead hub_invD(3) [OF sb(1) heap] by (auto simp: sub_inv_def sub_live_def)
    show ?thesis
    proof (cases "sub_buf sb")
      case Nil
      then have "run_round store (OnEvent nowTs) r = Some (resubscribeGlobal store nowTs r)"
        using heap closed by (simp add: run_round_def recv_chan_def)
      then show ?thesis using resubscribe_inv [OF sb(1), of store nowTs] by auto
    next
      case (Cons e es)
      obtain b1 s1 where "handleTrade store e (rs_broadcaster r) (rs_store r) = (b1, s1)"
        by (cases "handleTrade store e (rs_broadcaster r) (rs_store r)")
      then obtain x where "run_round store (OnEvent nowTs) r = Some x"
        using heap Cons by (simp add: run_round_def recv_chan_def)
      then show ?thesis using run_round_inv [OF r(2)] Cons by fastforce
    qed
  qed
  then show ?thesis using r(1) sb heap by (auto simp: homed_def)
qed

lemma broadcaster_survives_witness:
  "\<exists>r sb. run_history (None :: unit tradeMetricsStore option)
       [Inl (OpPublish ''global'' zero_Envelope), Inl (OpUnsubscribe 0), Inr (OnEvent 5)]
       (start_run NewBroadcaster NewHub ()) = Inr r \<and> hub_inv (rs_hub r) \<and>
    hub_heap (rs_hub r) (rs_sub r) = Some sb \<and>
    (if sub_live sb then in_topic (rs_hub r) ''global'' (rs_sub r)
     else \<exists>r'. run_round None (OnEvent 9) r = Some (Inr r') \<and> run_inv r' \<and>
       (sub_buf sb = [] \<longrightarrow> (\<exists>sb'. hub_heap (rs_hub r') (rs_sub r') = Some sb' \<and> sub_live sb')))"
  by (rule broadcaster_survives) simp

text \<open>What a sweep does to a window, by how its first loop sorted it.\<close>

lemma Sweep_sorted:
  assumes "Sweep store nowTs order b hub s = (res, b', s')" "set order = fst ` set (bc_windows b)" "distinct order"
  shows "case map_of (bc_windows b) mint of
      None \<Rightarrow> map_of (bc_windows b') mint = None
    | Some w \<Rightarrow>
        if evicts hub nowTs mint w then map_of (bc_windows b') mint = None
        else if refreshes hub nowTs mint w then
          \<exists>w'. map_of (bc_windows b') mint = Some w' \<and> tw_LastPersistedMinute w' = go_quot nowTs 60 * 60 \<and>
            (tw_Seeded w \<or> \<not> subscribed hub mint \<longrightarrow> w' = w\<lparr>tw_LastPersistedMinute := go_quot nowTs 60 * 60\<rparr>)
        else map_of (bc_windows b') mint = Some w"
proof -
  let ?T = "select_windows (refreshes hub nowTs) order b" and ?E = "select_windows (evicts hub nowTs) order b"
  define b1 where "b1 = fold removeWindow ?E b"
  have mem: "x \<in> set order \<longleftrightarrow> map_of (bc_windows b) x \<noteq> None" for x
    by (simp add: assms(2) map_of_eq_None_iff)
  have T: "x \<in> set ?T \<longleftrightarrow> (\<exists>w. map_of (bc_windows b) x = Some w \<and> refreshes hub nowTs x w)" for x
    using mem [of x] by (auto simp: select_windows_def)
  have E: "x \<in> set ?E \<longleftrightarrow> (\<exists>w. map_of (bc_windows b) x = Some w \<and> evicts hub nowTs x w)" for x
    using mem [of x] by (auto simp: select_windows_def)
  have b1: "map_of (bc_windows b1) x = (if x \<in> set ?E then None else map_of (bc_windows b) x)" for x
    by (simp add: b1_def removeWindows)
  show ?thesis
  proof (cases "?T = []")
    case True
    then have "b' = b1" using assms(1) by (simp add: Sweep_def b1_def)
    moreover have "\<not> refreshes hub nowTs mint w" if "map_of (bc_windows b) mint = Some w" for w
      using T [of mint] True that by auto
    ultimately show ?thesis using b1 E by (auto split: option.splits)
  next
    case False
    obtain lm s1 out s2 where "refresh_all store hub nowTs lm ?T b1 s1 = (out, b', s2)"
      using assms(1) False by (auto simp: Sweep_def Let_def b1_def split: prod.splits)
    moreover have "distinct ?T" using assms(3) by (simp add: select_windows_def)
    moreover have "map_of (bc_windows b1) m \<noteq> None" if "m \<in> set ?T" for m
      using that T E b1 by (auto simp: refreshes_def)
    ultimately have "(mint \<notin> set ?T \<longrightarrow> map_of (bc_windows b') mint = map_of (bc_windows b1) mint) \<and>
      (\<forall>w. mint \<in> set ?T \<longrightarrow> map_of (bc_windows b1) mint = Some w \<longrightarrow>
        (\<exists>w'. map_of (bc_windows b') mint = Some w' \<and> tw_LastPersistedMinute w' = go_quot nowTs 60 * 60 \<and>
          (tw_Seeded w \<or> \<not> subscribed hub mint \<longrightarrow> w' = w\<lparr>tw_LastPersistedMinute := go_quot nowTs 60 * 60\<rparr>)))"
      by (rule refresh_all_windows)
    then show ?thesis using b1 T E by (auto simp: refreshes_def split: option.splits)
  qed
qed

text \<open>
  C24: a sweep evicts exactly the windows whose token nobody is subscribed to and that were last
  active more than a day (86400 s) ago, and no window appears. Every window it keeps is marked
  with the current minute, and nothing else of it changes, unless somebody is subscribed and it
  was not seeded yet.
\<close>

theorem Sweep_windows:
  assumes "Sweep store nowTs order b hub s = (res, b', s')" "set order = fst ` set (bc_windows b)" "distinct order"
  shows "case map_of (bc_windows b) mint of
      None \<Rightarrow> map_of (bc_windows b') mint = None
    | Some w \<Rightarrow>
        let nobody = (case hub of None \<Rightarrow> True | Some h \<Rightarrow> SubscriberCount (''token:'' @ mint) h = 0);
            minute = go_quot nowTs 60 * 60 in
        if nobody \<and> 0 < tw_LastActiveTs w \<and> 86400 < sub64 nowTs (tw_LastActiveTs w)
        then map_of (bc_windows b') mint = None
        else \<exists>w'. map_of (bc_windows b') mint = Some w' \<and> tw_LastPersistedMinute w' = minute \<and>
          (tw_Seeded w \<or> nobody \<longrightarrow> w' = w\<lparr>tw_LastPersistedMinute := minute\<rparr>)"
proof (cases "map_of (bc_windows b) mint")
  case None
  then show ?thesis using Sweep_sorted [OF assms, of mint] by simp
next
  case (Some w)
  have nobody: "(case hub of None \<Rightarrow> True | Some h \<Rightarrow> SubscriberCount (''token:'' @ mint) h = 0) \<longleftrightarrow> \<not> subscribed hub mint"
    by (simp add: subscribed_def token_topic_def HasSubscribers_def split: option.split)
  consider "evicts hub nowTs mint w" | "\<not> evicts hub nowTs mint w" "refreshes hub nowTs mint w"
    | "\<not> evicts hub nowTs mint w" "\<not> subscribed hub mint" "tw_LastPersistedMinute w = go_quot nowTs 60 * 60"
        "\<not> refreshes hub nowTs mint w"
    by (auto simp: refreshes_def)
  then show ?thesis
  proof cases
    case 3
    then have "w = w\<lparr>tw_LastPersistedMinute := go_quot nowTs 60 * 60\<rparr>" by simp
    then show ?thesis
      using Sweep_sorted [OF assms, of mint] Some 3 unfolding nobody Let_def by (auto simp: evicts_def)
  qed (use Sweep_sorted [OF assms, of mint] Some in \<open>auto simp: nobody Let_def evicts_def\<close>)
qed

lemma Sweep_windows_witness:
  "\<exists>res b' s'. Sweep (None :: unit tradeMetricsStore option) 100000 [''m'', ''k'']
     (NewBroadcaster\<lparr>bc_windows := [(''m'', zero_TokenWindowState\<lparr>tw_LastActiveTs := 1\<rparr>), (''k'', zero_TokenWindowState\<lparr>tw_LastActiveTs := 1\<rparr>)]\<rparr>)
     (Some (snd (Subscribe ''token:k'' 4 NewHub))) () = (res, b', s') \<and>
     map_of (bc_windows b') ''m'' = None \<and> map_of (bc_windows b') ''k'' \<noteq> None"
proof -
  let ?w = "zero_TokenWindowState\<lparr>tw_LastActiveTs := 1\<rparr>"
  let ?b = "NewBroadcaster\<lparr>bc_windows := [(''m'', ?w), (''k'', ?w)]\<rparr>"
  let ?h = "snd (Subscribe ''token:k'' 4 NewHub)"
  obtain res b' s' where sw: "Sweep (None :: unit tradeMetricsStore option) 100000 [''m'', ''k''] ?b (Some ?h) () = (res, b', s')"
    by (cases "Sweep (None :: unit tradeMetricsStore option) 100000 [''m'', ''k''] ?b (Some ?h) ()")
  have o: "set [''m'', ''k''] = fst ` set (bc_windows ?b)" "distinct [''m'', ''k'']" by simp_all
  have sub: "SubscriberCount ''token:m'' ?h = 0" "SubscriberCount ''token:k'' ?h = 1"
    by (simp_all add: SubscriberCount_def Subscribe_def NewHub_def Let_def)
  show ?thesis
    using sw Sweep_windows [OF sw o, of "''m''"] Sweep_windows [OF sw o, of "''k''"]
    by (auto simp: sub sub64_def wrap64_def Let_def)
qed

text \<open>
  C23: the window of a token is a function of the trades of that token alone: whatever other
  events the broadcaster handles, a seeded window ends as the window with the token's trades
  appended in the order of the events.
\<close>

theorem window_follows_trades:
  assumes "map_of (bc_windows b) mint = Some w" "tw_Seeded w" "mint \<noteq> []"
  shows "map_of (bc_windows (fst (handle_trades store es b s))) mint = Some (fold (append_event mint) es w)"
  using assms
proof (induction es arbitrary: b s w)
  case (Cons e es)
  obtain b1 s1 where h: "handleTrade store e b s = (b1, s1)" by (cases "handleTrade store e b s")
  show ?case using Cons.IH [OF handleTrade_window [OF Cons.prems h]] Cons.prems h by simp
qed simp

lemma window_follows_trades_witness:
  "map_of (bc_windows (fst (handle_trades (None :: unit tradeMetricsStore option)
      [zero_Envelope\<lparr>ev_EventType := ''pumpfun.trade'', ev_EventUnixTS := 7\<rparr>]
      (setWindow ''m'' (zero_TokenWindowState\<lparr>tw_Seeded := True\<rparr>) NewBroadcaster) ()))) ''m'' =
    Some (fold (append_event ''m'') [zero_Envelope\<lparr>ev_EventType := ''pumpfun.trade'', ev_EventUnixTS := 7\<rparr>]
      (zero_TokenWindowState\<lparr>tw_Seeded := True\<rparr>))"
  by (rule window_follows_trades) simp_all

text \<open>The recent trades a store reports.\<close>

definition metric_of :: "Envelope \<Rightarrow> bool \<Rightarrow> f64 \<Rightarrow> f64 \<Rightarrow> TradeMetricPoint" where
  "metric_of env isBuy vol price = \<lparr> mp_EventUnixTS = ev_EventUnixTS env, mp_Slot = ev_Slot env, mp_InsertSeq = 0,
     mp_Side = (if isBuy then ''buy'' else ''sell''), mp_Price = price, mp_Volume = vol \<rparr>"

lemma summarize_buckets_only:
  "tw_SecondBuckets w = tw_SecondBuckets w' \<Longrightarrow> summarizeSecondBuckets w now back = summarizeSecondBuckets w' now back"
  by (simp add: summarizeSecondBuckets_def)

text \<open>
  C30: seeding counts a trade twice: when the first trade of a token reaches the broadcaster after
  the projector has stored it, the window is seeded from the store, which already has the trade,
  and then the trade is appended again; the statistics show two trades.
\<close>

theorem seeding_counts_trade_twice:
  assumes "trade_of env = Some (mint, isBuy, vol, price)" "mint \<noteq> []" "map_of (bc_windows b) mint = None"
    "\<not> f64_eq price f64_zero" "0 < ev_EventUnixTS env" "ev_EventUnixTS env < 2 ^ 62"
    "\<And>since. tm_ListRecentTradeMetricsByMint st mint since s = (Inr [metric_of env isBuy vol price], s1)"
    "handleTrade (Some st) env b s = (b', s')"
  shows "\<exists>w. map_of (bc_windows b') mint = Some w \<and>
    ws_Buys (summarizeSecondBuckets w (ev_EventUnixTS env) 60) + ws_Sells (summarizeSecondBuckets w (ev_EventUnixTS env) 60) = 2"
proof -
  let ?m = "metric_of env isBuy vol price"
  let ?w1 = "(append_metric ?m zero_TokenWindowState)\<lparr>tw_Seeded := True\<rparr>"
  let ?w = "appendSecondBucket ?w1 isBuy vol price (ev_EventUnixTS env) (ev_LogID env)"
  have w: "map_of (bc_windows b') mint = Some ?w"
    using assms(1-3,7,8) by (auto simp: handleTrade_trade ensureWindowSeeded_def getWindow_def recordTrade_def zero_TokenWindowState_def)
  have "tw_SecondBuckets ?w = tw_SecondBuckets (fold append_metric [?m, ?m] zero_TokenWindowState)"
    by (simp add: append_metric_def appendSecondBucket_def metric_of_def Let_def)
  moreover have "summarizeSecondBuckets (fold append_metric [?m, ?m] zero_TokenWindowState) (ev_EventUnixTS env) 60 =
      (let rs = recent (ev_EventUnixTS env - 60) [?m, ?m] in
       \<lparr> ws_AnchorPrice = (if rs = [] then None else Some (mp_Price (hd rs))),
         ws_Buys = int (length (buys_of rs)), ws_Sells = int (length (sells_of rs)),
         ws_BuyVolume = volume_in buys_of (by_second rs), ws_SellVolume = volume_in sells_of (by_second rs),
         ws_Volume = volume_in (\<lambda>g. g) (by_second rs) \<rparr>)"
    using assms(4-6) by (intro summarize_recent) (simp_all add: metric_of_def priced_def)
  moreover have "recent (ev_EventUnixTS env - 60) [?m, ?m] = [?m, ?m]" by (simp add: recent_def metric_of_def)
  ultimately show ?thesis
    using w summarize_buckets_only [of ?w "fold append_metric [?m, ?m] zero_TokenWindowState"]
    by (simp add: Let_def buys_of_def sells_of_def is_buy_def metric_of_def)
qed

definition seeding_store :: "TradeMetricPoint \<Rightarrow> unit tradeMetricsStore" where
  "seeding_store m = \<lparr> tm_ListRecentTradeMetricsByMint = (\<lambda>mint since s. (Inr [m], s)),
     tm_ListLongWindowMetricsByMints = (\<lambda>mints now s. (Inr [], s)),
     tm_ListMetricBackfillCandidates = (\<lambda>limit s. (Inr [], s)),
     tm_ListLatestTradeSeedsByMints = (\<lambda>mints s. (Inr [], s)),
     tm_UpsertTokenMetricsCurrent = (\<lambda>records s. (None, s)) \<rparr>"

definition example_trade :: Envelope where
  "example_trade = zero_Envelope\<lparr>ev_EventType := ''pumpfun.trade'', ev_EventUnixTS := 100,
     ev_Payload := RawJson (JObj [(''mint'', JStr ''m''), (''side'', JStr ''buy''), (''sol_amount'', JStr ''20''),
       (''token_amount'', JStr ''10'')])\<rparr>"

definition example_volume :: f64 where
  "example_volume = f64_div (f64_of_int 20) (f64_of_int 1000000000)"

definition example_price :: f64 where
  "example_price = f64_div example_volume (f64_div (f64_of_int 10) (f64_of_int 1000000))"

lemma seeding_counts_trade_twice_witness:
  "\<exists>w. map_of (bc_windows (fst (handleTrade (Some (seeding_store (metric_of example_trade True example_volume example_price)))
      example_trade NewBroadcaster ()))) ''m'' = Some w \<and>
    ws_Buys (summarizeSecondBuckets w 100 60) + ws_Sells (summarizeSecondBuckets w 100 60) = 2"
proof -
  let ?st = "seeding_store (metric_of example_trade True example_volume example_price)"
  obtain b' s' where h: "handleTrade (Some ?st) example_trade NewBroadcaster () = (b', s')"
    by (cases "handleTrade (Some ?st) example_trade NewBroadcaster ()")
  have "trade_of example_trade = Some (''m'', True, example_volume, example_price)" by code_simp
  then have "\<exists>w. map_of (bc_windows b') ''m'' = Some w \<and>
      ws_Buys (summarizeSecondBuckets w (ev_EventUnixTS example_trade) 60) +
      ws_Sells (summarizeSecondBuckets w (ev_EventUnixTS example_trade) 60) = 2"
  proof (rule seeding_counts_trade_twice [OF _ _ _ _ _ _ _ h])
    show "\<not> f64_eq example_price f64_zero" by code_simp
  qed (simp_all add: NewBroadcaster_def example_trade_def seeding_store_def)
  moreover have "ev_EventUnixTS example_trade = 100" by (simp add: example_trade_def)
  ultimately show ?thesis by (simp add: h)
qed

end
