(* ===== verification/Ws.thy ===== *)
theory Ws
  imports HttpApi Broadcaster
begin

text \<open>
  internal/httpapi/ws.go: a websocket connection subscribes to topics of the hub. The messages a
  client sends and what they do to the hub; the snapshot of a token; and the life of a connection:
  run_session is the messages it handles among the operations of others, conn_step adds the
  goroutine that reads them and the deferred calls that end it. The goroutines of one subscription
  are in WsReplay.
\<close>

section \<open>Snapshots\<close>

definition anchorPrice :: "f64 \<Rightarrow> TokenPriceChanges option \<Rightarrow> (TokenPriceChanges \<Rightarrow> f64 option) \<Rightarrow> f64" where
  "anchorPrice latest changes getter =
     (if f64_le latest f64_zero then latest
      else case changes of
        None \<Rightarrow> latest
      | Some c \<Rightarrow> (case getter c of
          None \<Rightarrow> latest
        | Some change \<Rightarrow>
            (let divisor = f64_add (f64_of_int 1) (f64_div change (f64_of_int 100)) in
             if f64_le divisor f64_zero then latest else f64_div latest divisor)))"

definition snapshot_envelope :: "string \<Rightarrow> int \<Rightarrow> json \<Rightarrow> Envelope" where
  "snapshot_envelope mint timestamp payload = zero_Envelope\<lparr>
     ev_SchemaVersion := 1, ev_EventID := ''realtime:token_stat:'' @ mint, ev_Protocol := ''realtime'',
     ev_EventType := ''token_stat'', ev_EventUnixTS := timestamp, ev_Refs := zero_EventRefs\<lparr>er_Mint := Some mint\<rparr>,
     ev_Payload := RawJson payload\<rparr>"

text \<open>json.Marshal of a payload: the error is that of encoding/json.\<close>

definition marshal_payload :: "TokenStatsPayload \<Rightarrow> json res" where
  "marshal_payload p = (case marshal_stats p of None \<Rightarrow> Inl (ErrMsg ''json: unsupported value'') | Some j \<Rightarrow> Inr j)"

definition zero_TokenStatsPayload :: TokenStatsPayload where
  "zero_TokenStatsPayload = \<lparr>
     sp_Mint = [], sp_Price = f64_zero, sp_Timestamp = 0,
     sp_P1m = f64_zero, sp_B1m = 0, sp_S1m = 0, sp_BV1m = f64_zero, sp_SV1m = f64_zero, sp_V1m = f64_zero,
     sp_P5m = f64_zero, sp_B5m = 0, sp_S5m = 0, sp_BV5m = f64_zero, sp_SV5m = f64_zero, sp_V5m = f64_zero,
     sp_P1h = f64_zero, sp_B1h = 0, sp_S1h = 0, sp_BV1h = f64_zero, sp_SV1h = f64_zero, sp_V1h = f64_zero,
     sp_P4h = f64_zero, sp_B4h = 0, sp_S4h = 0, sp_BV4h = f64_zero, sp_SV4h = f64_zero, sp_V4h = f64_zero,
     sp_P24h = f64_zero, sp_B24h = 0, sp_S24h = 0, sp_BV24h = f64_zero, sp_SV24h = f64_zero, sp_V24h = f64_zero \<rparr>"

text \<open>The payload made of a token page when there are no statistics.\<close>

definition detail_payload :: "string \<Rightarrow> TokenDetail \<Rightarrow> int \<Rightarrow> TokenStatsPayload option" where
  "detail_payload mint detail nowTs =
     (let latestPrice = (case td_MarketMetrics detail of None \<Rightarrow> f64_zero | Some m \<Rightarrow> deref_or f64_zero (tmm_LatestPrice m)) in
      if f64_le latestPrice f64_zero then None
      else
        let timestamp = (case td_MarketMetrics detail of None \<Rightarrow> nowTs | Some m \<Rightarrow> deref_or nowTs (tmm_LatestEventUnix m));
            p = zero_TokenStatsPayload\<lparr>
              sp_Mint := mint, sp_Price := latestPrice, sp_Timestamp := timestamp, sp_P1m := latestPrice,
              sp_P5m := anchorPrice latestPrice (td_PriceChanges detail) pc_M5,
              sp_P1h := anchorPrice latestPrice (td_PriceChanges detail) pc_H1,
              sp_P4h := anchorPrice latestPrice (td_PriceChanges detail) pc_H4,
              sp_P24h := anchorPrice latestPrice (td_PriceChanges detail) pc_H24\<rparr>
        in Some (case td_Stats24h detail of
             None \<Rightarrow> p
           | Some st \<Rightarrow> p\<lparr>sp_B24h := sts_Buys st, sp_S24h := sts_Sells st, sp_BV24h := sts_BuyVolume st,
               sp_SV24h := sts_SellVolume st, sp_V24h := sts_Volume st\<rparr>))"

definition snapshot_of :: "string \<Rightarrow> TokenStatsPayload \<Rightarrow> Envelope option res" where
  "snapshot_of mint payload = (case marshal_payload payload of
      Inl e \<Rightarrow> Inl e
    | Inr bytes \<Rightarrow> Inr (Some (snapshot_envelope mint (sp_Timestamp payload) bytes)))"

definition detail_snapshot :: "'s eventQuery \<Rightarrow> string \<Rightarrow> int \<Rightarrow> 's \<Rightarrow> Envelope option res option \<times> 's" where
  "detail_snapshot q mint nowTs s = (case eq_GetTokenDetail q mint s of
      (None, s') \<Rightarrow> (None, s')
    | (Some (Inl e), s') \<Rightarrow> (Some (if errors_Is e ErrTokenNotFound then Inr None else Inl e), s')
    | (Some (Inr detail), s') \<Rightarrow> (case detail_payload mint detail nowTs of
        None \<Rightarrow> (Some (Inr None), s')
      | Some payload \<Rightarrow> (Some (snapshot_of mint payload), s')))"

text \<open>The clock is read once. A panic of the token page (None) takes the process down.\<close>

definition tokenStatSnapshot :: "'s eventQuery option \<Rightarrow> string \<Rightarrow> int \<Rightarrow> 's \<Rightarrow> Envelope option res option \<times> 's" where
  "tokenStatSnapshot eventQuery topic nowTs s = (case eventQuery of
      None \<Rightarrow> (Some (Inr None), s)
    | Some q \<Rightarrow>
        (if \<not> HasPrefix topic ''token:'' \<or> TrimPrefix topic ''token:'' = [] then (Some (Inr None), s)
         else let mint = TrimPrefix topic ''token:'' in
           (case eq_BuildRealtimeStatsPayload q mint nowTs s of
             (Inr (Some payload), s') \<Rightarrow> (Some (snapshot_of mint payload), s')
           | (Inr None, s') \<Rightarrow> detail_snapshot q mint nowTs s'
           | (Inl e, s') \<Rightarrow>
               (if errors_Is e ErrTokenNotFound then detail_snapshot q mint nowTs s' else (Some (Inl e), s')))))"

section \<open>Messages\<close>

record WSMessage =
  wm_Action :: string
  wm_Topic :: string
  wm_SinceLogID :: "int option"

text \<open>The subscriptions of a connection by topic, and the hub.\<close>

type_synonym session = "(string \<times> nat) list \<times> Hub"

definition on_message :: "WSMessage \<Rightarrow> session \<Rightarrow> chan_panic + session" where
  "on_message msg = (\<lambda>(subs, h).
     if wm_Action msg = ''subscribe'' \<and> wm_Topic msg \<noteq> [] then
       (case map_of subs (wm_Topic msg) of
          Some _ \<Rightarrow> Inr (subs, h)
        | None \<Rightarrow> (case Subscribe (wm_Topic msg) 64 h of (sub, h') \<Rightarrow> Inr ((wm_Topic msg, sub) # subs, h')))
     else if wm_Action msg = ''unsubscribe'' \<and> wm_Topic msg \<noteq> [] then
       (case map_of subs (wm_Topic msg) of
          None \<Rightarrow> Inr (subs, h)
        | Some sub \<Rightarrow> (case Unsubscribe (Some sub) h of
            Inl p \<Rightarrow> Inl p
          | Inr h' \<Rightarrow> Inr (AList.delete (wm_Topic msg) subs, h')))
     else Inr (subs, h))"

text \<open>The deferred loop over the map, in whatever order it runs.\<close>

fun unsubscribe_all :: "nat list \<Rightarrow> Hub \<Rightarrow> chan_panic + Hub" where
  "unsubscribe_all [] h = Inr h"
| "unsubscribe_all (sub # subs) h = (case Unsubscribe (Some sub) h of Inl p \<Rightarrow> Inl p | Inr h' \<Rightarrow> unsubscribe_all subs h')"

text \<open>The life of a connection among the operations others carry out on the hub.\<close>

datatype session_event = Message WSMessage | Other hub_op

fun run_session :: "session_event list \<Rightarrow> session \<Rightarrow> chan_panic + session" where
  "run_session [] st = Inr st"
| "run_session (Message msg # es) st = (case on_message msg st of Inl p \<Rightarrow> Inl p | Inr st' \<Rightarrow> run_session es st')"
| "run_session (Other p # es) (subs, h) = (case run_op p h of Inl e \<Rightarrow> Inl e | Inr (_, h') \<Rightarrow> run_session es (subs, h'))"

text \<open>The subscriptions a session has opened.\<close>

fun opened :: "session_event list \<Rightarrow> session \<Rightarrow> nat set" where
  "opened [] st = {}"
| "opened (Message msg # es) st = (case on_message msg st of
      Inl p \<Rightarrow> {} | Inr st' \<Rightarrow> (snd ` set (fst st') - snd ` set (fst st)) \<union> opened es st')"
| "opened (Other p # es) (subs, h) = (case run_op p h of Inl e \<Rightarrow> {} | Inr (_, h') \<Rightarrow> opened es (subs, h'))"

section \<open>No subscription is left behind\<close>

lemma op_topics:
  assumes "hub_inv h" "run_op p h = Inr (out, h')"
  shows "hub_next h \<le> hub_next h'" "in_topic h' t x \<Longrightarrow> in_topic h t x \<or> hub_next h \<le> x"
proof -
  have "hub_next h \<le> hub_next h' \<and> (in_topic h' t x \<longrightarrow> in_topic h t x \<or> hub_next h \<le> x)"
  proof (cases p)
    case (OpSubscribe topic buffer)
    obtain sub h1 where h1: "Subscribe topic buffer h = (sub, h1)" by (cases "Subscribe topic buffer h")
    then have "h' = h1" using assms(2) OpSubscribe by simp
    then show ?thesis using Subscribe_spec(2,3,5) [OF assms(1) h1] by auto
  next
    case (OpUnsubscribe sub)
    obtain h1 where "Unsubscribe (Some sub) h = Inr h1" "hub_next h1 = hub_next h"
        "\<And>t x. in_topic h1 t x \<longleftrightarrow> in_topic h t x \<and> x \<noteq> sub"
      using Unsubscribe_spec [OF assms(1), of sub] by auto
    then show ?thesis using assms(2) OpUnsubscribe by auto
  next
    case (OpPublish topic e)
    obtain h1 where "Publish topic e h = Inr h1" "hub_next h1 = hub_next h" "\<And>t x. in_topic h1 t x \<Longrightarrow> in_topic h t x"
      using Publish_spec [OF assms(1), of topic e] by auto
    then show ?thesis using assms(2) OpPublish by auto
  next
    case (OpReceive sub)
    have "hub_next (snd (Receive sub h)) = hub_next h"
      by (auto simp: Receive_def split: option.splits)
    then show ?thesis using assms OpReceive Receive_spec(2) [OF assms(1), of sub]
      by (cases "Receive sub h") (auto split: option.splits)
  qed
  then show "hub_next h \<le> hub_next h'" "in_topic h' t x \<Longrightarrow> in_topic h t x \<or> hub_next h \<le> x" by auto
qed

text \<open>The subscriptions opened so far, those of them in the hub being in the map.\<close>

definition session_inv :: "nat set \<Rightarrow> session \<Rightarrow> bool" where
  "session_inv ids st \<longleftrightarrow> hub_inv (snd st) \<and> distinct (map fst (fst st)) \<and> snd ` set (fst st) \<subseteq> ids \<and>
     (\<forall>x\<in>ids. x < hub_next (snd st) \<and> (\<forall>t. in_topic (snd st) t x \<longrightarrow> x \<in> snd ` set (fst st)))"

lemma on_message_cases:
  "on_message msg (subs, h) = Inr (subs, h) \<or>
   (\<exists>sub h'. on_message msg (subs, h) = Inr ((wm_Topic msg, sub) # subs, h') \<and> map_of subs (wm_Topic msg) = None \<and>
      Subscribe (wm_Topic msg) 64 h = (sub, h')) \<or>
   (\<exists>sub. map_of subs (wm_Topic msg) = Some sub \<and> on_message msg (subs, h) =
      (case Unsubscribe (Some sub) h of Inl p \<Rightarrow> Inl p | Inr h' \<Rightarrow> Inr (AList.delete (wm_Topic msg) subs, h')))"
proof (cases "map_of subs (wm_Topic msg)")
  case None
  then show ?thesis by (cases "Subscribe (wm_Topic msg) 64 h") (simp add: on_message_def)
next
  case (Some sub)
  then show ?thesis by (simp add: on_message_def)
qed

lemma on_message_inv:
  assumes "session_inv ids st"
  shows "\<exists>st'. on_message msg st = Inr st' \<and> session_inv (ids \<union> (snd ` set (fst st') - snd ` set (fst st))) st'"
proof -
  obtain subs h where st: "st = (subs, h)" by (cases st)
  note inv = assms [unfolded st session_inv_def fst_conv snd_conv]
  consider "on_message msg st = Inr st"
    | sub h' where "on_message msg st = Inr ((wm_Topic msg, sub) # subs, h')" "map_of subs (wm_Topic msg) = None"
        "Subscribe (wm_Topic msg) 64 h = (sub, h')"
    | sub where "map_of subs (wm_Topic msg) = Some sub"
        "on_message msg st = (case Unsubscribe (Some sub) h of Inl p \<Rightarrow> Inl p | Inr h' \<Rightarrow> Inr (AList.delete (wm_Topic msg) subs, h'))"
    unfolding st using on_message_cases [of msg subs h] by blast
  then show ?thesis
  proof cases
    case 1
    then show ?thesis using assms by simp
  next
    case 2
    note sp = Subscribe_spec [OF conjunct1 [OF inv] 2(3)]
    have "session_inv (ids \<union> {sub}) ((wm_Topic msg, sub) # subs, h')"
      using inv sp 2(2) by (fastforce simp: session_inv_def map_of_eq_None_iff less_Suc_eq)
    moreover have "sub \<notin> snd ` set subs" using inv sp(2) by fastforce
    ultimately show ?thesis using 2(1) by (simp add: st insert_Diff_if)
  next
    case 3
    obtain h' where h': "Unsubscribe (Some sub) h = Inr h'" "hub_inv h'" "hub_next h' = hub_next h"
        "\<And>t x. in_topic h' t x \<longleftrightarrow> in_topic h t x \<and> x \<noteq> sub"
      using Unsubscribe_spec [of h sub] inv by auto
    have del: "set (AList.delete (wm_Topic msg) subs) = {e \<in> set subs. fst e \<noteq> wm_Topic msg}"
      by (auto simp: AList.delete_eq)
    have only: "snd e = sub" if "e \<in> set subs" "fst e = wm_Topic msg" for e
      using that inv 3(1) by (metis map_of_eq_Some_iff option.inject prod.collapse)
    have "session_inv ids (AList.delete (wm_Topic msg) subs, h')"
      using inv h' only by (fastforce simp: session_inv_def del distinct_delete image_iff)
    moreover have "ids \<union> (snd ` set (AList.delete (wm_Topic msg) subs) - snd ` set subs) = ids" by (auto simp: del)
    ultimately show ?thesis using 3(2) h'(1) by (simp add: st)
  qed
qed

lemma run_session_inv:
  "session_inv ids st \<Longrightarrow> \<exists>st'. run_session es st = Inr st' \<and> session_inv (ids \<union> opened es st) st'"
proof (induction es arbitrary: ids st)
  case (Cons e es)
  show ?case
  proof (cases e)
    case (Message msg)
    obtain st' where st': "on_message msg st = Inr st'" "session_inv (ids \<union> (snd ` set (fst st') - snd ` set (fst st))) st'"
      using on_message_inv [OF Cons.prems] by blast
    then show ?thesis using Cons.IH [OF st'(2)] by (simp add: Message Un_assoc)
  next
    case (Other p)
    obtain subs h where st: "st = (subs, h)" by (cases st)
    then have inv: "hub_inv h" using Cons.prems by (simp add: session_inv_def)
    obtain out h' where h': "run_op p h = Inr (out, h')" "hub_inv h'" using run_op_inv [OF inv] by blast
    have "session_inv ids (subs, h')"
      using Cons.prems h'(2) op_topics [OF inv h'(1)] by (fastforce simp: session_inv_def st)
    then show ?thesis using Cons.IH h'(1) by (simp add: Other st)
  qed
qed simp

lemma unsubscribe_all_spec:
  "hub_inv h \<Longrightarrow> \<exists>h'. unsubscribe_all order h = Inr h' \<and> hub_inv h' \<and> hub_next h' = hub_next h \<and>
     (\<forall>t x. in_topic h' t x \<longleftrightarrow> in_topic h t x \<and> x \<notin> set order)"
proof (induction order arbitrary: h)
  case (Cons sub order)
  obtain h1 where "Unsubscribe (Some sub) h = Inr h1" "hub_inv h1" "hub_next h1 = hub_next h"
      "\<And>t x. in_topic h1 t x \<longleftrightarrow> in_topic h t x \<and> x \<noteq> sub"
    using Unsubscribe_spec [OF Cons.prems, of sub] by auto
  then show ?case using Cons.IH [of h1] by auto
qed simp

text \<open>
  ServeWS gives its subscriptions up before it cancels the context and closes the socket (the
  deferred calls run in reverse order), so the goroutine that reads may still handle a message
  afterwards. What was given up stays so.
\<close>

definition gone :: "nat set \<Rightarrow> Hub \<Rightarrow> bool" where
  "gone ids h \<longleftrightarrow> hub_inv h \<and> (\<forall>x\<in>ids. x < hub_next h \<and> (\<forall>t. \<not> in_topic h t x))"

lemma unsubscribe_all_gone:
  assumes "session_inv ids (subs, h)" "set order = snd ` set subs"
  shows "\<exists>h'. unsubscribe_all order h = Inr h' \<and> gone ids h'"
proof -
  obtain h' where "unsubscribe_all order h = Inr h'" "hub_inv h'" "hub_next h' = hub_next h"
      "\<forall>t x. in_topic h' t x \<longleftrightarrow> in_topic h t x \<and> x \<notin> set order"
    using unsubscribe_all_spec [of h order] assms(1) by (auto simp: session_inv_def)
  then show ?thesis using assms by (fastforce simp: session_inv_def gone_def)
qed

lemma gone_op: "gone ids h \<Longrightarrow> run_op p h = Inr (out, h') \<Longrightarrow> gone ids h'"
  using op_topics [of h p out h'] run_op_inv [of h p] by (fastforce simp: gone_def)

lemma on_message_op:
  assumes "hub_inv h"
  shows "\<exists>subs' h'. on_message msg (subs, h) = Inr (subs', h') \<and> (h' = h \<or> (\<exists>p out. run_op p h = Inr (out, h')))"
proof -
  consider "on_message msg (subs, h) = Inr (subs, h)"
    | sub h' where "on_message msg (subs, h) = Inr ((wm_Topic msg, sub) # subs, h')" "Subscribe (wm_Topic msg) 64 h = (sub, h')"
    | sub where "on_message msg (subs, h) =
        (case Unsubscribe (Some sub) h of Inl p \<Rightarrow> Inl p | Inr h' \<Rightarrow> Inr (AList.delete (wm_Topic msg) subs, h'))"
    using on_message_cases [of msg subs h] by blast
  then show ?thesis
  proof cases
    case 2
    then have "run_op (OpSubscribe (wm_Topic msg) 64) h = Inr ([], h')" by simp
    then show ?thesis using 2(1) by blast
  next
    case 3
    obtain h' where h': "Unsubscribe (Some sub) h = Inr h'" using Unsubscribe_spec [OF assms] by blast
    then have "run_op (OpUnsubscribe sub) h = Inr ([], h')" by simp
    moreover have "on_message msg (subs, h) = Inr (AList.delete (wm_Topic msg) subs, h')" using 3 h' by simp
    ultimately show ?thesis by blast
  qed blast
qed

lemma gone_session: "gone ids h \<Longrightarrow> \<exists>subs' h'. run_session es (subs, h) = Inr (subs', h') \<and> gone ids h'"
proof (induction es arbitrary: subs h)
  case (Cons e es)
  then have inv: "hub_inv h" by (simp add: gone_def)
  show ?case
  proof (cases e)
    case (Message msg)
    obtain subs1 h1 where "on_message msg (subs, h) = Inr (subs1, h1)" "gone ids h1"
      using on_message_op [OF inv, of msg subs] gone_op [OF Cons.prems] Cons.prems by blast
    then show ?thesis using Cons.IH [of h1 subs1] by (simp add: Message)
  next
    case (Other p)
    obtain out h1 where "run_op p h = Inr (out, h1)" using run_op_inv [OF inv] by blast
    then show ?thesis using Cons.IH gone_op [OF Cons.prems] by (simp add: Other)
  qed
qed simp

section \<open>The end of a connection\<close>

text \<open>
  ServeWS itself is the loop that writes to the socket; when it ends (the context is cancelled or
  a write fails) its deferred calls run, the last one first. The goroutine that reads has its own
  life: it handles a message it has read whatever happened meanwhile, and ends when a read fails,
  which cancels the context. So do an overflow and a client that is gone (close_conn). What the
  others do on the hub is unrestricted, except that a subscription can only be ended by who holds
  it, and the connection hands none of its own out.
\<close>

datatype deferred_call = GiveUpSubscriptions | CancelContext | CloseSocket

definition ServeWS_deferred :: "deferred_call list" where
  "ServeWS_deferred = [GiveUpSubscriptions, CancelContext, CloseSocket]"

datatype reader = Reading | Handling WSMessage | ReaderEnded

record Conn =
  cn_subs :: "(string \<times> nat) list"
  cn_hub :: Hub
  cn_opened :: "nat set"
  cn_cancelled :: bool
  cn_reader :: reader
  cn_deferred :: "deferred_call list option"

definition conn_start :: "Hub \<Rightarrow> Conn" where
  "conn_start h = \<lparr> cn_subs = [], cn_hub = h, cn_opened = {}, cn_cancelled = False, cn_reader = Reading, cn_deferred = None \<rparr>"

text \<open>A step, with the operations others carry out on the hub in it.\<close>

inductive conn_step :: "hub_op list \<Rightarrow> Conn \<Rightarrow> Conn \<Rightarrow> bool" where
  read: "cn_reader c = Reading \<Longrightarrow> \<not> cn_cancelled c \<Longrightarrow> conn_step [] c (c\<lparr>cn_reader := Handling msg\<rparr>)"
| handle: "cn_reader c = Handling msg \<Longrightarrow> on_message msg (cn_subs c, cn_hub c) = Inr (subs, h) \<Longrightarrow>
    conn_step [] c (c\<lparr>cn_subs := subs, cn_hub := h, cn_opened := cn_opened c \<union> (snd ` set subs - snd ` set (cn_subs c)),
      cn_reader := Reading\<rparr>)"
| read_failed: "cn_reader c = Reading \<Longrightarrow> conn_step [] c (c\<lparr>cn_reader := ReaderEnded, cn_cancelled := True\<rparr>)"
| close_conn: "conn_step [] c (c\<lparr>cn_cancelled := True\<rparr>)"
| write_ends: "cn_deferred c = None \<Longrightarrow> conn_step [] c (c\<lparr>cn_deferred := Some ServeWS_deferred\<rparr>)"
| give_up: "cn_deferred c = Some (GiveUpSubscriptions # calls) \<Longrightarrow> set order = snd ` set (cn_subs c) \<Longrightarrow>
    unsubscribe_all order (cn_hub c) = Inr h \<Longrightarrow> conn_step [] c (c\<lparr>cn_hub := h, cn_deferred := Some calls\<rparr>)"
| cancel: "cn_deferred c = Some (CancelContext # calls) \<Longrightarrow> conn_step [] c (c\<lparr>cn_cancelled := True, cn_deferred := Some calls\<rparr>)"
| close_socket: "cn_deferred c = Some (CloseSocket # calls) \<Longrightarrow> conn_step [] c (c\<lparr>cn_deferred := Some calls\<rparr>)"
| others: "\<forall>sub\<in>cn_opened c. p \<noteq> OpUnsubscribe sub \<Longrightarrow> run_op p (cn_hub c) = Inr (out, h) \<Longrightarrow>
    conn_step [p] c (c\<lparr>cn_hub := h\<rparr>)"

inductive conn_run :: "hub_op list \<Rightarrow> Conn \<Rightarrow> Conn \<Rightarrow> bool" where
  conn_refl: "conn_run [] c c"
| conn_more: "conn_run ps c d \<Longrightarrow> conn_step qs d e \<Longrightarrow> conn_run (ps @ qs) c e"

text \<open>ServeWS has returned, and so has the goroutine that reads.\<close>

definition conn_ended :: "Conn \<Rightarrow> bool" where
  "conn_ended c \<longleftrightarrow> cn_deferred c = Some [] \<and> cn_cancelled c \<and> cn_reader c = ReaderEnded"

lemma conn_run_silent: "conn_run [] c d \<Longrightarrow> conn_step [] d e \<Longrightarrow> conn_run [] c e"
  using conn_more [of "[]" c d "[]" e] by simp

text \<open>From then on only others act.\<close>

lemma conn_ended_step:
  assumes "conn_step ps c d" "conn_ended c"
  shows "d = c \<and> ps = [] \<or>
    (\<exists>p out h. ps = [p] \<and> (\<forall>sub\<in>cn_opened c. p \<noteq> OpUnsubscribe sub) \<and> run_op p (cn_hub c) = Inr (out, h) \<and> d = c\<lparr>cn_hub := h\<rparr>)"
  using assms(1) by cases (use assms(2) in \<open>auto simp: conn_ended_def\<close>)

text \<open>A subscription with at most n events in its channel of 64.\<close>

definition holds_at_most :: "nat \<Rightarrow> Hub \<Rightarrow> string \<Rightarrow> nat \<Rightarrow> bool" where
  "holds_at_most n h topic sub \<longleftrightarrow> hub_inv h \<and> in_topic h topic sub \<and>
     (\<exists>s. hub_heap h sub = Some s \<and> ch_cap (sub_Events s) = 64 \<and> length (sub_buf s) \<le> n)"

lemma op_holds:
  assumes "holds_at_most n h topic sub" "run_op p h = Inr (out, h')" "p \<noteq> OpUnsubscribe sub"
    "n + length (published_to topic [p]) \<le> 64"
  shows "holds_at_most (n + length (published_to topic [p])) h' topic sub"
proof -
  have inv: "hub_inv h" and it: "in_topic h topic sub" using assms(1) by (simp_all add: holds_at_most_def)
  obtain s where s: "hub_heap h sub = Some s" "ch_cap (sub_Events s) = 64" "length (sub_buf s) \<le> n"
    using assms(1) by (auto simp: holds_at_most_def)
  have inv': "hub_inv h'" using run_op_inv [OF inv, of p] assms(2) by auto
  have "in_topic h' topic sub \<and> (\<exists>s'. hub_heap h' sub = Some s' \<and> ch_cap (sub_Events s') = 64 \<and>
      length (sub_buf s') \<le> n + length (published_to topic [p]))"
  proof (cases p)
    case (OpSubscribe t b)
    obtain x h1 where x: "Subscribe t b h = (x, h1)" by (cases "Subscribe t b h")
    note sp = Subscribe_spec [OF inv x]
    have "sub \<noteq> x" using sp(2) hub_invD(2) [OF inv s(1)] by auto
    then show ?thesis using sp it s assms(2) x OpSubscribe by auto
  next
    case (OpUnsubscribe x)
    then show ?thesis using Unsubscribe_spec [OF inv, of x] assms(2,3) it s by auto
  next
    case (OpPublish t e)
    obtain h1 where h1: "Publish t e h = Inr h1"
      "\<And>x. hub_heap h1 x = (if in_topic h t x then map_option (published_sub e) (hub_heap h x) else hub_heap h x)"
      "\<And>t' x. in_topic h1 t' x \<longleftrightarrow> in_topic h t' x \<and> \<not> (t' = t \<and> full_in h x)"
      using Publish_spec [OF inv, of t e] by auto
    have "h' = h1" using assms(2) OpPublish h1(1) by simp
    moreover have "t = topic \<Longrightarrow> \<not> sub_full s" using assms(4) s(2,3) OpPublish by (simp add: sub_full_def)
    moreover have "in_topic h t sub \<Longrightarrow> t = topic" using hub_invD(5) [OF inv] it by blast
    ultimately show ?thesis
      using h1(2,3) it s OpPublish by (auto simp: published_sub_def full_in_def sent_sub_def)
  next
    case (OpReceive x)
    have "h' = snd (Receive x h)" using assms(2) OpReceive by (auto split: prod.splits option.splits)
    then show ?thesis
      using it s OpReceive by (auto simp: Receive_def recv_chan_def in_topic_def split: option.splits list.splits)
  qed
  then show ?thesis using inv' by (simp add: holds_at_most_def)
qed

lemma conn_ended_run:
  "conn_run ps c d \<Longrightarrow> conn_ended c \<Longrightarrow> sub \<in> cn_opened c \<Longrightarrow> holds_at_most 0 (cn_hub c) topic sub \<Longrightarrow>
   length (published_to topic ps) \<le> 64 \<Longrightarrow>
   conn_ended d \<and> cn_opened d = cn_opened c \<and> holds_at_most (length (published_to topic ps)) (cn_hub d) topic sub"
proof (induction rule: conn_run.induct)
  case (conn_more ps c d qs e)
  have room: "length (published_to topic ps) + length (published_to topic qs) \<le> 64"
    using conn_more.prems(4) by (simp add: published_to_append)
  then have IH: "conn_ended d" "cn_opened d = cn_opened c" "holds_at_most (length (published_to topic ps)) (cn_hub d) topic sub"
    using conn_more.IH conn_more.prems(1-3) by simp_all
  consider "e = d" "qs = []" | p out h where "qs = [p]" "p \<noteq> OpUnsubscribe sub" "run_op p (cn_hub d) = Inr (out, h)" "e = d\<lparr>cn_hub := h\<rparr>"
    using conn_ended_step [OF conn_more.hyps(2) IH(1)] conn_more.prems(2) IH(2) by auto
  then show ?case
  proof cases
    case 2
    then show ?thesis
      using op_holds [OF IH(3) 2(3,2)] room IH(1,2) by (simp add: published_to_append conn_ended_def)
  qed (use IH in \<open>simp add: published_to_append\<close>)
qed simp

section \<open>Properties\<close>

text \<open>
  C13: a connection leaves nothing behind of what it subscribed to: whatever messages it sends,
  and whatever others do on the hub meanwhile, when it ends its remaining subscriptions are given
  up without a panic, in any order of the map, and none of those it opened until then is
  registered under any topic, then or later, also when messages come late.
\<close>

theorem session_leaves_nothing:
  assumes "hub_inv h"
  shows "\<exists>subs h1. run_session es ([], h) = Inr (subs, h1) \<and>
    (\<forall>order. set order = snd ` set subs \<longrightarrow> (\<exists>h2. unsubscribe_all order h1 = Inr h2 \<and>
       (\<exists>subs' h3. run_session late (subs, h2) = Inr (subs', h3) \<and> hub_inv h3 \<and>
          (\<forall>sub\<in>opened es ([], h). \<forall>t. \<not> in_topic h3 t sub))))"
proof -
  have "session_inv {} ([], h)" using assms by (simp add: session_inv_def)
  then obtain subs h1 where run: "run_session es ([], h) = Inr (subs, h1)" "session_inv (opened es ([], h)) (subs, h1)"
    using run_session_inv [of "{}" "([], h)" es] by (metis prod.collapse sup_bot_left)
  have "\<exists>h2. unsubscribe_all order h1 = Inr h2 \<and> gone (opened es ([], h)) h2" if "set order = snd ` set subs" for order
    using unsubscribe_all_gone run(2) that by blast
  then show ?thesis using run(1) gone_session unfolding gone_def by metis
qed

text \<open>
  C38: a connection can leave a subscription behind: whatever the hub it comes to, it may read a
  message that subscribes, end before it handles it (its subscriptions are given up before the
  reader is told to stop, and nothing waits for it), and then handle it. When everything of the
  connection has returned, that subscription is in the hub, and it stays there, whatever others
  do, as long as at most 64 events are published to its topic: for ever if there are none.
\<close>

theorem late_subscribe_stays:
  assumes "hub_inv h" "topic \<noteq> []"
  shows "\<exists>c sub. conn_run [] (conn_start h) c \<and> conn_ended c \<and> sub \<in> cn_opened c \<and>
    (\<forall>ps d. conn_run ps c d \<longrightarrow> length (published_to topic ps) \<le> 64 \<longrightarrow> in_topic (cn_hub d) topic sub)"
proof -
  let ?msg = "\<lparr> wm_Action = ''subscribe'', wm_Topic = topic, wm_SinceLogID = None \<rparr>"
  obtain sub h1 where s: "Subscribe topic 64 h = (sub, h1)" by (cases "Subscribe topic 64 h")
  note spec = Subscribe_spec [OF assms(1) s]
  let ?c0 = "conn_start h"
  let ?c1 = "?c0\<lparr>cn_reader := Handling ?msg\<rparr>"
  let ?c2 = "?c1\<lparr>cn_deferred := Some ServeWS_deferred\<rparr>"
  let ?c3 = "?c2\<lparr>cn_deferred := Some [CancelContext, CloseSocket]\<rparr>"
  let ?c4 = "?c3\<lparr>cn_cancelled := True, cn_deferred := Some [CloseSocket]\<rparr>"
  let ?c5 = "?c4\<lparr>cn_deferred := Some []\<rparr>"
  let ?c6 = "?c5\<lparr>cn_subs := [(topic, sub)], cn_hub := h1, cn_opened := {sub}, cn_reader := Reading\<rparr>"
  let ?c7 = "?c6\<lparr>cn_reader := ReaderEnded\<rparr>"
  have "conn_step [] ?c0 ?c1" by (rule conn_step.read) (simp_all add: conn_start_def)
  moreover have "conn_step [] ?c1 ?c2" by (rule conn_step.write_ends) (simp add: conn_start_def)
  moreover have "conn_step [] ?c2 ?c3"
    using conn_step.give_up [of ?c2 "[CancelContext, CloseSocket]" "[]" h] by (simp add: conn_start_def ServeWS_deferred_def)
  moreover have "conn_step [] ?c3 ?c4" using conn_step.cancel [of ?c3 "[CloseSocket]"] by (simp add: conn_start_def)
  moreover have "conn_step [] ?c4 ?c5" using conn_step.close_socket [of ?c4 "[]"] by (simp add: conn_start_def)
  moreover have "conn_step [] ?c5 ?c6"
    using conn_step.handle [of ?c5 ?msg "[(topic, sub)]" h1] assms(2) s by (simp add: conn_start_def on_message_def)
  moreover have "conn_step [] ?c6 ?c7" using conn_step.read_failed [of ?c6] by (simp add: conn_start_def)
  ultimately have run: "conn_run [] ?c0 ?c7" by (meson conn_refl conn_run_silent)
  have ended: "conn_ended ?c7" by (simp add: conn_ended_def)
  have "holds_at_most 0 h1 topic sub"
    using spec by (simp add: holds_at_most_def newSubscription_def make_chan_def)
  then have "in_topic (cn_hub d) topic sub" if "conn_run ps ?c7 d" "length (published_to topic ps) \<le> 64" for ps d
    using conn_ended_run [OF that(1) ended _ _ that(2), of sub] by (simp add: holds_at_most_def)
  then show ?thesis using run ended by (intro exI [of _ ?c7] exI [of _ sub]) simp
qed

definition subscribe_to :: "string \<Rightarrow> WSMessage" where
  "subscribe_to topic = \<lparr> wm_Action = ''subscribe'', wm_Topic = topic, wm_SinceLogID = None \<rparr>"

lemma session_leaves_nothing_witness:
  "\<exists>subs h1. run_session [Message (subscribe_to ''t'')] ([], NewHub) = Inr (subs, h1) \<and>
    (\<forall>order. set order = snd ` set subs \<longrightarrow> (\<exists>h2. unsubscribe_all order h1 = Inr h2 \<and>
       (\<exists>subs' h3. run_session [Message (subscribe_to ''u'')] (subs, h2) = Inr (subs', h3) \<and> hub_inv h3 \<and>
          (\<forall>sub\<in>opened [Message (subscribe_to ''t'')] ([], NewHub). \<forall>t. \<not> in_topic h3 t sub))))"
  by (rule session_leaves_nothing) simp

lemma late_subscribe_stays_witness:
  "\<exists>c sub. conn_run [] (conn_start NewHub) c \<and> conn_ended c \<and> sub \<in> cn_opened c \<and>
    (\<forall>ps d. conn_run ps c d \<longrightarrow> length (published_to ''u'' ps) \<le> 64 \<longrightarrow> in_topic (cn_hub d) ''u'' sub)"
  by (rule late_subscribe_stays) simp_all

end
