(* ===== verification/SqlNumeric.thy ===== *)
theory SqlNumeric
  imports ReadModel Amounts StatRecords
begin

text \<open>
  The SQL functions of internal/db/migrations the statistics of the read model are computed with
  (scale_amount_numeric, resolved_quote_decimals, trade_price_quote, normalize_raw_trade_price).
  PostgreSQL's own numeric arithmetic is a parameter: division and the powers of ten round to a
  scale the server chooses. A numeric is its text, as everywhere in the database.
\<close>

section \<open>Results\<close>

definition res_bind :: "'a res \<Rightarrow> ('a \<Rightarrow> 'b res) \<Rightarrow> 'b res" where
  "res_bind r f = (case r of Inl e \<Rightarrow> Inl e | Inr a \<Rightarrow> f a)"

fun res_map :: "('a \<Rightarrow> 'b res) \<Rightarrow> 'a list \<Rightarrow> 'b list res" where
  "res_map f [] = Inr []"
| "res_map f (x # xs) = res_bind (f x) (\<lambda>y. res_bind (res_map f xs) (\<lambda>ys. Inr (y # ys)))"

definition res_opt :: "('a \<Rightarrow> 'b res) \<Rightarrow> 'a option \<Rightarrow> 'b option res" where
  "res_opt f x = (case x of None \<Rightarrow> Inr None | Some a \<Rightarrow> map_sum id Some (f a))"

lemma res_bind_simps [simp]: "res_bind (Inl e) f = Inl e" "res_bind (Inr a) f = f a"
  by (simp_all add: res_bind_def)

lemma res_bind_Inr: "res_bind r f = Inr b \<longleftrightarrow> (\<exists>a. r = Inr a \<and> f a = Inr b)"
  by (cases r) simp_all

lemma res_opt_simps [simp]: "res_opt f None = Inr None" "res_opt f (Some a) = map_sum id Some (f a)"
  by (simp_all add: res_opt_def)

lemma res_map_Inr: "res_map f xs = Inr ys \<longleftrightarrow> list_all2 (\<lambda>x y. f x = Inr y) xs ys"
proof (induction xs arbitrary: ys)
  case (Cons x xs)
  show ?case by (cases ys) (auto simp: res_bind_Inr Cons)
qed auto

lemma res_map_Inl: "x \<in> set xs \<Longrightarrow> f x = Inl e \<Longrightarrow> \<exists>e. res_map f xs = Inl e"
proof (induction xs)
  case (Cons y ys)
  show ?case
  proof (cases "f y")
    case (Inr z)
    then have "x \<in> set ys" using Cons.prems by auto
    then obtain e' where "res_map f ys = Inl e'" using Cons by blast
    then show ?thesis using Inr by simp
  qed simp
qed simp

section \<open>Numerics\<close>

record PgNum =
  pn_div :: "string \<Rightarrow> string \<Rightarrow> string option"
  pn_power10 :: "int \<Rightarrow> string option"
  pn_sum :: "string list \<Rightarrow> string"
  pn_double :: "string \<Rightarrow> f64 option"

definition out_of_range :: gerror where
  "out_of_range = ErrDB ''value out of range''"

definition or_range :: "'a option \<Rightarrow> 'a res" where
  "or_range x = (case x of None \<Rightarrow> Inl out_of_range | Some a \<Rightarrow> Inr a)"

definition numeric_zero :: "string \<Rightarrow> bool" where
  "numeric_zero s \<longleftrightarrow> decimal_value s = Some 0"

definition double :: "PgNum \<Rightarrow> string \<Rightarrow> f64 res" where
  "double pn s = or_range (pn_double pn s)"

text \<open>The product of two doubles; PostgreSQL reports overflow and underflow.\<close>

definition float8_mul :: "f64 \<Rightarrow> f64 \<Rightarrow> f64 res" where
  "float8_mul a b = (let c = f64_mul a b in
     if f64_is_inf c \<and> \<not> f64_is_inf a \<and> \<not> f64_is_inf b then Inl out_of_range
     else if f64_eq c f64_zero \<and> \<not> f64_eq a f64_zero \<and> \<not> f64_eq b f64_zero then Inl out_of_range
     else Inr c)"

definition resolved_quote_decimals :: "string \<Rightarrow> string option \<Rightarrow> int option \<Rightarrow> int option" where
  "resolved_quote_decimals tradeQuoteMint metadataQuoteMint metadataQuoteDecimals =
     (if metadataQuoteMint = Some tradeQuoteMint then metadataQuoteDecimals
      else if tradeQuoteMint = SolMint then Some 9
      else metadataQuoteDecimals)"

definition scale_amount_numeric :: "PgNum \<Rightarrow> string \<Rightarrow> int option \<Rightarrow> string res" where
  "scale_amount_numeric pn raw decimals = (case decimals of
      None \<Rightarrow> Inr raw
    | Some d \<Rightarrow> res_bind (or_range (pn_power10 pn d)) (\<lambda>p. or_range (pn_div pn raw p)))"

definition trade_price_quote :: "PgNum \<Rightarrow> string \<Rightarrow> string \<Rightarrow> int option \<Rightarrow> int option \<Rightarrow> f64 option res" where
  "trade_price_quote pn quote token tokenDecimals quoteDecimals =
     (if numeric_zero token then Inr None
      else if tokenDecimals \<noteq> None \<and> quoteDecimals \<noteq> None then
        res_bind (scale_amount_numeric pn quote quoteDecimals) (\<lambda>q.
        res_bind (scale_amount_numeric pn token tokenDecimals) (\<lambda>t.
          if numeric_zero t then Inr None
          else res_bind (or_range (pn_div pn q t)) (\<lambda>p. map_sum id Some (double pn p))))
      else res_bind (or_range (pn_div pn quote token)) (\<lambda>p. map_sum id Some (double pn p)))"

definition normalize_raw_trade_price :: "PgNum \<Rightarrow> f64 option \<Rightarrow> int option \<Rightarrow> int option \<Rightarrow> f64 option res" where
  "normalize_raw_trade_price pn rawPrice tokenDecimals quoteDecimals = (case rawPrice of
      None \<Rightarrow> Inr None
    | Some raw \<Rightarrow> (case (tokenDecimals, quoteDecimals) of
        (Some td, Some qd) \<Rightarrow>
          (if td - qd < - 2147483648 \<or> 2147483647 < td - qd then Inl (ErrDB ''integer out of range'')
           else res_bind (or_range (pn_power10 pn (td - qd))) (\<lambda>p.
             res_bind (double pn p) (\<lambda>x. map_sum id Some (float8_mul raw x))))
      | _ \<Rightarrow> Inr (Some raw)))"

section \<open>Trades\<close>

text \<open>What the statements take from the metadata of a mint (left join: nothing when it has none).\<close>

record TokenMeta =
  me_decimals :: "int option"
  me_quote_mint :: "string option"
  me_quote_decimals :: "int option"

definition meta_of :: "string \<Rightarrow> Tables \<Rightarrow> TokenMeta" where
  "meta_of mint t = (case map_of (token_metadata_current t) mint of
      None \<Rightarrow> \<lparr> me_decimals = None, me_quote_mint = None, me_quote_decimals = None \<rparr>
    | Some m \<Rightarrow> \<lparr> me_decimals = md_decimals m, me_quote_mint = md_quote_mint m, me_quote_decimals = md_quote_decimals m \<rparr>)"

definition meta_quote_decimals :: "TokenMeta \<Rightarrow> string \<Rightarrow> int option" where
  "meta_quote_decimals me quoteMint = resolved_quote_decimals quoteMint (me_quote_mint me) (me_quote_decimals me)"

definition trade_price_of :: "PgNum \<Rightarrow> TokenMeta \<Rightarrow> TradeRow \<Rightarrow> f64 option res" where
  "trade_price_of pn me r = trade_price_quote pn (tr_quote_amount_raw r) (tr_token_amount_raw r)
     (me_decimals me) (meta_quote_decimals me (tr_quote_mint r))"

definition trade_volume_of :: "PgNum \<Rightarrow> TokenMeta \<Rightarrow> TradeRow \<Rightarrow> string res" where
  "trade_volume_of pn me r = scale_amount_numeric pn (tr_quote_amount_raw r) (meta_quote_decimals me (tr_quote_mint r))"

text \<open>The trades of a mint, oldest first.\<close>

definition mint_trades :: "string \<Rightarrow> Tables \<Rightarrow> TradeRow list" where
  "mint_trades mint t = sort_key (\<lambda>r. (tr_event_time r, tr_slot r, tr_insert_seq r))
     (filter (\<lambda>r. tr_mint r = mint) (token_trade_events t))"

definition latest_trade :: "string \<Rightarrow> Tables \<Rightarrow> TradeRow option" where
  "latest_trade mint t = (case rev (mint_trades mint t) of [] \<Rightarrow> None | r # _ \<Rightarrow> Some r)"

lemma trade_price_zero: "numeric_zero (tr_token_amount_raw r) \<Longrightarrow> trade_price_of pn me r = Inr None"
  by (simp add: trade_price_of_def trade_price_quote_def)

end
