(* ===== verification/TradeStats.thy ===== *)
theory TradeStats
  imports SqlNumeric
begin

text \<open>
  The statements of internal/store/read_model.go on trade statistics: the current metrics of a
  token and how they are written, the summary of its trades, the recent trades the broadcaster
  seeds its windows from, the sums over the minute view, and the candles. The continuous
  aggregates of TimescaleDB are parameters: the rows each view shows for the tables. Where a
  statement fails while its rows are read, the model reports the failure of the statement.
\<close>

section \<open>Current metrics\<close>

text \<open>
  The arms of upsertTokenMetricsCurrentSQL coincide: a conflict replaces every column. The mint
  is a foreign key into tokens.
\<close>

definition metrics_row :: "TokenMetricsCurrentRecord \<Rightarrow> int \<Rightarrow> int \<Rightarrow> TokenMetricsCurrentRow" where
  "metrics_row r latestTradeAt now = \<lparr>
     cm_mint = mc_Mint r, cm_latest_price = mc_LatestPrice r, cm_latest_trade_at = Some latestTradeAt,
     cm_anchor_price_1m = mc_AnchorPrice1m r, cm_anchor_price_5m = mc_AnchorPrice5m r, cm_anchor_price_1h = mc_AnchorPrice1h r,
     cm_anchor_price_4h = mc_AnchorPrice4h r, cm_anchor_price_24h = mc_AnchorPrice24h r,
     cm_txns_1m = mc_Txns1m r, cm_txns_5m = mc_Txns5m r, cm_txns_1h = mc_Txns1h r,
     cm_txns_4h = mc_Txns4h r, cm_txns_24h = mc_Txns24h r,
     cm_buys_1m = mc_Buys1m r, cm_buys_5m = mc_Buys5m r, cm_buys_1h = mc_Buys1h r,
     cm_buys_4h = mc_Buys4h r, cm_buys_24h = mc_Buys24h r,
     cm_sells_1m = mc_Sells1m r, cm_sells_5m = mc_Sells5m r, cm_sells_1h = mc_Sells1h r,
     cm_sells_4h = mc_Sells4h r, cm_sells_24h = mc_Sells24h r,
     cm_volume_1m = mc_Volume1m r, cm_volume_5m = mc_Volume5m r, cm_volume_1h = mc_Volume1h r,
     cm_volume_4h = mc_Volume4h r, cm_volume_24h = mc_Volume24h r,
     cm_buy_volume_1m = mc_BuyVolume1m r, cm_buy_volume_5m = mc_BuyVolume5m r, cm_buy_volume_1h = mc_BuyVolume1h r,
     cm_buy_volume_4h = mc_BuyVolume4h r, cm_buy_volume_24h = mc_BuyVolume24h r,
     cm_sell_volume_1m = mc_SellVolume1m r, cm_sell_volume_5m = mc_SellVolume5m r, cm_sell_volume_1h = mc_SellVolume1h r,
     cm_sell_volume_4h = mc_SellVolume4h r, cm_sell_volume_24h = mc_SellVolume24h r,
     cm_source_log_id = mc_SourceLogID r, cm_updated_at = now \<rparr>"

definition scanTokenMetricsCurrentRow :: "TokenMetricsCurrentRow \<Rightarrow> TokenMetricsCurrentRecord" where
  "scanTokenMetricsCurrentRow r = \<lparr>
     mc_Mint = cm_mint r, mc_LatestPrice = cm_latest_price r,
     mc_LatestEventUnix = map_option epoch_bigint (cm_latest_trade_at r),
     mc_AnchorPrice1m = cm_anchor_price_1m r, mc_AnchorPrice5m = cm_anchor_price_5m r, mc_AnchorPrice1h = cm_anchor_price_1h r,
     mc_AnchorPrice4h = cm_anchor_price_4h r, mc_AnchorPrice24h = cm_anchor_price_24h r,
     mc_Txns1m = cm_txns_1m r, mc_Txns5m = cm_txns_5m r, mc_Txns1h = cm_txns_1h r,
     mc_Txns4h = cm_txns_4h r, mc_Txns24h = cm_txns_24h r,
     mc_Buys1m = cm_buys_1m r, mc_Buys5m = cm_buys_5m r, mc_Buys1h = cm_buys_1h r,
     mc_Buys4h = cm_buys_4h r, mc_Buys24h = cm_buys_24h r,
     mc_Sells1m = cm_sells_1m r, mc_Sells5m = cm_sells_5m r, mc_Sells1h = cm_sells_1h r,
     mc_Sells4h = cm_sells_4h r, mc_Sells24h = cm_sells_24h r,
     mc_Volume1m = cm_volume_1m r, mc_Volume5m = cm_volume_5m r, mc_Volume1h = cm_volume_1h r,
     mc_Volume4h = cm_volume_4h r, mc_Volume24h = cm_volume_24h r,
     mc_BuyVolume1m = cm_buy_volume_1m r, mc_BuyVolume5m = cm_buy_volume_5m r, mc_BuyVolume1h = cm_buy_volume_1h r,
     mc_BuyVolume4h = cm_buy_volume_4h r, mc_BuyVolume24h = cm_buy_volume_24h r,
     mc_SellVolume1m = cm_sell_volume_1m r, mc_SellVolume5m = cm_sell_volume_5m r, mc_SellVolume1h = cm_sell_volume_1h r,
     mc_SellVolume4h = cm_sell_volume_4h r, mc_SellVolume24h = cm_sell_volume_24h r,
     mc_SourceLogID = cm_source_log_id r \<rparr>"

definition upsertTokenMetricsCurrentSQL :: "Pg \<Rightarrow> TokenMetricsCurrentRecord \<Rightarrow> f64 \<Rightarrow> Db \<Rightarrow> Db res" where
  "upsertTokenMetricsCurrentSQL pg r latestTradeAt s =
     res_bind (to_ts pg latestTradeAt) (\<lambda>ts.
       if mc_Mint r \<notin> fst ` set (tokens (db_tables s))
       then Inl (ErrDB ''violates foreign key constraint'')
       else Inr (s\<lparr>db_tables := (db_tables s)\<lparr>token_metrics_current :=
         upsert (\<lambda>excluded old. excluded) (mc_Mint r) (metrics_row r ts (db_now s)) (token_metrics_current (db_tables s))\<rparr>\<rparr>))"

text \<open>
  A batch outside a transaction is one implicit transaction: a statement that fails undoes those
  before it.
\<close>

fun upsert_metrics :: "Pg \<Rightarrow> TokenMetricsCurrentRecord list \<Rightarrow> Db \<Rightarrow> Db res" where
  "upsert_metrics pg [] s = Inr s"
| "upsert_metrics pg (r # rs) s =
     (case upsertTokenMetricsCurrentSQL pg r (f64_of_int (deref_or 0 (mc_LatestEventUnix r))) s of
        Inl e \<Rightarrow> Inl (ErrWrap (''upsert token metrics current mint='' @ mc_Mint r) e)
      | Inr s' \<Rightarrow> upsert_metrics pg rs s')"

definition UpsertTokenMetricsCurrent :: "Pg \<Rightarrow> TokenMetricsCurrentRecord list \<Rightarrow> Db action" where
  "UpsertTokenMetricsCurrent pg records = (if records = [] then done_ok else db_exec (upsert_metrics pg records))"

definition loadTokenMetricsCurrentByMintSQL :: "string \<Rightarrow> Tables \<Rightarrow> TokenMetricsCurrentRow option res" where
  "loadTokenMetricsCurrentByMintSQL mint t = Inr (map_of (token_metrics_current t) mint)"

definition LoadTokenMetricsCurrentByMint :: "string \<Rightarrow> Db \<Rightarrow> TokenMetricsCurrentRecord option res \<times> Db" where
  "LoadTokenMetricsCurrentByMint mint s =
     (case db_read (loadTokenMetricsCurrentByMintSQL mint) s of
        (Inl e, s') \<Rightarrow> (Inl (ErrWrap (''load token metrics current by mint='' @ mint) e), s')
      | (Inr r, s') \<Rightarrow> (Inr (map_option scanTokenMetricsCurrentRow r), s'))"

section \<open>Metric points\<close>

definition null_scan :: gerror where
  "null_scan = ErrDB ''cannot scan NULL''"

text \<open>A row of the statements below; the price is null when the trade has no tokens.\<close>

definition metric_point :: "PgNum \<Rightarrow> TokenMeta \<Rightarrow> TradeRow \<Rightarrow> TradeMetricPoint res" where
  "metric_point pn me r =
     res_bind (trade_price_of pn me r) (\<lambda>price.
     res_bind (trade_volume_of pn me r) (\<lambda>volume.
     res_bind (double pn volume) (\<lambda>v.
       case price of
         None \<Rightarrow> Inl null_scan
       | Some p \<Rightarrow> Inr \<lparr> mp_EventUnixTS = epoch_bigint (tr_event_time r), mp_Slot = tr_slot r, mp_InsertSeq = tr_insert_seq r,
           mp_Side = tr_side r, mp_Price = p, mp_Volume = v \<rparr>)))"

definition listRecentTradeMetricsByMintSQL :: "Pg \<Rightarrow> string \<Rightarrow> int \<Rightarrow> Tables \<Rightarrow> TradeRow list res" where
  "listRecentTradeMetricsByMintSQL pg mint since t =
     res_bind (to_ts pg (f64_of_int since)) (\<lambda>from.
       Inr (filter (\<lambda>r. from \<le> tr_event_time r) (mint_trades mint t)))"

definition ListRecentTradeMetricsByMint :: "Pg \<Rightarrow> PgNum \<Rightarrow> string \<Rightarrow> int \<Rightarrow> Db \<Rightarrow> TradeMetricPoint list res \<times> Db" where
  "ListRecentTradeMetricsByMint pg pn mint since s =
     (case db_read (\<lambda>t. res_bind (listRecentTradeMetricsByMintSQL pg mint since t) (res_map (metric_point pn (meta_of mint t)))) s of
        (Inl e, s') \<Rightarrow> (Inl (ErrWrap (''list recent trade metrics by mint='' @ mint @ '' since='' @ int_to_string since) e), s')
      | (Inr ms, s') \<Rightarrow> (Inr ms, s'))"

text \<open>
  The trades of the last day before the latest trade, after the last one before them (the slots
  and sequence numbers of the row comparison are the largest a bigint holds).
\<close>

definition hours :: "int \<Rightarrow> int" where
  "hours n = n * 3600000000"

definition listTradeMetricsForStatsByMintSQL :: "string \<Rightarrow> Tables \<Rightarrow> TradeRow list res" where
  "listTradeMetricsForStatsByMintSQL mint t = (case latest_trade mint t of
      None \<Rightarrow> Inr []
    | Some l \<Rightarrow>
        let trades = mint_trades mint t;
            anchor = (case rev (filter (\<lambda>r. tr_event_time r \<le> tr_event_time l - hours 24) trades) of [] \<Rightarrow> [] | r # _ \<Rightarrow> [r]);
            windowed = filter (\<lambda>r. tr_event_time l - hours 24 < tr_event_time r) trades
        in Inr (sort_key (\<lambda>r. (epoch_bigint (tr_event_time r), tr_slot r, tr_insert_seq r)) (anchor @ windowed)))"

definition ListTradeMetricsForStatsByMint :: "PgNum \<Rightarrow> string \<Rightarrow> Db \<Rightarrow> TradeMetricPoint list res \<times> Db" where
  "ListTradeMetricsForStatsByMint pn mint s =
     (case db_read (\<lambda>t. res_bind (listTradeMetricsForStatsByMintSQL mint t) (res_map (metric_point pn (meta_of mint t)))) s of
        (Inl e, s') \<Rightarrow> (Inl (ErrWrap (''list trade metrics for stats by mint='' @ mint) e), s')
      | (Inr ms, s') \<Rightarrow> (Inr ms, s'))"

section \<open>Backfill\<close>

text \<open>The mints with trades and no current metrics, those traded last first.\<close>

definition latest_time :: "string \<Rightarrow> Tables \<Rightarrow> int" where
  "latest_time mint t = (case latest_trade mint t of None \<Rightarrow> 0 | Some r \<Rightarrow> tr_event_time r)"

definition listMetricBackfillCandidatesSQL :: "int \<Rightarrow> Tables \<Rightarrow> string list res" where
  "listMetricBackfillCandidatesSQL limit t = sql_limit limit
     (filter (\<lambda>mint. map_of (token_metrics_current t) mint = None)
       (sort_key (\<lambda>mint. - latest_time mint t) (remdups (map tr_mint (token_trade_events t)))))"

definition ListMetricBackfillCandidates :: "int \<Rightarrow> Db \<Rightarrow> string list res \<times> Db" where
  "ListMetricBackfillCandidates limit s =
     (case db_read (listMetricBackfillCandidatesSQL limit) s of
        (Inl e, s') \<Rightarrow> (Inl (ErrWrap ''list metric backfill candidates'' e), s')
      | (Inr ms, s') \<Rightarrow> (Inr ms, s'))"

definition seed_of :: "PgNum \<Rightarrow> Tables \<Rightarrow> string \<Rightarrow> (string \<times> LatestTradeSeedRecord) res" where
  "seed_of pn t mint = (case latest_trade mint t of
      None \<Rightarrow> Inr (mint, \<lparr> ls_Mint = mint, ls_LatestPrice = None, ls_LatestEventUnix = None \<rparr>)
    | Some r \<Rightarrow> res_bind (trade_price_of pn (meta_of mint t) r) (\<lambda>p.
        Inr (mint, \<lparr> ls_Mint = mint, ls_LatestPrice = p, ls_LatestEventUnix = Some (epoch_bigint (tr_event_time r)) \<rparr>)))"

definition listLatestTradeSeedsByMintsSQL :: "PgNum \<Rightarrow> string list \<Rightarrow> Tables \<Rightarrow> (string \<times> LatestTradeSeedRecord) list res" where
  "listLatestTradeSeedsByMintsSQL pn mints t = res_map (seed_of pn t) mints"

definition ListLatestTradeSeedsByMints :: "PgNum \<Rightarrow> string list \<Rightarrow> Db \<Rightarrow> (string \<times> LatestTradeSeedRecord) list res \<times> Db" where
  "ListLatestTradeSeedsByMints pn mints s =
     (if mints = [] then (Inr [], s)
      else case db_read (listLatestTradeSeedsByMintsSQL pn mints) s of
        (Inl e, s') \<Rightarrow> (Inl (ErrWrap ''list latest trade seeds by mints'' e), s')
      | (Inr ms, s') \<Rightarrow> (Inr ms, s'))"

section \<open>Summaries\<close>

text \<open>The columns of both summary statements; the first may be null in the current one.\<close>

record SummaryRow =
  su_quote_mint :: "string option"
  su_latest_price :: "f64 option"
  su_latest_event_unix :: "int option"
  su_price_5m :: "f64 option"
  su_price_1h :: "f64 option"
  su_price_4h :: "f64 option"
  su_price_24h :: "f64 option"
  su_txns :: int
  su_buys :: int
  su_sells :: int
  su_volume :: f64
  su_buy_volume :: f64
  su_sell_volume :: f64
  su_makers :: int
  su_buyers :: int
  su_sellers :: int

definition scanTradeSummaryRow :: "SummaryRow \<Rightarrow> TradeSummaryRecord res" where
  "scanTradeSummaryRow r = (case su_quote_mint r of
      None \<Rightarrow> Inl null_scan
    | Some q \<Rightarrow> Inr \<lparr>
        ts_QuoteMint = q, ts_LatestPrice = su_latest_price r, ts_LatestEventUnix = su_latest_event_unix r,
        ts_Price1mAgo = None, ts_Price5mAgo = su_price_5m r, ts_Price1hAgo = su_price_1h r,
        ts_Price4hAgo = su_price_4h r, ts_Price24hAgo = su_price_24h r,
        ts_Txns1m = 0, ts_Buys1m = 0, ts_Sells1m = 0, ts_Volume1m = f64_zero, ts_BuyVolume1m = f64_zero, ts_SellVolume1m = f64_zero,
        ts_Txns5m = 0, ts_Buys5m = 0, ts_Sells5m = 0, ts_Volume5m = f64_zero, ts_BuyVolume5m = f64_zero, ts_SellVolume5m = f64_zero,
        ts_Txns1h = 0, ts_Buys1h = 0, ts_Sells1h = 0, ts_Volume1h = f64_zero, ts_BuyVolume1h = f64_zero, ts_SellVolume1h = f64_zero,
        ts_Txns4h = 0, ts_Buys4h = 0, ts_Sells4h = 0, ts_Volume4h = f64_zero, ts_BuyVolume4h = f64_zero, ts_SellVolume4h = f64_zero,
        ts_Txns24h = su_txns r, ts_Buys24h = su_buys r, ts_Sells24h = su_sells r, ts_Volume24h = su_volume r,
        ts_BuyVolume24h = su_buy_volume r, ts_SellVolume24h = su_sell_volume r, ts_Makers24h = su_makers r,
        ts_Buyers24h = su_buyers r, ts_Sellers24h = su_sellers r \<rparr>)"

definition loadTokenTradeSummaryCurrentSQL :: "string \<Rightarrow> Tables \<Rightarrow> SummaryRow option" where
  "loadTokenTradeSummaryCurrentSQL mint t = map_option (\<lambda>tm. \<lparr>
     su_quote_mint = me_quote_mint (meta_of mint t), su_latest_price = cm_latest_price tm,
     su_latest_event_unix = map_option epoch_bigint (cm_latest_trade_at tm),
     su_price_5m = cm_anchor_price_5m tm, su_price_1h = cm_anchor_price_1h tm,
     su_price_4h = cm_anchor_price_4h tm, su_price_24h = cm_anchor_price_24h tm,
     su_txns = cm_txns_24h tm, su_buys = cm_buys_24h tm, su_sells = cm_sells_24h tm,
     su_volume = cm_volume_24h tm, su_buy_volume = cm_buy_volume_24h tm, su_sell_volume = cm_sell_volume_24h tm,
     su_makers = 0, su_buyers = 0, su_sellers = 0 \<rparr>) (map_of (token_metrics_current t) mint)"

text \<open>
  The price n microseconds before the latest trade: that of the last trade then, or that of the
  first trade after (which reads the latest time from its rounded seconds).
\<close>

definition anchor_before :: "PgNum \<Rightarrow> TokenMeta \<Rightarrow> TradeRow list \<Rightarrow> int \<Rightarrow> f64 option res" where
  "anchor_before pn me trades bound = (case rev (filter (\<lambda>r. tr_event_time r \<le> bound) trades) of
      [] \<Rightarrow> Inr None | r # _ \<Rightarrow> trade_price_of pn me r)"

definition anchor_after :: "PgNum \<Rightarrow> TokenMeta \<Rightarrow> TradeRow list \<Rightarrow> int \<Rightarrow> f64 option res" where
  "anchor_after pn me trades bound = (case filter (\<lambda>r. bound \<le> tr_event_time r) trades of
      [] \<Rightarrow> Inr None | r # _ \<Rightarrow> trade_price_of pn me r)"

definition price_ago :: "Pg \<Rightarrow> PgNum \<Rightarrow> TokenMeta \<Rightarrow> TradeRow list \<Rightarrow> TradeRow \<Rightarrow> int \<Rightarrow> f64 option res" where
  "price_ago pg pn me trades l n =
     res_bind (anchor_before pn me trades (tr_event_time l - n)) (\<lambda>a. case a of
       Some p \<Rightarrow> Inr (Some p)
     | None \<Rightarrow> res_bind (to_ts pg (f64_of_int (epoch_bigint (tr_event_time l)))) (\<lambda>ts. anchor_after pn me trades (ts - n)))"

text \<open>coalesce(sum(...), 0)::double precision\<close>

definition sum_volume :: "PgNum \<Rightarrow> TokenMeta \<Rightarrow> TradeRow list \<Rightarrow> f64 res" where
  "sum_volume pn me rows = res_bind (res_map (trade_volume_of pn me) rows) (\<lambda>vs.
     double pn (if vs = [] then ''0'' else pn_sum pn vs))"

definition distinct_users :: "TradeRow list \<Rightarrow> int" where
  "distinct_users rows = int (length (remdups (map tr_user_address rows)))"

definition side_of :: "string \<Rightarrow> TradeRow list \<Rightarrow> TradeRow list" where
  "side_of side rows = filter (\<lambda>r. tr_side r = side) rows"

definition loadTokenTradeSummaryFallbackSQL :: "Pg \<Rightarrow> PgNum \<Rightarrow> string \<Rightarrow> Tables \<Rightarrow> SummaryRow option res" where
  "loadTokenTradeSummaryFallbackSQL pg pn mint t = (case latest_trade mint t of
      None \<Rightarrow> Inr None
    | Some l \<Rightarrow>
        let me = meta_of mint t; trades = mint_trades mint t;
            day = filter (\<lambda>r. tr_event_time l - hours 24 < tr_event_time r) trades;
            buys = side_of ''buy'' day; sells = side_of ''sell'' day in
        res_bind (trade_price_of pn me l) (\<lambda>latest.
        res_bind (price_ago pg pn me trades l 300000000) (\<lambda>p5m.
        res_bind (price_ago pg pn me trades l (hours 1)) (\<lambda>p1h.
        res_bind (price_ago pg pn me trades l (hours 4)) (\<lambda>p4h.
        res_bind (price_ago pg pn me trades l (hours 24)) (\<lambda>p24h.
        res_bind (sum_volume pn me day) (\<lambda>volume.
        res_bind (sum_volume pn me buys) (\<lambda>buyVolume.
        res_bind (sum_volume pn me sells) (\<lambda>sellVolume.
        Inr (Some \<lparr>
          su_quote_mint = Some (tr_quote_mint l), su_latest_price = latest,
          su_latest_event_unix = Some (epoch_bigint (tr_event_time l)),
          su_price_5m = p5m, su_price_1h = p1h, su_price_4h = p4h, su_price_24h = p24h,
          su_txns = int (length day), su_buys = int (length buys), su_sells = int (length sells),
          su_volume = volume, su_buy_volume = buyVolume, su_sell_volume = sellVolume,
          su_makers = distinct_users day, su_buyers = distinct_users buys, su_sellers = distinct_users sells \<rparr>))))))))))"

definition LoadTradeSummaryByMint :: "Pg \<Rightarrow> PgNum \<Rightarrow> string \<Rightarrow> Db \<Rightarrow> TradeSummaryRecord option res \<times> Db" where
  "LoadTradeSummaryByMint pg pn mint s =
     (case db_read (\<lambda>t. res_opt scanTradeSummaryRow (loadTokenTradeSummaryCurrentSQL mint t)) s of
        (Inl e, s1) \<Rightarrow> (Inl (ErrWrap (''load trade summary current by mint='' @ mint) e), s1)
      | (Inr (Some summary), s1) \<Rightarrow> (Inr (Some summary), s1)
      | (Inr None, s1) \<Rightarrow>
          (case db_read (\<lambda>t. res_bind (loadTokenTradeSummaryFallbackSQL pg pn mint t) (res_opt scanTradeSummaryRow)) s1 of
             (Inl e, s2) \<Rightarrow> (Inl (ErrWrap (''load trade summary fallback by mint='' @ mint) e), s2)
           | (Inr summary, s2) \<Rightarrow> (Inr summary, s2)))"

end
