(* ===== verification/Aggregates.thy ===== *)
theory Aggregates
  imports TradeStats
begin

text \<open>
  The statements of internal/store/read_model.go over the continuous aggregates of TimescaleDB:
  the sums of the last day by minute, and the candles. A view is a parameter, the rows it shows
  for the tables; how fresh they are is the business of its refresh policy (db/migrations).
\<close>

section \<open>The minute view\<close>

record TradeMetrics1mRow =
  v1_bucket :: int
  v1_mint :: string
  v1_open_raw_price :: "f64 option"
  v1_close_raw_price :: "f64 option"
  v1_quote_mint_sample :: string
  v1_txns :: int
  v1_buys :: int
  v1_sells :: int
  v1_volume_quote_raw :: string
  v1_buy_volume_quote_raw :: string
  v1_sell_volume_quote_raw :: string

type_synonym minute_view = "Tables \<Rightarrow> TradeMetrics1mRow list"

record MinuteMetric =
  mm_bucket :: int
  mm_open_price :: "f64 option"
  mm_txns :: int
  mm_buys :: int
  mm_sells :: int
  mm_volume :: f64
  mm_buy_volume :: f64
  mm_sell_volume :: f64

definition scaled_double :: "PgNum \<Rightarrow> string \<Rightarrow> int option \<Rightarrow> f64 res" where
  "scaled_double pn raw decimals = res_bind (scale_amount_numeric pn raw decimals) (double pn)"

definition minute_metric :: "PgNum \<Rightarrow> TokenMeta \<Rightarrow> TradeMetrics1mRow \<Rightarrow> MinuteMetric res" where
  "minute_metric pn me tm =
     (let quoteDecimals = meta_quote_decimals me (v1_quote_mint_sample tm) in
      res_bind (normalize_raw_trade_price pn (v1_open_raw_price tm) (me_decimals me) quoteDecimals) (\<lambda>openPrice.
      res_bind (scaled_double pn (v1_volume_quote_raw tm) quoteDecimals) (\<lambda>volume.
      res_bind (scaled_double pn (v1_buy_volume_quote_raw tm) quoteDecimals) (\<lambda>buyVolume.
      res_bind (scaled_double pn (v1_sell_volume_quote_raw tm) quoteDecimals) (\<lambda>sellVolume.
      Inr \<lparr> mm_bucket = v1_bucket tm, mm_open_price = openPrice, mm_txns = v1_txns tm, mm_buys = v1_buys tm,
        mm_sells = v1_sells tm, mm_volume = volume, mm_buy_volume = buyVolume, mm_sell_volume = sellVolume \<rparr>)))))"

text \<open>The sum of doubles, an error on overflow, zero for no rows.\<close>

fun float8_sum_from :: "f64 \<Rightarrow> f64 list \<Rightarrow> f64 res" where
  "float8_sum_from a [] = Inr a"
| "float8_sum_from a (x # xs) = (let c = f64_add a x in
     if f64_is_inf c \<and> \<not> f64_is_inf a \<and> \<not> f64_is_inf x then Inl out_of_range else float8_sum_from c xs)"

definition float8_sum :: "f64 list \<Rightarrow> f64 res" where
  "float8_sum xs = (case xs of [] \<Rightarrow> Inr f64_zero | x # xs \<Rightarrow> float8_sum_from x xs)"

text \<open>The aggregate first(value, bucket): the value of the earliest bucket.\<close>

definition first_open :: "MinuteMetric list \<Rightarrow> f64 option" where
  "first_open ms = (case sort_key mm_bucket ms of [] \<Rightarrow> None | m # _ \<Rightarrow> mm_open_price m)"

definition mm_since :: "int \<Rightarrow> MinuteMetric list \<Rightarrow> MinuteMetric list" where
  "mm_since from ms = filter (\<lambda>m. from \<le> mm_bucket m) ms"

text \<open>A mint requested n times is joined n times with its metadata and n times with its rows.\<close>

definition joined_minutes :: "PgNum \<Rightarrow> minute_view \<Rightarrow> string list \<Rightarrow> int \<Rightarrow> Tables \<Rightarrow> string \<Rightarrow> MinuteMetric list res" where
  "joined_minutes pn view mints now t mint =
     (let rows = filter (\<lambda>tm. v1_mint tm = mint \<and> now - hours 24 \<le> v1_bucket tm \<and> v1_bucket tm < now - 300000000) (view t);
          times = filter (\<lambda>m. m = mint) mints
      in res_map (minute_metric pn (meta_of mint t)) (concat (map (\<lambda>_. concat (map (\<lambda>_. rows) times)) times)))"

definition long_window :: "MinuteMetric list \<Rightarrow> int \<Rightarrow> string \<Rightarrow> LongWindowMetricsRecord res" where
  "long_window ms now mint =
     (let m1h = mm_since (now - hours 1) ms; m4h = mm_since (now - hours 4) ms; m24h = mm_since (now - hours 24) ms in
      res_bind (float8_sum (map mm_volume m1h)) (\<lambda>volume1h.
      res_bind (float8_sum (map mm_volume m4h)) (\<lambda>volume4h.
      res_bind (float8_sum (map mm_volume m24h)) (\<lambda>volume24h.
      res_bind (float8_sum (map mm_buy_volume m1h)) (\<lambda>buyVolume1h.
      res_bind (float8_sum (map mm_buy_volume m4h)) (\<lambda>buyVolume4h.
      res_bind (float8_sum (map mm_buy_volume m24h)) (\<lambda>buyVolume24h.
      res_bind (float8_sum (map mm_sell_volume m1h)) (\<lambda>sellVolume1h.
      res_bind (float8_sum (map mm_sell_volume m4h)) (\<lambda>sellVolume4h.
      res_bind (float8_sum (map mm_sell_volume m24h)) (\<lambda>sellVolume24h.
      Inr \<lparr> lw_Mint = mint,
        lw_AnchorPrice1h = first_open m1h, lw_AnchorPrice4h = first_open m4h, lw_AnchorPrice24h = first_open m24h,
        lw_Txns1h = sum_list (map mm_txns m1h), lw_Txns4h = sum_list (map mm_txns m4h), lw_Txns24h = sum_list (map mm_txns m24h),
        lw_Buys1h = sum_list (map mm_buys m1h), lw_Buys4h = sum_list (map mm_buys m4h), lw_Buys24h = sum_list (map mm_buys m24h),
        lw_Sells1h = sum_list (map mm_sells m1h), lw_Sells4h = sum_list (map mm_sells m4h), lw_Sells24h = sum_list (map mm_sells m24h),
        lw_Volume1h = volume1h, lw_Volume4h = volume4h, lw_Volume24h = volume24h,
        lw_BuyVolume1h = buyVolume1h, lw_BuyVolume4h = buyVolume4h, lw_BuyVolume24h = buyVolume24h,
        lw_SellVolume1h = sellVolume1h, lw_SellVolume4h = sellVolume4h, lw_SellVolume24h = sellVolume24h \<rparr>))))))))))"

definition listLongWindowMetricsByMintsSQL ::
    "Pg \<Rightarrow> PgNum \<Rightarrow> minute_view \<Rightarrow> string list \<Rightarrow> int \<Rightarrow> Tables \<Rightarrow> (string \<times> LongWindowMetricsRecord) list res" where
  "listLongWindowMetricsByMintsSQL pg pn view mints nowTs t =
     res_bind (to_ts pg (f64_of_int nowTs)) (\<lambda>now.
       res_map (\<lambda>mint. res_bind (joined_minutes pn view mints now t mint) (\<lambda>ms.
         map_sum id (\<lambda>r. (mint, r)) (long_window ms now mint))) (remdups mints))"

definition ListLongWindowMetricsByMints ::
    "Pg \<Rightarrow> PgNum \<Rightarrow> minute_view \<Rightarrow> string list \<Rightarrow> int \<Rightarrow> Db \<Rightarrow> (string \<times> LongWindowMetricsRecord) list res \<times> Db" where
  "ListLongWindowMetricsByMints pg pn view mints nowTs s =
     (if mints = [] then (Inr [], s)
      else case db_read (listLongWindowMetricsByMintsSQL pg pn view mints nowTs) s of
        (Inl e, s') \<Rightarrow> (Inl (ErrWrap ''list long window metrics by mints'' e), s')
      | (Inr ms, s') \<Rightarrow> (Inr ms, s'))"

section \<open>Candles\<close>

record CandleRow =
  cd_bucket :: int
  cd_mint :: string
  cd_open_raw_price :: "f64 option"
  cd_high_raw_price :: "f64 option"
  cd_low_raw_price :: "f64 option"
  cd_close_raw_price :: "f64 option"
  cd_quote_mint_sample :: string
  cd_volume_quote_raw :: string

type_synonym candle_views = "string \<Rightarrow> Tables \<Rightarrow> CandleRow list"

definition candleAggregateViews :: "(string \<times> string) list" where
  "candleAggregateViews = [
     (''1 minute'', ''token_candles_1m''), (''5 minutes'', ''token_candles_5m''), (''15 minutes'', ''token_candles_15m''),
     (''1 hour'', ''token_candles_1h''), (''4 hours'', ''token_candles_4h''), (''1 day'', ''token_candles_1d'')]"

definition candleAggregateView :: "string \<Rightarrow> string res" where
  "candleAggregateView resolution = (case map_of candleAggregateViews resolution of
      None \<Rightarrow> Inl (ErrMsg (''unsupported candle resolution '' @ resolution)) | Some viewName \<Rightarrow> Inr viewName)"

text \<open>A price that is null does not scan.\<close>

definition candle_record :: "PgNum \<Rightarrow> TokenMeta \<Rightarrow> CandleRow \<Rightarrow> TokenCandleRecord res" where
  "candle_record pn me c =
     (let quoteDecimals = meta_quote_decimals me (cd_quote_mint_sample c);
          price = (\<lambda>raw. res_bind (normalize_raw_trade_price pn raw (me_decimals me) quoteDecimals)
            (\<lambda>p. case p of None \<Rightarrow> Inl null_scan | Some x \<Rightarrow> Inr x)) in
      res_bind (price (cd_open_raw_price c)) (\<lambda>open.
      res_bind (price (cd_high_raw_price c)) (\<lambda>high.
      res_bind (price (cd_low_raw_price c)) (\<lambda>low.
      res_bind (price (cd_close_raw_price c)) (\<lambda>close.
      res_bind (scaled_double pn (cd_volume_quote_raw c) quoteDecimals) (\<lambda>volume.
      Inr \<lparr> cn_TimeUnix = epoch_bigint (cd_bucket c), cn_Open = open, cn_High = high, cn_Low = low,
        cn_Close = close, cn_Volume = volume, cn_IsGapFill = False \<rparr>))))))"

definition listTokenCandlesByMintSQL ::
    "Pg \<Rightarrow> PgNum \<Rightarrow> (Tables \<Rightarrow> CandleRow list) \<Rightarrow> string \<Rightarrow> int option \<Rightarrow> int \<Rightarrow> Tables \<Rightarrow> TokenCandleRecord list res" where
  "listTokenCandlesByMintSQL pg pn view mint beforeTime limit t =
     res_bind (res_opt (\<lambda>b. to_ts pg (f64_of_int b)) beforeTime) (\<lambda>before.
     res_bind (sql_limit limit (sort_key (\<lambda>c. - cd_bucket c)
         (filter (\<lambda>c. cd_mint c = mint \<and> (case before of None \<Rightarrow> True | Some b \<Rightarrow> cd_bucket c < b)) (view t)))) (\<lambda>limited.
     res_bind (res_map (candle_record pn (meta_of mint t)) limited) (\<lambda>rows.
     Inr (sort_key cn_TimeUnix rows))))"

definition ListCandlesByMint ::
    "Pg \<Rightarrow> PgNum \<Rightarrow> candle_views \<Rightarrow> string \<Rightarrow> string \<Rightarrow> int \<Rightarrow> int option \<Rightarrow> Db \<Rightarrow> TokenCandleRecord list res \<times> Db" where
  "ListCandlesByMint pg pn views mint resolution limit beforeTime s =
     (case candleAggregateView resolution of
        Inl e \<Rightarrow> (Inl e, s)
      | Inr viewName \<Rightarrow>
          (case db_read (listTokenCandlesByMintSQL pg pn (views viewName) mint beforeTime limit) s of
             (Inl e, s') \<Rightarrow> (Inl (ErrWrap (''list candles by mint='' @ mint @ '' resolution='' @ resolution) e), s')
           | (Inr cs, s') \<Rightarrow> (Inr cs, s')))"

end
