(* ===== verification/Board.thy ===== *)
theory Board
  imports TradeStats
begin

text \<open>
  The token board and the token search of internal/store/read_model.go: the statements
  listTokenBoardRowsSQL and searchTokenSnapshotsSQL.
\<close>

section \<open>Double precision arithmetic of the server\<close>

text \<open>An infinite result of finite operands is an error, and so is a vanishing quotient.\<close>

definition float8_check :: "f64 \<Rightarrow> f64 \<Rightarrow> f64 \<Rightarrow> f64 res" where
  "float8_check a b c = (if f64_is_inf c \<and> \<not> f64_is_inf a \<and> \<not> f64_is_inf b then Inl out_of_range else Inr c)"

definition float8_add :: "f64 \<Rightarrow> f64 \<Rightarrow> f64 res" where
  "float8_add a b = float8_check a b (f64_add a b)"

definition float8_sub :: "f64 \<Rightarrow> f64 \<Rightarrow> f64 res" where
  "float8_sub a b = float8_check a b (f64_sub a b)"

definition float8_div :: "f64 \<Rightarrow> f64 \<Rightarrow> f64 res" where
  "float8_div a b = (let c = f64_div a b in
     if f64_eq c f64_zero \<and> \<not> f64_eq a f64_zero \<and> \<not> f64_is_inf b then Inl out_of_range else float8_check a b c)"

text \<open>The order of doubles, the infinities at its ends and no-number above them all.\<close>

definition f64_key :: "f64 \<Rightarrow> int \<times> rat" where
  "f64_key x = (case x of
      NaN \<Rightarrow> (2, 0)
    | Inf s \<Rightarrow> (if s then (- 1, 0) else (1, 0))
    | Fin s m e \<Rightarrow> (0, (if s then - 1 else 1) * of_int m * (if 0 \<le> e then 2 ^ nat e else 1 / 2 ^ nat (- e))))"

section \<open>Search\<close>

text \<open>like: a percent sign stands for any text, an underscore for any character, a backslash quotes.\<close>

function like :: "string \<Rightarrow> string \<Rightarrow> bool" where
  "like [] s = (s = [])"
| "like (c # p) s =
     (if c = CHR ''%'' then like p s \<or> (case s of [] \<Rightarrow> False | x # t \<Rightarrow> like (c # p) t)
      else if c = CHR ''_'' then (case s of [] \<Rightarrow> False | x # t \<Rightarrow> like p t)
      else if c = CHR 92 then (case p of [] \<Rightarrow> False | q # p' \<Rightarrow> (case s of [] \<Rightarrow> False | x # t \<Rightarrow> x = q \<and> like p' t))
      else (case s of [] \<Rightarrow> False | x # t \<Rightarrow> x = c \<and> like p t))"
  by pat_completeness auto
termination
  by (relation "measures [\<lambda>(p, s). length p, \<lambda>(p, s). length s]") auto

definition ilike :: "string \<Rightarrow> string \<Rightarrow> bool" where
  "ilike s p = like (ToLower p) (ToLower s)"

text \<open>A token with its metadata and its current metrics (two left joins).\<close>

record TokenJoin =
  tj_token :: TokenRow
  tj_meta :: "TokenMetadataRow option"
  tj_metrics :: "TokenMetricsCurrentRow option"

definition token_joins :: "Tables \<Rightarrow> TokenJoin list" where
  "token_joins t = map (\<lambda>(mint, tk). \<lparr> tj_token = tk, tj_meta = map_of (token_metadata_current t) (tk_mint tk),
     tj_metrics = map_of (token_metrics_current t) (tk_mint tk) \<rparr>) (tokens t)"

definition tj_name :: "TokenJoin \<Rightarrow> string" where
  "tj_name j = deref_or [] (Option.bind (tj_meta j) md_name)"

definition tj_symbol :: "TokenJoin \<Rightarrow> string" where
  "tj_symbol j = deref_or [] (Option.bind (tj_meta j) md_symbol)"

definition search_match :: "string \<Rightarrow> TokenJoin \<Rightarrow> bool" where
  "search_match pattern j \<longleftrightarrow> ilike (tk_mint (tj_token j)) pattern \<or> ilike (tj_name j) pattern \<or> ilike (tj_symbol j) pattern"

definition search_rank :: "string \<Rightarrow> TokenJoin \<Rightarrow> int" where
  "search_rank q j =
     (let mint = ToLower (tk_mint (tj_token j)); symbol = ToLower (tj_symbol j); name = ToLower (tj_name j); prefix = ToLower q @ ''%'' in
      if mint = ToLower q then 0
      else if symbol = ToLower q then 1
      else if name = ToLower q then 2
      else if like prefix mint then 3
      else if like prefix symbol then 4
      else if like prefix name then 5
      else 6)"

definition search_record :: "TokenJoin \<Rightarrow> TokenSearchRecord" where
  "search_record j = \<lparr> sr_Mint = tk_mint (tj_token j), sr_Name = Option.bind (tj_meta j) md_name,
     sr_Symbol = Option.bind (tj_meta j) md_symbol, sr_ImageURI = Option.bind (tj_meta j) md_image_uri,
     sr_LatestPrice = Option.bind (tj_metrics j) cm_latest_price \<rparr>"

definition searchTokenSnapshotsSQL :: "string \<Rightarrow> string \<Rightarrow> int \<Rightarrow> Tables \<Rightarrow> TokenSearchRecord list res" where
  "searchTokenSnapshotsSQL pattern q limit t = sql_limit limit (map search_record
     (sort_key (\<lambda>j. (search_rank q j, - tk_first_seen_at (tj_token j))) (filter (search_match pattern) (token_joins t))))"

definition SearchTokenSnapshots :: "string \<Rightarrow> int \<Rightarrow> Db \<Rightarrow> TokenSearchRecord list res \<times> Db" where
  "SearchTokenSnapshots q limit s =
     (case db_read (searchTokenSnapshotsSQL (''%'' @ q @ ''%'') q limit) s of
        (Inl e, s') \<Rightarrow> (Inl (ErrWrap ''search token snapshots'' e), s')
      | (Inr rs, s') \<Rightarrow> (Inr rs, s'))"

section \<open>The board\<close>

definition window_anchor :: "string \<Rightarrow> TokenMetricsCurrentRow \<Rightarrow> f64 option" where
  "window_anchor interval r = (if interval = ''1m'' then cm_anchor_price_1m r else if interval = ''5m'' then cm_anchor_price_5m r else if interval = ''1h'' then cm_anchor_price_1h r
     else if interval = ''4h'' then cm_anchor_price_4h r else cm_anchor_price_24h r)"

definition window_volume :: "string \<Rightarrow> TokenMetricsCurrentRow \<Rightarrow> f64" where
  "window_volume interval r = (if interval = ''1m'' then cm_volume_1m r else if interval = ''5m'' then cm_volume_5m r else if interval = ''1h'' then cm_volume_1h r
     else if interval = ''4h'' then cm_volume_4h r else cm_volume_24h r)"

definition window_txns :: "string \<Rightarrow> TokenMetricsCurrentRow \<Rightarrow> int" where
  "window_txns interval r = (if interval = ''1m'' then cm_txns_1m r else if interval = ''5m'' then cm_txns_5m r else if interval = ''1h'' then cm_txns_1h r
     else if interval = ''4h'' then cm_txns_4h r else cm_txns_24h r)"

definition window_buys :: "string \<Rightarrow> TokenMetricsCurrentRow \<Rightarrow> int" where
  "window_buys interval r = (if interval = ''1m'' then cm_buys_1m r else if interval = ''5m'' then cm_buys_5m r else if interval = ''1h'' then cm_buys_1h r
     else if interval = ''4h'' then cm_buys_4h r else cm_buys_24h r)"

definition window_sells :: "string \<Rightarrow> TokenMetricsCurrentRow \<Rightarrow> int" where
  "window_sells interval r = (if interval = ''1m'' then cm_sells_1m r else if interval = ''5m'' then cm_sells_5m r else if interval = ''1h'' then cm_sells_1h r
     else if interval = ''4h'' then cm_sells_4h r else cm_sells_24h r)"

definition nullif_empty :: "string option \<Rightarrow> string option" where
  "nullif_empty x = (if x = Some [] then None else x)"

text \<open>A field of the payload of an event, absent or empty as null.\<close>

definition field :: "ServiceEventRow \<Rightarrow> string \<Rightarrow> string option" where
  "field se key = nullif_empty (jsonb_text (se_payload se) key)"

definition scaled_numeric :: "Pg \<Rightarrow> PgNum \<Rightarrow> string option \<Rightarrow> int option \<Rightarrow> string option res" where
  "scaled_numeric pg pn raw decimals =
     res_bind (numeric_opt pg raw) (res_opt (\<lambda>n. scale_amount_numeric pn n decimals))"

definition or_zero :: "PgNum \<Rightarrow> string option \<Rightarrow> f64 res" where
  "or_zero pn x = double pn (deref_or ''0'' x)"

text \<open>The columns of the enriched row the liquidity is computed from.\<close>

record Enriched =
  en_mint :: string
  en_decimals :: "int option"
  en_quote_decimals :: "int option"
  en_active_base_mint :: "string option"
  en_active_quote_mint :: "string option"
  en_active_base_mint_decimals :: "int option"
  en_active_quote_mint_decimals :: "int option"
  en_latest_price :: "f64 option"

text \<open>The quote reserves plus the token reserves at the latest price.\<close>

definition liquidity_sum :: "PgNum \<Rightarrow> f64 option \<Rightarrow> f64 \<Rightarrow> string option res \<Rightarrow> f64 option res" where
  "liquidity_sum pn latestPrice quoteSide tokenSide = (case latestPrice of
      None \<Rightarrow> map_sum id Some (float8_add quoteSide f64_zero)
    | Some price \<Rightarrow>
        res_bind tokenSide (\<lambda>tokens. res_bind (or_zero pn tokens) (\<lambda>x.
        res_bind (float8_mul x price) (\<lambda>y. map_sum id Some (float8_add quoteSide y)))))"

definition pumpfun_liquidity :: "Pg \<Rightarrow> PgNum \<Rightarrow> Enriched \<Rightarrow> ServiceEventRow \<Rightarrow> f64 option res" where
  "pumpfun_liquidity pg pn e se =
     res_bind (scaled_numeric pg pn (field se ''real_sol_reserves'') (Some 9)) (\<lambda>r.
     res_bind (case r of Some x \<Rightarrow> Inr (Some x) | None \<Rightarrow> scaled_numeric pg pn (field se ''virtual_sol_reserves'') (Some 9)) (\<lambda>sol.
     res_bind (or_zero pn sol) (\<lambda>quoteSide.
       liquidity_sum pn (en_latest_price e) quoteSide
         (scaled_numeric pg pn (coalesce (field se ''real_token_reserves'') (field se ''virtual_token_reserves''))
            (coalesce (en_decimals e) (Some 6))))))"

definition pool_base :: "Enriched \<Rightarrow> ServiceEventRow \<Rightarrow> string option" where
  "pool_base e se = coalesce (field se ''base_mint'') (en_active_base_mint e)"

definition pool_quote :: "Enriched \<Rightarrow> ServiceEventRow \<Rightarrow> string option" where
  "pool_quote e se = coalesce (field se ''quote_mint'') (en_active_quote_mint e)"

definition pumpamm_liquidity :: "Pg \<Rightarrow> PgNum \<Rightarrow> Enriched \<Rightarrow> ServiceEventRow \<Rightarrow> f64 option res" where
  "pumpamm_liquidity pg pn e se =
     (let isBase = (pool_base e se = Some (en_mint e)); isQuote = (pool_quote e se = Some (en_mint e));
          baseAmount = coalesce (field se ''pool_base_token_reserves'') (field se ''base_amount_in'');
          quoteAmount = coalesce (field se ''pool_quote_token_reserves'') (field se ''quote_amount_in'');
          otherAmount = (if isBase then quoteAmount else if isQuote then baseAmount else None);
          otherDecimals =
            (if isBase then coalesce (en_active_quote_mint_decimals e)
               (if pool_quote e se = Some SolMint then Some 9 else en_quote_decimals e)
             else if isQuote then coalesce (en_active_base_mint_decimals e)
               (if pool_base e se = Some SolMint then Some 9 else en_quote_decimals e)
             else None);
          ownAmount = (if isBase then baseAmount else if isQuote then quoteAmount else None)
      in res_bind (scaled_numeric pg pn otherAmount otherDecimals) (\<lambda>other.
         res_bind (or_zero pn other) (\<lambda>quoteSide.
           liquidity_sum pn (en_latest_price e) quoteSide
             (scaled_numeric pg pn ownAmount
                (coalesce (en_decimals e) (coalesce (en_active_base_mint_decimals e) (Some 6)))))))"

text \<open>The latest event of the mint that tells its reserves.\<close>

definition tells_reserves :: "string \<Rightarrow> ServiceEventRow \<Rightarrow> bool" where
  "tells_reserves mint se \<longleftrightarrow> jsonb_text (se_refs se) ''mint'' = Some mint \<and>
     (se_protocol se = ''pumpfun'' \<and> (se_event_type se = ''trade'' \<or> se_event_type se = ''create'') \<or>
      se_protocol se = ''pumpamm'' \<and> (se_event_type se = ''swap'' \<or> se_event_type se = ''create_pool''))"

definition chain_order :: "ServiceEventRow \<Rightarrow> int \<times> int \<times> int \<times> bool \<times> int" where
  "chain_order se = (- se_slot se, - se_tx_index se, - se_outer_index se,
     se_inner_index se = None, - deref_or 0 (se_inner_index se))"

definition reserve_state :: "Pg \<Rightarrow> PgNum \<Rightarrow> Tables \<Rightarrow> Enriched \<Rightarrow> f64 option res" where
  "reserve_state pg pn t e = (case sort_key chain_order (filter (tells_reserves (en_mint e)) (service_events t)) of
      [] \<Rightarrow> Inr None
    | se # _ \<Rightarrow> (if se_protocol se = ''pumpfun'' then pumpfun_liquidity pg pn e se
        else if se_protocol se = ''pumpamm'' then pumpamm_liquidity pg pn e se
        else Inr None))"

definition price_change :: "f64 option \<Rightarrow> f64 option \<Rightarrow> f64 option res" where
  "price_change latestPrice anchorPrice = (case (latestPrice, anchorPrice) of
      (Some l, Some a) \<Rightarrow>
        (if f64_eq a f64_zero then Inr None
         else res_bind (float8_sub l a) (\<lambda>d. res_bind (float8_div d a) (\<lambda>q.
           map_sum id Some (float8_mul q (f64_of_int 100)))))
    | _ \<Rightarrow> Inr None)"

definition market_cap :: "PgNum \<Rightarrow> string option \<Rightarrow> int option \<Rightarrow> f64 option \<Rightarrow> f64 option res" where
  "market_cap pn totalSupply decimals latestPrice = (case (totalSupply, latestPrice) of
      (Some supply, Some price) \<Rightarrow>
        res_bind (scale_amount_numeric pn supply decimals) (\<lambda>n. res_bind (double pn n) (\<lambda>x.
          map_sum id Some (float8_mul x price)))
    | _ \<Rightarrow> Inr None)"

definition board_row :: "Pg \<Rightarrow> PgNum \<Rightarrow> string \<Rightarrow> Tables \<Rightarrow> TokenJoin \<Rightarrow> TokenBoardRecord res" where
  "board_row pg pn interval t j =
     (let tk = tj_token j; m = tj_meta j; tm = tj_metrics j;
          am = Option.bind (tk_active_market_id tk) (map_of (token_markets t));
          decimals = Option.bind m md_decimals;
          latestPrice = Option.bind tm cm_latest_price;
          e = \<lparr> en_mint = tk_mint tk, en_decimals = decimals, en_quote_decimals = Option.bind m md_quote_decimals,
            en_active_base_mint = Option.bind am mk_base_mint, en_active_quote_mint = Option.bind am mk_quote_mint,
            en_active_base_mint_decimals = Option.bind am mk_base_mint_decimals,
            en_active_quote_mint_decimals = Option.bind am mk_quote_mint_decimals, en_latest_price = latestPrice \<rparr>
      in res_bind (price_change latestPrice (Option.bind tm (window_anchor interval))) (\<lambda>change.
         res_bind (market_cap pn (Option.bind m md_total_supply_raw) decimals latestPrice) (\<lambda>cap.
         res_bind (reserve_state pg pn t e) (\<lambda>liquidity.
         Inr \<lparr> br_Mint = tk_mint tk, br_Name = Option.bind m md_name, br_Symbol = Option.bind m md_symbol,
           br_URI = Option.bind m md_uri, br_ImageURI = Option.bind m md_image_uri,
           br_Creator = coalesce (Option.bind m md_creator) (tk_creator tk),
           br_BondingCurve = coalesce (Option.bind m md_bonding_curve) (tk_bonding_curve tk),
           br_TokenProgram = coalesce (Option.bind m md_token_program) (tk_token_program tk),
           br_Decimals = decimals, br_QuoteMint = Option.bind m md_quote_mint,
           br_QuoteDecimals = Option.bind m md_quote_decimals,
           br_FirstSeenAt = epoch_bigint (tk_first_seen_at tk),
           br_ActiveSince = epoch_bigint (max (tk_first_seen_at tk) (deref_or (tk_first_seen_at tk) (tk_migrated_at tk))),
           br_CurrentStage = tk_current_stage tk, br_ActiveMarketID = tk_active_market_id tk,
           br_ActiveMarketType = tk_active_market_type tk,
           br_MigratedAt = map_option epoch_bigint (tk_migrated_at tk),
           br_LatestPrice = latestPrice,
           br_LatestEventUnixTS = map_option epoch_bigint (Option.bind tm cm_latest_trade_at),
           br_PriceChange = change,
           br_WindowVolume = (case tm of None \<Rightarrow> f64_zero | Some r \<Rightarrow> window_volume interval r),
           br_WindowTxns = (case tm of None \<Rightarrow> 0 | Some r \<Rightarrow> window_txns interval r),
           br_WindowBuys = (case tm of None \<Rightarrow> 0 | Some r \<Rightarrow> window_buys interval r),
           br_WindowSells = (case tm of None \<Rightarrow> 0 | Some r \<Rightarrow> window_sells interval r),
           br_LiquidityQuote = liquidity, br_MarketCapQuote = cap \<rparr>))))"

text \<open>The order of the board; a case without a match is null for every row and decides nothing.\<close>

definition board_order :: "string \<Rightarrow> TokenBoardRecord \<Rightarrow> int \<times> (int \<times> rat) \<times> int \<times> int" where
  "board_order view r =
     (if view = ''hot'' then - br_WindowTxns r else 0,
      if view = ''hot'' then (case f64_key (br_WindowVolume r) of (a, b) \<Rightarrow> (- a, - b)) else (0, 0),
      if view = ''new'' then - br_ActiveSince r else 0,
      - br_FirstSeenAt r)"

definition listTokenBoardRowsSQL :: "Pg \<Rightarrow> PgNum \<Rightarrow> int \<Rightarrow> string \<Rightarrow> string \<Rightarrow> Tables \<Rightarrow> TokenBoardRecord list res" where
  "listTokenBoardRowsSQL pg pn limit interval view t =
     res_bind (res_map (board_row pg pn interval t) (token_joins t)) (\<lambda>rows.
       sql_limit limit (sort_key (board_order view) rows))"

definition ListTokenBoardRows :: "Pg \<Rightarrow> PgNum \<Rightarrow> TokenBoardQuery \<Rightarrow> Db \<Rightarrow> TokenBoardRecord list res \<times> Db" where
  "ListTokenBoardRows pg pn query s =
     (case db_read (listTokenBoardRowsSQL pg pn (bq_Limit query) (bq_Interval query) (bq_View query)) s of
        (Inl e, s') \<Rightarrow> (Inl (ErrWrap ''list token board rows'' e), s')
      | (Inr rs, s') \<Rightarrow> (Inr rs, s'))"

end
