(* ===== verification/StatStore.thy ===== *)
theory StatStore
  imports Broadcaster Query Aggregates Board
begin

text \<open>
  The two stores behind the interfaces: the read model store as the broadcaster's metrics store
  and as the read model of the token service, the service event store as its event reader, all on
  one database. What the statistics published by a sweep and those served from the table of
  current metrics have to do with each other is stated over an interface of its own.
\<close>

section \<open>The stores\<close>

record Server =
  sr_pg :: Pg
  sr_num :: PgNum
  sr_minutes :: minute_view
  sr_candles :: candle_views

definition db_metrics_store :: "Server \<Rightarrow> Db tradeMetricsStore" where
  "db_metrics_store sr = \<lparr>
     tm_ListRecentTradeMetricsByMint = ListRecentTradeMetricsByMint (sr_pg sr) (sr_num sr),
     tm_ListLongWindowMetricsByMints = ListLongWindowMetricsByMints (sr_pg sr) (sr_num sr) (sr_minutes sr),
     tm_ListMetricBackfillCandidates = ListMetricBackfillCandidates,
     tm_ListLatestTradeSeedsByMints = ListLatestTradeSeedsByMints (sr_num sr),
     tm_UpsertTokenMetricsCurrent = UpsertTokenMetricsCurrent (sr_pg sr) \<rparr>"

lemma db_metrics_store_sel:
  "tm_ListRecentTradeMetricsByMint (db_metrics_store sr) = ListRecentTradeMetricsByMint (sr_pg sr) (sr_num sr)"
  "tm_ListLongWindowMetricsByMints (db_metrics_store sr) = ListLongWindowMetricsByMints (sr_pg sr) (sr_num sr) (sr_minutes sr)"
  "tm_UpsertTokenMetricsCurrent (db_metrics_store sr) = UpsertTokenMetricsCurrent (sr_pg sr)"
  by (simp_all add: db_metrics_store_def)

definition db_event_reader :: "Db tokenEventReader" where
  "db_event_reader = \<lparr>
     er_ListServiceEventsByMint = ListServiceEventsByMint,
     er_ListServiceEventsByMintAfterLogID = ListServiceEventsByMintAfterLogID,
     er_FindLatestCreateEventByMint = FindLatestCreateEventByMint,
     er_FindLatestMigrateEventByMint = FindLatestMigrateEventByMint,
     er_LoadProjectionCheckpoint = LoadProjectionCheckpoint \<rparr>"

definition db_read_model :: "Server \<Rightarrow> Db tokenReadModel" where
  "db_read_model sr = \<lparr>
     rm_ListTokenBoardRows = ListTokenBoardRows (sr_pg sr) (sr_num sr),
     rm_SearchTokenSnapshots = SearchTokenSnapshots,
     rm_ListTokenSnapshots = ListTokenSnapshots,
     rm_FindTokenSnapshotByMint = FindTokenSnapshotByMint,
     rm_ListTokenMarketsByMint = ListTokenMarketsByMint,
     rm_ListTradeEventsByMint = ListTradeEventsByMint,
     rm_ListActivityEventsByMint = ListActivityEventsByMint,
     rm_ListActivityEventsPageByMint = ListActivityEventsPageByMint,
     rm_LoadTradeSummaryByMint = LoadTradeSummaryByMint (sr_pg sr) (sr_num sr),
     rm_ListTradeMetricsForStatsByMint = ListTradeMetricsForStatsByMint (sr_num sr),
     rm_LoadTokenMetricsCurrentByMint = LoadTokenMetricsCurrentByMint,
     rm_ListCandlesByMint = ListCandlesByMint (sr_pg sr) (sr_num sr) (sr_candles sr) \<rparr>"

definition db_service :: "Server \<Rightarrow> Db TokenService" where
  "db_service sr = NewTokenService (Some db_event_reader) (Some (db_read_model sr))"

text \<open>A state of the database from which no statement meets a fault.\<close>

lemma db_read_run: "fault_free s \<Longrightarrow> db_read f s = (f (db_tables s), tick s)"
  by (rule db_read_fault_free)

section \<open>Current metrics\<close>

lemma find_SomeD: "find P xs = Some x \<Longrightarrow> x \<in> set xs \<and> P x"
  by (induction xs) (auto split: if_splits)

lemma find_snoc: "find P (xs @ [x]) = (case find P xs of Some y \<Rightarrow> Some y | None \<Rightarrow> if P x then Some x else None)"
  by (induction xs) auto

text \<open>
  Writing records and loading them: what a client of the two operations relies on. stored tells
  how a record comes back, valid which records can be written at all.
\<close>

locale metrics_table =
  fixes upsert :: "TokenMetricsCurrentRecord list \<Rightarrow> 's action"
    and load :: "string \<Rightarrow> ('s, TokenMetricsCurrentRecord option) call"
    and current :: "'s \<Rightarrow> string \<Rightarrow> TokenMetricsCurrentRecord option"
    and calm :: "'s \<Rightarrow> bool"
    and valid :: "'s \<Rightarrow> TokenMetricsCurrentRecord \<Rightarrow> bool"
    and stored :: "TokenMetricsCurrentRecord \<Rightarrow> TokenMetricsCurrentRecord"
  assumes upsert_calm: "calm s \<Longrightarrow> \<forall>r\<in>set rs. valid s r \<Longrightarrow> \<exists>s'. upsert rs s = (None, s') \<and> calm s'"
    and upsert_current: "upsert rs s = (None, s') \<Longrightarrow> current s' mint =
        (case find (\<lambda>r. mc_Mint r = mint) (rev rs) of Some r \<Rightarrow> Some (stored r) | None \<Rightarrow> current s mint)"
    and upsert_invalid: "r \<in> set rs \<Longrightarrow> \<not> valid s r \<Longrightarrow> \<exists>e. fst (upsert rs s) = Some e \<and> current (snd (upsert rs s)) = current s"
    and load_current: "calm s \<Longrightarrow> \<exists>s'. load mint s = (Inr (current s mint), s') \<and> calm s'"
begin

text \<open>A record written with others of other mints is there, and is loaded as it was stored.\<close>

lemma written:
  assumes "upsert rs s = (None, s')" "distinct (map mc_Mint rs)" "r \<in> set rs"
  shows "current s' (mc_Mint r) = Some (stored r)"
proof -
  have uniq: "x = r" if "x \<in> set rs" "mc_Mint x = mc_Mint r" for x
    using assms(2,3) that by (simp add: distinct_map inj_on_def)
  have "find (\<lambda>x. mc_Mint x = mc_Mint r) (rev rs) \<noteq> None" using assms(3) by (auto simp: find_None_iff)
  then obtain x where x: "find (\<lambda>x. mc_Mint x = mc_Mint r) (rev rs) = Some x" by blast
  then have "x \<in> set rs" "mc_Mint x = mc_Mint r" using find_SomeD by fastforce+
  then have "x = r" by (rule uniq)
  then show ?thesis using upsert_current [OF assms(1), of "mc_Mint r"] x by simp
qed

lemma load_written:
  assumes "calm s" "\<forall>r\<in>set rs. valid s r" "distinct (map mc_Mint rs)" "r \<in> set rs"
  shows "\<exists>s' s''. upsert rs s = (None, s') \<and> load (mc_Mint r) s' = (Inr (Some (stored r)), s'')"
proof -
  obtain s' where s': "upsert rs s = (None, s')" "calm s'" using upsert_calm [OF assms(1,2)] by blast
  then show ?thesis using written [OF s'(1) assms(3,4)] load_current [OF s'(2), of "mc_Mint r"] by auto
qed

text \<open>One record that cannot be written keeps all others out.\<close>

lemma all_or_nothing:
  assumes "r \<in> set rs" "\<not> valid s r"
  shows "fst (upsert rs s) \<noteq> None \<and> current (snd (upsert rs s)) = current s"
  using upsert_invalid [OF assms] by auto

end

text \<open>The table: the record comes back with the time of its latest trade as the server rounds it.\<close>

definition stored_time :: "Pg \<Rightarrow> TokenMetricsCurrentRecord \<Rightarrow> int res" where
  "stored_time pg r = to_ts pg (f64_of_int (deref_or 0 (mc_LatestEventUnix r)))"

definition stored_metrics :: "Pg \<Rightarrow> TokenMetricsCurrentRecord \<Rightarrow> TokenMetricsCurrentRecord" where
  "stored_metrics pg r = (case stored_time pg r of
      Inl _ \<Rightarrow> r | Inr ts \<Rightarrow> r\<lparr>mc_LatestEventUnix := Some (epoch_bigint ts)\<rparr>)"

definition valid_metrics :: "Pg \<Rightarrow> Db \<Rightarrow> TokenMetricsCurrentRecord \<Rightarrow> bool" where
  "valid_metrics pg s r \<longleftrightarrow> (\<exists>ts. stored_time pg r = Inr ts) \<and> mc_Mint r \<in> fst ` set (tokens (db_tables s))"

definition current_metrics :: "Db \<Rightarrow> string \<Rightarrow> TokenMetricsCurrentRecord option" where
  "current_metrics s mint = map_option scanTokenMetricsCurrentRow (map_of (token_metrics_current (db_tables s)) mint)"

lemma scan_metrics_row:
  "scanTokenMetricsCurrentRow (metrics_row r ts now) = r\<lparr>mc_LatestEventUnix := Some (epoch_bigint ts)\<rparr>"
  by (simp add: scanTokenMetricsCurrentRow_def metrics_row_def)

lemma map_of_upsert_replace:
  "map_of (upsert (\<lambda>excluded old. excluded) k v t) x = (if x = k then Some v else map_of t x)"
  by (auto simp: upsert_def update_conv' split: option.splits)

lemma upsert_metrics_sql:
  "valid_metrics pg s r \<Longrightarrow> \<exists>s'. upsertTokenMetricsCurrentSQL pg r (f64_of_int (deref_or 0 (mc_LatestEventUnix r))) s = Inr s' \<and>
     tokens (db_tables s') = tokens (db_tables s) \<and> db_faults s' = db_faults s \<and>
     current_metrics s' = (current_metrics s)(mc_Mint r := Some (stored_metrics pg r))"
  by (auto simp: valid_metrics_def stored_time_def stored_metrics_def upsertTokenMetricsCurrentSQL_def current_metrics_def
      map_of_upsert_replace scan_metrics_row fun_eq_iff)

lemma upsert_metrics_sql_Inr:
  assumes "upsertTokenMetricsCurrentSQL pg r (f64_of_int (deref_or 0 (mc_LatestEventUnix r))) s = Inr s'"
  shows "valid_metrics pg s r"
  using assms by (auto simp: valid_metrics_def stored_time_def upsertTokenMetricsCurrentSQL_def res_bind_Inr split: if_splits)

lemma upsert_metrics_valid:
  "\<forall>r\<in>set rs. valid_metrics pg s r \<Longrightarrow> \<exists>s'. upsert_metrics pg rs s = Inr s' \<and> db_faults s' = db_faults s"
proof (induction rs arbitrary: s)
  case (Cons r rs)
  obtain s1 where s1: "upsertTokenMetricsCurrentSQL pg r (f64_of_int (deref_or 0 (mc_LatestEventUnix r))) s = Inr s1"
      "tokens (db_tables s1) = tokens (db_tables s)" "db_faults s1 = db_faults s"
    using upsert_metrics_sql [of pg s r] Cons.prems by auto
  have "\<forall>r\<in>set rs. valid_metrics pg s1 r" using Cons.prems s1(2) by (auto simp: valid_metrics_def)
  then show ?case using Cons.IH [of s1] s1 by auto
qed simp

lemma upsert_metrics_current:
  assumes "upsert_metrics pg rs s = Inr s'"
  shows "(\<forall>r\<in>set rs. valid_metrics pg s r) \<and> current_metrics s' mint =
    (case find (\<lambda>r. mc_Mint r = mint) (rev rs) of Some r \<Rightarrow> Some (stored_metrics pg r) | None \<Rightarrow> current_metrics s mint)"
  using assms
proof (induction rs arbitrary: s)
  case (Cons r rs)
  obtain s1 where s1: "upsertTokenMetricsCurrentSQL pg r (f64_of_int (deref_or 0 (mc_LatestEventUnix r))) s = Inr s1"
    "upsert_metrics pg rs s1 = Inr s'"
    using Cons.prems by (auto split: sum.splits)
  have v: "valid_metrics pg s r" by (rule upsert_metrics_sql_Inr [OF s1(1)])
  have c: "tokens (db_tables s1) = tokens (db_tables s)" "current_metrics s1 = (current_metrics s)(mc_Mint r := Some (stored_metrics pg r))"
    using upsert_metrics_sql [OF v] s1(1) by auto
  show ?case using Cons.IH [OF s1(2)] v c by (auto simp: valid_metrics_def find_snoc split: option.splits)
qed simp

lemma valid_metrics_tick [simp]: "valid_metrics pg (tick s) = valid_metrics pg s"
  by (simp add: valid_metrics_def fun_eq_iff)

lemma current_metrics_tick [simp]: "current_metrics (tick s) = current_metrics s"
  by (simp add: current_metrics_def fun_eq_iff)

lemma UpsertTokenMetricsCurrent_ok:
  assumes "UpsertTokenMetricsCurrent pg rs s = (None, s')"
  shows "\<exists>s0. (s0 = s \<or> s0 = tick s) \<and> upsert_metrics pg rs s0 = Inr s'"
  using assms by (auto simp: UpsertTokenMetricsCurrent_def run_simps dest: db_exec_ok split: if_splits)

lemma UpsertTokenMetricsCurrent_current:
  assumes "UpsertTokenMetricsCurrent pg rs s = (None, s')"
  shows "current_metrics s' mint =
    (case find (\<lambda>r. mc_Mint r = mint) (rev rs) of Some r \<Rightarrow> Some (stored_metrics pg r) | None \<Rightarrow> current_metrics s mint)"
proof -
  obtain s0 where s0: "s0 = s \<or> s0 = tick s" "upsert_metrics pg rs s0 = Inr s'"
    using UpsertTokenMetricsCurrent_ok [OF assms] by blast
  have "current_metrics s0 = current_metrics s" using s0(1) by auto
  then show ?thesis using upsert_metrics_current [OF s0(2), of mint] by (simp only: simp_thms)
qed

lemma upsert_metrics_tokens: "upsert_metrics pg rs s = Inr s' \<Longrightarrow> tokens (db_tables s') = tokens (db_tables s)"
proof (induction rs arbitrary: s)
  case (Cons r rs)
  obtain s1 where s1: "upsertTokenMetricsCurrentSQL pg r (f64_of_int (deref_or 0 (mc_LatestEventUnix r))) s = Inr s1"
    "upsert_metrics pg rs s1 = Inr s'"
    using Cons.prems by (auto split: sum.splits)
  then show ?case
    using Cons.IH [OF s1(2)] upsert_metrics_sql [OF upsert_metrics_sql_Inr [OF s1(1)]] by auto
qed simp

lemma UpsertTokenMetricsCurrent_tokens:
  "UpsertTokenMetricsCurrent pg rs s = (None, s') \<Longrightarrow> tokens (db_tables s') = tokens (db_tables s)"
  using UpsertTokenMetricsCurrent_ok [of pg rs s s'] upsert_metrics_tokens [of pg rs _ s'] by fastforce

lemma UpsertTokenMetricsCurrent_invalid:
  assumes "r \<in> set rs" "\<not> valid_metrics pg s r"
  shows "\<exists>e. UpsertTokenMetricsCurrent pg rs s = (Some e, tick s)"
proof -
  obtain e where "upsert_metrics pg rs (tick s) = Inl e"
    using upsert_metrics_current [of pg rs "tick s"] assms by (cases "upsert_metrics pg rs (tick s)") auto
  then show ?thesis using assms(1)
    by (auto simp: UpsertTokenMetricsCurrent_def db_exec_def split: option.splits db_fault.splits)
qed

lemma UpsertTokenMetricsCurrent_calm:
  assumes "fault_free s" "\<forall>r\<in>set rs. valid_metrics pg s r"
  shows "\<exists>s'. UpsertTokenMetricsCurrent pg rs s = (None, s') \<and> fault_free s'"
proof (cases "rs = []")
  case False
  obtain s' where "upsert_metrics pg rs (tick s) = Inr s'" "db_faults s' = db_faults (tick s)"
    using upsert_metrics_valid [of rs pg "tick s"] assms(2) by auto
  then show ?thesis using assms(1) False
    by (simp add: UpsertTokenMetricsCurrent_def db_exec_fault_free) (simp add: fault_free_def)
qed (use assms in \<open>simp add: UpsertTokenMetricsCurrent_def run_simps\<close>)

interpretation metrics_db: metrics_table "UpsertTokenMetricsCurrent pg" LoadTokenMetricsCurrentByMint current_metrics
  fault_free "valid_metrics pg" "stored_metrics pg" for pg
proof
  fix s :: Db and rs
  assume "fault_free s" "\<forall>r\<in>set rs. valid_metrics pg s r"
  then show "\<exists>s'. UpsertTokenMetricsCurrent pg rs s = (None, s') \<and> fault_free s'" by (rule UpsertTokenMetricsCurrent_calm)
next
  fix rs s s' mint
  assume "UpsertTokenMetricsCurrent pg rs s = (None, s')"
  then show "current_metrics s' mint = (case find (\<lambda>r. mc_Mint r = mint) (rev rs) of
      Some r \<Rightarrow> Some (stored_metrics pg r) | None \<Rightarrow> current_metrics s mint)"
    by (rule UpsertTokenMetricsCurrent_current)
next
  fix r rs s
  assume "r \<in> set rs" "\<not> valid_metrics pg s r"
  then show "\<exists>e. fst (UpsertTokenMetricsCurrent pg rs s) = Some e \<and>
      current_metrics (snd (UpsertTokenMetricsCurrent pg rs s)) = current_metrics s"
    using UpsertTokenMetricsCurrent_invalid [of r rs pg s] by auto
next
  fix s :: Db and mint
  assume "fault_free s"
  then show "\<exists>s'. LoadTokenMetricsCurrentByMint mint s = (Inr (current_metrics s mint), s') \<and> fault_free s'"
    by (simp add: LoadTokenMetricsCurrentByMint_def db_read_fault_free loadTokenMetricsCurrentByMintSQL_def current_metrics_def)
qed

section \<open>Refreshed records\<close>

text \<open>A window whose statistics can be stored and come back as they are.\<close>

definition server_time :: "Server \<Rightarrow> int \<Rightarrow> bool" where
  "server_time sr ts \<longleftrightarrow> pg_to_timestamp (sr_pg sr) (f64_of_int ts) = Some (ts * 1000000)"

lemma epoch_bigint_seconds: "epoch_bigint (n * 1000000) = n"
  by (simp add: epoch_bigint_whole)

lemma buildCurrentRecord_fields:
  "buildCurrentRecord mint w long now = Some r \<Longrightarrow> mc_Mint r = mint \<and> mc_LatestEventUnix r = Some (tw_LastUnixTs w)"
  by (auto simp: buildCurrentRecord_def Let_def split: if_splits)

lemma stored_metrics_same:
  assumes "mc_LatestEventUnix r = Some ts" "server_time sr ts"
  shows "stored_time (sr_pg sr) r = Inr (ts * 1000000)" "stored_metrics (sr_pg sr) r = r"
proof -
  show time: "stored_time (sr_pg sr) r = Inr (ts * 1000000)"
    using assms by (simp add: stored_time_def to_ts_def server_time_def)
  show "stored_metrics (sr_pg sr) r = r"
    using assms(1) by (simp add: stored_metrics_def time epoch_bigint_seconds)
qed

text \<open>Refreshing seeded windows asks the store nothing.\<close>

definition ready :: "Server \<Rightarrow> Broadcaster \<Rightarrow> string \<Rightarrow> bool" where
  "ready sr b mint \<longleftrightarrow> (\<exists>w. map_of (bc_windows b) mint = Some w \<and> tw_Seeded w \<and> server_time sr (tw_LastUnixTs w))"

lemma refresh_ready:
  assumes "ready sr b mint" "refresh store hub now long mint b s = ((record, event), b', s')"
  shows "s' = s" "ready sr b' = ready sr b"
    "\<And>r. record = Some r \<Longrightarrow> mc_Mint r = mint \<and> stored_metrics (sr_pg sr) r = r \<and> (\<exists>ts. stored_time (sr_pg sr) r = Inr ts)"
    "\<And>e. event = Some e \<Longrightarrow> \<exists>r p. record = Some r \<and> BuildPayloadFromCurrentMetrics mint (Some r) = Some p \<and>
       marshal_stats p = Some (JObj (fields_TokenStatsPayload p)) \<and> e = stat_envelope (JObj (fields_TokenStatsPayload p)) now"
proof -
  obtain w where w: "map_of (bc_windows b) mint = Some w" "tw_Seeded w" "server_time sr (tw_LastUnixTs w)"
    using assms(1) by (auto simp: ready_def)
  let ?l = "case map_of long mint of None \<Rightarrow> zero_LongWindowMetricsRecord | Some l \<Rightarrow> l"
  have r: "record = buildCurrentRecord mint w ?l now" "s' = s"
      "b' = setWindow mint (w\<lparr>tw_LastPersistedMinute := go_quot now 60 * 60\<rparr>) b"
      "event = (if subscribed hub mint then (case BuildPayloadFromCurrentMetrics mint record of None \<Rightarrow> None
         | Some p \<Rightarrow> map_option (\<lambda>j. stat_envelope j now) (marshal_stats p)) else None)"
    using assms(2) w by (auto simp: refresh_def getWindow_def Let_def)
  show "s' = s" using r by simp
  show "ready sr b' = ready sr b" using w by (auto simp: ready_def r fun_eq_iff)
  show "\<And>x. record = Some x \<Longrightarrow> mc_Mint x = mint \<and> stored_metrics (sr_pg sr) x = x \<and> (\<exists>ts. stored_time (sr_pg sr) x = Inr ts)"
    using buildCurrentRecord_fields [of mint w ?l now] stored_metrics_same [OF _ w(3)] r(1) by auto
  show "\<And>e. event = Some e \<Longrightarrow> \<exists>x p. record = Some x \<and> BuildPayloadFromCurrentMetrics mint (Some x) = Some p \<and>
       marshal_stats p = Some (JObj (fields_TokenStatsPayload p)) \<and> e = stat_envelope (JObj (fields_TokenStatsPayload p)) now"
    using r(4) by (cases "record") (auto simp: marshal_stats_def BuildPayloadFromCurrentMetrics_def split: if_splits option.splits)
qed

definition kept :: "Server \<Rightarrow> string list \<Rightarrow> TokenMetricsCurrentRecord list \<Rightarrow> bool" where
  "kept sr mints rs \<longleftrightarrow> distinct (map mc_Mint rs) \<and> (\<forall>r\<in>set rs. stored_metrics (sr_pg sr) r = r \<and>
     (\<exists>ts. stored_time (sr_pg sr) r = Inr ts) \<and> mc_Mint r \<in> set mints)"

definition told_by :: "int \<Rightarrow> TokenMetricsCurrentRecord list \<Rightarrow> string \<times> Envelope \<Rightarrow> bool" where
  "told_by now rs x \<longleftrightarrow> (\<exists>r\<in>set rs. mc_Mint r = fst x \<and> (\<exists>p. BuildPayloadFromCurrentMetrics (fst x) (Some r) = Some p \<and>
     marshal_stats p = Some (JObj (fields_TokenStatsPayload p)) \<and> snd x = stat_envelope (JObj (fields_TokenStatsPayload p)) now))"

lemma refresh_all_ready:
  assumes "\<forall>m\<in>set mints. ready sr b m" "refresh_all store hub now long mints b s = ((records, events), b', s')" "distinct mints"
  shows "s' = s \<and> kept sr mints records \<and> (\<forall>x\<in>set events. told_by now records x)"
  using assms
proof (induction mints arbitrary: b s records events)
  case (Cons m ms)
  obtain rcd evt b1 s1 where r: "refresh store hub now long m b s = ((rcd, evt), b1, s1)"
    by (metis prod.collapse)
  obtain rs es where ra: "refresh_all store hub now long ms b1 s1 = ((rs, es), b', s')"
    and rs: "records = (case rcd of None \<Rightarrow> rs | Some x \<Rightarrow> x # rs)" "events = (case evt of None \<Rightarrow> es | Some e \<Rightarrow> (m, e) # es)"
    using Cons.prems(2) r by (auto split: prod.splits)
  have m: "ready sr b m" using Cons.prems(1) by simp
  note rr = refresh_ready [OF m r]
  have IH: "s' = s1 \<and> kept sr ms rs \<and> (\<forall>x\<in>set es. told_by now rs x)"
    by (rule Cons.IH [OF _ ra]) (use Cons.prems rr(2) in auto)
  have kept: "kept sr (m # ms) records"
  proof (cases rcd)
    case None
    then show ?thesis using IH rs by (auto simp: kept_def)
  next
    case (Some x)
    then have "mc_Mint x = m" "mc_Mint x \<notin> mc_Mint ` set rs"
      using rr(3) IH Cons.prems(3) by (auto simp: kept_def)
    then show ?thesis using IH rs rr(3) [OF Some] Some by (auto simp: kept_def)
  qed
  have "told_by now records x" if x: "x \<in> set events" for x
  proof (cases "x \<in> set es")
    case True
    then show ?thesis using IH rs by (auto simp: told_by_def split: option.splits)
  next
    case False
    then obtain e where e: "evt = Some e" "x = (m, e)" using x rs(2) by (auto split: option.splits)
    obtain y p where "rcd = Some y" "BuildPayloadFromCurrentMetrics m (Some y) = Some p"
        "marshal_stats p = Some (JObj (fields_TokenStatsPayload p))" "e = stat_envelope (JObj (fields_TokenStatsPayload p)) now"
      using rr(4) [OF e(1)] by blast
    then show ?thesis using e rs rr(3) by (auto simp: told_by_def)
  qed
  then show ?case using IH kept rr(1) by simp
qed (simp add: kept_def)

text \<open>The envelopes a sweep publishes.\<close>

definition sweep_events :: "'s tradeMetricsStore \<Rightarrow> int \<Rightarrow> string list \<Rightarrow> Broadcaster \<Rightarrow> Hub \<Rightarrow> 's \<Rightarrow> (string \<times> Envelope) list" where
  "sweep_events st now order b hub s =
     (let targets = select_windows (refreshes (Some hub) now) order b;
          b1 = fold removeWindow (select_windows (evicts (Some hub) now) order b) b;
          (long, s1) = (case tm_ListLongWindowMetricsByMints st targets now s of (Inl e, s1) \<Rightarrow> ([], s1) | (Inr items, s1) \<Rightarrow> (items, s1))
      in if targets = [] then [] else snd (fst (refresh_all (Some st) (Some hub) now long targets b1 s1)))"

lemma select_ready:
  assumes "m \<in> set (select_windows (refreshes hub now) order b)" "ready sr b m"
  shows "ready sr (fold removeWindow (select_windows (evicts hub now) order b) b) m"
proof -
  have "m \<notin> set (select_windows (evicts hub now) order b)"
    using assms(1) by (auto simp: select_windows_def refreshes_def split: option.splits)
  then show ?thesis using assms(2) by (simp add: ready_def removeWindows)
qed

lemma long_metrics_state:
  "ListLongWindowMetricsByMints pg pn view mints now s = (r, s1) \<Longrightarrow> s1 = s \<or> s1 = tick s"
  using db_read_state [of "listLongWindowMetricsByMintsSQL pg pn view mints now" s]
  by (auto simp: ListLongWindowMetricsByMints_def split: if_splits prod.splits sum.splits)

lemma Sweep_parts:
  assumes "Sweep (Some st) now order b (Some h) s = (res, b', s')" "targets = select_windows (refreshes (Some h) now) order b"
    "b1 = fold removeWindow (select_windows (evicts (Some h) now) order b) b" "targets \<noteq> []"
    "(case tm_ListLongWindowMetricsByMints st targets now s of (Inl e, s1) \<Rightarrow> ([], s1) | (Inr items, s1) \<Rightarrow> (items, s1)) = (long, s1)"
    "refresh_all (Some st) (Some h) now long targets b1 s1 = ((records, events), b2, s2)"
  shows "res = map_sum id Some (publish_all events h)" "b' = b2"
    "s' = (if records \<noteq> [] then snd (tm_UpsertTokenMetricsCurrent st records s2) else s2)"
  using assms(1,4-6) unfolding Sweep_def Let_def assms(2,3) by auto

text \<open>A sweep over windows whose tokens are known writes every record it publishes.\<close>

lemma Sweep_stores:
  assumes "Sweep (Some (db_metrics_store sr)) now order b (Some h) s = (Inr (Some h'), b', s')" "fault_free s" "distinct order"
    "\<forall>m\<in>set order. ready sr b m \<and> m \<in> fst ` set (tokens (db_tables s))"
  shows "publish_all (sweep_events (db_metrics_store sr) now order b h s) h = Inr h' \<and> fault_free s' \<and>
    tokens (db_tables s') = tokens (db_tables s) \<and>
    (\<exists>rs. (\<forall>x\<in>set (sweep_events (db_metrics_store sr) now order b h s). told_by now rs x) \<and>
      (\<forall>r\<in>set rs. current_metrics s' (mc_Mint r) = Some r \<and> mc_Mint r \<in> set order))"
proof -
  let ?st = "db_metrics_store sr"
  define targets where "targets = select_windows (refreshes (Some h) now) order b"
  define b1 where "b1 = fold removeWindow (select_windows (evicts (Some h) now) order b) b"
  show ?thesis
  proof (cases "targets = []")
    case True
    have "sweep_events ?st now order b h s = []"
      unfolding sweep_events_def Let_def targets_def [symmetric] True by (auto split: prod.splits)
    moreover have "h' = h" "s' = s"
      using assms(1) unfolding Sweep_def Let_def targets_def [symmetric] True by auto
    ultimately show ?thesis using assms(2) by (simp add: exI [of _ "[]"])
  next
    case False
    obtain r s1 where lm: "tm_ListLongWindowMetricsByMints ?st targets now s = (r, s1)"
      by (cases "tm_ListLongWindowMetricsByMints ?st targets now s")
    have s1: "s1 = s \<or> s1 = tick s"
      using lm long_metrics_state by (auto simp: db_metrics_store_def)
    let ?long = "case r of Inl e \<Rightarrow> [] | Inr items \<Rightarrow> items"
    obtain records events b2 s2 where ra: "refresh_all (Some ?st) (Some h) now ?long targets b1 s1 = ((records, events), b2, s2)"
      by (metis prod.collapse)
    have long: "(case tm_ListLongWindowMetricsByMints ?st targets now s of (Inl e, s1) \<Rightarrow> ([], s1) | (Inr items, s1) \<Rightarrow> (items, s1)) = (?long, s1)"
      using lm by (cases r) simp_all
    have events: "sweep_events ?st now order b h s = events"
      using False ra long by (simp add: sweep_events_def targets_def [symmetric] b1_def [symmetric] Let_def)
    have sweep: "publish_all events h = Inr h'"
      "s' = (if records \<noteq> [] then snd (UpsertTokenMetricsCurrent (sr_pg sr) records s2) else s2)"
      using assms(1) False ra long
      by (auto simp: Sweep_def targets_def [symmetric] b1_def [symmetric] Let_def db_metrics_store_def
          map_sum_def split: sum.splits)
    have tset: "set targets \<subseteq> set order" by (auto simp: targets_def select_windows_def)
    have "\<forall>m\<in>set targets. ready sr b1 m"
      using assms(4) tset select_ready [of _ "Some h" now order b sr] by (auto simp: targets_def b1_def)
    moreover have "distinct targets" using assms(3) by (simp add: targets_def select_windows_def)
    ultimately have rr: "s2 = s1" "kept sr targets records" "\<forall>x\<in>set events. told_by now records x"
      using refresh_all_ready [OF _ ra] by auto
    have "fault_free s2" "tokens (db_tables s2) = tokens (db_tables s)" using rr(1) s1 assms(2) by auto
    then have "\<forall>x\<in>set records. valid_metrics (sr_pg sr) s2 x"
      using rr(2) assms(4) tset by (auto simp: valid_metrics_def kept_def)
    then obtain s3 where s3: "UpsertTokenMetricsCurrent (sr_pg sr) records s2 = (None, s3)" "fault_free s3"
      using metrics_db.upsert_calm [OF \<open>fault_free s2\<close>] by blast
    have "s' = s3" using sweep(2) s3(1) by (cases "records = []") (auto simp: UpsertTokenMetricsCurrent_def run_simps)
    moreover have "current_metrics s3 (mc_Mint x) = Some x" if "x \<in> set records" for x
      using metrics_db.written [OF s3(1), of x] rr(2) that by (simp add: kept_def)
    moreover have "\<forall>x\<in>set records. mc_Mint x \<in> set order" using rr(2) tset by (auto simp: kept_def)
    moreover have "tokens (db_tables s3) = tokens (db_tables s)"
      using UpsertTokenMetricsCurrent_tokens [OF s3(1)] rr(1) s1 by auto
    ultimately show ?thesis using sweep(1) events rr(3) s3(2) by auto
  qed
qed

lemma Sweep_publishes:
  assumes "hub_inv h" "Sweep st now order b (Some h) s = (res, b', s')"
  shows "\<exists>h'. res = Inr (Some h')"
proof (cases "select_windows (refreshes (Some h) now) order b = []")
  case True
  then show ?thesis using assms(2) by (auto simp: Sweep_def Let_def)
next
  case False
  obtain events where res: "res = map_sum id Some (publish_all events h)"
    using assms(2) False by (auto simp: Sweep_def Let_def split: prod.splits)
  obtain out h' where "run_ops (map (\<lambda>(mint, e). OpPublish (token_topic mint) e) events) h = Inr (out, h')"
    using run_ops_inv [OF assms(1)] by blast
  then show ?thesis using res publish_all_ops [of events h] by auto
qed

lemma refresh_all_record:
  assumes "\<forall>m\<in>set mints. ready sr b m" "distinct mints" "mint \<in> set mints" "map_of (bc_windows b) mint = Some w"
    "f64_lt f64_zero (tw_LastPrice w)" "0 < tw_LastUnixTs w"
    "refresh_all store hub now long mints b s = ((records, events), b', s')"
  shows "\<exists>r\<in>set records. mc_Mint r = mint"
  using assms
proof (induction mints arbitrary: b s records events)
  case (Cons m ms)
  obtain rcd evt b1 s1 where r: "refresh store hub now long m b s = ((rcd, evt), b1, s1)"
    by (metis prod.collapse)
  obtain rs es where ra: "refresh_all store hub now long ms b1 s1 = ((rs, es), b', s')"
    and rs: "records = (case rcd of None \<Rightarrow> rs | Some x \<Rightarrow> x # rs)"
    using Cons.prems(7) r by (auto split: prod.splits)
  have m: "ready sr b m" using Cons.prems(1) by simp
  note rr = refresh_ready [OF m r]
  show ?case
  proof (cases "mint = m")
    case True
    have "rcd = buildCurrentRecord m w (case map_of long m of None \<Rightarrow> zero_LongWindowMetricsRecord | Some l \<Rightarrow> l) now"
      using r m Cons.prems(4) True by (auto simp: refresh_def ready_def getWindow_def Let_def)
    moreover have "\<not> f64_le (tw_LastPrice w) f64_zero"
      using Cons.prems(5) f64_not_le [of "tw_LastPrice w" f64_zero] by (cases "tw_LastPrice w") (auto simp: f64_zero_def)
    ultimately obtain x where "rcd = Some x"
      using Cons.prems(6) by (auto simp: buildCurrentRecord_def Let_def)
    then show ?thesis using rr(3) rs True by auto
  next
    case False
    obtain w0 where w0: "map_of (bc_windows b) m = Some w0" using m by (auto simp: ready_def)
    have "map_of (bc_windows b1) mint = Some w" using refresh_windows(2) [OF r w0 False] Cons.prems(4) by simp
    then have "\<exists>r\<in>set rs. mc_Mint r = mint"
      by (intro Cons.IH [OF _ _ _ _ Cons.prems(5,6) ra]) (use Cons.prems rr(2) False in auto)
    then show ?thesis using rs by (auto split: option.splits)
  qed
qed simp

lemma Sweep_blocked:
  assumes "Sweep (Some (db_metrics_store sr)) now order b (Some h) s = (res, b', s')" "distinct order"
    "\<forall>m\<in>set order. ready sr b m"
    "mint \<in> set order" "map_of (bc_windows b) mint = Some w" "refreshes (Some h) now mint w"
    "f64_lt f64_zero (tw_LastPrice w)" "0 < tw_LastUnixTs w" "mint \<notin> fst ` set (tokens (db_tables s))"
  shows "db_tables s' = db_tables s"
proof -
  let ?st = "db_metrics_store sr"
  define targets where "targets = select_windows (refreshes (Some h) now) order b"
  define b1 where "b1 = fold removeWindow (select_windows (evicts (Some h) now) order b) b"
  have t: "mint \<in> set targets" using assms(4-6) by (simp add: targets_def select_windows_def)
  obtain r s1 where lm: "ListLongWindowMetricsByMints (sr_pg sr) (sr_num sr) (sr_minutes sr) targets now s = (r, s1)"
    by (metis prod.collapse)
  have s1: "s1 = s \<or> s1 = tick s" by (rule long_metrics_state [OF lm])
  let ?long = "case r of Inl e \<Rightarrow> [] | Inr items \<Rightarrow> items"
  obtain records events b2 s2 where ra: "refresh_all (Some ?st) (Some h) now ?long targets b1 s1 = ((records, events), b2, s2)"
    by (metis prod.collapse)
  have ready: "\<forall>m\<in>set targets. ready sr b1 m"
    using assms(3) select_ready [of _ "Some h" now order b sr] by (auto simp: targets_def b1_def select_windows_def)
  have dist: "distinct targets" using assms(2) by (simp add: targets_def select_windows_def)
  have "\<not> evicts (Some h) now mint w" using assms(6) by (simp add: refreshes_def)
  then have w1: "map_of (bc_windows b1) mint = Some w"
    using assms(5) by (simp add: b1_def removeWindows select_windows_def)
  obtain x where x: "x \<in> set records" "mc_Mint x = mint"
    using refresh_all_record [OF ready dist t w1 assms(7,8) ra] by blast
  have s2: "s2 = s1" using refresh_all_ready [OF ready ra dist] by simp
  have "\<not> valid_metrics (sr_pg sr) s2 x" using x(2) assms(9) s1 s2 by (auto simp: valid_metrics_def)
  then obtain e where up: "UpsertTokenMetricsCurrent (sr_pg sr) records s2 = (Some e, tick s2)"
    using UpsertTokenMetricsCurrent_invalid [OF x(1)] by blast
  have long: "(case tm_ListLongWindowMetricsByMints ?st targets now s of (Inl e, s1) \<Rightarrow> ([], s1) | (Inr items, s1) \<Rightarrow> (items, s1)) = (?long, s1)"
    using lm by (cases r) (simp_all add: db_metrics_store_sel)
  have "targets \<noteq> []" "records \<noteq> []" using t x(1) by auto
  then have "s' = tick s2"
    using Sweep_parts [OF assms(1) targets_def b1_def _ long ra] up by (simp add: db_metrics_store_sel)
  then show ?thesis using s1 s2 by auto
qed

end
