(* ===== verification/WsReplay.thy ===== *)
theory WsReplay
  imports Ws StatStore
begin

text \<open>
  One subscription of a connection, with or without a log id to resume from (ServeWS,
  replayTopic): the goroutine that replays the log, the one that forwards the live events, the
  writer of the socket, and what goes on outside: events are stored, in any order of their log ids
  (inserts that overlap commit in any order), each is published some time later, once, statistics
  (which have no log id) are published at any time, a publisher that finds the channel full marks
  the subscription later, and the other subscriptions of the connection put what they like into
  its queue, as long as it has room (ws_mine records what this one has put there, and whether the
  replay did or the forwarder). The state holds what the replay's query can see of the log
  (replay_page ties it to the database); once the connection is closed nothing more is followed.
\<close>

section \<open>The goroutines of a subscription\<close>

datatype replay = Querying int | Replaying int "Envelope list" bool | ReplayDone int | ReplayEnded

datatype forward = Waiting | Flushing "Envelope list" | Stopped

datatype source = ByReplay | Live

record WsState =
  ws_log :: "Envelope list"
  ws_pending :: "Envelope list"
  ws_sub :: Subscription
  ws_attached :: bool
  ws_marking :: bool
  ws_out :: "Envelope chan"
  ws_sent :: "Envelope list"
  ws_mine :: "(source \<times> Envelope) list"
  ws_open :: bool
  ws_replay :: replay
  ws_forward :: forward
  ws_ready :: bool
  ws_replayMax :: int
  ws_buffered :: "Envelope list"

definition ws_start :: "int \<Rightarrow> Envelope list \<Rightarrow> Envelope list \<Rightarrow> Envelope list \<Rightarrow> WsState" where
  "ws_start since evs pending snapshot = \<lparr>
     ws_log = evs, ws_pending = pending, ws_sub = newSubscription 64, ws_attached = True, ws_marking = False,
     ws_out = (make_chan 256)\<lparr>ch_buf := snapshot\<rparr>, ws_sent = [], ws_mine = [], ws_open = True,
     ws_replay = Querying since, ws_forward = Waiting, ws_ready = False, ws_replayMax = since, ws_buffered = [] \<rparr>"

text \<open>
  Without a log id, or for another topic, the forwarder waits for no replay. A replay without
  anything to query (no reader of the log, or no mint behind the prefix) is over at once, with the
  log id it was given.
\<close>

definition ws_subscribe ::
    "'q option \<Rightarrow> string \<Rightarrow> int option \<Rightarrow> Envelope list \<Rightarrow> Envelope list \<Rightarrow> Envelope list \<Rightarrow> WsState" where
  "ws_subscribe eventQuery topic sinceLogID evs pending snapshot =
     (let replayReady = (case sinceLogID of None \<Rightarrow> True | Some n \<Rightarrow> n \<le> 0 \<or> \<not> HasPrefix topic ''token:'') in
      if replayReady then (ws_start 0 evs pending snapshot)\<lparr>ws_replay := ReplayEnded, ws_ready := True\<rparr>
      else case eventQuery of
        None \<Rightarrow> (ws_start (the sinceLogID) evs pending snapshot)\<lparr>ws_replay := ReplayDone (the sinceLogID)\<rparr>
      | Some q \<Rightarrow>
          (if TrimPrefix topic ''token:'' = []
           then (ws_start (the sinceLogID) evs pending snapshot)\<lparr>ws_replay := ReplayDone (the sinceLogID)\<rparr>
           else ws_start (the sinceLogID) evs pending snapshot))"

text \<open>The log of a token is replayed from a log id.\<close>

definition resumes :: "'q option \<Rightarrow> string \<Rightarrow> int option \<Rightarrow> int \<Rightarrow> bool" where
  "resumes eventQuery topic sinceLogID n \<longleftrightarrow> (\<exists>q mint.
     eventQuery = Some q \<and> topic = ''token:'' @ mint \<and> mint \<noteq> [] \<and> sinceLogID = Some n \<and> 0 < n)"

text \<open>The first loop of Publish, for this subscription.\<close>

definition offer :: "Envelope \<Rightarrow> WsState \<Rightarrow> WsState" where
  "offer e s =
     (if \<not> ws_attached s then s
      else case try_send e (sub_Events (ws_sub s)) of
        Inr (Some c) \<Rightarrow> s\<lparr>ws_sub := (ws_sub s)\<lparr>sub_Events := c\<rparr>\<rparr>
      | _ \<Rightarrow> s\<lparr>ws_marking := True\<rparr>)"

definition replay_batch :: "int \<Rightarrow> Envelope list \<Rightarrow> Envelope list" where
  "replay_batch l evs = take 512 (sort_key ev_LogID (filter (\<lambda>e. l < ev_LogID e) evs))"

inductive ws_step :: "WsState \<Rightarrow> WsState \<Rightarrow> bool" where
  store: "\<lbrakk>0 < ev_LogID e; \<forall>x\<in>set (ws_log s). ev_LogID x \<noteq> ev_LogID e\<rbrakk> \<Longrightarrow>
     ws_step s (s\<lparr>ws_log := ws_log s @ [e], ws_pending := ws_pending s @ [e]\<rparr>)"
| publish: "e \<in> set (ws_pending s) \<Longrightarrow> ws_step s ((offer e s)\<lparr>ws_pending := remove1 e (ws_pending s)\<rparr>)"
| unlogged: "ev_LogID e = 0 \<Longrightarrow> ws_step s (offer e s)"
| mark: "\<lbrakk>ws_marking s; markOverflow (ws_sub s) = Inr (b, sub)\<rbrakk> \<Longrightarrow>
     ws_step s (s\<lparr>ws_sub := sub, ws_attached := False, ws_marking := False\<rparr>)"
| query: "\<lbrakk>ws_open s; ws_replay s = Querying l; batch = replay_batch l (ws_log s)\<rbrakk> \<Longrightarrow>
     ws_step s (s\<lparr>ws_replay := (if batch = [] then ReplayDone l else Replaying l batch (length batch < 512))\<rparr>)"
| query_failed: "\<lbrakk>ws_open s; ws_replay s = Querying l\<rbrakk> \<Longrightarrow> ws_step s (s\<lparr>ws_replay := ReplayEnded, ws_open := False\<rparr>)"
| replay_event: "\<lbrakk>ws_open s; ws_replay s = Replaying l (e # es) short; try_send e (ws_out s) = Inr (Some c)\<rbrakk> \<Longrightarrow>
     ws_step s (s\<lparr>ws_out := c, ws_mine := ws_mine s @ [(ByReplay, e)], ws_replay := Replaying (max l (ev_LogID e)) es short\<rparr>)"
| replay_full: "\<lbrakk>ws_open s; ws_replay s = Replaying l (e # es) short; try_send e (ws_out s) = Inr None\<rbrakk> \<Longrightarrow>
     ws_step s (s\<lparr>ws_replay := ReplayEnded, ws_open := False\<rparr>)"
| replay_page: "\<lbrakk>ws_open s; ws_replay s = Replaying l [] short\<rbrakk> \<Longrightarrow>
     ws_step s (s\<lparr>ws_replay := (if short then ReplayDone l else Querying l)\<rparr>)"
| replay_done: "\<lbrakk>ws_open s; ws_forward s = Waiting; ws_replay s = ReplayDone m\<rbrakk> \<Longrightarrow>
     ws_step s (s\<lparr>ws_replay := ReplayEnded, ws_replayMax := m, ws_ready := True, ws_forward := Flushing (ws_buffered s),
       ws_buffered := []\<rparr>)"
| flush_skip: "\<lbrakk>ws_open s; ws_forward s = Flushing (e # es); ev_LogID e \<le> ws_replayMax s\<rbrakk> \<Longrightarrow>
     ws_step s (s\<lparr>ws_forward := Flushing es\<rparr>)"
| flush_event: "\<lbrakk>ws_open s; ws_forward s = Flushing (e # es); ws_replayMax s < ev_LogID e; try_send e (ws_out s) = Inr (Some c)\<rbrakk> \<Longrightarrow>
     ws_step s (s\<lparr>ws_out := c, ws_mine := ws_mine s @ [(Live, e)], ws_forward := Flushing es\<rparr>)"
| flush_full: "\<lbrakk>ws_open s; ws_forward s = Flushing (e # es); ws_replayMax s < ev_LogID e; try_send e (ws_out s) = Inr None\<rbrakk> \<Longrightarrow>
     ws_step s (s\<lparr>ws_forward := Stopped, ws_open := False\<rparr>)"
| flush_end: "\<lbrakk>ws_open s; ws_forward s = Flushing []\<rbrakk> \<Longrightarrow> ws_step s (s\<lparr>ws_forward := Waiting\<rparr>)"
| receive_early: "\<lbrakk>ws_open s; ws_forward s = Waiting; \<not> ws_ready s; recv_chan (sub_Events (ws_sub s)) = Some (Some e, d)\<rbrakk> \<Longrightarrow>
     ws_step s (s\<lparr>ws_sub := (ws_sub s)\<lparr>sub_Events := d\<rparr>, ws_buffered := ws_buffered s @ [e]\<rparr>)"
| receive: "\<lbrakk>ws_open s; ws_forward s = Waiting; ws_ready s; recv_chan (sub_Events (ws_sub s)) = Some (Some e, d);
     try_send e (ws_out s) = Inr (Some c)\<rbrakk> \<Longrightarrow>
     ws_step s (s\<lparr>ws_sub := (ws_sub s)\<lparr>sub_Events := d\<rparr>, ws_out := c, ws_mine := ws_mine s @ [(Live, e)]\<rparr>)"
| receive_full: "\<lbrakk>ws_open s; ws_forward s = Waiting; ws_ready s; recv_chan (sub_Events (ws_sub s)) = Some (Some e, d);
     try_send e (ws_out s) = Inr None\<rbrakk> \<Longrightarrow>
     ws_step s (s\<lparr>ws_sub := (ws_sub s)\<lparr>sub_Events := d\<rparr>, ws_forward := Stopped, ws_open := False\<rparr>)"
| receive_closed: "\<lbrakk>ws_open s; ws_forward s = Waiting; recv_chan (sub_Events (ws_sub s)) = Some (None, d)\<rbrakk> \<Longrightarrow>
     ws_step s (s\<lparr>ws_forward := Stopped\<rparr>)"
| overflow: "\<lbrakk>ws_open s; ws_forward s = Waiting; recv_chan (sub_Overflow (ws_sub s)) = Some (Some u, o')\<rbrakk> \<Longrightarrow>
     ws_step s (s\<lparr>ws_sub := (ws_sub s)\<lparr>sub_Overflow := o'\<rparr>, ws_forward := Stopped, ws_open := False\<rparr>)"
| send: "\<lbrakk>ws_open s; recv_chan (ws_out s) = Some (Some e, c)\<rbrakk> \<Longrightarrow>
     ws_step s (s\<lparr>ws_out := c, ws_sent := ws_sent s @ [e]\<rparr>)"
| others: "\<lbrakk>ws_open s; try_send e (ws_out s) = Inr (Some c)\<rbrakk> \<Longrightarrow> ws_step s (s\<lparr>ws_out := c\<rparr>)"
| hang_up: "ws_open s \<Longrightarrow> ws_step s (s\<lparr>ws_open := False\<rparr>)"

inductive ws_run :: "WsState \<Rightarrow> WsState \<Rightarrow> bool" where
  run_refl: "ws_run s s"
| run_step: "ws_run s t \<Longrightarrow> ws_step t u \<Longrightarrow> ws_run s u"

section \<open>Nothing is missed\<close>

text \<open>A log id beyond everything the replay has read so far.\<close>

fun ahead :: "replay \<Rightarrow> int \<Rightarrow> bool" where
  "ahead (Querying l) n \<longleftrightarrow> l < n"
| "ahead (Replaying l es short) n \<longleftrightarrow> l < n \<and> (\<forall>x\<in>set es. ev_LogID x < n)"
| "ahead (ReplayDone m) n \<longleftrightarrow> m < n"
| "ahead ReplayEnded n \<longleftrightarrow> True"

text \<open>The runs in which e, if it is stored, becomes visible ahead of the replay.\<close>

inductive ws_run_ahead :: "Envelope \<Rightarrow> WsState \<Rightarrow> WsState \<Rightarrow> bool" for e where
  ahead_refl: "ws_run_ahead e s s"
| ahead_step: "ws_run_ahead e s t \<Longrightarrow> ws_step t u \<Longrightarrow>
    (e \<in> set (ws_log u) - set (ws_log t) \<Longrightarrow> ahead (ws_replay t) (ev_LogID e)) \<Longrightarrow> ws_run_ahead e s u"

definition ws_seen :: "WsState \<Rightarrow> Envelope set" where
  "ws_seen s = set (ws_sent s) \<union> set (ch_buf (ws_out s))"

fun flushing :: "forward \<Rightarrow> Envelope list" where
  "flushing (Flushing es) = es"
| "flushing f = []"

text \<open>The replay will come to e, if it goes on; and it has not passed e.\<close>

fun to_replay :: "replay \<Rightarrow> Envelope \<Rightarrow> bool" where
  "to_replay (Querying l) e \<longleftrightarrow> l < ev_LogID e"
| "to_replay (Replaying l es short) e \<longleftrightarrow> e \<in> set es \<or> \<not> short \<and> l < ev_LogID e \<and> (\<forall>x\<in>set es. ev_LogID x < ev_LogID e)"
| "to_replay (ReplayDone m) e \<longleftrightarrow> False"
| "to_replay ReplayEnded e \<longleftrightarrow> False"

fun not_passed :: "replay \<Rightarrow> Envelope \<Rightarrow> bool" where
  "not_passed (Replaying l es short) e \<longleftrightarrow> e \<in> set es \<or> l < ev_LogID e \<and> (\<forall>x\<in>set es. ev_LogID x < ev_LogID e)"
| "not_passed r e \<longleftrightarrow> ahead r (ev_LogID e)"

text \<open>Where an event stored since the subscription may be.\<close>

definition on_its_way :: "WsState \<Rightarrow> Envelope \<Rightarrow> bool" where
  "on_its_way s e \<longleftrightarrow> e \<in> set (ws_pending s) \<or> e \<in> set (sub_buf (ws_sub s)) \<or> e \<in> set (ws_buffered s) \<or>
     (e \<in> set (flushing (ws_forward s)) \<and> ws_replayMax s < ev_LogID e) \<or> e \<in> ws_seen s"

definition ws_base :: "WsState \<Rightarrow> bool" where
  "ws_base s \<longleftrightarrow> distinct (map ev_LogID (ws_log s)) \<and> (ws_open s \<longrightarrow> (ws_ready s \<longleftrightarrow> ws_replay s = ReplayEnded)) \<and>
     (ws_ready s \<longrightarrow> ws_buffered s = [])"

definition old_inv :: "Envelope \<Rightarrow> WsState \<Rightarrow> bool" where
  "old_inv e s \<longleftrightarrow> e \<in> set (ws_log s) \<and> (ws_open s \<longrightarrow> e \<in> ws_seen s \<or> to_replay (ws_replay s) e)"

definition new_inv :: "Envelope \<Rightarrow> WsState \<Rightarrow> bool" where
  "new_inv e s \<longleftrightarrow> (e \<in> set (ws_log s) \<longrightarrow> ws_open s \<longrightarrow>
     (e \<in> ws_seen s \<or> not_passed (ws_replay s) e) \<and>
     (ws_attached s \<and> \<not> ws_marking s \<and> ws_forward s \<noteq> Stopped \<longrightarrow> on_its_way s e))"

lemma try_send_Some: "try_send v c = Inr (Some d) \<Longrightarrow> ch_buf d = ch_buf c @ [v]"
  by (auto simp: try_send_def split: if_splits)

lemma recv_chan_Some: "recv_chan c = Some (Some v, d) \<Longrightarrow> ch_buf c = v # ch_buf d"
  by (auto simp: recv_chan_def split: list.splits if_splits)

lemma offer_sel [simp]:
  "ws_log (offer e s) = ws_log s" "ws_pending (offer e s) = ws_pending s" "ws_attached (offer e s) = ws_attached s"
  "ws_out (offer e s) = ws_out s" "ws_mine (offer e s) = ws_mine s" "ws_sent (offer e s) = ws_sent s" "ws_open (offer e s) = ws_open s"
  "ws_replay (offer e s) = ws_replay s" "ws_forward (offer e s) = ws_forward s" "ws_ready (offer e s) = ws_ready s"
  "ws_replayMax (offer e s) = ws_replayMax s" "ws_buffered (offer e s) = ws_buffered s" "ws_seen (offer e s) = ws_seen s"
  by (auto simp: offer_def ws_seen_def split: sum.splits option.splits)

text \<open>An offer to a subscription of the hub is in its channel, or the subscription will be marked.\<close>

lemma offer_live:
  assumes "ws_attached s" "\<not> ws_marking (offer e s)"
  shows "sub_buf (ws_sub (offer e s)) = sub_buf (ws_sub s) @ [e]" "\<not> ws_marking s"
  using assms by (auto simp: offer_def try_send_Some split: sum.splits option.splits)

text \<open>The next page holds an event that is to come, or is full of earlier ones.\<close>

lemma replay_batch_holds:
  assumes "e \<in> set evs" "l < ev_LogID e" "distinct (map ev_LogID evs)"
  shows "e \<in> set (replay_batch l evs) \<or>
    length (replay_batch l evs) = 512 \<and> (\<forall>x\<in>set (replay_batch l evs). ev_LogID x < ev_LogID e)"
proof -
  let ?all = "sort_key ev_LogID (filter (\<lambda>x. l < ev_LogID x) evs)"
  have "e \<in> set ?all" using assms(1,2) by simp
  then have "e \<in> set (take 512 ?all @ drop 512 ?all)" by (simp only: append_take_drop_id)
  then consider "e \<in> set (take 512 ?all)" | "e \<in> set (drop 512 ?all)" unfolding set_append by blast
  then show ?thesis
  proof cases
    case 2
    have "sorted (map ev_LogID (take 512 ?all @ drop 512 ?all))" by simp
    then have le: "ev_LogID x \<le> ev_LogID e" if "x \<in> set (take 512 ?all)" for x
      using 2 that unfolding map_append sorted_append by simp
    have ne: "x \<noteq> e" if "x \<in> set (take 512 ?all)" for x
    proof -
      have "distinct (take 512 ?all @ drop 512 ?all)" using assms(3) by (simp add: distinct_map)
      then show ?thesis using 2 that unfolding distinct_append by blast
    qed
    have "inj_on ev_LogID (set evs)" using assms(3) by (simp add: distinct_map)
    then have "ev_LogID x \<noteq> ev_LogID e" if "x \<in> set (take 512 ?all)" for x
      using ne [OF that] that assms(1) by (auto simp: inj_on_def dest!: in_set_takeD)
    moreover have "length (take 512 ?all) = 512" using 2 by (cases "512 \<le> length ?all") auto
    ultimately show ?thesis using le unfolding replay_batch_def by (metis order_le_less)
  qed (simp add: replay_batch_def)
qed

lemma ws_step_seen:
  assumes "ws_step s t"
  shows "ws_seen s \<subseteq> ws_seen t"
  using assms
proof cases
  case (replay_event l e es short c)
  then show ?thesis using try_send_Some [of e "ws_out s" c] by (auto simp: ws_seen_def)
next
  case (flush_event e es c)
  then show ?thesis using try_send_Some [of e "ws_out s" c] by (auto simp: ws_seen_def)
next
  case (receive e d c)
  then show ?thesis using try_send_Some [of e "ws_out s" c] by (auto simp: ws_seen_def)
next
  case (send e c)
  then show ?thesis using recv_chan_Some [of "ws_out s" e c] by (auto simp: ws_seen_def)
next
  case (others e c)
  then show ?thesis using try_send_Some [of e "ws_out s" c] by (auto simp: ws_seen_def)
qed (auto simp: ws_seen_def)

lemma ws_step_log: "ws_step s t \<Longrightarrow> set (ws_log s) \<subseteq> set (ws_log t)"
  by (cases rule: ws_step.cases) auto

lemma ws_step_open: "ws_step s t \<Longrightarrow> ws_open t \<Longrightarrow> ws_open s"
  by (cases rule: ws_step.cases) auto

lemma ws_step_base:
  assumes "ws_step s t" "ws_base s"
  shows "ws_base t"
  using assms(1)
proof cases
  case (store e)
  then show ?thesis using assms(2) by (auto simp: ws_base_def)
qed (use assms(2) in \<open>simp_all add: ws_base_def\<close>)

lemma ws_step_old:
  assumes "ws_step s t" "ws_base s" "old_inv e s"
  shows "old_inv e t"
proof -
  have e: "e \<in> set (ws_log s)" using assms(3) by (simp add: old_inv_def)
  have "e \<in> ws_seen t \<or> to_replay (ws_replay t) e" if "ws_open t" "e \<notin> ws_seen s"
  proof -
    have r: "to_replay (ws_replay s) e" using assms(3) ws_step_open [OF assms(1)] that by (simp add: old_inv_def)
    show ?thesis
      using assms(1)
    proof cases
      case (query l batch)
      then show ?thesis
        using replay_batch_holds [OF e, of l] r assms(2) by (auto simp: ws_base_def)
    next
      case (replay_event l x es short c)
      then show ?thesis using r try_send_Some [of x "ws_out s" c] by (auto simp: ws_seen_def)
    qed (use r that in auto)
  qed
  then show ?thesis using ws_step_seen [OF assms(1)] ws_step_log [OF assms(1)] e by (auto simp: old_inv_def)
qed

lemma ws_step_passed:
  assumes "ws_step s t" "ws_base s" "e \<in> set (ws_log s)" "e \<in> ws_seen s \<or> not_passed (ws_replay s) e"
  shows "e \<in> ws_seen t \<or> not_passed (ws_replay t) e"
proof (cases "e \<in> ws_seen s")
  case True
  then show ?thesis using ws_step_seen [OF assms(1)] by blast
next
  case False
  then have r: "not_passed (ws_replay s) e" using assms(4) by simp
  show ?thesis
    using assms(1)
  proof cases
    case (query l batch)
    then show ?thesis using replay_batch_holds [OF assms(3), of l] r assms(2) by (auto simp: ws_base_def)
  next
    case (replay_event l x es short c)
    then show ?thesis using r try_send_Some [of x "ws_out s" c] by (auto simp: ws_seen_def)
  qed (use r in auto)
qed

lemma ws_step_way:
  assumes "ws_step s t" "ws_base s" "on_its_way s e" "e \<in> ws_seen s \<or> not_passed (ws_replay s) e"
    "ws_attached t" "\<not> ws_marking t" "ws_forward t \<noteq> Stopped"
  shows "on_its_way t e"
proof (cases "e \<in> ws_seen s")
  case True
  then show ?thesis using ws_step_seen [OF assms(1)] by (auto simp: on_its_way_def)
next
  case False
  have seen: "ws_seen s \<subseteq> ws_seen t" by (rule ws_step_seen [OF assms(1)])
  have r: "not_passed (ws_replay s) e" using False assms(4) by simp
  show ?thesis
    using assms(1)
  proof cases
    case (publish x)
    then have "sub_buf (ws_sub t) = sub_buf (ws_sub s) @ [x]" using offer_live [of s x] assms(5,6) by simp
    then show ?thesis using publish assms(3) by (cases "e = x") (auto simp: on_its_way_def ws_seen_def)
  next
    case (unlogged x)
    then have "sub_buf (ws_sub t) = sub_buf (ws_sub s) @ [x]" using offer_live [of s x] assms(5,6) by simp
    then show ?thesis using unlogged assms(3) by (auto simp: on_its_way_def)
  next
    case (receive_early x d)
    then show ?thesis
      using assms(3) recv_chan_Some [of "sub_Events (ws_sub s)" x d] by (auto simp: on_its_way_def ws_seen_def)
  next
    case (receive x d c)
    then show ?thesis
      using assms(3) recv_chan_Some [of "sub_Events (ws_sub s)" x d] try_send_Some [of x "ws_out s" c]
      by (auto simp: on_its_way_def ws_seen_def)
  next
    case (flush_event x es c)
    then show ?thesis using assms(3) try_send_Some [of x "ws_out s" c] by (auto simp: on_its_way_def ws_seen_def)
  qed (use assms(3,5-7) seen r in \<open>auto simp: on_its_way_def\<close>)
qed

lemma ws_step_new:
  assumes "ws_step s t" "ws_base s" "new_inv e s" "e \<in> set (ws_log t) - set (ws_log s) \<Longrightarrow> ahead (ws_replay s) (ev_LogID e)"
  shows "new_inv e t"
proof (cases "e \<in> set (ws_log s)")
  case True
  have live: "ws_attached s \<and> \<not> ws_marking s \<and> ws_forward s \<noteq> Stopped"
    if "ws_attached t" "\<not> ws_marking t" "ws_forward t \<noteq> Stopped" "ws_open t"
    using assms(1)
  proof cases
    case (publish x)
    then show ?thesis using that offer_live(2) [of s x] by simp
  next
    case (unlogged x)
    then show ?thesis using that offer_live(2) [of s x] by simp
  qed (use that in auto)
  show ?thesis
    using assms(3) True ws_step_open [OF assms(1)] ws_step_passed [OF assms(1,2) True] ws_step_way [OF assms(1,2)] live
    unfolding new_inv_def by blast
next
  case False
  then show ?thesis
  proof (cases "e \<in> set (ws_log t)")
    case True
    have "ahead r n \<Longrightarrow> n = ev_LogID e \<Longrightarrow> not_passed r e" for r n by (cases r) auto
    then have "not_passed (ws_replay s) e" using assms(4) True False by blast
    moreover have "ws_replay t = ws_replay s" "e \<in> set (ws_pending t)"
      using assms(1) True False by (cases rule: ws_step.cases; auto)+
    ultimately show ?thesis by (simp add: new_inv_def on_its_way_def)
  qed (simp add: new_inv_def)
qed

lemma ws_run_ahead_inv:
  "ws_run_ahead e s t \<Longrightarrow> ws_base s \<Longrightarrow> ws_base t \<and> (old_inv e s \<longrightarrow> old_inv e t) \<and> (new_inv e s \<longrightarrow> new_inv e t)"
proof (induction rule: ws_run_ahead.induct)
  case (ahead_step s t u)
  then show ?case using ws_step_base ws_step_old ws_step_new by metis
qed simp

lemma ws_run_trans: "ws_run t u \<Longrightarrow> ws_run s t \<Longrightarrow> ws_run s u"
  by (induction rule: ws_run.induct) (auto intro: ws_run.intros)

text \<open>Once idle, what has come to the subscription is in the stream.\<close>

lemma ws_idle_seen:
  assumes "ws_base s" "old_inv e s \<or> new_inv e s" "ws_open s" "ws_attached s" "\<not> ws_marking s" "ws_forward s = Waiting" "ws_ready s"
    "ws_pending s = []" "sub_buf (ws_sub s) = []" "e \<in> set (ws_log s)"
  shows "e \<in> ws_seen s"
proof -
  have "ws_replay s = ReplayEnded" "ws_buffered s = []" using assms(1,3,7) by (simp_all add: ws_base_def)
  then show ?thesis using assms(2-10) by (auto simp: old_inv_def new_inv_def on_its_way_def)
qed

section \<open>What the replay queries\<close>

lemma row_entries_filter:
  "row_entries True rows = Inr es \<Longrightarrow> row_entries True (filter (\<lambda>r. P (se_log_id r)) rows) = Inr (filter (\<lambda>x. P (le_LogID x)) es)"
  by (induction rows arbitrary: es) (auto simp: row_entry_def split: sum.splits)

lemma row_entries_envelope_id: "row_entries True rows = Inr es \<Longrightarrow> \<forall>x\<in>set es. ev_LogID (le_Event x) = le_LogID x"
  by (induction rows arbitrary: es) (auto simp: row_entry_def row_envelope_def split: sum.splits)

lemma map_filter_through: "\<forall>x\<in>set xs. f (g x) = h x \<Longrightarrow> map g (filter (\<lambda>x. l < h x) xs) = filter (\<lambda>y. l < f y) (map g xs)"
  by (induction xs) simp_all

text \<open>
  The log of a mint: the envelopes of the rows that refer to it. A page of the replay is the next
  batch of it, as ws_step has it.
\<close>

lemma replay_page:
  assumes "fault_free s" "log_inv s" "scanServiceEvents (filter (by_ref ''mint'' mint) (service_events (db_tables s))) = Inr entries"
  shows "ListServiceEventsByMintAfterLogID mint l 512 s = (Inr (replay_batch l (map le_Event entries)), tick s)"
proof -
  let ?rows = "filter (by_ref ''mint'' mint) (service_events (db_tables s))"
  have rows: "filter (\<lambda>r. by_ref ''mint'' mint r \<and> l < se_log_id r) rs = filter (\<lambda>r. l < se_log_id r) (filter (by_ref ''mint'' mint) rs)" for rs
    by (simp add: conj_commute)
  have "sorted_wrt (<) (map se_log_id ?rows)"
    using assms(2) by (simp add: log_inv_def sorted_wrt_map sorted_wrt_filter)
  then have "sort_key se_log_id (filter (\<lambda>r. l < se_log_id r) ?rows) = filter (\<lambda>r. l < se_log_id r) ?rows"
    by (rule sort_key_log)
  then have sql: "listServiceEventsByMintAfterLogIDSQL mint l 512 (db_tables s) = Inr (take 512 (filter (\<lambda>r. l < se_log_id r) ?rows))"
    unfolding listServiceEventsByMintAfterLogIDSQL_def rows by (simp only:) (simp add: sql_limit_def)
  have "scanServiceEvents (take 512 (filter (\<lambda>r. l < se_log_id r) ?rows)) = Inr (take 512 (filter (\<lambda>x. l < le_LogID x) entries))"
    using row_entries_take [OF row_entries_filter [OF assms(3) [unfolded scanServiceEvents_def], of "\<lambda>n. l < n"], of 512]
    by (simp add: scanServiceEvents_def)
  moreover have "map le_Event (filter (\<lambda>x. l < le_LogID x) entries) = filter (\<lambda>e. l < ev_LogID e) (map le_Event entries)"
    by (rule map_filter_through) (rule row_entries_envelope_id [OF assms(3) [unfolded scanServiceEvents_def]])
  moreover have "sort_key ev_LogID (filter (\<lambda>e. l < ev_LogID e) (map le_Event entries)) = filter (\<lambda>e. l < ev_LogID e) (map le_Event entries)"
  proof -
    have "map ev_LogID (map le_Event entries) = map se_log_id ?rows"
      using row_entries_envelope_id [OF assms(3) [unfolded scanServiceEvents_def]] row_entries_log_ids [OF assms(3) [unfolded scanServiceEvents_def]]
      by (simp add: comp_def cong: map_cong)
    then have "sorted (map ev_LogID (map le_Event entries))"
      using \<open>sorted_wrt (<) (map se_log_id ?rows)\<close> strict_sorted_imp_sorted by metis
    then show ?thesis by (intro sorted_sort_id sort_key_id_if_sorted sorted_filter)
  qed
  ultimately show ?thesis
    unfolding ListServiceEventsByMintAfterLogID_def list_events_def db_read_fault_free [OF assms(1)] sql replay_batch_def
    by (simp flip: take_map)
qed

section \<open>Properties\<close>

lemma ws_subscribe_inv:
  assumes "distinct (map ev_LogID evs)"
  shows "ws_base (ws_subscribe eventQuery topic since evs pending snapshot)"
    "e \<notin> set evs \<Longrightarrow> new_inv e (ws_subscribe eventQuery topic since evs pending snapshot)"
    "e \<in> set evs \<Longrightarrow> resumes eventQuery topic since n \<Longrightarrow> n < ev_LogID e \<Longrightarrow>
      old_inv e (ws_subscribe eventQuery topic since evs pending snapshot)"
proof -
  show "ws_base (ws_subscribe eventQuery topic since evs pending snapshot)"
    using assms by (auto simp: ws_subscribe_def ws_base_def ws_start_def Let_def split: option.splits)
  show "e \<notin> set evs \<Longrightarrow> new_inv e (ws_subscribe eventQuery topic since evs pending snapshot)"
    by (auto simp: ws_subscribe_def new_inv_def ws_start_def Let_def split: option.splits)
  assume "e \<in> set evs" "resumes eventQuery topic since n" "n < ev_LogID e"
  moreover obtain q mint where "eventQuery = Some q" "topic = ''token:'' @ mint" "mint \<noteq> []" "since = Some n" "0 < n"
    using \<open>resumes eventQuery topic since n\<close> by (auto simp: resumes_def)
  moreover have "HasPrefix (''token:'' @ mint) ''token:''" "TrimPrefix (''token:'' @ mint) ''token:'' = mint" for mint
    by (simp_all add: HasPrefix_def TrimPrefix_def)
  ultimately show "old_inv e (ws_subscribe eventQuery topic since evs pending snapshot)"
    by (simp add: ws_subscribe_def old_inv_def ws_start_def)
qed

text \<open>
  C10: no event is missed: as long as the connection is open and its subscription has not
  overflowed, in every interleaving of storing, publishing, replaying and forwarding, a client
  that resumed a token after a log id has every later event that was in the log when it
  subscribed in its stream (sent, or queued for the socket) once the replay is over and the
  subscription is drained, and every client every event stored since it subscribed, provided
  that, if a replay was running when the event became visible, its log id was beyond what the
  replay had read. (Inserts that overlap can become visible in another order than that of their
  ids; an event that does so behind a running replay is lost, see ws_late_event_lost.)
\<close>

theorem ws_no_gap:
  assumes "ws_run_ahead e (ws_subscribe eventQuery topic since evs pending snapshot) s" "distinct (map ev_LogID evs)"
    "ws_open s" "ws_attached s" "\<not> ws_marking s" "ws_forward s = Waiting" "ws_ready s"
    "ws_pending s = []" "sub_buf (ws_sub s) = []" "e \<in> set (ws_log s)"
    "e \<notin> set evs \<or> (\<exists>n. resumes eventQuery topic since n \<and> n < ev_LogID e)"
  shows "e \<in> set (ws_sent s @ ch_buf (ws_out s))"
proof -
  let ?s0 = "ws_subscribe eventQuery topic since evs pending snapshot"
  note start = ws_subscribe_inv [OF assms(2), where eventQuery = eventQuery and topic = topic and since = since and pending = pending and snapshot = snapshot]
  have "old_inv e ?s0 \<or> new_inv e ?s0" using start(2,3) assms(11) by blast
  then have "ws_base s" "old_inv e s \<or> new_inv e s" using ws_run_ahead_inv [OF assms(1) start(1)] by blast+
  then have "e \<in> ws_seen s" using ws_idle_seen assms(3-10) by blast
  then show ?thesis by (simp add: ws_seen_def)
qed

definition numbered :: "int \<Rightarrow> Envelope" where
  "numbered n = zero_Envelope\<lparr>ev_LogID := n\<rparr>"

lemma numbered_id [simp]: "ev_LogID (numbered n) = n"
  by (simp add: numbered_def)

lemma numbered_eq [simp]: "numbered m = numbered n \<longleftrightarrow> m = n"
  using numbered_id by metis

lemmas ws_chans = ws_start_def newSubscription_def make_chan_def try_send_def recv_chan_def

abbreviation filled_sub :: "Envelope list \<Rightarrow> Subscription" where
  "filled_sub es \<equiv> (newSubscription 64)\<lparr>sub_Events := (make_chan 64)\<lparr>ch_buf := es\<rparr>\<rparr>"

abbreviation filled_out :: "Envelope list \<Rightarrow> Envelope chan" where
  "filled_out es \<equiv> (make_chan 256)\<lparr>ch_buf := es\<rparr>"

text \<open>The log holds 4 when the client resumes after 1; 3 becomes visible when that is replayed.\<close>

lemma ws_no_gap_witness:
  "\<exists>s. ws_run_ahead (numbered 3) (ws_subscribe (Some ()) ''token:m'' (Some 1) [numbered 4] [] []) s \<and> ws_log s = [numbered 4, numbered 3] \<and>
     numbered 3 \<in> set (ws_sent s @ ch_buf (ws_out s))"
proof -
  have sub: "ws_subscribe (Some ()) ''token:m'' (Some 1) [numbered 4] [] [] = ws_start 1 [numbered 4] [] []"
    by (simp add: ws_subscribe_def HasPrefix_def TrimPrefix_def)
  let ?run = "ws_run_ahead (numbered 3) (ws_start 1 [numbered 4] [] [])"
  let ?a = "ws_start 1 [numbered 4] [] []"
  let ?b = "?a\<lparr>ws_replay := Replaying 1 [numbered 4] True\<rparr>"
  let ?c = "?b\<lparr>ws_out := filled_out [numbered 4], ws_mine := [(ByReplay, numbered 4)], ws_replay := Replaying 4 [] True\<rparr>"
  let ?d = "?c\<lparr>ws_replay := ReplayDone 4\<rparr>"
  let ?e = "?d\<lparr>ws_replay := ReplayEnded, ws_replayMax := 4, ws_ready := True, ws_forward := Flushing [], ws_buffered := []\<rparr>"
  let ?f = "?e\<lparr>ws_forward := Waiting\<rparr>"
  let ?g = "?f\<lparr>ws_log := [numbered 4, numbered 3], ws_pending := [numbered 3]\<rparr>"
  let ?h = "?g\<lparr>ws_sub := filled_sub [numbered 3], ws_pending := []\<rparr>"
  let ?i = "?h\<lparr>ws_sub := filled_sub [], ws_out := filled_out [numbered 4, numbered 3],
    ws_mine := [(ByReplay, numbered 4), (Live, numbered 3)]\<rparr>"
  have "ws_step ?a ?b" using ws_step.query [of ?a 1 "[numbered 4]"] by (simp add: ws_start_def replay_batch_def)
  then have "?run ?b" by (rule ahead_step [OF ahead_refl]) (simp add: ws_start_def)
  moreover have "ws_step ?b ?c"
    using ws_step.replay_event [of ?b 1 "numbered 4" "[]" True "filled_out [numbered 4]"] by (simp add: ws_chans)
  ultimately have "?run ?c" by (rule ahead_step) simp
  moreover have "ws_step ?c ?d" using ws_step.replay_page [of ?c 4 True] by (simp add: ws_start_def)
  ultimately have "?run ?d" by (rule ahead_step) simp
  moreover have "ws_step ?d ?e" using ws_step.replay_done [of ?d 4] by (simp add: ws_start_def)
  ultimately have "?run ?e" by (rule ahead_step) simp
  moreover have "ws_step ?e ?f" using ws_step.flush_end [of ?e] by (simp add: ws_start_def)
  ultimately have "?run ?f" by (rule ahead_step) simp
  moreover have "ws_step ?f ?g" using ws_step.store [of "numbered 3" ?f] by (simp add: ws_start_def)
  ultimately have "?run ?g" by (rule ahead_step) simp
  moreover have "ws_step ?g ?h" using ws_step.publish [of "numbered 3" ?g] by (simp add: ws_chans offer_def)
  ultimately have "?run ?h" by (rule ahead_step) simp
  moreover have "ws_step ?h ?i"
    using ws_step.receive [of ?h "numbered 3" "(make_chan 64)\<lparr>ch_buf := []\<rparr>" "filled_out [numbered 4, numbered 3]"] by (simp add: ws_chans)
  ultimately have "?run ?i" by (rule ahead_step) simp
  then have run: "ws_run_ahead (numbered 3) (ws_subscribe (Some ()) ''token:m'' (Some 1) [numbered 4] [] []) ?i" by (simp only: sub)
  have "numbered 3 \<in> set (ws_sent ?i @ ch_buf (ws_out ?i))"
    by (rule ws_no_gap [OF run]) (simp_all add: ws_chans)
  then show ?thesis using run by (intro exI [of _ ?i]) simp
qed

text \<open>
  Without the condition on the order an event is lost: 3 is replayed, 2 becomes visible and is
  published meanwhile, and is dropped from the buffer because its log id is below 3.
\<close>

lemma ws_late_event_lost:
  "\<exists>s. ws_run (ws_start 1 [numbered 3] [] []) s \<and> ws_open s \<and> ws_attached s \<and> \<not> ws_marking s \<and> ws_forward s = Waiting \<and>
     ws_ready s \<and> ws_pending s = [] \<and> sub_buf (ws_sub s) = [] \<and> numbered 2 \<in> set (ws_log s) \<and>
     numbered 2 \<notin> set (ws_sent s @ ch_buf (ws_out s))"
proof -
  let ?a = "ws_start 1 [numbered 3] [] []"
  let ?b = "?a\<lparr>ws_replay := Replaying 1 [numbered 3] True\<rparr>"
  let ?c = "?b\<lparr>ws_log := [numbered 3, numbered 2], ws_pending := [numbered 2]\<rparr>"
  let ?d = "?c\<lparr>ws_sub := filled_sub [numbered 2], ws_pending := []\<rparr>"
  let ?e = "?d\<lparr>ws_sub := filled_sub [], ws_buffered := [numbered 2]\<rparr>"
  let ?f = "?e\<lparr>ws_out := filled_out [numbered 3], ws_mine := [(ByReplay, numbered 3)], ws_replay := Replaying 3 [] True\<rparr>"
  let ?g = "?f\<lparr>ws_replay := ReplayDone 3\<rparr>"
  let ?h = "?g\<lparr>ws_replay := ReplayEnded, ws_replayMax := 3, ws_ready := True, ws_forward := Flushing [numbered 2], ws_buffered := []\<rparr>"
  let ?i = "?h\<lparr>ws_forward := Flushing []\<rparr>"
  let ?j = "?i\<lparr>ws_forward := Waiting\<rparr>"
  have "ws_step ?a ?b" using ws_step.query [of ?a 1 "[numbered 3]"] by (simp add: ws_start_def replay_batch_def)
  moreover have "ws_step ?b ?c" using ws_step.store [of "numbered 2" ?b] by (simp add: ws_start_def)
  moreover have "ws_step ?c ?d" using ws_step.publish [of "numbered 2" ?c] by (simp add: ws_chans offer_def)
  moreover have "ws_step ?d ?e"
    using ws_step.receive_early [of ?d "numbered 2" "(make_chan 64)\<lparr>ch_buf := []\<rparr>"] by (simp add: ws_chans)
  moreover have "ws_step ?e ?f"
    using ws_step.replay_event [of ?e 1 "numbered 3" "[]" True "filled_out [numbered 3]"] by (simp add: ws_chans)
  moreover have "ws_step ?f ?g" using ws_step.replay_page [of ?f 3 True] by (simp add: ws_start_def)
  moreover have "ws_step ?g ?h" using ws_step.replay_done [of ?g 3] by (simp add: ws_start_def)
  moreover have "ws_step ?h ?i" using ws_step.flush_skip [of ?h "numbered 2" "[]"] by (simp add: ws_start_def)
  moreover have "ws_step ?i ?j" using ws_step.flush_end [of ?i] by (simp add: ws_start_def)
  ultimately have "ws_run ?a ?j" by (meson run_refl run_step)
  then show ?thesis by (intro exI [of _ ?j]) (simp add: ws_chans)
qed

text \<open>
  C40: an event can reach the client twice: stored once and published once, it is passed on by
  the replay, and again live, because it was in the subscription's channel when the replay ended.
  (The filter by the log id of the replay is applied to the events taken out of the channel
  before.)
\<close>

theorem ws_replay_duplicates:
  "\<exists>s. ws_run (ws_start 1 [] [] []) s \<and> ws_open s \<and>
     ws_mine s = [(ByReplay, numbered 5), (Live, numbered 5)] \<and> ws_sent s = [numbered 5, numbered 5]"
proof -
  let ?e5 = "numbered 5"
  let ?s0 = "ws_start 1 [] [] []"
  let ?s1 = "?s0\<lparr>ws_log := [?e5], ws_pending := [?e5]\<rparr>"
  let ?s2 = "?s1\<lparr>ws_sub := filled_sub [?e5], ws_pending := []\<rparr>"
  let ?s3 = "?s2\<lparr>ws_replay := Replaying 1 [?e5] True\<rparr>"
  let ?s4 = "?s3\<lparr>ws_out := filled_out [?e5], ws_mine := [(ByReplay, ?e5)], ws_replay := Replaying 5 [] True\<rparr>"
  let ?s5 = "?s4\<lparr>ws_replay := ReplayDone 5\<rparr>"
  let ?s6 = "?s5\<lparr>ws_replay := ReplayEnded, ws_replayMax := 5, ws_ready := True, ws_forward := Flushing [], ws_buffered := []\<rparr>"
  let ?s7 = "?s6\<lparr>ws_forward := Waiting\<rparr>"
  let ?s8 = "?s7\<lparr>ws_sub := filled_sub [], ws_out := filled_out [?e5, ?e5], ws_mine := [(ByReplay, ?e5), (Live, ?e5)]\<rparr>"
  let ?s9 = "?s8\<lparr>ws_out := filled_out [?e5], ws_sent := [?e5]\<rparr>"
  let ?s10 = "?s9\<lparr>ws_out := filled_out [], ws_sent := [?e5, ?e5]\<rparr>"
  have "ws_step ?s0 ?s1" using ws_step.store [of ?e5 ?s0] by (simp add: ws_chans)
  moreover have "ws_step ?s1 ?s2" using ws_step.publish [of ?e5 ?s1] by (simp add: ws_chans offer_def)
  moreover have "ws_step ?s2 ?s3" using ws_step.query [of ?s2 1 "[?e5]"] by (simp add: ws_chans replay_batch_def)
  moreover have "ws_step ?s3 ?s4" using ws_step.replay_event [of ?s3 1 ?e5 "[]" True "filled_out [?e5]"] by (simp add: ws_chans)
  moreover have "ws_step ?s4 ?s5" using ws_step.replay_page [of ?s4 5 True] by (simp add: ws_chans)
  moreover have "ws_step ?s5 ?s6" using ws_step.replay_done [of ?s5 5] by (simp add: ws_chans)
  moreover have "ws_step ?s6 ?s7" using ws_step.flush_end [of ?s6] by (simp add: ws_chans)
  moreover have "ws_step ?s7 ?s8"
    using ws_step.receive [of ?s7 ?e5 "(make_chan 64)\<lparr>ch_buf := []\<rparr>" "filled_out [?e5, ?e5]"] by (simp add: ws_chans)
  moreover have "ws_step ?s8 ?s9" using ws_step.send [of ?s8 ?e5 "filled_out [?e5]"] by (simp add: ws_chans)
  moreover have "ws_step ?s9 ?s10" using ws_step.send [of ?s9 ?e5 "filled_out []"] by (simp add: ws_chans)
  ultimately have "ws_run ?s0 ?s10" by (meson run_refl run_step)
  then show ?thesis by (intro exI [of _ ?s10]) (simp add: ws_start_def)
qed

section \<open>A silent end\<close>

text \<open>A forwarder that has stopped after the replay passes nothing on any more, and closes nothing.\<close>

definition ws_deaf :: "WsState \<Rightarrow> bool" where
  "ws_deaf s \<longleftrightarrow> ws_forward s = Stopped \<and> ws_replay s = ReplayEnded"

lemma ws_deaf_step:
  assumes "ws_step s t" "ws_deaf s"
  shows "ws_deaf t \<and> ws_mine t = ws_mine s \<and> (ws_open s \<and> \<not> ws_open t \<longrightarrow> t = s\<lparr>ws_open := False\<rparr>)"
  using assms(1) by cases (use assms(2) in \<open>simp_all add: ws_deaf_def\<close>)

lemma ws_deaf_run: "ws_run s t \<Longrightarrow> ws_deaf s \<Longrightarrow> ws_deaf t \<and> ws_mine t = ws_mine s"
  by (induction rule: ws_run.induct) (use ws_deaf_step in auto)

text \<open>A resumed subscription with k statistics in its channel and j of them passed on.\<close>

definition idle :: "nat \<Rightarrow> nat \<Rightarrow> WsState" where
  "idle k j = (ws_start 1 [] [] [])\<lparr>
     ws_replay := ReplayEnded, ws_ready := True, ws_sub := filled_sub (replicate k (numbered 0)),
     ws_out := filled_out (replicate j (numbered 0)), ws_mine := replicate j (Live, numbered 0)\<rparr>"

lemma idle_reachable: "ws_run (ws_start 1 [] [] []) (idle 0 0)"
proof -
  let ?s0 = "ws_start 1 [] [] []"
  let ?s1 = "?s0\<lparr>ws_replay := ReplayDone 1\<rparr>"
  let ?s2 = "?s1\<lparr>ws_replay := ReplayEnded, ws_replayMax := 1, ws_ready := True, ws_forward := Flushing [], ws_buffered := []\<rparr>"
  let ?s3 = "?s2\<lparr>ws_forward := Waiting\<rparr>"
  have "ws_step ?s0 ?s1" using ws_step.query [of ?s0 1 "[]"] by (simp add: ws_start_def replay_batch_def)
  moreover have "ws_step ?s1 ?s2" using ws_step.replay_done [of ?s1 1] by (simp add: ws_start_def)
  moreover have "ws_step ?s2 ?s3" using ws_step.flush_end [of ?s2] by (simp add: ws_start_def)
  ultimately have "ws_run ?s0 ?s3" by (meson run_refl run_step)
  then show ?thesis by (simp add: idle_def ws_start_def newSubscription_def make_chan_def)
qed

lemma idle_fill: "k \<le> 64 \<Longrightarrow> ws_run (idle 0 0) (idle k 0)"
proof (induction k)
  case (Suc k)
  have "ws_step (idle k 0) (idle (Suc k) 0)"
    using ws_step.unlogged [of "numbered 0" "idle k 0"] Suc.prems
    by (simp add: idle_def ws_chans offer_def replicate_append_same)
  then show ?case using Suc by (auto intro: run_step)
qed (rule run_refl)

text \<open>The same with an event stored that found the channel full.\<close>

definition missed :: "nat \<Rightarrow> nat \<Rightarrow> WsState" where
  "missed k j = (idle k j)\<lparr>ws_log := [numbered 5], ws_marking := True\<rparr>"

lemma missed_reachable: "ws_run (idle 64 0) (missed 64 0)"
proof -
  let ?s1 = "(idle 64 0)\<lparr>ws_log := [numbered 5], ws_pending := [numbered 5]\<rparr>"
  have "ws_step (idle 64 0) ?s1" using ws_step.store [of "numbered 5" "idle 64 0"] by (simp add: idle_def ws_start_def)
  moreover have "ws_step ?s1 (missed 64 0)"
    using ws_step.publish [of "numbered 5" ?s1] by (simp add: idle_def missed_def ws_chans offer_def)
  ultimately show ?thesis by (meson run_refl run_step)
qed

lemma missed_drain: "j \<le> 64 \<Longrightarrow> ws_run (missed 64 0) (missed (64 - j) j)"
proof (induction j)
  case (Suc j)
  then have k: "64 - j = Suc (64 - Suc j)" by simp
  have "ws_step (missed (64 - j) j) (missed (64 - Suc j) (Suc j))"
    using ws_step.receive [of "missed (64 - j) j" "numbered 0" "(make_chan 64)\<lparr>ch_buf := replicate (64 - Suc j) (numbered 0)\<rparr>"
        "filled_out (replicate (Suc j) (numbered 0))"] Suc.prems
    by (simp add: missed_def idle_def ws_chans k replicate_append_same)
  then show ?case using Suc by (auto intro: run_step)
qed (simp add: run_refl)

lemma missed_end:
  "\<exists>s. ws_run (missed 0 j) s \<and> ws_open s \<and> ws_log s = [numbered 5] \<and> ws_deaf s \<and> ws_mine s = replicate j (Live, numbered 0)"
proof -
  let ?full = "sub_Events (ws_sub (missed 0 j))"
  let ?over = "(newSubscription 64)\<lparr>sub_Events := ?full\<lparr>ch_closed := True\<rparr>, sub_overflowed := True,
    sub_Overflow := (make_chan 1)\<lparr>ch_buf := [()]\<rparr>\<rparr>"
  let ?s1 = "(missed 0 j)\<lparr>ws_sub := ?over, ws_attached := False, ws_marking := False\<rparr>"
  let ?s2 = "?s1\<lparr>ws_forward := Stopped\<rparr>"
  have "ws_step (missed 0 j) ?s1"
    using ws_step.mark [of "missed 0 j" True ?over]
    by (simp add: missed_def idle_def ws_chans markOverflow_def close_chan_def)
  moreover have "ws_step ?s1 ?s2"
    using ws_step.receive_closed [of ?s1 "?full\<lparr>ch_closed := True\<rparr>"] by (simp add: missed_def idle_def ws_chans)
  ultimately have "ws_run (missed 0 j) ?s2" by (meson run_refl run_step)
  then show ?thesis by (intro exI [of _ ?s2]) (simp add: missed_def idle_def ws_start_def ws_deaf_def)
qed

text \<open>
  C39: an overflow can end a subscription in silence: when the forwarder has drained the channel
  by the time the publisher marks the subscription, both the overflow signal and the closed
  channel are ready, and the branch of the closed channel returns without closing the connection.
  The connection is open then, an event was stored that the subscription has not passed on, and
  from there on, whatever happens, the subscription passes on nothing any more and never closes
  the connection: the only step that does is that somebody else hangs up.
\<close>

theorem ws_silent_end:
  "\<exists>s. ws_run (ws_start 1 [] [] []) s \<and> ws_open s \<and> numbered 5 \<in> set (ws_log s) \<and> numbered 5 \<notin> snd ` set (ws_mine s) \<and>
     (\<forall>t. ws_run s t \<longrightarrow> ws_mine t = ws_mine s \<and>
        (\<forall>u. ws_step t u \<and> ws_open t \<and> \<not> ws_open u \<longrightarrow> u = t\<lparr>ws_open := False\<rparr>))"
proof -
  obtain s where s: "ws_run (missed 0 64) s" "ws_open s" "ws_log s = [numbered 5]" "ws_deaf s" "ws_mine s = replicate 64 (Live, numbered 0)"
    using missed_end by blast
  have "ws_run (missed 64 0) (missed 0 64)" using missed_drain [of 64] by (simp only: order_refl diff_self_eq_0)
  then have "ws_run (ws_start 1 [] [] []) s"
    using s(1) ws_run_trans idle_reachable idle_fill [OF order_refl] missed_reachable by blast
  moreover have "numbered 5 \<notin> snd ` set (ws_mine s)" by (auto simp: s(5))
  ultimately show ?thesis using s(2-4) ws_deaf_run ws_deaf_step by (intro exI [of _ s]) auto
qed

text \<open>A statistic published after it.\<close>

lemma ws_silent_end_witness:
  "\<exists>s t. ws_run (ws_start 1 [] [] []) s \<and> ws_open s \<and> ws_run s t \<and> t = offer (numbered 0) s \<and> ws_mine t = ws_mine s"
proof -
  obtain s where s: "ws_run (ws_start 1 [] [] []) s" "ws_open s" "\<forall>t. ws_run s t \<longrightarrow> ws_mine t = ws_mine s"
    using ws_silent_end by blast
  have "ws_run s (offer (numbered 0) s)" by (rule run_step [OF run_refl ws_step.unlogged]) simp
  then show ?thesis using s by blast
qed

end
