(* ===== verification/Serving.thy ===== *)
theory Serving
  imports StatStore
begin

text \<open>
  What the service answers from the database the projector and the broadcaster write: the
  statistics a sweep publishes are those it serves, and three ways in which a single token or
  trade keeps statistics from being stored or served.
\<close>

section \<open>Calls\<close>

named_theorems call_simps \<open>evaluation of the calls of the token service\<close>

lemma calls [call_simps]:
  "wrapped m f s = (case f s of (Inl e, s') \<Rightarrow> (Inl (ErrWrap m e), s') | (Inr a, s') \<Rightarrow> (Inr a, s'))"
  "and_use f g s = (case f s of (Inl e, s') \<Rightarrow> (Inl e, s') | (Inr a, s') \<Rightarrow> g a s')"
  "give a s = (Inr a, s)" "refuse e s = (Inl e, s)"
  by (simp_all add: wrapped_def and_use_def give_def refuse_def)

lemma db_service_sel [call_simps]:
  "sv_model (db_service sr) = Some (db_read_model sr)" "sv_events (db_service sr) = Some db_event_reader"
  by (simp_all add: db_service_def NewTokenService_def)

lemma db_read_model_sel [call_simps]:
  "rm_FindTokenSnapshotByMint (db_read_model sr) = FindTokenSnapshotByMint"
  "rm_LoadTokenMetricsCurrentByMint (db_read_model sr) = LoadTokenMetricsCurrentByMint"
  "rm_ListTokenMarketsByMint (db_read_model sr) = ListTokenMarketsByMint"
  "rm_ListTradeEventsByMint (db_read_model sr) = ListTradeEventsByMint"
  "rm_ListActivityEventsPageByMint (db_read_model sr) = ListActivityEventsPageByMint"
  "rm_LoadTradeSummaryByMint (db_read_model sr) = LoadTradeSummaryByMint (sr_pg sr) (sr_num sr)"
  "er_ListServiceEventsByMint db_event_reader = ListServiceEventsByMint"
  "er_LoadProjectionCheckpoint db_event_reader = LoadProjectionCheckpoint"
  by (simp_all add: db_read_model_def db_event_reader_def)

lemma FindTokenSnapshotByMint_run:
  "fault_free s \<Longrightarrow> FindTokenSnapshotByMint mint s =
    (Inr (map_option (\<lambda>r. scanTokenSnapshot r (map_of (token_metadata_current (db_tables s)) (tk_mint r))) (map_of (tokens (db_tables s)) mint)), tick s)"
  by (simp add: FindTokenSnapshotByMint_def db_read_fault_free findTokenSnapshotByMintSQL_def split: option.splits)

lemma snapshot_run:
  assumes "fault_free s" "map_of (tokens (db_tables s)) mint = Some tk"
  shows "requireTokenSnapshot (db_service sr) mint s =
    (Inr (db_read_model sr, scanTokenSnapshot tk (map_of (token_metadata_current (db_tables s)) (tk_mint tk))), tick s)"
  using assms by (simp add: requireTokenSnapshot_def with_model_def call_simps FindTokenSnapshotByMint_run)

lemma metric_point_zero: "numeric_zero (tr_token_amount_raw r) \<Longrightarrow> \<exists>e. metric_point pn me r = Inl e"
  by (cases "trade_volume_of pn me r"; cases "double pn (projr (trade_volume_of pn me r))")
     (auto simp: metric_point_def trade_price_zero)

lemma recent_metrics_zero:
  assumes "r \<in> set (token_trade_events (db_tables s))" "tr_mint r = mint" "numeric_zero (tr_token_amount_raw r)"
    "pg_to_timestamp pg (f64_of_int since) = Some start" "start \<le> tr_event_time r"
  shows "\<exists>e. ListRecentTradeMetricsByMint pg pn mint since s = (Inl e, tick s)"
proof -
  let ?f = "\<lambda>t. res_bind (listRecentTradeMetricsByMintSQL pg mint since t) (res_map (metric_point pn (meta_of mint t)))"
  have "r \<in> set (filter (\<lambda>r. start \<le> tr_event_time r) (mint_trades mint (db_tables s)))"
    using assms(1,2,5) by (simp add: mint_trades_def)
  moreover obtain e where "metric_point pn (meta_of mint (db_tables s)) r = Inl e"
    using metric_point_zero [OF assms(3)] by blast
  ultimately have "\<exists>e. ?f (db_tables s) = Inl e"
    using assms(4) by (simp add: listRecentTradeMetricsByMintSQL_def to_ts_def res_map_Inl)
  then have "\<exists>e. fst (db_read ?f s) = Inl e"
    using db_read_ok [of ?f s] by (cases "fst (db_read ?f s)") auto
  then show ?thesis using db_read_state [of ?f s]
    by (auto simp: ListRecentTradeMetricsByMint_def split: prod.splits sum.splits)
qed

section \<open>Properties\<close>

lemma known_token: "m \<in> fst ` set ts \<Longrightarrow> \<exists>x. map_of ts m = Some x"
  by (metis (no_types, lifting) map_of_eq_None_iff not_None_eq)

text \<open>
  What a sweep publishes about a token is what the token service builds from the database after
  the sweep.
\<close>

lemma stats_served:
  assumes "Sweep (Some (db_metrics_store sr)) now order b (Some h) s = (Inr (Some h'), b', s')" "fault_free s" "distinct order"
    "\<forall>m\<in>set order. ready sr b m \<and> m \<in> fst ` set (tokens (db_tables s))"
  shows "publish_all (sweep_events (db_metrics_store sr) now order b h s) h = Inr h' \<and>
    (\<forall>(m, e)\<in>set (sweep_events (db_metrics_store sr) now order b h s). \<exists>p s''.
       m \<in> set order \<and> e = stat_envelope (JObj (fields_TokenStatsPayload p)) now \<and> marshal_stats p = Some (JObj (fields_TokenStatsPayload p)) \<and>
       BuildRealtimeStatsPayload (db_service sr) m later s' = (Inr (Some p), s''))"
proof -
  let ?es = "sweep_events (db_metrics_store sr) now order b h s"
  obtain rs where rs: "publish_all ?es h = Inr h'" "fault_free s'" "\<forall>x\<in>set ?es. told_by now rs x"
      "\<forall>r\<in>set rs. current_metrics s' (mc_Mint r) = Some r \<and> mc_Mint r \<in> set order"
      "tokens (db_tables s') = tokens (db_tables s)"
    using Sweep_stores [OF assms] by blast
  have "\<exists>p s''. m \<in> set order \<and> e = stat_envelope (JObj (fields_TokenStatsPayload p)) now \<and> marshal_stats p = Some (JObj (fields_TokenStatsPayload p)) \<and>
      BuildRealtimeStatsPayload (db_service sr) m later s' = (Inr (Some p), s'')" if me: "(m, e) \<in> set ?es" for m e
  proof -
    obtain r p where r: "r \<in> set rs" "mc_Mint r = m" "BuildPayloadFromCurrentMetrics m (Some r) = Some p"
        "e = stat_envelope (JObj (fields_TokenStatsPayload p)) now" "marshal_stats p = Some (JObj (fields_TokenStatsPayload p))"
      using rs(3) me by (fastforce simp: told_by_def)
    have "current_metrics s' m = Some r" using rs(4) r(1,2) by blast
    then have cur: "current_metrics (tick s') m = Some r" by simp
    have "m \<in> set order" using rs(4) r(1,2) by blast
    note order = this
    then have "m \<in> fst ` set (tokens (db_tables s'))" using assms(4) rs(5) by simp
    then obtain tk where "map_of (tokens (db_tables s')) m = Some tk" using known_token [of m "tokens (db_tables s')"] by blast
    then have snap: "requireTokenSnapshot (db_service sr) m s' =
        (Inr (db_read_model sr, scanTokenSnapshot tk (map_of (token_metadata_current (db_tables s')) (tk_mint tk))), tick s')"
      by (rule snapshot_run [OF rs(2)])
    have "fault_free (tick s')" using rs(2) by simp
    then obtain s'' where "LoadTokenMetricsCurrentByMint m (tick s') = (Inr (Some r), s'')"
      using metrics_db.load_current [of "tick s'" m] unfolding cur by blast
    then have "BuildRealtimeStatsPayload (db_service sr) m later s' = (Inr (Some p), s'')"
      by (simp add: BuildRealtimeStatsPayload_def call_simps snap r(3))
    then show ?thesis using r(4,5) order by blast
  qed
  then show ?thesis using rs(1) by blast
qed

text \<open>A server that reads a timestamp exactly, has no aggregates yet and divides nothing.\<close>

definition example_server :: Server where
  "example_server = \<lparr>
     sr_pg = pg_plain,
     sr_num = \<lparr> pn_div = (\<lambda>_ _. None), pn_power10 = (\<lambda>_. None), pn_sum = (\<lambda>_. []), pn_double = (\<lambda>_. None) \<rparr>,
     sr_minutes = (\<lambda>_. []), sr_candles = (\<lambda>_ _. []) \<rparr>"

definition example_token :: TokenRow where
  "example_token = \<lparr> tk_mint = ''m'', tk_creator = None, tk_bonding_curve = None, tk_token_program = None,
     tk_create_event_id = None, tk_first_seen_at = 0, tk_current_stage = ''bonding_curve'', tk_active_market_id = None,
     tk_active_market_type = None, tk_migrated_at = None, tk_updated_at = 0 \<rparr>"

definition example_window :: TokenWindowState where
  "example_window = zero_TokenWindowState\<lparr>tw_Seeded := True, tw_LastPrice := f64_of_int 2, tw_LastUnixTs := 5, tw_LastActiveTs := 5\<rparr>"

definition example_tokens :: "(string \<times> TokenRow) list \<Rightarrow> Db" where
  "example_tokens ts = (empty_db (\<lambda>_. None))\<lparr>db_tables := empty_tables\<lparr>tokens := ts\<rparr>\<rparr>"

lemma example_ready: "ready example_server (setWindow ''m'' example_window NewBroadcaster) ''m''"
proof -
  have "server_time example_server 5" unfolding server_time_def by code_simp
  then show ?thesis by (simp add: ready_def example_window_def)
qed

text \<open>
  C35: a token the read model does not know keeps the statistics of all others from being
  stored: a sweep that refreshes a window of such a token, with a price to report, leaves the
  tables as they were. (A trade whose create event was never projected is stored without a row
  in tokens, so such windows arise.)
\<close>

theorem unknown_token_blocks_metrics:
  assumes "Sweep (Some (db_metrics_store sr)) now order b (Some h) s = (res, b', s')" "distinct order"
    "\<forall>m\<in>set order. ready sr b m"
    "mint \<in> set order" "map_of (bc_windows b) mint = Some w" "refreshes (Some h) now mint w"
    "f64_lt f64_zero (tw_LastPrice w)" "0 < tw_LastUnixTs w" "mint \<notin> fst ` set (tokens (db_tables s))"
  shows "db_tables s' = db_tables s"
  using Sweep_blocked [OF assms] .

lemma unknown_token_blocks_metrics_witness:
  "db_tables (snd (snd (Sweep (Some (db_metrics_store example_server)) 6 [''m''] (setWindow ''m'' example_window NewBroadcaster)
     (Some NewHub) (example_tokens [])))) = db_tables (example_tokens [])"
proof -
  let ?b = "setWindow ''m'' example_window NewBroadcaster"
  obtain res b' s' where sw: "Sweep (Some (db_metrics_store example_server)) 6 [''m''] ?b (Some NewHub) (example_tokens []) = (res, b', s')"
    by (metis prod.collapse)
  have "refreshes (Some NewHub) 6 ''m'' example_window"
    by (simp add: refreshes_def evicts_def example_window_def sub64_def wrap64_def shortWindowSeconds_def)
  moreover have "f64_lt f64_zero (f64_of_int 2)" by code_simp
  ultimately have "db_tables s' = db_tables (example_tokens [])"
    by (intro unknown_token_blocks_metrics [OF sw, of "''m''" example_window])
       (use example_ready in \<open>simp_all add: example_window_def example_tokens_def empty_tables_def\<close>)
  then show ?thesis by (simp add: sw)
qed

text \<open>
  C36: a single trade of zero tokens, which has no price, keeps the window of its token from being
  seeded while it is among the recent trades: the statement fails, and the window stays as it was.
\<close>

theorem zero_trade_blocks_seeding:
  assumes "r \<in> set (token_trade_events (db_tables s))" "tr_mint r = mint" "numeric_zero (tr_token_amount_raw r)" "mint \<noteq> []"
    "pg_to_timestamp (sr_pg sr) (f64_of_int (sub64 nowTs 300)) = Some start" "start \<le> tr_event_time r"
  shows "ensureWindowSeeded (Some (db_metrics_store sr)) mint nowTs b s =
    (snd (getWindow mint b), if tw_Seeded (fst (getWindow mint b)) then s else tick s)"
proof -
  obtain e where "ListRecentTradeMetricsByMint (sr_pg sr) (sr_num sr) mint (sub64 nowTs 300) s = (Inl e, tick s)"
    using recent_metrics_zero [OF assms(1-3,5,6)] by blast
  then show ?thesis
    using assms(4) by (auto simp: ensureWindowSeeded_def db_metrics_store_sel shortWindowSeconds_def split: prod.splits)
qed

definition zero_trade :: TradeRow where
  "zero_trade = \<lparr> tr_event_time = 5000000, tr_event_id = ''e'', tr_mint = ''m'', tr_market_id = ''k'', tr_market_type = ''pool'',
     tr_protocol = ''pumpamm'', tr_side = ''sell'', tr_ix_name = ''sell'', tr_user_address = ''u'', tr_quote_mint = SolMint,
     tr_token_amount_raw = ''0'', tr_quote_amount_raw = ''7'', tr_tx_signature = ''x'', tr_slot = 1,
     tr_raw_event_source = ''chain'', tr_insert_seq = 1 \<rparr>"

lemma zero_trade_blocks_seeding_witness:
  "fst (ensureWindowSeeded (Some (db_metrics_store example_server)) ''m'' 305 NewBroadcaster
     ((empty_db (\<lambda>_. None))\<lparr>db_tables := empty_tables\<lparr>token_trade_events := [zero_trade]\<rparr>\<rparr>)) = snd (getWindow ''m'' NewBroadcaster)"
proof -
  have "numeric_zero (tr_token_amount_raw zero_trade)" by code_simp
  moreover have "pg_to_timestamp (sr_pg example_server) (f64_of_int (sub64 305 300)) = Some 5000000" by code_simp
  ultimately show ?thesis
    using zero_trade_blocks_seeding [of zero_trade "(empty_db (\<lambda>_. None))\<lparr>db_tables := empty_tables\<lparr>token_trade_events := [zero_trade]\<rparr>\<rparr>"
      "''m''" example_server 305 5000000 NewBroadcaster]
    by (simp add: zero_trade_def)
qed

text \<open>
  C37: the page of a token with current metrics but without metadata cannot be served: the summary
  statement joins the metadata from the left and reads its quote mint into a string, which a null
  does not scan into. (A token whose migration was seen and whose creation was not has no
  metadata.) The request fails although the fallback summary would have answered it.
\<close>

theorem detail_needs_quote_mint:
  assumes "fault_free s" "map_of (tokens (db_tables s)) mint = Some tk" "map_of (token_metrics_current (db_tables s)) mint = Some cm"
    "me_quote_mint (meta_of mint (db_tables s)) = None"
  shows "\<exists>e s'. GetTokenDetail (db_service sr) mint s = (Some (Inl e), s')"
proof -
  have summary: "\<exists>e s'. LoadTradeSummaryByMint pg pn mint s0 = (Inl e, s')"
    if "fault_free s0" "db_tables s0 = db_tables s" for pg pn s0
    using that assms(3,4)
    by (simp add: LoadTradeSummaryByMint_def db_read_fault_free loadTokenTradeSummaryCurrentSQL_def scanTradeSummaryRow_def)
  have events: "\<exists>r. ListServiceEventsByMint mint n s0 = (r, tick s0)" if "fault_free s0" for n s0
    using that by (auto simp: ListServiceEventsByMint_def list_events_def db_read_fault_free split: sum.splits)
  have markets: "\<exists>ms. ListTokenMarketsByMint mint 10 (tick s) = (Inr ms, tick (tick s))"
    using assms(1) by (simp add: ListTokenMarketsByMint_def listTokenMarketsByMintSQL_def sql_limit_def db_read_fault_free)
  have trades: "\<exists>ts. ListTradeEventsByMint mint 20 (tick (tick s)) = (Inr ts, tick (tick (tick s)))"
    using assms(1) by (simp add: ListTradeEventsByMint_def listTokenTradeEventsByMintSQL_def sql_limit_def db_read_fault_free)
  obtain ms ts where m: "ListTokenMarketsByMint mint 10 (tick s) = (Inr ms, tick (tick s))"
      "ListTradeEventsByMint mint 20 (tick (tick s)) = (Inr ts, tick (tick (tick s)))"
    using markets trades by blast
  obtain r where ev: "ListServiceEventsByMint mint 20 (tick (tick (tick s))) = (r, tick (tick (tick (tick s))))"
    using events [of "tick (tick (tick s))"] assms(1) by auto
  obtain e s1 where su: "LoadTradeSummaryByMint (sr_pg sr) (sr_num sr) mint (tick (tick (tick (tick s)))) = (Inl e, s1)"
    using summary [of "tick (tick (tick (tick s)))" "sr_pg sr" "sr_num sr"] assms(1) by auto
  show ?thesis
    using m ev su by (cases r) (simp_all add: GetTokenDetail_def call_simps snapshot_run [OF assms(1,2)])
qed

lemma detail_needs_quote_mint_witness:
  "\<exists>e s'. GetTokenDetail (db_service example_server) ''m''
     ((empty_db (\<lambda>_. None))\<lparr>db_tables := empty_tables\<lparr>tokens := [(''m'', example_token)], token_metrics_current :=
       [(''m'', metrics_row (the (buildCurrentRecord ''m'' example_window zero_LongWindowMetricsRecord 6)) 5000000 0)]\<rparr>\<rparr>) =
     (Some (Inl e), s')"
  by (rule detail_needs_quote_mint) (simp_all add: fault_free_def empty_db_def empty_tables_def meta_of_def)

end
