(* ===== verification/Runner.thy ===== *)
theory Runner
  imports Projector EventLog
begin

text \<open>
  internal/projector/runner.go: the log is replayed into the read model, one transaction per
  batch that also moves the checkpoint. The reader of the log and the writer of the read model
  are interfaces; \<open>log_reader\<close> are the laws of a reader, which the event log satisfies.
\<close>

section \<open>The runner\<close>

record 's logReader =
  lr_ListServiceEventsAfterLogID :: "int \<Rightarrow> int \<Rightarrow> 's \<Rightarrow> ServiceEventLogEntry list res \<times> 's"
  lr_LoadProjectionCheckpoint :: "string \<Rightarrow> 's \<Rightarrow> int res \<times> 's"
  lr_SaveProjectionCheckpoint :: "string \<Rightarrow> int \<Rightarrow> 's action"
  lr_LoadLatestServiceEventLogID :: "'s \<Rightarrow> int res \<times> 's"
  lr_RunInTransaction :: "'s action \<Rightarrow> 's action"

text \<open>The store of a projector: none, one that writes directly, one that is capable of batches.\<close>

datatype 's writer = NoWriter | PlainWriter "'s readModelWriter" | BatchWriter "'s batchCapableWriter"

record 's Runner =
  rn_name :: string
  rn_reader :: "'s logReader"
  rn_projector :: "'s writer option"
  rn_batchSize :: int

definition event_log_reader :: "Db logReader" where
  "event_log_reader = \<lparr>
     lr_ListServiceEventsAfterLogID = ListServiceEventsAfterLogID,
     lr_LoadProjectionCheckpoint = LoadProjectionCheckpoint,
     lr_SaveProjectionCheckpoint = SaveProjectionCheckpoint,
     lr_LoadLatestServiceEventLogID = LoadLatestServiceEventLogID,
     lr_RunInTransaction = RunInTransaction \<rparr>"

definition NewRunner :: "string \<Rightarrow> 's logReader \<Rightarrow> 's writer option \<Rightarrow> 's Runner" where
  "NewRunner name reader projector =
     \<lparr> rn_name = name, rn_reader = reader, rn_projector = projector, rn_batchSize = 256 \<rparr>"

text \<open>The loop over the entries of a batch; with no store a projector does nothing.\<close>

definition replay_entry :: "('s, 'x) readModelWriter_scheme option \<Rightarrow> ServiceEventLogEntry \<Rightarrow> 's action" where
  "replay_entry w entry = (case DecodePayload (le_Event entry) of
      Inl e \<Rightarrow> fail_with (ErrWrap ''decode payload'' e)
    | Inr payload \<Rightarrow> wrap_err ''project''
        (case w of None \<Rightarrow> done_ok | Some writer \<Rightarrow> Project writer (le_Event entry) payload))"

definition replay_entries :: "('s, 'x) readModelWriter_scheme option \<Rightarrow> ServiceEventLogEntry list \<Rightarrow> 's action" where
  "replay_entries w entries = for_each (replay_entry w) entries"

text \<open>
  The body of the transaction. The log id and the number of events the closure counts are those
  of the whole batch once it ends without an error (their values on an error are discarded by
  both callers).
\<close>

definition replay_tx :: "'s writer \<Rightarrow> ServiceEventLogEntry list \<Rightarrow> 's action \<Rightarrow> 's action" where
  "replay_tx writer entries save = (case writer of
      NoWriter \<Rightarrow> and_then (replay_entries (None :: 's readModelWriter option) entries) save
    | PlainWriter w \<Rightarrow> and_then (replay_entries (Some w) entries) save
    | BatchWriter w \<Rightarrow> (\<lambda>s. case replay_entries (Some batch_writer) entries newWriteBatch of
        (Some e, _) \<Rightarrow> (Some e, s)
      | (None, batch) \<Rightarrow> and_then (Flush w batch) save s))"

text \<open>The next log id and the number of events processed, or the error.\<close>

definition ReplayBatch :: "'s Runner \<Rightarrow> int \<Rightarrow> 's \<Rightarrow> (int \<times> nat) res \<times> 's" where
  "ReplayBatch r afterLogID s = (case rn_projector r of
      None \<Rightarrow> (Inr (afterLogID, 0), s)
    | Some writer \<Rightarrow>
      (case lr_ListServiceEventsAfterLogID (rn_reader r) afterLogID (rn_batchSize r) s of
        (Inl e, s1) \<Rightarrow> (Inl e, s1)
      | (Inr entries, s1) \<Rightarrow>
        (if entries = [] then (Inr (afterLogID, 0), s1)
         else
           let lastLogID = le_LogID (last entries) in
           (case lr_RunInTransaction (rn_reader r)
               (replay_tx writer entries (lr_SaveProjectionCheckpoint (rn_reader r) (rn_name r) lastLogID)) s1 of
             (Some e, s2) \<Rightarrow> (Inl e, s2)
           | (None, s2) \<Rightarrow> (Inr (lastLogID, length entries),
               snd (lr_LoadLatestServiceEventLogID (rn_reader r) s2))))))"

text \<open>The loop of ReplayFromStart, with fuel: None when it runs out.\<close>

fun replay_loop :: "nat \<Rightarrow> 's Runner \<Rightarrow> int \<Rightarrow> 's \<Rightarrow> int res option \<times> 's" where
  "replay_loop 0 r lastLogID s = (None, s)"
| "replay_loop (Suc n) r lastLogID s = (case ReplayBatch r lastLogID s of
      (Inl e, s') \<Rightarrow> (Some (Inl e), s')
    | (Inr (nextLogID, processed), s') \<Rightarrow>
        (if processed = 0 then (Some (Inr nextLogID), s') else replay_loop n r nextLogID s'))"

definition ReplayFromStart :: "nat \<Rightarrow> 's Runner \<Rightarrow> 's \<Rightarrow> int res option \<times> 's" where
  "ReplayFromStart n r s = replay_loop n r 0 s"

text \<open>
  Run polls; done tells at which of the idle polls the context turns out to be cancelled. None
  is a runner still running when the fuel ends, Some None its clean end.
\<close>

fun run_loop :: "nat \<Rightarrow> (nat \<Rightarrow> bool) \<Rightarrow> nat \<Rightarrow> 's Runner \<Rightarrow> int \<Rightarrow> 's \<Rightarrow> gerror option option \<times> 's" where
  "run_loop 0 cancelled polls r lastLogID s = (None, s)"
| "run_loop (Suc n) cancelled polls r lastLogID s = (case ReplayBatch r lastLogID s of
      (Inl e, s') \<Rightarrow> (Some (Some e), s')
    | (Inr (nextLogID, processed), s') \<Rightarrow>
        (if 0 < processed then run_loop n cancelled polls r nextLogID s'
         else if cancelled polls then (Some None, s')
         else run_loop n cancelled (Suc polls) r nextLogID s'))"

definition Run :: "nat \<Rightarrow> (nat \<Rightarrow> bool) \<Rightarrow> 's Runner \<Rightarrow> 's \<Rightarrow> gerror option option \<times> 's" where
  "Run n cancelled r s = (case lr_LoadProjectionCheckpoint (rn_reader r) (rn_name r) s of
      (Inl e, s') \<Rightarrow> (Some (Some e), s')
    | (Inr lastLogID, s') \<Rightarrow> run_loop n cancelled 0 r lastLogID s')"

section \<open>The writes of a batch\<close>

definition entry_ops :: "ServiceEventLogEntry \<Rightarrow> wop list option" where
  "entry_ops entry = (case DecodePayload (le_Event entry) of
      Inl _ \<Rightarrow> None
    | Inr payload \<Rightarrow> (if project_error (le_Event entry) payload = None
        then Some (project_ops (le_Event entry) payload) else None))"

definition projectable :: "ServiceEventLogEntry list \<Rightarrow> bool" where
  "projectable es \<longleftrightarrow> (\<forall>e\<in>set es. entry_ops e \<noteq> None)"

definition all_ops :: "ServiceEventLogEntry list \<Rightarrow> wop list" where
  "all_ops es = concat (map (\<lambda>e. the (entry_ops e)) es)"

lemma replay_entry_ops:
  "replay_entry (Some w) e s = (None, s') \<longleftrightarrow>
     entry_ops e \<noteq> None \<and> for_each (apply_wop w) (the (entry_ops e)) s = (None, s')"
  by (cases "DecodePayload (le_Event e)"; cases "project_error (le_Event e) (projr (DecodePayload (le_Event e)))")
     (auto simp: replay_entry_def entry_ops_def Project_ops [of w] fail_with_def and_then_ok_iff)

lemma replay_entries_ops:
  "replay_entries (Some w) es s = (None, s') \<longleftrightarrow> projectable es \<and> for_each (apply_wop w) (all_ops es) s = (None, s')"
proof (induction es arbitrary: s)
  case Nil
  then show ?case by (simp add: replay_entries_def projectable_def all_ops_def)
next
  case (Cons e es)
  have "replay_entries (Some w) (e # es) s = (None, s') \<longleftrightarrow>
      (\<exists>t. replay_entry (Some w) e s = (None, t) \<and> replay_entries (Some w) es t = (None, s'))"
    by (simp add: replay_entries_def and_then_ok_iff)
  then show ?case
    by (auto simp: replay_entry_ops Cons.IH projectable_def all_ops_def for_each_append and_then_ok_iff)
qed

lemma replay_entries_batch:
  "(case replay_entries (Some batch_writer) es newWriteBatch of (None, b) \<Rightarrow> projectable es \<and> batch_ops b = by_class (all_ops es)
     | (Some _, _) \<Rightarrow> \<not> projectable es)"
proof (cases "projectable es")
  case True
  then have "replay_entries (Some batch_writer) es newWriteBatch = (None, fold enqueue (all_ops es) newWriteBatch)"
    by (simp add: replay_entries_ops for_each_batch_writer)
  then show ?thesis using True batch_ops_enqueue by simp
next
  case False
  then have "fst (replay_entries (Some batch_writer) es newWriteBatch) \<noteq> None"
    using replay_entries_ops [of batch_writer es newWriteBatch] by (metis prod.collapse)
  then show ?thesis using False by (auto split: prod.splits option.splits)
qed

lemma store_op_writer: "for_each (apply_wop (readModelWriter.truncate (store_writer pg))) ps = for_each (store_op pg) ps"
proof -
  have "apply_wop (readModelWriter.truncate (store_writer pg)) = store_op pg"
    by (rule ext) (simp add: store_op_def apply_wop_def flush_op_def readModelWriter.truncate_def
        split: wop.splits queuedStateOp.splits)
  then show ?thesis by simp
qed

text \<open>Without faults the batch writes what the direct writer writes.\<close>

definition direct_store :: "Pg \<Rightarrow> Db writer" where
  "direct_store pg = PlainWriter (readModelWriter.truncate (store_writer pg))"

definition batch_store :: "Pg \<Rightarrow> Db writer" where
  "batch_store pg = BatchWriter (store_writer pg)"

lemma replay_tx_direct:
  "replay_tx (direct_store pg) es save s = (None, s') \<longleftrightarrow>
     projectable es \<and> and_then (for_each (store_op pg) (all_ops es)) save s = (None, s')"
  by (auto simp: replay_tx_def direct_store_def and_then_ok_iff replay_entries_ops store_op_writer)

lemma replay_tx_batch:
  assumes "fault_free s"
  shows "replay_tx (batch_store pg) es save s = (None, s') \<longleftrightarrow>
     projectable es \<and> and_then (for_each (store_op pg) (all_ops es)) save s = (None, s')"
proof -
  have "replay_tx (batch_store pg) es save s = (None, s') \<longleftrightarrow>
      projectable es \<and> and_then (for_each (store_op pg) (by_class (all_ops es))) save s = (None, s')"
    using replay_entries_batch [of es]
    by (auto simp: replay_tx_def batch_store_def Flush_ops split: prod.splits option.splits)
  then show ?thesis using store_ops_by_class [OF assms] by (auto simp: and_then_ok_iff)
qed

section \<open>The laws of a log reader\<close>

text \<open>
  view is the data a reader sees. Reading leaves it alone; a transaction applies all of its body
  or nothing of it; a checkpoint that was saved is the checkpoint.
\<close>

locale log_reader =
  fixes reader :: "'s logReader"
    and view :: "'s \<Rightarrow> 'v"
    and checkpoint :: "'v \<Rightarrow> string \<Rightarrow> int"
  assumes list_view: "view (snd (lr_ListServiceEventsAfterLogID reader n k s)) = view s"
    and list_after: "lr_ListServiceEventsAfterLogID reader n k s = (Inr es, s') \<Longrightarrow> e \<in> set es \<Longrightarrow> n < le_LogID e"
    and latest_view: "view (snd (lr_LoadLatestServiceEventLogID reader s)) = view s"
    and save_checkpoint: "lr_SaveProjectionCheckpoint reader name n s = (None, s') \<Longrightarrow> checkpoint (view s') name = n"
    and tx_commit: "lr_RunInTransaction reader fn s = (None, s') \<Longrightarrow>
      \<exists>s0 s1. view s0 = view s \<and> fn s0 = (None, s1) \<and> view s' = view s1"
    and tx_abort: "lr_RunInTransaction reader fn s = (Some err, s') \<Longrightarrow>
      view s' = view s \<or> (\<exists>s0 s1. view s0 = view s \<and> fn s0 = (None, s1) \<and> view s' = view s1)"
begin

lemma replay_tx_saves:
  assumes "replay_tx w es (lr_SaveProjectionCheckpoint reader name n) s = (None, s')"
  shows "checkpoint (view s') name = n"
proof -
  obtain t where "lr_SaveProjectionCheckpoint reader name n t = (None, s')"
    using assms by (cases w) (auto simp: replay_tx_def and_then_ok_iff split: prod.splits option.splits)
  then show ?thesis by (rule save_checkpoint)
qed

text \<open>A batch either leaves the data alone or has applied its events and moved the checkpoint.\<close>

lemma ReplayBatch_cases:
  assumes "rn_reader r = reader" "ReplayBatch r n s = (res, s')"
  shows "(view s' = view s \<and> (case res of Inl _ \<Rightarrow> True | Inr (m, k) \<Rightarrow> m = n \<and> k = 0)) \<or>
    (\<exists>w es s0 s1. rn_projector r = Some w \<and> es \<noteq> [] \<and> n < le_LogID (last es) \<and>
       fst (lr_ListServiceEventsAfterLogID reader n (rn_batchSize r) s) = Inr es \<and> view s0 = view s \<and>
       replay_tx w es (lr_SaveProjectionCheckpoint reader (rn_name r) (le_LogID (last es))) s0 = (None, s1) \<and>
       view s' = view s1 \<and> checkpoint (view s') (rn_name r) = le_LogID (last es) \<and>
       (case res of Inl _ \<Rightarrow> True | Inr (m, k) \<Rightarrow> m = le_LogID (last es) \<and> k = length es))"
proof (cases "rn_projector r")
  case None
  then show ?thesis using assms(2) by (auto simp: ReplayBatch_def)
next
  case (Some w)
  note proj = Some
  obtain l s1 where l: "lr_ListServiceEventsAfterLogID reader n (rn_batchSize r) s = (l, s1)"
    by (cases "lr_ListServiceEventsAfterLogID reader n (rn_batchSize r) s")
  have v1: "view s1 = view s" using list_view [of n "rn_batchSize r" s] l by simp
  show ?thesis
  proof (cases "\<exists>es. l = Inr es \<and> es \<noteq> []")
    case False
    then show ?thesis using assms Some l v1 by (cases l) (auto simp: ReplayBatch_def)
  next
    case True
    then obtain es where es: "l = Inr es" "es \<noteq> []" by blast
    let ?save = "lr_SaveProjectionCheckpoint reader (rn_name r) (le_LogID (last es))"
    obtain e s2 where tx: "lr_RunInTransaction reader (replay_tx w es ?save) s1 = (e, s2)"
      by (cases "lr_RunInTransaction reader (replay_tx w es ?save) s1")
    have lt: "n < le_LogID (last es)" using list_after [OF l [unfolded es(1)]] es(2) by simp
    have res: "(res, s') = (case e of Some err \<Rightarrow> (Inl err, s2)
        | None \<Rightarrow> (Inr (le_LogID (last es), length es), snd (lr_LoadLatestServiceEventLogID reader s2)))"
      using assms Some l es tx by (simp add: ReplayBatch_def Let_def split: option.splits)
    show ?thesis
    proof (cases e)
      case None
      then have "view s' = view s2" using res latest_view by simp
      then show ?thesis
        using tx_commit [OF tx [unfolded None]] replay_tx_saves res None lt l es v1 proj by fastforce
    next
      case (Some err)
      then have "s' = s2" "res = Inl err" using res by auto
      then show ?thesis
        using tx_abort [OF tx [unfolded Some]] replay_tx_saves lt l es v1 proj by fastforce
    qed
  qed
qed

end

section \<open>The event log is a log reader\<close>

definition offset_of :: "Tables \<Rightarrow> string \<Rightarrow> int" where
  "offset_of t name = (case map_of (projection_offsets t) name of None \<Rightarrow> 0 | Some n \<Rightarrow> n)"

lemma ListServiceEventsAfterLogID_state: "snd (ListServiceEventsAfterLogID n k s) = tick s"
  using db_read_state [of "listServiceEventsAfterLogIDSQL n k" s]
  by (auto simp: ListServiceEventsAfterLogID_def split: prod.splits sum.splits)

lemma ListServiceEventsAfterLogID_after:
  assumes "ListServiceEventsAfterLogID n k s = (Inr es, s')" "e \<in> set es"
  shows "n < le_LogID e"
proof -
  obtain rows where rows: "db_read (listServiceEventsAfterLogIDSQL n k) s = (Inr rows, s')" "row_entries False rows = Inr es"
    using assms(1) by (auto simp: ListServiceEventsAfterLogID_def split: prod.splits sum.splits)
  have "listServiceEventsAfterLogIDSQL n k (db_tables s) = Inr rows" using db_read_ok rows(1) by (metis fst_conv)
  then have "\<And>x. x \<in> set (map se_log_id rows) \<Longrightarrow> n < x"
    by (auto simp: listServiceEventsAfterLogIDSQL_def sql_limit_def split: if_splits dest: in_set_takeD)
  then show ?thesis using row_entries_log_ids [OF rows(2)] assms(2) by (metis image_eqI list.set_map)
qed

interpretation log_rd: log_reader event_log_reader db_tables offset_of
proof
  fix n k s
  show "db_tables (snd (lr_ListServiceEventsAfterLogID event_log_reader n k s)) = db_tables s"
    by (simp add: event_log_reader_def ListServiceEventsAfterLogID_state)
next
  fix n k s s' and es :: "ServiceEventLogEntry list" and e
  show "lr_ListServiceEventsAfterLogID event_log_reader n k s = (Inr es, s') \<Longrightarrow> e \<in> set es \<Longrightarrow> n < le_LogID e"
    using ListServiceEventsAfterLogID_after by (simp add: event_log_reader_def)
next
  fix s
  show "db_tables (snd (lr_LoadLatestServiceEventLogID event_log_reader s)) = db_tables s"
    using db_read_state [of "\<lambda>t. Inr (latest_log_id t)" s]
    by (auto simp: event_log_reader_def LoadLatestServiceEventLogID_def split: prod.splits sum.splits)
next
  fix name n s s'
  show "lr_SaveProjectionCheckpoint event_log_reader name n s = (None, s') \<Longrightarrow> offset_of (db_tables s') name = n"
    by (auto simp: event_log_reader_def SaveProjectionCheckpoint_def offset_of_def update_conv' dest!: db_exec_ok)
next
  fix fn s s'
  show "lr_RunInTransaction event_log_reader fn s = (None, s') \<Longrightarrow>
      \<exists>s0 s1. db_tables s0 = db_tables s \<and> fn s0 = (None, s1) \<and> db_tables s' = db_tables s1"
    using RunInTransaction_ok [of fn s s'] by (simp add: event_log_reader_def) (metis tick_sel(1))
next
  fix fn s s' err
  show "lr_RunInTransaction event_log_reader fn s = (Some err, s') \<Longrightarrow>
      db_tables s' = db_tables s \<or> (\<exists>s0 s1. db_tables s0 = db_tables s \<and> fn s0 = (None, s1) \<and> db_tables s' = db_tables s1)"
    using RunInTransaction_err [of fn s err s'] by (simp add: event_log_reader_def) (metis tick_sel(1))
qed

section \<open>Replaying the whole log\<close>

text \<open>A database with another clock and other checkpoints: the writes do not see the difference.\<close>

definition reframe :: "nat \<Rightarrow> (string \<times> int) list \<Rightarrow> Db \<Rightarrow> Db" where
  "reframe c offs s = s\<lparr>db_clock := c, db_tables := (db_tables s)\<lparr>projection_offsets := offs\<rparr>\<rparr>"

lemma reframe_sel [simp]:
  "db_log_seq (reframe c offs s) = db_log_seq s" "db_now (reframe c offs s) = db_now s"
  "db_faults (reframe c offs s) = db_faults s" "db_clock (reframe c offs s) = c"
  "service_events (db_tables (reframe c offs s)) = service_events (db_tables s)"
  "projection_offsets (db_tables (reframe c offs s)) = offs"
  "fault_free (reframe c offs s) = fault_free s" "reframe c offs (reframe c' offs' s) = reframe c offs s"
  "log_inv (reframe c offs s) = log_inv s"
  by (simp_all add: reframe_def fault_free_def log_inv_def)

lemma tick_reframe: "tick (reframe c offs s) = reframe (Suc c) offs s"
  by (simp add: reframe_def tick_def)

lemma reframe_self: "reframe (db_clock s) (projection_offsets (db_tables s)) s = s"
  by (simp add: reframe_def)

lemma class_effects_reframe: "g \<in> class_effects m \<Longrightarrow> g (reframe c offs s) = reframe c offs (g s)"
  by (auto simp: class_effects_def state_effects_def trade_effects_def activity_effects_def
      state_effect_def trade_effect_def activity_effect_def reframe_def split: if_splits)

lemma class_effects_log:
  "g \<in> class_effects m \<Longrightarrow> service_events (db_tables (g s)) = service_events (db_tables s) \<and>
     db_log_seq (g s) = db_log_seq s \<and> projection_offsets (db_tables (g s)) = projection_offsets (db_tables s)"
  by (auto simp: class_effects_def state_effects_def trade_effects_def activity_effects_def
      state_effect_def trade_effect_def activity_effect_def split: if_splits)

lemma store_op_frame:
  assumes "fault_free s" "store_op pg p s = (None, s')"
  shows "\<exists>c'. store_op pg p (reframe c offs s) = (None, reframe c' offs s')"
    "service_events (db_tables s') = service_events (db_tables s)" "db_log_seq s' = db_log_seq s"
proof -
  obtain g where g: "g \<in> class_effects (wop_class p)" "\<And>s. fault_free s \<Longrightarrow> store_op pg p s = (None, g (tick s))"
    using store_op_effect [of pg p] assms by (metis fst_conv option.distinct(1))
  have s': "s' = g (tick s)" using g(2) [OF assms(1)] assms(2) by simp
  have "store_op pg p (reframe c offs s) = (None, g (reframe (Suc c) offs s))"
    using g(2) assms(1) by (simp add: tick_reframe)
  also have "reframe (Suc c) offs s = reframe (Suc c) offs (tick s)" by (simp add: reframe_def tick_def)
  finally show "\<exists>c'. store_op pg p (reframe c offs s) = (None, reframe c' offs s')"
    using class_effects_reframe [OF g(1)] s' by auto
  show "service_events (db_tables s') = service_events (db_tables s)" "db_log_seq s' = db_log_seq s"
    using class_effects_log [OF g(1)] s' by simp_all
qed

lemma store_ops_frame:
  assumes "fault_free s" "for_each (store_op pg) ps s = (None, s')"
  shows "(\<exists>c'. for_each (store_op pg) ps (reframe c offs s) = (None, reframe c' offs s')) \<and>
    service_events (db_tables s') = service_events (db_tables s) \<and> db_log_seq s' = db_log_seq s"
  using assms
proof (induction ps arbitrary: s c)
  case Nil
  then show ?case by (auto simp: done_ok_def)
next
  case (Cons p ps)
  obtain t where t: "store_op pg p s = (None, t)" "for_each (store_op pg) ps t = (None, s')"
    using Cons.prems(2) by (auto simp: and_then_ok_iff)
  note f = store_op_frame [OF Cons.prems(1) t(1)]
  obtain c1 where "store_op pg p (reframe c offs s) = (None, reframe c1 offs t)" using f(1) by blast
  then show ?case
    using Cons.IH [OF store_op_fault_free [OF Cons.prems(1) t(1)] t(2), of c1] f(2,3) by (simp add: and_then_ok_iff)
qed

text \<open>One batch without faults: its events are applied, whichever way the store writes.\<close>

lemma save_fault_free:
  assumes "fault_free s"
  shows "SaveProjectionCheckpoint name n s =
    (None, reframe (Suc (db_clock s)) (AList.update name n (projection_offsets (db_tables s))) s)"
  using assms by (simp add: SaveProjectionCheckpoint_def wrap_err_def db_exec_fault_free reframe_def tick_def)

definition rows_after :: "int \<Rightarrow> Tables \<Rightarrow> ServiceEventRow list" where
  "rows_after n t = filter (\<lambda>r. n < se_log_id r) (service_events t)"

lemma rows_after_sorted: "log_inv s \<Longrightarrow> sorted_wrt (<) (map se_log_id (rows_after n (db_tables s)))"
  unfolding log_inv_def rows_after_def by (simp add: sorted_wrt_map sorted_wrt_filter)

lemma rows_after_drop:
  assumes "log_inv s" "0 < k" "k \<le> length (rows_after n (db_tables s))"
  shows "rows_after (se_log_id (rows_after n (db_tables s) ! (k - 1))) (db_tables s) = drop k (rows_after n (db_tables s))"
proof -
  define rs where "rs = rows_after n (db_tables s)"
  define x where "x = se_log_id (rs ! (k - 1))"
  have s: "sorted_wrt (\<lambda>a b. se_log_id a < se_log_id b) rs"
    using rows_after_sorted [OF assms(1), of n] by (simp add: sorted_wrt_map rs_def)
  have k: "0 < k" "k \<le> length rs" using assms(2,3) by (simp_all add: rs_def)
  have "filter (\<lambda>r. - se_log_id r < - x) rs = drop k rs"
    unfolding x_def by (rule filter_below [where f = "\<lambda>r. - se_log_id r"]) (use s k in auto)
  moreover have "n < x" using k nth_mem [of "k - 1" rs] by (auto simp: rs_def rows_after_def x_def)
  then have "filter (\<lambda>r. - se_log_id r < - x) rs = rows_after x (db_tables s)"
    by (auto simp: rs_def rows_after_def intro!: filter_cong)
  ultimately show ?thesis by (simp add: rs_def x_def)
qed

definition replays :: "Pg \<Rightarrow> string \<Rightarrow> Db Runner \<Rightarrow> bool" where
  "replays pg name r \<longleftrightarrow> rn_reader r = event_log_reader \<and> rn_name r = name \<and> 1 \<le> rn_batchSize r \<and>
     (rn_projector r = Some (direct_store pg) \<or> rn_projector r = Some (batch_store pg))"

lemma replay_tx_store:
  assumes "replays pg name r" "rn_projector r = Some w" "fault_free s"
  shows "replay_tx w es save s = (None, s') \<longleftrightarrow>
     projectable es \<and> and_then (for_each (store_op pg) (all_ops es)) save s = (None, s')"
  using assms replay_tx_direct replay_tx_batch by (auto simp: replays_def)

lemma ListServiceEventsAfterLogID_all:
  assumes "fault_free s" "log_inv s" "0 \<le> k" "row_entries False (rows_after n (db_tables s)) = Inr es"
  shows "ListServiceEventsAfterLogID n k s = (Inr (take (nat k) es), tick s)"
proof -
  have "listServiceEventsAfterLogIDSQL n k (db_tables s) = Inr (take (nat k) (rows_after n (db_tables s)))"
    using assms(2,3) by (simp add: listServiceEventsAfterLogIDSQL_def sort_key_log sql_limit_def log_inv_def rows_after_def)
  then show ?thesis
    using row_entries_take [OF assms(4)] by (simp add: ListServiceEventsAfterLogID_def db_read_fault_free [OF assms(1)])
qed

lemma ReplayBatch_step:
  assumes "replays pg name r" "fault_free s" "log_inv s"
    "row_entries False (rows_after n (db_tables s)) = Inr es" "es1 = take (nat (rn_batchSize r)) es" "es \<noteq> []"
    "projectable es1" "for_each (store_op pg) (all_ops es1) s = (None, t1)"
  shows "\<exists>c. ReplayBatch r n s = (Inr (le_LogID (last es1), length es1),
    reframe c (AList.update name (le_LogID (last es1)) (projection_offsets (db_tables s))) t1)"
proof -
  obtain w where w: "rn_projector r = Some w" using assms(1) by (auto simp: replays_def)
  have r: "rn_reader r = event_log_reader" "rn_name r = name" "1 \<le> rn_batchSize r"
    using assms(1) by (simp_all add: replays_def)
  let ?offs = "projection_offsets (db_tables s)"
  let ?last = "le_LogID (last es1)"
  let ?fn = "replay_tx w es1 (SaveProjectionCheckpoint name ?last)"
  have ne: "es1 \<noteq> []" using assms(5,6) r(3) by simp
  have list: "ListServiceEventsAfterLogID n (rn_batchSize r) s = (Inr es1, tick s)"
    using ListServiceEventsAfterLogID_all [OF assms(2,3) _ assms(4)] r(3) assms(5) by simp
  have start: "tick (tick s) = reframe (Suc (Suc (db_clock s))) ?offs s" by (simp add: reframe_def tick_def)
  obtain c1 where "for_each (store_op pg) (all_ops es1) (tick (tick s)) = (None, reframe c1 ?offs t1)"
    using store_ops_frame [OF assms(2,8)] start by metis
  then have "and_then (for_each (store_op pg) (all_ops es1)) (SaveProjectionCheckpoint name ?last) (tick (tick s)) =
      (None, reframe (Suc c1) (AList.update name ?last ?offs) t1)"
    using store_ops_fault_free [OF assms(2,8)] by (simp add: and_then_def save_fault_free)
  then have fn: "?fn (tick (tick s)) = (None, reframe (Suc c1) (AList.update name ?last ?offs) t1)"
    using replay_tx_store [OF assms(1) w] assms(2,7) by simp
  have "RunInTransaction ?fn (tick s) = (None, tick (reframe (Suc c1) (AList.update name ?last ?offs) t1))"
    using RunInTransaction_fault_free [of "tick s" ?fn] fn assms(2) store_ops_fault_free [OF assms(2,8)] by simp
  moreover have "snd (LoadLatestServiceEventLogID u) = tick u" for u
    using db_read_state [of "\<lambda>t. Inr (latest_log_id t)" u]
    by (auto simp: LoadLatestServiceEventLogID_def split: prod.splits sum.splits)
  ultimately show ?thesis
    using w r list ne
    by (intro exI [of _ "Suc (Suc (Suc c1))"])
       (simp add: ReplayBatch_def event_log_reader_def tick_reframe Let_def)
qed

lemma all_ops_append: "all_ops (es @ fs) = all_ops es @ all_ops fs"
  by (simp add: all_ops_def)

lemma replay_loop_all:
  assumes "replays pg name r" "fault_free s" "log_inv s"
    "row_entries False (rows_after n (db_tables s)) = Inr es" "projectable es"
    "for_each (store_op pg) (all_ops es) s = (None, t)" "length es < fuel"
  shows "\<exists>c. replay_loop fuel r n s = (Some (Inr (if es = [] then n else le_LogID (last es))),
    reframe c (if es = [] then projection_offsets (db_tables s)
       else AList.update name (le_LogID (last es)) (projection_offsets (db_tables s))) t)"
  using assms(2-)
proof (induction fuel arbitrary: n s es t)
  case (Suc fuel)
  have r: "rn_reader r = event_log_reader" "1 \<le> rn_batchSize r" "rn_projector r \<noteq> None"
    using assms(1) by (auto simp: replays_def)
  show ?case
  proof (cases "es = []")
    case True
    have "ListServiceEventsAfterLogID n (rn_batchSize r) s = (Inr [], tick s)"
      using ListServiceEventsAfterLogID_all [OF Suc.prems(1,2) _ Suc.prems(3)] r(2) True by simp
    then have "ReplayBatch r n s = (Inr (n, 0), tick s)" using r by (auto simp: ReplayBatch_def event_log_reader_def)
    moreover have "t = s" using Suc.prems(5) True by (simp add: all_ops_def done_ok_def)
    moreover have "tick s = reframe (Suc (db_clock s)) (projection_offsets (db_tables s)) s"
      by (simp add: reframe_def tick_def)
    ultimately show ?thesis using True by auto
  next
    case False
    let ?k = "nat (rn_batchSize r)"
    let ?es1 = "take ?k es" and ?es2 = "drop ?k es"
    let ?m = "le_LogID (last ?es1)"
    have split: "for_each (store_op pg) (all_ops ?es1 @ all_ops ?es2) s = (None, t)"
      using Suc.prems(5) by (metis all_ops_append append_take_drop_id)
    then obtain t1 where t1: "for_each (store_op pg) (all_ops ?es1) s = (None, t1)"
      "for_each (store_op pg) (all_ops ?es2) t1 = (None, t)"
      by (auto simp: for_each_append and_then_ok_iff)
    have p: "projectable ?es1" "projectable ?es2"
      using Suc.prems(4) by (auto simp: projectable_def dest: in_set_takeD in_set_dropD)
    obtain c where step: "ReplayBatch r n s = (Inr (?m, length ?es1),
        reframe c (AList.update name ?m (projection_offsets (db_tables s))) t1)"
      using ReplayBatch_step [OF assms(1) Suc.prems(1-3) refl False p(1) t1(1)] by blast
    let ?s1 = "reframe c (AList.update name ?m (projection_offsets (db_tables s))) t1"
    have ne: "?es1 \<noteq> []" using False r(2) by simp
    have ff: "fault_free t1" using store_ops_fault_free [OF Suc.prems(1) t1(1)] .
    note fr = store_ops_frame [OF Suc.prems(1) t1(1)]
    have inv1: "log_inv t1" using Suc.prems(2) fr by (simp add: log_inv_def)
    have len: "length es = length (rows_after n (db_tables s))" using row_entries_length [OF Suc.prems(3)] .
    define k where "k = length ?es1"
    have k: "0 < k" "k \<le> length es" "?es1 = take k es" "?es2 = drop k es"
      using ne by (auto simp: k_def min_def)
    have m: "?m = se_log_id (rows_after n (db_tables s) ! (k - 1))"
    proof -
      have "last (take k es) = es ! (k - 1)" using last_conv_nth [of "take k es"] k ne by simp
      then have "?m = map le_LogID es ! (k - 1)" using k by simp
      also have "map le_LogID es = map se_log_id (rows_after n (db_tables s))"
        using row_entries_log_ids [OF Suc.prems(3)] .
      finally show ?thesis using k len by simp
    qed
    have "rows_after ?m (db_tables ?s1) = drop k (rows_after n (db_tables s))"
      using rows_after_drop [OF Suc.prems(2) k(1), of n] k(2) len fr by (simp add: m rows_after_def)
    then have rows: "row_entries False (rows_after ?m (db_tables ?s1)) = Inr ?es2"
      using row_entries_drop [OF Suc.prems(3), of k] k(4) by simp
    obtain c2 where ops: "for_each (store_op pg) (all_ops ?es2) ?s1 =
        (None, reframe c2 (AList.update name ?m (projection_offsets (db_tables s))) t)"
      using store_ops_frame [OF ff t1(2)] by blast
    have fuel: "length ?es2 < fuel" using Suc.prems(6) False r(2) by (cases es) auto
    obtain c3 where "replay_loop fuel r ?m ?s1 = (Some (Inr (if ?es2 = [] then ?m else le_LogID (last ?es2))),
        reframe c3 (if ?es2 = [] then projection_offsets (db_tables ?s1)
           else AList.update name (le_LogID (last ?es2)) (projection_offsets (db_tables ?s1)))
          (reframe c2 (AList.update name ?m (projection_offsets (db_tables s))) t))"
      using Suc.IH [OF _ _ rows p(2) ops fuel] ff inv1 by auto
    moreover have "last es = (if ?es2 = [] then last ?es1 else last ?es2)"
      by (auto simp: last_drop)
    ultimately show ?thesis
      using step ne False by (auto simp: k_def [symmetric] update_last split: if_splits)
  qed
qed simp

lemma ReplayBatch_undecodable:
  assumes "replays pg name r" "log_inv s" "rows_after n (db_tables s) = row # rest"
    "row_entry False row = Inr entry" "entry_ops entry = None"
  shows "\<exists>e s'. ReplayBatch r n s = (Inl e, s') \<and> db_tables s' = db_tables s"
proof -
  have r: "rn_reader r = event_log_reader" "1 \<le> rn_batchSize r" using assms(1) by (simp_all add: replays_def)
  obtain w where w: "rn_projector r = Some w" using assms(1) by (auto simp: replays_def)
  obtain res s' where b: "ReplayBatch r n s = (res, s')" by (cases "ReplayBatch r n s")
  have never: "replay_tx w es save s0 \<noteq> (None, s1)" if "\<not> projectable es" for es save s0 s1
  proof -
    have "fst (replay_entries (Some batch_writer) es newWriteBatch) \<noteq> None"
      using replay_entries_batch [of es] that by (auto split: prod.splits option.splits)
    then have "replay_tx (batch_store pg) es save s0 \<noteq> (None, s1)"
      by (auto simp: replay_tx_def batch_store_def split: prod.splits option.splits)
    then show ?thesis using assms(1) w that replay_tx_direct by (auto simp: replays_def)
  qed
  obtain l s2 where list: "ListServiceEventsAfterLogID n (rn_batchSize r) s = (l, s2)"
    by (cases "ListServiceEventsAfterLogID n (rn_batchSize r) s")
  have bad: "\<not> projectable es \<and> es \<noteq> []" if "l = Inr es" for es
  proof -
    obtain k where k: "nat (rn_batchSize r) = Suc k" using r(2) by (cases "nat (rn_batchSize r)") auto
    have "row_entries False (take (Suc k) (row # rest)) = Inr es"
      using ListServiceEventsAfterLogID_rows(1) [OF assms(2) _ list [unfolded that]] r(2) assms(3) k
      by (simp add: rows_after_def)
    then have "entry \<in> set es" using assms(4) by (auto split: sum.splits)
    then show ?thesis using assms(5) by (auto simp: projectable_def)
  qed
  have "(db_tables s' = db_tables s \<and> (case res of Inl _ \<Rightarrow> True | Inr (m, k) \<Rightarrow> m = n \<and> k = 0))"
    using log_rd.ReplayBatch_cases [OF r(1) b] bad never list w by (auto simp: event_log_reader_def)
  moreover have "res \<noteq> Inr (m, 0)" for m
    using b w r(1) list bad by (auto simp: ReplayBatch_def event_log_reader_def Let_def split: sum.splits option.splits prod.splits if_splits)
  ultimately show ?thesis using b by (cases res) auto
qed

section \<open>Properties\<close>

text \<open>
  C4: a store that batches its writes (state first, then all trades, then all activities) does
  what a store that writes event by event does: without faults, replaying the same entries
  succeeds with the one exactly when it succeeds with the other, and leaves the same database.
\<close>

theorem batch_store_as_direct:
  assumes "fault_free s"
  shows "replay_tx (batch_store pg) es save s = (None, s') \<longleftrightarrow> replay_tx (direct_store pg) es save s = (None, s')"
  using replay_tx_batch [OF assms] replay_tx_direct by simp

text \<open>
  C3: a batch is atomic: whatever faults the database has, ReplayBatch either leaves every table
  as it was (and reports no event as processed), or has carried out its whole body, with the
  checkpoint moved past where it started to the last event of the batch.
\<close>

theorem ReplayBatch_atomic:
  assumes "rn_reader r = event_log_reader" "ReplayBatch r n s = (res, s')"
  shows "(db_tables s' = db_tables s \<and> (case res of Inl _ \<Rightarrow> True | Inr (m, k) \<Rightarrow> m = n \<and> k = 0)) \<or>
    (\<exists>w es s0 s1. rn_projector r = Some w \<and> es \<noteq> [] \<and> n < le_LogID (last es) \<and>
       fst (ListServiceEventsAfterLogID n (rn_batchSize r) s) = Inr es \<and> db_tables s0 = db_tables s \<and>
       replay_tx w es (SaveProjectionCheckpoint (rn_name r) (le_LogID (last es))) s0 = (None, s1) \<and>
       db_tables s' = db_tables s1 \<and> offset_of (db_tables s') (rn_name r) = le_LogID (last es) \<and>
       (case res of Inl _ \<Rightarrow> True | Inr (m, k) \<Rightarrow> m = le_LogID (last es) \<and> k = length es))"
  using log_rd.ReplayBatch_cases [OF assms] by (simp add: event_log_reader_def)

lemma ReplayFromStart_all:
  assumes "replays pg name r" "fault_free s" "log_inv s"
    "row_entries False (service_events (db_tables s)) = Inr es" "projectable es"
    "for_each (store_op pg) (all_ops es) s = (None, t)" "length es < fuel"
  shows "\<exists>c. ReplayFromStart fuel r s = (Some (Inr (if es = [] then 0 else le_LogID (last es))),
    reframe c (if es = [] then projection_offsets (db_tables s)
       else AList.update name (le_LogID (last es)) (projection_offsets (db_tables s))) t)"
proof -
  have "rows_after 0 (db_tables s) = service_events (db_tables s)"
    using assms(3) by (simp add: rows_after_def log_inv_def filter_id_conv)
  then show ?thesis
    using replay_loop_all [OF assms(1-3), of 0 es t fuel] assms(4-7) by (simp add: ReplayFromStart_def)
qed

text \<open>
  C2: replaying is complete and does not depend on how the log is cut into batches, nor on
  whether the store batches its writes: without faults, ReplayFromStart ends, and leaves the
  read model as the writes of all events of the log, in log order, one after the other, with the
  checkpoint at the last event.
\<close>

theorem ReplayFromStart_complete:
  assumes "replays pg name r" "fault_free s" "log_inv s"
    "row_entries False (service_events (db_tables s)) = Inr es" "projectable es"
    "for_each (store_op pg) (all_ops es) s = (None, t)" "length es < fuel"
  shows "\<exists>c. ReplayFromStart fuel r s = (Some (Inr (if es = [] then 0 else le_LogID (last es))),
    reframe c (if es = [] then projection_offsets (db_tables s)
       else AList.update name (le_LogID (last es)) (projection_offsets (db_tables s))) t)"
  by (rule ReplayFromStart_all [OF assms])

text \<open>
  One event that cannot be decoded or projected stops the projector for good: if the first
  event after the checkpoint is such an event, every ReplayBatch returns an error and changes no
  table, whatever the batch size and the faults, so the next attempt starts at the same event.
\<close>

lemma ReplayBatch_poisoned:
  assumes "replays pg name r" "log_inv s" "rows_after n (db_tables s) = row # rest"
    "row_entry False row = Inr entry" "entry_ops entry = None"
  shows "\<exists>e s'. ReplayBatch r n s = (Inl e, s') \<and> db_tables s' = db_tables s"
  using ReplayBatch_undecodable [OF assms] .

text \<open>A log of two migrations, for the examples.\<close>

definition example_event :: "string \<Rightarrow> string \<Rightarrow> string \<Rightarrow> payload \<Rightarrow> Envelope" where
  "example_event eventID protocol eventType p = zero_Envelope\<lparr>ev_EventID := eventID, ev_Protocol := protocol,
     ev_EventType := eventType, ev_EventUnixTS := 1700000000, ev_Payload := RawJson (enc_payload p)\<rparr>"

definition example_row :: "int \<Rightarrow> Envelope \<Rightarrow> payload \<Rightarrow> ServiceEventRow" where
  "example_row n event p = service_event_row n 0 event (enc_EventRefs zero_EventRefs) (enc_payload p)"

definition example_entry :: "int \<Rightarrow> Envelope \<Rightarrow> ServiceEventLogEntry" where
  "example_entry n event = \<lparr> le_LogID = n, le_Event = event, le_CreatedAt = 0 \<rparr>"

definition example_log :: "ServiceEventRow list \<Rightarrow> Db" where
  "example_log rows = (empty_db (\<lambda>_. None))\<lparr>db_tables := empty_tables\<lparr>service_events := rows\<rparr>, db_log_seq := 100\<rparr>"

lemma example_row_entry:
  "row_entry False (example_row n (example_event i a b p) p) = Inr (example_entry n (example_event i a b p))"
proof -
  have "canonical_json (enc_EventRefs zero_EventRefs)" by code_simp
  then show ?thesis
    using row_entry_stored [OF jsonb_law_plain, of "example_event i a b p" "enc_EventRefs zero_EventRefs" False n 0 "enc_payload p"]
    by (simp add: example_row_def example_entry_def example_event_def zero_Envelope_def pg_plain_def in_u64_def)
qed

lemma example_decode:
  "kind_matches (example_event i a b p) p \<Longrightarrow> wf_payload p \<Longrightarrow> DecodePayload (example_event i a b p) = Inr p"
  by (rule DecodePayload_enc) (simp_all add: example_event_def)

definition example_payload :: "string \<Rightarrow> string \<Rightarrow> payload" where
  "example_payload mint pool = PumpfunMigrate (zero_PumpfunMigratePayload\<lparr>pfm_Mint := mint, pfm_Pool := pool\<rparr>)"

definition example_migrations :: "ServiceEventRow list" where
  "example_migrations = [
     example_row 1 (example_event ''a'' ''pumpfun'' ''migrate'' (example_payload ''m1'' ''p1'')) (example_payload ''m1'' ''p1''),
     example_row 2 (example_event ''b'' ''pumpfun'' ''migrate'' (example_payload ''m2'' ''p2'')) (example_payload ''m2'' ''p2'')]"

definition example_entries :: "ServiceEventLogEntry list" where
  "example_entries = [
     example_entry 1 (example_event ''a'' ''pumpfun'' ''migrate'' (example_payload ''m1'' ''p1'')),
     example_entry 2 (example_event ''b'' ''pumpfun'' ''migrate'' (example_payload ''m2'' ''p2''))]"

lemma example_migration_ops:
  "entry_ops (example_entry n (example_event i ''pumpfun'' ''migrate'' (example_payload m q))) =
     Some (project_ops (example_event i ''pumpfun'' ''migrate'' (example_payload m q)) (example_payload m q))"
proof -
  have "DecodePayload (example_event i ''pumpfun'' ''migrate'' (example_payload m q)) = Inr (example_payload m q)"
    by (rule example_decode) (simp_all add: kind_matches_def wf_payload_def example_payload_def example_event_def)
  moreover have "project_error (example_event i ''pumpfun'' ''migrate'' (example_payload m q)) (example_payload m q) = None"
    by (simp add: project_error_def Project_def example_payload_def projectPumpfunMigrate_def Let_def
        zero_PumpfunMigratePayload_def and_then_def done_ok_def recorder_def record_op_def insertActivity_def
        marshal_raw_def example_event_def)
  ultimately show ?thesis by (simp add: entry_ops_def example_entry_def)
qed

lemma example_migrations_facts:
  "row_entries False example_migrations = Inr example_entries"
  "projectable example_entries"
  "fst (for_each (store_op pg_plain) (all_ops example_entries) (example_log example_migrations)) = None"
proof -
  show "row_entries False example_migrations = Inr example_entries"
    by (simp add: example_migrations_def example_entries_def example_row_entry)
  show "projectable example_entries"
    by (simp add: projectable_def example_entries_def example_migration_ops)
  have "all_ops example_entries =
      project_ops (example_event ''a'' ''pumpfun'' ''migrate'' (example_payload ''m1'' ''p1'')) (example_payload ''m1'' ''p1'') @
      project_ops (example_event ''b'' ''pumpfun'' ''migrate'' (example_payload ''m2'' ''p2'')) (example_payload ''m2'' ''p2'')"
    by (simp add: all_ops_def example_entries_def example_migration_ops)
  moreover have "fst (for_each (store_op pg_plain) (
      project_ops (example_event ''a'' ''pumpfun'' ''migrate'' (example_payload ''m1'' ''p1'')) (example_payload ''m1'' ''p1'') @
      project_ops (example_event ''b'' ''pumpfun'' ''migrate'' (example_payload ''m2'' ''p2'')) (example_payload ''m2'' ''p2''))
      (example_log example_migrations)) = None" by code_simp
  ultimately show "fst (for_each (store_op pg_plain) (all_ops example_entries) (example_log example_migrations)) = None"
    by simp
qed

definition example_runner :: "Db Runner" where
  "example_runner = (NewRunner ''core'' event_log_reader (Some (batch_store pg_plain)))\<lparr>rn_batchSize := 1\<rparr>"

lemma example_replays [simp]: "replays pg_plain ''core'' example_runner"
  by (simp add: replays_def example_runner_def NewRunner_def)

lemma example_log_facts:
  "fault_free (example_log rows)" "service_events (db_tables (example_log rows)) = rows"
  by (simp_all add: example_log_def empty_db_def fault_free_def)

lemma example_migrations_inv: "log_inv (example_log example_migrations)"
  by (simp add: log_inv_def example_log_facts) (simp add: example_log_def example_migrations_def example_row_def example_event_def)

lemma ReplayFromStart_complete_witness:
  "\<exists>c. ReplayFromStart 3 example_runner (example_log example_migrations) =
     (Some (Inr (if example_entries = [] then 0 else le_LogID (last example_entries))),
      reframe c (if example_entries = []
         then projection_offsets (db_tables (example_log example_migrations))
         else AList.update ''core'' (le_LogID (last example_entries))
           (projection_offsets (db_tables (example_log example_migrations))))
        (snd (for_each (store_op pg_plain) (all_ops example_entries) (example_log example_migrations))))"
proof (rule ReplayFromStart_complete)
  show "for_each (store_op pg_plain) (all_ops example_entries) (example_log example_migrations) =
      (None, snd (for_each (store_op pg_plain) (all_ops example_entries) (example_log example_migrations)))"
    using example_migrations_facts(3) by (metis prod.collapse)
qed (simp_all add: example_log_facts example_migrations_facts example_migrations_inv, simp add: example_entries_def)

lemma ReplayBatch_atomic_witness:
  "\<exists>res s'. ReplayBatch example_runner 0 (example_log []) = (res, s') \<and>
    (db_tables s' = db_tables (example_log []) \<or> (\<exists>m>0. offset_of (db_tables s') ''core'' = m))"
proof -
  obtain res s' where b: "ReplayBatch example_runner 0 (example_log []) = (res, s')"
    by (cases "ReplayBatch example_runner 0 (example_log [])")
  have r: "rn_reader example_runner = event_log_reader" "rn_name example_runner = ''core''"
    by (simp_all add: example_runner_def NewRunner_def)
  show ?thesis using ReplayBatch_atomic [OF r(1) b] b r(2) by auto
qed

lemma ReplayBatch_poisoned_witness:
  "\<exists>e s'. ReplayBatch example_runner 0
      (example_log [example_row 1 (example_event ''a'' [] [] (example_payload ''m1'' ''p1'')) (example_payload ''m1'' ''p1'')]) = (Inl e, s') \<and>
    db_tables s' = db_tables (example_log [example_row 1 (example_event ''a'' [] [] (example_payload ''m1'' ''p1'')) (example_payload ''m1'' ''p1'')])"
proof (rule ReplayBatch_poisoned [OF example_replays _ _ example_row_entry])
  let ?row = "example_row 1 (example_event ''a'' [] [] (example_payload ''m1'' ''p1'')) (example_payload ''m1'' ''p1'')"
  show "log_inv (example_log [?row])" by (simp add: log_inv_def example_log_facts) (simp add: example_log_def example_row_def)
  show "rows_after 0 (db_tables (example_log [?row])) = [?row]"
    by (simp add: rows_after_def example_log_facts) (simp add: example_row_def)
  show "entry_ops (example_entry 1 (example_event ''a'' [] [] (example_payload ''m1'' ''p1''))) = None"
    by (simp add: entry_ops_def example_entry_def example_event_def DecodePayload_def Let_def)
qed

lemma batch_store_as_direct_witness:
  "\<exists>s'. replay_tx (batch_store pg_plain) example_entries done_ok (example_log example_migrations) = (None, s') \<and>
     replay_tx (direct_store pg_plain) example_entries done_ok (example_log example_migrations) = (None, s')"
proof -
  obtain s' where "for_each (store_op pg_plain) (all_ops example_entries) (example_log example_migrations) = (None, s')"
    using example_migrations_facts(3) by (metis prod.collapse)
  then have "replay_tx (direct_store pg_plain) example_entries done_ok (example_log example_migrations) = (None, s')"
    by (simp add: replay_tx_direct example_migrations_facts(2) and_then_ok_iff done_ok_def)
  then show ?thesis using batch_store_as_direct [OF example_log_facts(1)] by blast
qed

end
