(* ===== verification/Consumer.thy ===== *)
theory Consumer
  imports Ingest Runner
begin

text \<open>
  internal/jetstream/consumer.go: a message is decoded, handed to the ingest service, and
  acknowledged, or negatively acknowledged (and redelivered) on any error. Decoding the bytes of
  a message is proto.Unmarshal of the protobuf library, an argument here.
\<close>

type_synonym proto_unmarshal = "string \<Rightarrow> pbEventEnvelope res"

definition handleMessage ::
    "proto_unmarshal \<Rightarrow> 's event_inserter \<Rightarrow> string \<Rightarrow> Hub \<Rightarrow> 's \<Rightarrow> gerror option \<times> (chan_panic + Hub) \<times> 's" where
  "handleMessage unmarshal ins data hub s = (case unmarshal data of
      Inl e \<Rightarrow> (Some (ErrWrap ''unmarshal protobuf event'' e), Inr hub, s)
    | Inr protoEvent \<Rightarrow> (case DecodedEnvelopeFromProto (Some protoEvent) of
        Inl e \<Rightarrow> (Some (ErrWrap ''convert protobuf event'' e), Inr hub, s)
      | Inr decoded \<Rightarrow> (case HandleDecodedEvent ins decoded hub s of
          (e, h, s') \<Rightarrow> (map_option (ErrWrap ''handle event'') e, h, s'))))"

datatype ack = Ack | Nak

text \<open>The loop over the messages of one fetch.\<close>

fun consume ::
    "proto_unmarshal \<Rightarrow> 's event_inserter \<Rightarrow> string list \<Rightarrow> Hub \<Rightarrow> 's \<Rightarrow> chan_panic + ack list \<times> Hub \<times> 's" where
  "consume unmarshal ins [] hub s = Inr ([], hub, s)"
| "consume unmarshal ins (m # ms) hub s = (case handleMessage unmarshal ins m hub s of
      (_, Inl p, _) \<Rightarrow> Inl p
    | (err, Inr hub', s') \<Rightarrow> (case consume unmarshal ins ms hub' s' of
        Inl p \<Rightarrow> Inl p
      | Inr (acks, hub'', s'') \<Rightarrow> Inr ((if err = None then Ack else Nak) # acks, hub'', s'')))"

text \<open>
  Run: what connecting, finding or adding the stream and subscribing give (the error, if any), and
  what each Fetch gives until the context is cancelled (the end of the list).
\<close>

record nats_client =
  nc_Connect :: "gerror option"
  nc_JetStream :: "gerror option"
  nc_StreamInfo :: "gerror option"
  nc_AddStream :: "gerror option"
  nc_PullSubscribe :: "gerror option"

datatype fetch_result = FetchTimeout | FetchFailed gerror | Fetched "string list"

definition ensureStream :: "nats_client \<Rightarrow> gerror option" where
  "ensureStream nc = (case nc_StreamInfo nc of None \<Rightarrow> None
     | Some _ \<Rightarrow> map_option (ErrWrap ''ensure jetstream stream'') (nc_AddStream nc))"

fun fetch_loop ::
    "proto_unmarshal \<Rightarrow> 's event_inserter \<Rightarrow> fetch_result list \<Rightarrow> Hub \<Rightarrow> 's \<Rightarrow>
       chan_panic + gerror option \<times> ack list \<times> Hub \<times> 's" where
  "fetch_loop unmarshal ins [] hub s = Inr (None, [], hub, s)"
| "fetch_loop unmarshal ins (FetchTimeout # fs) hub s = fetch_loop unmarshal ins fs hub s"
| "fetch_loop unmarshal ins (FetchFailed e # fs) hub s = Inr (Some (ErrWrap ''fetch jetstream messages'' e), [], hub, s)"
| "fetch_loop unmarshal ins (Fetched ms # fs) hub s = (case consume unmarshal ins ms hub s of
      Inl p \<Rightarrow> Inl p
    | Inr (acks, hub', s') \<Rightarrow> (case fetch_loop unmarshal ins fs hub' s' of
        Inl p \<Rightarrow> Inl p
      | Inr (err, acks', hub'', s'') \<Rightarrow> Inr (err, acks @ acks', hub'', s'')))"

definition consumer_Run ::
    "nats_client \<Rightarrow> proto_unmarshal \<Rightarrow> 's event_inserter \<Rightarrow> fetch_result list \<Rightarrow> Hub \<Rightarrow> 's \<Rightarrow>
       chan_panic + gerror option \<times> ack list \<times> Hub \<times> 's" where
  "consumer_Run nc unmarshal ins fs hub s = (case nc_Connect nc of
      Some e \<Rightarrow> Inr (Some (ErrWrap ''connect nats'' e), [], hub, s)
    | None \<Rightarrow> (case nc_JetStream nc of
        Some e \<Rightarrow> Inr (Some (ErrWrap ''create jetstream context'' e), [], hub, s)
      | None \<Rightarrow> (case ensureStream nc of
          Some e \<Rightarrow> Inr (Some e, [], hub, s)
        | None \<Rightarrow> (case nc_PullSubscribe nc of
            Some e \<Rightarrow> Inr (Some (ErrWrap ''create pull subscription'' e), [], hub, s)
          | None \<Rightarrow> fetch_loop unmarshal ins fs hub s))))"

section \<open>Properties\<close>

text \<open>The event id of a message, when it is an event at all.\<close>

definition message_id :: "proto_unmarshal \<Rightarrow> string \<Rightarrow> string option" where
  "message_id unmarshal data = (case unmarshal data of Inl _ \<Rightarrow> None | Inr e \<Rightarrow> Some (pb_ev_EventId e))"

lemma DecodedEnvelopeFromProto_id:
  "DecodedEnvelopeFromProto (Some e) = Inr d \<Longrightarrow> ev_EventID (de_Envelope d) = pb_ev_EventId e"
  by (auto simp: DecodedEnvelopeFromProto_def envelopeMetadataFromProto_def split: sum.splits)

lemma HandleDecodedEvent_hub:
  assumes "hub_inv hub"
  shows "\<exists>e hub' s'. HandleDecodedEvent ins d hub s = (e, Inr hub', s') \<and> hub_inv hub'"
  using HandleDecodedEvent_ops [of ins d hub s] run_ops_inv [OF assms, of "publish_ops (de_Payload d) (published_event ins d s)"]
  by (metis map_sum.simps(2) snd_conv)

lemma HandleDecodedEvent_stored:
  assumes "log_inv s" "HandleDecodedEvent (InsertServiceEvent pg) d hub s = (None, h, s')"
  shows "ev_EventID (de_Envelope d) \<in> stored_ids s'"
proof -
  obtain event where event: "EnvelopeWithPayload d = Inr event" "ev_EventID event = ev_EventID (de_Envelope d)"
    using assms(2) log_store.EnvelopeWithPayload_id
    by (auto simp: HandleDecodedEvent_def split: if_splits sum.splits)
  obtain b n t where i: "InsertServiceEvent pg event s = (Inr (b, n), t)" "s' = t"
    using assms(2) event(1)
    by (auto simp: HandleDecodedEvent_def Let_def split: if_splits sum.splits prod.splits)
  show ?thesis
    using log_store.insert_inserted [OF assms(1), of pg event n t] log_store.insert_duplicate [OF assms(1), of pg event n t]
      i event(2) by (cases b) auto
qed

lemma HandleDecodedEvent_log:
  assumes "log_inv s" "HandleDecodedEvent (InsertServiceEvent pg) d hub s = (e, h, s')"
  shows "log_inv s' \<and> stored_ids s \<subseteq> stored_ids s'"
proof -
  have "s' = handle_store (InsertServiceEvent pg) d s"
    using HandleDecodedEvent_ops [of "InsertServiceEvent pg" d hub s] assms(2) by simp
  then show ?thesis using log_store.handle_store_step(1,2) [OF assms(1)] by blast
qed

lemma handleMessage_facts:
  assumes "log_inv s" "hub_inv hub"
  shows "\<exists>e hub' s'. handleMessage unmarshal (InsertServiceEvent pg) m hub s = (e, Inr hub', s') \<and>
    hub_inv hub' \<and> log_inv s' \<and> stored_ids s \<subseteq> stored_ids s' \<and>
    (e = None \<longrightarrow> (\<exists>i. message_id unmarshal m = Some i \<and> i \<in> stored_ids s'))"
proof (cases "unmarshal m")
  case (Inl e)
  then show ?thesis using assms by (simp add: handleMessage_def)
next
  case (Inr p)
  note um = Inr
  show ?thesis
  proof (cases "DecodedEnvelopeFromProto (Some p)")
    case (Inl e)
    then show ?thesis using assms um by (simp add: handleMessage_def)
  next
    case (Inr d)
    obtain e hub' s' where h: "HandleDecodedEvent (InsertServiceEvent pg) d hub s = (e, Inr hub', s')" "hub_inv hub'"
      using HandleDecodedEvent_hub [OF assms(2), of "InsertServiceEvent pg" d s] by auto
    then show ?thesis
      using um Inr HandleDecodedEvent_log [OF assms(1) h(1)] HandleDecodedEvent_stored [OF assms(1), of pg d hub _ s']
        DecodedEnvelopeFromProto_id [OF Inr]
      by (auto simp: handleMessage_def message_id_def)
  qed
qed

text \<open>The messages of one fetch.\<close>

lemma consume_acked_stored:
  assumes "log_inv s" "hub_inv hub"
  shows "\<exists>acks hub' s'. consume unmarshal (InsertServiceEvent pg) ms hub s = Inr (acks, hub', s') \<and>
    log_inv s' \<and> hub_inv hub' \<and> length acks = length ms \<and> stored_ids s \<subseteq> stored_ids s' \<and>
    list_all2 (\<lambda>m a. a = Nak \<or> (\<exists>i. message_id unmarshal m = Some i \<and> i \<in> stored_ids s')) ms acks"
  using assms
proof (induction ms arbitrary: hub s)
  case (Cons m ms)
  obtain e hub1 s1 where 1: "handleMessage unmarshal (InsertServiceEvent pg) m hub s = (e, Inr hub1, s1)"
    "hub_inv hub1" "log_inv s1" "stored_ids s \<subseteq> stored_ids s1"
    "e = None \<Longrightarrow> \<exists>i. message_id unmarshal m = Some i \<and> i \<in> stored_ids s1"
    using handleMessage_facts [OF Cons.prems] by blast
  obtain acks hub2 s2 where 2: "consume unmarshal (InsertServiceEvent pg) ms hub1 s1 = Inr (acks, hub2, s2)"
    "log_inv s2" "hub_inv hub2" "length acks = length ms" "stored_ids s1 \<subseteq> stored_ids s2"
    "list_all2 (\<lambda>m a. a = Nak \<or> (\<exists>i. message_id unmarshal m = Some i \<and> i \<in> stored_ids s2)) ms acks"
    using Cons.IH [OF 1(3,2)] by blast
  show ?case using 1 2 by auto
qed simp

fun fetched_messages :: "fetch_result list \<Rightarrow> string list" where
  "fetched_messages [] = []"
| "fetched_messages (FetchTimeout # fs) = fetched_messages fs"
| "fetched_messages (FetchFailed e # fs) = []"
| "fetched_messages (Fetched ms # fs) = ms @ fetched_messages fs"

lemma fetch_loop_acked_stored:
  assumes "log_inv s" "hub_inv hub"
  shows "\<exists>err acks hub' s'. fetch_loop unmarshal (InsertServiceEvent pg) fs hub s = Inr (err, acks, hub', s') \<and>
    log_inv s' \<and> hub_inv hub' \<and> stored_ids s \<subseteq> stored_ids s' \<and>
    list_all2 (\<lambda>m a. a = Nak \<or> (\<exists>i. message_id unmarshal m = Some i \<and> i \<in> stored_ids s')) (fetched_messages fs) acks"
  using assms
proof (induction fs arbitrary: hub s)
  case (Cons f fs)
  show ?case
  proof (cases f)
    case (Fetched ms)
    let ?acked = "\<lambda>s m a. a = Nak \<or> (\<exists>i. message_id unmarshal m = Some i \<and> i \<in> stored_ids s)"
    obtain acks hub1 s1 where 1: "consume unmarshal (InsertServiceEvent pg) ms hub s = Inr (acks, hub1, s1)"
        "log_inv s1" "hub_inv hub1" "stored_ids s \<subseteq> stored_ids s1" "list_all2 (?acked s1) ms acks"
      using consume_acked_stored [OF Cons.prems] by blast
    obtain err acks2 hub2 s2 where 2: "fetch_loop unmarshal (InsertServiceEvent pg) fs hub1 s1 = Inr (err, acks2, hub2, s2)"
        "log_inv s2" "hub_inv hub2" "stored_ids s1 \<subseteq> stored_ids s2" "list_all2 (?acked s2) (fetched_messages fs) acks2"
      using Cons.IH [OF 1(2,3)] by blast
    have "list_all2 (?acked s2) ms acks" using 1(5) 2(4) by (auto elim!: list_all2_mono)
    then have "list_all2 (?acked s2) (ms @ fetched_messages fs) (acks @ acks2)" using 2(5) by (rule list_all2_appendI)
    then show ?thesis using 1 2 Fetched by auto
  qed (use Cons in auto)
qed simp

text \<open>
  C7: no acknowledged event is lost: whatever connecting and fetching give and however the
  database fails, the consumer never panics, and the event of every message that was acknowledged
  is in the log when it ends.
\<close>

theorem consumer_Run_acked_stored:
  assumes "log_inv s" "hub_inv hub"
  shows "\<exists>err acks hub' s'. consumer_Run nc unmarshal (InsertServiceEvent pg) fs hub s = Inr (err, acks, hub', s') \<and>
    log_inv s' \<and> hub_inv hub' \<and> stored_ids s \<subseteq> stored_ids s' \<and>
    (acks = [] \<or> list_all2 (\<lambda>m a. a = Nak \<or> (\<exists>i. message_id unmarshal m = Some i \<and> i \<in> stored_ids s')) (fetched_messages fs) acks)"
  using fetch_loop_acked_stored [OF assms, of unmarshal pg fs] assms
  by (auto simp: consumer_Run_def split: option.splits)

definition unspecified_event :: pbEventEnvelope where
  "unspecified_event = \<lparr> pb_ev_SchemaVersion = 1, pb_ev_EventId = ''a'', pb_ev_Chain = 0, pb_ev_Protocol = 0,
     pb_ev_EventType = 0, pb_ev_Commitment = 0, pb_ev_Slot = 0, pb_ev_TxSignature = [], pb_ev_TxIndex = 0,
     pb_ev_InstructionPath = Some \<lparr> pb_ip_Source = 0, pb_ip_OuterIndex = 0, pb_ip_InnerIndex = None \<rparr>,
     pb_ev_EventSource = 0, pb_ev_EventUnixTs = 0, pb_ev_Refs = None, pb_ev_Payload = pb_PumpfunMigrate None \<rparr>"

lemma consumer_Run_acked_stored_witness:
  "\<exists>err acks hub' s'. consumer_Run \<lparr> nc_Connect = None, nc_JetStream = None, nc_StreamInfo = None, nc_AddStream = None,
      nc_PullSubscribe = None \<rparr> (\<lambda>_. Inr unspecified_event) (InsertServiceEvent pg_plain) [FetchTimeout, Fetched [''x'']]
      NewHub (empty_db (\<lambda>_. None)) = Inr (err, acks, hub', s') \<and>
    log_inv s' \<and> hub_inv hub' \<and> stored_ids (empty_db (\<lambda>_. None)) \<subseteq> stored_ids s' \<and>
    (acks = [] \<or> list_all2 (\<lambda>m a. a = Nak \<or> (\<exists>i. message_id (\<lambda>_. Inr unspecified_event) m = Some i \<and> i \<in> stored_ids s'))
       (fetched_messages [FetchTimeout, Fetched [''x'']]) acks)"
  by (rule consumer_Run_acked_stored) simp_all

text \<open>The row the consumer stores for it, and what the projector reads back.\<close>

definition unspecified_envelope :: Envelope where
  "unspecified_envelope = zero_Envelope\<lparr>ev_SchemaVersion := 1, ev_EventID := ''a'',
     ev_Payload := RawJson (enc_payload (PumpfunMigrate zero_PumpfunMigratePayload))\<rparr>"

definition unspecified_row :: ServiceEventRow where
  "unspecified_row = service_event_row 1 0 unspecified_envelope (enc_EventRefs zero_EventRefs)
     (enc_payload (PumpfunMigrate zero_PumpfunMigratePayload))"

lemma unspecified_decoded:
  "DecodedEnvelopeFromProto (Some unspecified_event) = Inr \<lparr> de_Envelope = unspecified_envelope\<lparr>ev_Payload := RawEmpty\<rparr>,
     de_Payload = PumpfunMigrate zero_PumpfunMigratePayload \<rparr>"
  by code_simp

lemma unspecified_payload:
  "EnvelopeWithPayload \<lparr> de_Envelope = unspecified_envelope\<lparr>ev_Payload := RawEmpty\<rparr>,
     de_Payload = PumpfunMigrate zero_PumpfunMigratePayload \<rparr> = Inr unspecified_envelope"
  by (simp add: EnvelopeWithPayload_def unspecified_envelope_def)

lemma unspecified_insert:
  "InsertServiceEvent pg_plain unspecified_envelope (empty_db (\<lambda>_. None)) =
     (Inr (True, 1), (tick (empty_db (\<lambda>_. None)))\<lparr>db_log_seq := 2, db_tables := empty_tables\<lparr>service_events := [unspecified_row]\<rparr>\<rparr>)"
  by (simp add: InsertServiceEvent_def insertServiceEventSQL_def db_query_def empty_db_def empty_tables_def int4_args_def text_args_def valid_text_def
      payload_jsonb_def pg_plain_def unspecified_envelope_def unspecified_row_def zero_Envelope_def tick_def
      fits_int4_def zero_InstructionPath_def)

lemma unspecified_row_entry: "row_entry False unspecified_row = Inr (example_entry 1 unspecified_envelope)"
proof -
  have "canonical_json (enc_EventRefs zero_EventRefs)" by code_simp
  then show ?thesis
    using row_entry_stored [OF jsonb_law_plain, of unspecified_envelope "enc_EventRefs zero_EventRefs" False 1 0
        "enc_payload (PumpfunMigrate zero_PumpfunMigratePayload)"]
    by (simp add: unspecified_row_def example_entry_def unspecified_envelope_def zero_Envelope_def pg_plain_def in_u64_def)
qed

lemma unspecified_entry_ops: "entry_ops (example_entry 1 unspecified_envelope) = None"
  by (simp add: entry_ops_def example_entry_def unspecified_envelope_def DecodePayload_def Let_def zero_Envelope_def)

lemma unspecified_event_stored:
  "\<exists>hub s. consume (\<lambda>_. Inr unspecified_event) (InsertServiceEvent pg_plain) [''x''] NewHub (empty_db (\<lambda>_. None)) =
      Inr ([Ack], hub, s) \<and> log_inv s \<and> rows_after 0 (db_tables s) = [unspecified_row] \<and> projection_offsets (db_tables s) = []"
proof -
  define s where "s = (tick (empty_db (\<lambda>_. None)))\<lparr>db_log_seq := 2, db_tables := empty_tables\<lparr>service_events := [unspecified_row]\<rparr>\<rparr>"
  have st: "handle_store (InsertServiceEvent pg_plain) \<lparr> de_Envelope = unspecified_envelope\<lparr>ev_Payload := RawEmpty\<rparr>,
     de_Payload = PumpfunMigrate zero_PumpfunMigratePayload \<rparr> (empty_db (\<lambda>_. None)) = s"
    using unspecified_insert by (simp add: handle_store_def unspecified_payload s_def)
  let ?d = "\<lparr> de_Envelope = unspecified_envelope\<lparr>ev_Payload := RawEmpty\<rparr>, de_Payload = PumpfunMigrate zero_PumpfunMigratePayload \<rparr>"
  obtain e hub s' where h: "HandleDecodedEvent (InsertServiceEvent pg_plain) ?d NewHub (empty_db (\<lambda>_. None)) = (e, Inr hub, s')"
    using HandleDecodedEvent_hub [OF hub_inv_New, of "InsertServiceEvent pg_plain" ?d "empty_db (\<lambda>_. None)"] by auto
  have "s' = s" using h HandleDecodedEvent_ops [of "InsertServiceEvent pg_plain" ?d NewHub "empty_db (\<lambda>_. None)"] st by simp
  moreover have "e = None"
    using h by (simp add: HandleDecodedEvent_def unspecified_payload unspecified_insert Let_def)
  ultimately have "consume (\<lambda>_. Inr unspecified_event) (InsertServiceEvent pg_plain) [''x''] NewHub (empty_db (\<lambda>_. None)) =
      Inr ([Ack], hub, s)"
    using h by (simp add: handleMessage_def unspecified_decoded)
  moreover have "log_inv s"
    by (simp add: log_inv_def s_def empty_tables_def) (simp add: unspecified_row_def)
  moreover have "rows_after 0 (db_tables s) = [unspecified_row]"
    by (simp add: rows_after_def s_def empty_tables_def) (simp add: unspecified_row_def)
  moreover have "projection_offsets (db_tables s) = []" by (simp add: s_def empty_tables_def)
  ultimately show ?thesis by blast
qed

text \<open>
  An event whose protocol and type are unspecified is accepted and stored, since the
  payload's own kind is all the consumer looks at, and then stops every projector: the batch
  that starts with it fails and changes nothing.
\<close>

lemma unspecified_event_stops_projector:
  "\<exists>hub' s'. consume (\<lambda>_. Inr unspecified_event) (InsertServiceEvent pg_plain) [''x''] NewHub (empty_db (\<lambda>_. None)) =
      Inr ([Ack], hub', s') \<and>
    (\<exists>e s''. ReplayBatch example_runner 0 s' = (Inl e, s'') \<and> db_tables s'' = db_tables s')"
proof -
  obtain hub s where c: "consume (\<lambda>_. Inr unspecified_event) (InsertServiceEvent pg_plain) [''x''] NewHub (empty_db (\<lambda>_. None)) =
      Inr ([Ack], hub, s)" and s: "log_inv s" "rows_after 0 (db_tables s) = [unspecified_row]"
    using unspecified_event_stored by blast
  have "ReplayBatch example_runner 0 s = (Inl e, s') \<Longrightarrow> db_tables s' = db_tables s \<Longrightarrow> ?thesis" for e s'
    using c by blast
  then show ?thesis
    using ReplayBatch_undecodable [OF example_replays s unspecified_row_entry] unspecified_entry_ops by blast
qed

end
