(* ===== verification/Gateway.thy ===== *)
theory Gateway
  imports WsReplay Serving Consumer
begin

text \<open>
  The HTTP handlers on the database: what the laws of the queries mean for every response, a
  client that pages through the activity of a token, and ingesting over HTTP.
\<close>

section \<open>Routes\<close>

datatype Route =
    RouteTokens | RouteSearch | RouteDetail | RouteEvents | RouteCandles | RouteActivity | RouteTrades

fun serve :: "'s Handler \<Rightarrow> Route \<Rightarrow> HttpRequest \<Rightarrow> 's http" where
  "serve h RouteTokens r = http_ListTokens h r"
| "serve h RouteSearch r = http_SearchTokens h r"
| "serve h RouteDetail r = http_GetTokenDetail h r"
| "serve h RouteEvents r = ListTokenEvents h r"
| "serve h RouteCandles r = ListTokenCandles h r"
| "serve h RouteActivity r = ListTokenActivity h r"
| "serve h RouteTrades r = ListTokenTrades h r"

definition db_handler :: "Server \<Rightarrow> Db Handler" where
  "db_handler sr = NewHandler (InsertServiceEvent (sr_pg sr)) (Some (service_query (db_service sr)))"

section \<open>The laws of the queries\<close>

fun body_items :: "Body \<Rightarrow> nat" where
  "body_items (EventsBody mint n es) = length es"
| "body_items (TokensBody n view window items) = length items"
| "body_items (SearchBody q n items) = length items"
| "body_items (TradesBody mint n ts) = length ts"
| "body_items (CandlesBody mint r n cs) = length cs"
| "body_items (ActivityBody mint n hasMore cursor as) = length as"
| "body_items (DetailBody d) = length (td_Markets d) + length (td_RecentTrades d) + length (td_RecentEvents d)"
| "body_items b = 0"

fun route_max :: "Route \<Rightarrow> nat" where
  "route_max RouteSearch = 20"
| "route_max RouteCandles = 2000"
| "route_max RouteDetail = 50"
| "route_max r = 500"

text \<open>A handler that responds, with at most n items.\<close>

definition answers_within :: "nat \<Rightarrow> 's http \<Rightarrow> 's \<Rightarrow> bool" where
  "answers_within n f s \<longleftrightarrow> (\<exists>resp s'. f s = (Some resp, s') \<and> body_items (rs_Body resp) \<le> n)"

lemma within_error: "answers_within n (reply (http_Error m k)) s"
  by (simp add: answers_within_def reply_def http_Error_def)

lemma within_guards:
  "answers_within n f s \<Longrightarrow> answers_within n (on_get r f) s"
  "hd_eventQuery h = Some q \<Longrightarrow> answers_within n (g q) s \<Longrightarrow> answers_within n (with_query h m g) s"
  "(\<And>mint. answers_within n (k mint) s) \<Longrightarrow> answers_within n (with_mint r k) s"
  by (simp_all add: on_get_def with_query_def with_mint_def within_error)

lemma within_param: "(\<And>a. v = Inr a \<Longrightarrow> answers_within n (f a) s) \<Longrightarrow> answers_within n (bad_request_or v f) s"
  by (cases v) (simp_all add: bad_request_or_def within_error)

lemma within_answer:
  assumes "\<And>a s'. f s = (Inr a, s') \<Longrightarrow> body_items (body a) \<le> n" "\<And>e. body_items (rs_Body (failed e)) \<le> n"
  shows "answers_within n (answer f failed body) s"
proof (cases "f s")
  case (Pair v s')
  then show ?thesis using assms by (cases v) (simp_all add: answers_within_def answer_def json_response_def)
qed

text \<open>What the handlers rely on: a query keeps to its limit, and only the detail may panic.\<close>

locale bounded_query =
  fixes q :: "'s eventQuery"
  assumes tokens_bound: "eq_ListTokens q opts s = (Inr xs, s') \<Longrightarrow> 0 < lo_Limit opts \<Longrightarrow> int (length xs) \<le> lo_Limit opts"
    and search_bound: "eq_SearchTokens q text n s = (Inr ys, s') \<Longrightarrow> 0 < n \<Longrightarrow> int (length ys) \<le> n"
    and events_bound: "eq_ListServiceEventsByMint q mint n s = (Inr es, s') \<Longrightarrow> 0 < n \<Longrightarrow> int (length es) \<le> n"
    and trades_bound: "eq_ListTradesByMint q mint n s = (Inr ts, s') \<Longrightarrow> 0 < n \<Longrightarrow> int (length ts) \<le> n"
    and candles_bound: "eq_ListCandlesByMint q mint resolution n before s = (Inr cs, s') \<Longrightarrow> 0 < n \<Longrightarrow> int (length cs) \<le> n"
    and activity_bound: "eq_ListActivityPageByMint q mint n cursor s = (Inr page, s') \<Longrightarrow> 0 < n \<Longrightarrow> int (length (qp_Activity page)) \<le> n"
    and detail_returns: "fst (eq_GetTokenDetail q mint s) \<noteq> None"
    and detail_bound: "eq_GetTokenDetail q mint s = (Some (Inr d), s') \<Longrightarrow>
      length (td_Markets d) + length (td_RecentTrades d) + length (td_RecentEvents d) \<le> 50"
begin

lemma limit_range: "parseListLimit r d m = Inr n \<Longrightarrow> 0 < d \<Longrightarrow> d \<le> m \<Longrightarrow> 0 < n \<and> n \<le> m"
  by (auto simp: parseListLimit_def Let_def split: if_splits option.splits)

lemma within_detail: "hd_eventQuery h = Some q \<Longrightarrow> answers_within 50 (http_GetTokenDetail h r) s"
  unfolding http_GetTokenDetail_def
proof (intro within_guards)
  fix mint
  obtain v s' where "eq_GetTokenDetail q mint s = (Some v, s')"
    using detail_returns [of mint s] by (cases "eq_GetTokenDetail q mint s") auto
  then show "answers_within 50 (\<lambda>s. case eq_GetTokenDetail q mint s of
       (None, s') \<Rightarrow> (None, s')
     | (Some (Inl e), s') \<Rightarrow>
         (Some (if errors_Is e ErrTokenNotFound then http_Error ''token not found'' 404
                else http_Error ''failed to get token detail'' 500), s')
     | (Some (Inr detail), s') \<Rightarrow> (Some (json_response (DetailBody detail)), s')) s"
    using detail_bound [of mint s] by (cases v) (auto simp: answers_within_def json_response_def http_Error_def)
qed

lemma serve_bounded:
  assumes "hd_eventQuery h = Some q"
  shows "answers_within (route_max route) (serve h route r) s"
proof (cases route)
  case RouteTokens
  have b: "length xs \<le> 500" if "parseListLimit r 100 500 = Inr n" "eq_ListTokens q \<lparr>lo_Limit = n, lo_View = v, lo_Window = w\<rparr> s = (Inr xs, s')"
    for n v w xs s'
    using tokens_bound [OF that(2)] limit_range [OF that(1)] by simp
  show ?thesis
    unfolding RouteTokens serve.simps route_max.simps http_ListTokens_def Let_def
    by (intro within_guards(1,3) within_guards(2) [OF assms] within_param within_answer) (auto simp: http_Error_def intro: b)
next
  case RouteSearch
  have b: "length xs \<le> 20" if "parseListLimit r 8 20 = Inr n" "eq_SearchTokens q t n s = (Inr xs, s')" for n t xs s'
    using search_bound [OF that(2)] limit_range [OF that(1)] by simp
  show ?thesis
    unfolding RouteSearch serve.simps route_max.simps http_SearchTokens_def Let_def
    by (intro within_guards(1,3) within_guards(2) [OF assms] within_param within_answer) (auto simp: http_Error_def intro: b)
next
  case RouteDetail
  then show ?thesis using within_detail [OF assms] by simp
next
  case RouteEvents
  have b: "length xs \<le> 500" if "parseListLimit r 100 500 = Inr n" "eq_ListServiceEventsByMint q mint n s = (Inr xs, s')"
    for n mint xs s'
    using events_bound [OF that(2)] limit_range [OF that(1)] by simp
  show ?thesis
    unfolding RouteEvents serve.simps route_max.simps ListTokenEvents_def Let_def
    by (intro within_guards(1,3) within_guards(2) [OF assms] within_param within_answer) (auto simp: http_Error_def intro: b)
next
  case RouteCandles
  have b: "length xs \<le> 2000"
    if "parseListLimit r 300 2000 = Inr n" "eq_ListCandlesByMint q mint resolution n before s = (Inr xs, s')"
    for n mint resolution before xs s'
    using candles_bound [OF that(2)] limit_range [OF that(1)] by simp
  show ?thesis
    unfolding RouteCandles serve.simps route_max.simps ListTokenCandles_def Let_def
    by (intro within_guards(1,3) within_guards(2) [OF assms] within_param within_answer) (auto simp: http_Error_def intro: b)
next
  case RouteActivity
  have b: "length (qp_Activity page) \<le> 500"
    if "parseListLimit r 100 500 = Inr n" "eq_ListActivityPageByMint q mint n cursor s = (Inr page, s')" for n mint cursor page s'
    using activity_bound [OF that(2)] limit_range [OF that(1)] by simp
  show ?thesis
    unfolding RouteActivity serve.simps route_max.simps ListTokenActivity_def Let_def
    by (intro within_guards(1,3) within_guards(2) [OF assms] within_param within_answer) (auto simp: http_Error_def intro: b)
next
  case RouteTrades
  have b: "length xs \<le> 500" if "parseListLimit r 100 500 = Inr n" "eq_ListTradesByMint q mint n s = (Inr xs, s')" for n mint xs s'
    using trades_bound [OF that(2)] limit_range [OF that(1)] by simp
  show ?thesis
    unfolding RouteTrades serve.simps route_max.simps ListTokenTrades_def Let_def
    by (intro within_guards(1,3) within_guards(2) [OF assms] within_param within_answer) (auto simp: http_Error_def intro: b)
qed

end

section \<open>The database keeps them\<close>

lemma sql_limit_length: "sql_limit n xs = Inr ys \<Longrightarrow> int (length ys) \<le> n"
  by (auto simp: sql_limit_def split: if_splits)

lemma res_map_length: "res_map f xs = Inr ys \<Longrightarrow> length ys = length xs"
  by (simp add: res_map_Inr list_all2_lengthD)

text \<open>A statement whose rows keep to the limit, read row by row.\<close>

lemma db_rows:
  assumes "db_read f s = (Inr rows, s')"
  shows "f (db_tables s) = Inr rows"
  using db_read_ok [of f s rows] assms by simp

lemma ListTokenBoardRows_length:
  "ListTokenBoardRows pg pn query s = (Inr rows, s') \<Longrightarrow> int (length rows) \<le> bq_Limit query"
  by (auto simp: ListTokenBoardRows_def listTokenBoardRowsSQL_def res_bind_Inr
      split: prod.splits sum.splits dest!: db_rows sql_limit_length)

lemma SearchTokenSnapshots_length: "SearchTokenSnapshots text n s = (Inr rows, s') \<Longrightarrow> int (length rows) \<le> n"
  by (auto simp: SearchTokenSnapshots_def searchTokenSnapshotsSQL_def split: prod.splits sum.splits dest!: db_rows sql_limit_length)

lemma ListServiceEventsByMint_length: "ListServiceEventsByMint mint n s = (Inr es, s') \<Longrightarrow> int (length es) \<le> n"
  by (auto simp: ListServiceEventsByMint_def list_events_def listServiceEventsByMintSQL_def scanServiceEvents_def map_sum_def
      split: prod.splits sum.splits dest!: db_rows sql_limit_length row_entries_length)

lemma ListTradeEventsByMint_length: "ListTradeEventsByMint mint n s = (Inr ts, s') \<Longrightarrow> int (length ts) \<le> n"
  by (auto simp: ListTradeEventsByMint_def listTokenTradeEventsByMintSQL_def split: prod.splits sum.splits dest!: db_rows sql_limit_length)

lemma ListCandlesByMint_length: "ListCandlesByMint pg pn views mint r n before s = (Inr cs, s') \<Longrightarrow> int (length cs) \<le> n"
  by (auto simp: ListCandlesByMint_def listTokenCandlesByMintSQL_def res_bind_Inr
      split: prod.splits sum.splits dest!: db_rows sql_limit_length res_map_length)

lemma ListActivityEventsPageByMint_length:
  "ListActivityEventsPageByMint mint n cursor s = (Inr page, s') \<Longrightarrow> 0 < n \<Longrightarrow> int (length (page_Items page)) \<le> n"
  by (auto simp: ListActivityEventsPageByMint_def Let_def split: prod.splits sum.splits if_splits)

lemma ListTokenMarketsByMint_length: "ListTokenMarketsByMint mint n s = (Inr ms, s') \<Longrightarrow> int (length ms) \<le> n"
  by (auto simp: ListTokenMarketsByMint_def listTokenMarketsByMintSQL_def split: prod.splits sum.splits dest!: db_rows sql_limit_length)

lemma and_use_Inr: "and_use f g s = (Inr b, s') \<Longrightarrow> \<exists>a t. f s = (Inr a, t) \<and> g a t = (Inr b, s')"
  by (auto simp: and_use_def split: prod.splits sum.splits)

lemma map_prod_Some: "map_prod Some id p = (Some v, t) \<longleftrightarrow> p = (v, t)"
  by (cases p) simp

lemma wrapped_Inr: "wrapped m f s = (Inr b, s') \<longleftrightarrow> f s = (Inr b, s')"
  by (auto simp: wrapped_def split: prod.splits sum.splits)

lemma requireTokenSnapshot_model: "requireTokenSnapshot (db_service sr) mint s = (Inr (m, sn), s') \<Longrightarrow> m = db_read_model sr"
  by (auto simp: requireTokenSnapshot_def with_model_def call_simps split: prod.splits sum.splits option.splits)

lemma service_query_sel [call_simps]:
  "eq_ListTokens (service_query sv) = Query.ListTokens sv" "eq_SearchTokens (service_query sv) = Query.SearchTokens sv"
  "eq_ListServiceEventsByMint (service_query sv) = query_ListServiceEventsByMint sv"
  "eq_ListTradesByMint (service_query sv) = ListTradesByMint sv"
  "eq_ListCandlesByMint (service_query sv) = query_ListCandlesByMint sv"
  "eq_ListActivityPageByMint (service_query sv) = query_ListActivityPageByMint sv"
  "eq_GetTokenDetail (service_query sv) = Query.GetTokenDetail sv"
  by (simp_all add: service_query_def)

lemma db_lists [call_simps]:
  "rm_ListTokenBoardRows (db_read_model sr) = ListTokenBoardRows (sr_pg sr) (sr_num sr)"
  "rm_SearchTokenSnapshots (db_read_model sr) = SearchTokenSnapshots"
  "rm_ListCandlesByMint (db_read_model sr) = ListCandlesByMint (sr_pg sr) (sr_num sr) (sr_candles sr)"
  by (simp_all add: db_read_model_def)

interpretation db_queries: bounded_query "service_query (db_service sr)" for sr
proof
  fix opts xs s s'
  assume "eq_ListTokens (service_query (db_service sr)) opts s = (Inr xs, s')" "0 < lo_Limit opts"
  then show "int (length xs) \<le> lo_Limit opts"
    by (auto simp: Query.ListTokens_def with_model_def service_query_sel db_service_sel db_lists wrapped_Inr give_def refuse_def
        split: sum.splits if_splits dest!: and_use_Inr ListTokenBoardRows_length)
next
  fix words n ys s s'
  assume "eq_SearchTokens (service_query (db_service sr)) words n s = (Inr ys, s')" "0 < n"
  then show "int (length ys) \<le> n"
    by (auto simp: Query.SearchTokens_def with_model_def Let_def service_query_sel db_service_sel db_lists wrapped_Inr give_def
        split: if_splits dest!: and_use_Inr SearchTokenSnapshots_length)
next
  fix mint n es s s'
  assume "eq_ListServiceEventsByMint (service_query (db_service sr)) mint n s = (Inr es, s')" "0 < n"
  then show "int (length es) \<le> n"
    by (auto simp: query_ListServiceEventsByMint_def service_query_sel db_service_sel db_read_model_sel dest: ListServiceEventsByMint_length)
next
  fix mint n ts s s'
  assume "eq_ListTradesByMint (service_query (db_service sr)) mint n s = (Inr ts, s')" "0 < n"
  then show "int (length ts) \<le> n"
    by (auto simp: ListTradesByMint_def service_query_sel db_read_model_sel wrapped_Inr give_def clampLimit_def
        dest!: and_use_Inr requireTokenSnapshot_model ListTradeEventsByMint_length)
next
  fix mint resolution n before cs s s'
  assume "eq_ListCandlesByMint (service_query (db_service sr)) mint resolution n before s = (Inr cs, s')" "0 < n"
  then show "int (length cs) \<le> n"
    by (auto simp: query_ListCandlesByMint_def with_model_def service_query_sel db_service_sel db_lists wrapped_Inr give_def refuse_def
        split: sum.splits if_splits dest!: and_use_Inr ListCandlesByMint_length)
next
  fix mint n cursor page s s'
  assume "eq_ListActivityPageByMint (service_query (db_service sr)) mint n cursor s = (Inr page, s')" "0 < n"
  then show "int (length (qp_Activity page)) \<le> n"
    by (auto simp: query_ListActivityPageByMint_def Let_def service_query_sel db_read_model_sel wrapped_Inr give_def clampLimit_def
        dest!: and_use_Inr requireTokenSnapshot_model ListActivityEventsPageByMint_length)
next
  fix mint s
  show "fst (eq_GetTokenDetail (service_query (db_service sr)) mint s) \<noteq> None"
    by (auto simp: Query.GetTokenDetail_def service_query_sel db_service_sel split: prod.splits sum.splits)
next
  fix mint d s s'
  assume "eq_GetTokenDetail (service_query (db_service sr)) mint s = (Some (Inr d), s')"
  then show "length (td_Markets d) + length (td_RecentTrades d) + length (td_RecentEvents d) \<le> 50"
    by (auto simp: Query.GetTokenDetail_def service_query_sel db_service_sel db_read_model_sel wrapped_Inr give_def map_prod_Some split: prod.splits sum.splits
        dest!: and_use_Inr requireTokenSnapshot_model ListTokenMarketsByMint_length ListTradeEventsByMint_length ListServiceEventsByMint_length)
qed

section \<open>Paging through activity\<close>

text \<open>A client of the activity route: it sends the cursor of a page back with the next request.\<close>

definition activity_request :: "string \<Rightarrow> int \<Rightarrow> TokenActivityCursor option \<Rightarrow> HttpRequest" where
  "activity_request mint limit cursor = \<lparr> rq_Method = ''GET'', rq_mint = mint,
     rq_Query = (''limit'', int_to_string limit) # (case cursor of
       None \<Rightarrow> []
     | Some c \<Rightarrow> [(''before_time'', int_to_string (qc_EventUnixTS c)), (''before_slot'', int_to_string (qc_Slot c)),
                  (''before_seq'', int_to_string (qc_InsertSeq c))]),
     rq_Body = RawEmpty \<rparr>"

fun read_activity :: "nat \<Rightarrow> 's Handler \<Rightarrow> string \<Rightarrow> int \<Rightarrow> TokenActivityCursor option \<Rightarrow> 's \<Rightarrow> TokenActivity list option \<times> 's" where
  "read_activity 0 h mint limit cursor s = (None, s)"
| "read_activity (Suc n) h mint limit cursor s = (case serve h RouteActivity (activity_request mint limit cursor) s of
      (Some resp, s') \<Rightarrow> (case rs_Body resp of
        ActivityBody m k hasMore nextCursor items \<Rightarrow>
          (if hasMore \<and> nextCursor \<noteq> None
           then (case read_activity n h mint limit nextCursor s' of (rest, s'') \<Rightarrow> (map_option ((@) items) rest, s''))
           else (Some items, s'))
      | _ \<Rightarrow> (None, s'))
    | (None, s') \<Rightarrow> (None, s'))"

text \<open>The cursor texts are read back as the cursor.\<close>

lemma int_to_string_ne [simp]: "int_to_string i \<noteq> []"
  by (simp add: int_to_string_def)

lemma ParseUint64_int [simp]: "in_u64 i \<Longrightarrow> ParseUint64 (int_to_string i) = Some i"
  using ParseUint64_to_string [of i] by (auto simp: int_to_string_def in_u64_def)

definition wire_cursor :: "TokenActivityCursor \<Rightarrow> bool" where
  "wire_cursor c \<longleftrightarrow> in_i64 (qc_EventUnixTS c) \<and> in_u64 (qc_Slot c) \<and> in_i64 (qc_InsertSeq c)"

lemma parse_activity_request:
  "pred_option wire_cursor cursor \<Longrightarrow> parseActivityCursor (activity_request mint limit cursor) = Inr cursor"
  by (cases cursor) (simp_all add: parseActivityCursor_def activity_request_def query_get_def wire_cursor_def)

lemma parse_request_limit:
  "0 < limit \<Longrightarrow> in_i64 limit \<Longrightarrow> parseListLimit (activity_request mint limit cursor) d m = Inr (min limit m)"
  by (simp add: parseListLimit_def activity_request_def query_get_def Atoi_def)

lemma activity_request_sel [simp]:
  "rq_Method (activity_request mint limit cursor) = ''GET''" "rq_mint (activity_request mint limit cursor) = mint"
  by (simp_all add: activity_request_def)

text \<open>One page: the cursor is a position in the rows of the mint, as in the store.\<close>

definition query_cursor :: "ActivityEventCursor \<Rightarrow> TokenActivityCursor" where
  "query_cursor c = \<lparr> qc_EventUnixTS = cur_EventUnixTS c, qc_Slot = cur_Slot c, qc_InsertSeq = cur_InsertSeq c \<rparr>"

lemma store_cursor: "map_option (\<lambda>c. \<lparr>cur_EventUnixTS = qc_EventUnixTS c, cur_Slot = qc_Slot c, cur_InsertSeq = qc_InsertSeq c\<rparr>)
    (map_option query_cursor c) = c"
  by (cases c) (simp_all add: query_cursor_def)

lemma LoadProjectionCheckpoint_run: "fault_free s \<Longrightarrow> \<exists>n. LoadProjectionCheckpoint name s = (Inr n, tick s)"
  by (auto simp: LoadProjectionCheckpoint_def db_read_fault_free split: option.splits)

lemma query_page:
  assumes "fault_free s" "map_of (tokens (db_tables s)) mint = Some tk"
    "ListActivityEventsPageByMint mint limit c (tick (tick s)) = (Inr page, s')" "0 < limit"
    "sn = scanTokenSnapshot tk (map_of (token_metadata_current (db_tables s)) (tk_mint tk))"
  shows "\<exists>n. query_ListActivityPageByMint (db_service sr) mint limit (map_option query_cursor c) s = (Inr \<lparr>
      qp_Activity = map (buildTokenActivity sn) (page_Items page), qp_HasMore = page_HasMore page,
      qp_NextCursor = map_option query_cursor (page_NextCursor page), qp_SnapshotLogID = n \<rparr>, s')"
proof -
  obtain n where n: "LoadProjectionCheckpoint ''token_read_model'' (tick s) = (Inr n, tick (tick s))"
    using LoadProjectionCheckpoint_run [of "tick s"] assms(1) by auto
  have "query_cursor = (\<lambda>c. \<lparr> qc_EventUnixTS = cur_EventUnixTS c, qc_Slot = cur_Slot c, qc_InsertSeq = cur_InsertSeq c \<rparr>)"
    by (rule ext) (simp add: query_cursor_def)
  then show ?thesis
    using assms(3-5) n
    by (simp add: query_ListActivityPageByMint_def call_simps snapshot_run [OF assms(1,2)] store_cursor
        snapshot_log_id_def clampLimit_def Let_def)
qed

definition shown :: "Db \<Rightarrow> TokenRow \<Rightarrow> ActivityRow \<Rightarrow> TokenActivity" where
  "shown s tk r = buildTokenActivity (scanTokenSnapshot tk (map_of (token_metadata_current (db_tables s)) (tk_mint tk))) (scanActivityEvent r)"

text \<open>What the columns hold fits their types, the times are whole seconds, and no price is infinite.\<close>

definition feed_ok :: "string \<Rightarrow> TokenRow \<Rightarrow> Db \<Rightarrow> bool" where
  "feed_ok mint tk s \<longleftrightarrow> fault_free s \<and> activity_inv s \<and> whole_seconds mint (db_tables s) \<and>
     map_of (tokens (db_tables s)) mint = Some tk \<and>
     (\<forall>r\<in>set (activity_rows mint (db_tables s)). in_i64 (epoch_bigint (ac_event_time r)) \<and> in_i64 (ac_insert_seq r) \<and>
        activity_marshalable (shown s tk r))"

lemma tick_tables [simp]: "db_tables (tick s) = db_tables s"
  by (simp add: tick_def)

lemma activity_inv_tick [simp]: "activity_inv (tick s) = activity_inv s"
  by (simp add: activity_inv_def tick_def)

lemma feed_ok_tick [simp]: "feed_ok mint tk (tick s) = feed_ok mint tk s"
  by (simp add: feed_ok_def shown_def)

lemma cursor_at_wire:
  assumes "feed_ok mint tk s" "m \<le> length (activity_rows mint (db_tables s))"
  shows "pred_option wire_cursor (map_option query_cursor (cursor_at (activity_rows mint (db_tables s)) m))"
proof (cases "m = 0")
  case False
  then have "activity_rows mint (db_tables s) ! (m - 1) \<in> set (activity_rows mint (db_tables s))" using assms(2) by simp
  then show ?thesis
    using assms(1) False by (simp add: cursor_at_def Let_def query_cursor_def wire_cursor_def feed_ok_def in_u64_def u64_def)
qed (simp add: cursor_at_def)

lemma serve_page:
  assumes "feed_ok mint tk s" "mint \<noteq> []" "0 < limit" "in_i64 limit" "m \<le> length xs" "xs = activity_rows mint (db_tables s)"
    "k = nat (min limit 500)"
  shows "\<exists>resp. serve (db_handler sr) RouteActivity (activity_request mint limit (map_option query_cursor (cursor_at xs m))) s =
      (Some resp, tick (tick (tick s))) \<and>
    rs_Body resp = ActivityBody mint (int (length (take k (drop m xs)))) (m + k < length xs)
      (if m + k < length xs then map_option query_cursor (cursor_at xs (m + k)) else None) (map (shown s tk) (take k (drop m xs)))"
proof -
  let ?c = "map_option query_cursor (cursor_at xs m)" and ?n = "min limit 500"
  note ok = assms(1) [unfolded feed_ok_def]
  have page: "ListActivityEventsPageByMint mint ?n (cursor_at xs m) (tick (tick s)) = (Inr \<lparr>
     page_Items = map scanActivityEvent (take k (drop m xs)), page_HasMore = (m + k < length xs),
     page_NextCursor = (if m + k < length xs then cursor_at xs (m + k) else None) \<rparr>, tick (tick (tick s)))"
    unfolding assms(7) by (rule page_at) (use ok assms(3,5,6) in simp_all)
  obtain id where q: "query_ListActivityPageByMint (db_service sr) mint ?n ?c s = (Inr \<lparr>
      qp_Activity = map (shown s tk) (take k (drop m xs)), qp_HasMore = (m + k < length xs),
      qp_NextCursor = (if m + k < length xs then map_option query_cursor (cursor_at xs (m + k)) else None),
      qp_SnapshotLogID = id \<rparr>, tick (tick (tick s)))"
    using query_page [OF _ _ page _ refl, of tk sr] ok assms(3) by (auto simp: shown_def comp_def)
  have enc: "list_all activity_marshalable (map (shown s tk) (take k (drop m xs)))"
    using ok assms(6) by (auto simp: list_all_iff dest!: in_set_takeD in_set_dropD)
  have params: "parseListLimit (activity_request mint limit ?c) 100 500 = Inr ?n"
    "parseActivityCursor (activity_request mint limit ?c) = Inr ?c"
    using parse_request_limit [OF assms(3,4)] parse_activity_request cursor_at_wire [OF assms(1)] assms(5,6) by simp_all
  show ?thesis
    using assms(2) q enc params
    by (simp add: ListTokenActivity_def on_get_def with_query_def with_mint_def bad_request_or_def answer_def
        db_handler_def NewHandler_def service_query_sel json_response_def)
qed

lemma read_activity_from:
  assumes "feed_ok mint tk s" "mint \<noteq> []" "0 < limit" "in_i64 limit" "m \<le> length xs" "xs = activity_rows mint (db_tables s)"
    "length xs - m < n"
  shows "fst (read_activity n (db_handler sr) mint limit (map_option query_cursor (cursor_at xs m)) s) = Some (map (shown s tk) (drop m xs))"
  using assms
proof (induction n arbitrary: m s)
  case (Suc n)
  define k where "k = nat (min limit 500)"
  have k: "0 < k" using Suc.prems(3) by (simp add: k_def)
  obtain resp where resp: "serve (db_handler sr) RouteActivity (activity_request mint limit (map_option query_cursor (cursor_at xs m))) s =
      (Some resp, tick (tick (tick s)))"
    "rs_Body resp = ActivityBody mint (int (length (take k (drop m xs)))) (m + k < length xs)
      (if m + k < length xs then map_option query_cursor (cursor_at xs (m + k)) else None) (map (shown s tk) (take k (drop m xs)))"
    using serve_page [OF Suc.prems(1-6) k_def] by blast
  show ?case
  proof (cases "m + k < length xs")
    case True
    have sh: "shown (tick (tick (tick s))) tk = shown s tk" by (rule ext) (simp add: shown_def)
    have IH: "fst (read_activity n (db_handler sr) mint limit (map_option query_cursor (cursor_at xs (m + k))) (tick (tick (tick s)))) =
        Some (map (shown s tk) (drop (m + k) xs))"
      using Suc.IH [of "tick (tick (tick s))" "m + k"] Suc.prems True k by (simp add: sh)
    have c: "cursor_at xs (m + k) \<noteq> None" using k by (simp add: cursor_at_def Let_def)
    have "map (shown s tk) (take k (drop m xs)) @ map (shown s tk) (drop (m + k) xs) = map (shown s tk) (drop m xs)"
      by (metis add.commute append_take_drop_id drop_drop map_append)
    then show ?thesis
      using resp True IH c
      by (cases "read_activity n (db_handler sr) mint limit (map_option query_cursor (cursor_at xs (m + k))) (tick (tick (tick s)))")
         (simp del: serve.simps)
  next
    case False
    then show ?thesis using resp by (simp del: serve.simps)
  qed
qed simp

section \<open>Properties\<close>

lemma token_topic_trim: "HasPrefix (token_topic m) ''token:''" "TrimPrefix (token_topic m) ''token:'' = m"
  unfolding token_topic_def by (rule HasPrefix_append, rule TrimPrefix_append)

text \<open>
  C8: a client that subscribes to a token is told what was last published about it: for every
  token_stat event a sweep publishes, the snapshot of the token's topic carries the same payload
  afterwards, provided the windows are seeded, their tokens are known and no statement fails.
\<close>

theorem snapshot_repeats_published:
  assumes "Sweep (Some (db_metrics_store sr)) now order b (Some h) s = (Inr (Some h'), b', s')" "fault_free s" "distinct order"
    "\<forall>m\<in>set order. ready sr b m \<and> m \<noteq> [] \<and> m \<in> fst ` set (tokens (db_tables s))"
  shows "publish_all (sweep_events (db_metrics_store sr) now order b h s) h = Inr h' \<and>
    (\<forall>(m, e)\<in>set (sweep_events (db_metrics_store sr) now order b h s). \<exists>e' s''.
       tokenStatSnapshot (Some (service_query (db_service sr))) (token_topic m) later s' = (Some (Inr (Some e')), s'') \<and>
       ev_EventType e' = ev_EventType e \<and> ev_Payload e' = ev_Payload e)"
proof -
  let ?es = "sweep_events (db_metrics_store sr) now order b h s"
  have known: "\<forall>m\<in>set order. ready sr b m \<and> m \<in> fst ` set (tokens (db_tables s))" using assms(4) by blast
  note served = stats_served [OF assms(1-3) known, of later]
  have "\<exists>e' s''. tokenStatSnapshot (Some (service_query (db_service sr))) (token_topic m) later s' = (Some (Inr (Some e')), s'') \<and>
      ev_EventType e' = ev_EventType e \<and> ev_Payload e' = ev_Payload e" if me: "(m, e) \<in> set ?es" for m e
  proof -
    obtain p s'' where p: "m \<in> set order" "e = stat_envelope (JObj (fields_TokenStatsPayload p)) now"
        "marshal_stats p = Some (JObj (fields_TokenStatsPayload p))"
        "BuildRealtimeStatsPayload (db_service sr) m later s' = (Inr (Some p), s'')"
      using served me by blast
    have "m \<noteq> []" using p(1) assms(4) by blast
    then show ?thesis
      using p token_topic_trim [of m]
      by (simp add: tokenStatSnapshot_def service_query_def snapshot_of_def marshal_payload_def
          snapshot_envelope_def stat_envelope_def)
  qed
  then show ?thesis using served by blast
qed

lemma snapshot_repeats_published_witness:
  "\<exists>h' b' s'. let h = snd (Subscribe ''token:m'' 4 NewHub); b = setWindow ''m'' example_window NewBroadcaster;
      s = example_tokens [(''m'', example_token)]; es = sweep_events (db_metrics_store example_server) 6 [''m''] b h s in
    Sweep (Some (db_metrics_store example_server)) 6 [''m''] b (Some h) s = (Inr (Some h'), b', s') \<and>
    publish_all es h = Inr h' \<and>
    (\<forall>(m, e)\<in>set es. \<exists>e' s''.
       tokenStatSnapshot (Some (service_query (db_service example_server))) (token_topic m) 9 s' = (Some (Inr (Some e')), s'') \<and>
       ev_EventType e' = ev_EventType e \<and> ev_Payload e' = ev_Payload e)"
proof -
  let ?h = "snd (Subscribe ''token:m'' 4 NewHub)" and ?b = "setWindow ''m'' example_window NewBroadcaster"
    and ?s = "example_tokens [(''m'', example_token)]"
  obtain res b' s' where sw: "Sweep (Some (db_metrics_store example_server)) 6 [''m''] ?b (Some ?h) ?s = (res, b', s')"
    by (metis prod.collapse)
  have "hub_inv ?h" using Subscribe_spec [OF hub_inv_New, of "''token:m''" 4] by (metis prod.collapse)
  then obtain h' where h': "res = Inr (Some h')"
    using Sweep_publishes [OF _ sw] by blast
  have ff: "fault_free ?s" by (simp add: fault_free_def example_tokens_def empty_db_def)
  have "\<forall>m\<in>set [''m'']. ready example_server ?b m \<and> m \<noteq> [] \<and> m \<in> fst ` set (tokens (db_tables ?s))"
    using example_ready by (simp add: example_tokens_def)
  from snapshot_repeats_published [OF sw [unfolded h'] ff _ this, of 9] sw h' show ?thesis by (auto simp: Let_def)
qed

text \<open>
  C9: a client that follows next_cursor over HTTP reads every activity of the mint exactly once,
  newest first, whatever page size it asks for, as long as no statement fails and the times of
  the activities are whole seconds (feed_ok): the limit survives its clamping, the cursor its way
  through JSON and the query string, and the service and the store agree on what it means. (The
  cursor carries whole seconds; with finer times rows are skipped or repeated, see
  activity_pages_skip_subsecond.)
\<close>

theorem http_activity_complete:
  assumes "feed_ok mint tk s" "mint \<noteq> []" "0 < limit" "in_i64 limit" "length (activity_rows mint (db_tables s)) < n"
  shows "fst (read_activity n (db_handler sr) mint limit None s) = Some (map (shown s tk) (activity_rows mint (db_tables s)))"
proof -
  have "map_option query_cursor (cursor_at (activity_rows mint (db_tables s)) 0) = None" by (simp add: cursor_at_def)
  then show ?thesis
    using read_activity_from [OF assms(1-4), of 0 "activity_rows mint (db_tables s)" n sr] assms(5) by simp
qed

definition gateway_db :: Db where
  "gateway_db = (example_feed [example_activity 1000000 7 1, example_activity 3000000 9 2])
     \<lparr>db_tables := empty_tables\<lparr>tokens := [(''m'', example_token)],
        token_activity_events := [example_activity 1000000 7 1, example_activity 3000000 9 2]\<rparr>\<rparr>"

lemma gateway_db_ok: "feed_ok ''m'' example_token gateway_db"
proof -
  have "in_i64 (epoch_bigint 1000000)" "in_i64 (epoch_bigint 3000000)" by (simp_all add: epoch_bigint_def in_i64_def)
  then show ?thesis
    by (simp add: feed_ok_def gateway_db_def example_feed_def empty_db_def fault_free_def activity_inv_def whole_seconds_def
        activity_rows_def example_activity_def empty_tables_def shown_def activity_marshalable_def buildTokenActivity_def
        Let_def scanActivityEvent_def computeOptionalPrice_def opt_marshalable_def raw_marshalable_def marshal_raw_def in_i64_def)
qed

lemma http_activity_complete_witness:
  "fst (read_activity 3 (db_handler example_server) ''m'' 1 None gateway_db) =
     Some (map (shown gateway_db example_token) (activity_rows ''m'' (db_tables gateway_db)))"
proof (rule http_activity_complete [OF gateway_db_ok])
  show "length (activity_rows ''m'' (db_tables gateway_db)) < 3"
    by (simp add: activity_rows_def gateway_db_def example_activity_def)
qed (simp_all add: in_i64_def)

text \<open>
  C12: every query route answers every request, whatever its parameters and whatever the database
  does, and no response lists more than its route allows: 20 tokens of a search, 2000 candles, 50
  markets, trades and events of a token page, 500 of everything else.
\<close>

theorem http_answers_bounded:
  "\<exists>resp s'. serve (db_handler sr) route r s = (Some resp, s') \<and> body_items (rs_Body resp) \<le> route_max route"
  using db_queries.serve_bounded [of "db_handler sr" sr route r s]
  by (simp add: answers_within_def db_handler_def NewHandler_def)

text \<open>
  C11: an event is accepted (202) only when it is in the log, and ingesting over HTTP never
  panics; every other outcome is reported as the client's fault, a database that is down
  included.
\<close>

theorem http_accepted_stored:
  assumes "log_inv s" "hub_inv hub"
  shows "\<exists>resp hub' s'. IngestEvent (db_handler sr) r hub s = (Some resp, Inr hub', s') \<and> hub_inv hub' \<and> log_inv s' \<and>
    stored_ids s \<subseteq> stored_ids s' \<and> rs_Status resp \<in> {202, 400, 405} \<and>
    (rs_Status resp = 202 \<longrightarrow> (\<exists>event. unmarshal_struct dec_Envelope zero_Envelope (rq_Body r) = Inr event \<and>
       ev_EventID event \<noteq> [] \<and> ev_EventID event \<in> stored_ids s'))"
proof (cases "unmarshal_struct dec_Envelope zero_Envelope (rq_Body r)")
  case (Inl e)
  then show ?thesis using assms by (simp add: IngestEvent_def http_Error_def)
next
  case (Inr event)
  note um = Inr
  show ?thesis
  proof (cases "DecodeEnvelope event")
    case (Inl e)
    then show ?thesis using assms um by (simp add: IngestEvent_def http_Error_def HandleEvent_def)
  next
    case (Inr d)
    have id: "ev_EventID (de_Envelope d) = ev_EventID event"
      using Inr by (auto simp: DecodeEnvelope_def split: sum.splits)
    obtain e hub' s' where h: "HandleDecodedEvent (InsertServiceEvent (sr_pg sr)) d hub s = (e, Inr hub', s')" "hub_inv hub'"
      using HandleDecodedEvent_hub [OF assms(2), of "InsertServiceEvent (sr_pg sr)" d s] by auto
    show ?thesis
      using um Inr id h HandleDecodedEvent_log [OF assms(1) h(1)] HandleDecodedEvent_stored [OF assms(1), of "sr_pg sr" d hub _ s']
        assms
      by (cases e) (auto simp: IngestEvent_def http_Error_def HandleEvent_def db_handler_def NewHandler_def)
  qed
qed

text \<open>A migration posted to an empty server.\<close>

definition example_post :: HttpRequest where
  "example_post = \<lparr> rq_Method = ''POST'', rq_mint = [], rq_Query = [], rq_Body = RawJson (JObj [(''event_id'', JStr ''e''),
     (''protocol'', JStr ''pumpfun''), (''event_type'', JStr ''migrate''), (''payload'', JObj [])]) \<rparr>"

lemma example_post_accepted:
  "map_option rs_Status (fst (IngestEvent (db_handler example_server) example_post NewHub (empty_db (\<lambda>_. None)))) = Some 202"
  by code_simp

lemma http_accepted_stored_witness:
  "\<exists>resp hub' s' event. IngestEvent (db_handler example_server) example_post NewHub (empty_db (\<lambda>_. None)) = (Some resp, Inr hub', s') \<and>
     rs_Status resp = 202 \<and> unmarshal_struct dec_Envelope zero_Envelope (rq_Body example_post) = Inr event \<and>
     ev_EventID event \<in> stored_ids s'"
proof -
  have "log_inv (empty_db (\<lambda>_. None))" "hub_inv NewHub" by simp_all
  from http_accepted_stored [OF this, of example_server example_post] show ?thesis
    using example_post_accepted by fastforce
qed

text \<open>
  A token nobody has heard of is not found (404) for the detail route, and an internal error
  (500) for its trades and its activity, although the service reports the same error to all three.
\<close>

lemma unknown_token_statuses:
  assumes "fault_free s" "map_of (tokens (db_tables s)) mint = None" "mint \<noteq> []"
  shows "rs_Status (the (fst (serve (db_handler sr) RouteDetail (activity_request mint 1 None) s))) = 404 \<and>
    rs_Status (the (fst (serve (db_handler sr) RouteTrades (activity_request mint 1 None) s))) = 500 \<and>
    rs_Status (the (fst (serve (db_handler sr) RouteActivity (activity_request mint 1 None) s))) = 500"
proof -
  have none: "requireTokenSnapshot (db_service sr) mint s = (Inl ErrTokenNotFound, tick s)"
    using FindTokenSnapshotByMint_run [OF assms(1), of mint] assms(2)
    by (simp add: requireTokenSnapshot_def with_model_def call_simps)
  have limit: "parseListLimit (activity_request mint 1 None) 100 500 = Inr 1"
    using parse_request_limit [of 1 mint None 100 500] by (simp add: in_i64_def)
  have cursor: "parseActivityCursor (activity_request mint 1 None) = Inr None"
    using parse_activity_request [of None mint 1] by simp
  show ?thesis
    using none assms(3) limit cursor
    by (simp add: http_GetTokenDetail_def ListTokenTrades_def ListTokenActivity_def on_get_def with_query_def with_mint_def
        bad_request_or_def answer_def db_handler_def NewHandler_def call_simps Query.GetTokenDetail_def ListTradesByMint_def
        query_ListActivityPageByMint_def http_Error_def)
qed

lemma unknown_token_statuses_witness:
  "rs_Status (the (fst (serve (db_handler example_server) RouteTrades (activity_request ''x'' 1 None) gateway_db))) = 500"
  using unknown_token_statuses [of gateway_db "''x''" example_server]
  by (simp add: gateway_db_def example_feed_def empty_db_def fault_free_def empty_tables_def del: serve.simps)

end
