(* ===== verification/Pipeline.thy ===== *)
theory Pipeline
  imports Gateway
begin

text \<open>
  From the log to a client: what the projector writes into the activity of the read model, and
  what a client that pages through it over HTTP then reads.
\<close>

section \<open>The activity the projector writes\<close>

definition entry_mint :: "ServiceEventLogEntry \<Rightarrow> string" where
  "entry_mint e = (case DecodePayload (le_Event e) of Inl _ \<Rightarrow> [] | Inr p \<Rightarrow> payload_mint (le_Event e) p)"

text \<open>The row an entry of the log becomes.\<close>

definition row_of :: "Pg \<Rightarrow> ServiceEventLogEntry \<Rightarrow> ActivityRow \<Rightarrow> bool" where
  "row_of pg e r \<longleftrightarrow> ac_event_id r = ev_EventID (le_Event e) \<and> ac_mint r = entry_mint e \<and> in_i64 (ac_slot r) \<and>
     to_ts pg (unixToTimestampSeconds (ev_EventUnixTS (le_Event e))) = Inr (ac_event_time r)"

definition same_activity :: "Db \<Rightarrow> Db \<Rightarrow> bool" where
  "same_activity s s' \<longleftrightarrow> token_activity_events (db_tables s') = token_activity_events (db_tables s) \<and> db_activity_seq s' = db_activity_seq s"

lemma same_activity_exec:
  assumes "wrap_err m (db_exec f) s = (None, s')" "uniform E f" "E = state_effects \<or> E = trade_effects"
  shows "same_activity s s'"
proof -
  have "f (tick s) = Inr s'" using assms(1) by (simp add: db_exec_ok)
  then show ?thesis using assms(2,3)
    by (auto simp: uniform_def state_effects_def trade_effects_def state_effect_def trade_effect_def same_activity_def)
qed

lemma store_op_other:
  assumes "store_op pg p s = (None, s')" "wop_class p \<noteq> 2"
  shows "same_activity s s'"
proof -
  note same = same_activity_exec [OF _ uniform_token] same_activity_exec [OF _ uniform_metadata]
    same_activity_exec [OF _ uniform_market] same_activity_exec [OF _ uniform_close] same_activity_exec [OF _ uniform_trade]
  show ?thesis
    using assms same
    by (cases p rule: wop.exhaust)
       (auto simp: store_op_def apply_wop_def flush_op_def store_writer_def wop_class_def UpsertToken_def UpsertTokenMetadata_def
        UpsertTokenMarket_def CloseTokenMarket_def InsertTradeEvent_def simp del: wrap_err_ok_iff split: queuedStateOp.splits)
qed

lemma store_ops_other:
  assumes "for_each (store_op pg) ps s = (None, s')" "filter (\<lambda>p. wop_class p = 2) ps = []"
  shows "same_activity s s'"
  using assms
proof (induction ps arbitrary: s)
  case (Cons p ps)
  then obtain s1 where "store_op pg p s = (None, s1)" "for_each (store_op pg) ps s1 = (None, s')"
    by (auto simp: and_then_ok_iff)
  then show ?case using Cons store_op_other [of pg p s s1] by (auto simp: same_activity_def split: if_splits)
qed (simp add: same_activity_def done_ok_def)

lemma store_activity:
  assumes "store_op pg (WActivity a) s = (None, s')" "ae_EventID a \<notin> ac_event_id ` set (token_activity_events (db_tables s))"
  shows "\<exists>r. token_activity_events (db_tables s') = token_activity_events (db_tables s) @ [r] \<and>
    db_activity_seq s' = db_activity_seq s + 1 \<and> ac_insert_seq r = db_activity_seq s \<and> ac_event_id r = ae_EventID a \<and>
    ac_mint r = ae_Mint a \<and> in_i64 (ac_slot r) \<and> to_ts pg (unixToTimestampSeconds (ae_EventUnixTS a)) = Inr (ac_event_time r)"
proof -
  have "(case activity_details (ae_Details a) of Inl e \<Rightarrow> Inl e
      | Inr details \<Rightarrow> insertTokenActivityEventSQL pg a (unixToTimestampSeconds (ae_EventUnixTS a)) details (tick s)) = Inr s'"
    using assms(1) by (auto simp: store_op_def apply_wop_def store_writer_def InsertActivityEvent_def exec_activity_def dest: db_exec_ok)
  then show ?thesis
    using assms(2) by (auto simp: insertTokenActivityEventSQL_def Let_def image_iff split: sum.splits option.splits if_splits)
qed

text \<open>What projects ends with its activity.\<close>

lemma buildPumpAmmTrade_time: "buildPumpAmmTrade event p = Inr t \<Longrightarrow> te_EventUnixTS t = ev_EventUnixTS event"
  by (auto simp: buildPumpAmmTrade_def Let_def split: if_splits sum.splits)

lemma projection_activity:
  assumes "project_error event payload = None" "payload \<noteq> OtherPayload"
  shows "\<exists>ops a. project_ops event payload = ops @ [WActivity a] \<and> filter (\<lambda>p. wop_class p = 2) ops = [] \<and>
    ae_EventID a = ev_EventID event \<and> ae_Mint a = payload_mint event payload \<and> ae_EventUnixTS a = ev_EventUnixTS event"
proof -
  note run = Project_def projections project_error_def project_ops_def and_then_def run_recorder run_activity
    wop_class_def payload_mint_def done_ok_def fail_with_def Let_def
  show ?thesis
  proof (cases payload)
    case (PumpAmmSwap p)
    then show ?thesis using assms buildPumpAmmTrade_fields [of event p] buildPumpAmmTrade_time [of event p]
      by (auto simp: run split: sum.splits)
  qed (use assms in \<open>auto simp: run split: sum.splits if_splits\<close>)
qed

lemma entry_activity:
  assumes "entry_ops e = Some ops" "for_each (store_op pg) ops s = (None, s')"
    "ev_EventID (le_Event e) \<notin> ac_event_id ` set (token_activity_events (db_tables s))"
  shows "\<exists>r. token_activity_events (db_tables s') = token_activity_events (db_tables s) @ [r] \<and>
    db_activity_seq s' = db_activity_seq s + 1 \<and> ac_insert_seq r = db_activity_seq s \<and> row_of pg e r"
proof -
  obtain p where p: "DecodePayload (le_Event e) = Inr p" "project_error (le_Event e) p = None" "ops = project_ops (le_Event e) p"
    using assms(1) by (auto simp: entry_ops_def split: sum.splits if_splits)
  obtain ops1 a where a: "ops = ops1 @ [WActivity a]" "filter (\<lambda>p. wop_class p = 2) ops1 = []"
      "ae_EventID a = ev_EventID (le_Event e)" "ae_Mint a = payload_mint (le_Event e) p"
      "ae_EventUnixTS a = ev_EventUnixTS (le_Event e)"
    using projection_activity [OF p(2)] p(1,3) DecodePayload_not_Other by metis
  obtain s1 where s1: "for_each (store_op pg) ops1 s = (None, s1)" "store_op pg (WActivity a) s1 = (None, s')"
    using assms(2) by (auto simp: a(1) for_each_append and_then_ok_iff)
  have "same_activity s s1" by (rule store_ops_other [OF s1(1) a(2)])
  then show ?thesis
    using store_activity [OF s1(2)] assms(3) a(3-5) p(1) by (auto simp: same_activity_def row_of_def entry_mint_def)
qed

text \<open>Entries of the log with ids of their own become one row each, in order.\<close>

lemma all_activity:
  assumes "for_each (store_op pg) (all_ops es) s = (None, t)" "projectable es" "distinct (map (ev_EventID \<circ> le_Event) es)"
    "set (map (ev_EventID \<circ> le_Event) es) \<inter> ac_event_id ` set (token_activity_events (db_tables s)) = {}"
  shows "\<exists>rs. token_activity_events (db_tables t) = token_activity_events (db_tables s) @ rs \<and> list_all2 (row_of pg) es rs \<and>
    db_activity_seq t = db_activity_seq s + int (length es) \<and>
    (\<forall>i<length rs. ac_insert_seq (rs ! i) = db_activity_seq s + int i)"
  using assms
proof (induction es arbitrary: s)
  case Nil
  then show ?case by (simp add: all_ops_def done_ok_def)
next
  case (Cons e es)
  obtain ops where ops: "entry_ops e = Some ops" using Cons.prems(2) by (auto simp: projectable_def)
  obtain s1 where s1: "for_each (store_op pg) ops s = (None, s1)" "for_each (store_op pg) (all_ops es) s1 = (None, t)"
    using Cons.prems(1) ops by (auto simp: all_ops_def for_each_append and_then_ok_iff)
  obtain r where r: "token_activity_events (db_tables s1) = token_activity_events (db_tables s) @ [r]"
      "db_activity_seq s1 = db_activity_seq s + 1" "ac_insert_seq r = db_activity_seq s" "row_of pg e r"
    using entry_activity [OF ops s1(1)] Cons.prems(4) by auto
  have "\<exists>rs. token_activity_events (db_tables t) = token_activity_events (db_tables s1) @ rs \<and> list_all2 (row_of pg) es rs \<and>
      db_activity_seq t = db_activity_seq s1 + int (length es) \<and>
      (\<forall>i<length rs. ac_insert_seq (rs ! i) = db_activity_seq s1 + int i)"
    by (rule Cons.IH [OF s1(2)]) (use Cons.prems r(1,4) in \<open>auto simp: projectable_def row_of_def\<close>)
  then obtain rs where rs: "token_activity_events (db_tables t) = token_activity_events (db_tables s1) @ rs" "list_all2 (row_of pg) es rs"
      "db_activity_seq t = db_activity_seq s1 + int (length es)"
      "\<forall>i<length rs. ac_insert_seq (rs ! i) = db_activity_seq s1 + int i"
    by blast
  have "\<forall>i<length (r # rs). ac_insert_seq ((r # rs) ! i) = db_activity_seq s + int i"
    using rs(4) r(2,3) by (auto simp: nth_Cons split: nat.split)
  then show ?case using rs r by (intro exI [of _ "r # rs"]) simp
qed

section \<open>What a client reads\<close>

lemma row_entries_ids: "row_entries b rows = Inr es \<Longrightarrow> map (ev_EventID \<circ> le_Event) es = map se_event_id rows"
  by (induction rows arbitrary: es) (auto simp: row_entry_def row_envelope_def split: sum.splits)

lemma rows_of_mint:
  "list_all2 (row_of pg) es rs \<Longrightarrow>
   map ac_event_id (filter (\<lambda>r. ac_mint r = mint) rs) = map (ev_EventID \<circ> le_Event) (filter (\<lambda>e. entry_mint e = mint) es)"
  by (induction rule: list_all2_induct) (simp_all add: row_of_def)

text \<open>An event time in seconds, which PostgreSQL stores as it is.\<close>

definition entry_second :: "Pg \<Rightarrow> ServiceEventLogEntry \<Rightarrow> bool" where
  "entry_second pg e \<longleftrightarrow> in_i64 (ev_EventUnixTS (le_Event e)) \<and>
     to_ts pg (unixToTimestampSeconds (ev_EventUnixTS (le_Event e))) = Inr (ev_EventUnixTS (le_Event e) * 1000000)"

lemma rows_second:
  assumes "list_all2 (row_of pg) es rs" "\<forall>e\<in>set es. entry_second pg e" "r \<in> set rs"
  shows "ac_event_time r mod 1000000 = 0" "in_i64 (epoch_bigint (ac_event_time r))" "in_i64 (ac_slot r)"
proof -
  obtain e where "e \<in> set es" "row_of pg e r"
    using assms(1,3) by (metis in_set_conv_nth list_all2_conv_all_nth)
  then have r: "ac_event_time r = ev_EventUnixTS (le_Event e) * 1000000" "in_i64 (ev_EventUnixTS (le_Event e))" "in_i64 (ac_slot r)"
    using assms(2) by (auto simp: row_of_def entry_second_def)
  show "ac_event_time r mod 1000000 = 0" "in_i64 (ac_slot r)" using r by simp_all
  show "in_i64 (epoch_bigint (ac_event_time r))" using r by (simp add: epoch_bigint_whole)
qed

lemma shown_sel: "qa_EventID (shown s tk r) = ac_event_id r" "qa_EventUnixTS (shown s tk r) = epoch_bigint (ac_event_time r)"
  by (simp_all add: shown_def buildTokenActivity_def scanActivityEvent_def Let_def)

lemma activity_rows_times:
  assumes "whole_seconds mint t"
  shows "sorted_wrt (\<ge>) (map (epoch_bigint \<circ> ac_event_time) (activity_rows mint t))"
proof -
  have "sorted (map activity_order (activity_rows mint t))" by (simp add: activity_rows_def)
  moreover have "epoch_bigint (ac_event_time r) = ac_event_time r div 1000000" if "r \<in> set (activity_rows mint t)" for r
    using assms that by (auto simp: whole_seconds_def activity_rows_def epoch_bigint_whole)
  ultimately show ?thesis
    by (auto simp: sorted_wrt_map activity_order_def less_eq_prod_def intro!: zdiv_mono1 elim!: sorted_wrt_mono_rel [rotated])
qed

lemma replayed_feed:
  assumes "list_all2 (row_of pg) es rs" "\<forall>e\<in>set es. entry_second pg e" "fault_free s"
    "token_activity_events (db_tables s) = rs" "\<forall>i<length rs. ac_insert_seq (rs ! i) = n + int i"
    "db_activity_seq s = n + int (length es)" "0 \<le> n" "n + int (length es) < 9223372036854775808"
    "map_of (tokens (db_tables s)) mint = Some tk" "\<forall>r\<in>set rs. activity_marshalable (shown s tk r)"
  shows "feed_ok mint tk s"
proof -
  have len: "length rs = length es" using assms(1) by (simp add: list_all2_lengthD)
  have seq: "n \<le> ac_insert_seq r" "ac_insert_seq r < n + int (length es)" if "r \<in> set rs" for r
    using that assms(5) len by (auto simp: in_set_conv_nth)
  have "distinct (map ac_insert_seq rs)" using assms(5) by (simp add: distinct_conv_nth)
  then have "activity_inv s" using seq rows_second(3) [OF assms(1,2)] by (simp add: activity_inv_def assms(4,6))
  moreover have "whole_seconds mint (db_tables s)" using rows_second(1) [OF assms(1,2)] by (simp add: whole_seconds_def assms(4))
  moreover have "in_i64 (ac_insert_seq r)" if "r \<in> set rs" for r
    using seq [OF that] assms(7,8) by (simp add: in_i64_def)
  moreover have "set (activity_rows mint (db_tables s)) \<subseteq> set rs" by (auto simp: activity_rows_def assms(4))
  ultimately show ?thesis
    using assms(3,9,10) rows_second(2) [OF assms(1,2)] unfolding feed_ok_def by blast
qed

section \<open>Properties\<close>

text \<open>
  C1: the whole way from the log to a client: replayed into an empty read model, in batches of any
  size, by either writer, the log becomes an activity that a client reads back over HTTP, in pages
  of any size: of every event about the token exactly one activity, newest first, and no other.
  The events are told in whole seconds (entry_second; the cursor of a page carries no finer time,
  see activity_pages_skip_subsecond), no statement fails, the log decodes, every write of its
  events is accepted, and the activities can be written as JSON.
\<close>

theorem http_shows_the_log:
  assumes "replays (sr_pg sr) name r" "fault_free s" "log_inv s"
    "row_entries False (service_events (db_tables s)) = Inr es" "projectable es"
    "for_each (store_op (sr_pg sr)) (all_ops es) s = (None, t)" "length es < fuel"
    "token_activity_events (db_tables s) = []" "0 \<le> db_activity_seq s" "db_activity_seq s + int (length es) < 9223372036854775808"
    "\<forall>e\<in>set es. entry_second (sr_pg sr) e" "map_of (tokens (db_tables t)) mint = Some tk" "mint \<noteq> []"
    "\<forall>x\<in>set (token_activity_events (db_tables t)). activity_marshalable (shown t tk x)"
    "0 < limit" "in_i64 limit" "length es < n"
  shows "\<exists>end s' acts. ReplayFromStart fuel r s = (Some (Inr end), s') \<and>
    fst (read_activity n (db_handler sr) mint limit None s') = Some acts \<and>
    mset (map qa_EventID acts) = mset (map (ev_EventID \<circ> le_Event) (filter (\<lambda>e. entry_mint e = mint) es)) \<and>
    sorted_wrt (\<ge>) (map qa_EventUnixTS acts)"
proof -
  obtain c offs final where run: "ReplayFromStart fuel r s = (Some (Inr final), reframe c offs t)"
    using ReplayFromStart_all [OF assms(1-7)] by blast
  let ?s = "reframe c offs t"
  have "distinct (map (ev_EventID \<circ> le_Event) es)" using row_entries_ids [OF assms(4)] assms(3) by (simp add: log_inv_def)
  then obtain rs where rs: "token_activity_events (db_tables t) = rs" "list_all2 (row_of (sr_pg sr)) es rs"
      "db_activity_seq t = db_activity_seq s + int (length es)" "\<forall>i<length rs. ac_insert_seq (rs ! i) = db_activity_seq s + int i"
    using all_activity [OF assms(6,5)] assms(8) by auto
  have tables: "token_activity_events (db_tables ?s) = rs" "tokens (db_tables ?s) = tokens (db_tables t)"
      "db_activity_seq ?s = db_activity_seq s + int (length es)" "shown ?s tk = shown t tk"
    using rs(1,3) by (simp_all add: reframe_def shown_def fun_eq_iff)
  have feed: "feed_ok mint tk ?s"
    by (rule replayed_feed [OF rs(2) assms(11) _ tables(1) rs(4) tables(3) assms(9,10)])
       (use assms(12,14) store_ops_fault_free [OF assms(2,6)] rs(1) in \<open>simp_all add: tables\<close>)
  let ?xs = "activity_rows mint (db_tables ?s)"
  have "length ?xs \<le> length rs" by (simp add: activity_rows_def tables(1))
  then have "length ?xs < n" using assms(17) rs(2) list_all2_lengthD by fastforce
  then have acts: "fst (read_activity n (db_handler sr) mint limit None ?s) = Some (map (shown ?s tk) ?xs)"
    using read_activity_from [OF feed assms(13,15,16), of 0 ?xs n sr] by (simp add: cursor_at_def)
  have "mset (map ac_event_id ?xs) = mset (map ac_event_id (filter (\<lambda>x. ac_mint x = mint) rs))"
    by (simp add: activity_rows_def tables(1))
  then have "mset (map qa_EventID (map (shown ?s tk) ?xs)) =
      mset (map (ev_EventID \<circ> le_Event) (filter (\<lambda>e. entry_mint e = mint) es))"
    by (simp add: shown_sel comp_def rows_of_mint [OF rs(2), unfolded comp_def])
  moreover have "sorted_wrt (\<ge>) (map qa_EventUnixTS (map (shown ?s tk) ?xs))"
    using activity_rows_times [of mint "db_tables ?s"] feed by (simp add: feed_ok_def shown_sel comp_def)
  ultimately show ?thesis using run acts by blast
qed

section \<open>Witness\<close>

definition example_final :: Db where
  "example_final = snd (for_each (store_op pg_plain) (all_ops example_entries) (example_log example_migrations))"

lemma example_entries_ops:
  "all_ops example_entries =
     project_ops (example_event ''a'' ''pumpfun'' ''migrate'' (example_payload ''m1'' ''p1'')) (example_payload ''m1'' ''p1'') @
     project_ops (example_event ''b'' ''pumpfun'' ''migrate'' (example_payload ''m2'' ''p2'')) (example_payload ''m2'' ''p2'')"
  by (simp add: all_ops_def example_entries_def example_migration_ops)

lemma example_final_shown:
  "map_option (\<lambda>tk. list_all (\<lambda>x. activity_marshalable (shown example_final tk x)) (token_activity_events (db_tables example_final)))
     (map_of (tokens (db_tables example_final)) ''m1'') = Some True"
  unfolding example_final_def example_entries_ops by code_simp

lemma example_entries_second: "\<forall>e\<in>set example_entries. entry_second pg_plain e"
  by code_simp

lemma http_shows_the_log_witness:
  "\<exists>final s' acts. ReplayFromStart 3 example_runner (example_log example_migrations) = (Some (Inr final), s') \<and>
     fst (read_activity 3 (db_handler example_server) ''m1'' 1 None s') = Some acts \<and>
     mset (map qa_EventID acts) =
       mset (map (ev_EventID \<circ> le_Event) (filter (\<lambda>e. entry_mint e = ''m1'') example_entries)) \<and>
     sorted_wrt (\<ge>) (map qa_EventUnixTS acts)"
proof -
  obtain tk where tk: "map_of (tokens (db_tables example_final)) ''m1'' = Some tk"
      "\<forall>x\<in>set (token_activity_events (db_tables example_final)). activity_marshalable (shown example_final tk x)"
    using example_final_shown by (auto simp: list_all_iff)
  have run: "for_each (store_op (sr_pg example_server)) (all_ops example_entries) (example_log example_migrations) = (None, example_final)"
    using example_migrations_facts(3) by (simp add: example_final_def example_server_def prod_eq_iff)
  show ?thesis
    by (rule http_shows_the_log [where name = "''core''", OF _ _ example_migrations_inv _ _ run _ _ _ _ _ tk(1) _ tk(2)])
       (use example_entries_second in \<open>simp_all add: example_server_def example_log_facts example_migrations_facts in_i64_def\<close>,
        simp_all add: example_entries_def example_log_def empty_db_def empty_tables_def)
qed

end
