(* ===== verification/Commits.thy ===== *)
theory Commits
  imports Pipeline
begin

text \<open>
  Inserts into the log that overlap. The ingest service has no lock, and several goroutines call
  it (the handler of POST /internal/events, the consumer): PostgreSQL gives an insert its log id
  when the statement runs and shows its row when it commits, so rows may become visible in
  another order than that of their ids. commit_step is the log with its inserts in flight, beside
  the projector of internal/projector/runner.go that reads it by log id.
\<close>

section \<open>The log, its inserts in flight, and the projector\<close>

record LogSystem =
  cs_db :: Db
  cs_flight :: "ServiceEventRow list"
  cs_last :: "int option"

text \<open>The row an insert is going to add (None: it conflicts or its arguments are refused).\<close>

definition prepare :: "Pg \<Rightarrow> Envelope \<Rightarrow> Db \<Rightarrow> ServiceEventRow option" where
  "prepare pg event s =
     (case insertServiceEventSQL pg event (enc_EventRefs (ev_Refs event)) (ev_Payload event) s of
        Inr (Some logID, s') \<Rightarrow> Some (last (service_events (db_tables s')))
      | _ \<Rightarrow> None)"

definition next_log_id :: "Db \<Rightarrow> Db" where
  "next_log_id s = s\<lparr>db_log_seq := db_log_seq s + 1\<rparr>"

definition show_row :: "ServiceEventRow \<Rightarrow> Db \<Rightarrow> Db" where
  "show_row row s = s\<lparr>db_tables := (db_tables s)\<lparr>service_events := service_events (db_tables s) @ [row]\<rparr>\<rparr>"

text \<open>
  An insert waits for one in flight with the same event id, so it starts when there is none. The
  projector keeps the log id it has reached (cs_last) while it runs, and loads the checkpoint
  when it starts.
\<close>

inductive commit_step :: "Pg \<Rightarrow> Db Runner \<Rightarrow> LogSystem \<Rightarrow> LogSystem \<Rightarrow> bool" for pg r where
  insert: "\<lbrakk>prepare pg event (cs_db s) = Some row; ev_EventID event \<notin> se_event_id ` set (cs_flight s)\<rbrakk> \<Longrightarrow>
     commit_step pg r s (s\<lparr>cs_db := next_log_id (cs_db s), cs_flight := cs_flight s @ [row]\<rparr>)"
| no_row: "commit_step pg r s (s\<lparr>cs_db := next_log_id (cs_db s)\<rparr>)"
| commit: "row \<in> set (cs_flight s) \<Longrightarrow>
     commit_step pg r s (s\<lparr>cs_db := show_row row (cs_db s), cs_flight := remove1 row (cs_flight s)\<rparr>)"
| abort: "row \<in> set (cs_flight s) \<Longrightarrow> commit_step pg r s (s\<lparr>cs_flight := remove1 row (cs_flight s)\<rparr>)"
| start: "\<lbrakk>cs_last s = None; lr_LoadProjectionCheckpoint (rn_reader r) (rn_name r) (cs_db s) = (Inr n, db)\<rbrakk> \<Longrightarrow>
     commit_step pg r s (s\<lparr>cs_db := db, cs_last := Some n\<rparr>)"
| project: "\<lbrakk>cs_last s = Some n; ReplayBatch r n (cs_db s) = (Inr (m, k), db)\<rbrakk> \<Longrightarrow>
     commit_step pg r s (s\<lparr>cs_db := db, cs_last := Some m\<rparr>)"
| stop: "\<lbrakk>cs_last s = Some n; ReplayBatch r n (cs_db s) = (Inl e, db)\<rbrakk> \<Longrightarrow>
     commit_step pg r s (s\<lparr>cs_db := db, cs_last := None\<rparr>)"
| restart: "commit_step pg r s (s\<lparr>cs_last := None\<rparr>)"

inductive commit_run :: "Pg \<Rightarrow> Db Runner \<Rightarrow> LogSystem \<Rightarrow> LogSystem \<Rightarrow> bool" for pg r where
  run_refl: "commit_run pg r s s"
| run_step: "commit_run pg r s t \<Longrightarrow> commit_step pg r t u \<Longrightarrow> commit_run pg r s u"

lemma prepare_row:
  assumes "prepare pg event s = Some row"
  shows "se_log_id row = db_log_seq s" "se_event_id row = ev_EventID event"
    "ev_EventID event \<notin> se_event_id ` set (service_events (db_tables s))"
  using assms
  by (auto simp: prepare_def insertServiceEventSQL_def Let_def service_event_row_def split: sum.splits option.splits if_splits)

text \<open>Inserts one after the other are runs of this system: InsertServiceEvent adds the row that is prepared.\<close>

lemma InsertServiceEvent_prepare:
  assumes "InsertServiceEvent pg event s = (Inr (True, n), s')"
  shows "\<exists>row. prepare pg event (tick s) = Some row \<and> n = se_log_id row \<and> s' = show_row row (next_log_id (tick s))"
proof -
  have "insertServiceEventSQL pg event (enc_EventRefs (ev_Refs event)) (ev_Payload event) (tick s) = Inr (Some n, s')"
    using assms by (auto simp: InsertServiceEvent_def db_query_def split: sum.splits option.splits prod.splits db_fault.splits)
  then show ?thesis
    by (auto simp: prepare_def insertServiceEventSQL_def Let_def service_event_row_def show_row_def next_log_id_def
        split: sum.splits option.splits if_splits)
qed

section \<open>What a batch can add to the activity\<close>

text \<open>A write that succeeds has an effect of its class, whatever the faults around it.\<close>

lemma exec_effect:
  assumes "wrap_err m (db_exec f) s = (None, s')" "uniform E f"
  shows "\<exists>g\<in>E. s' = g (tick s)"
proof -
  have "f (tick s) = Inr s'" using assms(1) by (simp add: db_exec_ok)
  then show ?thesis using assms(2) by (auto simp: uniform_def)
qed

lemma store_op_ok:
  assumes "store_op pg p s = (None, s')"
  shows "\<exists>g\<in>class_effects (wop_class p). s' = g (tick s)"
proof -
  have act: "uniform activity_effects (\<lambda>s. case activity_details d of Inl e \<Rightarrow> Inl e
      | Inr details \<Rightarrow> insertTokenActivityEventSQL pg a x details s)" for d a x
    by (intro uniform_sum uniform_activity)
  note effect = exec_effect [OF _ uniform_token] exec_effect [OF _ uniform_metadata] exec_effect [OF _ uniform_market]
    exec_effect [OF _ uniform_close] exec_effect [OF _ uniform_trade] exec_effect [OF _ act]
  show ?thesis
    using assms effect
    by (cases p rule: wop.exhaust)
       (auto simp: store_op_def apply_wop_def flush_op_def store_writer_def wop_class_def class_effects_def
        UpsertToken_def UpsertTokenMetadata_def UpsertTokenMarket_def CloseTokenMarket_def InsertTradeEvent_def
        InsertActivityEvent_def exec_activity_def simp del: wrap_err_ok_iff split: queuedStateOp.splits)
qed

definition activity_ids :: "Db \<Rightarrow> string set" where
  "activity_ids s = ac_event_id ` set (token_activity_events (db_tables s))"

definition op_ids :: "wop list \<Rightarrow> string set" where
  "op_ids ps = {ae_EventID a | a. WActivity a \<in> set ps}"

lemma activity_op_ids:
  assumes "store_op pg (WActivity a) s = (None, s')"
  shows "activity_ids s' \<subseteq> insert (ae_EventID a) (activity_ids s)"
proof -
  have "(case activity_details (ae_Details a) of Inl e \<Rightarrow> Inl e
      | Inr details \<Rightarrow> insertTokenActivityEventSQL pg a (unixToTimestampSeconds (ae_EventUnixTS a)) details (tick s)) = Inr s'"
    using assms by (auto simp: store_op_def apply_wop_def store_writer_def InsertActivityEvent_def exec_activity_def dest: db_exec_ok)
  then show ?thesis
    by (auto simp: insertTokenActivityEventSQL_def activity_ids_def Let_def split: sum.splits option.splits if_splits)
qed

lemma store_ops_ids:
  "for_each (store_op pg) ps s = (None, s') \<Longrightarrow>
   activity_ids s' \<subseteq> activity_ids s \<union> op_ids ps \<and> service_events (db_tables s') = service_events (db_tables s)"
proof (induction ps arbitrary: s)
  case (Cons p ps)
  obtain t where t: "store_op pg p s = (None, t)" "for_each (store_op pg) ps t = (None, s')"
    using Cons.prems by (auto simp: and_then_ok_iff)
  have "service_events (db_tables t) = service_events (db_tables s)"
    using store_op_ok [OF t(1)] class_effects_log by fastforce
  moreover have "activity_ids t \<subseteq> activity_ids s \<union> op_ids [p]"
  proof (cases p)
    case (WActivity a)
    then show ?thesis using activity_op_ids [of pg a s t] t(1) by (auto simp: op_ids_def)
  qed (use t(1) store_op_other [of pg p s t] in \<open>auto simp: wop_class_def same_activity_def activity_ids_def\<close>)
  ultimately show ?case using Cons.IH [OF t(2)] by (auto simp: op_ids_def)
qed (simp add: done_ok_def)

lemma entry_op_ids:
  assumes "projectable es"
  shows "op_ids (all_ops es) \<subseteq> (ev_EventID \<circ> le_Event) ` set es"
proof
  fix i assume "i \<in> op_ids (all_ops es)"
  then obtain a e where a: "WActivity a \<in> set (the (entry_ops e))" "e \<in> set es" "i = ae_EventID a"
    by (auto simp: op_ids_def all_ops_def)
  obtain ops where ops: "entry_ops e = Some ops" using assms a(2) by (auto simp: projectable_def)
  then obtain p where p: "DecodePayload (le_Event e) = Inr p" "project_error (le_Event e) p = None" "ops = project_ops (le_Event e) p"
    by (auto simp: entry_ops_def split: sum.splits if_splits)
  obtain ops1 b where b: "ops = ops1 @ [WActivity b]" "filter (\<lambda>p. wop_class p = 2) ops1 = []" "ae_EventID b = ev_EventID (le_Event e)"
    using projection_activity [OF p(2)] p(1,3) DecodePayload_not_Other by metis
  have "WActivity a \<notin> set ops1" using b(2) by (auto simp: filter_empty_conv wop_class_def)
  then have "a = b" using a(1) ops b(1) by simp
  then show "i \<in> (ev_EventID \<circ> le_Event) ` set es" using a(2,3) b(3) by auto
qed

text \<open>What either writer has written when its transaction succeeds.\<close>

lemma replay_tx_ops:
  assumes "replays pg name r" "rn_projector r = Some w" "replay_tx w es (SaveProjectionCheckpoint nm n) s = (None, s')"
  obtains ps t where "projectable es" "op_ids ps = op_ids (all_ops es)" "for_each (store_op pg) ps s = (None, t)"
    "activity_ids s' = activity_ids t" "service_events (db_tables s') = service_events (db_tables t)"
proof -
  have "\<exists>ps t. projectable es \<and> op_ids ps = op_ids (all_ops es) \<and> for_each (store_op pg) ps s = (None, t) \<and>
      SaveProjectionCheckpoint nm n t = (None, s')"
  proof (cases "w = direct_store pg")
    case True
    then show ?thesis using assms(3) by (auto simp: replay_tx_direct and_then_ok_iff)
  next
    case False
    then have w: "w = batch_store pg" using assms(1,2) by (auto simp: replays_def)
    have "op_ids (by_class ps) = op_ids ps" for ps by (auto simp: op_ids_def by_class_def wop_class_def)
    moreover have "projectable es \<and> and_then (for_each (store_op pg) (by_class (all_ops es))) (SaveProjectionCheckpoint nm n) s = (None, s')"
      using assms(3) replay_entries_batch [of es] unfolding w
      by (auto simp: replay_tx_def batch_store_def Flush_ops split: prod.splits option.splits)
    ultimately show ?thesis by (auto simp: and_then_ok_iff)
  qed
  then obtain ps t where t: "projectable es" "op_ids ps = op_ids (all_ops es)" "for_each (store_op pg) ps s = (None, t)"
      "SaveProjectionCheckpoint nm n t = (None, s')" by blast
  have "activity_ids s' = activity_ids t" "service_events (db_tables s') = service_events (db_tables t)"
    using t(4) by (auto simp: SaveProjectionCheckpoint_def activity_ids_def dest!: db_exec_ok)
  then show thesis using that t(1-3) by blast
qed

lemma replay_tx_ids:
  assumes "replays pg name r" "rn_projector r = Some w" "replay_tx w es (SaveProjectionCheckpoint nm n) s = (None, s')"
  shows "activity_ids s' \<subseteq> activity_ids s \<union> (ev_EventID \<circ> le_Event) ` set es"
    "service_events (db_tables s') = service_events (db_tables s)"
  by (rule replay_tx_ops [OF assms]; use store_ops_ids entry_op_ids in fastforce)+

lemma listed_ids:
  assumes "fst (ListServiceEventsAfterLogID n k s) = Inr es" "e \<in> set es"
  shows "\<exists>x\<in>set (service_events (db_tables s)). n < se_log_id x \<and> se_event_id x = ev_EventID (le_Event e)"
proof -
  obtain rows where rows: "fst (db_read (listServiceEventsAfterLogIDSQL n k) s) = Inr rows" "row_entries False rows = Inr es"
    using assms(1) by (auto simp: ListServiceEventsAfterLogID_def split: prod.splits sum.splits)
  have "listServiceEventsAfterLogIDSQL n k (db_tables s) = Inr rows" using db_read_ok rows(1) by metis
  then have "\<And>x. x \<in> set rows \<Longrightarrow> x \<in> set (service_events (db_tables s)) \<and> n < se_log_id x"
    by (auto simp: listServiceEventsAfterLogIDSQL_def sql_limit_def split: if_splits dest!: in_set_takeD)
  moreover have "ev_EventID (le_Event e) \<in> set (map se_event_id rows)"
    using row_entries_ids [OF rows(2)] assms(2) by (metis comp_apply image_eqI list.set_map)
  then obtain x where "x \<in> set rows" "se_event_id x = ev_EventID (le_Event e)" by auto
  ultimately show ?thesis by metis
qed

lemma ReplayBatch_ids:
  assumes "replays pg name r" "ReplayBatch r n s = (res, s')"
  shows "service_events (db_tables s') = service_events (db_tables s)"
    "offset_of (db_tables s') name = offset_of (db_tables s) name \<or> n < offset_of (db_tables s') name"
    "res = Inr (m, k) \<Longrightarrow> n \<le> m"
    "i \<in> activity_ids s' \<Longrightarrow> i \<in> activity_ids s \<or>
       (\<exists>x\<in>set (service_events (db_tables s)). n < se_log_id x \<and> se_event_id x = i)"
proof -
  have r: "rn_reader r = event_log_reader" "rn_name r = name" using assms(1) by (simp_all add: replays_def)
  have "service_events (db_tables s') = service_events (db_tables s) \<and>
      (offset_of (db_tables s') name = offset_of (db_tables s) name \<or> n < offset_of (db_tables s') name) \<and>
      (res = Inr (m, k) \<longrightarrow> n \<le> m) \<and>
      (i \<in> activity_ids s' \<longrightarrow> i \<in> activity_ids s \<or>
         (\<exists>x\<in>set (service_events (db_tables s)). n < se_log_id x \<and> se_event_id x = i))"
    using log_rd.ReplayBatch_cases [OF r(1) assms(2)]
  proof (elim disjE exE conjE)
    assume "db_tables s' = db_tables s" "case res of Inl _ \<Rightarrow> True | Inr (m, k) \<Rightarrow> m = n \<and> k = 0"
    then show ?thesis by (auto simp: activity_ids_def)
  next
    fix w es s0 s1
    assume w: "rn_projector r = Some w" and lt: "n < le_LogID (last es)"
      and es: "fst (lr_ListServiceEventsAfterLogID event_log_reader n (rn_batchSize r) s) = Inr es"
      and s0: "db_tables s0 = db_tables s" and s1: "db_tables s' = db_tables s1"
      and tx: "replay_tx w es (lr_SaveProjectionCheckpoint event_log_reader (rn_name r) (le_LogID (last es))) s0 = (None, s1)"
      and off: "offset_of (db_tables s') (rn_name r) = le_LogID (last es)"
      and res: "case res of Inl _ \<Rightarrow> True | Inr (m, k) \<Rightarrow> m = le_LogID (last es) \<and> k = length es"
    note ids = replay_tx_ids [OF assms(1) w tx [unfolded event_log_reader_def logReader.simps]]
    have act: "activity_ids s1 = activity_ids s'" "activity_ids s0 = activity_ids s" using s0 s1 by (simp_all add: activity_ids_def)
    have listed: "fst (ListServiceEventsAfterLogID n (rn_batchSize r) s) = Inr es" using es by (simp add: event_log_reader_def)
    have "i \<in> activity_ids s \<or> (\<exists>x\<in>set (service_events (db_tables s)). n < se_log_id x \<and> se_event_id x = i)"
      if new: "i \<in> activity_ids s'"
    proof (cases "i \<in> activity_ids s")
      case False
      then obtain e where "e \<in> set es" "i = ev_EventID (le_Event e)" using new ids(1) act by auto
      then show ?thesis using listed_ids [OF listed] by metis
    qed simp
    moreover have "service_events (db_tables s') = service_events (db_tables s)" using ids(2) s0 s1 by simp
    moreover have "n < offset_of (db_tables s') name" using off lt r(2) by simp
    moreover have "res = Inr (m, k) \<longrightarrow> n \<le> m" using res lt by auto
    ultimately show ?thesis by blast
  qed
  then show "service_events (db_tables s') = service_events (db_tables s)"
    "offset_of (db_tables s') name = offset_of (db_tables s) name \<or> n < offset_of (db_tables s') name"
    "res = Inr (m, k) \<Longrightarrow> n \<le> m"
    "i \<in> activity_ids s' \<Longrightarrow> i \<in> activity_ids s \<or>
       (\<exists>x\<in>set (service_events (db_tables s)). n < se_log_id x \<and> se_event_id x = i)" by blast+
qed

lemma LoadProjectionCheckpoint_offset:
  assumes "LoadProjectionCheckpoint name s = (Inr n, s')"
  shows "n = offset_of (db_tables s) name" "db_tables s' = db_tables s"
proof -
  have "fst (db_read (\<lambda>t. Inr (map_of (projection_offsets t) name)) s) = Inr x \<Longrightarrow> x = map_of (projection_offsets (db_tables s)) name" for x
    using db_read_ok by fastforce
  then show "n = offset_of (db_tables s) name"
    using assms by (auto simp: LoadProjectionCheckpoint_def offset_of_def split: prod.splits sum.splits option.splits)
  show "db_tables s' = db_tables s"
    using assms db_read_state [of "\<lambda>t. Inr (map_of (projection_offsets t) name)" s]
    by (auto simp: LoadProjectionCheckpoint_def split: prod.splits sum.splits option.splits)
qed

section \<open>An event behind the checkpoint\<close>

text \<open>The row is in the log, the projector is past its id, and its event has not been projected.\<close>

definition passed_by :: "string \<Rightarrow> ServiceEventRow \<Rightarrow> LogSystem \<Rightarrow> bool" where
  "passed_by name row s \<longleftrightarrow> row \<in> set (service_events (db_tables (cs_db s))) \<and>
     (\<forall>x\<in>set (service_events (db_tables (cs_db s))) \<union> set (cs_flight s). se_event_id x = se_event_id row \<longrightarrow> x = row) \<and>
     se_log_id row \<le> offset_of (db_tables (cs_db s)) name \<and>
     (case cs_last s of None \<Rightarrow> True | Some n \<Rightarrow> se_log_id row \<le> n) \<and>
     se_event_id row \<notin> activity_ids (cs_db s)"

lemma passed_by_batch:
  assumes "replays pg name r" "passed_by name row s" "cs_last s = Some n" "ReplayBatch r n (cs_db s) = (res, db)"
    "case last' of None \<Rightarrow> True | Some m \<Rightarrow> \<exists>k. res = Inr (m, k)"
  shows "passed_by name row (s\<lparr>cs_db := db, cs_last := last'\<rparr>)"
proof -
  note ids = ReplayBatch_ids [OF assms(1,4)]
  have le: "se_log_id row \<le> n" using assms(2,3) by (simp add: passed_by_def)
  have "se_event_id row \<notin> activity_ids db"
  proof
    assume "se_event_id row \<in> activity_ids db"
    then obtain x where "x \<in> set (service_events (db_tables (cs_db s)))" "n < se_log_id x" "se_event_id x = se_event_id row"
      using ids(4) assms(2) by (auto simp: passed_by_def)
    then show False using assms(2) le by (auto simp: passed_by_def)
  qed
  moreover have "case last' of None \<Rightarrow> True | Some m \<Rightarrow> se_log_id row \<le> m"
    using assms(5) ids(3) le by (auto split: option.splits intro: order_trans)
  ultimately show ?thesis using assms(2) ids(1,2) le by (auto simp: passed_by_def)
qed

lemma passed_by_step:
  assumes "replays pg name r" "commit_step pg r s t" "passed_by name row s"
  shows "passed_by name row t"
  using assms(2)
proof cases
  case (insert event new)
  note p = prepare_row [OF insert(2)]
  have "se_event_id new \<noteq> se_event_id row" using p(2,3) assms(3) by (auto simp: passed_by_def)
  then show ?thesis using assms(3) by (auto simp: insert(1) passed_by_def next_log_id_def activity_ids_def)
next
  case no_row
  then show ?thesis using assms(3) by (auto simp: passed_by_def next_log_id_def activity_ids_def)
next
  case (commit new)
  then show ?thesis
    using assms(3) by (auto simp: passed_by_def show_row_def activity_ids_def offset_of_def dest: notin_set_remove1)
next
  case (abort new)
  then show ?thesis using assms(3) by (auto simp: passed_by_def dest: notin_set_remove1)
next
  case (start n db)
  have "LoadProjectionCheckpoint name (cs_db s) = (Inr n, db)"
    using start(3) assms(1) by (simp add: replays_def event_log_reader_def)
  then have "n = offset_of (db_tables (cs_db s)) name" "db_tables db = db_tables (cs_db s)"
    using LoadProjectionCheckpoint_offset by blast+
  then show ?thesis using assms(3) by (auto simp: start(1) passed_by_def activity_ids_def)
next
  case (project n m k db)
  then show ?thesis using passed_by_batch [OF assms(1,3) project(2,3), of "Some m"] by simp
next
  case (stop n e db)
  then show ?thesis using passed_by_batch [OF assms(1,3) stop(2,3), of None] by simp
next
  case restart
  then show ?thesis using assms(3) by (simp add: passed_by_def)
qed

section \<open>Events up to the checkpoint\<close>

text \<open>The projector draws no log ids, whatever happens to its statements.\<close>

definition keeps_seq :: "Db action \<Rightarrow> bool" where
  "keeps_seq f \<longleftrightarrow> (\<forall>s r s'. f s = (r, s') \<longrightarrow> db_log_seq s' = db_log_seq s)"

lemma keeps_seq_intros:
  "keeps_seq f \<Longrightarrow> keeps_seq g \<Longrightarrow> keeps_seq (and_then f g)" "keeps_seq done_ok" "keeps_seq (fail_with e)"
  "keeps_seq f \<Longrightarrow> keeps_seq (wrap_err m f)" "keeps_seq (stop_with o')"
  by (auto simp: keeps_seq_def and_then_def done_ok_def fail_with_def wrap_err_def stop_with_def split: prod.splits option.splits)

lemma keeps_seq_for_each: "(\<And>x. keeps_seq (f x)) \<Longrightarrow> keeps_seq (for_each f xs)"
  by (induction xs) (auto intro: keeps_seq_intros)

lemma keeps_seq_exec:
  assumes "\<And>s s'. f s = Inr s' \<Longrightarrow> db_log_seq s' = db_log_seq s"
  shows "keeps_seq (db_exec f)"
  unfolding keeps_seq_def
proof (intro allI impI)
  fix s r s' assume "db_exec f s = (r, s')"
  then show "db_log_seq s' = db_log_seq s"
    using assms [of "tick s" s'] by (auto elim: db_exec_cases)
qed

lemma uniform_seq: "uniform (class_effects n) f \<Longrightarrow> f s = Inr s' \<Longrightarrow> db_log_seq s' = db_log_seq s"
  using class_effects_log by (auto simp: uniform_def)

lemma keeps_seq_store_op: "keeps_seq (store_op pg p)"
proof -
  have act: "uniform activity_effects (\<lambda>s. case activity_details d of Inl e \<Rightarrow> Inl e
      | Inr details \<Rightarrow> insertTokenActivityEventSQL pg a x details s)" for d a x
    by (intro uniform_sum uniform_activity)
  have run: "uniform E f \<Longrightarrow> E = class_effects n \<Longrightarrow> keeps_seq (wrap_err m (db_exec f))" for E f n m
    using uniform_seq by (blast intro: keeps_seq_intros(4) keeps_seq_exec)
  have effects: "state_effects = class_effects 0" "trade_effects = class_effects 1" "activity_effects = class_effects 2"
    by (simp_all add: class_effects_def)
  note runs = run [OF uniform_token effects(1)] run [OF uniform_metadata effects(1)] run [OF uniform_market effects(1)]
    run [OF uniform_close effects(1)] run [OF uniform_trade effects(2)] run [OF act effects(3)]
  show ?thesis
    using runs
    by (cases p rule: wop.exhaust)
       (auto simp: keeps_seq_def store_op_def apply_wop_def flush_op_def store_writer_def
        UpsertToken_def UpsertTokenMetadata_def UpsertTokenMarket_def CloseTokenMarket_def InsertTradeEvent_def
        InsertActivityEvent_def exec_activity_def split: queuedStateOp.splits)
qed

lemma keeps_seq_save: "keeps_seq (SaveProjectionCheckpoint nm n)"
  unfolding SaveProjectionCheckpoint_def by (intro keeps_seq_intros keeps_seq_exec) auto

lemma keeps_seq_replay_tx:
  assumes "w = direct_store pg \<or> w = batch_store pg" "keeps_seq save"
  shows "keeps_seq (replay_tx w es save)"
  using assms(1)
proof
  assume w: "w = direct_store pg"
  have "apply_wop (readModelWriter.truncate (store_writer pg)) = store_op pg"
    by (rule ext) (simp add: store_op_def apply_wop_def flush_op_def readModelWriter.truncate_def
        split: wop.splits queuedStateOp.splits)
  then have "Project (readModelWriter.truncate (store_writer pg)) event payload =
      and_then (for_each (store_op pg) (project_ops event payload)) (stop_with (project_error event payload))" for event payload
    by (intro ext) (simp add: Project_ops [of "readModelWriter.truncate (store_writer pg)"])
  then have "keeps_seq (replay_entry (Some (readModelWriter.truncate (store_writer pg))) e)" for e
    using keeps_seq_store_op by (auto simp: replay_entry_def split: sum.splits intro!: keeps_seq_intros keeps_seq_for_each)
  then have "keeps_seq (replay_entries (Some (readModelWriter.truncate (store_writer pg))) es)"
    unfolding replay_entries_def by (rule keeps_seq_for_each)
  then show ?thesis using w assms(2) by (simp add: replay_tx_def direct_store_def keeps_seq_intros(1))
next
  assume w: "w = batch_store pg"
  have "keeps_seq (and_then (Flush (store_writer pg) b) save)" for b
    using keeps_seq_store_op assms(2) by (auto simp: Flush_ops intro!: keeps_seq_intros keeps_seq_for_each)
  then show ?thesis
    using w by (auto simp: keeps_seq_def replay_tx_def batch_store_def split: prod.splits option.splits)
qed

lemma keeps_seq_RunInTransaction:
  assumes "keeps_seq fn"
  shows "keeps_seq (RunInTransaction fn)"
proof -
  have fn: "fn s = (r, s') \<Longrightarrow> db_log_seq s' = db_log_seq s" for s r s' using assms by (auto simp: keeps_seq_def)
  have ex: "db_exec Inr s = (r, s') \<Longrightarrow> db_log_seq s' = db_log_seq s" for s r s'
    using keeps_seq_exec [of Inr] by (auto simp: keeps_seq_def)
  show ?thesis
    unfolding keeps_seq_def RunInTransaction_def
    by (auto simp: rollback_to_def dest!: fn ex split: prod.splits option.splits db_fault.splits)
qed

lemma ReplayBatch_seq:
  assumes "replays pg name r" "ReplayBatch r n s = (res, s')"
  shows "db_log_seq s' = db_log_seq s"
proof -
  have r: "rn_reader r = event_log_reader" using assms(1) by (simp add: replays_def)
  obtain w where w: "rn_projector r = Some w" "w = direct_store pg \<or> w = batch_store pg" using assms(1) by (auto simp: replays_def)
  have list: "ListServiceEventsAfterLogID n k s = (l, t) \<Longrightarrow> db_log_seq t = db_log_seq s" for k l t
    using ListServiceEventsAfterLogID_state [of n k s] by simp
  have tx: "RunInTransaction (replay_tx w es (SaveProjectionCheckpoint nm m)) t = (e, u) \<Longrightarrow> db_log_seq u = db_log_seq t" for es nm m t e u
    using keeps_seq_RunInTransaction [OF keeps_seq_replay_tx [OF w(2) keeps_seq_save]] by (auto simp: keeps_seq_def)
  have latest: "db_log_seq (snd (LoadLatestServiceEventLogID t)) = db_log_seq t" for t
    using db_read_state [of "\<lambda>t. Inr (latest_log_id t)" t]
    by (auto simp: LoadLatestServiceEventLogID_def split: prod.splits sum.splits)
  show ?thesis
    using assms(2) w(1) r
    by (auto simp: ReplayBatch_def event_log_reader_def Let_def latest dest!: list tx split: prod.splits sum.splits option.splits if_splits)
qed

text \<open>A batch that is applied has written the activity of each of its events, and removed none.\<close>

lemma activity_op_done:
  assumes "store_op pg (WActivity a) s = (None, s')"
  shows "ae_EventID a \<in> activity_ids s'" "activity_ids s \<subseteq> activity_ids s'"
proof -
  have "(case activity_details (ae_Details a) of Inl e \<Rightarrow> Inl e
      | Inr details \<Rightarrow> insertTokenActivityEventSQL pg a (unixToTimestampSeconds (ae_EventUnixTS a)) details (tick s)) = Inr s'"
    using assms by (auto simp: store_op_def apply_wop_def store_writer_def InsertActivityEvent_def exec_activity_def dest: db_exec_ok)
  then have "ae_EventID a \<in> activity_ids s' \<and> activity_ids s \<subseteq> activity_ids s'"
    by (auto simp: insertTokenActivityEventSQL_def activity_ids_def Let_def split: sum.splits option.splits if_splits)
  then show "ae_EventID a \<in> activity_ids s'" "activity_ids s \<subseteq> activity_ids s'" by simp_all
qed

lemma store_ops_done:
  "for_each (store_op pg) ps s = (None, s') \<Longrightarrow> activity_ids s \<union> op_ids ps \<subseteq> activity_ids s'"
proof (induction ps arbitrary: s)
  case (Cons p ps)
  obtain t where t: "store_op pg p s = (None, t)" "for_each (store_op pg) ps t = (None, s')"
    using Cons.prems by (auto simp: and_then_ok_iff)
  have "activity_ids s \<union> op_ids [p] \<subseteq> activity_ids t"
  proof (cases p)
    case (WActivity a)
    then show ?thesis using activity_op_done [of pg a s t] t(1) by (auto simp: op_ids_def)
  qed (use t(1) store_op_other [of pg p s t] in \<open>auto simp: wop_class_def same_activity_def activity_ids_def op_ids_def\<close>)
  then show ?case using Cons.IH [OF t(2)] by (auto simp: op_ids_def)
qed (simp add: done_ok_def op_ids_def)

lemma entry_op_done:
  assumes "projectable es" "e \<in> set es"
  shows "ev_EventID (le_Event e) \<in> op_ids (all_ops es)"
proof -
  obtain ops where ops: "entry_ops e = Some ops" using assms by (auto simp: projectable_def)
  then obtain p where p: "DecodePayload (le_Event e) = Inr p" "project_error (le_Event e) p = None" "ops = project_ops (le_Event e) p"
    by (auto simp: entry_ops_def split: sum.splits if_splits)
  obtain ops1 b where b: "ops = ops1 @ [WActivity b]" "ae_EventID b = ev_EventID (le_Event e)"
    using projection_activity [OF p(2)] p(1,3) DecodePayload_not_Other by metis
  have "WActivity b \<in> set (all_ops es)" using assms(2) ops b(1) by (force simp: all_ops_def)
  then show ?thesis using b(2) by (force simp: op_ids_def)
qed

text \<open>A page holds every row between its start and its last log id.\<close>

lemma listed_all:
  assumes "fst (ListServiceEventsAfterLogID n k s) = Inr es" "es \<noteq> []" "x \<in> set (service_events (db_tables s))"
    "n < se_log_id x" "se_log_id x \<le> le_LogID (last es)"
    "\<forall>y\<in>set (service_events (db_tables s)). se_log_id y = se_log_id x \<longrightarrow> y = x"
  shows "se_event_id x \<in> (ev_EventID \<circ> le_Event) ` set es"
proof -
  let ?all = "sort_key se_log_id (filter (\<lambda>r. n < se_log_id r) (service_events (db_tables s)))"
  obtain rows where rows: "fst (db_read (listServiceEventsAfterLogIDSQL n k) s) = Inr rows" "row_entries False rows = Inr es"
    using assms(1) by (auto simp: ListServiceEventsAfterLogID_def split: prod.splits sum.splits)
  have "listServiceEventsAfterLogIDSQL n k (db_tables s) = Inr rows" using db_read_ok rows(1) by metis
  then have take: "rows = take (nat k) ?all"
    by (auto simp: listServiceEventsAfterLogIDSQL_def sql_limit_def split: if_splits)
  have ne: "rows \<noteq> []" using rows(2) assms(2) by auto
  have "le_LogID (last es) = last (map le_LogID es)" using assms(2) by (simp add: last_map)
  then have final: "le_LogID (last es) = se_log_id (last rows)" using ne by (simp add: row_entries_log_ids [OF rows(2)] last_map)
  have "x \<in> set ?all" using assms(3,4) by simp
  then have "x \<in> set rows \<union> set (drop (nat k) ?all)" using take by (metis append_take_drop_id set_append)
  moreover have "x \<in> set rows" if x: "x \<in> set (drop (nat k) ?all)"
  proof -
    have "sorted (map se_log_id (take (nat k) ?all @ drop (nat k) ?all))" by simp
    then have "se_log_id (last rows) \<le> se_log_id x"
      using ne x unfolding take [symmetric] map_append sorted_append by simp
    then have "se_log_id (last rows) = se_log_id x" using assms(5) final by simp
    moreover have "last rows \<in> set (service_events (db_tables s))" using last_in_set [OF ne] take by (auto dest: in_set_takeD)
    ultimately have "last rows = x" using assms(6) by simp
    then show ?thesis using ne by (metis last_in_set)
  qed
  ultimately have "x \<in> set rows" by blast
  then have "se_event_id x \<in> set (map (ev_EventID \<circ> le_Event) es)" by (simp add: row_entries_ids [OF rows(2)])
  then show ?thesis by simp
qed

lemma ReplayBatch_reaches:
  assumes "replays pg name r" "ReplayBatch r n s = (res, s')"
    "\<forall>x\<in>set (service_events (db_tables s)). \<forall>y\<in>set (service_events (db_tables s)). se_log_id y = se_log_id x \<longrightarrow> y = x"
  shows "activity_ids s \<subseteq> activity_ids s'"
    "offset_of (db_tables s') name = offset_of (db_tables s) name \<or>
       (\<forall>x\<in>set (service_events (db_tables s)). n < se_log_id x \<longrightarrow> se_log_id x \<le> offset_of (db_tables s') name \<longrightarrow>
          se_event_id x \<in> activity_ids s')"
    "res = Inr (m, k) \<Longrightarrow> m = n \<and> offset_of (db_tables s') name = offset_of (db_tables s) name \<or> m = offset_of (db_tables s') name"
proof -
  have r: "rn_reader r = event_log_reader" "rn_name r = name" using assms(1) by (simp_all add: replays_def)
  have "activity_ids s \<subseteq> activity_ids s' \<and>
      (offset_of (db_tables s') name = offset_of (db_tables s) name \<or>
       (\<forall>x\<in>set (service_events (db_tables s)). n < se_log_id x \<longrightarrow> se_log_id x \<le> offset_of (db_tables s') name \<longrightarrow>
          se_event_id x \<in> activity_ids s')) \<and>
      (res = Inr (m, k) \<longrightarrow> m = n \<and> offset_of (db_tables s') name = offset_of (db_tables s) name \<or> m = offset_of (db_tables s') name)"
    using log_rd.ReplayBatch_cases [OF r(1) assms(2)]
  proof (elim disjE exE conjE)
    assume "db_tables s' = db_tables s" "case res of Inl _ \<Rightarrow> True | Inr (m, k) \<Rightarrow> m = n \<and> k = 0"
    then show ?thesis by (auto simp: activity_ids_def)
  next
    fix w es s0 s1
    assume w: "rn_projector r = Some w" and ne: "es \<noteq> []"
      and es: "fst (lr_ListServiceEventsAfterLogID event_log_reader n (rn_batchSize r) s) = Inr es"
      and s0: "db_tables s0 = db_tables s" and s1: "db_tables s' = db_tables s1"
      and tx: "replay_tx w es (lr_SaveProjectionCheckpoint event_log_reader (rn_name r) (le_LogID (last es))) s0 = (None, s1)"
      and off: "offset_of (db_tables s') (rn_name r) = le_LogID (last es)"
      and res: "case res of Inl _ \<Rightarrow> True | Inr (m, k) \<Rightarrow> m = le_LogID (last es) \<and> k = length es"
    have act: "activity_ids s1 = activity_ids s'" "activity_ids s0 = activity_ids s" using s0 s1 by (simp_all add: activity_ids_def)
    obtain ps u where u: "projectable es" "op_ids ps = op_ids (all_ops es)" "for_each (store_op pg) ps s0 = (None, u)"
        "activity_ids s1 = activity_ids u"
      using replay_tx_ops [OF assms(1) w tx [unfolded event_log_reader_def logReader.simps]] by metis
    have written: "activity_ids s \<union> op_ids (all_ops es) \<subseteq> activity_ids s'" using store_ops_done [OF u(3)] u(2,4) act by simp
    have "se_event_id x \<in> activity_ids s'"
      if "x \<in> set (service_events (db_tables s))" "n < se_log_id x" "se_log_id x \<le> offset_of (db_tables s') name" for x
    proof -
      have "fst (ListServiceEventsAfterLogID n (rn_batchSize r) s) = Inr es" using es by (simp add: event_log_reader_def)
      from listed_all [OF this ne that(1,2)] have "se_event_id x \<in> (ev_EventID \<circ> le_Event) ` set es"
        using that(1,3) off r(2) assms(3) by simp
      then show ?thesis using entry_op_done [OF u(1)] written by auto
    qed
    then show ?thesis using written res off r(2) by auto
  qed
  then show "activity_ids s \<subseteq> activity_ids s'"
    "offset_of (db_tables s') name = offset_of (db_tables s) name \<or>
       (\<forall>x\<in>set (service_events (db_tables s)). n < se_log_id x \<longrightarrow> se_log_id x \<le> offset_of (db_tables s') name \<longrightarrow>
          se_event_id x \<in> activity_ids s')"
    "res = Inr (m, k) \<Longrightarrow> m = n \<and> offset_of (db_tables s') name = offset_of (db_tables s) name \<or> m = offset_of (db_tables s') name"
    by blast+
qed

text \<open>Runs in which every row becomes visible ahead of the checkpoint.\<close>

definition visible :: "LogSystem \<Rightarrow> ServiceEventRow set" where
  "visible s = set (service_events (db_tables (cs_db s)))"

definition reached :: "string \<Rightarrow> LogSystem \<Rightarrow> int" where
  "reached name s = offset_of (db_tables (cs_db s)) name"

inductive ordered_run :: "Pg \<Rightarrow> Db Runner \<Rightarrow> string \<Rightarrow> LogSystem \<Rightarrow> LogSystem \<Rightarrow> bool" for pg r name where
  ordered_refl: "ordered_run pg r name s s"
| ordered_step: "\<lbrakk>ordered_run pg r name s t; commit_step pg r t u; \<forall>x\<in>visible u - visible t. reached name t < se_log_id x\<rbrakk> \<Longrightarrow>
     ordered_run pg r name s u"

definition ids_below :: "int \<Rightarrow> ServiceEventRow set \<Rightarrow> bool" where
  "ids_below n rows \<longleftrightarrow> 0 < n \<and> (\<forall>x\<in>rows. 0 < se_log_id x \<and> se_log_id x < n) \<and> inj_on se_log_id rows"

lemma ids_below_insert: "ids_below n rows \<Longrightarrow> se_log_id row = n \<Longrightarrow> ids_below (n + 1) (insert row rows)"
  by (force simp: ids_below_def inj_on_insert)

lemma ids_below_mono: "ids_below n rows \<Longrightarrow> rows' \<subseteq> rows \<Longrightarrow> n \<le> m \<Longrightarrow> ids_below m rows'"
  using inj_on_subset [of se_log_id rows rows'] by (force simp: ids_below_def)

definition rows_inv :: "LogSystem \<Rightarrow> bool" where
  "rows_inv s \<longleftrightarrow> ids_below (db_log_seq (cs_db s)) (visible s \<union> set (cs_flight s))"

definition checkpoint_inv :: "string \<Rightarrow> LogSystem \<Rightarrow> bool" where
  "checkpoint_inv name s \<longleftrightarrow> (\<forall>n. cs_last s = Some n \<longrightarrow> n = reached name s) \<and>
     (\<forall>x\<in>visible s. se_log_id x \<le> reached name s \<longrightarrow> se_event_id x \<in> activity_ids (cs_db s))"

text \<open>What a batch of the projector, applied or not, does to the log and its checkpoint.\<close>

lemma batch_invs:
  assumes "replays pg name r" "rows_inv s" "checkpoint_inv name s" "cs_last s = Some n" "ReplayBatch r n (cs_db s) = (res, db)"
    "case last' of None \<Rightarrow> True | Some m \<Rightarrow> \<exists>k. res = Inr (m, k)"
  shows "rows_inv (s\<lparr>cs_db := db, cs_last := last'\<rparr>)" "checkpoint_inv name (s\<lparr>cs_db := db, cs_last := last'\<rparr>)"
proof -
  note ids = ReplayBatch_ids [OF assms(1,5)] and seq = ReplayBatch_seq [OF assms(1,5)]
  have uniq: "\<forall>x\<in>set (service_events (db_tables (cs_db s))). \<forall>y\<in>set (service_events (db_tables (cs_db s))).
      se_log_id y = se_log_id x \<longrightarrow> y = x"
    using assms(2) by (auto simp: rows_inv_def ids_below_def visible_def dest: inj_onD)
  note reaches = ReplayBatch_reaches [OF assms(1,5) uniq]
  show "rows_inv (s\<lparr>cs_db := db, cs_last := last'\<rparr>)" using assms(2) ids(1) seq by (simp add: rows_inv_def visible_def)
  have n: "n = reached name s" using assms(3,4) by (simp add: checkpoint_inv_def)
  have "m = offset_of (db_tables db) name" if "last' = Some m" for m
    using assms(6) that reaches(3) n by (auto simp: reached_def)
  moreover have "se_event_id x \<in> activity_ids db"
    if "x \<in> set (service_events (db_tables (cs_db s)))" "se_log_id x \<le> offset_of (db_tables db) name" for x
  proof (cases "se_log_id x \<le> n")
    case True
    then show ?thesis using assms(3) that(1) n reaches(1) by (auto simp: checkpoint_inv_def visible_def)
  next
    case False
    then have "offset_of (db_tables db) name \<noteq> reached name s" using that(2) n by simp
    then show ?thesis using reaches(2) that False by (auto simp: reached_def)
  qed
  ultimately show "checkpoint_inv name (s\<lparr>cs_db := db, cs_last := last'\<rparr>)"
    using ids(1) by (auto simp: checkpoint_inv_def visible_def reached_def)
qed

lemma ordered_step_invs:
  assumes "replays pg name r" "commit_step pg r s t" "\<forall>x\<in>visible t - visible s. reached name s < se_log_id x"
    "rows_inv s" "checkpoint_inv name s"
  shows "rows_inv t \<and> checkpoint_inv name t"
  using assms(2)
proof cases
  case (insert event row)
  note p = prepare_row [OF insert(2)]
  have "visible t \<union> set (cs_flight t) = insert row (visible s \<union> set (cs_flight s))" "db_log_seq (cs_db t) = db_log_seq (cs_db s) + 1"
    by (auto simp: insert(1) visible_def next_log_id_def)
  then have "rows_inv t" using assms(4) p(1) ids_below_insert by (simp add: rows_inv_def)
  then show ?thesis using assms(5) by (simp add: insert(1) checkpoint_inv_def visible_def reached_def next_log_id_def activity_ids_def)
next
  case no_row
  have "rows_inv t"
    using ids_below_mono [OF assms(4) [unfolded rows_inv_def] order_refl, of "db_log_seq (cs_db s) + 1"]
    by (simp add: no_row rows_inv_def visible_def next_log_id_def)
  then show ?thesis
    using assms(5) by (simp add: no_row checkpoint_inv_def visible_def reached_def next_log_id_def activity_ids_def)
next
  case (commit row)
  have db: "activity_ids (cs_db t) = activity_ids (cs_db s)" "reached name t = reached name s" "cs_last t = cs_last s"
      "db_log_seq (cs_db t) = db_log_seq (cs_db s)"
    by (simp_all add: commit(1) show_row_def activity_ids_def reached_def offset_of_def)
  have vis: "visible t = insert row (visible s)" by (simp add: commit(1) show_row_def visible_def)
  have "set (cs_flight t) \<subseteq> set (cs_flight s)" by (simp add: commit(1) set_remove1_subset)
  then have "visible t \<union> set (cs_flight t) \<subseteq> visible s \<union> set (cs_flight s)" using commit(2) vis by auto
  then have "rows_inv t" using assms(4) db(4) ids_below_mono by (simp add: rows_inv_def)
  moreover have "row \<in> visible s \<or> reached name s < se_log_id row" using assms(3) vis by auto
  then have "checkpoint_inv name t" using assms(5) by (auto simp: checkpoint_inv_def db vis)
  ultimately show ?thesis by simp
next
  case (abort row)
  have "visible t \<union> set (cs_flight t) \<subseteq> visible s \<union> set (cs_flight s)"
    using set_remove1_subset [of row "cs_flight s"] by (auto simp: abort(1) visible_def)
  then have "rows_inv t" using assms(4) ids_below_mono by (simp add: rows_inv_def abort(1))
  then show ?thesis using assms(5) by (simp add: abort(1) checkpoint_inv_def visible_def reached_def)
next
  case (start n db)
  have load: "LoadProjectionCheckpoint name (cs_db s) = (Inr n, db)"
    using start(3) assms(1) by (simp add: replays_def event_log_reader_def)
  note l = LoadProjectionCheckpoint_offset [OF load]
  have "db_log_seq db = db_log_seq (cs_db s)"
    using load db_read_state [of "\<lambda>t. Inr (map_of (projection_offsets t) name)" "cs_db s"]
    by (auto simp: LoadProjectionCheckpoint_def split: prod.splits sum.splits option.splits)
  then show ?thesis
    using assms(4,5) l by (simp add: start(1) rows_inv_def checkpoint_inv_def visible_def reached_def activity_ids_def)
next
  case (project n m k db)
  then show ?thesis using batch_invs [OF assms(1,4,5) project(2,3), of "Some m"] by simp
next
  case (stop n e db)
  then show ?thesis using batch_invs [OF assms(1,4,5) stop(2,3), of None] by simp
next
  case restart
  then show ?thesis using assms(4,5) by (simp add: rows_inv_def checkpoint_inv_def visible_def reached_def)
qed

definition log_start :: "(nat \<Rightarrow> db_fault option) \<Rightarrow> LogSystem" where
  "log_start faults = \<lparr> cs_db = empty_db faults, cs_flight = [], cs_last = None \<rparr>"

section \<open>Properties\<close>

text \<open>
  C28: an event whose insert commits after the projector has passed its log id is never projected:
  whatever is inserted and committed later, whatever the faults and however often the projector
  is restarted, no activity of it appears.
\<close>

theorem late_commit_never_projected:
  assumes "replays pg name r" "commit_run pg r s t" "passed_by name row s"
  shows "se_event_id row \<notin> ac_event_id ` set (token_activity_events (db_tables (cs_db t)))"
proof -
  have "passed_by name row t"
    using assms(2,3) by (induction rule: commit_run.induct) (use passed_by_step [OF assms(1)] in blast)+
  then show ?thesis by (simp add: passed_by_def activity_ids_def)
qed


text \<open>
  C5: the checkpoint tells the truth: as long as rows become visible ahead of it, every event of
  the log up to the checkpoint has its activity in the read model, whatever the faults of the
  database, with transactions that fail before or after they took effect, aborted inserts, and
  however often the projector stops and is started again.
\<close>

theorem checkpoint_complete:
  assumes "replays pg name r" "ordered_run pg r name (log_start faults) t"
    "row \<in> set (service_events (db_tables (cs_db t)))" "se_log_id row \<le> offset_of (db_tables (cs_db t)) name"
  shows "se_event_id row \<in> ac_event_id ` set (token_activity_events (db_tables (cs_db t)))"
proof -
  have "rows_inv t \<and> checkpoint_inv name t"
    using assms(2)
  proof (induction "log_start faults" t rule: ordered_run.induct)
    case ordered_refl
    show ?case by (simp add: log_start_def rows_inv_def ids_below_def checkpoint_inv_def visible_def reached_def empty_db_def empty_tables_def)
  next
    case (ordered_step t u)
    then show ?case using ordered_step_invs [OF assms(1)] by blast
  qed
  then show ?thesis using assms(3,4) by (simp add: checkpoint_inv_def visible_def reached_def activity_ids_def)
qed

section \<open>Witness\<close>

text \<open>Two inserts of which the second commits first; the projector runs between the commits.\<close>

definition early :: Envelope where
  "early = example_event ''a'' ''pumpfun'' ''migrate'' (example_payload ''m1'' ''p1'')"

definition late :: Envelope where
  "late = example_event ''b'' ''pumpfun'' ''migrate'' (example_payload ''m2'' ''p2'')"

definition early_row :: ServiceEventRow where
  "early_row = example_row 1 early (example_payload ''m1'' ''p1'')"

definition late_row :: ServiceEventRow where
  "late_row = example_row 2 late (example_payload ''m2'' ''p2'')"

definition numbered_db :: "nat \<Rightarrow> Db" where
  "numbered_db k = (next_log_id ^^ k) (empty_db (\<lambda>_. None))"

lemma example_prepares:
  "prepare pg_plain early (numbered_db 0) = Some early_row" "prepare pg_plain late (numbered_db 1) = Some late_row"
  by (code_simp, code_simp)

lemma numbered_shown:
  "service_events (db_tables (show_row row (numbered_db 2))) = [row]" "db_log_seq (show_row row (numbered_db 2)) = 3"
  "fault_free (show_row row (numbered_db 2))" "projection_offsets (db_tables (show_row row (numbered_db 2))) = []"
  by (simp_all add: show_row_def numbered_db_def numeral_2_eq_2 next_log_id_def empty_db_def empty_tables_def fault_free_def)

lemma example_rows:
  "se_log_id early_row = 1" "se_event_id early_row = ''a''" "se_log_id late_row = 2" "se_event_id late_row = ''b''"
  by (simp_all add: early_row_def late_row_def early_def late_def example_row_def service_event_row_def example_event_def)

lemma early_late: "late_row \<noteq> early_row"
  using example_rows by (metis one_eq_numeral_iff semiring_norm(85))

lemma late_batch:
  "\<exists>db. ReplayBatch example_runner 0 (tick (show_row late_row (numbered_db 2))) = (Inr (2, 1), db) \<and>
     offset_of (db_tables db) ''core'' = 2"
proof -
  let ?s = "tick (show_row late_row (numbered_db 2))" and ?es = "[example_entry 2 late]"
  have "row_entry False late_row = Inr (example_entry 2 late)"
    unfolding late_row_def late_def by (rule example_row_entry)
  then have es: "row_entries False (rows_after 0 (db_tables ?s)) = Inr ?es"
    by (simp add: rows_after_def numbered_shown example_rows)
  have inv: "log_inv ?s" "fault_free ?s" by (simp_all add: log_inv_def numbered_shown example_rows)
  have ops: "all_ops ?es = project_ops late (example_payload ''m2'' ''p2'')" "projectable ?es"
    by (simp_all add: all_ops_def projectable_def late_def example_migration_ops)
  have "fst (for_each (store_op pg_plain) (project_ops late (example_payload ''m2'' ''p2'')) ?s) = None" by code_simp
  then obtain t1 where t1: "for_each (store_op pg_plain) (all_ops ?es) ?s = (None, t1)" by (metis ops(1) prod.collapse)
  have "?es = take (nat (rn_batchSize example_runner)) ?es" by (simp add: example_runner_def)
  from ReplayBatch_step [OF example_replays inv(2,1) es this _ ops(2) t1] obtain c where
    "ReplayBatch example_runner 0 ?s = (Inr (2, 1), reframe c (AList.update ''core'' 2 (projection_offsets (db_tables ?s))) t1)"
    by (auto simp: example_entry_def)
  then show ?thesis by (auto simp: offset_of_def update_conv')
qed

lemma numbered_next: "next_log_id (numbered_db k) = numbered_db (Suc k)"
  by (simp add: numbered_db_def)

lemma example_events: "ev_EventID early = ''a''" "ev_EventID late = ''b''"
  by (simp_all add: early_def late_def example_event_def)

text \<open>The steps of the examples; fl is what else is in flight.\<close>

lemma example_steps:
  "commit_step pg_plain example_runner \<lparr> cs_db = numbered_db 0, cs_flight = [], cs_last = None \<rparr>
     \<lparr> cs_db = numbered_db 1, cs_flight = [early_row], cs_last = None \<rparr>"
  "''b'' \<notin> se_event_id ` set fl \<Longrightarrow>
   commit_step pg_plain example_runner \<lparr> cs_db = numbered_db 1, cs_flight = fl, cs_last = None \<rparr>
     \<lparr> cs_db = numbered_db 2, cs_flight = fl @ [late_row], cs_last = None \<rparr>"
  "late_row \<notin> set fl \<Longrightarrow>
   commit_step pg_plain example_runner \<lparr> cs_db = numbered_db 2, cs_flight = fl @ [late_row], cs_last = None \<rparr>
     \<lparr> cs_db = show_row late_row (numbered_db 2), cs_flight = fl, cs_last = None \<rparr>"
  "commit_step pg_plain example_runner \<lparr> cs_db = show_row late_row (numbered_db 2), cs_flight = fl, cs_last = None \<rparr>
     \<lparr> cs_db = tick (show_row late_row (numbered_db 2)), cs_flight = fl, cs_last = Some 0 \<rparr>"
  "ReplayBatch example_runner 0 (tick (show_row late_row (numbered_db 2))) = (Inr (2, 1), db) \<Longrightarrow>
   commit_step pg_plain example_runner \<lparr> cs_db = tick (show_row late_row (numbered_db 2)), cs_flight = fl, cs_last = Some 0 \<rparr>
     \<lparr> cs_db = db, cs_flight = fl, cs_last = Some 2 \<rparr>"
proof -
  show "commit_step pg_plain example_runner \<lparr> cs_db = numbered_db 0, cs_flight = [], cs_last = None \<rparr>
     \<lparr> cs_db = numbered_db 1, cs_flight = [early_row], cs_last = None \<rparr>"
    using commit_step.insert [of pg_plain early "\<lparr> cs_db = numbered_db 0, cs_flight = [], cs_last = None \<rparr>" early_row]
      example_prepares(1) numbered_next [of 0] by simp
  show "commit_step pg_plain example_runner \<lparr> cs_db = numbered_db 1, cs_flight = fl, cs_last = None \<rparr>
     \<lparr> cs_db = numbered_db 2, cs_flight = fl @ [late_row], cs_last = None \<rparr>" if "''b'' \<notin> se_event_id ` set fl"
    using commit_step.insert [of pg_plain late "\<lparr> cs_db = numbered_db 1, cs_flight = fl, cs_last = None \<rparr>" late_row]
      example_prepares(2) numbered_next [of 1] example_events that by (simp add: numeral_2_eq_2)
  show "commit_step pg_plain example_runner \<lparr> cs_db = numbered_db 2, cs_flight = fl @ [late_row], cs_last = None \<rparr>
     \<lparr> cs_db = show_row late_row (numbered_db 2), cs_flight = fl, cs_last = None \<rparr>" if "late_row \<notin> set fl"
    using commit_step.commit [of late_row "\<lparr> cs_db = numbered_db 2, cs_flight = fl @ [late_row], cs_last = None \<rparr>" pg_plain example_runner]
      that by (simp add: remove1_append)
  have "LoadProjectionCheckpoint ''core'' (show_row late_row (numbered_db 2)) = (Inr 0, tick (show_row late_row (numbered_db 2)))"
    by (simp add: LoadProjectionCheckpoint_def db_read_fault_free numbered_shown)
  then show "commit_step pg_plain example_runner \<lparr> cs_db = show_row late_row (numbered_db 2), cs_flight = fl, cs_last = None \<rparr>
     \<lparr> cs_db = tick (show_row late_row (numbered_db 2)), cs_flight = fl, cs_last = Some 0 \<rparr>"
    using commit_step.start [of "\<lparr> cs_db = show_row late_row (numbered_db 2), cs_flight = fl, cs_last = None \<rparr>" example_runner 0]
    by (simp add: example_runner_def NewRunner_def event_log_reader_def)
  show "commit_step pg_plain example_runner \<lparr> cs_db = tick (show_row late_row (numbered_db 2)), cs_flight = fl, cs_last = Some 0 \<rparr>
     \<lparr> cs_db = db, cs_flight = fl, cs_last = Some 2 \<rparr>"
    if "ReplayBatch example_runner 0 (tick (show_row late_row (numbered_db 2))) = (Inr (2, 1), db)"
    using commit_step.project [of "\<lparr> cs_db = tick (show_row late_row (numbered_db 2)), cs_flight = fl, cs_last = Some 0 \<rparr>" 0 example_runner 2 1 db]
      that by simp
qed

lemma late_commit_never_projected_witness:
  "\<exists>t. commit_run pg_plain example_runner \<lparr> cs_db = numbered_db 0, cs_flight = [], cs_last = None \<rparr> t \<and>
     early_row \<in> set (service_events (db_tables (cs_db t))) \<and> offset_of (db_tables (cs_db t)) ''core'' = 2 \<and>
     ''a'' \<notin> ac_event_id ` set (token_activity_events (db_tables (cs_db t)))"
proof -
  obtain db where db: "ReplayBatch example_runner 0 (tick (show_row late_row (numbered_db 2))) = (Inr (2, 1), db)"
      "offset_of (db_tables db) ''core'' = 2"
    using late_batch by auto
  let ?s5 = "\<lparr> cs_db = db, cs_flight = [early_row], cs_last = Some 2 \<rparr>"
  let ?s6 = "\<lparr> cs_db = show_row early_row db, cs_flight = [], cs_last = Some 2 \<rparr>"
  have fl: "''b'' \<notin> se_event_id ` set [early_row]" "late_row \<notin> set [early_row]" using early_late by (simp_all add: example_rows)
  have "commit_step pg_plain example_runner ?s5 ?s6" using commit_step.commit [of early_row ?s5] by simp
  note run_step [OF run_step [OF run_step [OF run_step [OF run_step [OF run_step [OF run_refl example_steps(1)]
    example_steps(2) [OF fl(1)]] example_steps(3) [OF fl(2)]] example_steps(4)] example_steps(5) [OF db(1)]] this]
  then have run: "commit_run pg_plain example_runner \<lparr> cs_db = numbered_db 0, cs_flight = [], cs_last = None \<rparr> ?s6" .
  note batch = ReplayBatch_ids [OF example_replays db(1)]
  have rows: "service_events (db_tables db) = [late_row]"
    using batch(1) by (simp add: numbered_shown)
  have "''a'' \<notin> activity_ids db"
    using batch(4) [of "''a''"] rows batch(1) example_rows(4)
    by (auto simp: activity_ids_def show_row_def numbered_db_def numeral_2_eq_2 next_log_id_def empty_db_def empty_tables_def)
  then have "passed_by ''core'' early_row ?s6"
    using rows example_rows db(2) by (simp add: passed_by_def show_row_def activity_ids_def offset_of_def)
  from late_commit_never_projected [OF example_replays run_refl this] run example_rows db(2) show ?thesis
    by (intro exI [of _ ?s6]) (simp add: show_row_def offset_of_def)
qed

text \<open>The other insert is given up: the row that is committed is projected.\<close>

lemma checkpoint_complete_witness:
  "\<exists>t. ordered_run pg_plain example_runner ''core'' (log_start (\<lambda>_. None)) t \<and>
     late_row \<in> set (service_events (db_tables (cs_db t))) \<and> offset_of (db_tables (cs_db t)) ''core'' = 2 \<and>
     ''b'' \<in> ac_event_id ` set (token_activity_events (db_tables (cs_db t)))"
proof -
  obtain db where db: "ReplayBatch example_runner 0 (tick (show_row late_row (numbered_db 2))) = (Inr (2, 1), db)"
      "offset_of (db_tables db) ''core'' = 2"
    using late_batch by auto
  let ?run = "ordered_run pg_plain example_runner ''core'' (log_start (\<lambda>_. None))"
  let ?s1 = "\<lparr> cs_db = numbered_db 1, cs_flight = [early_row], cs_last = None \<rparr>"
  let ?s5 = "\<lparr> cs_db = db, cs_flight = [], cs_last = Some 2 \<rparr>"
  have rows: "service_events (db_tables db) = [late_row]"
    using ReplayBatch_ids(1) [OF example_replays db(1)] by (simp add: numbered_shown)
  have none: "service_events (db_tables (numbered_db k)) = [] \<and> projection_offsets (db_tables (numbered_db k)) = []" for k
    by (induction k) (simp_all add: numbered_db_def next_log_id_def empty_db_def empty_tables_def)
  note vis = visible_def reached_def offset_of_def none numbered_shown example_rows rows
  have "?run \<lparr> cs_db = numbered_db 0, cs_flight = [], cs_last = None \<rparr>"
    by (simp add: log_start_def numbered_db_def ordered_refl)
  then have "?run ?s1" by (rule ordered_step [OF _ example_steps(1)]) (simp add: vis)
  then have "?run \<lparr> cs_db = numbered_db 1, cs_flight = [], cs_last = None \<rparr>"
    by (rule ordered_step) (use commit_step.abort [of early_row ?s1 pg_plain example_runner] in \<open>simp_all add: vis\<close>)
  then have "?run \<lparr> cs_db = numbered_db 2, cs_flight = [late_row], cs_last = None \<rparr>"
    by (rule ordered_step) (use example_steps(2) [of "[]"] in \<open>simp_all add: vis\<close>)
  then have "?run \<lparr> cs_db = show_row late_row (numbered_db 2), cs_flight = [], cs_last = None \<rparr>"
    by (rule ordered_step) (use example_steps(3) [of "[]"] in \<open>simp_all add: vis\<close>)
  then have "?run \<lparr> cs_db = tick (show_row late_row (numbered_db 2)), cs_flight = [], cs_last = Some 0 \<rparr>"
    by (rule ordered_step [OF _ example_steps(4)]) (simp add: vis)
  then have "?run ?s5" by (rule ordered_step [OF _ example_steps(5) [OF db(1)]]) (simp add: vis)
  from checkpoint_complete [OF example_replays this, of late_row] this show ?thesis
    using rows db(2) example_rows by (intro exI [of _ ?s5]) simp
qed

end
