(* ===== verification/Metrics.thy ===== *)
theory Metrics
  imports GoPrelude Float64 "HOL-Library.AList" "HOL-Library.List_Lexorder" "HOL-Library.Char_ord"
begin

text \<open>
  internal/observability/metrics.go: the registry of counters, gauges and histograms. Counters and
  gauges are cells the goroutines share: a goroutine looks the cell of a name up under the read
  lock, creates it under the write lock when it was missing, and changes it with an atomic
  operation, other goroutines taking their turns in between.
\<close>

section \<open>The registry\<close>

record histogram =
  hg_bounds :: "f64 list"
  hg_counts :: "int list"
  hg_count :: int
  hg_sum :: f64

record Registry =
  rg_startedAt :: int
  rg_counters :: "(string \<times> nat) list"
  rg_gauges :: "(string \<times> nat) list"
  rg_histograms :: "(string \<times> histogram) list"
  rg_cells :: "int list"

definition NewRegistry :: "int \<Rightarrow> Registry" where
  "NewRegistry now = \<lparr> rg_startedAt = now, rg_counters = [], rg_gauges = [], rg_histograms = [], rg_cells = [] \<rparr>"

section \<open>Counters and gauges\<close>

datatype metric_op = IncCounter string int | SetGauge string int | AddGauge string int

fun is_counter :: "metric_op \<Rightarrow> bool" where
  "is_counter (IncCounter _ _) \<longleftrightarrow> True"
| "is_counter _ \<longleftrightarrow> False"

fun op_name :: "metric_op \<Rightarrow> string" where
  "op_name (IncCounter name _) = name"
| "op_name (SetGauge name _) = name"
| "op_name (AddGauge name _) = name"

text \<open>What the operation does to the cell; nothing at all when it adds zero.\<close>

fun op_apply :: "metric_op \<Rightarrow> int \<Rightarrow> int" where
  "op_apply (IncCounter _ delta) v = add64 v delta"
| "op_apply (SetGauge _ value) v = value"
| "op_apply (AddGauge _ delta) v = add64 v delta"

fun op_noop :: "metric_op \<Rightarrow> bool" where
  "op_noop (IncCounter _ delta) \<longleftrightarrow> delta = 0"
| "op_noop (SetGauge _ _) \<longleftrightarrow> False"
| "op_noop (AddGauge _ delta) \<longleftrightarrow> delta = 0"

definition cell_of :: "Registry \<Rightarrow> bool \<Rightarrow> string \<Rightarrow> nat option" where
  "cell_of r counter name = map_of (if counter then rg_counters r else rg_gauges r) name"

text \<open>The part under the write lock: look again, and create the cell.\<close>

definition create_cell :: "bool \<Rightarrow> string \<Rightarrow> Registry \<Rightarrow> nat \<times> Registry" where
  "create_cell counter name r = (case cell_of r counter name of
      Some c \<Rightarrow> (c, r)
    | None \<Rightarrow> (let c = length (rg_cells r); r' = r\<lparr>rg_cells := rg_cells r @ [0]\<rparr> in
        (c, if counter then r'\<lparr>rg_counters := (name, c) # rg_counters r\<rparr> else r'\<lparr>rg_gauges := (name, c) # rg_gauges r\<rparr>)))"

text \<open>Where a goroutine is in its operation, and its next step.\<close>

datatype goroutine = Starting metric_op | Missed metric_op | Holding nat metric_op | Finished metric_op

fun advance :: "Registry \<Rightarrow> goroutine \<Rightarrow> Registry \<times> goroutine" where
  "advance r (Starting op) =
     (if op_noop op then (r, Finished op)
      else case cell_of r (is_counter op) (op_name op) of None \<Rightarrow> (r, Missed op) | Some c \<Rightarrow> (r, Holding c op))"
| "advance r (Missed op) = (case create_cell (is_counter op) (op_name op) r of (c, r') \<Rightarrow> (r', Holding c op))"
| "advance r (Holding c op) = (r\<lparr>rg_cells := (rg_cells r)[c := op_apply op (rg_cells r ! c)]\<rparr>, Finished op)"
| "advance r (Finished op) = (r, Finished op)"

text \<open>A schedule names the goroutine that takes the next turn.\<close>

fun run_schedule :: "nat list \<Rightarrow> Registry \<times> goroutine list \<Rightarrow> Registry \<times> goroutine list" where
  "run_schedule [] st = st"
| "run_schedule (i # is) (r, gs) =
     (if i < length gs then (case advance r (gs ! i) of (r', g) \<Rightarrow> run_schedule is (r', gs[i := g]))
      else run_schedule is (r, gs))"

text \<open>The operation of one goroutine alone.\<close>

definition perform :: "metric_op \<Rightarrow> Registry \<Rightarrow> Registry" where
  "perform op r = fst (run_schedule [0, 0, 0] (r, [Starting op]))"

definition metric_value :: "Registry \<Rightarrow> bool \<Rightarrow> string \<Rightarrow> int" where
  "metric_value r counter name = (case cell_of r counter name of None \<Rightarrow> 0 | Some c \<Rightarrow> rg_cells r ! c)"

section \<open>Histograms\<close>

definition default_bounds :: "f64 list" where
  "default_bounds = map f64_of_int [5, 10, 25, 50, 100, 250, 500, 1000, 2500, 5000]"

definition new_histogram :: histogram where
  "new_histogram = \<lparr> hg_bounds = default_bounds, hg_counts = replicate 11 0, hg_count = 0, hg_sum = f64_zero \<rparr>"

fun bucket_index :: "f64 \<Rightarrow> f64 list \<Rightarrow> nat" where
  "bucket_index value [] = 0"
| "bucket_index value (bound # bounds) = (if f64_le value bound then 0 else Suc (bucket_index value bounds))"

definition observe :: "f64 \<Rightarrow> histogram \<Rightarrow> histogram" where
  "observe value h = (let idx = bucket_index value (hg_bounds h) in
     h\<lparr>hg_counts := (hg_counts h)[idx := u64 (hg_counts h ! idx + 1)], hg_count := u64 (hg_count h + 1),
       hg_sum := f64_add (hg_sum h) value\<rparr>)"

definition histogram_of :: "string \<Rightarrow> Registry \<Rightarrow> histogram" where
  "histogram_of name r = (case map_of (rg_histograms r) name of Some h \<Rightarrow> h | None \<Rightarrow> new_histogram)"

definition ObserveMilliseconds :: "string \<Rightarrow> f64 \<Rightarrow> Registry \<Rightarrow> Registry" where
  "ObserveMilliseconds name value r =
     (if f64_is_nan value \<or> f64_is_inf value \<or> f64_lt value f64_zero then r
      else r\<lparr>rg_histograms := (name, observe value (histogram_of name r)) # AList.delete name (rg_histograms r)\<rparr>)"

text \<open>A duration in nanoseconds.\<close>

definition ObserveDuration :: "string \<Rightarrow> int \<Rightarrow> Registry \<Rightarrow> Registry" where
  "ObserveDuration name d r = ObserveMilliseconds name (f64_of_int (go_quot d 1000000)) r"

section \<open>Snapshots\<close>

record HistogramSnapshot =
  hs_Count :: int
  hs_Sum :: f64
  hs_Average :: f64
  hs_Bounds :: "f64 list"
  hs_BucketCounts :: "int list"

record Snapshot =
  sn_UptimeSeconds :: int
  sn_Counters :: "(string \<times> int) list"
  sn_Gauges :: "(string \<times> int) list"
  sn_Histograms :: "(string \<times> HistogramSnapshot) list"

definition histogram_snapshot :: "histogram \<Rightarrow> HistogramSnapshot" where
  "histogram_snapshot h = \<lparr>
     hs_Count = hg_count h, hs_Sum = hg_sum h,
     hs_Average = (if 0 < hg_count h then f64_div (hg_sum h) (f64_of_int (hg_count h)) else f64_zero),
     hs_Bounds = hg_bounds h, hs_BucketCounts = hg_counts h \<rparr>"

definition sortedNames :: "(string \<times> 'a) list \<Rightarrow> string list" where
  "sortedNames values = sort (remdups (map fst values))"

text \<open>Duration.Seconds, and the conversion of a finite number to an integer.\<close>

definition duration_seconds :: "int \<Rightarrow> f64" where
  "duration_seconds d = f64_add (f64_of_int (go_quot d 1000000000)) (f64_div (f64_of_int (go_rem d 1000000000)) (f64_of_int 1000000000))"

fun f64_trunc :: "f64 \<Rightarrow> int" where
  "f64_trunc (Fin s m e) = (let n = (if 0 \<le> e then m * 2 ^ nat e else m div 2 ^ nat (- e)) in if s then - n else n)"
| "f64_trunc _ = 0"

definition registry_Snapshot :: "int \<Rightarrow> Registry \<Rightarrow> Snapshot" where
  "registry_Snapshot now r = \<lparr>
     sn_UptimeSeconds = f64_trunc (duration_seconds (sub64 now (rg_startedAt r))),
     sn_Counters = map (\<lambda>name. (name, metric_value r True name)) (sortedNames (rg_counters r)),
     sn_Gauges = map (\<lambda>name. (name, metric_value r False name)) (sortedNames (rg_gauges r)),
     sn_Histograms = map (\<lambda>name. (name, histogram_snapshot (histogram_of name r))) (sortedNames (rg_histograms r)) \<rparr>"

section \<open>No update is lost\<close>

fun g_op :: "goroutine \<Rightarrow> metric_op" where
  "g_op (Starting op) = op"
| "g_op (Missed op) = op"
| "g_op (Holding _ op) = op"
| "g_op (Finished op) = op"

fun g_finished :: "goroutine \<Rightarrow> bool" where
  "g_finished (Finished _) \<longleftrightarrow> True"
| "g_finished _ \<longleftrightarrow> False"

text \<open>What an operation adds to a metric.\<close>

fun op_delta :: "bool \<Rightarrow> string \<Rightarrow> metric_op \<Rightarrow> int" where
  "op_delta counter name (IncCounter n delta) = (if counter \<and> n = name then delta else 0)"
| "op_delta counter name (AddGauge n delta) = (if \<not> counter \<and> n = name then delta else 0)"
| "op_delta counter name (SetGauge n value) = 0"

definition g_delta :: "bool \<Rightarrow> string \<Rightarrow> goroutine \<Rightarrow> int" where
  "g_delta counter name g = (if g_finished g then op_delta counter name (g_op g) else 0)"

text \<open>Every name has a cell of its own, and a goroutine holds the cell of its name.\<close>

definition registry_inv :: "Registry \<Rightarrow> bool" where
  "registry_inv r \<longleftrightarrow>
     (\<forall>k n c. cell_of r k n = Some c \<longrightarrow> c < length (rg_cells r)) \<and>
     (\<forall>k n k' n' c. cell_of r k n = Some c \<longrightarrow> cell_of r k' n' = Some c \<longrightarrow> k = k' \<and> n = n')"

fun g_inv :: "Registry \<Rightarrow> goroutine \<Rightarrow> bool" where
  "g_inv r (Holding c op) \<longleftrightarrow> cell_of r (is_counter op) (op_name op) = Some c"
| "g_inv r _ \<longleftrightarrow> True"

lemma registry_invD:
  assumes "registry_inv r"
  shows "cell_of r k n = Some c \<Longrightarrow> c < length (rg_cells r)"
    "cell_of r k n = Some c \<Longrightarrow> cell_of r k' n' = Some c \<Longrightarrow> k = k' \<and> n = n'"
  using assms unfolding registry_inv_def by blast+

lemma create_cell_new:
  assumes "cell_of r k n = None" "create_cell k n r = (c, r')"
  shows "c = length (rg_cells r)" "rg_cells r' = rg_cells r @ [0]"
    "cell_of r' k' n' = (if k' = k \<and> n' = n then Some (length (rg_cells r)) else cell_of r k' n')"
  using assms by (auto simp: create_cell_def cell_of_def Let_def)

lemma create_cell_spec:
  assumes "registry_inv r" "create_cell k n r = (c, r')"
  shows "registry_inv r' \<and> cell_of r' k n = Some c \<and> (\<forall>k' n' d. cell_of r k' n' = Some d \<longrightarrow> cell_of r' k' n' = Some d) \<and>
    metric_value r' k' n' = metric_value r k' n'"
proof (cases "cell_of r k n")
  case (Some d)
  then show ?thesis using assms by (simp add: create_cell_def)
next
  case None
  note new = create_cell_new [OF None assms(2)]
  have old: "d < length (rg_cells r)" if "cell_of r k' n' = Some d" for k' n' d
    using that by (rule registry_invD(1) [OF assms(1)])
  have inv: "registry_inv r'"
    unfolding registry_inv_def
  proof (intro conjI allI impI)
    show "d < length (rg_cells r')" if "cell_of r' k' n' = Some d" for k' n' d
      using that old [of k' n' d] by (auto simp: new(2,3) split: if_splits)
    show "k1 = k2" "n1 = n2" if "cell_of r' k1 n1 = Some d" "cell_of r' k2 n2 = Some d" for k1 n1 k2 n2 d
      using that old [of k1 n1 d] old [of k2 n2 d] registry_invD(2) [OF assms(1), of k1 n1 d k2 n2]
      by (auto simp: new(3) split: if_splits)
  qed
  have "metric_value r' k' n' = metric_value r k' n'"
    using old [of k' n'] None by (cases "cell_of r k' n'") (auto simp: metric_value_def new nth_append)
  then show ?thesis using inv None by (simp add: new(1,3))
qed

lemma advance_op: "advance r g = (r', g') \<Longrightarrow> g_op g' = g_op g"
  by (cases g) (auto split: if_splits option.splits prod.splits)

lemma cell_of_cells [simp]: "cell_of (r\<lparr>rg_cells := cs\<rparr>) k n = cell_of r k n"
  by (simp add: cell_of_def)

lemma metric_value_update:
  assumes "registry_inv r" "cell_of r k n = Some c"
  shows "metric_value (r\<lparr>rg_cells := (rg_cells r)[c := v]\<rparr>) k' n' = (if k' = k \<and> n' = n then v else metric_value r k' n')"
proof (cases "cell_of r k' n'")
  case None
  then show ?thesis using assms(2) by (auto simp: metric_value_def)
next
  case (Some d)
  then show ?thesis
    using registry_invD(1) [OF assms] registry_invD(2) [OF assms, of k' n'] assms(2)
    by (auto simp: metric_value_def nth_list_update)
qed

text \<open>A step keeps the invariant, what the others hold, and changes a value by what it finishes.\<close>

definition value_step :: "bool \<Rightarrow> string \<Rightarrow> Registry \<Rightarrow> goroutine \<Rightarrow> Registry \<Rightarrow> goroutine \<Rightarrow> bool" where
  "value_step k name r g r' g' \<longleftrightarrow>
     wrap64 (metric_value r' k name) = wrap64 (metric_value r k name + (g_delta k name g' - g_delta k name g)) \<and>
     (in_i64 (metric_value r k name) \<longrightarrow> in_i64 (metric_value r' k name))"

lemma value_step_same:
  "metric_value r' k name = metric_value r k name \<Longrightarrow> g_delta k name g' = g_delta k name g \<Longrightarrow> value_step k name r g r' g'"
  by (simp add: value_step_def)

lemma value_step_apply:
  assumes "cell_of r (is_counter op) (op_name op) = Some c" "registry_inv r" "\<forall>v. op \<noteq> SetGauge name v"
  shows "value_step k name r (Holding c op) (r\<lparr>rg_cells := (rg_cells r)[c := op_apply op (rg_cells r ! c)]\<rparr>) (Finished op)"
proof -
  have "metric_value r (is_counter op) (op_name op) = rg_cells r ! c" using assms(1) by (simp add: metric_value_def)
  then show ?thesis
    using assms(3) unfolding value_step_def metric_value_update [OF assms(2,1)]
    by (cases op) (auto simp: g_delta_def add64_def)
qed

lemma advance_step:
  assumes "registry_inv r" "g_inv r g" "advance r g = (r', g')" "\<forall>v. g_op g \<noteq> SetGauge name v"
  shows "registry_inv r' \<and> g_inv r' g' \<and> (\<forall>x. g_inv r x \<longrightarrow> g_inv r' x) \<and> value_step k name r g r' g'"
proof (cases g)
  case (Starting op)
  have "g_delta k name (Finished op) = 0" if "op_noop op" using that by (cases op) (auto simp: g_delta_def)
  then show ?thesis using assms(1,3) Starting
    by (auto simp: value_step_def g_delta_def split: if_splits option.splits)
next
  case (Missed op)
  then obtain c where c: "create_cell (is_counter op) (op_name op) r = (c, r')" "g' = Holding c op"
    using assms(3) by (auto split: prod.splits)
  note cc = create_cell_spec [OF assms(1) c(1), of k name]
  have "g_inv r' x" if "g_inv r x" for x using that cc by (cases x) auto
  then show ?thesis using cc c(2) Missed by (simp add: value_step_same g_delta_def)
next
  case (Holding c op)
  have r': "r' = r\<lparr>rg_cells := (rg_cells r)[c := op_apply op (rg_cells r ! c)]\<rparr>" "g' = Finished op"
    using assms(3) Holding by auto
  have c: "cell_of r (is_counter op) (op_name op) = Some c" using assms(2) Holding by simp
  have "g_inv r' x" if "g_inv r x" for x using that by (cases x) (auto simp: r')
  moreover have "registry_inv r'" using assms(1) by (simp add: r' registry_inv_def)
  moreover have "value_step k name r g r' g'"
    unfolding r' Holding by (rule value_step_apply [OF c assms(1)]) (use assms(4) Holding in simp)
  ultimately show ?thesis by (simp add: r'(2))
next
  case (Finished op)
  show ?thesis using assms unfolding Finished by (auto simp: value_step_same)
qed

lemma sum_list_map_update:
  "i < length xs \<Longrightarrow> sum_list (map f (xs[i := x])) = sum_list (map f xs) + (f x - f (xs ! i) :: int)"
  by (induction xs arbitrary: i) (auto split: nat.split simp: algebra_simps)

lemma run_schedule_step:
  assumes "run_schedule is (r, gs) = (r', gs')" "registry_inv r" "\<forall>g\<in>set gs. g_inv r g" "\<forall>v. SetGauge name v \<notin> set (map g_op gs)"
  shows "wrap64 (metric_value r' k name) =
      wrap64 (metric_value r k name + (sum_list (map (g_delta k name) gs') - sum_list (map (g_delta k name) gs))) \<and>
    map g_op gs' = map g_op gs \<and> (in_i64 (metric_value r k name) \<longrightarrow> in_i64 (metric_value r' k name))"
  using assms
proof (induction "is" arbitrary: r gs)
  case (Cons i "is")
  show ?case
  proof (cases "i < length gs")
    case True
    obtain r1 g where a: "advance r (gs ! i) = (r1, g)" by fastforce
    have "g_op (gs ! i) \<in> set (map g_op gs)" using True by simp
    then have s: "\<forall>v. g_op (gs ! i) \<noteq> SetGauge name v" using Cons.prems(4) by metis
    have gi: "g_inv r (gs ! i)" using Cons.prems(3) True by simp
    note st = advance_step [OF Cons.prems(2) gi a s, of k]
    have ops: "map g_op (gs[i := g]) = map g_op gs"
      using advance_op [OF a] by (metis True list_update_id map_update nth_map)
    have inv: "\<forall>x\<in>set (gs[i := g]). g_inv r1 x"
      using st Cons.prems(3) set_update_subset_insert [of gs i g] by blast
    have run: "run_schedule is (r1, gs[i := g]) = (r', gs')" using Cons.prems(1) True a by simp
    have IH: "wrap64 (metric_value r' k name) =
        wrap64 (metric_value r1 k name + (sum_list (map (g_delta k name) gs') - sum_list (map (g_delta k name) (gs[i := g])))) \<and>
        map g_op gs' = map g_op (gs[i := g]) \<and> (in_i64 (metric_value r1 k name) \<longrightarrow> in_i64 (metric_value r' k name))"
      by (rule Cons.IH [OF run _ inv]) (use st ops Cons.prems(4) in simp_all)
    let ?d = "g_delta k name g - g_delta k name (gs ! i)"
    have "wrap64 (metric_value r1 k name + x) = wrap64 (metric_value r k name + ?d + x)" for x
      using st unfolding value_step_def by (metis wrap64_add_left)
    from this [of "sum_list (map (g_delta k name) gs') - (sum_list (map (g_delta k name) gs) + ?d)"]
    have "wrap64 (metric_value r1 k name + (sum_list (map (g_delta k name) gs') - (sum_list (map (g_delta k name) gs) + ?d))) =
        wrap64 (metric_value r k name + (sum_list (map (g_delta k name) gs') - sum_list (map (g_delta k name) gs)))"
      by (simp add: algebra_simps)
    then show ?thesis
      using IH st ops unfolding value_step_def sum_list_map_update [OF True] by simp
  next
    case False
    then show ?thesis using Cons by simp
  qed
qed simp

lemma registry_inv_New: "registry_inv (NewRegistry now)"
  by (simp add: registry_inv_def cell_of_def NewRegistry_def)

text \<open>
  C31: no update of a metric is lost: however the goroutines that touch the registry interleave,
  once they have finished, a counter holds the sum of all increments of its name, and a gauge that
  is only added to the sum of what was added, both in 64 bit arithmetic; two goroutines that miss
  the same new metric end up with the same cell.
\<close>

theorem no_update_lost:
  assumes "run_schedule is (NewRegistry now, map Starting ops) = (r, gs)" "\<forall>g\<in>set gs. g_finished g"
    "\<forall>v. SetGauge name v \<notin> set ops"
  shows "metric_value r counter name = wrap64 (sum_list (map (op_delta counter name) ops))"
proof -
  have zero: "metric_value (NewRegistry now) counter name = 0" "in_i64 0"
    by (simp_all add: metric_value_def cell_of_def NewRegistry_def in_i64_def)
  have start: "sum_list (map (g_delta counter name) (map Starting ops)) = 0"
    by (induction ops) (simp_all add: g_delta_def)
  have run: "wrap64 (metric_value r counter name) = wrap64 (sum_list (map (g_delta counter name) gs)) \<and>
      map g_op gs = ops \<and> in_i64 (metric_value r counter name)"
    using run_schedule_step [OF assms(1) registry_inv_New, of name counter] assms(3) zero start by (simp add: comp_def)
  have "map (g_delta counter name) gs = map (op_delta counter name) (map g_op gs)"
    using assms(2) by (auto simp: g_delta_def)
  then have "wrap64 (metric_value r counter name) = wrap64 (sum_list (map (op_delta counter name) ops))"
    using run by metis
  then show ?thesis using run wrap64_in_range by metis
qed

lemma no_update_lost_witness:
  "metric_value (fst (run_schedule [0, 1, 0, 1, 1, 0, 2, 2, 2] (NewRegistry 0, map Starting [IncCounter ''c'' 1, IncCounter ''c'' 2, SetGauge ''g'' 7])))
     True ''c'' = 3"
proof -
  let ?ops = "[IncCounter ''c'' 1, IncCounter ''c'' 2, SetGauge ''g'' 7]"
  obtain r gs where run: "run_schedule [0, 1, 0, 1, 1, 0, 2, 2, 2] (NewRegistry 0, map Starting ?ops) = (r, gs)" by fastforce
  have fin: "\<forall>g\<in>set gs. g_finished g"
    using run by (auto simp: NewRegistry_def cell_of_def create_cell_def)
  have "metric_value r True ''c'' = wrap64 (sum_list (map (op_delta True ''c'') ?ops))"
    by (rule no_update_lost [OF run fin]) simp
  then show ?thesis using run by (simp add: NewRegistry_def cell_of_def create_cell_def metric_value_def wrap64_def)
qed

end
