(* ===== verification/Docker.thy ===== *)
theory Docker
  imports HttpApi "HOL-Library.List_Lexorder" "HOL-Library.Char_ord"
begin

text \<open>
  internal/ops/docker_monitor.go: the snapshot of the containers and of the data directory that
  /ops/docker serves. What the Docker daemon answers to a path and what the file system holds are
  arguments; times are in nanoseconds.
\<close>

section \<open>Data\<close>

record dockerContainer =
  dc_ID :: string
  dc_Names :: "string list"
  dc_Image :: string
  dc_State :: string
  dc_Status :: string

record dockerInspect =
  di_SizeRw :: int
  di_SizeRootFs :: int

record dockerCPUStats =
  cpu_OnlineCPUs :: int
  cpu_SystemCPUUsage :: int
  cpu_TotalUsage :: int
  cpu_PercpuUsage :: "int list"

record dockerStats =
  ds_CPUStats :: dockerCPUStats
  ds_PreCPUStats :: dockerCPUStats
  ds_MemoryUsage :: int
  ds_MemoryLimit :: int
  ds_Networks :: "(string \<times> int \<times> int) list"
  ds_IOServiceBytesRecursive :: "(string \<times> int) list"

record dockerSystemDF =
  df_Images :: "int list"
  df_Containers :: "int list"
  df_Volumes :: "int list"
  df_BuildCache :: "int list"

record ContainerMetric =
  cm_ID :: string
  cm_Name :: string
  cm_Image :: string
  cm_State :: string
  cm_Status :: string
  cm_CPUPercent :: f64
  cm_MemoryUsageBytes :: int
  cm_MemoryLimitBytes :: int
  cm_MemoryPercent :: f64
  cm_NetworkRxBytes :: int
  cm_NetworkTxBytes :: int
  cm_BlockReadBytes :: int
  cm_BlockWriteBytes :: int
  cm_WritableBytes :: int
  cm_RootFSBytes :: int

record DockerTotals =
  dt_Containers :: int
  dt_Running :: int
  dt_CPUPercent :: f64
  dt_MemoryUsageBytes :: int
  dt_MemoryLimitBytes :: int
  dt_NetworkRxBytes :: int
  dt_NetworkTxBytes :: int
  dt_BlockReadBytes :: int
  dt_BlockWriteBytes :: int
  dt_WritableBytes :: int
  dt_RootFSBytes :: int

record DockerDiskUsage =
  du_ImagesBytes :: int
  du_ContainersBytes :: int
  du_VolumesBytes :: int
  du_BuildCacheBytes :: int
  du_RuntimeDataBytes :: int

record RuntimeDirUsage =
  ru_Name :: string
  ru_Path :: string
  ru_Bytes :: int
  ru_Error :: string

record DockerSnapshot =
  sp_Enabled :: bool
  sp_GeneratedAt :: int
  sp_ContainerPrefix :: string
  sp_Error :: string
  sp_Totals :: DockerTotals
  sp_Containers :: "ContainerMetric list"
  sp_Disk :: DockerDiskUsage
  sp_RuntimeDirs :: "RuntimeDirUsage list"

text \<open>The cache is the time it expires (None for the zero time) and the directories.\<close>

type_synonym runtimeDirUsageCache = "int option \<times> RuntimeDirUsage list"

record DockerMonitorConfig =
  dm_Enabled :: bool
  dm_SocketPath :: string
  dm_ContainerPrefix :: string
  dm_DataPath :: string

type_synonym DockerMonitor = "DockerMonitorConfig \<times> runtimeDirUsageCache"

definition NewDockerMonitor :: "DockerMonitorConfig \<Rightarrow> DockerMonitor" where
  "NewDockerMonitor cfg =
     (\<lparr> dm_Enabled = dm_Enabled cfg,
        dm_SocketPath = (if dm_SocketPath cfg = [] then ''/var/run/docker.sock'' else dm_SocketPath cfg),
        dm_ContainerPrefix = (if dm_ContainerPrefix cfg = [] then ''solana-dashboard-'' else dm_ContainerPrefix cfg),
        dm_DataPath = (if dm_DataPath cfg = [] then ''/ops-data'' else dm_DataPath cfg) \<rparr>, (None, []))"

section \<open>The data directory\<close>

text \<open>path/filepath on Unix: Clean, Join and Base.\<close>

fun split_path :: "string \<Rightarrow> string list" where
  "split_path [] = [[]]"
| "split_path (c # s) = (if c = CHR ''/'' then [] # split_path s
     else case split_path s of [] \<Rightarrow> [[c]] | p # ps \<Rightarrow> (c # p) # ps)"

fun clean_parts :: "bool \<Rightarrow> string list \<Rightarrow> string list \<Rightarrow> string list" where
  "clean_parts rooted acc [] = rev acc"
| "clean_parts rooted acc (p # ps) =
     (if p = [] \<or> p = ''.'' then clean_parts rooted acc ps
      else if p = ''..'' then
        (case acc of
           [] \<Rightarrow> clean_parts rooted (if rooted then [] else [p]) ps
         | q # qs \<Rightarrow> clean_parts rooted (if q = ''..'' then p # acc else qs) ps)
      else clean_parts rooted (p # acc) ps)"

fun join_parts :: "string list \<Rightarrow> string" where
  "join_parts [] = []"
| "join_parts [p] = p"
| "join_parts (p # ps) = p @ CHR ''/'' # join_parts ps"

definition path_Clean :: "string \<Rightarrow> string" where
  "path_Clean path = (let rooted = HasPrefix path ''/''; body = join_parts (clean_parts rooted [] (split_path path)) in
     if rooted then CHR ''/'' # body else if body = [] then ''.'' else body)"

definition path_Join :: "string \<Rightarrow> string \<Rightarrow> string" where
  "path_Join a b = (case filter (\<lambda>p. p \<noteq> []) [a, b] of [] \<Rightarrow> [] | ps \<Rightarrow> path_Clean (join_parts ps))"

definition path_Base :: "string \<Rightarrow> string" where
  "path_Base path = (if path = [] then ''.'' else
     let p = TrimRight1 (CHR ''/'') path in if p = [] then ''/'' else last (split_path p))"

text \<open>
  What a walk calls its function with, entry by entry: an error (of the walk, of a context that
  has been cancelled, or of Info), a symbolic link, or a file with its blocks and its size.
\<close>

datatype walk_entry = WalkError gerror | WalkSymlink | WalkFile int int

record file_system =
  fs_ReadDir :: "string \<Rightarrow> (string \<times> bool) list res"
  fs_Walk :: "string \<Rightarrow> walk_entry list"

definition diskUsageBytes :: "int \<Rightarrow> int \<Rightarrow> int" where
  "diskUsageBytes blocks bytes = (if 0 < blocks then wrap64 (blocks * 512) else bytes)"

fun walk_total :: "int \<Rightarrow> walk_entry list \<Rightarrow> int \<times> gerror option" where
  "walk_total acc [] = (acc, None)"
| "walk_total acc (WalkError e # es) = (acc, Some e)"
| "walk_total acc (WalkSymlink # es) = walk_total acc es"
| "walk_total acc (WalkFile blocks bytes # es) = walk_total (add64 acc (diskUsageBytes blocks bytes)) es"

definition directoryDiskUsage :: "file_system \<Rightarrow> string \<Rightarrow> int \<times> gerror option" where
  "directoryDiskUsage fs path = walk_total 0 (fs_Walk fs path)"

definition dir_usage :: "file_system \<Rightarrow> string \<Rightarrow> string \<Rightarrow> RuntimeDirUsage" where
  "dir_usage fs name path = (case directoryDiskUsage fs path of (bytes, err) \<Rightarrow>
     \<lparr> ru_Name = name, ru_Path = path, ru_Bytes = bytes, ru_Error = (case err of None \<Rightarrow> [] | Some e \<Rightarrow> err_text e) \<rparr>)"

definition scanRuntimeDirs :: "file_system \<Rightarrow> string \<Rightarrow> RuntimeDirUsage list" where
  "scanRuntimeDirs fs dataPath = (case fs_ReadDir fs dataPath of
      Inl e \<Rightarrow> [\<lparr> ru_Name = path_Base dataPath, ru_Path = dataPath, ru_Bytes = 0, ru_Error = err_text e \<rparr>]
    | Inr entries \<Rightarrow>
        (let dirs = map (\<lambda>(name, _). dir_usage fs name (path_Join dataPath name)) (filter snd entries);
             dirs' = (if dirs = [] then [dir_usage fs (path_Base dataPath) dataPath] else dirs)
         in sort_key ru_Name dirs'))"

text \<open>The cache is good for thirty seconds; copying the slice is the identity here.\<close>

definition runtimeDirUsage :: "file_system \<Rightarrow> int \<Rightarrow> DockerMonitor \<Rightarrow> RuntimeDirUsage list \<times> DockerMonitor" where
  "runtimeDirUsage fs now m = (case m of (cfg, expiresAt, cached) \<Rightarrow>
     if dm_DataPath cfg = [] then ([], m)
     else if (\<exists>t\<in>set_option expiresAt. now < t) then (cached, m)
     else let dirs = scanRuntimeDirs fs (dm_DataPath cfg) in (dirs, cfg, Some (now + 30 * 1000000000), dirs))"

section \<open>The daemon\<close>

text \<open>No answer, or a status and what the body decodes to (None for a body that does not decode).\<close>

datatype 'a docker_reply = NoReply gerror | Reply int "'a option"

record docker_api =
  da_containers :: "string \<Rightarrow> dockerContainer list docker_reply"
  da_stats :: "string \<Rightarrow> dockerStats docker_reply"
  da_inspect :: "string \<Rightarrow> dockerInspect docker_reply"
  da_df :: "string \<Rightarrow> dockerSystemDF docker_reply"

definition getJSON :: "(string \<Rightarrow> 'a docker_reply) \<Rightarrow> string \<Rightarrow> 'a res" where
  "getJSON api path = (case api path of
      NoReply e \<Rightarrow> Inl e
    | Reply status body \<Rightarrow>
        (if status < 200 \<or> 300 \<le> status
         then Inl (ErrMsg (''docker api '' @ path @ '' returned status '' @ int_to_string status))
         else case body of None \<Rightarrow> Inl (ErrMsg ''invalid character'') | Some v \<Rightarrow> Inr v))"

definition listContainers :: "docker_api \<Rightarrow> dockerContainer list res" where
  "listContainers api = getJSON (da_containers api) ''/containers/json?all=true''"

definition containerStats :: "docker_api \<Rightarrow> string \<Rightarrow> dockerStats res" where
  "containerStats api cid = getJSON (da_stats api) (''/containers/'' @ cid @ ''/stats?stream=false'')"

definition containerInspect :: "docker_api \<Rightarrow> string \<Rightarrow> dockerInspect res" where
  "containerInspect api cid = getJSON (da_inspect api) (''/containers/'' @ cid @ ''/json?size=true'')"

definition sum_i64 :: "int list \<Rightarrow> int" where
  "sum_i64 = foldl add64 0"

definition systemDF :: "docker_api \<Rightarrow> DockerDiskUsage res" where
  "systemDF api = map_sum id (\<lambda>df. \<lparr>
      du_ImagesBytes = sum_i64 (df_Images df), du_ContainersBytes = sum_i64 (df_Containers df),
      du_VolumesBytes = sum_i64 (df_Volumes df), du_BuildCacheBytes = sum_i64 (df_BuildCache df),
      du_RuntimeDataBytes = 0 \<rparr>) (getJSON (da_df api) ''/system/df'')"

definition normalizeContainerName :: "string list \<Rightarrow> string" where
  "normalizeContainerName names = (case names of [] \<Rightarrow> [] | n # _ \<Rightarrow> TrimPrefix n ''/'')"

section \<open>The metrics of a container\<close>

text \<open>uint64 arithmetic.\<close>

definition addu64 :: "int \<Rightarrow> int \<Rightarrow> int" where
  "addu64 a b = u64 (a + b)"

definition subu64 :: "int \<Rightarrow> int \<Rightarrow> int" where
  "subu64 a b = u64 (a - b)"

definition cpu_percent :: "dockerStats \<Rightarrow> f64 \<Rightarrow> f64" where
  "cpu_percent stats old = (let cpu = ds_CPUStats stats; pre = ds_PreCPUStats stats;
     cpuDelta = f64_of_int (subu64 (cpu_TotalUsage cpu) (cpu_TotalUsage pre));
     systemDelta = f64_of_int (subu64 (cpu_SystemCPUUsage cpu) (cpu_SystemCPUUsage pre));
     online = f64_of_int (cpu_OnlineCPUs cpu);
     onlineCPUs = (if f64_eq online f64_zero then f64_of_int (int (length (cpu_PercpuUsage cpu))) else online)
   in if f64_lt f64_zero systemDelta \<and> f64_lt f64_zero cpuDelta \<and> f64_lt f64_zero onlineCPUs
      then f64_mul (f64_mul (f64_div cpuDelta systemDelta) onlineCPUs) (f64_of_int 100) else old)"

definition apply_network :: "string \<times> int \<times> int \<Rightarrow> ContainerMetric \<Rightarrow> ContainerMetric" where
  "apply_network = (\<lambda>(_, rx, tx) metric. metric\<lparr>cm_NetworkRxBytes := addu64 (cm_NetworkRxBytes metric) rx,
     cm_NetworkTxBytes := addu64 (cm_NetworkTxBytes metric) tx\<rparr>)"

definition apply_blkio :: "string \<times> int \<Rightarrow> ContainerMetric \<Rightarrow> ContainerMetric" where
  "apply_blkio = (\<lambda>(op, value) metric.
     if ToLower op = ''read'' then metric\<lparr>cm_BlockReadBytes := addu64 (cm_BlockReadBytes metric) value\<rparr>
     else if ToLower op = ''write'' then metric\<lparr>cm_BlockWriteBytes := addu64 (cm_BlockWriteBytes metric) value\<rparr>
     else metric)"

definition applyStats :: "ContainerMetric \<Rightarrow> dockerStats \<Rightarrow> ContainerMetric" where
  "applyStats metric stats =
     fold apply_blkio (ds_IOServiceBytesRecursive stats) (fold apply_network (ds_Networks stats)
       (metric\<lparr>cm_CPUPercent := cpu_percent stats (cm_CPUPercent metric),
          cm_MemoryUsageBytes := ds_MemoryUsage stats, cm_MemoryLimitBytes := ds_MemoryLimit stats,
          cm_MemoryPercent := (if 0 < ds_MemoryLimit stats
            then f64_mul (f64_div (f64_of_int (ds_MemoryUsage stats)) (f64_of_int (ds_MemoryLimit stats))) (f64_of_int 100)
            else cm_MemoryPercent metric)\<rparr>))"

definition new_metric :: "dockerContainer \<Rightarrow> string \<Rightarrow> ContainerMetric" where
  "new_metric item name = \<lparr> cm_ID = dc_ID item, cm_Name = name, cm_Image = dc_Image item, cm_State = dc_State item,
     cm_Status = dc_Status item, cm_CPUPercent = f64_zero, cm_MemoryUsageBytes = 0, cm_MemoryLimitBytes = 0,
     cm_MemoryPercent = f64_zero, cm_NetworkRxBytes = 0, cm_NetworkTxBytes = 0, cm_BlockReadBytes = 0,
     cm_BlockWriteBytes = 0, cm_WritableBytes = 0, cm_RootFSBytes = 0 \<rparr>"

definition container_metric :: "docker_api \<Rightarrow> string \<Rightarrow> dockerContainer \<Rightarrow> ContainerMetric option" where
  "container_metric api prefix item = (let name = normalizeContainerName (dc_Names item) in
     if \<not> HasPrefix name prefix then None
     else
       let metric = new_metric item name;
           metric1 = (if dc_State item = ''running''
             then (case containerStats api (dc_ID item) of Inl _ \<Rightarrow> metric | Inr stats \<Rightarrow> applyStats metric stats) else metric)
       in Some (case containerInspect api (dc_ID item) of
           Inl _ \<Rightarrow> metric1
         | Inr inspect \<Rightarrow> metric1\<lparr>cm_WritableBytes := di_SizeRw inspect, cm_RootFSBytes := di_SizeRootFs inspect\<rparr>))"

section \<open>The snapshot\<close>

definition zero_DockerTotals :: DockerTotals where
  "zero_DockerTotals = \<lparr> dt_Containers = 0, dt_Running = 0, dt_CPUPercent = f64_zero, dt_MemoryUsageBytes = 0,
     dt_MemoryLimitBytes = 0, dt_NetworkRxBytes = 0, dt_NetworkTxBytes = 0, dt_BlockReadBytes = 0,
     dt_BlockWriteBytes = 0, dt_WritableBytes = 0, dt_RootFSBytes = 0 \<rparr>"

definition add_totals :: "ContainerMetric \<Rightarrow> DockerTotals \<Rightarrow> DockerTotals" where
  "add_totals metric t = \<lparr>
     dt_Containers = add64 (dt_Containers t) 1,
     dt_Running = (if cm_State metric = ''running'' then add64 (dt_Running t) 1 else dt_Running t),
     dt_CPUPercent = f64_add (dt_CPUPercent t) (cm_CPUPercent metric),
     dt_MemoryUsageBytes = addu64 (dt_MemoryUsageBytes t) (cm_MemoryUsageBytes metric),
     dt_MemoryLimitBytes = addu64 (dt_MemoryLimitBytes t) (cm_MemoryLimitBytes metric),
     dt_NetworkRxBytes = addu64 (dt_NetworkRxBytes t) (cm_NetworkRxBytes metric),
     dt_NetworkTxBytes = addu64 (dt_NetworkTxBytes t) (cm_NetworkTxBytes metric),
     dt_BlockReadBytes = addu64 (dt_BlockReadBytes t) (cm_BlockReadBytes metric),
     dt_BlockWriteBytes = addu64 (dt_BlockWriteBytes t) (cm_BlockWriteBytes metric),
     dt_WritableBytes = add64 (dt_WritableBytes t) (cm_WritableBytes metric),
     dt_RootFSBytes = add64 (dt_RootFSBytes t) (cm_RootFSBytes metric) \<rparr>"

text \<open>Names are unique on a daemon, so that the unstable sort.Slice has one result.\<close>

definition docker_Snapshot ::
    "docker_api \<Rightarrow> file_system \<Rightarrow> int \<Rightarrow> DockerMonitor \<Rightarrow> (DockerSnapshot \<times> gerror option) \<times> DockerMonitor" where
  "docker_Snapshot api fs now m = (case runtimeDirUsage fs now m of (dirs, m') \<Rightarrow>
     let cfg = fst m; runtimeData = sum_i64 (map ru_Bytes dirs);
         disk = \<lparr> du_ImagesBytes = 0, du_ContainersBytes = 0, du_VolumesBytes = 0, du_BuildCacheBytes = 0,
           du_RuntimeDataBytes = runtimeData \<rparr>;
         snapshot = \<lparr> sp_Enabled = dm_Enabled cfg, sp_GeneratedAt = now div 1000000000, sp_ContainerPrefix = dm_ContainerPrefix cfg,
           sp_Error = [], sp_Totals = zero_DockerTotals, sp_Containers = [], sp_Disk = disk, sp_RuntimeDirs = dirs \<rparr>
     in if \<not> dm_Enabled cfg then ((snapshot\<lparr>sp_Error := ''docker monitoring is disabled''\<rparr>, None), m')
        else case listContainers api of
          Inl e \<Rightarrow> ((snapshot, Some e), m')
        | Inr items \<Rightarrow>
            (let containers = sort_key cm_Name (List.map_filter (container_metric api (dm_ContainerPrefix cfg)) items) in
             ((snapshot\<lparr>sp_Containers := containers, sp_Totals := fold add_totals containers zero_DockerTotals,
                sp_Disk := (case systemDF api of Inl _ \<Rightarrow> disk | Inr usage \<Rightarrow> usage\<lparr>du_RuntimeDataBytes := runtimeData\<rparr>)\<rparr>, None), m')))"

text \<open>None is the answer to a wrong method.\<close>

definition docker_ServeHTTP ::
    "docker_api \<Rightarrow> file_system \<Rightarrow> int \<Rightarrow> string \<Rightarrow> DockerMonitor \<Rightarrow> DockerSnapshot option \<times> DockerMonitor" where
  "docker_ServeHTTP api fs now meth m = (if meth \<noteq> ''GET'' then (None, m)
     else case docker_Snapshot api fs now m of
       ((snapshot, None), m') \<Rightarrow> (Some snapshot, m')
     | ((snapshot, Some err), m') \<Rightarrow>
         (Some (snapshot\<lparr>sp_Enabled := dm_Enabled (fst m), sp_GeneratedAt := now div 1000000000,
            sp_ContainerPrefix := dm_ContainerPrefix (fst m), sp_Error := err_text err\<rparr>), m'))"

section \<open>Sums\<close>

lemma u64_add_left [simp]: "u64 (u64 a + b) = u64 (a + b)"
  by (simp add: u64_def mod_add_left_eq)

lemma u64_add_right [simp]: "u64 (a + u64 b) = u64 (a + b)"
  by (simp add: u64_def mod_add_right_eq)

lemma in_u64_u64 [simp]: "in_u64 (u64 a)"
  by (simp add: u64_def in_u64_def)

lemma sum_i64_eq: "sum_i64 xs = wrap64 (sum_list xs)"
proof -
  have "foldl add64 (wrap64 a) xs = wrap64 (a + sum_list xs)" for a
    by (induction xs arbitrary: a) (simp_all add: add64_def add.assoc)
  from this [of 0] show ?thesis by (simp add: sum_i64_def)
qed

text \<open>The totals a list of containers has, and the sum the loop computes.\<close>

definition totals_of :: "ContainerMetric list \<Rightarrow> DockerTotals" where
  "totals_of cs = \<lparr>
     dt_Containers = wrap64 (int (length cs)),
     dt_Running = wrap64 (int (length (filter (\<lambda>c. cm_State c = ''running'') cs))),
     dt_CPUPercent = foldl f64_add f64_zero (map cm_CPUPercent cs),
     dt_MemoryUsageBytes = u64 (sum_list (map cm_MemoryUsageBytes cs)),
     dt_MemoryLimitBytes = u64 (sum_list (map cm_MemoryLimitBytes cs)),
     dt_NetworkRxBytes = u64 (sum_list (map cm_NetworkRxBytes cs)),
     dt_NetworkTxBytes = u64 (sum_list (map cm_NetworkTxBytes cs)),
     dt_BlockReadBytes = u64 (sum_list (map cm_BlockReadBytes cs)),
     dt_BlockWriteBytes = u64 (sum_list (map cm_BlockWriteBytes cs)),
     dt_WritableBytes = wrap64 (sum_list (map cm_WritableBytes cs)),
     dt_RootFSBytes = wrap64 (sum_list (map cm_RootFSBytes cs)) \<rparr>"

lemma totals_of_snoc: "totals_of (cs @ [c]) = add_totals c (totals_of cs)"
  by (simp add: totals_of_def add_totals_def add64_def addu64_def add.commute)

lemma fold_add_totals: "fold add_totals cs zero_DockerTotals = totals_of cs"
proof (induction cs rule: rev_induct)
  case Nil
  then show ?case by (simp add: totals_of_def zero_DockerTotals_def u64_def)
qed (simp add: totals_of_snoc)

section \<open>Types\<close>

definition metric_typed :: "ContainerMetric \<Rightarrow> bool" where
  "metric_typed c \<longleftrightarrow> in_u64 (cm_MemoryUsageBytes c) \<and> in_u64 (cm_MemoryLimitBytes c) \<and>
     in_u64 (cm_NetworkRxBytes c) \<and> in_u64 (cm_NetworkTxBytes c) \<and> in_u64 (cm_BlockReadBytes c) \<and>
     in_u64 (cm_BlockWriteBytes c) \<and> in_i64 (cm_WritableBytes c) \<and> in_i64 (cm_RootFSBytes c)"

definition disk_typed :: "DockerDiskUsage \<Rightarrow> bool" where
  "disk_typed d \<longleftrightarrow> in_i64 (du_ImagesBytes d) \<and> in_i64 (du_ContainersBytes d) \<and> in_i64 (du_VolumesBytes d) \<and>
     in_i64 (du_BuildCacheBytes d) \<and> in_i64 (du_RuntimeDataBytes d)"

text \<open>What decoding a body into the fields of the structs gives.\<close>

definition api_typed :: "docker_api \<Rightarrow> bool" where
  "api_typed api \<longleftrightarrow>
     (\<forall>path status s. da_stats api path = Reply status (Some s) \<longrightarrow> in_u64 (ds_MemoryUsage s) \<and> in_u64 (ds_MemoryLimit s)) \<and>
     (\<forall>path status i. da_inspect api path = Reply status (Some i) \<longrightarrow> in_i64 (di_SizeRw i) \<and> in_i64 (di_SizeRootFs i))"

definition dirs_typed :: "RuntimeDirUsage list \<Rightarrow> bool" where
  "dirs_typed dirs \<longleftrightarrow> (\<forall>d\<in>set dirs. in_i64 (ru_Bytes d))"

lemma getJSON_Inr: "getJSON api path = Inr v \<Longrightarrow> \<exists>status. api path = Reply status (Some v)"
  by (auto simp: getJSON_def split: docker_reply.splits if_splits option.splits)

lemma apply_blkio_typed: "metric_typed c \<Longrightarrow> metric_typed (apply_blkio x c) \<and> cm_Name (apply_blkio x c) = cm_Name c"
  by (auto simp: apply_blkio_def metric_typed_def addu64_def split: prod.splits)

lemma apply_network_typed: "metric_typed c \<Longrightarrow> metric_typed (apply_network x c) \<and> cm_Name (apply_network x c) = cm_Name c"
  by (auto simp: apply_network_def metric_typed_def addu64_def split: prod.splits)

lemma fold_metric_typed:
  assumes "\<And>x c. metric_typed c \<Longrightarrow> metric_typed (f x c) \<and> cm_Name (f x c) = cm_Name c" "metric_typed c"
  shows "metric_typed (fold f xs c) \<and> cm_Name (fold f xs c) = cm_Name c"
  using assms(2) by (induction xs arbitrary: c) (simp_all add: assms(1))

lemma applyStats_typed:
  assumes "metric_typed c" "in_u64 (ds_MemoryUsage s)" "in_u64 (ds_MemoryLimit s)"
  shows "metric_typed (applyStats c s) \<and> cm_Name (applyStats c s) = cm_Name c"
proof -
  let ?c = "c\<lparr>cm_CPUPercent := cpu_percent s (cm_CPUPercent c),
      cm_MemoryUsageBytes := ds_MemoryUsage s, cm_MemoryLimitBytes := ds_MemoryLimit s,
      cm_MemoryPercent := (if 0 < ds_MemoryLimit s
        then f64_mul (f64_div (f64_of_int (ds_MemoryUsage s)) (f64_of_int (ds_MemoryLimit s))) (f64_of_int 100)
        else cm_MemoryPercent c)\<rparr>"
  have "metric_typed ?c" using assms by (simp add: metric_typed_def)
  then have "metric_typed (fold apply_network (ds_Networks s) ?c) \<and> cm_Name (fold apply_network (ds_Networks s) ?c) = cm_Name ?c"
    by (intro fold_metric_typed apply_network_typed)
  then show ?thesis
    unfolding applyStats_def
    using fold_metric_typed [of apply_blkio "fold apply_network (ds_Networks s) ?c" "ds_IOServiceBytesRecursive s"] apply_blkio_typed
    by simp
qed

lemma container_metric_typed:
  assumes "api_typed api" "container_metric api prefix item = Some c"
  shows "metric_typed c \<and> HasPrefix (cm_Name c) prefix"
proof -
  define m where "m = new_metric item (normalizeContainerName (dc_Names item))"
  define m1 where "m1 = (if dc_State item = ''running''
     then (case containerStats api (dc_ID item) of Inl _ \<Rightarrow> m | Inr stats \<Rightarrow> applyStats m stats) else m)"
  have m: "metric_typed m" "cm_Name m = normalizeContainerName (dc_Names item)"
    by (simp_all add: m_def new_metric_def metric_typed_def in_u64_def in_i64_def)
  have "in_u64 (ds_MemoryUsage s) \<and> in_u64 (ds_MemoryLimit s)" if "containerStats api i = Inr s" for i s
    using getJSON_Inr [of "da_stats api"] that assms(1) unfolding containerStats_def api_typed_def by blast
  then have m1: "metric_typed m1" "cm_Name m1 = cm_Name m"
    using applyStats_typed [OF m(1)] m(1) by (auto simp: m1_def split: sum.split)
  have inspect: "in_i64 (di_SizeRw i) \<and> in_i64 (di_SizeRootFs i)" if "containerInspect api n = Inr i" for i n
    using getJSON_Inr [of "da_inspect api"] that assms(1) unfolding containerInspect_def api_typed_def by blast
  have c: "HasPrefix (cm_Name m) prefix"
    using assms(2) by (simp add: container_metric_def Let_def m(2) split: if_splits)
  have c_eq: "c = (case containerInspect api (dc_ID item) of Inl _ \<Rightarrow> m1
      | Inr inspect \<Rightarrow> m1\<lparr>cm_WritableBytes := di_SizeRw inspect, cm_RootFSBytes := di_SizeRootFs inspect\<rparr>)"
    using assms(2) unfolding container_metric_def Let_def m1_def m_def by (auto split: if_splits)
  show ?thesis
    using c m1 inspect [of "dc_ID item"] unfolding c_eq
    by (cases "containerInspect api (dc_ID item)") (simp_all add: metric_typed_def)
qed

lemma walk_total_typed: "in_i64 n \<Longrightarrow> in_i64 (fst (walk_total n es))"
  by (induction n es rule: walk_total.induct) (simp_all add: add64_def)

lemma dir_usage_typed: "in_i64 (ru_Bytes (dir_usage fs name path))"
  using walk_total_typed [of 0 "fs_Walk fs path"]
  by (cases "walk_total 0 (fs_Walk fs path)") (simp add: dir_usage_def directoryDiskUsage_def in_i64_def)

lemma scanRuntimeDirs_typed: "dirs_typed (scanRuntimeDirs fs path)"
  using dir_usage_typed by (auto simp: dirs_typed_def scanRuntimeDirs_def Let_def in_i64_def split: sum.splits)

lemma runtimeDirUsage_typed:
  assumes "runtimeDirUsage fs now m = (dirs, m')" "dirs_typed (snd (snd m))"
  shows "dirs_typed dirs \<and> dirs_typed (snd (snd m')) \<and> fst m' = fst m"
  using assms scanRuntimeDirs_typed
  by (auto simp: runtimeDirUsage_def Let_def dirs_typed_def split: prod.splits if_splits)

lemma systemDF_typed: "systemDF api = Inr d \<Longrightarrow> disk_typed (d\<lparr>du_RuntimeDataBytes := wrap64 n\<rparr>)"
  by (cases "getJSON (da_df api) ''/system/df''") (auto simp: systemDF_def disk_typed_def sum_i64_eq)

section \<open>Properties\<close>

definition snapshot_typed :: "DockerSnapshot \<Rightarrow> bool" where
  "snapshot_typed s \<longleftrightarrow> list_all metric_typed (sp_Containers s) \<and> disk_typed (sp_Disk s) \<and> dirs_typed (sp_RuntimeDirs s)"

text \<open>
  C32: a snapshot of the containers is well-typed whatever the daemon and the file system answer:
  every number fits its Go type, the containers are those with the prefix, ordered by name, and
  the totals are the sums of their metrics in that type; the cache of the directories stays
  well-typed.
\<close>

theorem docker_snapshot_typed:
  assumes "api_typed api" "dirs_typed (snd (snd m))" "docker_Snapshot api fs now m = ((snap, err), m')"
  shows "snapshot_typed snap \<and> dirs_typed (snd (snd m')) \<and> sorted (map cm_Name (sp_Containers snap)) \<and>
    list_all (\<lambda>c. HasPrefix (cm_Name c) (dm_ContainerPrefix (fst m))) (sp_Containers snap) \<and>
    sp_Totals snap = totals_of (sp_Containers snap)"
proof -
  obtain dirs m1 where d: "runtimeDirUsage fs now m = (dirs, m1)" by (metis prod.collapse)
  note dirs = runtimeDirUsage_typed [OF d assms(2)]
  have base: "disk_typed \<lparr> du_ImagesBytes = 0, du_ContainersBytes = 0, du_VolumesBytes = 0, du_BuildCacheBytes = 0,
      du_RuntimeDataBytes = sum_i64 (map ru_Bytes dirs) \<rparr>"
    by (simp add: disk_typed_def sum_i64_eq in_i64_def [of 0])
  have empty: "totals_of [] = zero_DockerTotals" using fold_add_totals [of "[]"] by simp
  define cs where "cs items = sort_key cm_Name (List.map_filter (container_metric api (dm_ContainerPrefix (fst m))) items)" for items
  have cs: "list_all metric_typed (cs items)" "list_all (\<lambda>c. HasPrefix (cm_Name c) (dm_ContainerPrefix (fst m))) (cs items)"
      "sorted (map cm_Name (cs items))" for items
    using container_metric_typed [OF assms(1)] by (auto simp: cs_def list_all_iff List.map_filter_def)
  show ?thesis
  proof (cases "dm_Enabled (fst m)")
    case False
    then show ?thesis using assms(3) d dirs base empty
      by (auto simp: docker_Snapshot_def Let_def snapshot_typed_def)
  next
    case True
    show ?thesis
    proof (cases "listContainers api")
      case (Inl e)
      then show ?thesis using assms(3) d dirs base empty True
        by (auto simp: docker_Snapshot_def Let_def snapshot_typed_def)
    next
      case (Inr items)
      have snap: "sp_Containers snap = cs items" "sp_Totals snap = totals_of (cs items)" "sp_RuntimeDirs snap = dirs" "m' = m1"
          "sp_Disk snap = (case systemDF api of Inl _ \<Rightarrow> \<lparr> du_ImagesBytes = 0, du_ContainersBytes = 0, du_VolumesBytes = 0,
             du_BuildCacheBytes = 0, du_RuntimeDataBytes = sum_i64 (map ru_Bytes dirs) \<rparr>
           | Inr usage \<Rightarrow> usage\<lparr>du_RuntimeDataBytes := sum_i64 (map ru_Bytes dirs)\<rparr>)"
        using assms(3) d True Inr by (auto simp: docker_Snapshot_def Let_def fold_add_totals cs_def)
      have "disk_typed (sp_Disk snap)"
        unfolding snap(5) using base systemDF_typed [of api] by (auto simp: sum_i64_eq split: sum.split)
      then show ?thesis using dirs cs by (simp add: snap(1-4) snapshot_typed_def)
    qed
  qed
qed

text \<open>A daemon with two containers, one of them running, and another container that is not ours.\<close>

definition example_cpu :: "int \<Rightarrow> int \<Rightarrow> dockerCPUStats" where
  "example_cpu used system = \<lparr> cpu_OnlineCPUs = 4, cpu_SystemCPUUsage = system, cpu_TotalUsage = used, cpu_PercpuUsage = [] \<rparr>"

definition example_stats :: "int \<Rightarrow> dockerStats" where
  "example_stats used = \<lparr> ds_CPUStats = example_cpu used 2000, ds_PreCPUStats = example_cpu 100 1000, ds_MemoryUsage = 10,
     ds_MemoryLimit = 100, ds_Networks = [(''eth0'', 5, 6)], ds_IOServiceBytesRecursive = [(''Read'', 7)] \<rparr>"

definition example_api :: docker_api where
  "example_api = \<lparr>
     da_containers = (\<lambda>_. Reply 200 (Some (map (\<lambda>(n, st). \<lparr> dc_ID = n, dc_Names = [CHR ''/'' # n], dc_Image = ''i'', dc_State = st,
        dc_Status = [] \<rparr>) [(''solana-dashboard-b'', ''running''), (''solana-dashboard-a'', ''exited''), (''other'', ''running'')]))),
     da_stats = (\<lambda>_. Reply 200 (Some (example_stats 200))),
     da_inspect = (\<lambda>_. NoReply (ErrMsg ''down'')), da_df = (\<lambda>_. Reply 500 None) \<rparr>"

definition example_config :: DockerMonitorConfig where
  "example_config = \<lparr> dm_Enabled = True, dm_SocketPath = [], dm_ContainerPrefix = [], dm_DataPath = [] \<rparr>"

definition example_files :: file_system where
  "example_files = \<lparr> fs_ReadDir = (\<lambda>_. Inr [(''x'', True)]), fs_Walk = (\<lambda>_. [WalkFile 8 10]) \<rparr>"

lemma docker_snapshot_typed_witness:
  "\<exists>snap err m'. docker_Snapshot example_api example_files 5 (NewDockerMonitor example_config) = ((snap, err), m') \<and>
     snapshot_typed snap \<and> map cm_Name (sp_Containers snap) = [''solana-dashboard-a'', ''solana-dashboard-b'']"
proof -
  obtain snap err m' where run: "docker_Snapshot example_api example_files 5 (NewDockerMonitor example_config) = ((snap, err), m')"
    by (metis prod.collapse)
  have "api_typed example_api" by (simp add: api_typed_def example_api_def example_stats_def in_u64_def)
  moreover have "dirs_typed (snd (snd (NewDockerMonitor example_config)))" by (simp add: dirs_typed_def NewDockerMonitor_def)
  ultimately have "snapshot_typed snap" using docker_snapshot_typed [OF _ _ run] by simp
  moreover have "map cm_Name (sp_Containers (fst (fst (docker_Snapshot example_api example_files 5 (NewDockerMonitor example_config))))) =
      [''solana-dashboard-a'', ''solana-dashboard-b'']"
    by code_simp
  ultimately show ?thesis using run by (intro exI [of _ snap] exI [of _ err] exI [of _ m']) simp
qed

text \<open>
  The usage of a restarted container has become smaller; the difference is taken in 64 bits before
  it is converted, so that it passes the test for a positive one and the container shows an
  absurd share of the processors.
\<close>

lemma restarted_container_absurd:
  "f64_lt (f64_of_int 1000000000) (cpu_percent (example_stats 0) f64_zero)"
  by code_simp

text \<open>A walk that ends with an error, as one whose client has gone, is served from the cache to all others.\<close>

lemma partial_scan_cached:
  assumes "runtimeDirUsage fs now m = (dirs, m')" "runtimeDirUsage fs' later m' = (dirs', m'')"
    "dm_DataPath (fst m) \<noteq> []" "fst (snd m) = None" "later < now + 30000000000"
  shows "dirs' = scanRuntimeDirs fs (dm_DataPath (fst m))"
  using assms by (auto simp: runtimeDirUsage_def Let_def split: prod.splits)

end
