(* ===== verification/Metadata.thy ===== *)
theory Metadata
  imports Consumer
begin

text \<open>
  internal/metadatafetcher/consumer.go: the second consumer of the stream. For a created token it
  starts a goroutine that fetches the metadata from the web, and writes the image into the row
  the projector keeps for the token. Decoding a message is proto.Unmarshal, the web an argument:
  what a GET of a URI gives.
\<close>

section \<open>Fetching\<close>

text \<open>An error of NewRequest or Do, or a status and the body (None when reading it failed).\<close>

datatype http_result = GetFailed | GotResponse int "RawMessage option"

type_synonym web = "string \<Rightarrow> http_result"

record MetadataResponse =
  mr_Name :: string
  mr_Symbol :: string
  mr_Description :: string
  mr_Image :: string

definition zero_MetadataResponse :: MetadataResponse where
  "zero_MetadataResponse = \<lparr> mr_Name = [], mr_Symbol = [], mr_Description = [], mr_Image = [] \<rparr>"

definition dec_MetadataResponse :: "(string \<times> json) list \<Rightarrow> MetadataResponse \<Rightarrow> MetadataResponse \<times> bool" where
  "dec_MetadataResponse fs z =
     (\<lparr> mr_Name = fst (dec_field st_str ''name'' fs (mr_Name z)),
        mr_Symbol = fst (dec_field st_str ''symbol'' fs (mr_Symbol z)),
        mr_Description = fst (dec_field st_str ''description'' fs (mr_Description z)),
        mr_Image = fst (dec_field st_str ''image'' fs (mr_Image z)) \<rparr>,
      snd (dec_field st_str ''name'' fs (mr_Name z)) \<and> snd (dec_field st_str ''symbol'' fs (mr_Symbol z)) \<and>
      snd (dec_field st_str ''description'' fs (mr_Description z)) \<and> snd (dec_field st_str ''image'' fs (mr_Image z)))"

text \<open>The prefix is the first occurrence strings.Replace finds.\<close>

definition resolveIPFSURI :: "string \<Rightarrow> string" where
  "resolveIPFSURI uri = (if HasPrefix uri ''ipfs://'' then ''https://ipfs.io/ipfs/'' @ TrimPrefix uri ''ipfs://'' else uri)"

definition updateImageSQL :: "string \<Rightarrow> string \<Rightarrow> Db \<Rightarrow> Db res" where
  "updateImageSQL resolvedImage mint s = Inr (s\<lparr>db_tables := (db_tables s)\<lparr>token_metadata_current :=
     map (\<lambda>(k, r). if k = mint then (k, r\<lparr>md_image_uri := Some resolvedImage\<rparr>) else (k, r)) (token_metadata_current (db_tables s))\<rparr>\<rparr>)"

text \<open>The image the web tells for a URI: None where the code returns before it writes.\<close>

definition fetch_image :: "web \<Rightarrow> string \<Rightarrow> string option" where
  "fetch_image web rawUri = (case web (resolveIPFSURI rawUri) of
      GetFailed \<Rightarrow> None
    | GotResponse status body \<Rightarrow>
        (if status < 200 \<or> 300 \<le> status then None
         else case body of None \<Rightarrow> None | Some raw \<Rightarrow>
           (case unmarshal_struct dec_MetadataResponse zero_MetadataResponse raw of
              Inl _ \<Rightarrow> None
            | Inr meta \<Rightarrow> (if mr_Image meta = [] then None else Some (resolveIPFSURI (mr_Image meta))))))"

text \<open>Errors are logged and dropped.\<close>

definition processMetadata :: "web \<Rightarrow> string \<Rightarrow> string \<Rightarrow> Db \<Rightarrow> Db" where
  "processMetadata web mint rawUri s = (case fetch_image web rawUri of
      None \<Rightarrow> s
    | Some resolvedImage \<Rightarrow> snd (db_exec (updateImageSQL resolvedImage mint) s))"

section \<open>Messages\<close>

text \<open>The error (there is none) and the goroutine started, by its mint and URI.\<close>

definition metadata_handleMessage :: "proto_unmarshal \<Rightarrow> string \<Rightarrow> gerror option \<times> (string \<times> string) option" where
  "metadata_handleMessage unmarshal data = (case unmarshal data of
      Inl _ \<Rightarrow> (None, None)
    | Inr protoEvent \<Rightarrow> (case DecodedEnvelopeFromProto (Some protoEvent) of
        Inl _ \<Rightarrow> (None, None)
      | Inr decoded \<Rightarrow> (case de_Payload decoded of
          PumpfunCreate p \<Rightarrow> (None, if pfc_URI p \<noteq> [] then Some (pfc_Mint p, pfc_URI p) else None)
        | _ \<Rightarrow> (None, None))))"

fun metadata_consume :: "proto_unmarshal \<Rightarrow> string list \<Rightarrow> ack list \<times> (string \<times> string) list" where
  "metadata_consume unmarshal [] = ([], [])"
| "metadata_consume unmarshal (m # ms) = (case metadata_handleMessage unmarshal m of (err, job) \<Rightarrow>
      (case metadata_consume unmarshal ms of (acks, jobs) \<Rightarrow>
        ((if err = None then Ack else Nak) # acks, (case job of None \<Rightarrow> jobs | Some j \<Rightarrow> j # jobs))))"

fun metadata_loop :: "proto_unmarshal \<Rightarrow> fetch_result list \<Rightarrow> gerror option \<times> ack list \<times> (string \<times> string) list" where
  "metadata_loop unmarshal [] = (None, [], [])"
| "metadata_loop unmarshal (FetchTimeout # fs) = metadata_loop unmarshal fs"
| "metadata_loop unmarshal (FetchFailed e # fs) = (Some (ErrWrap ''fetch jetstream messages'' e), [], [])"
| "metadata_loop unmarshal (Fetched ms # fs) = (case metadata_consume unmarshal ms of (acks, jobs) \<Rightarrow>
      (case metadata_loop unmarshal fs of (err, acks', jobs') \<Rightarrow> (err, acks @ acks', jobs @ jobs')))"

definition metadata_Run ::
    "nats_client \<Rightarrow> proto_unmarshal \<Rightarrow> fetch_result list \<Rightarrow> gerror option \<times> ack list \<times> (string \<times> string) list" where
  "metadata_Run nc unmarshal fs = (case nc_Connect nc of
      Some e \<Rightarrow> (Some (ErrWrap ''connect nats'' e), [], [])
    | None \<Rightarrow> (case nc_JetStream nc of
        Some e \<Rightarrow> (Some (ErrWrap ''create jetstream context'' e), [], [])
      | None \<Rightarrow> (case nc_StreamInfo nc of
          Some e \<Rightarrow> (Some (ErrWrap ''stream not found'' e), [], [])
        | None \<Rightarrow> (case nc_PullSubscribe nc of
            Some e \<Rightarrow> (Some (ErrWrap ''create pull subscription for metadata_fetcher'' e), [], [])
          | None \<Rightarrow> metadata_loop unmarshal fs))))"

section \<open>With the projector\<close>

text \<open>The goroutines and the batches of the projector, in the order they reach the database.\<close>

datatype metadata_step = Fetch string string | Replay int

fun run_metadata :: "web \<Rightarrow> Db Runner \<Rightarrow> metadata_step list \<Rightarrow> Db \<Rightarrow> Db" where
  "run_metadata web r [] s = s"
| "run_metadata web r (Fetch mint rawUri # steps) s = run_metadata web r steps (processMetadata web mint rawUri s)"
| "run_metadata web r (Replay n # steps) s = run_metadata web r steps (snd (ReplayBatch r n s))"

text \<open>The image of a token: None without a row, Some None without an image.\<close>

definition image_of :: "Tables \<Rightarrow> string \<Rightarrow> string option option" where
  "image_of t mint = map_option md_image_uri (map_of (token_metadata_current t) mint)"

text \<open>What the projector writes leaves images alone and makes rows without one.\<close>

definition keeps_images :: "Tables \<Rightarrow> Tables \<Rightarrow> bool" where
  "keeps_images t t' \<longleftrightarrow> (\<forall>mint. image_of t' mint = image_of t mint \<or> image_of t mint = None \<and> image_of t' mint = Some None)"

lemma keeps_images_refl [simp]: "keeps_images t t"
  by (simp add: keeps_images_def)

lemma keeps_images_trans: "keeps_images t u \<Longrightarrow> keeps_images u v \<Longrightarrow> keeps_images t v"
  unfolding keeps_images_def by metis

lemma keeps_images_same: "token_metadata_current t = token_metadata_current t' \<Longrightarrow> keeps_images t t'"
  by (simp add: keeps_images_def image_of_def)

lemma keeps_images_upsert:
  "keeps_images t (t\<lparr>token_metadata_current := upsert metadata_conflict m (metadata_row r supply now) (token_metadata_current t)\<rparr>)"
  by (auto simp: keeps_images_def image_of_def upsert_def update_conv' metadata_row_def metadata_conflict_def split: option.splits)

lemma exec_keeps_images:
  assumes "\<And>s s'. f s = Inr s' \<Longrightarrow> keeps_images (db_tables s) (db_tables s')"
  shows "keeps_images (db_tables s) (db_tables (snd (wrap_err m (db_exec f) s)))"
  using assms [of "tick s"] by (auto simp: db_exec_def split: option.splits db_fault.splits sum.splits)

lemma store_op_keeps_images: "keeps_images (db_tables s) (db_tables (snd (store_op pg p s)))"
proof -
  have md: "keeps_images (db_tables s) (db_tables s')" if "upsertTokenMetadataSQL pg r s = Inr s'" for r s s'
    using that by (auto simp: upsertTokenMetadataSQL_def intro: keeps_images_upsert split: sum.splits)
  have other: "keeps_images (db_tables s) (db_tables s')"
    if "uniform E f" "f s = Inr s'" "E = trade_effects \<or> E = activity_effects" for E f s s'
    using that by (auto simp: uniform_def trade_effects_def activity_effects_def trade_effect_def activity_effect_def
        intro!: keeps_images_same)
  have tok: "keeps_images (db_tables s) (db_tables s')" if "upsertTokenSQL pg r x y s = Inr s'" for r x y s s'
    using that by (auto simp: upsertTokenSQL_def intro!: keeps_images_same split: sum.splits)
  have mkt: "keeps_images (db_tables s) (db_tables s')" if "upsertTokenMarketSQL pg r x y s = Inr s'" for r x y s s'
    using that by (auto simp: upsertTokenMarketSQL_def intro!: keeps_images_same split: sum.splits)
  have cls: "keeps_images (db_tables s) (db_tables s')" if "closeTokenMarketSQL pg r x s = Inr s'" for r x s s'
    using that by (auto simp: closeTokenMarketSQL_def intro!: keeps_images_same split: sum.splits)
  have act: "uniform activity_effects (\<lambda>s. case activity_details d of Inl e \<Rightarrow> Inl e
      | Inr details \<Rightarrow> insertTokenActivityEventSQL pg a x details s)" for d a x
    by (intro uniform_sum uniform_activity)
  note run = exec_keeps_images [of _ s]
  show ?thesis
    using run [OF md] run [OF tok] run [OF mkt] run [OF cls] run [OF other [OF uniform_trade]] run [OF other [OF act]]
    by (cases p rule: wop.exhaust)
       (auto simp: store_op_def apply_wop_def flush_op_def store_writer_def UpsertToken_def UpsertTokenMetadata_def
        UpsertTokenMarket_def CloseTokenMarket_def InsertTradeEvent_def InsertActivityEvent_def exec_activity_def
        split: queuedStateOp.splits)
qed

lemma store_ops_keep_images: "for_each (store_op pg) ps s = (e, s') \<Longrightarrow> keeps_images (db_tables s) (db_tables s')"
proof (induction ps arbitrary: s)
  case (Cons p ps)
  then show ?case
    using store_op_keeps_images [of s pg p] keeps_images_trans
    by (cases "store_op pg p s") (auto simp: and_then_def split: option.splits)
qed (simp add: done_ok_def)

lemma ReplayBatch_keeps_images:
  assumes "replays pg name r"
  shows "keeps_images (db_tables s) (db_tables (snd (ReplayBatch r n s)))"
proof -
  obtain res s' where run: "ReplayBatch r n s = (res, s')" by fastforce
  have reader: "rn_reader r = event_log_reader" using assms by (simp add: replays_def)
  consider "db_tables s' = db_tables s"
    | (tx) w es s0 s1 where "rn_projector r = Some w" "db_tables s0 = db_tables s" "db_tables s' = db_tables s1"
        "replay_tx w es (lr_SaveProjectionCheckpoint event_log_reader (rn_name r) (le_LogID (last es))) s0 = (None, s1)"
    using log_rd.ReplayBatch_cases [OF reader run] by blast
  then have "keeps_images (db_tables s) (db_tables s')"
  proof cases
    case tx
    obtain ps t where "for_each (store_op pg) ps s0 = (None, t)"
        "SaveProjectionCheckpoint (rn_name r) (le_LogID (last es)) t = (None, s1)"
      using tx(1,4) assms replay_tx_direct
      by (auto simp: replays_def replay_tx_def batch_store_def Flush_ops and_then_ok_iff event_log_reader_def
          split: prod.splits option.splits)
    then show ?thesis
      using store_ops_keep_images [of pg ps s0 None t] tx(2,3)
      by (auto simp: SaveProjectionCheckpoint_def db_exec_def split: option.splits db_fault.splits
          simp: keeps_images_def image_of_def)
  qed simp
  then show ?thesis using run by simp
qed

lemma updateImage_image_of:
  "updateImageSQL img m s = Inr s' \<Longrightarrow> image_of (db_tables s') mint =
     (if mint = m \<and> image_of (db_tables s) m \<noteq> None then Some (Some img) else image_of (db_tables s) mint)"
proof -
  have "map_of (map (\<lambda>(k, r). if k = m then (k, f r) else (k, r)) t) k =
      (if k = m then map_option f (map_of t k) else map_of t k)" for f :: "TokenMetadataRow \<Rightarrow> TokenMetadataRow" and t and k :: string
    by (induction t) auto
  then show "updateImageSQL img m s = Inr s' \<Longrightarrow> image_of (db_tables s') mint =
     (if mint = m \<and> image_of (db_tables s) m \<noteq> None then Some (Some img) else image_of (db_tables s) mint)"
    by (auto simp: updateImageSQL_def image_of_def option.map_comp comp_def)
qed

lemma process_other:
  assumes "m \<noteq> mint"
  shows "image_of (db_tables (processMetadata web m uri s)) mint = image_of (db_tables s) mint"
  using assms updateImage_image_of [of _ m "tick s" _ mint]
  by (auto simp: processMetadata_def db_exec_def split: option.splits db_fault.splits sum.splits)

text \<open>Without another fetch for it, a token keeps its image, and gets none.\<close>

lemma run_metadata_keeps:
  assumes "replays pg name r" "\<forall>uri. Fetch mint uri \<notin> set steps"
  shows "image_of (db_tables (run_metadata web r steps s)) mint = image_of (db_tables s) mint \<or>
    image_of (db_tables s) mint = None \<and> image_of (db_tables (run_metadata web r steps s)) mint = Some None"
  using assms(2)
proof (induction steps arbitrary: s)
  case (Cons step steps)
  define s' where "s' = run_metadata web r [step] s"
  have "image_of (db_tables s') mint = image_of (db_tables s) mint \<or>
      image_of (db_tables s) mint = None \<and> image_of (db_tables s') mint = Some None"
  proof (cases step)
    case (Fetch m uri)
    then have "m \<noteq> mint" using Cons.prems by auto
    then show ?thesis by (simp add: s'_def Fetch process_other)
  next
    case (Replay n)
    then show ?thesis
      using ReplayBatch_keeps_images [OF assms(1), of s n] by (simp add: s'_def keeps_images_def)
  qed
  moreover have "run_metadata web r (step # steps) s = run_metadata web r steps s'"
    by (cases step) (simp_all add: s'_def)
  moreover have "\<forall>uri. Fetch mint uri \<notin> set steps" using Cons.prems by simp
  note Cons.IH [OF this, of s']
  ultimately show ?case by (metis option.discI)
qed simp

lemma metadata_acks: "fst (metadata_consume unmarshal ms) = replicate (length ms) Ack"
proof (induction ms)
  case (Cons m ms)
  have "fst (metadata_handleMessage unmarshal m) = None"
    by (simp add: metadata_handleMessage_def split: sum.splits option.splits payload.splits)
  then show ?case using Cons by (auto split: prod.splits)
qed simp

section \<open>Properties\<close>

text \<open>
  C33: once the projector has the row of a token, a fetched image is stored and stays: no later
  batch of the projector, whatever its faults, and no image of another token takes it away.
\<close>

theorem fetched_image_kept:
  assumes "replays pg name r" "fetch_image web uri = Some img" "map_of (token_metadata_current (db_tables s)) mint = Some row"
    "db_faults s (db_clock s) = None" "\<forall>uri'. Fetch mint uri' \<notin> set steps"
  shows "image_of (db_tables (run_metadata web r (Fetch mint uri # steps) s)) mint = Some (Some img)"
proof -
  have "image_of (db_tables (processMetadata web mint uri s)) mint = Some (Some img)"
    using assms(2-4) updateImage_image_of [of img mint "tick s" _ mint]
    by (auto simp: processMetadata_def db_exec_def updateImageSQL_def image_of_def split: option.splits)
  then show ?thesis using run_metadata_keeps [OF assms(1,5), of web "processMetadata web mint uri s"] by simp
qed

text \<open>
  C34: an image that is fetched before the projector has stored the token is lost: the update
  matches no row, the message has been acknowledged whatever happens to its goroutine, and no
  batch of the projector brings the image back.
\<close>

theorem early_image_lost:
  assumes "replays pg name r" "map_of (token_metadata_current (db_tables s)) mint = None" "\<forall>uri'. Fetch mint uri' \<notin> set steps"
  shows "image_of (db_tables (run_metadata web r (Fetch mint uri # steps) s)) mint \<in> {None, Some None} \<and>
    fst (metadata_consume unmarshal ms) = replicate (length ms) Ack"
proof -
  have "image_of (db_tables (processMetadata web mint uri s)) mint = None"
    using assms(2) updateImage_image_of [of _ mint "tick s" _ mint]
    by (auto simp: processMetadata_def db_exec_def image_of_def split: option.splits db_fault.splits sum.splits)
  then have "image_of (db_tables (run_metadata web r (Fetch mint uri # steps) s)) mint \<in> {None, Some None}"
    using run_metadata_keeps [OF assms(1,3), of web "processMetadata web mint uri s"] by simp
  then show ?thesis by (simp add: metadata_acks)
qed

text \<open>A token with a row, and the web that knows its image.\<close>

definition example_web :: web where
  "example_web uri = (if uri = ''https://ipfs.io/ipfs/m'' then GotResponse 200 (Some (RawJson (JObj [(''image'', JStr ''ipfs://i'')])))
     else GetFailed)"

definition example_metadata :: TokenMetadataRecord where
  "example_metadata = tokenMetadataFromCreatePool ''m'' ''e'' zero_PumpAmmCreatePoolPayload"

definition example_rows :: "(string \<times> TokenMetadataRow) list \<Rightarrow> Db" where
  "example_rows rows = (empty_db (\<lambda>_. None))\<lparr>db_tables := empty_tables\<lparr>token_metadata_current := rows\<rparr>\<rparr>"

lemma example_fetch: "fetch_image example_web ''ipfs://m'' = Some ''https://ipfs.io/ipfs/i''"
  by (simp add: fetch_image_def resolveIPFSURI_def HasPrefix_def TrimPrefix_def example_web_def unmarshal_struct_def st_struct_def
      dec_MetadataResponse_def zero_MetadataResponse_def st_str_def ToLower_def lower_char_def)

lemma fetched_image_kept_witness:
  "image_of (db_tables (run_metadata example_web example_runner [Fetch ''m'' ''ipfs://m'', Replay 0]
     (example_rows [(''m'', metadata_row example_metadata None 0)]))) ''m'' = Some (Some ''https://ipfs.io/ipfs/i'')"
  by (rule fetched_image_kept [OF example_replays example_fetch]) (simp_all add: example_rows_def empty_db_def)

lemma early_image_lost_witness:
  "image_of (db_tables (run_metadata example_web example_runner [Fetch ''m'' ''ipfs://m'', Replay 0] (example_rows []))) ''m''
     \<in> {None, Some None} \<and> fst (metadata_consume (\<lambda>_. Inl (ErrMsg ''eof'')) [''x'']) = replicate (length [''x'']) Ack"
  by (rule early_image_lost [OF example_replays]) (simp_all add: example_rows_def empty_db_def)

end
