(* ===== verification/Process.thy ===== *)
theory Process
  imports Commits Metrics Docker Metadata
begin

text \<open>
  The process of cmd/api/main.go around the handlers: the configuration from the environment
  (internal/config), the middleware for cross-origin requests, and the instrumentation of the
  routes (InstrumentHTTP of internal/observability), with the registry as a second state.
\<close>

section \<open>Configuration\<close>

record Config =
  cf_DatabaseURL :: string
  cf_APIAddr :: string
  cf_NATSURL :: string
  cf_OpsDockerEnabled :: bool
  cf_OpsDockerSocketPath :: string
  cf_OpsContainerPrefix :: string
  cf_OpsDataPath :: string

definition isTruthy :: "string \<Rightarrow> bool" where
  "isTruthy value \<longleftrightarrow> ToLower (TrimSpace value) \<in> {''1'', ''true'', ''yes'', ''on''}"

definition default_to :: "string \<Rightarrow> string \<Rightarrow> string" where
  "default_to d v = (if v = [] then d else v)"

definition Load :: "(string \<Rightarrow> string) \<Rightarrow> Config res" where
  "Load getenv =
     (if getenv ''DATABASE_URL'' = [] then Inl (ErrMsg ''DATABASE_URL is required'')
      else Inr \<lparr>
        cf_DatabaseURL = getenv ''DATABASE_URL'',
        cf_APIAddr = default_to '':8080'' (getenv ''API_ADDR''),
        cf_NATSURL = getenv ''NATS_URL'',
        cf_OpsDockerEnabled = isTruthy (getenv ''OPS_DOCKER_ENABLED''),
        cf_OpsDockerSocketPath = default_to ''/var/run/docker.sock'' (getenv ''OPS_DOCKER_SOCKET''),
        cf_OpsContainerPrefix = default_to ''solana-dashboard-'' (getenv ''OPS_CONTAINER_PREFIX''),
        cf_OpsDataPath = default_to ''/ops-data'' (getenv ''OPS_DATA_PATH'') \<rparr>)"

definition ops_monitor :: "Config \<Rightarrow> DockerMonitor" where
  "ops_monitor cfg = NewDockerMonitor \<lparr>
     dm_Enabled = cf_OpsDockerEnabled cfg, dm_SocketPath = cf_OpsDockerSocketPath cfg,
     dm_ContainerPrefix = cf_OpsContainerPrefix cfg, dm_DataPath = cf_OpsDataPath cfg \<rparr>"

text \<open>The defaults of the monitor never apply: the configuration has filled them in.\<close>

lemma ops_monitor_config:
  assumes "Load getenv = Inr cfg"
  shows "fst (ops_monitor cfg) = \<lparr> dm_Enabled = cf_OpsDockerEnabled cfg, dm_SocketPath = cf_OpsDockerSocketPath cfg,
    dm_ContainerPrefix = cf_OpsContainerPrefix cfg, dm_DataPath = cf_OpsDataPath cfg \<rparr> \<and> dm_DataPath (fst (ops_monitor cfg)) \<noteq> []"
  using assms by (auto simp: Load_def default_to_def ops_monitor_def NewDockerMonitor_def split: if_splits)

section \<open>Instrumented routes\<close>

text \<open>
  duration is what the handler takes, in nanoseconds. A handler that panics leaves the request
  counted, without a latency and a status.
\<close>

definition InstrumentHTTP :: "string \<Rightarrow> int \<Rightarrow> 's http \<Rightarrow> (Registry \<times> 's) http" where
  "InstrumentHTTP name duration f = (\<lambda>(reg, s).
     let reg1 = perform (IncCounter (''http_'' @ name @ ''_requests_total'') 1) reg in
     case f s of
       (None, s') \<Rightarrow> (None, reg1, s')
     | (Some resp, s') \<Rightarrow>
         (Some resp,
          perform (IncCounter (''http_'' @ name @ ''_status_'' @ int_to_string (rs_Status resp)) 1)
            (ObserveDuration (''http_'' @ name @ ''_latency_ms'') duration reg1), s'))"

fun route_name :: "Route \<Rightarrow> string" where
  "route_name RouteTokens = ''list_tokens''"
| "route_name RouteSearch = ''search_tokens''"
| "route_name RouteDetail = ''get_token_detail''"
| "route_name RouteEvents = ''list_token_events''"
| "route_name RouteCandles = ''list_token_candles''"
| "route_name RouteActivity = ''list_token_activity''"
| "route_name RouteTrades = ''list_token_trades''"

text \<open>corsMiddleware answers every OPTIONS request itself.\<close>

definition corsMiddleware :: "'s http \<Rightarrow> HttpRequest \<Rightarrow> 's http" where
  "corsMiddleware next r = (if rq_Method r = ''OPTIONS''
     then reply \<lparr> rs_Status = 200, rs_JSONHeaders = False, rs_Body = NoBody \<rparr> else next)"

definition api_request :: "'s Handler \<Rightarrow> int \<Rightarrow> Route \<Rightarrow> HttpRequest \<Rightarrow> (Registry \<times> 's) http" where
  "api_request h duration route r =
     corsMiddleware (InstrumentHTTP (route_name route) duration (serve h route r)) r"

text \<open>An increment of one goroutine alone.\<close>

lemma perform_counter:
  assumes "registry_inv r" "\<And>k n. in_i64 (metric_value r k n)"
  shows "metric_value (perform (IncCounter c d) r) k name = (if k \<and> name = c then add64 (metric_value r k name) d else metric_value r k name)"
proof -
  obtain r' gs where run: "run_schedule [0, 0, 0] (r, [Starting (IncCounter c d)]) = (r', gs)" by fastforce
  have fin: "gs = [Finished (IncCounter c d)]"
    using run by (auto split: if_splits prod.splits option.splits)
  have "wrap64 (metric_value r' k name) = wrap64 (metric_value r k name + op_delta k name (IncCounter c d)) \<and>
      in_i64 (metric_value r' k name)"
    using run_schedule_step [OF run assms(1), of name k] assms(2) by (simp add: fin g_delta_def)
  then show ?thesis
    using assms(2) [of k name] run by (auto simp: perform_def wrap64_in_range add64_def)
qed

lemma ObserveDuration_cells [simp]: "metric_value (ObserveDuration name d r) k n = metric_value r k n"
  "registry_inv (ObserveDuration name d r) = registry_inv r"
  by (simp_all add: ObserveDuration_def ObserveMilliseconds_def metric_value_def cell_of_def registry_inv_def split: option.split)

lemma perform_registry:
  assumes "registry_inv r" "\<And>k n. in_i64 (metric_value r k n)"
  shows "registry_inv (perform (IncCounter c d) r)"
proof -
  have step: "registry_inv r2 \<and> g_inv r2 g2" if "registry_inv r1" "g_inv r1 g1" "advance r1 g1 = (r2, g2)" "g_op g1 = IncCounter c d" for r1 g1 r2 g2
    using advance_step [OF that(1-3), of "[]"] that(4) by simp
  obtain r1 g1 where 1: "advance r (Starting (IncCounter c d)) = (r1, g1)" by (metis prod.collapse)
  obtain r2 g2 where 2: "advance r1 g1 = (r2, g2)" by (metis prod.collapse)
  obtain r3 g3 where 3: "advance r2 g2 = (r3, g3)" by (metis prod.collapse)
  have op: "g_op g1 = IncCounter c d" "g_op g2 = IncCounter c d" using advance_op [OF 1] advance_op [OF 2] by simp_all
  have "registry_inv r1 \<and> g_inv r1 g1" using step [OF assms(1) _ 1] by simp
  then have "registry_inv r2 \<and> g_inv r2 g2" using step [OF _ _ 2 op(1)] by blast
  then have "registry_inv r3" using step [OF _ _ 3 op(2)] by blast
  then show ?thesis using 1 2 3 by (simp add: perform_def del: advance.simps)
qed

text \<open>What a request to an instrumented route counts.\<close>

lemma InstrumentHTTP_counts:
  assumes "registry_inv reg" "\<And>k n. in_i64 (metric_value reg k n)" "InstrumentHTTP name d f (reg, s) = (resp, reg', s')"
  shows "f s = (resp, s')"
    "metric_value reg' True (''http_'' @ name @ ''_requests_total'') = add64 (metric_value reg True (''http_'' @ name @ ''_requests_total'')) 1"
    "metric_value reg' True (''http_'' @ name @ ''_status_'' @ int_to_string n) =
       (if \<exists>x. resp = Some x \<and> int_to_string (rs_Status x) = int_to_string n
        then add64 (metric_value reg True (''http_'' @ name @ ''_status_'' @ int_to_string n)) 1
        else metric_value reg True (''http_'' @ name @ ''_status_'' @ int_to_string n))"
proof -
  let ?reg1 = "perform (IncCounter (''http_'' @ name @ ''_requests_total'') 1) reg"
  note inc1 = perform_counter [OF assms(1,2)]
  have reg1: "registry_inv ?reg1" by (rule perform_registry [OF assms(1,2)])
  have range1: "in_i64 (metric_value ?reg1 k x)" for k x
    using inc1 assms(2) by (simp add: add64_def)
  have inc2: "metric_value (perform (IncCounter c 1) (ObserveDuration l d ?reg1)) k x =
      (if k \<and> x = c then add64 (metric_value ?reg1 k x) 1 else metric_value ?reg1 k x)" for c l k x
    using perform_counter [of "ObserveDuration l d ?reg1"] reg1 range1 by (simp only: ObserveDuration_cells)
  show "f s = (resp, s')"
    "metric_value reg' True (''http_'' @ name @ ''_requests_total'') = add64 (metric_value reg True (''http_'' @ name @ ''_requests_total'')) 1"
    "metric_value reg' True (''http_'' @ name @ ''_status_'' @ int_to_string n) =
       (if \<exists>x. resp = Some x \<and> int_to_string (rs_Status x) = int_to_string n
        then add64 (metric_value reg True (''http_'' @ name @ ''_status_'' @ int_to_string n)) 1
        else metric_value reg True (''http_'' @ name @ ''_status_'' @ int_to_string n))"
    using assms(3) inc1 inc2 by (auto simp: InstrumentHTTP_def Let_def split: prod.splits option.splits)
qed

end
