(* ===== verification/Startup.thy ===== *)
theory Startup
  imports Process
begin

text \<open>
  The life of the process (main of cmd/api/main.go, internal/db/db.go): how it starts,
  which goroutines it runs, and which of their ends takes the whole process down. log.Fatalf
  exits with status 1; what the supervisor outside then does, usually a restart, is run_starts.
\<close>

section \<open>Starting\<close>

text \<open>What pgxpool.New and the ping answer is an argument: None when they succeed.\<close>

definition db_Open :: "(string \<Rightarrow> gerror option) \<Rightarrow> (string \<Rightarrow> gerror option) \<Rightarrow> string \<Rightarrow> gerror option" where
  "db_Open new_pool ping databaseURL = (case new_pool databaseURL of
      Some e \<Rightarrow> Some (ErrWrap ''create pgx pool'' e)
    | None \<Rightarrow> map_option (ErrWrap ''ping database'') (ping databaseURL))"

text \<open>Close. The pool is closed once; a nil DB and one without a pool are left alone.\<close>

datatype Pool = PoolOpen | PoolClosed

record DB =
  db_Pool :: "Pool option"

definition db_Close :: "DB option \<Rightarrow> DB option" where
  "db_Close db = map_option (\<lambda>d. if db_Pool d = None then d else d\<lparr>db_Pool := Some PoolClosed\<rparr>) db"

text \<open>
  store/txexec.go: the executor a statement runs on is the transaction its context carries, else
  the pool of the store. A context is the value under txContextKey, if any; None inside is a nil
  executor. In the other theories the transaction is the state itself, passed along.
\<close>

datatype executor = PoolExecutor | TxExecutor nat

definition contextWithExecutor :: "executor option option \<Rightarrow> executor option \<Rightarrow> executor option option" where
  "contextWithExecutor ctx executor = Some executor"

definition executorFromContext :: "executor option option \<Rightarrow> executor \<Rightarrow> executor" where
  "executorFromContext ctx fallback = (case ctx of Some (Some executor) \<Rightarrow> executor | _ \<Rightarrow> fallback)"

datatype task = ProjectorTask | BroadcasterTask | ConsumerTask | MetadataTask | ServerTask

text \<open>The goroutines of main, the server being main itself; without a NATS address nothing is consumed.\<close>

definition started_tasks :: "Config \<Rightarrow> task list" where
  "started_tasks cfg = [ProjectorTask, BroadcasterTask] @
     (if cf_NATSURL cfg \<noteq> [] then [ConsumerTask, MetadataTask] else []) @ [ServerTask]"

definition main_start ::
    "(string \<Rightarrow> string) \<Rightarrow> (string \<Rightarrow> gerror option) \<Rightarrow> (string \<Rightarrow> gerror option) \<Rightarrow> int + Config \<times> task list" where
  "main_start getenv new_pool ping = (case Load getenv of
      Inl e \<Rightarrow> Inl 1
    | Inr cfg \<Rightarrow> (case db_Open new_pool ping (cf_DatabaseURL cfg) of
        Some e \<Rightarrow> Inl 1
      | None \<Rightarrow> Inr (cfg, started_tasks cfg)))"

definition ErrServerClosed :: gerror where
  "ErrServerClosed = ErrMsg ''http: Server closed''"

text \<open>
  The exit status of the process when a task ends: None when the process goes on (the error of
  the broadcaster and of the metadata fetcher is only logged). main returns, with status 0, when
  the server is closed.
\<close>

fun exit_status :: "task \<Rightarrow> gerror option \<Rightarrow> int option" where
  "exit_status ProjectorTask e = (if e = None then None else Some 1)"
| "exit_status ConsumerTask e = (if e = None then None else Some 1)"
| "exit_status BroadcasterTask e = None"
| "exit_status MetadataTask e = None"
| "exit_status ServerTask e = (case e of
      None \<Rightarrow> Some 0 | Some err \<Rightarrow> (if errors_Is err ErrServerClosed then Some 0 else Some 1))"

text \<open>
  What the projector's goroutine does to the process. Its context is context.Background (), which
  is never cancelled. None: it still runs when the fuel ends.
\<close>

definition projector_task :: "nat \<Rightarrow> Db Runner \<Rightarrow> Db \<Rightarrow> int option \<times> Db" where
  "projector_task fuel r s = (case Run fuel (\<lambda>_. False) r s of
      (None, s') \<Rightarrow> (None, s')
    | (Some e, s') \<Rightarrow> (exit_status ProjectorTask e, s'))"

text \<open>The process started k times, each time until its projector takes it down.\<close>

fun run_starts :: "nat \<Rightarrow> nat \<Rightarrow> Db Runner \<Rightarrow> Db \<Rightarrow> int option list \<times> Db" where
  "run_starts 0 fuel r s = ([], s)"
| "run_starts (Suc k) fuel r s = (case projector_task fuel r s of
      (e, s1) \<Rightarrow> (case run_starts k fuel r s1 of (es, s2) \<Rightarrow> (e # es, s2)))"

section \<open>The projector ends only with an error\<close>

lemma run_loop_endless: "run_loop fuel (\<lambda>_. False) polls r n s = (Some e, s') \<Longrightarrow> e \<noteq> None"
  by (induction fuel arbitrary: polls n s) (auto split: prod.splits sum.splits if_splits)

text \<open>So its goroutine never ends without taking the process down.\<close>

lemma projector_task_fatal:
  assumes "Run fuel (\<lambda>_. False) r s = (Some e, s')"
  shows "projector_task fuel r s = (Some 1, s')"
proof -
  have "e \<noteq> None"
    using assms run_loop_endless [of fuel 0 r] by (auto simp: Run_def split: prod.splits sum.splits)
  then show ?thesis using assms by (auto simp: projector_task_def)
qed

section \<open>A log the projector cannot read\<close>

definition poisoned :: "string \<Rightarrow> Db \<Rightarrow> bool" where
  "poisoned name s \<longleftrightarrow> log_inv s \<and> (\<exists>row rest entry.
     rows_after (offset_of (db_tables s) name) (db_tables s) = row # rest \<and>
     row_entry False row = Inr entry \<and> entry_ops entry = None)"

lemma poisoned_same: "poisoned name s \<Longrightarrow> db_tables s' = db_tables s \<Longrightarrow> db_log_seq s' = db_log_seq s \<Longrightarrow> poisoned name s'"
  by (simp add: poisoned_def log_inv_def)

lemma LoadProjectionCheckpoint_state: "snd (LoadProjectionCheckpoint name s) = tick s"
  using db_read_state [of "\<lambda>t. Inr (map_of (projection_offsets t) name)" s]
  by (auto simp: LoadProjectionCheckpoint_def split: prod.splits sum.splits option.splits)

lemma poisoned_Run:
  assumes "replays pg name r" "poisoned name s"
  shows "\<exists>e s'. Run (Suc fuel) c r s = (Some (Some e), s') \<and> db_tables s' = db_tables s \<and> db_log_seq s' = db_log_seq s"
proof -
  have r: "lr_LoadProjectionCheckpoint (rn_reader r) (rn_name r) = LoadProjectionCheckpoint name"
    using assms(1) by (simp add: replays_def event_log_reader_def)
  obtain res s1 where load: "LoadProjectionCheckpoint name s = (res, s1)" by (cases "LoadProjectionCheckpoint name s")
  then have s1: "s1 = tick s" using LoadProjectionCheckpoint_state [of name s] by simp
  show ?thesis
  proof (cases res)
    case (Inl e)
    then show ?thesis using load s1 by (simp add: Run_def r)
  next
    case (Inr n)
    have n: "n = offset_of (db_tables s1) name" using LoadProjectionCheckpoint_offset(1) load Inr s1 by auto
    have p: "poisoned name s1" using poisoned_same [OF assms(2)] s1 by simp
    then obtain e s' where batch: "ReplayBatch r n s1 = (Inl e, s')" "db_tables s' = db_tables s1"
      using ReplayBatch_undecodable [OF assms(1)] n unfolding poisoned_def by blast
    then show ?thesis using ReplayBatch_seq [OF assms(1) batch(1)] load Inr s1 by (simp add: Run_def r)
  qed
qed

lemma poisoned_starts:
  assumes "replays pg name r"
  shows "poisoned name s \<Longrightarrow> \<exists>s'. run_starts k (Suc fuel) r s = (replicate k (Some 1), s') \<and> db_tables s' = db_tables s"
proof (induction k arbitrary: s)
  case (Suc k)
  obtain e s1 where run: "Run (Suc fuel) (\<lambda>_. False) r s = (Some (Some e), s1)" "db_tables s1 = db_tables s" "db_log_seq s1 = db_log_seq s"
    using poisoned_Run [OF assms Suc.prems] by blast
  obtain s2 where "run_starts k (Suc fuel) r s1 = (replicate k (Some 1), s2)" "db_tables s2 = db_tables s1"
    using Suc.IH poisoned_same [OF Suc.prems run(2,3)] by blast
  then show ?case using projector_task_fatal [OF run(1)] run(2) by simp
qed simp

section \<open>Properties\<close>

text \<open>
  C27: one message can take the process down for good: an event whose protocol and type are
  unspecified is accepted, stored and acknowledged by the consumer, which only looks at the kind
  of the payload; the projector cannot decode it, its error ends the process, and every later
  start, however many, ends in the same way without having changed a table.
\<close>

theorem unspecified_event_ends_process:
  "\<exists>hub s. consume (\<lambda>_. Inr unspecified_event) (InsertServiceEvent pg_plain) [''x''] NewHub (empty_db (\<lambda>_. None)) = Inr ([Ack], hub, s) \<and>
     (\<forall>k. \<exists>s'. run_starts k 1 example_runner s = (replicate k (Some 1), s') \<and> db_tables s' = db_tables s)"
proof -
  obtain hub s where s: "consume (\<lambda>_. Inr unspecified_event) (InsertServiceEvent pg_plain) [''x''] NewHub (empty_db (\<lambda>_. None)) =
      Inr ([Ack], hub, s)" "log_inv s" "rows_after 0 (db_tables s) = [unspecified_row]" "projection_offsets (db_tables s) = []"
    using unspecified_event_stored by blast
  then have "poisoned ''core'' s"
    using unspecified_row_entry unspecified_entry_ops by (auto simp: poisoned_def offset_of_def)
  then show ?thesis using poisoned_starts [OF example_replays, of s _ 0] s(1) by auto
qed

end
