(* ===== verification/Legacy.thy ===== *)
theory Legacy
  imports TradeStats
begin

text \<open>
  The stores of the schema before migration 0009: internal/store/trade.go, market.go,
  tracked_token.go and trade_tick.go, over the tables of migrations 0002, 0003, 0004 and 0008.
  Nothing in the program constructs them any more, and migration 0009 drops the tables; this is
  what they do on a database of before. Their state is those tables beside the database, which
  holds the service events they join with, the clock and the faults. Limits are at least zero
  (make panics on a negative capacity).
\<close>

section \<open>Tables\<close>

record LegacyTradeRow =
  lt_event_id :: string
  lt_mint :: string
  lt_market_id :: string
  lt_market_type :: string
  lt_protocol :: string
  lt_side :: string
  lt_ix_name :: string
  lt_user_address :: string
  lt_bonding_curve :: "string option"
  lt_pool :: "string option"
  lt_quote_mint :: string
  lt_token_amount :: string
  lt_quote_amount :: string
  lt_tx_signature :: string
  lt_slot :: int
  lt_event_time :: int
  lt_raw_event_source :: string
  lt_created_at :: int

record LegacyMarketRow =
  lm_market_id :: string
  lm_mint :: string
  lm_protocol :: string
  lm_market_type :: string
  lm_bonding_curve :: "string option"
  lm_pool :: "string option"
  lm_base_mint :: "string option"
  lm_quote_mint :: "string option"
  lm_lp_mint :: "string option"
  lm_started_at :: int
  lm_ended_at :: "int option"
  lm_create_event_id :: string
  lm_updated_at :: int

record TrackedTokenRow =
  kt_mint :: string
  kt_creator :: "string option"
  kt_bonding_curve :: "string option"
  kt_token_program :: "string option"
  kt_create_event_id :: string
  kt_accepted_at :: int
  kt_current_stage :: string
  kt_current_market_type :: string
  kt_current_market_id :: "string option"
  kt_migrated_at :: "int option"

record TradeTickRow =
  ti_event_time :: int
  ti_event_id :: string
  ti_mint :: string
  ti_market_id :: string
  ti_market_type :: string
  ti_protocol :: string
  ti_side :: string
  ti_user_address :: string
  ti_quote_mint :: string
  ti_price :: string
  ti_token_amount :: string
  ti_quote_amount :: string
  ti_tx_signature :: string
  ti_slot :: int

record LegacyTables =
  lg_trades :: "LegacyTradeRow list"
  lg_markets :: "LegacyMarketRow list"
  lg_tokens :: "TrackedTokenRow list"
  lg_ticks :: "TradeTickRow list"

type_synonym LegacyDb = "LegacyTables \<times> Db"

text \<open>A statement on these tables; s is the database it runs on.\<close>

definition legacy_exec :: "(Db \<Rightarrow> LegacyTables \<Rightarrow> LegacyTables res) \<Rightarrow> LegacyDb action" where
  "legacy_exec f = (\<lambda>(t, s). case db_faults s (db_clock s) of
      Some (FaultBefore m) \<Rightarrow> (Some (ErrDB m), (t, tick s))
    | fault \<Rightarrow> (case f (tick s) t of
        Inl e \<Rightarrow> (Some e, (t, tick s))
      | Inr t' \<Rightarrow> ((case fault of Some (FaultAfter m) \<Rightarrow> Some (ErrDB m) | _ \<Rightarrow> None), (t', tick s))))"

definition legacy_read :: "(LegacyTables \<Rightarrow> Tables \<Rightarrow> 'a res) \<Rightarrow> LegacyDb \<Rightarrow> 'a res \<times> LegacyDb" where
  "legacy_read f = (\<lambda>(t, s). case db_read (f t) s of (r, s') \<Rightarrow> (r, (t, s')))"

definition unique_violation :: gerror where
  "unique_violation = ErrDB ''duplicate key value violates unique constraint''"

section \<open>Trades\<close>

record TradeRecord =
  ltr_EventID :: string
  ltr_Mint :: string
  ltr_MarketID :: string
  ltr_MarketType :: string
  ltr_Protocol :: string
  ltr_Side :: string
  ltr_IxName :: string
  ltr_UserAddress :: string
  ltr_BondingCurve :: "string option"
  ltr_Pool :: "string option"
  ltr_QuoteMint :: string
  ltr_TokenAmount :: string
  ltr_QuoteAmount :: string
  ltr_TxSignature :: string
  ltr_Slot :: int
  ltr_EventUnixTS :: int
  ltr_RawEventSource :: string

definition insertTradeSQL :: "Pg \<Rightarrow> TradeRecord \<Rightarrow> Db \<Rightarrow> LegacyTables \<Rightarrow> LegacyTables res" where
  "insertTradeSQL pg trade s t =
     res_bind (numeric pg (ltr_TokenAmount trade)) (\<lambda>tokenAmount.
     res_bind (numeric pg (ltr_QuoteAmount trade)) (\<lambda>quoteAmount.
     res_bind (to_ts pg (f64_of_int (ltr_EventUnixTS trade))) (\<lambda>eventTime.
       if ltr_EventID trade \<in> lt_event_id ` set (lg_trades t) then Inr t
       else Inr (t\<lparr>lg_trades := lg_trades t @ [\<lparr>
         lt_event_id = ltr_EventID trade, lt_mint = ltr_Mint trade, lt_market_id = ltr_MarketID trade,
         lt_market_type = ltr_MarketType trade, lt_protocol = ltr_Protocol trade, lt_side = ltr_Side trade,
         lt_ix_name = ltr_IxName trade, lt_user_address = ltr_UserAddress trade, lt_bonding_curve = ltr_BondingCurve trade,
         lt_pool = ltr_Pool trade, lt_quote_mint = ltr_QuoteMint trade, lt_token_amount = tokenAmount,
         lt_quote_amount = quoteAmount, lt_tx_signature = ltr_TxSignature trade, lt_slot = wrap64 (ltr_Slot trade),
         lt_event_time = eventTime, lt_raw_event_source = ltr_RawEventSource trade, lt_created_at = db_now s \<rparr>]\<rparr>))))"

definition InsertTrade :: "Pg \<Rightarrow> TradeRecord \<Rightarrow> LegacyDb action" where
  "InsertTrade pg trade = wrap_err ''insert trade'' (legacy_exec (insertTradeSQL pg trade))"

text \<open>order by event_time desc, created_at desc: what is left of the order is the server's.\<close>

definition legacy_trades_of :: "string \<Rightarrow> LegacyTables \<Rightarrow> LegacyTradeRow list" where
  "legacy_trades_of mint t = sort_key (\<lambda>r. (- lt_event_time r, - lt_created_at r)) (filter (\<lambda>r. lt_mint r = mint) (lg_trades t))"

definition listTradesByMintSQL :: "string \<Rightarrow> int \<Rightarrow> LegacyTables \<Rightarrow> LegacyTradeRow list res" where
  "listTradesByMintSQL mint limit t = sql_limit limit (legacy_trades_of mint t)"

definition scan_trade :: "LegacyTradeRow \<Rightarrow> TradeRecord" where
  "scan_trade r = \<lparr>
     ltr_EventID = lt_event_id r, ltr_Mint = lt_mint r, ltr_MarketID = lt_market_id r, ltr_MarketType = lt_market_type r,
     ltr_Protocol = lt_protocol r, ltr_Side = lt_side r, ltr_IxName = lt_ix_name r, ltr_UserAddress = lt_user_address r,
     ltr_BondingCurve = lt_bonding_curve r, ltr_Pool = lt_pool r, ltr_QuoteMint = lt_quote_mint r,
     ltr_TokenAmount = lt_token_amount r, ltr_QuoteAmount = lt_quote_amount r, ltr_TxSignature = lt_tx_signature r,
     ltr_Slot = u64 (lt_slot r), ltr_EventUnixTS = epoch_bigint (lt_event_time r), ltr_RawEventSource = lt_raw_event_source r \<rparr>"

definition ListTradesByMint :: "string \<Rightarrow> int \<Rightarrow> LegacyDb \<Rightarrow> TradeRecord list res \<times> LegacyDb" where
  "ListTradesByMint mint limit s = (case legacy_read (\<lambda>t _. listTradesByMintSQL mint limit t) s of
      (Inl e, s') \<Rightarrow> (Inl (ErrWrap (''list trades by mint='' @ mint) e), s')
    | (Inr rows, s') \<Rightarrow> (Inr (map scan_trade rows), s'))"

section \<open>Markets\<close>

record MarketRecord =
  lmr_MarketID :: string
  lmr_Mint :: string
  lmr_Protocol :: string
  lmr_MarketType :: string
  lmr_BondingCurve :: "string option"
  lmr_Pool :: "string option"
  lmr_BaseMint :: "string option"
  lmr_QuoteMint :: "string option"
  lmr_LPMint :: "string option"
  lmr_StartedAt :: int
  lmr_EndedAt :: "int option"
  lmr_CreateEventID :: string

definition legacy_market_row :: "MarketRecord \<Rightarrow> int \<Rightarrow> int option \<Rightarrow> int \<Rightarrow> LegacyMarketRow" where
  "legacy_market_row m startedAt endedAt now = \<lparr>
     lm_market_id = lmr_MarketID m, lm_mint = lmr_Mint m, lm_protocol = lmr_Protocol m, lm_market_type = lmr_MarketType m,
     lm_bonding_curve = lmr_BondingCurve m, lm_pool = lmr_Pool m, lm_base_mint = lmr_BaseMint m, lm_quote_mint = lmr_QuoteMint m,
     lm_lp_mint = lmr_LPMint m, lm_started_at = startedAt, lm_ended_at = endedAt, lm_create_event_id = lmr_CreateEventID m,
     lm_updated_at = now \<rparr>"

definition legacy_market_conflict :: "LegacyMarketRow \<Rightarrow> LegacyMarketRow \<Rightarrow> LegacyMarketRow" where
  "legacy_market_conflict excluded old = \<lparr>
     lm_market_id = lm_market_id old, lm_mint = lm_mint excluded, lm_protocol = lm_protocol excluded,
     lm_market_type = lm_market_type excluded,
     lm_bonding_curve = coalesce (lm_bonding_curve excluded) (lm_bonding_curve old),
     lm_pool = coalesce (lm_pool excluded) (lm_pool old), lm_base_mint = coalesce (lm_base_mint excluded) (lm_base_mint old),
     lm_quote_mint = coalesce (lm_quote_mint excluded) (lm_quote_mint old), lm_lp_mint = coalesce (lm_lp_mint excluded) (lm_lp_mint old),
     lm_started_at = min (lm_started_at old) (lm_started_at excluded), lm_ended_at = coalesce (lm_ended_at excluded) (lm_ended_at old),
     lm_create_event_id = lm_create_event_id old, lm_updated_at = lm_updated_at excluded \<rparr>"

text \<open>The unique indexes on the bonding curve and the pool, where these are not null.\<close>

definition market_unique :: "LegacyMarketRow \<Rightarrow> LegacyMarketRow list \<Rightarrow> bool" where
  "market_unique m ms \<longleftrightarrow> (\<forall>x\<in>set ms. lm_market_id x \<noteq> lm_market_id m \<longrightarrow>
     (lm_bonding_curve m = None \<or> lm_bonding_curve x \<noteq> lm_bonding_curve m) \<and> (lm_pool m = None \<or> lm_pool x \<noteq> lm_pool m))"

definition market_by_id :: "string \<Rightarrow> LegacyTables \<Rightarrow> LegacyMarketRow option" where
  "market_by_id marketID t = find (\<lambda>m. lm_market_id m = marketID) (lg_markets t)"

definition put_market :: "LegacyMarketRow \<Rightarrow> LegacyMarketRow list \<Rightarrow> LegacyMarketRow list" where
  "put_market m ms = (if lm_market_id m \<in> lm_market_id ` set ms
     then map (\<lambda>x. if lm_market_id x = lm_market_id m then m else x) ms else ms @ [m])"

definition upsertMarketSQL :: "Pg \<Rightarrow> MarketRecord \<Rightarrow> f64 \<Rightarrow> f64 option \<Rightarrow> Db \<Rightarrow> LegacyTables \<Rightarrow> LegacyTables res" where
  "upsertMarketSQL pg market startedAt endedAt s t =
     res_bind (to_ts pg startedAt) (\<lambda>started. res_bind (to_ts_opt pg endedAt) (\<lambda>ended.
       let new = legacy_market_row market started ended (db_now s);
           m = (case market_by_id (lmr_MarketID market) t of None \<Rightarrow> new | Some old \<Rightarrow> legacy_market_conflict new old) in
       if market_unique m (lg_markets t) then Inr (t\<lparr>lg_markets := put_market m (lg_markets t)\<rparr>) else Inl unique_violation))"

definition UpsertMarket :: "Pg \<Rightarrow> MarketRecord \<Rightarrow> LegacyDb action" where
  "UpsertMarket pg market = wrap_err ''upsert market''
     (legacy_exec (upsertMarketSQL pg market (f64_of_int (lmr_StartedAt market)) (map_option f64_of_int (lmr_EndedAt market))))"

definition closeMarketSQL :: "Pg \<Rightarrow> string \<Rightarrow> f64 \<Rightarrow> Db \<Rightarrow> LegacyTables \<Rightarrow> LegacyTables res" where
  "closeMarketSQL pg marketID endedAt s t = res_bind (to_ts pg endedAt) (\<lambda>ended.
     Inr (t\<lparr>lg_markets := map (\<lambda>m. if lm_market_id m = marketID
       then m\<lparr>lm_ended_at := Some ended, lm_updated_at := db_now s\<rparr> else m) (lg_markets t)\<rparr>))"

definition CloseMarket :: "Pg \<Rightarrow> string \<Rightarrow> int \<Rightarrow> LegacyDb action" where
  "CloseMarket pg marketID endedAt = wrap_err ''close market'' (legacy_exec (closeMarketSQL pg marketID (f64_of_int endedAt)))"

definition listMarketsByMintSQL :: "string \<Rightarrow> int \<Rightarrow> LegacyTables \<Rightarrow> LegacyMarketRow list res" where
  "listMarketsByMintSQL mint limit t =
     sql_limit limit (sort_key (\<lambda>m. - lm_started_at m) (filter (\<lambda>m. lm_mint m = mint) (lg_markets t)))"

definition scan_market :: "LegacyMarketRow \<Rightarrow> MarketRecord" where
  "scan_market m = \<lparr>
     lmr_MarketID = lm_market_id m, lmr_Mint = lm_mint m, lmr_Protocol = lm_protocol m, lmr_MarketType = lm_market_type m,
     lmr_BondingCurve = lm_bonding_curve m, lmr_Pool = lm_pool m, lmr_BaseMint = lm_base_mint m, lmr_QuoteMint = lm_quote_mint m,
     lmr_LPMint = lm_lp_mint m, lmr_StartedAt = epoch_bigint (lm_started_at m),
     lmr_EndedAt = map_option epoch_bigint (lm_ended_at m), lmr_CreateEventID = lm_create_event_id m \<rparr>"

definition ListMarketsByMint :: "string \<Rightarrow> int \<Rightarrow> LegacyDb \<Rightarrow> MarketRecord list res \<times> LegacyDb" where
  "ListMarketsByMint mint limit s = (case legacy_read (\<lambda>t _. listMarketsByMintSQL mint limit t) s of
      (Inl e, s') \<Rightarrow> (Inl (ErrWrap (''list markets by mint='' @ mint) e), s')
    | (Inr rows, s') \<Rightarrow> (Inr (map scan_market rows), s'))"

section \<open>Tracked tokens\<close>

record TrackedTokenRecord =
  ktr_Mint :: string
  ktr_Creator :: "string option"
  ktr_BondingCurve :: "string option"
  ktr_TokenProgram :: "string option"
  ktr_CreateEventID :: string
  ktr_AcceptedAt :: int
  ktr_CurrentStage :: string
  ktr_CurrentMarketType :: string
  ktr_CurrentMarketID :: "string option"
  ktr_MigratedAt :: "int option"
  ktr_CreateProtocol :: "string option"
  ktr_CreateEventType :: "string option"
  ktr_CreateEventUnixTS :: "int option"
  ktr_CreateName :: "string option"
  ktr_CreateSymbol :: "string option"
  ktr_CreateURI :: "string option"
  ktr_CurrentMarket :: "MarketRecord option"
  ktr_LatestTrade :: "TradeRecord option"

text \<open>A row of trackedTokensSelectSQL: the token and what the three left joins find for it.\<close>

type_synonym TrackedRow = "TrackedTokenRow \<times> ServiceEventRow option \<times> LegacyMarketRow option \<times> LegacyTradeRow option"

definition trackedTokensSelectSQL :: "LegacyTables \<Rightarrow> Tables \<Rightarrow> TrackedRow list" where
  "trackedTokensSelectSQL t db = map (\<lambda>k.
     (k, find (\<lambda>e. se_event_id e = kt_create_event_id k) (service_events db),
      Option.bind (kt_current_market_id k) (\<lambda>marketID. market_by_id marketID t),
      (case legacy_trades_of (kt_mint k) t of [] \<Rightarrow> None | r # _ \<Rightarrow> Some r))) (lg_tokens t)"

definition listTrackedTokensSQL :: "int \<Rightarrow> LegacyTables \<Rightarrow> Tables \<Rightarrow> TrackedRow list res" where
  "listTrackedTokensSQL limit t db = sql_limit limit (sort_key (\<lambda>r. - kt_accepted_at (fst r)) (trackedTokensSelectSQL t db))"

definition findTrackedTokenByMintSQL :: "string \<Rightarrow> LegacyTables \<Rightarrow> Tables \<Rightarrow> TrackedRow list res" where
  "findTrackedTokenByMintSQL mint t db = sql_limit 1 (filter (\<lambda>r. kt_mint (fst r) = mint) (trackedTokensSelectSQL t db))"

text \<open>
  The market and the trade of a record carry the token's mint, whatever theirs is. Columns of a
  joined row that are not null in their tables are read through stringValue and int64Value.
\<close>

definition scan_tracked :: "TrackedRow \<Rightarrow> TrackedTokenRecord" where
  "scan_tracked = (\<lambda>(k, event, market, trade). \<lparr>
     ktr_Mint = kt_mint k, ktr_Creator = kt_creator k, ktr_BondingCurve = kt_bonding_curve k,
     ktr_TokenProgram = kt_token_program k, ktr_CreateEventID = kt_create_event_id k,
     ktr_AcceptedAt = epoch_bigint (kt_accepted_at k), ktr_CurrentStage = kt_current_stage k,
     ktr_CurrentMarketType = kt_current_market_type k, ktr_CurrentMarketID = kt_current_market_id k,
     ktr_MigratedAt = map_option epoch_bigint (kt_migrated_at k),
     ktr_CreateProtocol = map_option se_protocol event, ktr_CreateEventType = map_option se_event_type event,
     ktr_CreateEventUnixTS = map_option se_event_unix_ts event,
     ktr_CreateName = Option.bind event (\<lambda>e. jsonb_text (se_payload e) ''name''),
     ktr_CreateSymbol = Option.bind event (\<lambda>e. jsonb_text (se_payload e) ''symbol''),
     ktr_CreateURI = Option.bind event (\<lambda>e. jsonb_text (se_payload e) ''uri''),
     ktr_CurrentMarket = map_option (\<lambda>m. (scan_market m)\<lparr>lmr_Mint := kt_mint k\<rparr>) market,
     ktr_LatestTrade = map_option (\<lambda>r. (scan_trade r)\<lparr>ltr_Mint := kt_mint k\<rparr>) trade \<rparr>)"

definition scanTrackedTokenRows :: "TrackedRow list \<Rightarrow> TrackedTokenRecord list" where
  "scanTrackedTokenRows rows = map scan_tracked rows"

definition ListTrackedTokens :: "int \<Rightarrow> LegacyDb \<Rightarrow> TrackedTokenRecord list res \<times> LegacyDb" where
  "ListTrackedTokens limit s = (case legacy_read (listTrackedTokensSQL limit) s of
      (Inl e, s') \<Rightarrow> (Inl (ErrWrap ''list tracked tokens'' e), s')
    | (Inr rows, s') \<Rightarrow> (Inr (scanTrackedTokenRows rows), s'))"

definition FindTrackedTokenByMint :: "string \<Rightarrow> LegacyDb \<Rightarrow> TrackedTokenRecord option res \<times> LegacyDb" where
  "FindTrackedTokenByMint mint s = (case legacy_read (findTrackedTokenByMintSQL mint) s of
      (Inl e, s') \<Rightarrow> (Inl (ErrWrap (''find tracked token by mint='' @ mint) e), s')
    | (Inr rows, s') \<Rightarrow> (Inr (case scanTrackedTokenRows rows of [] \<Rightarrow> None | item # _ \<Rightarrow> Some item), s'))"

end
