(* ===== verification/TradeTicks.thy ===== *)
theory TradeTicks
  imports Legacy
begin

text \<open>
  The last of the stores of the old schema, internal/store/trade_tick.go: prices of trades, from
  which candles and a summary are computed by PostgreSQL. Parameters are its numeric arithmetic
  (PgNum), time_bucket of TimescaleDB (None for an interval it refuses), and the order of texts
  under the collation of the database (text_less, strict), in which ticks of the same time are
  told apart.
\<close>

section \<open>Writing\<close>

record TradeTickRecord =
  tki_EventID :: string
  tki_Mint :: string
  tki_MarketID :: string
  tki_MarketType :: string
  tki_Protocol :: string
  tki_Side :: string
  tki_UserAddress :: string
  tki_QuoteMint :: string
  tki_Price :: string
  tki_TokenAmount :: string
  tki_QuoteAmount :: string
  tki_TxSignature :: string
  tki_Slot :: int
  tki_EventUnixTS :: int

definition insertTradeTickSQL :: "Pg \<Rightarrow> TradeTickRecord \<Rightarrow> LegacyTables \<Rightarrow> LegacyTables res" where
  "insertTradeTickSQL pg k t =
     res_bind (to_ts pg (f64_of_int (tki_EventUnixTS k))) (\<lambda>eventTime.
     res_bind (numeric pg (tki_Price k)) (\<lambda>price.
     res_bind (numeric pg (tki_TokenAmount k)) (\<lambda>tokenAmount.
     res_bind (numeric pg (tki_QuoteAmount k)) (\<lambda>quoteAmount.
       if (eventTime, tki_EventID k) \<in> (\<lambda>r. (ti_event_time r, ti_event_id r)) ` set (lg_ticks t) then Inr t
       else Inr (t\<lparr>lg_ticks := lg_ticks t @ [\<lparr>
         ti_event_time = eventTime, ti_event_id = tki_EventID k, ti_mint = tki_Mint k, ti_market_id = tki_MarketID k,
         ti_market_type = tki_MarketType k, ti_protocol = tki_Protocol k, ti_side = tki_Side k,
         ti_user_address = tki_UserAddress k, ti_quote_mint = tki_QuoteMint k, ti_price = price,
         ti_token_amount = tokenAmount, ti_quote_amount = quoteAmount, ti_tx_signature = tki_TxSignature k,
         ti_slot = wrap64 (tki_Slot k) \<rparr>]\<rparr>)))))"

definition InsertTradeTick :: "Pg \<Rightarrow> TradeTickRecord \<Rightarrow> LegacyDb action" where
  "InsertTradeTick pg k = wrap_err ''insert trade tick'' (legacy_exec (\<lambda>_. insertTradeTickSQL pg k))"

section \<open>Order and extremes\<close>

text \<open>The first of a list in a strict order.\<close>

fun first_in :: "('a \<Rightarrow> 'a \<Rightarrow> bool) \<Rightarrow> 'a list \<Rightarrow> 'a option" where
  "first_in lt [] = None"
| "first_in lt (x # xs) = (case first_in lt xs of
      None \<Rightarrow> Some x | Some y \<Rightarrow> Some (if lt y x then y else x))"

lemma first_in_None [simp]: "first_in lt xs = None \<longleftrightarrow> xs = []"
  by (cases xs) (simp_all split: option.split)

lemma first_in_mem: "first_in lt xs = Some x \<Longrightarrow> x \<in> set xs"
  by (induction xs arbitrary: x) (auto split: option.splits if_splits)

definition tick_earlier :: "(string \<Rightarrow> string \<Rightarrow> bool) \<Rightarrow> TradeTickRow \<Rightarrow> TradeTickRow \<Rightarrow> bool" where
  "tick_earlier text_less a b \<longleftrightarrow> ti_event_time a < ti_event_time b \<or>
     (ti_event_time a = ti_event_time b \<and> text_less (ti_event_id a) (ti_event_id b))"

definition first_tick :: "(string \<Rightarrow> string \<Rightarrow> bool) \<Rightarrow> TradeTickRow list \<Rightarrow> TradeTickRow option" where
  "first_tick text_less = first_in (tick_earlier text_less)"

definition last_tick :: "(string \<Rightarrow> string \<Rightarrow> bool) \<Rightarrow> TradeTickRow list \<Rightarrow> TradeTickRow option" where
  "last_tick text_less = first_in (\<lambda>a b. tick_earlier text_less b a)"

text \<open>Numerics compare by value.\<close>

definition numeric_less :: "string \<Rightarrow> string \<Rightarrow> bool" where
  "numeric_less a b = (case (decimal_value a, decimal_value b) of (Some x, Some y) \<Rightarrow> x < y | _ \<Rightarrow> False)"

definition sum_quote :: "PgNum \<Rightarrow> TradeTickRow list \<Rightarrow> f64 res" where
  "sum_quote pn rows = double pn (if rows = [] then ''0'' else pn_sum pn (map ti_quote_amount rows))"

definition ticks_of :: "string \<Rightarrow> LegacyTables \<Rightarrow> TradeTickRow list" where
  "ticks_of mint t = filter (\<lambda>r. ti_mint r = mint) (lg_ticks t)"

section \<open>Candles\<close>

record CandleRecord =
  lcd_TimeUnix :: int
  lcd_Open :: f64
  lcd_High :: f64
  lcd_Low :: f64
  lcd_Close :: f64
  lcd_Volume :: f64

text \<open>The aggregates of the rows of a bucket, of which there is at least one.\<close>

definition candle_of :: "PgNum \<Rightarrow> (string \<Rightarrow> string \<Rightarrow> bool) \<Rightarrow> int \<Rightarrow> TradeTickRow list \<Rightarrow> CandleRecord res" where
  "candle_of pn text_less bucket rows =
     (let price = (\<lambda>r. res_bind (or_range (map_option ti_price r)) (double pn)) in
      res_bind (price (first_tick text_less rows)) (\<lambda>opened.
      res_bind (price (first_in (\<lambda>a b. numeric_less (ti_price b) (ti_price a)) rows)) (\<lambda>high.
      res_bind (price (first_in (\<lambda>a b. numeric_less (ti_price a) (ti_price b)) rows)) (\<lambda>low.
      res_bind (price (last_tick text_less rows)) (\<lambda>closed.
      res_bind (sum_quote pn rows) (\<lambda>volume.
      Inr \<lparr> lcd_TimeUnix = epoch_bigint bucket, lcd_Open = opened, lcd_High = high, lcd_Low = low,
        lcd_Close = closed, lcd_Volume = volume \<rparr>))))))"

text \<open>The latest buckets, oldest first.\<close>

definition listCandlesByMintSQL ::
    "PgNum \<Rightarrow> (string \<Rightarrow> int \<Rightarrow> int option) \<Rightarrow> (string \<Rightarrow> string \<Rightarrow> bool) \<Rightarrow> string \<Rightarrow> string \<Rightarrow> int \<Rightarrow> LegacyTables \<Rightarrow> CandleRecord list res" where
  "listCandlesByMintSQL pn time_bucket text_less mint resolution limit t =
     res_bind (res_map (\<lambda>r. map_sum id (\<lambda>b. (b, r)) (or_range (time_bucket resolution (ti_event_time r)))) (ticks_of mint t)) (\<lambda>rows.
     res_bind (res_map (\<lambda>b. candle_of pn text_less b (map snd (filter (\<lambda>(b', _). b' = b) rows)))
       (rev (sort (remdups (map fst rows))))) (\<lambda>candles.
     map_sum id rev (sql_limit limit candles)))"

definition legacy_ListCandlesByMint ::
    "PgNum \<Rightarrow> (string \<Rightarrow> int \<Rightarrow> int option) \<Rightarrow> (string \<Rightarrow> string \<Rightarrow> bool) \<Rightarrow> string \<Rightarrow> string \<Rightarrow> int \<Rightarrow> LegacyDb \<Rightarrow>
     CandleRecord list res \<times> LegacyDb" where
  "legacy_ListCandlesByMint pn time_bucket text_less mint resolution limit s =
     (case legacy_read (\<lambda>t _. listCandlesByMintSQL pn time_bucket text_less mint resolution limit t) s of
        (Inl e, s') \<Rightarrow> (Inl (ErrWrap (''list candles by mint='' @ mint @ '' resolution='' @ resolution) e), s')
      | (Inr candles, s') \<Rightarrow> (Inr candles, s'))"

section \<open>Summary\<close>

record TradeTickSummary =
  tsu_QuoteMint :: string
  tsu_LatestPrice :: f64
  tsu_LatestEventUnix :: int
  tsu_Price5mAgo :: "f64 option"
  tsu_Price1hAgo :: "f64 option"
  tsu_Price6hAgo :: "f64 option"
  tsu_Price24hAgo :: "f64 option"
  tsu_Txns24h :: int
  tsu_Buys24h :: int
  tsu_Sells24h :: int
  tsu_Volume24h :: f64
  tsu_BuyVolume24h :: f64
  tsu_SellVolume24h :: f64
  tsu_Makers24h :: int
  tsu_Buyers24h :: int
  tsu_Sellers24h :: int

text \<open>The price of the last tick at most some microseconds before the latest one.\<close>

definition tick_price_ago :: "PgNum \<Rightarrow> (string \<Rightarrow> string \<Rightarrow> bool) \<Rightarrow> TradeTickRow list \<Rightarrow> int \<Rightarrow> f64 option res" where
  "tick_price_ago pn text_less rows bound =
     res_opt (\<lambda>r. double pn (ti_price r)) (last_tick text_less (filter (\<lambda>r. ti_event_time r \<le> bound) rows))"

definition makers :: "TradeTickRow list \<Rightarrow> int" where
  "makers rows = int (length (remdups (map ti_user_address rows)))"

text \<open>No row when the mint has no ticks: pgx then reports its own ErrNoRows.\<close>

definition loadTradeTickSummaryByMintSQL ::
    "PgNum \<Rightarrow> (string \<Rightarrow> string \<Rightarrow> bool) \<Rightarrow> string \<Rightarrow> LegacyTables \<Rightarrow> TradeTickSummary res" where
  "loadTradeTickSummaryByMintSQL pn text_less mint t =
     (let rows = ticks_of mint t in
      case last_tick text_less rows of
        None \<Rightarrow> Inl ErrNoRows
      | Some l \<Rightarrow>
          let day = filter (\<lambda>r. ti_event_time l - hours 24 < ti_event_time r) rows;
              buys = filter (\<lambda>r. ti_side r = ''buy'') day; sells = filter (\<lambda>r. ti_side r = ''sell'') day in
          res_bind (double pn (ti_price l)) (\<lambda>latest.
          res_bind (tick_price_ago pn text_less rows (ti_event_time l - 300000000)) (\<lambda>p5m.
          res_bind (tick_price_ago pn text_less rows (ti_event_time l - hours 1)) (\<lambda>p1h.
          res_bind (tick_price_ago pn text_less rows (ti_event_time l - hours 6)) (\<lambda>p6h.
          res_bind (tick_price_ago pn text_less rows (ti_event_time l - hours 24)) (\<lambda>p24h.
          res_bind (sum_quote pn day) (\<lambda>volume.
          res_bind (sum_quote pn buys) (\<lambda>buyVolume.
          res_bind (sum_quote pn sells) (\<lambda>sellVolume.
          Inr \<lparr> tsu_QuoteMint = ti_quote_mint l, tsu_LatestPrice = latest, tsu_LatestEventUnix = epoch_bigint (ti_event_time l),
            tsu_Price5mAgo = p5m, tsu_Price1hAgo = p1h, tsu_Price6hAgo = p6h, tsu_Price24hAgo = p24h,
            tsu_Txns24h = int (length day), tsu_Buys24h = int (length buys), tsu_Sells24h = int (length sells),
            tsu_Volume24h = volume, tsu_BuyVolume24h = buyVolume, tsu_SellVolume24h = sellVolume,
            tsu_Makers24h = makers day, tsu_Buyers24h = makers buys, tsu_Sellers24h = makers sells \<rparr>)))))))))"

text \<open>The error is compared with sql.ErrNoRows of database/sql, which is not the value pgx returns.\<close>

definition sql_ErrNoRows :: gerror where
  "sql_ErrNoRows = ErrMsg ''sql: no rows in result set''"

definition LoadSummaryByMint ::
    "PgNum \<Rightarrow> (string \<Rightarrow> string \<Rightarrow> bool) \<Rightarrow> string \<Rightarrow> LegacyDb \<Rightarrow> TradeTickSummary option res \<times> LegacyDb" where
  "LoadSummaryByMint pn text_less mint s =
     (case legacy_read (\<lambda>t _. loadTradeTickSummaryByMintSQL pn text_less mint t) s of
        (Inl e, s') \<Rightarrow> ((if e = sql_ErrNoRows then Inr None else Inl (ErrWrap (''load trade tick summary by mint='' @ mint) e)), s')
      | (Inr summary, s') \<Rightarrow> (Inr (Some summary), s'))"

section \<open>What the old stores do\<close>

lemma legacy_exec_fault_free:
  "fault_free s \<Longrightarrow> legacy_exec f (t, s) = (case f (tick s) t of Inl e \<Rightarrow> (Some e, (t, tick s)) | Inr t' \<Rightarrow> (None, (t', tick s)))"
  by (simp add: legacy_exec_def fault_free_def split: sum.split)

lemma legacy_read_fault_free: "fault_free s \<Longrightarrow> legacy_read f (t, s) = (f t (db_tables s), (t, tick s))"
  by (simp add: legacy_read_def db_read_fault_free)

text \<open>A trade is stored once, however often it is inserted.\<close>

lemma InsertTrade_once:
  assumes "fault_free s" "InsertTrade pg trade (t, s) = (None, (t', s'))"
  shows "InsertTrade pg trade (t', s') = (None, (t', tick s'))"
  using assms
  by (auto simp: InsertTrade_def wrap_err_def legacy_exec_fault_free insertTradeSQL_def res_bind_Inr
      split: sum.splits if_splits)

lemma InsertTrade_distinct:
  assumes "InsertTrade pg trade (t, s) = (e, (t', s'))" "distinct (map lt_event_id (lg_trades t))"
  shows "distinct (map lt_event_id (lg_trades t'))"
  using assms
  by (auto simp: InsertTrade_def wrap_err_def legacy_exec_def insertTradeSQL_def res_bind_def
      split: prod.splits sum.splits option.splits db_fault.splits if_splits)

text \<open>No two markets share an id, a bonding curve or a pool, whatever is upserted or closed.\<close>

definition markets_inv :: "LegacyTables \<Rightarrow> bool" where
  "markets_inv t \<longleftrightarrow> distinct (map lm_market_id (lg_markets t)) \<and> (\<forall>m\<in>set (lg_markets t). market_unique m (lg_markets t))"

lemma map_put_market: "map lm_market_id (put_market m ms) =
    (if lm_market_id m \<in> lm_market_id ` set ms then map lm_market_id ms else map lm_market_id ms @ [lm_market_id m])"
  by (auto simp: put_market_def)

lemma set_put_market: "x \<in> set (put_market m ms) \<Longrightarrow> x = m \<or> x \<in> set ms \<and> lm_market_id x \<noteq> lm_market_id m"
  by (auto simp: put_market_def image_iff split: if_splits)

lemma put_market_inv:
  assumes "markets_inv t" "market_unique m (lg_markets t)"
  shows "markets_inv (t\<lparr>lg_markets := put_market m (lg_markets t)\<rparr>)"
  unfolding markets_inv_def
proof (intro conjI ballI)
  show "distinct (map lm_market_id (lg_markets (t\<lparr>lg_markets := put_market m (lg_markets t)\<rparr>)))"
    using assms(1) by (simp add: markets_inv_def map_put_market)
next
  fix x assume "x \<in> set (lg_markets (t\<lparr>lg_markets := put_market m (lg_markets t)\<rparr>))"
  then have x: "x = m \<or> x \<in> set (lg_markets t) \<and> lm_market_id x \<noteq> lm_market_id m" using set_put_market by simp
  have "(lm_bonding_curve x = None \<or> lm_bonding_curve y \<noteq> lm_bonding_curve x) \<and> (lm_pool x = None \<or> lm_pool y \<noteq> lm_pool x)"
    if "y \<in> set (put_market m (lg_markets t))" "lm_market_id y \<noteq> lm_market_id x" for y
  proof -
    have "y = m \<or> y \<in> set (lg_markets t)" using set_put_market that(1) by blast
    then show ?thesis using x that(2) assms by (auto simp: markets_inv_def market_unique_def)
  qed
  then show "market_unique x (lg_markets (t\<lparr>lg_markets := put_market m (lg_markets t)\<rparr>))" by (simp add: market_unique_def)
qed

lemma UpsertMarket_inv:
  assumes "UpsertMarket pg market (t, s) = (e, (t', s'))" "markets_inv t"
  shows "markets_inv t'"
proof -
  have "upsertMarketSQL pg market x y u t = Inr t1 \<Longrightarrow> markets_inv t1" for x y u t1
    using put_market_inv [OF assms(2)] by (auto simp: upsertMarketSQL_def res_bind_Inr Let_def split: if_splits)
  then show ?thesis
    using assms
    by (auto simp: UpsertMarket_def wrap_err_def legacy_exec_def split: prod.splits sum.splits option.splits db_fault.splits)
qed

lemma CloseMarket_inv:
  assumes "CloseMarket pg marketID endedAt (t, s) = (e, (t', s'))" "markets_inv t"
  shows "markets_inv t'"
proof -
  have "markets_inv t1" if closed: "closeMarketSQL pg marketID x u t = Inr t1" for x u t1
  proof -
    obtain ended where "t1 = t\<lparr>lg_markets := map (\<lambda>m. if lm_market_id m = marketID
       then m\<lparr>lm_ended_at := Some ended, lm_updated_at := db_now u\<rparr> else m) (lg_markets t)\<rparr>"
      using closed by (auto simp: closeMarketSQL_def res_bind_Inr)
    moreover have "map lm_market_id (map (\<lambda>m. if lm_market_id m = marketID
       then m\<lparr>lm_ended_at := Some ended, lm_updated_at := db_now u\<rparr> else m) ms) = map lm_market_id ms" for ms :: "LegacyMarketRow list"
      by (induction ms) simp_all
    ultimately show ?thesis using assms(2) by (auto simp del: map_map simp: markets_inv_def market_unique_def)
  qed
  then show ?thesis
    using assms
    by (auto simp: CloseMarket_def wrap_err_def legacy_exec_def split: prod.splits sum.splits option.splits db_fault.splits)
qed

text \<open>A market that is not there can be closed, without an error and without effect.\<close>

lemma CloseMarket_unknown:
  assumes "fault_free s" "marketID \<notin> lm_market_id ` set (lg_markets t)" "CloseMarket pg marketID endedAt (t, s) = (None, (t', s'))"
  shows "t' = t"
proof -
  have "map (\<lambda>m. if lm_market_id m = marketID then f m else m) (lg_markets t) = lg_markets t" for f
    using assms(2) by (intro map_idI) auto
  then show ?thesis
    using assms(1,3) by (auto simp: CloseMarket_def wrap_err_def legacy_exec_fault_free closeMarketSQL_def res_bind_Inr split: sum.splits)
qed

text \<open>A mint without ticks is an error of LoadSummaryByMint, which means to return no summary for it.\<close>

lemma LoadSummaryByMint_no_ticks:
  assumes "fault_free s" "ticks_of mint t = []"
  shows "fst (LoadSummaryByMint pn text_less mint (t, s)) = Inl (ErrWrap (''load trade tick summary by mint='' @ mint) ErrNoRows)"
  using assms by (simp add: LoadSummaryByMint_def legacy_read_fault_free loadTradeTickSummaryByMintSQL_def last_tick_def sql_ErrNoRows_def)

text \<open>Candles come oldest first, and at most limit of them.\<close>

lemma legacy_candles_bounded:
  assumes "listCandlesByMintSQL pn time_bucket text_less mint resolution limit t = Inr candles"
  shows "int (length candles) \<le> limit"
  using assms by (auto simp: listCandlesByMintSQL_def res_bind_Inr sql_limit_def split: if_splits)

end
