(* ===== verification/Spec2Isabelle.thy ===== *)
theory Spec2Isabelle
  imports Startup TradeTicks
begin

text \<open>
  The Go backend of the dashboard (src/backend), as HOL functions and step relations.

  The program. A parser (not modelled) writes token events to a NATS stream. The backend reads the
  stream (internal/jetstream), or takes events over HTTP, hands them to the ingest service
  (internal/ingest), which stores each event once in an append-only log
  (internal/store/service_event.go) and publishes what is new on topics of an in-memory hub
  (internal/realtime). The projector (internal/projector) replays the log into a read model
  (internal/store/read_model.go), batch by batch, each in a transaction that also moves its
  checkpoint. The broadcaster (internal/broadcaster) listens to the hub, keeps a window of the last
  seconds of trades per token, publishes statistics for the tokens somebody is subscribed to and
  stores them in the read model. The query service (internal/query) and the handlers
  (internal/httpapi) answer requests from the read model and the log; a websocket connection
  subscribes to topics, gets a snapshot first, and can ask for a replay of the log from a log id. A
  second consumer of the stream (internal/metadatafetcher) fetches images for the read model.
  internal/observability and internal/ops serve counters and the state of the containers.

  The theories, in the order they build on each other:

    GoPrelude      64 bit arithmetic, the functions of strings, strconv and errors the code calls,
                   operations that may fail half-way (and_then, wrap_err, for_each);
    Float64        float64 as NaN, infinities and m * 2^e, rounded to nearest even, and
                   strconv.ParseFloat;
    Json           JSON values, decoding into structs as encoding/json does it;
    Payloads       the payload structs of internal/events, their encoding and decoding;
    Events         envelopes, DecodePayload, the conversion from protobuf (from_proto.go);
    Hub            channels, subscriptions and the hub (realtime/hub.go): the sequential operations,
                   and hub_step, the interleaving of their critical sections;
    Database       the tables of the migrations, statements that may fail before or after their
                   effect, transactions;
    Jsonb, EventLog  what jsonb keeps of a value (a law), and the service event store;
    Ingest         HandleEvent and HandleDecodedEvent over any event store;
    ReadModel      tokens, metadata, markets, trades, activity: writes, queries and paging;
    Projector      what every event writes, the direct writer and the write batch;
    Runner         ReplayBatch, ReplayFromStart and Run;
    Consumer       the JetStream consumer;
    StatRecords, BucketRing, Windows, Broadcaster  the statistics: records, the ring of seconds,
                   the windows and their summaries, the loop of the broadcaster;
    Amounts, Query prices, amounts and the token query service over any reader and read model;
    SqlNumeric, TradeStats, Aggregates, Board, StatStore  the statistics, candles, search and board
                   queries of the read model, and the stores behind the interfaces;
    Serving        what is stored of a sweep and served again;
    HttpApi        the handlers of internal/httpapi/handler.go;
    Ws, WsReplay   internal/httpapi/ws.go: the messages, the snapshot and the end of a connection
                   (conn_step), and one subscription with its goroutines (ws_step);
    Gateway        the handlers on the database, a client that follows next_cursor;
    Pipeline       from the log, through the projector and the read model, to that client;
    Commits        inserts into the log that overlap, beside the projector (commit_step);
    Metrics        the registry of internal/observability/metrics.go;
    Docker         internal/ops/docker_monitor.go;
    Metadata       internal/metadatafetcher/consumer.go beside the projector;
    Process        configuration, middleware and instrumented routes of cmd/api/main.go;
    Startup        its start, its goroutines, and which of their ends takes the process down;
                   opening and closing the pool, the executor in a context;
    Legacy, TradeTicks  the stores of the schema before migration 0009 (store/trade.go, market.go,
                   tracked_token.go, trade_tick.go), which nothing constructs any more.

  Correspondence. A struct is a record with the fields of the source behind a prefix, an interface
  is a record of functions over the state of its implementation, a method takes the state and
  returns it changed; an error is a value of gerror, with the wrapping of fmt.Errorf, a pointer an
  option, a panic of a channel or a nil dereference a value of its own. int64 is an int kept in
  range by wrap64, uint64 by u64; float64 is computed, not idealised. A loop over rows or entries is
  recursion on the list. Loops that poll have fuel or a list of what happens: ReplayFromStart ends
  within one more batch than there are events (ReplayFromStart_complete), the pages of the activity
  within one more request than there are rows, and the consumers end with the list of their fetches.
  Names of the source are kept; where two files use one name, a prefix tells them apart
  (batch_UpsertToken, query_ListCandlesByMint, http_GetTokenDetail, stats_trackedMint).

  Interfaces. A client's lemmas are proved in a locale from the laws of what it calls, and the
  stores are interpretations: an event inserter (Ingest), a log reader (Runner), a table of current
  metrics (StatStore), queries that keep to their limits (Gateway).

  What is shown. Of the log and the ingest: an event is stored once, in order, published once, on
  the topic of its token and the global one, and acknowledged only when stored, under any database
  faults; what is stored decodes to what was sent. Of the hub: no interleaving panics or deadlocks,
  a subscriber gets every event in order until it overflows. Of the projector: replay is complete,
  atomic, and independent of batching; what the events write agrees with the swaps they tell; when
  rows become visible in the order of their ids, nothing behind the checkpoint is missing from what
  was replayed (Commits). Of the statistics: a window is a function of the trades of its token, its
  summary that of the last seconds, the sweep publishes and stores what is later served to a new
  subscriber. Of the read side: paging visits every activity once when times are whole seconds,
  also through HTTP with its clamped limits and encoded cursors; composed with the replay, a client
  reads of every event of the log about a token exactly one activity (Pipeline). Every route
  answers within its bound, a resumed subscription misses no event that was visible when it began
  or became so ahead of its replay, a connection leaves no subscription behind of those it opened
  while it lived. Of the rest: no update of a metric is lost, a container snapshot is well-typed
  and adds up, a fetched image is kept. Theorems of the kind error show behaviour that is surely
  not meant: late trades erase newer seconds, one unspecified message ends the process at every
  start, an event that commits behind the checkpoint is never projected, one unknown token blocks
  the statistics of all, a subscriber can be left on a silent connection or be told twice, a
  subscription can outlive its connection, an image fetched early is lost, and others the findings
  list.

  Parameters. PostgreSQL's conversion of a float to a timestamp, its jsonb normal form, numeric
  division and the aggregate views are arguments (the records Pg and PgNum, minute_view,
  candle_views); so are proto.Unmarshal, the NATS client, the web and the daemon and file system
  behind the monitor, and, for the old stores, time_bucket and the collation. Faults of the
  database are an arbitrary function from the number of a statement to what goes wrong with it.
  Hypotheses on them are named (jsonb_law, server_time, fault_free, api_typed) and hold for the
  concrete instances of the witnesses.

  Not modelled, and why. internal/gen: generated. In the modelled parts: log lines, the metrics
  counted along the way (the registry has its own model), the bytes of a JSON response (the encoded
  value is kept), the framing of websocket messages, and cancellation of a request in the middle of
  a database call. The transaction that store/txexec.go carries in a context is the state the model
  passes along. That PostgreSQL refuses a text with a zero byte or bytes that are not UTF-8 is
  modelled where events enter (insertServiceEventSQL), not for the tables written from the log,
  whose texts come out of it. The order of map iteration is an argument where it could matter. The
  parser (Rust) and the frontend (TypeScript) are other programs.
\<close>

end
